(* ===== verification/Py_Prelude.thy ===== *)
theory Py_Prelude
  imports Complex_Main "HOL-Library.Product_Lexorder" "HOL-Library.AList" "HOL-Library.Sublist"
    "HOL-Library.Multiset"
begin

section \<open>Shared vocabulary: Python values, strings, numbers and ordered containers\<close>

text \<open>
  What the components share. A Python \<open>str\<close> is a HOL \<open>string\<close>: the model
  covers the strings whose code points are below 256, and the character tables below are
  Python's tables on that range. A finite Python float is a rational number, so rounding is
  modelled where the source calls \<open>round\<close> and binary rounding of single operations is
  not; where the source tests \<open>math.isfinite\<close> a float is a value of \<open>pyfloat\<close>.
  Time stamps are integers, in any unit. A Python dict is an association list with distinct
  keys, in insertion order, and \<open>AList.update\<close> is its item assignment.
\<close>

named_theorems py_defs \<open>unfolding equations of the components' small operations\<close>

type_synonym py_time = int
type_synonym 'v pydict = "(string \<times> 'v) list"

subsection \<open>Floats and JSON-like values\<close>

datatype pyfloat = Fin rat | PosInf | NegInf | NaN

fun isfinite :: "pyfloat \<Rightarrow> bool" where
  "isfinite (Fin _) = True"
| "isfinite _ = False"

datatype pyval =
    PNone
  | PBool bool
  | PInt int
  | PFloat pyfloat
  | PStr string
  | PBytes "nat list"
  | PList "pyval list"
  | PDict "(string \<times> pyval) list"

subsection \<open>Characters and strings\<close>

definition code_point :: "char \<Rightarrow> nat" where
  "code_point c = of_char c"

definition py_isspace :: "char \<Rightarrow> bool" where
  "py_isspace c = (let n = code_point c in
     (9 \<le> n \<and> n \<le> 13) \<or> (28 \<le> n \<and> n \<le> 32) \<or> n = 133 \<or> n = 160)"

definition py_isdigit :: "char \<Rightarrow> bool" where
  "py_isdigit c = (let n = code_point c in 48 \<le> n \<and> n \<le> 57)"

definition ascii_upper :: "char \<Rightarrow> bool" where
  "ascii_upper c = (let n = code_point c in 65 \<le> n \<and> n \<le> 90)"

definition ascii_lower :: "char \<Rightarrow> bool" where
  "ascii_lower c = (let n = code_point c in 97 \<le> n \<and> n \<le> 122)"

definition ascii_alpha :: "char \<Rightarrow> bool" where
  "ascii_alpha c = (ascii_upper c \<or> ascii_lower c)"

definition py_isalnum :: "char \<Rightarrow> bool" where
  "py_isalnum c = (let n = code_point c in
     py_isdigit c \<or> ascii_alpha c \<or> n \<in> {170, 178, 179, 181, 185, 186, 188, 189, 190} \<or>
     (192 \<le> n \<and> n \<noteq> 215 \<and> n \<noteq> 247))"

definition py_wordchar :: "char \<Rightarrow> bool" where
  "py_wordchar c = (py_isalnum c \<or> c = CHR ''_'')"

definition lower_char :: "char \<Rightarrow> char" where
  "lower_char c = (let n = code_point c in
     if (65 \<le> n \<and> n \<le> 90) \<or> (192 \<le> n \<and> n \<le> 222 \<and> n \<noteq> 215) then char_of (n + 32) else c)"

definition py_lower :: "string \<Rightarrow> string" where
  "py_lower s = map lower_char s"

text \<open>
  \<open>str.casefold\<close>: like \<open>lower\<close>, with the sharp s (code point 223) unfolded. The
  micro sign (181) folds to a letter outside the range; it is kept, which renames the folded
  letter and changes no comparison between folded strings.
\<close>

definition py_casefold :: "string \<Rightarrow> string" where
  "py_casefold s = concat (map (\<lambda>c. if code_point c = 223 then ''ss'' else [lower_char c]) s)"

fun split_ws :: "string \<Rightarrow> string \<Rightarrow> string list" where
  "split_ws cur [] = (if cur = [] then [] else [cur])"
| "split_ws cur (c # cs) =
     (if py_isspace c then (if cur = [] then split_ws [] cs else cur # split_ws [] cs)
      else split_ws (cur @ [c]) cs)"

definition py_split :: "string \<Rightarrow> string list" where
  "py_split s = split_ws [] s"

fun split_char :: "char \<Rightarrow> string \<Rightarrow> string \<Rightarrow> string list" where
  "split_char d cur [] = [cur]"
| "split_char d cur (c # cs) =
     (if c = d then cur # split_char d [] cs else split_char d (cur @ [c]) cs)"

definition py_split_on :: "char \<Rightarrow> string \<Rightarrow> string list" where
  "py_split_on d s = split_char d [] s"

definition is_linebreak :: "char \<Rightarrow> bool" where
  "is_linebreak c = (let n = code_point c in
     (10 \<le> n \<and> n \<le> 13) \<or> (28 \<le> n \<and> n \<le> 30) \<or> n = 133)"

definition is_cr :: "char \<Rightarrow> bool" where
  "is_cr c = (code_point c = 13)"

definition is_lf :: "char \<Rightarrow> bool" where
  "is_lf c = (code_point c = 10)"

fun split_lines :: "string \<Rightarrow> string \<Rightarrow> string list" where
  "split_lines cur [] = (if cur = [] then [] else [cur])"
| "split_lines cur [c] = (if is_linebreak c then [cur] else [cur @ [c]])"
| "split_lines cur (c # d # cs) =
     (if is_cr c \<and> is_lf d then cur # split_lines [] cs
      else if is_linebreak c then cur # split_lines [] (d # cs)
      else split_lines (cur @ [c]) (d # cs))"

definition py_splitlines :: "string \<Rightarrow> string list" where
  "py_splitlines s = split_lines [] s"

definition strip_by :: "(char \<Rightarrow> bool) \<Rightarrow> string \<Rightarrow> string" where
  "strip_by p s = rev (dropWhile p (rev (dropWhile p s)))"

definition py_strip :: "string \<Rightarrow> string" where
  "py_strip s = strip_by py_isspace s"

fun py_join :: "string \<Rightarrow> string list \<Rightarrow> string" where
  "py_join sep [] = []"
| "py_join sep [x] = x"
| "py_join sep (x # y # ys) = x @ sep @ py_join sep (y # ys)"

text \<open>The operator \<open>sub in s\<close> on strings.\<close>

fun py_in :: "string \<Rightarrow> string \<Rightarrow> bool" where
  "py_in sub [] = (sub = [])"
| "py_in sub (c # cs) = (prefix sub (c # cs) \<or> py_in sub cs)"

definition py_endswith :: "string \<Rightarrow> string \<Rightarrow> bool" where
  "py_endswith suf s = suffix suf s"

definition replace_char :: "char \<Rightarrow> char \<Rightarrow> string \<Rightarrow> string" where
  "replace_char a b s = map (\<lambda>c. if c = a then b else c) s"

definition nul_char :: char where
  "nul_char = CHR 0x00"

definition newline :: string where
  "newline = [CHR 0x0A]"

subsection \<open>Integers as text\<close>

fun nat_str :: "nat \<Rightarrow> string" where
  "nat_str n = (if n < 10 then [char_of (48 + n)] else nat_str (n div 10) @ [char_of (48 + n mod 10)])"

declare nat_str.simps [simp del]

definition int_str :: "int \<Rightarrow> string" where
  "int_str i = (if i < 0 then ''-'' @ nat_str (nat (- i)) else nat_str (nat i))"

definition digit_val :: "char \<Rightarrow> nat" where
  "digit_val c = code_point c - 48"

definition digits_val :: "string \<Rightarrow> nat" where
  "digits_val s = foldl (\<lambda>a c. a * 10 + digit_val c) 0 s"

text \<open>
  \<open>int(s)\<close>: surrounding white space, one sign, digits with single underscores between
  them; \<open>None\<close> is the \<open>ValueError\<close>.
\<close>

fun digit_groups :: "string list \<Rightarrow> bool" where
  "digit_groups [] = False"
| "digit_groups gs = list_all (\<lambda>g. g \<noteq> [] \<and> list_all py_isdigit g) gs"

definition parse_unsigned :: "string \<Rightarrow> nat option" where
  "parse_unsigned s = (let gs = py_split_on CHR ''_'' s in
     if digit_groups gs then Some (digits_val (concat gs)) else None)"

definition parse_int :: "string \<Rightarrow> int option" where
  "parse_int s = (case py_strip s of
     [] \<Rightarrow> None
   | c # cs \<Rightarrow>
       if c = CHR ''-'' then map_option (\<lambda>n. - int n) (parse_unsigned cs)
       else if c = CHR ''+'' then map_option int (parse_unsigned cs)
       else map_option int (parse_unsigned (c # cs)))"

subsection \<open>Rounding and clamping\<close>

text \<open>\<open>round(x, d)\<close>: to the nearest multiple of \<open>10 ^ -d\<close>, ties to the even one.\<close>

definition round_even :: "rat \<Rightarrow> int" where
  "round_even x = (let f = \<lfloor>x\<rfloor>; d = x - of_int f in
     if d < 1/2 then f else if 1/2 < d then f + 1 else if even f then f else f + 1)"

definition py_round :: "nat \<Rightarrow> rat \<Rightarrow> rat" where
  "py_round d x = of_int (round_even (x * 10 ^ d)) / 10 ^ d"

definition clamp01 :: "rat \<Rightarrow> rat" where
  "clamp01 x = min 1 (max 0 x)"

subsection \<open>Order-preserving deduplication and ranked lists\<close>

fun uniq_from :: "'a list \<Rightarrow> 'a list \<Rightarrow> 'a list" where
  "uniq_from seen [] = []"
| "uniq_from seen (x # xs) =
     (if x \<in> set seen then uniq_from seen xs else x # uniq_from (x # seen) xs)"

definition uniq_first :: "'a list \<Rightarrow> 'a list" where
  "uniq_first xs = uniq_from [] xs"

text \<open>\<open>sorted(xs, key=f, reverse=True)\<close> keeps the order of equal keys, as here.\<close>

definition sort_desc :: "('a \<Rightarrow> 'k::linorder) \<Rightarrow> 'a list \<Rightarrow> 'a list" where
  "sort_desc f xs = rev (sort_key f (rev xs))"

definition enum_from :: "nat \<Rightarrow> 'a list \<Rightarrow> (nat \<times> 'a) list" where
  "enum_from n xs = zip [n..<n + length xs] xs"

subsection \<open>Facts the components share\<close>

lemma uniq_from_set: "set (uniq_from seen xs) = set xs - set seen"
  by (induction seen xs rule: uniq_from.induct) auto

lemma uniq_from_distinct: "distinct (uniq_from seen xs)"
  by (induction seen xs rule: uniq_from.induct) (auto simp: uniq_from_set)

lemma set_uniq_first [simp]: "set (uniq_first xs) = set xs"
  by (simp add: uniq_first_def uniq_from_set)

lemma distinct_uniq_first [simp]: "distinct (uniq_first xs)"
  by (simp add: uniq_first_def uniq_from_distinct)

lemma uniq_from_subseq: "subseq (uniq_from seen xs) xs"
  by (induction seen xs rule: uniq_from.induct) auto

lemma uniq_first_subseq: "subseq (uniq_first xs) xs"
  by (simp add: uniq_first_def uniq_from_subseq)

lemma uniq_from_id: "distinct xs \<Longrightarrow> set seen \<inter> set xs = {} \<Longrightarrow> uniq_from seen xs = xs"
  by (induction seen xs rule: uniq_from.induct) auto

lemma uniq_first_id: "distinct xs \<Longrightarrow> uniq_first xs = xs"
  by (simp add: uniq_first_def uniq_from_id)

lemma mset_sort_desc [simp]: "mset (sort_desc f xs) = mset xs"
  by (simp add: sort_desc_def)

lemma set_sort_desc [simp]: "set (sort_desc f xs) = set xs"
  by (simp add: sort_desc_def)

lemma length_sort_desc [simp]: "length (sort_desc f xs) = length xs"
  by (simp add: sort_desc_def)

lemma sorted_sort_desc: "sorted (rev (map f (sort_desc f xs)))"
  by (simp add: sort_desc_def rev_map)

lemma map_snd_enum_from [simp]: "map snd (enum_from n xs) = xs"
  by (simp add: enum_from_def)

lemma map_fst_enum_from [simp]: "map fst (enum_from n xs) = [n..<n + length xs]"
  by (simp add: enum_from_def)

lemma length_enum_from [simp]: "length (enum_from n xs) = length xs"
  by (simp add: enum_from_def)

lemma enum_from_Nil [simp]: "enum_from n [] = []"
  by (simp add: enum_from_def)

lemma enum_from_Cons [simp]: "enum_from n (x # xs) = (n, x) # enum_from (Suc n) xs"
  by (simp add: enum_from_def upt_conv_Cons del: upt_Suc)

lemma nth_enum_from: "i < length xs \<Longrightarrow> enum_from n xs ! i = (n + i, xs ! i)"
  by (simp add: enum_from_def)

lemma clamp01_range [simp]: "0 \<le> clamp01 x" "clamp01 x \<le> 1"
  by (simp_all add: clamp01_def)

lemma clamp01_id: "0 \<le> x \<Longrightarrow> x \<le> 1 \<Longrightarrow> clamp01 x = x"
  by (simp add: clamp01_def)

lemma clamp01_mono: "x \<le> y \<Longrightarrow> clamp01 x \<le> clamp01 y"
  by (auto simp: clamp01_def)

lemma round_even_bounds: "\<lfloor>x\<rfloor> \<le> round_even x" "round_even x \<le> \<lfloor>x\<rfloor> + 1"
  by (auto simp: round_even_def Let_def)

lemma round_even_int [simp]: "round_even (of_int i) = i"
  by (simp add: round_even_def)

lemma round_even_mono: assumes "x \<le> y" shows "round_even x \<le> round_even y"
proof (cases "\<lfloor>x\<rfloor> = \<lfloor>y\<rfloor>")
  case True
  with assms show ?thesis by (auto simp: round_even_def Let_def)
next
  case False
  with assms have "\<lfloor>x\<rfloor> + 1 \<le> \<lfloor>y\<rfloor>" by (simp add: floor_mono order.strict_iff_order zless_imp_add1_zle)
  then show ?thesis using round_even_bounds[of x] round_even_bounds[of y] by linarith
qed

lemma py_round_mono: "x \<le> y \<Longrightarrow> py_round d x \<le> py_round d y"
  by (auto simp: py_round_def intro!: divide_right_mono round_even_mono mult_right_mono)

lemma py_round_0 [simp]: "py_round d 0 = 0"
  using round_even_int[of 0] by (simp add: py_round_def)

lemma py_round_1 [simp]: "py_round d 1 = 1"
  using round_even_int[of "10 ^ d"] by (simp add: py_round_def)

lemma py_round_unit: "0 \<le> x \<Longrightarrow> x \<le> 1 \<Longrightarrow> 0 \<le> py_round d x \<and> py_round d x \<le> 1"
  using py_round_mono[of 0 x d] py_round_mono[of x 1 d] by simp

lemma py_round_idem: "py_round d (py_round d x) = py_round d x"
  by (simp add: py_round_def)

lemma py_in_Nil [simp]: "py_in [] s"
  by (cases s) auto

lemma py_in_sublist: "py_in sub s = sublist sub s"
  by (induction sub s rule: py_in.induct) (auto simp: sublist_Cons_right)

lemma split_char_no_sep:
  "d \<notin> set x \<Longrightarrow> split_char d cur (x @ rest) = split_char d (cur @ x) rest"
  by (induction x arbitrary: cur) auto

lemma split_char_join:
  "xs \<noteq> [] \<Longrightarrow> \<forall>x\<in>set xs. d \<notin> set x \<Longrightarrow>
   split_char d cur (py_join [d] xs) = (cur @ hd xs) # tl xs"
proof (induction xs arbitrary: cur rule: induct_list012)
  case 1 then show ?case by simp
next
  case (2 x)
  then show ?case using split_char_no_sep[of d x cur "[]"] by simp
next
  case (3 x y zs)
  then show ?case using split_char_no_sep[of d x cur "d # py_join [d] (y # zs)"] by simp
qed

lemma py_split_on_join:
  "xs \<noteq> [] \<Longrightarrow> \<forall>x\<in>set xs. d \<notin> set x \<Longrightarrow> py_split_on d (py_join [d] xs) = xs"
  by (simp add: py_split_on_def split_char_join)

subsection \<open>Integers as text and back\<close>

lemma char_digit:
  "(n::nat) < 10 \<Longrightarrow> code_point (char_of (48 + n)) = 48 + n"
  by (simp add: code_point_def)

lemma digit_not_special:
  "py_isdigit c \<Longrightarrow> \<not> py_isspace c \<and> c \<noteq> CHR ''_'' \<and> c \<noteq> CHR ''-'' \<and> c \<noteq> CHR ''+'' \<and> c \<noteq> CHR ''.''"
  by (auto simp: py_isdigit_def py_isspace_def code_point_def Let_def)

lemma nat_str_nonempty [simp]: "nat_str n \<noteq> []"
  by (subst nat_str.simps) simp

lemma nat_str_digits: "list_all py_isdigit (nat_str n)"
proof (induction n rule: nat_str.induct)
  case (1 n)
  have d: "(m::nat) < 10 \<Longrightarrow> py_isdigit (char_of (48 + m))" for m
    by (simp add: py_isdigit_def char_digit)
  show ?case using 1 d[of n] d[of "n mod 10"] by (subst nat_str.simps) auto
qed

lemma digits_val_snoc: "digits_val (s @ [c]) = digits_val s * 10 + digit_val c"
  by (simp add: digits_val_def)

lemma digits_val_nat_str [simp]: "digits_val (nat_str n) = n"
proof (induction n rule: nat_str.induct)
  case (1 n)
  have d: "(m::nat) < 10 \<Longrightarrow> digit_val (char_of (48 + m)) = m" for m
    by (simp add: digit_val_def char_digit)
  have e: "digits_val [c] = digit_val c" for c by (simp add: digits_val_def)
  show ?case using 1 d[of n] d[of "n mod 10"]
    by (subst nat_str.simps) (auto simp: digits_val_snoc e)
qed

lemma strip_by_id: "list_all (\<lambda>c. \<not> p c) s \<Longrightarrow> strip_by p s = s"
proof -
  assume a: "list_all (\<lambda>c. \<not> p c) s"
  then have "dropWhile p s = s" by (cases s) auto
  moreover have "dropWhile p (rev s) = rev s" using a by (cases "rev s") (auto simp: list_all_iff)
  ultimately show ?thesis by (simp add: strip_by_def)
qed

lemma split_on_absent: "d \<notin> set s \<Longrightarrow> py_split_on d s = [s]"
  using split_char_no_sep[of d s "[]" "[]"] by (simp add: py_split_on_def)

lemma parse_unsigned_nat_str [simp]: "parse_unsigned (nat_str n) = Some n"
proof -
  have "CHR ''_'' \<notin> set (nat_str n)"
    using nat_str_digits[of n] digit_not_special by (auto simp: list_all_iff)
  then show ?thesis using nat_str_digits[of n] by (simp add: parse_unsigned_def split_on_absent)
qed

lemma parse_int_str [simp]: "parse_int (int_str i) = Some i"
proof (cases "i < 0")
  case True
  have "py_strip (''-'' @ nat_str (nat (- i))) = ''-'' @ nat_str (nat (- i))"
    unfolding py_strip_def using nat_str_digits[of "nat (- i)"] digit_not_special
    by (intro strip_by_id) (auto simp: list_all_iff py_isspace_def code_point_def)
  then show ?thesis using True by (simp add: parse_int_def int_str_def)
next
  case False
  have s: "py_strip (nat_str (nat i)) = nat_str (nat i)"
    unfolding py_strip_def using nat_str_digits[of "nat i"] digit_not_special
    by (intro strip_by_id) (auto simp: list_all_iff)
  obtain c cs where c: "nat_str (nat i) = c # cs" by (cases "nat_str (nat i)") auto
  then have "c \<noteq> CHR ''-''" "c \<noteq> CHR ''+''"
    using nat_str_digits[of "nat i"] digit_not_special[of c] by auto
  then have "parse_int (nat_str (nat i)) = map_option int (parse_unsigned (nat_str (nat i)))"
    using s by (simp add: parse_int_def c)
  then show ?thesis using False by (simp add: int_str_def)
qed

lemma nat_str_no_dot: "CHR ''.'' \<notin> set (nat_str n)"
proof
  assume "CHR ''.'' \<in> set (nat_str n)"
  then have "py_isdigit CHR ''.''" using nat_str_digits[of n] by (simp add: list_all_iff)
  then show False using digit_not_special[of "CHR ''.''"] by simp
qed

lemma int_str_no_dot [simp]: "CHR ''.'' \<notin> set (int_str i)"
  by (simp add: int_str_def nat_str_no_dot)

subsection \<open>Subsequences and sorted lists\<close>

lemma subseq_memD: "subseq xs ys \<Longrightarrow> x \<in> set xs \<Longrightarrow> x \<in> set ys"
  by (induction rule: list_emb.induct) auto

lemma subseq_distinct: "subseq xs ys \<Longrightarrow> distinct ys \<Longrightarrow> distinct xs"
  by (induction rule: list_emb.induct) (auto dest: subseq_memD)

lemma foldl_max_Max: "foldl max y ys = Max (insert y (set ys))"
proof (induction ys arbitrary: y)
  case (Cons a ys)
  have "foldl max y (a # ys) = Max (insert (max y a) (set ys))" using Cons[of "max y a"] by simp
  also have "\<dots> = Max (insert y (insert a (set ys)))"
    by (cases "ys = []") (simp_all add: max.assoc)
  finally show ?case by simp
qed simp

lemma foldl_min_Min: "foldl min y ys = Min (insert y (set ys))"
proof (induction ys arbitrary: y)
  case (Cons a ys)
  have "foldl min y (a # ys) = Min (insert (min y a) (set ys))" using Cons[of "min y a"] by simp
  also have "\<dots> = Min (insert y (insert a (set ys)))"
    by (cases "ys = []") (simp_all add: min.assoc)
  finally show ?case by simp
qed simp

text \<open>An element with a smaller key stands before.\<close>

lemma sorted_before:
  "sorted (map f (xs @ b # ys)) \<Longrightarrow> a \<in> set (xs @ b # ys) \<Longrightarrow> f a < f b \<Longrightarrow> a \<in> set xs"
  by (auto simp: sorted_append)

subsection \<open>Invariants of step relations\<close>

text \<open>
  A predicate that every step keeps holds in every state reached from a state where it
  holds. The components instantiate the locale with their own step relation.
\<close>

locale preserved =
  fixes step :: "'s \<Rightarrow> 's \<Rightarrow> bool" and inv :: "'s \<Rightarrow> bool"
  assumes keeps: "step s t \<Longrightarrow> inv s \<Longrightarrow> inv t"
begin

lemma reach: "step\<^sup>*\<^sup>* s t \<Longrightarrow> inv s \<Longrightarrow> inv t"
  by (induction rule: rtranclp_induct) (auto intro: keeps)

end

end
