(* ===== verification/Py_Regex.thy ===== *)
theory Py_Regex
  imports Py_Prelude
begin

section \<open>Regular expressions\<close>

text \<open>
  The fragment of Python's \<open>re\<close> that the redaction code uses, as an executable
  matcher: character classes, sequence, alternation, iteration, the word boundary and the
  start of the text. A position in the subject is a pair of the text already read,
  reversed, and the text to come. \<open>rx_ends\<close> lists the positions where a match that
  starts here can end, and \<open>rx_search\<close> is \<open>bool(pattern.search(s))\<close>, for which
  the order of the matches is immaterial. The matcher is proved equal to the relational
  meaning \<open>rx_sem\<close> of the expressions.
\<close>

type_synonym zpos = "string \<times> string"

datatype rx =
    Eps
  | Ch "char \<Rightarrow> bool"
  | Sq rx rx
  | Alt rx rx
  | Star rx
  | WordB
  | Bol

definition at_word_boundary :: "zpos \<Rightarrow> bool" where
  "at_word_boundary z =
     ((case fst z of [] \<Rightarrow> False | c # _ \<Rightarrow> py_wordchar c)
      \<noteq> (case snd z of [] \<Rightarrow> False | c # _ \<Rightarrow> py_wordchar c))"

fun rx_star :: "nat \<Rightarrow> (zpos \<Rightarrow> zpos list) \<Rightarrow> zpos \<Rightarrow> zpos list" where
  "rx_star 0 f z = [z]"
| "rx_star (Suc n) f z =
     z # concat (map (rx_star n f) (filter (\<lambda>y. length (snd y) < length (snd z)) (f z)))"

fun rx_ends :: "rx \<Rightarrow> zpos \<Rightarrow> zpos list" where
  "rx_ends Eps z = [z]"
| "rx_ends (Ch p) z = (case snd z of [] \<Rightarrow> [] | c # cs \<Rightarrow> if p c then [(c # fst z, cs)] else [])"
| "rx_ends (Sq r s) z = concat (map (rx_ends s) (rx_ends r z))"
| "rx_ends (Alt r s) z = rx_ends r z @ rx_ends s z"
| "rx_ends (Star r) z = rx_star (length (snd z)) (rx_ends r) z"
| "rx_ends WordB z = (if at_word_boundary z then [z] else [])"
| "rx_ends Bol z = (if fst z = [] then [z] else [])"

fun rx_search_from :: "rx \<Rightarrow> string \<Rightarrow> string \<Rightarrow> bool" where
  "rx_search_from r l [] = (rx_ends r (l, []) \<noteq> [])"
| "rx_search_from r l (c # cs) = (rx_ends r (l, c # cs) \<noteq> [] \<or> rx_search_from r (c # l) cs)"

definition rx_search :: "rx \<Rightarrow> string \<Rightarrow> bool" where
  "rx_search r s = rx_search_from r [] s"

subsection \<open>Derived forms\<close>

definition rx_in :: "string \<Rightarrow> rx" where
  "rx_in cs = Ch (\<lambda>c. c \<in> set cs)"

definition rx_not_in :: "string \<Rightarrow> rx" where
  "rx_not_in cs = Ch (\<lambda>c. c \<notin> set cs)"

fun rx_lit :: "string \<Rightarrow> rx" where
  "rx_lit [] = Eps"
| "rx_lit (c # cs) = Sq (Ch (\<lambda>d. d = c)) (rx_lit cs)"

text \<open>A literal under \<open>re.IGNORECASE\<close> (the literals of the source are in lower case).\<close>

fun rx_ilit :: "string \<Rightarrow> rx" where
  "rx_ilit [] = Eps"
| "rx_ilit (c # cs) = Sq (Ch (\<lambda>d. lower_char d = c)) (rx_ilit cs)"

fun rx_alts :: "rx list \<Rightarrow> rx" where
  "rx_alts [] = Ch (\<lambda>_. False)"
| "rx_alts [r] = r"
| "rx_alts (r # s # rs) = Alt r (rx_alts (s # rs))"

fun rx_seq :: "rx list \<Rightarrow> rx" where
  "rx_seq [] = Eps"
| "rx_seq (r # rs) = Sq r (rx_seq rs)"

definition rx_plus :: "rx \<Rightarrow> rx" where
  "rx_plus r = Sq r (Star r)"

definition rx_opt :: "rx \<Rightarrow> rx" where
  "rx_opt r = Alt r Eps"

definition rx_times :: "nat \<Rightarrow> rx \<Rightarrow> rx" where
  "rx_times n r = rx_seq (replicate n r)"

definition rx_at_least :: "nat \<Rightarrow> rx \<Rightarrow> rx" where
  "rx_at_least n r = Sq (rx_times n r) (Star r)"

subsection \<open>The meaning of an expression, and the matcher's correctness\<close>

inductive rx_sem :: "rx \<Rightarrow> zpos \<Rightarrow> zpos \<Rightarrow> bool" where
  sem_eps: "rx_sem Eps z z"
| sem_ch: "p c \<Longrightarrow> rx_sem (Ch p) (l, c # r) (c # l, r)"
| sem_sq: "rx_sem r x y \<Longrightarrow> rx_sem s y z \<Longrightarrow> rx_sem (Sq r s) x z"
| sem_alt1: "rx_sem r x y \<Longrightarrow> rx_sem (Alt r s) x y"
| sem_alt2: "rx_sem s x y \<Longrightarrow> rx_sem (Alt r s) x y"
| sem_star0: "rx_sem (Star r) z z"
| sem_star: "rx_sem r x y \<Longrightarrow> rx_sem (Star r) y z \<Longrightarrow> rx_sem (Star r) x z"
| sem_wordb: "at_word_boundary z \<Longrightarrow> rx_sem WordB z z"
| sem_bol: "rx_sem Bol ([], r) ([], r)"

inductive_simps rx_sem_simps:
  "rx_sem Eps x y" "rx_sem (Ch p) x y" "rx_sem (Sq r s) x y" "rx_sem (Alt r s) x y"
  "rx_sem WordB x y" "rx_sem Bol x y"

text \<open>A match consumes a piece of the text to come.\<close>

lemma rx_sem_consumes:
  "rx_sem r x y \<Longrightarrow> \<exists>w. snd x = w @ snd y \<and> fst y = rev w @ fst x"
  by (induction rule: rx_sem.induct) auto

lemma rx_sem_length: "rx_sem r x y \<Longrightarrow> length (snd y) \<le> length (snd x)"
  using rx_sem_consumes by fastforce

lemma rx_sem_no_progress: "rx_sem r x y \<Longrightarrow> \<not> length (snd y) < length (snd x) \<Longrightarrow> y = x"
  by (drule rx_sem_consumes) (auto simp: prod_eq_iff)

lemma rx_star_sound:
  assumes sound: "\<And>x y. y \<in> set (f x) \<Longrightarrow> rx_sem r x y"
  shows "y \<in> set (rx_star n f x) \<Longrightarrow> rx_sem (Star r) x y"
proof (induction n arbitrary: x)
  case 0
  then show ?case by (simp add: sem_star0)
next
  case (Suc n)
  then consider "y = x" | u where "u \<in> set (f x)" "y \<in> set (rx_star n f u)" by auto
  then show ?case
  proof cases
    case 1
    then show ?thesis by (simp add: sem_star0)
  next
    case 2
    then show ?thesis using Suc.IH sound sem_star by blast
  qed
qed

lemma rx_star_complete:
  assumes complete: "\<And>x y. rx_sem r x y \<Longrightarrow> y \<in> set (f x)"
  shows "rx_sem (Star r) x y \<Longrightarrow> length (snd x) \<le> n \<Longrightarrow> y \<in> set (rx_star n f x)"
proof (induction "Star r" x y arbitrary: n rule: rx_sem.induct)
  case (sem_star0 z)
  then show ?case by (cases n) simp_all
next
  case (sem_star x y z)
  show ?case
  proof (cases "length (snd y) < length (snd x)")
    case True
    with sem_star.prems obtain m where m: "n = Suc m" "length (snd y) \<le> m" by (cases n) simp_all
    have "z \<in> set (rx_star m f y)" using sem_star.hyps(4) m by blast
    moreover have "y \<in> set (f x)" using complete sem_star.hyps(1) by blast
    ultimately have "\<exists>u\<in>set (filter (\<lambda>y. length (snd y) < length (snd x)) (f x)). z \<in> set (rx_star m f u)"
      using True by (intro bexI[of _ y]) simp_all
    then have "z \<in> set (rx_star (Suc m) f x)"
      by (simp del: split_paired_Ex split_paired_All)
    with m show ?thesis by simp
  next
    case False
    with sem_star.hyps(1) have "y = x" by (rule rx_sem_no_progress)
    with sem_star.hyps(4) sem_star.prems show ?thesis by blast
  qed
qed

lemma rx_ends_correct: "y \<in> set (rx_ends r x) \<longleftrightarrow> rx_sem r x y"
proof (induction r arbitrary: x y)
  case (Star r)
  then show ?case using rx_star_sound[of "rx_ends r" r] rx_star_complete[of r "rx_ends r" x y]
    by (metis order_refl rx_ends.simps(5))
next
  case (Ch p)
  then show ?case by (cases x; cases y) (auto simp: rx_sem_simps split: list.splits)
next
  case (Sq r s)
  have "y \<in> set (rx_ends (Sq r s) x) \<longleftrightarrow> (\<exists>u. u \<in> set (rx_ends r x) \<and> y \<in> set (rx_ends s u))"
    unfolding rx_ends.simps set_concat set_map by blast
  then show ?case using Sq.IH by (simp add: rx_sem_simps)
next
  case Bol
  then show ?case by (cases x) (auto simp: rx_sem_simps)
qed (auto simp: rx_sem_simps)

lemma rx_ends_nonempty: "rx_ends r x \<noteq> [] \<longleftrightarrow> (\<exists>y. rx_sem r x y)"
  unfolding rx_ends_correct[symmetric] by (metis empty_iff hd_in_set list.set(1))

lemma rx_search_from_iff:
  "rx_search_from r l s \<longleftrightarrow> (\<exists>p q y. s = p @ q \<and> rx_sem r (rev p @ l, q) y)"
proof (induction s arbitrary: l)
  case Nil
  show ?case using rx_ends_nonempty[of r "(l, [])"] by simp
next
  case (Cons c cs)
  have "(\<exists>p q y. c # cs = p @ q \<and> rx_sem r (rev p @ l, q) y) \<longleftrightarrow>
    (\<exists>y. rx_sem r (l, c # cs) y) \<or> (\<exists>p q y. cs = p @ q \<and> rx_sem r (rev p @ c # l, q) y)"
    (is "?L = (?A \<or> ?B)")
  proof
    assume ?L
    then obtain p q y where s: "c # cs = p @ q" "rx_sem r (rev p @ l, q) y" by blast
    show "?A \<or> ?B"
    proof (cases p)
      case Nil
      with s have "rx_sem r (l, c # cs) y" by simp
      then show ?thesis by blast
    next
      case (Cons d p')
      with s have "cs = p' @ q" "rx_sem r (rev p' @ c # l, q) y" by auto
      then show ?thesis by blast
    qed
  next
    assume "?A \<or> ?B"
    then show ?L
    proof
      assume ?A
      then obtain y where "rx_sem r (rev [] @ l, c # cs) y" by auto
      then show ?L by (metis append_Nil)
    next
      assume ?B
      then obtain p q y where "cs = p @ q" "rx_sem r (rev (c # p) @ l, q) y" by auto
      then show ?L by (metis append_Cons)
    qed
  qed
  with Cons rx_ends_nonempty[of r "(l, c # cs)"] show ?case by simp
qed

text \<open>
  \<open>pattern.search(s)\<close> succeeds exactly when some position of the text starts a match.
\<close>

lemma rx_search_iff: "rx_search r s \<longleftrightarrow> (\<exists>p q y. s = p @ q \<and> rx_sem r (rev p, q) y)"
  by (simp add: rx_search_def rx_search_from_iff)

subsection \<open>Characters a match needs\<close>

text \<open>
  A necessary condition that only looks at which characters occur, so that an evaluation can
  leave out the search in most texts.
\<close>

fun rx_possible :: "rx \<Rightarrow> string \<Rightarrow> bool" where
  "rx_possible (Ch p) s = list_ex p s"
| "rx_possible (Sq r t) s = (if rx_possible t s then rx_possible r s else False)"
| "rx_possible (Alt r t) s = (if rx_possible r s then True else rx_possible t s)"
| "rx_possible _ s = True"

lemma rx_possible_mono: "rx_possible r s \<Longrightarrow> set s \<subseteq> set t \<Longrightarrow> rx_possible r t"
  by (induction r) (auto simp: list_ex_iff split: if_splits)

lemma rx_sem_possible: "rx_sem r x y \<Longrightarrow> rx_possible r (snd x)"
proof (induction rule: rx_sem.induct)
  case (sem_sq r x y s z)
  have "set (snd y) \<subseteq> set (snd x)" using rx_sem_consumes[OF sem_sq.hyps(1)] by auto
  then show ?case using sem_sq.IH rx_possible_mono by simp
qed simp_all

lemma rx_search_code [code]: "rx_search r s = (if rx_possible r s then rx_search_from r [] s else False)"
proof -
  have "rx_search_from r [] s \<Longrightarrow> rx_possible r s"
  proof -
    assume "rx_search_from r [] s"
    then obtain p q y where "s = p @ q" "rx_sem r (rev p, q) y" by (auto simp: rx_search_from_iff)
    then show "rx_possible r s" using rx_sem_possible[of r "(rev p, q)" y] rx_possible_mono[of r q s] by simp
  qed
  then show ?thesis by (auto simp: rx_search_def)
qed

end
