(* ===== verification/Job_Utils.thy ===== *)
theory Job_Utils
  imports Py_Regex
begin

section \<open>Redaction of job payloads, results and error messages\<close>

text \<open>
  \<open>backend/app/core/job_utils.py\<close>: the allow lists and deny lists, the secret
  patterns, the recursive redaction of a payload, the sanitizers of the payload and result
  columns and of error messages. The lemmas show what can survive a redaction, that it is
  stable, and what shape a sanitized payload has.
\<close>

definition REDACTED :: string where
  "REDACTED = ''[REDACTED]''"

definition sensitive_key_parts :: "string list" where
  "sensitive_key_parts =
    [''password'', ''secret'', ''token'', ''credential'', ''cookie'', ''csrf'', ''prompt'',
     ''raw'', ''content'', ''text'', ''message'', ''chunk'', ''chunks'', ''query'', ''file'',
     ''path'', ''storage_key'', ''url'', ''dsn'']"

definition secret_key_parts :: "string list" where
  "secret_key_parts = [''password'', ''secret'', ''token'', ''credential'', ''cookie'', ''csrf'']"

definition safe_result_keys :: "string list" where
  "safe_result_keys =
    [''status'', ''result_code'', ''handler_status'', ''handled'', ''document_version_id'',
     ''logical_document_id'', ''chunk_count'', ''indexed_count'', ''page_count'',
     ''evaluation_run_id'', ''message_id'', ''mirror_action'', ''cleaned_count'',
     ''neo4j_projection_result_code'', ''result_redacted'', ''extractor_type'',
     ''extractor_version'', ''graph_extraction_result_code'',
     ''graph_extraction_fallback_reason'', ''graph_extraction_provider'',
     ''graph_extraction_model'', ''graph_extraction_estimated_cost_usd'',
     ''graph_extraction_latency_ms'']"

definition safe_payload_keys :: "string list" where
  "safe_payload_keys =
    [''logical_document_id'', ''document_version_id'', ''graph_index_run_id'',
     ''requested_by_user_id'', ''evaluation_run_id'', ''chat_session_id'', ''chat_message_id'',
     ''message_id'', ''mirror_action'', ''cleanup_scope'', ''extractor_type'',
     ''extractor_version'', ''job_type'', ''reindex_policy'', ''result_code'', ''status'']"

subsection \<open>The secret patterns\<close>

definition alnum_char :: "char \<Rightarrow> bool" where
  "alnum_char c = (ascii_alpha c \<or> py_isdigit c)"

definition token_char :: "char \<Rightarrow> bool" where
  "token_char c = (alnum_char c \<or> c = CHR ''_'' \<or> c = CHR ''-'')"

definition windows_path_re :: rx where
  "windows_path_re = rx_seq [Ch ascii_alpha, rx_in '':'', rx_in [CHR 0x5C]]"

definition unix_path_re :: rx where
  "unix_path_re = rx_seq
     [Alt Bol (Ch (\<lambda>c. py_isspace c \<or> c = CHR 0x27 \<or> c = CHR 0x22)), rx_in ''/'',
      rx_alts (map rx_lit [''app'', ''data'', ''etc'', ''home'', ''mnt'', ''opt'', ''root'',
        ''srv'', ''tmp'', ''Users'', ''var'', ''workspace'']), rx_in ''/'']"

definition api_key_re :: rx where
  "api_key_re = rx_seq
     [WordB,
      rx_alts
        [rx_seq [rx_alts [rx_lit ''sk'', rx_lit ''pk''], rx_in ''-'', rx_at_least 12 (Ch token_char)],
         rx_seq [rx_alts (map rx_lit [''sk'', ''pk'', ''ghp'', ''gho'', ''ghu'', ''github_pat'']),
           rx_in ''_'', rx_at_least 12 (Ch token_char)],
         rx_seq [rx_alts [rx_lit ''AKIA'', rx_lit ''ASIA''],
           rx_times 16 (Ch (\<lambda>c. ascii_upper c \<or> py_isdigit c))],
         rx_seq [rx_lit ''xox'', rx_in ''baprs'', rx_in ''-'',
           rx_at_least 10 (Ch (\<lambda>c. alnum_char c \<or> c = CHR ''-''))]],
      WordB]"

definition bearer_token_re :: rx where
  "bearer_token_re = rx_seq
     [WordB, rx_ilit ''bearer'', rx_plus (Ch py_isspace),
      rx_at_least 12 (Ch (\<lambda>c. token_char c \<or> c = CHR ''.'')), WordB]"

definition key_value_secret_re :: rx where
  "key_value_secret_re = rx_seq
     [WordB,
      rx_alts [rx_seq [rx_ilit ''api'', rx_opt (rx_in ''_-''), rx_ilit ''key''],
        rx_ilit ''secret'', rx_ilit ''token'', rx_ilit ''password'', rx_ilit ''credential''],
      Star (Ch py_isspace), rx_in '':='', Star (Ch py_isspace),
      rx_plus (Ch (\<lambda>c. c \<notin> set '',;'' \<and> \<not> py_isspace c))]"

definition credential_url_re :: rx where
  "credential_url_re = rx_seq
     [rx_lit ''://'', rx_plus (Ch (\<lambda>c. c \<notin> set ''/:@'' \<and> \<not> py_isspace c)), rx_in '':'',
      rx_plus (Ch (\<lambda>c. c \<notin> set ''/@'' \<and> \<not> py_isspace c)), rx_in ''@'']"

definition jwt_re :: rx where
  "jwt_re = rx_seq
     [WordB, rx_lit ''eyJ'', rx_plus (Ch token_char), rx_in ''.'', rx_plus (Ch token_char),
      rx_in ''.'', rx_plus (Ch token_char), WordB]"

definition looks_like_absolute_path :: "string \<Rightarrow> bool" where
  "looks_like_absolute_path s = (rx_search windows_path_re s \<or> rx_search unix_path_re s)"

definition looks_like_secret :: "string \<Rightarrow> bool" where
  "looks_like_secret s =
     (rx_search api_key_re s \<or> rx_search bearer_token_re s \<or> rx_search key_value_secret_re s \<or>
      rx_search credential_url_re s \<or> rx_search jwt_re s)"

subsection \<open>Sensitive keys and the recursive redaction\<close>

definition is_sensitive_key :: "string \<Rightarrow> bool" where
  "is_sensitive_key key = (let lowered = py_lower key in
     if py_endswith ''_token_count'' lowered then False
     else if (\<exists>suf\<in>set [''_id'', ''_ids'', ''_count'']. py_endswith suf lowered) \<and>
             \<not> (\<exists>part\<in>set secret_key_parts. py_in part lowered) then False
     else (\<exists>part\<in>set sensitive_key_parts. py_in part lowered))"

definition redact_str :: "string \<Rightarrow> string" where
  "redact_str s =
     (if looks_like_absolute_path s \<or> looks_like_secret s then REDACTED
      else if length s \<le> 1000 then s else take 997 s @ ''...'')"

definition sensitive_opt :: "string option \<Rightarrow> bool" where
  "sensitive_opt key = (case key of None \<Rightarrow> False | Some k \<Rightarrow> is_sensitive_key k)"

fun redact_value :: "string option \<Rightarrow> pyval \<Rightarrow> pyval" where
  "redact_value key (PDict d) =
     (if sensitive_opt key then PStr REDACTED
      else PDict (map (\<lambda>(k, x). (k, redact_value (Some k) x)) d))"
| "redact_value key (PStr s) =
     (if sensitive_opt key then PStr REDACTED else PStr (redact_str s))"
| "redact_value key (PList xs) =
     (if sensitive_opt key then PStr REDACTED else PList (map (redact_value None) xs))"
| "redact_value key (PBytes b) = PStr REDACTED"
| "redact_value key v = (if sensitive_opt key then PStr REDACTED else v)"

definition redact_payload :: "pyval \<Rightarrow> pyval" where
  "redact_payload v = redact_value None v"

subsection \<open>Sanitizers of the payload and result columns\<close>

fun is_int_value :: "pyval \<Rightarrow> bool" where
  "is_int_value (PInt _) = True"
| "is_int_value (PBool _) = True"
| "is_int_value _ = False"

fun is_safe_scalar :: "pyval \<Rightarrow> bool" where
  "is_safe_scalar (PBytes _) = False"
| "is_safe_scalar (PList _) = False"
| "is_safe_scalar (PDict _) = False"
| "is_safe_scalar _ = True"

fun is_int_sequence :: "pyval \<Rightarrow> bool" where
  "is_int_sequence (PList xs) = list_all is_int_value xs"
| "is_int_sequence (PBytes _) = True"
| "is_int_sequence _ = False"

definition is_safe_payload_key :: "string \<Rightarrow> pyval \<Rightarrow> bool" where
  "is_safe_payload_key key v =
     (if py_endswith ''_id'' key then is_int_value v
      else if py_endswith ''_ids'' key then is_int_sequence v
      else if py_endswith ''_count'' key then is_int_value v
      else if key \<in> set safe_payload_keys then is_safe_scalar v
      else False)"

definition is_safe_result_key :: "string \<Rightarrow> pyval \<Rightarrow> bool" where
  "is_safe_result_key key v =
     (if py_endswith ''_id'' key then is_int_value v
      else if py_endswith ''_count'' key then is_int_value v
      else if key \<in> set safe_result_keys then is_safe_scalar v
      else False)"

definition sanitize_job_payload :: "pyval pydict option \<Rightarrow> pyval pydict" where
  "sanitize_job_payload value = (case value of
     None \<Rightarrow> []
   | Some d \<Rightarrow>
       if d = [] then []
       else (case redact_payload (PDict d) of
         PDict redacted \<Rightarrow> filter (\<lambda>(k, x). x = PStr REDACTED \<or> is_safe_payload_key k x) redacted
       | _ \<Rightarrow> []))"

definition sanitize_result_json :: "pyval pydict option \<Rightarrow> pyval pydict" where
  "sanitize_result_json value = (case value of
     None \<Rightarrow> []
   | Some d \<Rightarrow>
       if d = [] then []
       else (case redact_payload (PDict d) of
         PDict redacted \<Rightarrow>
           (let safe = filter (\<lambda>(k, x). is_safe_result_key k x) redacted
            in if safe = [] then [(''result_redacted'', PBool True)] else safe)
       | _ \<Rightarrow> [(''result_redacted'', PBool True)]))"

definition redact_error_message :: "string option \<Rightarrow> string" where
  "redact_error_message message = (case message of
     None \<Rightarrow> ''Job failed.''
   | Some m \<Rightarrow>
       if m = [] then ''Job failed.''
       else (let stripped = py_join '' '' (py_split m); lowered = py_lower stripped in
         if (\<exists>part\<in>set sensitive_key_parts. py_in part lowered) \<or>
            looks_like_absolute_path stripped \<or> looks_like_secret stripped
         then ''Job failed with a redacted error.''
         else if length stripped > 500 then take 497 stripped @ ''...'' else stripped))"

subsection \<open>What a redaction leaves\<close>

text \<open>
  A redacted value holds no bytes, keeps only the marker under a sensitive key, and each of
  its strings is short; a string that was not cut is no path and no secret.
\<close>

definition str_clean :: "string \<Rightarrow> bool" where
  "str_clean s = (length s \<le> 1000 \<and>
     (length s < 1000 \<longrightarrow> \<not> looks_like_absolute_path s \<and> \<not> looks_like_secret s))"

fun redact_clean :: "pyval \<Rightarrow> bool" where
  "redact_clean (PStr s) = str_clean s"
| "redact_clean (PBytes _) = False"
| "redact_clean (PList xs) = list_all redact_clean xs"
| "redact_clean (PDict d) =
     list_all (\<lambda>(k, x). redact_clean x \<and> (is_sensitive_key k \<longrightarrow> x = PStr REDACTED)) d"
| "redact_clean _ = True"

fun short_strings :: "pyval \<Rightarrow> bool" where
  "short_strings (PStr s) = (length s \<le> 1000)"
| "short_strings (PList xs) = list_all short_strings xs"
| "short_strings (PDict d) = list_all (\<lambda>(k, x). short_strings x) d"
| "short_strings _ = True"

lemma REDACTED_not_secret: "\<not> looks_like_absolute_path REDACTED" "\<not> looks_like_secret REDACTED"
  by code_simp+

lemma length_REDACTED: "length REDACTED = 10"
  by (simp add: REDACTED_def)

lemma redact_str_REDACTED [simp]: "redact_str REDACTED = REDACTED"
  by (simp add: redact_str_def REDACTED_not_secret length_REDACTED)

lemma str_clean_REDACTED [simp]: "str_clean REDACTED"
  by (simp add: str_clean_def REDACTED_not_secret length_REDACTED)

lemma str_clean_redact_str [simp]: "str_clean (redact_str s)"
  by (auto simp: redact_str_def str_clean_def REDACTED_not_secret length_REDACTED)

lemma redact_value_sensitive [simp]: "sensitive_opt key \<Longrightarrow> redact_value key v = PStr REDACTED"
  by (cases v) auto

lemma redact_value_clean: "redact_clean (redact_value key v)"
  by (induction key v rule: redact_value.induct) 
     (auto simp: list_all_iff sensitive_opt_def)

lemma redact_str_idem: "length s \<le> 1000 \<Longrightarrow> redact_str (redact_str s) = redact_str s"
  by (simp add: redact_str_def REDACTED_not_secret length_REDACTED)

lemma redact_value_idem:
  "short_strings v \<Longrightarrow> redact_value key (redact_value key v) = redact_value key v"
proof (induction key v rule: redact_value.induct)
  case (1 key d)
  then show ?case by (auto simp: list_all_iff)
next
  case (3 key xs)
  then show ?case by (auto simp: list_all_iff)
qed (auto simp: redact_str_idem)

lemma sanitize_job_payload_eq:
  "sanitize_job_payload (Some d) =
     filter (\<lambda>(k, x). x = PStr REDACTED \<or> is_safe_payload_key k x)
       (map (\<lambda>(k, x). (k, redact_value (Some k) x)) d)"
  by (simp add: sanitize_job_payload_def redact_payload_def sensitive_opt_def)

lemma sanitize_result_json_eq:
  "d \<noteq> [] \<Longrightarrow> sanitize_result_json (Some d) =
     (let safe = filter (\<lambda>(k, x). is_safe_result_key k x)
        (map (\<lambda>(k, x). (k, redact_value (Some k) x)) d)
      in if safe = [] then [(''result_redacted'', PBool True)] else safe)"
  by (simp add: sanitize_result_json_def redact_payload_def sensitive_opt_def)

text \<open>A flat value: a scalar, or a list of integers.\<close>

fun flat_value :: "pyval \<Rightarrow> bool" where
  "flat_value (PDict _) = False"
| "flat_value (PBytes _) = False"
| "flat_value (PList xs) = list_all is_int_value xs"
| "flat_value _ = True"

lemma is_int_value_flat: "is_int_value v \<Longrightarrow> flat_value v"
  by (cases v) auto

lemma is_safe_scalar_flat: "is_safe_scalar v \<Longrightarrow> flat_value v"
  by (cases v) auto

lemma safe_payload_key_flat:
  "is_safe_payload_key k v \<Longrightarrow> redact_clean v \<Longrightarrow> flat_value v"
  by (cases v) (auto simp: is_safe_payload_key_def split: if_splits)

lemma safe_result_key_flat: "is_safe_result_key k v \<Longrightarrow> is_safe_scalar v"
  by (cases v) (auto simp: is_safe_result_key_def split: if_splits)

lemma sanitize_job_payload_keys: "set (map fst (sanitize_job_payload (Some d))) \<subseteq> set (map fst d)"
  by (force simp: sanitize_job_payload_eq)

lemma sanitize_job_payload_distinct:
  "distinct (map fst d) \<Longrightarrow> distinct (map fst (sanitize_job_payload (Some d)))"
  unfolding sanitize_job_payload_eq
  by (rule distinct_map_filter) (simp add: case_prod_beta comp_def)

lemma sanitize_job_payload_entry:
  assumes "(k, x) \<in> set (sanitize_job_payload value)"
  shows "redact_clean x \<and> flat_value x \<and> (is_sensitive_key k \<longrightarrow> x = PStr REDACTED) \<and>
    (x = PStr REDACTED \<or> is_safe_payload_key k x)"
proof (cases "value")
  case None
  with assms show ?thesis by (simp add: sanitize_job_payload_def)
next
  case (Some d)
  with assms obtain v where x: "x = redact_value (Some k) v"
    and safe: "x = PStr REDACTED \<or> is_safe_payload_key k x"
    by (auto simp: sanitize_job_payload_eq)
  have clean: "redact_clean x" by (simp add: x redact_value_clean)
  moreover have "flat_value x" using safe clean safe_payload_key_flat by auto
  moreover have "is_sensitive_key k \<longrightarrow> x = PStr REDACTED" by (simp add: x sensitive_opt_def)
  ultimately show ?thesis using safe by blast
qed

text \<open>
  Running the sanitizer on what it produced changes nothing, as long as the strings of the
  payload are within the cut-off: a payload read back from the table is stored unchanged.
\<close>

lemma redact_value_short: "short_strings v \<Longrightarrow> short_strings (redact_value key v)"
  by (induction key v rule: redact_value.induct)
     (auto simp: list_all_iff redact_str_def length_REDACTED)

lemma filter_map_fixed:
  "\<forall>x\<in>set xs. f (f x) = f x \<Longrightarrow> filter P (map f (filter P (map f xs))) = filter P (map f xs)"
  by (induction xs) auto

lemma sanitize_job_payload_idem:
  assumes "list_all (\<lambda>(k, x). short_strings x) d"
  shows "sanitize_job_payload (Some (sanitize_job_payload (Some d))) = sanitize_job_payload (Some d)"
  unfolding sanitize_job_payload_eq using assms
  by (intro filter_map_fixed) (auto simp: list_all_iff redact_value_idem)

subsection \<open>Error messages\<close>

lemma py_in_append: "py_in sub x \<Longrightarrow> py_in sub (x @ y)"
  by (simp add: py_in_sublist sublist_append)

lemma py_in_take: "py_in sub (take n s) \<Longrightarrow> py_in sub s"
  using py_in_append[of sub "take n s" "drop n s"] by simp

lemma redacted_constants_safe:
  "\<forall>part\<in>set sensitive_key_parts. \<not> py_in part (py_lower ''Job failed.'')"
  "\<forall>part\<in>set sensitive_key_parts. \<not> py_in part (py_lower ''Job failed with a redacted error.'')"
  by code_simp+

lemma no_dot_part: "part \<in> set sensitive_key_parts \<Longrightarrow> part \<noteq> [] \<and> CHR ''.'' \<notin> set part"
  by (auto simp: sensitive_key_parts_def)

lemma sublist_append_sep:
  assumes "sublist sub (x @ y)" "set sub \<inter> set y = {}" "sub \<noteq> []"
  shows "sublist sub x"
proof -
  from assms(1) consider "sublist sub x" | "sublist sub y"
    | xs1 xs2 where "sub = xs1 @ xs2" "suffix xs1 x" "prefix xs2 y"
    by (auto simp: sublist_append)
  then show ?thesis
  proof cases
    case 2
    then have "set sub \<subseteq> set y" by (rule set_mono_sublist)
    with assms(2,3) show ?thesis by (cases sub) auto
  next
    case 3
    then have "xs2 = []" using assms(2) by (cases xs2; cases y) auto
    with 3 show ?thesis by (simp add: suffix_imp_sublist)
  qed simp
qed

lemma lower_dots: "py_lower ''...'' = ''...''"
  by code_simp

lemma redact_error_message_safe:
  assumes "part \<in> set sensitive_key_parts"
  shows "\<not> py_in part (py_lower (redact_error_message message))"
proof -
  have cut: "\<not> py_in part (py_lower (take 497 s @ ''...''))"
    if "\<not> py_in part (py_lower s)" for s
  proof
    assume "py_in part (py_lower (take 497 s @ ''...''))"
    then have "sublist part (take 497 (py_lower s) @ ''...'')"
      using lower_dots by (simp add: py_in_sublist py_lower_def take_map)
    moreover have "set part \<inter> set ''...'' = {}" "part \<noteq> []" using no_dot_part[OF assms] by simp_all
    ultimately have "sublist part (take 497 (py_lower s))" by (rule sublist_append_sep)
    then have "py_in part (py_lower s)" by (metis py_in_sublist py_in_take)
    with that show False ..
  qed
  show ?thesis
  proof (cases "message = None \<or> message = Some []")
    case True
    then have "redact_error_message message = ''Job failed.''"
      by (auto simp: redact_error_message_def)
    with assms redacted_constants_safe show ?thesis by simp
  next
    case False
    then obtain m where m: "message = Some m" "m \<noteq> []" by auto
    define s where "s = py_join '' '' (py_split m)"
    show ?thesis
    proof (cases "redact_error_message message = ''Job failed with a redacted error.''")
      case True
      with assms redacted_constants_safe show ?thesis by simp
    next
      case False
      with m have no: "\<not> py_in part (py_lower s)"
        and r: "redact_error_message message = (if length s > 500 then take 497 s @ ''...'' else s)"
        using assms by (auto simp: redact_error_message_def Let_def s_def split: if_splits)
      show ?thesis unfolding r using no cut[OF no] by simp
    qed
  qed
qed

lemma redact_error_message_length: "length (redact_error_message message) \<le> 500"
  by (auto simp: redact_error_message_def Let_def split: option.splits)

end
