(* ===== verification/Db_Models.thy ===== *)
theory Db_Models
  imports Job_Utils
begin

section \<open>The tables\<close>

text \<open>
  \<open>backend/app/db/models.py\<close>: the rows of the tables the modelled services read and
  write, with the CHECK constraints and the unique indexes the schema puts on them. A table
  is a list of rows in the order of insertion. A column that may be NULL is an option. A
  status column is a datatype of the values its CHECK constraint admits.
\<close>

subsection \<open>Jobs\<close>

datatype jstatus = Queued | Running | Succeeded | Failed | Canceled

record job =
  job_id :: int
  job_type :: string
  job_status :: jstatus
  job_priority :: int
  job_target_type :: "string option"
  job_target_id :: "int option"
  job_payload :: "pyval pydict option"
  job_result :: "pyval pydict option"
  job_error_code :: "string option"
  job_error_message :: "string option"
  job_locked_by :: "string option"
  job_locked_at :: "py_time option"
  job_lease_expires_at :: "py_time option"
  job_retry_of :: "int option"
  job_retry_count :: int
  job_created_by :: "int option"
  job_started_at :: "py_time option"
  job_finished_at :: "py_time option"
  job_created_at :: py_time
  job_updated_at :: py_time

definition job_active :: "job \<Rightarrow> bool" where
  "job_active j = (job_status j = Queued \<or> job_status j = Running)"

definition message_edit_type :: string where
  "message_edit_type = ''message_edit_regeneration''"

text \<open>
  The CHECK constraints. A comparison with NULL is unknown, which a CHECK accepts; the
  constraints whose columns may be NULL spell the test out.
\<close>

definition ck_job :: "job \<Rightarrow> bool" where
  "ck_job j =
    (0 \<le> job_priority j \<and>
     0 \<le> job_retry_count j \<and>
     (job_retry_of j = None \<or> job_retry_of j \<noteq> Some (job_id j)) \<and>
     (job_status j \<noteq> Queued \<or> (job_started_at j = None \<and> job_finished_at j = None)) \<and>
     (job_status j \<noteq> Running \<or>
        (job_locked_by j \<noteq> None \<and> job_locked_at j \<noteq> None \<and>
         job_lease_expires_at j \<noteq> None \<and> job_started_at j \<noteq> None \<and> job_finished_at j = None)) \<and>
     (job_status j \<notin> {Succeeded, Failed, Canceled} \<or> job_finished_at j \<noteq> None) \<and>
     (job_status j \<notin> {Succeeded, Failed} \<or> job_started_at j \<noteq> None) \<and>
     (job_status j \<noteq> Failed \<or> job_error_code j \<noteq> None) \<and>
     (job_type j \<noteq> message_edit_type \<or>
        (job_target_type j = Some ''chat_message'' \<and> job_target_id j \<noteq> None)) \<and>
     (case job_lease_expires_at j of None \<Rightarrow> True
      | Some e \<Rightarrow> (case job_locked_at j of None \<Rightarrow> True | Some l \<Rightarrow> l < e)) \<and>
     (case job_finished_at j of None \<Rightarrow> True
      | Some f \<Rightarrow> (case job_started_at j of None \<Rightarrow> True | Some s \<Rightarrow> s \<le> f)))"

text \<open>The partial unique indexes \<open>ux_jobs_active_retry_per_source\<close> and
  \<open>ux_jobs_active_message_edit\<close>.\<close>

definition ux_active_retry_key :: "job \<Rightarrow> bool" where
  "ux_active_retry_key j = (job_retry_of j \<noteq> None \<and> job_active j)"

definition ux_active_retry :: "job list \<Rightarrow> bool" where
  "ux_active_retry jobs = distinct (map job_retry_of (filter ux_active_retry_key jobs))"

definition ux_message_edit_key :: "job \<Rightarrow> bool" where
  "ux_message_edit_key j =
    (job_type j = message_edit_type \<and> job_target_type j = Some ''chat_message'' \<and>
     job_active j \<and> job_target_id j \<noteq> None)"

definition ux_message_edit :: "job list \<Rightarrow> bool" where
  "ux_message_edit jobs = distinct (map job_target_id (filter ux_message_edit_key jobs))"

definition fk_retry_of :: "job list \<Rightarrow> bool" where
  "fk_retry_of jobs = (\<forall>j\<in>set jobs. case job_retry_of j of None \<Rightarrow> True
     | Some r \<Rightarrow> r \<in> set (map job_id jobs))"

definition jobs_ok :: "job list \<Rightarrow> bool" where
  "jobs_ok jobs =
    (distinct (map job_id jobs) \<and> (\<forall>j\<in>set jobs. ck_job j) \<and>
     ux_active_retry jobs \<and> ux_message_edit jobs \<and> fk_retry_of jobs)"

subsection \<open>Documents\<close>

datatype dstatus = DocActive | DocArchived

record logical_document =
  doc_id :: int
  doc_owner_user_id :: int
  doc_title :: string
  doc_status :: dstatus
  doc_archived_at :: "py_time option"
  doc_created_at :: py_time
  doc_updated_at :: py_time

definition btrim :: "string \<Rightarrow> string" where
  "btrim s = strip_by (\<lambda>c. c = CHR '' '') s"

definition ck_document :: "logical_document \<Rightarrow> bool" where
  "ck_document d =
    (btrim (doc_title d) \<noteq> [] \<and>
     ((doc_status d = DocArchived \<and> doc_archived_at d \<noteq> None) \<or>
      (doc_status d = DocActive \<and> doc_archived_at d = None)))"

datatype vstatus = VProcessing | VReady | VFailed | VArchived

record document_version =
  ver_id :: int
  ver_document_id :: int
  ver_no :: int
  ver_content_hash :: string
  ver_status :: vstatus
  ver_is_active :: bool
  ver_error_code :: "string option"
  ver_file_name :: string
  ver_mime_type :: string
  ver_file_size_bytes :: int
  ver_storage_key :: "string option"
  ver_metadata :: "pyval pydict option"
  ver_page_count :: "int option"
  ver_extractor_name :: "string option"
  ver_extractor_version :: "string option"
  ver_created_by :: int
  ver_created_at :: py_time
  ver_updated_at :: py_time

definition hex_char :: "char \<Rightarrow> bool" where
  "hex_char c = (let n = code_point c in (48 \<le> n \<and> n \<le> 57) \<or> (97 \<le> n \<and> n \<le> 102))"

definition ck_version :: "document_version \<Rightarrow> bool" where
  "ck_version v =
    (1 \<le> ver_no v \<and>
     (\<not> ver_is_active v \<or> ver_status v = VReady) \<and>
     length (ver_content_hash v) = 64 \<and> list_all hex_char (ver_content_hash v) \<and>
     btrim (ver_file_name v) \<noteq> [] \<and> btrim (ver_mime_type v) \<noteq> [] \<and>
     0 \<le> ver_file_size_bytes v \<and>
     (case ver_page_count v of None \<Rightarrow> True | Some n \<Rightarrow> 0 \<le> n) \<and>
     ((ver_status v = VFailed \<and> ver_error_code v \<noteq> None) \<or>
      (ver_status v \<noteq> VFailed \<and> ver_error_code v = None)))"

definition ux_one_active :: "document_version list \<Rightarrow> bool" where
  "ux_one_active vs = distinct (map ver_document_id (filter ver_is_active vs))"

definition versions_ok :: "document_version list \<Rightarrow> bool" where
  "versions_ok vs =
    (distinct (map ver_id vs) \<and> (\<forall>v\<in>set vs. ck_version v) \<and> ux_one_active vs \<and>
     distinct (map (\<lambda>v. (ver_document_id v, ver_no v)) vs) \<and>
     distinct (map (\<lambda>v. (ver_document_id v, ver_content_hash v)) vs))"

record document_chunk =
  chunk_id :: int
  chunk_version_id :: int
  chunk_position :: int
  chunk_digest :: string
  chunk_content :: string
  chunk_tokens :: "int option"
  chunk_chars :: "int option"
  chunk_page_from :: "int option"
  chunk_page_to :: "int option"
  chunk_section :: "string option"
  chunk_meta :: "pyval pydict option"
  chunk_created_at :: py_time

definition nonneg_or_null :: "int option \<Rightarrow> bool" where
  "nonneg_or_null n = (case n of None \<Rightarrow> True | Some k \<Rightarrow> 0 \<le> k)"

definition ck_chunk :: "document_chunk \<Rightarrow> bool" where
  "ck_chunk c =
    (0 \<le> chunk_position c \<and>
     length (chunk_digest c) = 64 \<and> list_all hex_char (chunk_digest c) \<and>
     btrim (chunk_content c) \<noteq> [] \<and> nonneg_or_null (chunk_tokens c) \<and> nonneg_or_null (chunk_chars c) \<and>
     (case (chunk_page_from c, chunk_page_to c) of
        (Some a, Some b) \<Rightarrow> a \<le> b | _ \<Rightarrow> True) \<and>
     (case chunk_page_from c of None \<Rightarrow> True | Some a \<Rightarrow> 1 \<le> a) \<and>
     (case chunk_page_to c of None \<Rightarrow> True | Some b \<Rightarrow> 1 \<le> b))"

definition chunks_ok :: "document_chunk list \<Rightarrow> bool" where
  "chunks_ok cs =
    (distinct (map chunk_id cs) \<and> (\<forall>c\<in>set cs. ck_chunk c) \<and>
     distinct (map (\<lambda>c. (chunk_version_id c, chunk_position c)) cs))"

definition documents_ok :: "logical_document list \<Rightarrow> bool" where
  "documents_ok ds = (distinct (map doc_id ds) \<and> (\<forall>x\<in>set ds. ck_document x))"

subsection \<open>Users, sessions, audit logs\<close>

datatype ustatus = UserActive | UserDisabled

record user =
  user_id :: int
  user_role_id :: int
  user_email :: string
  user_display_name :: string
  user_password_hash :: "string option"
  user_status :: ustatus
  user_last_login_at :: "py_time option"

record user_session =
  ses_id :: int
  ses_user_id :: int
  ses_token_hash :: string
  ses_csrf_hash :: "string option"
  ses_user_agent :: "string option"
  ses_ip_address :: "string option"
  ses_created_at :: py_time
  ses_expires_at :: py_time
  ses_revoked_at :: "py_time option"

record audit_log =
  audit_request_id :: string
  audit_actor :: "int option"
  audit_action :: string
  audit_target_type :: string
  audit_target_id :: "int option"
  audit_metadata :: "pyval pydict"
  audit_ip_address :: "string option"
  audit_user_agent :: "string option"

definition ck_session :: "user_session \<Rightarrow> bool" where
  "ck_session s = (ses_created_at s < ses_expires_at s)"

definition sessions_ok :: "user_session list \<Rightarrow> bool" where
  "sessions_ok ss =
    (distinct (map ses_id ss) \<and> distinct (map ses_token_hash ss) \<and> (\<forall>s\<in>set ss. ck_session s))"

subsection \<open>The database\<close>

text \<open>
  Roles are pairs of the role's identifier and its name. The next identifiers are the
  database's sequences. The system settings are keys with their JSON values; the row that
  marks the last change of the searchable corpus is kept apart, by its time.
\<close>

record db =
  db_jobs :: "job list"
  db_next_job_id :: int
  db_versions :: "document_version list"
  db_documents :: "logical_document list"
  db_users :: "user list"
  db_roles :: "(int \<times> string) list"
  db_sessions :: "user_session list"
  db_next_session_id :: int
  db_audit_logs :: "audit_log list"
  db_next_document_id :: int
  db_next_version_id :: int
  db_chunks :: "document_chunk list"
  db_next_chunk_id :: int
  db_corpus_marker :: "py_time option"
  db_settings :: "pyval pydict"

definition job_ids_below_next :: "db \<Rightarrow> bool" where
  "job_ids_below_next d = (\<forall>j\<in>set (db_jobs d). job_id j < db_next_job_id d)"

lemmas job_check_defs = ck_job_def job_active_def message_edit_type_def

end
