(* ===== verification/Job_Store.thy ===== *)
theory Job_Store
  imports Db_Models
begin

section \<open>The job queue\<close>

text \<open>
  \<open>backend/app/repositories/job_repository.py\<close>: creation, listing, acquisition under a
  lease, renewal, the terminal updates and retries, as operations on the jobs table that
  return the new database or the exception. Every write passes through the CHECK constraints
  and the unique indexes, as in the database: a write that breaks one is an
  \<open>IntegrityError\<close> and leaves no trace. The rows that another transaction has locked are
  an argument of the acquisition, which skips them.
\<close>

datatype job_error = LeaseLost | IntegrityError

definition put_jobs :: "db \<Rightarrow> job list \<Rightarrow> job_error + db" where
  "put_jobs d jobs = (if jobs_ok jobs then Inr (d\<lparr>db_jobs := jobs\<rparr>) else Inl IntegrityError)"

definition insert_job :: "db \<Rightarrow> job \<Rightarrow> job_error + job \<times> db" where
  "insert_job d j = (let j' = j\<lparr>job_id := db_next_job_id d\<rparr> in
     case put_jobs d (db_jobs d @ [j']) of
       Inl e \<Rightarrow> Inl e
     | Inr d' \<Rightarrow> Inr (j', d'\<lparr>db_next_job_id := db_next_job_id d + 1\<rparr>))"

text \<open>\<open>UPDATE jobs SET \<dots> WHERE \<dots>\<close>, with the number of the rows it matched.\<close>

definition update_where :: "(job \<Rightarrow> bool) \<Rightarrow> (job \<Rightarrow> job) \<Rightarrow> db \<Rightarrow> job_error + nat \<times> db" where
  "update_where p f d =
     (case put_jobs d (map (\<lambda>j. if p j then f j else j) (db_jobs d)) of
       Inl e \<Rightarrow> Inl e
     | Inr d' \<Rightarrow> Inr (length (filter p (db_jobs d)), d'))"

definition new_job :: "string \<Rightarrow> string option \<Rightarrow> int option \<Rightarrow> pyval pydict option \<Rightarrow>
    int option \<Rightarrow> int \<Rightarrow> py_time \<Rightarrow> job" where
  "new_job jtype ttype tid payload creator prio now =
    \<lparr>job_id = 0, job_type = jtype, job_status = Queued, job_priority = prio,
     job_target_type = ttype, job_target_id = tid, job_payload = payload, job_result = None,
     job_error_code = None, job_error_message = None, job_locked_by = None, job_locked_at = None,
     job_lease_expires_at = None, job_retry_of = None, job_retry_count = 0,
     job_created_by = creator, job_started_at = None, job_finished_at = None,
     job_created_at = now, job_updated_at = now\<rparr>"

definition create_job :: "string \<Rightarrow> string option \<Rightarrow> int option \<Rightarrow> pyval pydict option \<Rightarrow>
    int option \<Rightarrow> int \<Rightarrow> py_time \<Rightarrow> db \<Rightarrow> job_error + job \<times> db" where
  "create_job jtype ttype tid payload creator prio now d =
     insert_job d (new_job jtype ttype tid (Some (sanitize_job_payload payload)) creator prio now)"

definition get_job :: "int \<Rightarrow> db \<Rightarrow> job option" where
  "get_job i d = find (\<lambda>j. job_id j = i) (db_jobs d)"

subsection \<open>Listing\<close>

definition filter_conditions :: "jstatus option \<Rightarrow> string option \<Rightarrow> string option \<Rightarrow> int option \<Rightarrow>
    job \<Rightarrow> bool" where
  "filter_conditions st jtype ttype tid j =
     ((case st of None \<Rightarrow> True | Some s \<Rightarrow> job_status j = s) \<and>
      (case jtype of None \<Rightarrow> True | Some t \<Rightarrow> job_type j = t) \<and>
      (case ttype of None \<Rightarrow> True | Some t \<Rightarrow> job_target_type j = Some t) \<and>
      (case tid of None \<Rightarrow> True | Some t \<Rightarrow> job_target_id j = Some t))"

definition list_jobs :: "jstatus option \<Rightarrow> string option \<Rightarrow> string option \<Rightarrow> int option \<Rightarrow>
    nat \<Rightarrow> nat \<Rightarrow> db \<Rightarrow> job list \<times> nat" where
  "list_jobs st jtype ttype tid offset limit d =
     (let rows = filter (filter_conditions st jtype ttype tid) (db_jobs d) in
      (take limit (drop offset (sort_key (\<lambda>j. (- job_created_at j, - job_id j)) rows)), length rows))"

subsection \<open>Acquisition and leases\<close>

definition lease_expired :: "py_time \<Rightarrow> job \<Rightarrow> bool" where
  "lease_expired now j = (case job_lease_expires_at j of None \<Rightarrow> False | Some e \<Rightarrow> e < now)"

definition type_enabled :: "string list option \<Rightarrow> string list option \<Rightarrow> job \<Rightarrow> bool" where
  "type_enabled enabled supported j = (case enabled of
     Some ts \<Rightarrow> job_type j \<in> set ts
   | None \<Rightarrow> (case supported of Some ts \<Rightarrow> job_type j \<in> set ts | None \<Rightarrow> True))"

definition acquirable :: "string list option \<Rightarrow> string list option \<Rightarrow> py_time \<Rightarrow> job \<Rightarrow> bool" where
  "acquirable enabled supported now j =
     ((job_status j = Queued \<or> (job_status j = Running \<and> lease_expired now j)) \<and>
      type_enabled enabled supported j)"

definition acquire_key :: "job \<Rightarrow> nat \<times> int \<times> int \<times> int" where
  "acquire_key j = (if job_status j = Queued then 0 else 1, job_priority j, job_created_at j, job_id j)"

definition acquire_candidates :: "(int \<Rightarrow> bool) \<Rightarrow> string list option \<Rightarrow> string list option \<Rightarrow>
    nat \<Rightarrow> py_time \<Rightarrow> db \<Rightarrow> job list" where
  "acquire_candidates row_locked enabled supported batch now d =
     take batch (sort_key acquire_key
       (filter (\<lambda>j. acquirable enabled supported now j \<and> \<not> row_locked (job_id j)) (db_jobs d)))"

definition start_job :: "string \<Rightarrow> int \<Rightarrow> py_time \<Rightarrow> job \<Rightarrow> job" where
  "start_job worker lease now j = j\<lparr>
     job_status := Running,
     job_started_at := (case job_started_at j of None \<Rightarrow> Some now | Some s \<Rightarrow> Some s),
     job_locked_by := Some worker, job_locked_at := Some now,
     job_lease_expires_at := Some (now + lease), job_updated_at := now\<rparr>"

definition acquire_jobs :: "(int \<Rightarrow> bool) \<Rightarrow> string \<Rightarrow> string list option \<Rightarrow> int \<Rightarrow> nat \<Rightarrow>
    string list option \<Rightarrow> py_time \<Rightarrow> db \<Rightarrow> job_error + job list \<times> db" where
  "acquire_jobs row_locked worker enabled lease batch supported now d =
     (let picked = acquire_candidates row_locked enabled supported batch now d;
          ids = map job_id picked in
      case update_where (\<lambda>j. job_id j \<in> set ids) (start_job worker lease now) d of
        Inl e \<Rightarrow> Inl e
      | Inr (_, d') \<Rightarrow> Inr (map (start_job worker lease now) picked, d'))"

definition owned_by :: "int \<Rightarrow> string \<Rightarrow> job \<Rightarrow> bool" where
  "owned_by i worker j =
     (job_id j = i \<and> job_status j = Running \<and> job_locked_by j = Some worker)"

text \<open>An update of the row the worker owns; no row matched is a lost lease.\<close>

definition update_owned :: "int \<Rightarrow> string \<Rightarrow> (job \<Rightarrow> job) \<Rightarrow> db \<Rightarrow> job_error + db" where
  "update_owned i worker f d =
     (case update_where (owned_by i worker) f d of
        Inl e \<Rightarrow> Inl e
      | Inr (n, d') \<Rightarrow> if n = 0 then Inl LeaseLost else Inr d')"

definition renew_lease :: "int \<Rightarrow> string \<Rightarrow> int \<Rightarrow> py_time \<Rightarrow> db \<Rightarrow> job_error + db" where
  "renew_lease i worker lease now d = update_owned i worker
     (\<lambda>j. j\<lparr>job_locked_at := Some now, job_lease_expires_at := Some (now + lease),
            job_updated_at := now\<rparr>) d"

definition assert_ownership :: "int \<Rightarrow> string \<Rightarrow> db \<Rightarrow> job_error + unit" where
  "assert_ownership i worker d =
     (if (\<exists>j\<in>set (db_jobs d). owned_by i worker j) then Inr () else Inl LeaseLost)"

subsection \<open>Terminal updates\<close>

definition mark_succeeded :: "int \<Rightarrow> string \<Rightarrow> pyval pydict option \<Rightarrow> py_time \<Rightarrow> db \<Rightarrow>
    job_error + db" where
  "mark_succeeded i worker result now d = update_owned i worker
     (\<lambda>j. j\<lparr>job_status := Succeeded, job_finished_at := Some now,
            job_result := Some (sanitize_result_json result), job_error_code := None,
            job_error_message := None, job_lease_expires_at := None, job_updated_at := now\<rparr>) d"

definition mark_failed :: "int \<Rightarrow> string \<Rightarrow> string \<Rightarrow> string \<Rightarrow> py_time \<Rightarrow> db \<Rightarrow>
    job_error + db" where
  "mark_failed i worker code message now d = update_owned i worker
     (\<lambda>j. j\<lparr>job_status := Failed, job_finished_at := Some now, job_result := None,
            job_error_code := Some code,
            job_error_message := Some (redact_error_message (Some message)),
            job_lease_expires_at := None, job_updated_at := now\<rparr>) d"

definition mark_canceled :: "int \<Rightarrow> py_time \<Rightarrow> db \<Rightarrow> job_error + db" where
  "mark_canceled i now d =
     (case update_where (\<lambda>j. job_id j = i \<and> job_active j)
        (\<lambda>j. j\<lparr>job_status := Canceled, job_finished_at := Some now,
               job_lease_expires_at := None, job_updated_at := now\<rparr>) d of
        Inl e \<Rightarrow> Inl e
      | Inr (_, d') \<Rightarrow> Inr d')"

subsection \<open>Retries\<close>

text \<open>\<open>int(job.retry_of_job_id or job.job_id)\<close>: a zero identifier counts as absent.\<close>

definition original_source_job_id :: "job \<Rightarrow> int" where
  "original_source_job_id j = (case job_retry_of j of
     None \<Rightarrow> job_id j | Some r \<Rightarrow> if r = 0 then job_id j else r)"

definition find_active_retry :: "int \<Rightarrow> db \<Rightarrow> job option" where
  "find_active_retry src d =
     (case sort_key (\<lambda>j. (job_created_at j, job_id j))
        (filter (\<lambda>j. job_retry_of j = Some src \<and> job_active j) (db_jobs d)) of
        [] \<Rightarrow> None | j # _ \<Rightarrow> Some j)"

definition next_retry_count :: "int \<Rightarrow> db \<Rightarrow> int" where
  "next_retry_count src d =
     (case map job_retry_count (filter (\<lambda>j. job_retry_of j = Some src) (db_jobs d)) of
        [] \<Rightarrow> 0 | c # cs \<Rightarrow> foldl max c cs) + 1"

definition retry_row :: "job \<Rightarrow> int option \<Rightarrow> py_time \<Rightarrow> db \<Rightarrow> job" where
  "retry_row source_job requested_by now d =
     (let src = original_source_job_id source_job;
          payload = sanitize_job_payload (job_payload source_job);
          payload' = (case requested_by of None \<Rightarrow> payload
            | Some u \<Rightarrow> AList.update ''requested_by_user_id'' (PInt u) payload)
      in (new_job (job_type source_job) (job_target_type source_job) (job_target_id source_job)
            (Some payload') requested_by (job_priority source_job) now)
         \<lparr>job_retry_of := Some src, job_retry_count := next_retry_count src d\<rparr>)"

definition create_retry_job :: "job \<Rightarrow> int option \<Rightarrow> py_time \<Rightarrow> db \<Rightarrow> job_error + job \<times> db" where
  "create_retry_job source_job requested_by now d =
     insert_job d (retry_row source_job requested_by now d)"

subsection \<open>Writes that keep the constraints\<close>

text \<open>
  A row update that keeps the row's identity and does not reactivate a finished job keeps
  the unique indexes; together with the CHECK constraints of the rows it changes it keeps
  the table's constraints, so the write succeeds.
\<close>

definition same_row :: "job \<Rightarrow> job \<Rightarrow> bool" where
  "same_row j k =
    (job_id k = job_id j \<and> job_type k = job_type j \<and> job_retry_of k = job_retry_of j \<and>
     job_target_type k = job_target_type j \<and> job_target_id k = job_target_id j \<and>
     (job_active k \<longrightarrow> job_active j))"

lemma same_row_refl [simp]: "same_row j j"
  by (simp add: same_row_def)

lemma distinct_filter_map:
  assumes "distinct (map key (filter p xs))"
    and "\<forall>x\<in>set xs. (p (g x) \<longrightarrow> p x) \<and> key (g x) = key x"
  shows "distinct (map key (filter p (map g xs)))"
  using assms
proof (induction xs)
  case Nil
  then show ?case by simp
next
  case (Cons a xs)
  have sub: "key ` {x \<in> g ` set xs. p x} \<subseteq> key ` {x \<in> set xs. p x}"
    using Cons.prems(2) by force
  from Cons show ?case
  proof (cases "p (g a)")
    case True
    then have "p a" "key (g a) = key a" using Cons.prems(2) by auto
    with Cons sub True show ?thesis by auto
  next
    case False
    then show ?thesis using Cons by (auto split: if_splits)
  qed
qed

lemma jobs_ok_map:
  assumes ok: "jobs_ok jobs"
    and upd: "\<forall>j\<in>set jobs. ck_job (g j) \<and> same_row j (g j)"
  shows "jobs_ok (map g jobs)"
proof -
  have ids: "map job_id (map g jobs) = map job_id jobs"
    using upd by (auto simp: same_row_def)
  have "ux_active_retry (map g jobs)"
    using ok upd unfolding jobs_ok_def ux_active_retry_def
    by (intro distinct_filter_map) (auto simp: same_row_def ux_active_retry_key_def)
  moreover have "ux_message_edit (map g jobs)"
    using ok upd unfolding jobs_ok_def ux_message_edit_def
    by (intro distinct_filter_map) (auto simp: same_row_def ux_message_edit_key_def)
  moreover have "fk_retry_of (map g jobs)"
    using ok upd ids unfolding jobs_ok_def fk_retry_of_def
    by (auto simp: same_row_def simp del: map_map split: option.splits)
  moreover have "distinct (map job_id (map g jobs))" using ok unfolding ids by (simp add: jobs_ok_def)
  ultimately show ?thesis using upd unfolding jobs_ok_def by auto
qed

lemma update_where_ok:
  assumes "jobs_ok (db_jobs d)"
    and "\<And>j. j \<in> set (db_jobs d) \<Longrightarrow> p j \<Longrightarrow> ck_job (f j) \<and> same_row j (f j)"
  shows "update_where p f d = Inr (length (filter p (db_jobs d)),
    d\<lparr>db_jobs := map (\<lambda>j. if p j then f j else j) (db_jobs d)\<rparr>)"
    and "jobs_ok (map (\<lambda>j. if p j then f j else j) (db_jobs d))"
proof -
  show ok: "jobs_ok (map (\<lambda>j. if p j then f j else j) (db_jobs d))"
    using assms by (intro jobs_ok_map) (auto simp: jobs_ok_def)
  then show "update_where p f d = Inr (length (filter p (db_jobs d)),
    d\<lparr>db_jobs := map (\<lambda>j. if p j then f j else j) (db_jobs d)\<rparr>)"
    by (simp add: update_where_def put_jobs_def)
qed

lemma put_jobs_InrD: "put_jobs d jobs = Inr d' \<Longrightarrow> d' = d\<lparr>db_jobs := jobs\<rparr> \<and> jobs_ok jobs"
  by (auto simp: put_jobs_def split: if_splits)

lemma update_where_InrD:
  "update_where p f d = Inr (n, d') \<Longrightarrow>
   n = length (filter p (db_jobs d)) \<and>
   d' = d\<lparr>db_jobs := map (\<lambda>j. if p j then f j else j) (db_jobs d)\<rparr> \<and> jobs_ok (db_jobs d')"
  by (auto simp: update_where_def dest: put_jobs_InrD split: sum.splits)

lemma update_owned_InrD:
  assumes "update_owned i w f d = Inr d'"
  shows "d' = d\<lparr>db_jobs := map (\<lambda>j. if owned_by i w j then f j else j) (db_jobs d)\<rparr> \<and>
    jobs_ok (db_jobs d') \<and> (\<exists>j\<in>set (db_jobs d). owned_by i w j)"
  using assms
  by (auto simp: update_owned_def filter_empty_conv dest!: update_where_InrD split: sum.splits if_splits)

lemma insert_job_InrD:
  "insert_job d j = Inr (r, d') \<Longrightarrow>
   r = j\<lparr>job_id := db_next_job_id d\<rparr> \<and>
   d' = d\<lparr>db_jobs := db_jobs d @ [r], db_next_job_id := db_next_job_id d + 1\<rparr> \<and>
   jobs_ok (db_jobs d')"
  by (auto simp: insert_job_def Let_def dest: put_jobs_InrD split: sum.splits)

subsection \<open>Lost leases\<close>

text \<open>
  Without a running row locked by the worker, the update matches nothing: the operation
  is a lost lease, whatever the rest of the table holds.
\<close>

lemma update_owned_lost:
  assumes "jobs_ok (db_jobs d)" "\<forall>j\<in>set (db_jobs d). \<not> owned_by i w j"
  shows "update_owned i w f d = Inl LeaseLost"
proof -
  have "map (\<lambda>j. if owned_by i w j then f j else j) (db_jobs d) = db_jobs d"
    using assms(2) by (induction "db_jobs d") (auto simp: map_idI)
  then show ?thesis using assms
    by (simp add: update_owned_def update_where_def put_jobs_def filter_empty_conv)
qed

lemma update_owned_ok:
  assumes ok: "jobs_ok (db_jobs d)" and own: "\<exists>j\<in>set (db_jobs d). owned_by i w j"
    and upd: "\<And>j. j \<in> set (db_jobs d) \<Longrightarrow> owned_by i w j \<Longrightarrow> ck_job (f j) \<and> same_row j (f j)"
  shows "update_owned i w f d =
    Inr (d\<lparr>db_jobs := map (\<lambda>j. if owned_by i w j then f j else j) (db_jobs d)\<rparr>)"
  using own update_where_ok[OF ok upd] by (auto simp: update_owned_def filter_empty_conv)

subsection \<open>A row keeps the constraints through each update\<close>

text \<open>No row was started after the time of the operation.\<close>

definition started_by :: "py_time \<Rightarrow> db \<Rightarrow> bool" where
  "started_by now d = (\<forall>j\<in>set (db_jobs d). case job_started_at j of None \<Rightarrow> True | Some s \<Rightarrow> s \<le> now)"

lemma started_byD: "started_by now d \<Longrightarrow> j \<in> set (db_jobs d) \<Longrightarrow> job_started_at j = Some s \<Longrightarrow> s \<le> now"
  by (auto simp: started_by_def split: option.splits)

lemma started_by_mono: "started_by t d \<Longrightarrow> t \<le> u \<Longrightarrow> started_by u d"
  by (fastforce simp: started_by_def split: option.splits)

lemma ck_start_job:
  assumes "ck_job j" "job_active j" "0 < lease"
  shows "ck_job (start_job w lease now j) \<and> same_row j (start_job w lease now j)"
  using assms
  by (auto simp: ck_job_def start_job_def same_row_def job_active_def split: option.splits)

lemma ck_renewed:
  assumes "ck_job j" "job_status j = Running" "0 < lease"
  shows "ck_job (j\<lparr>job_locked_at := Some now, job_lease_expires_at := Some (now + lease),
     job_updated_at := now\<rparr>)"
  using assms by (auto simp: ck_job_def split: option.splits)

lemma ck_finished:
  assumes "ck_job j" "job_active j" "\<And>s. job_started_at j = Some s \<Longrightarrow> s \<le> now"
    and "st \<in> {Succeeded, Failed} \<longrightarrow> job_status j = Running" "st \<in> {Succeeded, Failed, Canceled}"
    and "st = Failed \<longrightarrow> code \<noteq> None"
  shows "ck_job (j\<lparr>job_status := st, job_finished_at := Some now, job_result := r,
     job_error_code := code, job_error_message := m, job_lease_expires_at := None,
     job_updated_at := now\<rparr>)"
proof -
  have "st = Succeeded \<or> st = Failed \<Longrightarrow> job_started_at j \<noteq> None" 
    using assms(1,4) by (simp add: ck_job_def)
  moreover have "(case job_started_at j of None \<Rightarrow> True | Some s \<Rightarrow> s \<le> now)"
    using assms(3) by (simp split: option.split)
  ultimately show ?thesis using assms unfolding ck_job_def by (elim conjE insertE emptyE) simp_all
qed

subsection \<open>The operations of the queue on a consistent table\<close>

lemma jobs_ok_unique:
  "jobs_ok jobs \<Longrightarrow> j \<in> set jobs \<Longrightarrow> k \<in> set jobs \<Longrightarrow> job_id j = job_id k \<Longrightarrow> j = k"
  by (auto simp: jobs_ok_def distinct_map inj_on_def)

lemma candidates_sub:
  "j \<in> set (acquire_candidates locked en supp batch now d) \<Longrightarrow>
   j \<in> set (db_jobs d) \<and> acquirable en supp now j \<and> \<not> locked (job_id j)"
  unfolding acquire_candidates_def by (drule in_set_takeD) simp

lemma candidate_id:
  assumes "jobs_ok (db_jobs d)" "j \<in> set (db_jobs d)"
    and "job_id j \<in> set (map job_id (acquire_candidates locked en supp batch now d))"
  shows "j \<in> set (acquire_candidates locked en supp batch now d)"
  using assms by (auto dest: candidates_sub jobs_ok_unique)

lemma acquirable_active: "acquirable en supp now j \<Longrightarrow> job_active j"
  by (auto simp: acquirable_def job_active_def)

lemma acquire_jobs_eq:
  assumes ok: "jobs_ok (db_jobs d)" and lease: "0 < lease"
  shows "acquire_jobs locked w en lease batch supp now d =
    (let picked = acquire_candidates locked en supp batch now d in
     Inr (map (start_job w lease now) picked,
       d\<lparr>db_jobs := map (\<lambda>j. if j \<in> set picked then start_job w lease now j else j) (db_jobs d)\<rparr>))"
proof -
  define picked where "picked = acquire_candidates locked en supp batch now d"
  have sel: "j \<in> set (db_jobs d) \<Longrightarrow> (job_id j \<in> set (map job_id picked)) = (j \<in> set picked)" for j
    using candidate_id[OF ok] by (auto simp: picked_def)
  have upd: "ck_job (start_job w lease now j) \<and> same_row j (start_job w lease now j)"
    if j: "j \<in> set (db_jobs d)" "job_id j \<in> set (map job_id picked)" for j
  proof (rule ck_start_job[OF _ _ lease])
    have "j \<in> set picked" using sel[OF j(1)] j(2) by blast
    then show "job_active j" unfolding picked_def by (blast dest: candidates_sub acquirable_active)
    show "ck_job j" using j ok by (simp add: jobs_ok_def)
  qed
  have "update_where (\<lambda>j. job_id j \<in> set (map job_id picked)) (start_job w lease now) d =
    Inr (length (filter (\<lambda>j. job_id j \<in> set (map job_id picked)) (db_jobs d)),
      d\<lparr>db_jobs := map (\<lambda>j. if job_id j \<in> set (map job_id picked) then start_job w lease now j else j)
        (db_jobs d)\<rparr>)"
    by (rule update_where_ok(1)[OF ok]) (rule upd)
  moreover have "map (\<lambda>j. if job_id j \<in> set (map job_id picked) then start_job w lease now j else j)
      (db_jobs d) = map (\<lambda>j. if j \<in> set picked then start_job w lease now j else j) (db_jobs d)"
    using sel by (simp cong: map_cong)
  ultimately show ?thesis by (simp add: acquire_jobs_def flip: picked_def)
qed

lemma renew_lease_eq:
  assumes "jobs_ok (db_jobs d)" "0 < lease"
  shows "renew_lease i w lease now d =
    (if \<exists>j\<in>set (db_jobs d). owned_by i w j
     then Inr (d\<lparr>db_jobs := map (\<lambda>j. if owned_by i w j then j\<lparr>job_locked_at := Some now,
       job_lease_expires_at := Some (now + lease), job_updated_at := now\<rparr> else j) (db_jobs d)\<rparr>)
     else Inl LeaseLost)"
proof (cases "\<exists>j\<in>set (db_jobs d). owned_by i w j")
  case True
  have "ck_job (j\<lparr>job_locked_at := Some now, job_lease_expires_at := Some (now + lease),
       job_updated_at := now\<rparr>) \<and>
     same_row j (j\<lparr>job_locked_at := Some now, job_lease_expires_at := Some (now + lease),
       job_updated_at := now\<rparr>)"
    if "j \<in> set (db_jobs d)" "owned_by i w j" for j
    using that assms ck_renewed[of j lease now]
    by (simp add: jobs_ok_def owned_by_def same_row_def job_active_def)
  from update_owned_ok[OF assms(1) True this] True show ?thesis by (simp add: renew_lease_def)
next
  case False
  with update_owned_lost[OF assms(1)] show ?thesis by (simp add: renew_lease_def)
qed

definition succeed_row :: "pyval pydict option \<Rightarrow> py_time \<Rightarrow> job \<Rightarrow> job" where
  "succeed_row result now j = j\<lparr>job_status := Succeeded, job_finished_at := Some now,
     job_result := Some (sanitize_result_json result), job_error_code := None,
     job_error_message := None, job_lease_expires_at := None, job_updated_at := now\<rparr>"

definition fail_row :: "string \<Rightarrow> string \<Rightarrow> py_time \<Rightarrow> job \<Rightarrow> job" where
  "fail_row code message now j = j\<lparr>job_status := Failed, job_finished_at := Some now,
     job_result := None, job_error_code := Some code,
     job_error_message := Some (redact_error_message (Some message)),
     job_lease_expires_at := None, job_updated_at := now\<rparr>"

definition cancel_row :: "py_time \<Rightarrow> job \<Rightarrow> job" where
  "cancel_row now j = j\<lparr>job_status := Canceled, job_finished_at := Some now,
     job_lease_expires_at := None, job_updated_at := now\<rparr>"

lemma ck_succeed_row:
  "ck_job j \<Longrightarrow> job_status j = Running \<Longrightarrow> (\<And>s. job_started_at j = Some s \<Longrightarrow> s \<le> now) \<Longrightarrow>
   ck_job (succeed_row r now j) \<and> same_row j (succeed_row r now j)"
  using ck_finished[where st = Succeeded and j = j and now = now and code = None]
  by (simp add: succeed_row_def same_row_def job_active_def)

lemma ck_fail_row:
  "ck_job j \<Longrightarrow> job_status j = Running \<Longrightarrow> (\<And>s. job_started_at j = Some s \<Longrightarrow> s \<le> now) \<Longrightarrow>
   ck_job (fail_row code m now j) \<and> same_row j (fail_row code m now j)"
  using ck_finished[where st = Failed and j = j and now = now and code = "Some code"]
  by (simp add: fail_row_def same_row_def job_active_def)

lemma ck_cancel_row:
  "ck_job j \<Longrightarrow> job_active j \<Longrightarrow> (\<And>s. job_started_at j = Some s \<Longrightarrow> s \<le> now) \<Longrightarrow>
   ck_job (cancel_row now j) \<and> same_row j (cancel_row now j)"
  using ck_finished[where st = Canceled and j = j and now = now and code = "job_error_code j"
     and r = "job_result j" and m = "job_error_message j"]
  by (simp add: cancel_row_def same_row_def job_active_def)

lemma update_owned_cases:
  assumes "jobs_ok (db_jobs d)" "started_by now d"
    and "\<And>j. ck_job j \<Longrightarrow> job_status j = Running \<Longrightarrow> (\<And>s. job_started_at j = Some s \<Longrightarrow> s \<le> now) \<Longrightarrow>
      ck_job (f j) \<and> same_row j (f j)"
  shows "update_owned i w f d =
    (if \<exists>j\<in>set (db_jobs d). owned_by i w j
     then Inr (d\<lparr>db_jobs := map (\<lambda>j. if owned_by i w j then f j else j) (db_jobs d)\<rparr>)
     else Inl LeaseLost)"
proof (cases "\<exists>j\<in>set (db_jobs d). owned_by i w j")
  case True
  have "ck_job (f j) \<and> same_row j (f j)" if "j \<in> set (db_jobs d)" "owned_by i w j" for j
    using that assms by (intro assms(3)) (auto simp: jobs_ok_def owned_by_def dest: started_byD)
  from update_owned_ok[OF assms(1) True this] True show ?thesis by simp
next
  case False
  with update_owned_lost[OF assms(1)] show ?thesis by simp
qed

lemma mark_succeeded_eq:
  "jobs_ok (db_jobs d) \<Longrightarrow> started_by now d \<Longrightarrow> mark_succeeded i w r now d =
    (if \<exists>j\<in>set (db_jobs d). owned_by i w j
     then Inr (d\<lparr>db_jobs := map (\<lambda>j. if owned_by i w j then succeed_row r now j else j) (db_jobs d)\<rparr>)
     else Inl LeaseLost)"
  unfolding mark_succeeded_def succeed_row_def[symmetric]
  by (rule update_owned_cases) (auto dest: ck_succeed_row)

lemma mark_failed_eq:
  "jobs_ok (db_jobs d) \<Longrightarrow> started_by now d \<Longrightarrow> mark_failed i w code m now d =
    (if \<exists>j\<in>set (db_jobs d). owned_by i w j
     then Inr (d\<lparr>db_jobs := map (\<lambda>j. if owned_by i w j then fail_row code m now j else j) (db_jobs d)\<rparr>)
     else Inl LeaseLost)"
  unfolding mark_failed_def fail_row_def[symmetric]
  by (rule update_owned_cases) (auto dest: ck_fail_row)

lemma mark_canceled_eq:
  assumes "jobs_ok (db_jobs d)" "started_by now d"
  shows "mark_canceled i now d =
    Inr (d\<lparr>db_jobs := map (\<lambda>j. if job_id j = i \<and> job_active j then cancel_row now j else j) (db_jobs d)\<rparr>)"
proof -
  have "ck_job (cancel_row now j) \<and> same_row j (cancel_row now j)"
    if "j \<in> set (db_jobs d)" "job_id j = i \<and> job_active j" for j
    using that assms by (intro ck_cancel_row) (auto simp: jobs_ok_def dest: started_byD)
  from update_where_ok(1)[OF assms(1) this] show ?thesis
    by (simp add: mark_canceled_def cancel_row_def[symmetric])
qed

end
