(* ===== verification/Job_Service.thy ===== *)
theory Job_Service
  imports Job_Store
begin

section \<open>The job service\<close>

text \<open>
  \<open>backend/app/services/job_service.py\<close> with the pagination of
  \<open>backend/app/schemas/common.py\<close> and \<open>backend/app/api/responses.py\<close>: the listing and
  the detail view, and the retry of a failed job, which checks for an active retry, resets the
  failed document version of an ingest job and inserts the retry. The check reads a snapshot
  and the insert runs on the current database: between the two another transaction may commit
  (\<open>retry_job_in\<close> takes both), and the unique index decides.
\<close>

datatype service_error =
    ResourceNotFound
  | JobNotReady
  | JobActiveRetryExists int "int option"
  | ValidationFailed string

subsection \<open>Pagination\<close>

record pagination_params =
  page :: nat
  page_size :: nat

record pagination_meta =
  meta_page :: nat
  meta_page_size :: nat
  meta_total :: nat
  meta_has_next :: bool

definition page_params_ok :: "pagination_params \<Rightarrow> bool" where
  "page_params_ok p = (1 \<le> page p \<and> 1 \<le> page_size p \<and> page_size p \<le> 100)"

definition page_offset :: "pagination_params \<Rightarrow> nat" where
  "page_offset p = (page p - 1) * page_size p"

definition make_pagination_meta :: "pagination_params \<Rightarrow> nat \<Rightarrow> pagination_meta" where
  "make_pagination_meta p tot =
    \<lparr>meta_page = page p, meta_page_size = page_size p, meta_total = tot,
     meta_has_next = page_offset p + page_size p < tot\<rparr>"

subsection \<open>Views\<close>

record job_item =
  item_job_id :: int
  item_job_type :: string
  item_status :: jstatus
  item_priority :: int
  item_target_type :: "string option"
  item_target_id :: "int option"
  item_retry_of :: "int option"
  item_retry_count :: int
  item_created_by :: "int option"
  item_started_at :: "py_time option"
  item_finished_at :: "py_time option"
  item_created_at :: py_time
  item_updated_at :: py_time
  item_error_code :: "string option"
  item_error_message :: "string option"
  item_payload :: "pyval pydict"

record job_detail = job_item +
  detail_locked_at :: "py_time option"
  detail_lease_expires_at :: "py_time option"
  detail_result :: "pyval pydict option"
  detail_source_job_id :: "int option"
  detail_active_retry_id :: "int option"

definition str_present :: "string option \<Rightarrow> bool" where
  "str_present s = (s \<noteq> None \<and> s \<noteq> Some [])"

definition safe_error_message :: "job \<Rightarrow> string option" where
  "safe_error_message j =
     (if str_present (job_error_message j) then Some (redact_error_message (job_error_message j))
      else if job_status j = Failed \<or> str_present (job_error_code j)
      then Some (redact_error_message (job_error_message j))
      else None)"

definition to_item :: "job \<Rightarrow> job_item" where
  "to_item j =
    \<lparr>item_job_id = job_id j, item_job_type = job_type j, item_status = job_status j,
     item_priority = job_priority j, item_target_type = job_target_type j,
     item_target_id = job_target_id j, item_retry_of = job_retry_of j,
     item_retry_count = job_retry_count j, item_created_by = job_created_by j,
     item_started_at = job_started_at j, item_finished_at = job_finished_at j,
     item_created_at = job_created_at j, item_updated_at = job_updated_at j,
     item_error_code = job_error_code j, item_error_message = safe_error_message j,
     item_payload = sanitize_job_payload (job_payload j)\<rparr>"

definition to_detail :: "db \<Rightarrow> job \<Rightarrow> job_detail" where
  "to_detail d j = job_item.extend (to_item j)
    (job_detail.fields (job_locked_at j) (job_lease_expires_at j)
      (case job_result j of None \<Rightarrow> None
       | Some r \<Rightarrow> if r = [] then None else Some (sanitize_result_json (Some r)))
      (job_retry_of j)
      (map_option job_id (find_active_retry (original_source_job_id j) d)))"

definition job_status_of_text :: "string \<Rightarrow> jstatus option" where
  "job_status_of_text s = map_of
     [(''queued'', Queued), (''running'', Running), (''succeeded'', Succeeded),
      (''failed'', Failed), (''canceled'', Canceled)] s"

definition service_list_jobs :: "string option \<Rightarrow> string option \<Rightarrow> string option \<Rightarrow> int option \<Rightarrow>
    pagination_params \<Rightarrow> db \<Rightarrow> service_error + job_item list \<times> pagination_meta" where
  "service_list_jobs st jtype ttype tid p d =
     (if st \<noteq> None \<and> job_status_of_text (the st) = None then Inl (ValidationFailed ''status'')
      else (let (rows, tot) = list_jobs (Option.bind st job_status_of_text) jtype ttype tid
                  (page_offset p) (page_size p) d
            in Inr (map to_item rows, make_pagination_meta p tot)))"

definition get_job_detail :: "int \<Rightarrow> db \<Rightarrow> service_error + job_detail" where
  "get_job_detail i d = (case get_job i d of None \<Rightarrow> Inl ResourceNotFound | Some j \<Rightarrow> Inr (to_detail d j))"

subsection \<open>Retry\<close>

definition get_version :: "int \<Rightarrow> db \<Rightarrow> document_version option" where
  "get_version i d = find (\<lambda>v. ver_id v = i) (db_versions d)"

definition reset_version :: "py_time \<Rightarrow> document_version \<Rightarrow> document_version" where
  "reset_version now v = v\<lparr>ver_status := VProcessing, ver_error_code := None,
     ver_is_active := False, ver_updated_at := now\<rparr>"

definition prepare_document_ingest_retry :: "job \<Rightarrow> py_time \<Rightarrow> db \<Rightarrow> service_error + db" where
  "prepare_document_ingest_retry j now d =
     (if job_type j \<noteq> ''document_ingest'' \<or> job_target_type j \<noteq> Some ''document_version'' then Inr d
      else case job_target_id j of
        None \<Rightarrow> Inl ResourceNotFound
      | Some t \<Rightarrow> (case get_version t d of
          None \<Rightarrow> Inl ResourceNotFound
        | Some v \<Rightarrow>
            if ver_status v \<noteq> VFailed then Inr d
            else Inr (d\<lparr>
              db_versions := map (\<lambda>w. if ver_id w = t then reset_version now w else w) (db_versions d),
              db_documents := map (\<lambda>x. if doc_id x = ver_document_id v
                then x\<lparr>doc_updated_at := now\<rparr> else x) (db_documents d)\<rparr>)))"

record retry_response =
  retry_job_id :: int
  retry_source_job_id :: int
  retry_count :: int

definition retry_job_in :: "db \<Rightarrow> int \<Rightarrow> int \<Rightarrow> py_time \<Rightarrow> db \<Rightarrow>
    service_error + retry_response \<times> db" where
  "retry_job_in seen i uid now d =
     (case get_job i seen of
        None \<Rightarrow> Inl ResourceNotFound
      | Some j \<Rightarrow>
          if job_status j \<noteq> Failed then Inl JobNotReady
          else (let src = original_source_job_id j in
            case find_active_retry src seen of
              Some a \<Rightarrow> Inl (JobActiveRetryExists src (Some (job_id a)))
            | None \<Rightarrow> (case prepare_document_ingest_retry j now d of
                Inl e \<Rightarrow> Inl e
              | Inr d1 \<Rightarrow> (case create_retry_job j (Some uid) now d1 of
                  Inl _ \<Rightarrow> Inl (JobActiveRetryExists src (map_option job_id (find_active_retry src d)))
                | Inr (r, d2) \<Rightarrow> Inr (\<lparr>retry_job_id = job_id r, retry_source_job_id = src,
                    retry_count = job_retry_count r\<rparr>, d2)))))"

definition retry_job :: "int \<Rightarrow> int \<Rightarrow> py_time \<Rightarrow> db \<Rightarrow> service_error + retry_response \<times> db" where
  "retry_job i uid now d = retry_job_in d i uid now d"

subsection \<open>What an acquisition picks\<close>

lemma take_sort_key_least:
  assumes "x \<in> set xs" "x \<notin> set (take n (sort_key f xs))" "y \<in> set (take n (sort_key f xs))"
  shows "f y \<le> f x" "length (take n (sort_key f xs)) = n"
proof -
  let ?s = "sort_key f xs"
  have "x \<in> set (take n ?s @ drop n ?s)" using assms(1) by simp
  then have x: "x \<in> set (drop n ?s)" using assms(2) by (metis UnE set_append)
  have "sorted (map f (take n ?s) @ map f (drop n ?s))"
    by (metis append_take_drop_id map_append sorted_sort_key)
  with x assms(3) show "f y \<le> f x" by (auto simp: sorted_append)
  from x have "n < length ?s" by (cases "n < length ?s") auto
  then show "length (take n ?s) = n" by simp
qed

subsection \<open>Inserting a retry\<close>

lemma original_source_in_table:
  assumes "jobs_ok (db_jobs d)" "j \<in> set (db_jobs d)"
  shows "original_source_job_id j \<in> set (map job_id (db_jobs d))"
proof -
  have "\<forall>r. job_retry_of j = Some r \<longrightarrow> r \<in> set (map job_id (db_jobs d))"
    using assms by (fastforce simp: jobs_ok_def fk_retry_of_def)
  then show ?thesis using assms(2) by (auto simp: original_source_job_id_def split: option.split)
qed

lemma first_sorted_None: "(case sort_key f xs of [] \<Rightarrow> None | j # _ \<Rightarrow> Some j) = None \<longleftrightarrow> xs = []"
proof -
  have "sort_key f xs = [] \<longleftrightarrow> xs = []" by (metis length_0_conv length_sort)
  then show ?thesis by (cases "sort_key f xs") simp_all
qed

lemma first_sorted_Some:
  "(case sort_key f xs of [] \<Rightarrow> None | j # _ \<Rightarrow> Some j) = Some a \<Longrightarrow> a \<in> set xs"
proof -
  assume "(case sort_key f xs of [] \<Rightarrow> None | j # _ \<Rightarrow> Some j) = Some a"
  then have "a \<in> set (sort_key f xs)" by (cases "sort_key f xs") simp_all
  then show ?thesis by simp
qed

lemma find_active_retry_None:
  "find_active_retry src d = None \<longleftrightarrow> \<not> (\<exists>j\<in>set (db_jobs d). job_retry_of j = Some src \<and> job_active j)"
  unfolding find_active_retry_def first_sorted_None filter_empty_conv by blast

lemma find_active_retry_Some:
  assumes "find_active_retry src d = Some a"
  shows "a \<in> set (db_jobs d) \<and> job_retry_of a = Some src \<and> job_active a"
  using first_sorted_Some[OF assms[unfolded find_active_retry_def]] by simp

lemma foldl_max_ge: "(c::int) \<le> foldl max c cs" "x \<in> set cs \<Longrightarrow> x \<le> foldl max c cs"
proof (induction cs arbitrary: c)
  case (Cons a cs)
  {
    case 1
    show ?case using Cons.IH(1)[of "max c a"] by simp
  next
    case 2
    then show ?case using Cons.IH(1)[of "max c a"] Cons.IH(2)[of "max c a"] by auto
  }
qed simp_all

lemma next_retry_count_greater:
  assumes "j \<in> set (db_jobs d)" "job_retry_of j = Some src"
  shows "job_retry_count j < next_retry_count src d"
proof -
  let ?cs = "map job_retry_count (filter (\<lambda>j. job_retry_of j = Some src) (db_jobs d))"
  have "job_retry_count j \<in> set ?cs" using assms by auto
  then obtain c cs where "?cs = c # cs" by (cases ?cs) auto
  moreover from this have "job_retry_count j \<le> foldl max c cs"
    using \<open>job_retry_count j \<in> set ?cs\<close> foldl_max_ge by (metis set_ConsD)
  ultimately show ?thesis by (simp add: next_retry_count_def)
qed

lemma next_retry_count_pos:
  assumes "jobs_ok (db_jobs d)"
  shows "1 \<le> next_retry_count src d"
proof (cases "filter (\<lambda>j. job_retry_of j = Some src) (db_jobs d)")
  case Nil
  then show ?thesis by (simp add: next_retry_count_def)
next
  case (Cons j js)
  then have "j \<in> set (db_jobs d)" "job_retry_of j = Some src" by (auto dest: filter_eq_ConsD)
  then have "job_retry_count j < next_retry_count src d" by (rule next_retry_count_greater)
  moreover have "0 \<le> job_retry_count j" using assms \<open>j \<in> _\<close> by (auto simp: jobs_ok_def ck_job_def)
  ultimately show ?thesis by simp
qed

lemma insert_job_ok:
  assumes ok: "jobs_ok (db_jobs d)" and fresh: "job_ids_below_next d"
    and ck: "ck_job (j\<lparr>job_id := db_next_job_id d\<rparr>)"
    and fk: "\<And>r. job_retry_of j = Some r \<Longrightarrow> r \<in> set (map job_id (db_jobs d))"
    and retry: "\<And>k. ux_active_retry_key j \<Longrightarrow> k \<in> set (db_jobs d) \<Longrightarrow> ux_active_retry_key k \<Longrightarrow>
        job_retry_of k \<noteq> job_retry_of j"
    and edit: "\<And>k. ux_message_edit_key j \<Longrightarrow> k \<in> set (db_jobs d) \<Longrightarrow> ux_message_edit_key k \<Longrightarrow>
        job_target_id k \<noteq> job_target_id j"
  shows "insert_job d j = Inr (j\<lparr>job_id := db_next_job_id d\<rparr>,
    d\<lparr>db_jobs := db_jobs d @ [j\<lparr>job_id := db_next_job_id d\<rparr>], db_next_job_id := db_next_job_id d + 1\<rparr>)"
proof -
  let ?j = "j\<lparr>job_id := db_next_job_id d\<rparr>"
  have key: "ux_active_retry_key ?j = ux_active_retry_key j" "ux_message_edit_key ?j = ux_message_edit_key j"
    by (simp_all add: ux_active_retry_key_def ux_message_edit_key_def job_active_def)
  have "distinct (map job_id (db_jobs d @ [?j]))"
    using ok fresh by (auto simp: jobs_ok_def job_ids_below_next_def)
  moreover have "\<forall>k\<in>set (db_jobs d @ [?j]). ck_job k" using ok ck by (auto simp: jobs_ok_def)
  moreover have "ux_active_retry (db_jobs d @ [?j])"
    using ok retry unfolding jobs_ok_def ux_active_retry_def by (auto simp: key) (metis (no_types))
  moreover have "ux_message_edit (db_jobs d @ [?j])"
    using ok edit unfolding jobs_ok_def ux_message_edit_def by (auto simp: key) (metis (no_types))
  moreover have "fk_retry_of (db_jobs d @ [?j])"
    using ok fk by (auto simp: jobs_ok_def fk_retry_of_def split: option.split)
  ultimately have "jobs_ok (db_jobs d @ [?j])" by (simp only: jobs_ok_def)
  then show ?thesis by (simp add: insert_job_def put_jobs_def Let_def)
qed

lemma prepare_keeps_jobs:
  "prepare_document_ingest_retry j now d = Inr d1 \<Longrightarrow>
   db_jobs d1 = db_jobs d \<and> db_next_job_id d1 = db_next_job_id d"
  by (auto simp: prepare_document_ingest_retry_def split: if_splits option.splits)

lemma get_job_Some: "get_job i d = Some j \<Longrightarrow> j \<in> set (db_jobs d) \<and> job_id j = i"
  by (auto simp: get_job_def find_Some_iff in_set_conv_nth)

lemma retry_row_simps [simp]:
  "job_status (retry_row j by now d) = Queued"
  "job_type (retry_row j by now d) = job_type j"
  "job_target_type (retry_row j by now d) = job_target_type j"
  "job_target_id (retry_row j by now d) = job_target_id j"
  "job_priority (retry_row j by now d) = job_priority j"
  "job_retry_of (retry_row j by now d) = Some (original_source_job_id j)"
  "job_retry_count (retry_row j by now d) = next_retry_count (original_source_job_id j) d"
  "job_started_at (retry_row j by now d) = None"
  "job_finished_at (retry_row j by now d) = None"
  "job_lease_expires_at (retry_row j by now d) = None"
  "job_locked_at (retry_row j by now d) = None"
  by (simp_all add: retry_row_def new_job_def Let_def)

lemma ck_retry_row:
  assumes "jobs_ok (db_jobs d)" "ck_job j" "original_source_job_id j \<noteq> i"
  shows "ck_job (retry_row j by now d\<lparr>job_id := i\<rparr>)"
  using assms next_retry_count_pos[OF assms(1), of "original_source_job_id j"]
  by (simp add: ck_job_def)

text \<open>Another unfinished edit of the message that a retried edit job targets.\<close>

definition message_edit_conflict :: "job \<Rightarrow> db \<Rightarrow> bool" where
  "message_edit_conflict j d =
     (job_type j = message_edit_type \<and>
      (\<exists>k\<in>set (db_jobs d). ux_message_edit_key k \<and> job_target_id k = job_target_id j))"

lemma create_retry_job_ok:
  assumes ok: "jobs_ok (db_jobs d)" and fresh: "job_ids_below_next d" and j: "j \<in> set (db_jobs d)"
    and none: "find_active_retry (original_source_job_id j) d = None"
    and edit: "\<not> message_edit_conflict j d"
  shows "\<exists>r. create_retry_job j by now d = Inr (r, d\<lparr>db_jobs := db_jobs d @ [r],
      db_next_job_id := db_next_job_id d + 1\<rparr>) \<and>
    r = (retry_row j by now d)\<lparr>job_id := db_next_job_id d\<rparr>"
proof -
  let ?src = "original_source_job_id j"
  have src: "?src \<in> set (map job_id (db_jobs d))" using ok j by (rule original_source_in_table)
  then have "?src \<noteq> db_next_job_id d" using fresh by (auto simp: job_ids_below_next_def)
  then have ck: "ck_job (retry_row j by now d\<lparr>job_id := db_next_job_id d\<rparr>)"
    using ck_retry_row ok j by (simp add: jobs_ok_def)
  have key: "job_retry_of k \<noteq> Some ?src" if "k \<in> set (db_jobs d)" "ux_active_retry_key k" for k
    using none that by (auto simp: find_active_retry_None ux_active_retry_key_def)
  have ekey: "job_target_id k \<noteq> job_target_id j"
    if "ux_message_edit_key (retry_row j by now d)" "k \<in> set (db_jobs d)" "ux_message_edit_key k" for k
    using edit that by (auto simp: message_edit_conflict_def ux_message_edit_key_def)
  show ?thesis unfolding create_retry_job_def
    by (subst insert_job_ok[OF ok fresh ck]) (use src key ekey in auto)
qed

lemma create_retry_job_conflict:
  assumes a: "find_active_retry (original_source_job_id j) d = Some a"
  shows "create_retry_job j by now d = Inl IntegrityError"
proof -
  let ?r = "(retry_row j by now d)\<lparr>job_id := db_next_job_id d\<rparr>"
  have "ux_active_retry_key ?r" by (simp add: ux_active_retry_key_def job_active_def)
  moreover have "ux_active_retry_key a" "a \<in> set (db_jobs d)" "job_retry_of a = job_retry_of ?r"
    using find_active_retry_Some[OF a] by (simp_all add: ux_active_retry_key_def)
  ultimately have "\<not> ux_active_retry (db_jobs d @ [?r])"
    unfolding ux_active_retry_def by (auto simp: rev_image_eqI)
  then have "\<not> jobs_ok (db_jobs d @ [?r])" by (simp add: jobs_ok_def)
  then show ?thesis by (simp add: create_retry_job_def insert_job_def put_jobs_def)
qed

end
