(* ===== verification/Job_Lifecycle.thy ===== *)
theory Job_Lifecycle
  imports Job_Service
begin

section \<open>The life of a job\<close>

text \<open>
  The queue as a state machine: a state is the clock and the database, a step is one
  committed transaction of an API request or of any worker, at a later time. A transaction
  that raises is rolled back and is no step. The lease duration is the configuration's, the
  same for every worker. The lemmas lift the single operations to all the runs of the system:
  the constraints of the table never reject a worker's write, a finished job is never touched
  again, statuses move only along the documented transitions, and a lease excludes every other
  worker until it expires.
\<close>

definition job_terminal :: "job \<Rightarrow> bool" where
  "job_terminal j = (\<not> job_active j)"

inductive job_step :: "int \<Rightarrow> py_time \<times> db \<Rightarrow> py_time \<times> db \<Rightarrow> bool" for lease :: int where
  step_create: "t \<le> u \<Longrightarrow>
     create_job jtype ttype tid payload creator prio u d = Inr (j, d') \<Longrightarrow>
     job_step lease (t, d) (u, d')"
| step_acquire: "t \<le> u \<Longrightarrow>
     acquire_jobs locked worker enabled lease batch supported u d = Inr (js, d') \<Longrightarrow>
     job_step lease (t, d) (u, d')"
| step_renew: "t \<le> u \<Longrightarrow> renew_lease i worker lease u d = Inr d' \<Longrightarrow>
     job_step lease (t, d) (u, d')"
| step_succeed: "t \<le> u \<Longrightarrow> mark_succeeded i worker result u d = Inr d' \<Longrightarrow>
     job_step lease (t, d) (u, d')"
| step_fail: "t \<le> u \<Longrightarrow> mark_failed i worker code message u d = Inr d' \<Longrightarrow>
     job_step lease (t, d) (u, d')"
| step_cancel: "t \<le> u \<Longrightarrow> mark_canceled i u d = Inr d' \<Longrightarrow>
     job_step lease (t, d) (u, d')"
| step_retry: "t \<le> u \<Longrightarrow> retry_job_in seen i uid u d = Inr (resp, d') \<Longrightarrow>
     job_step lease (t, d) (u, d')"


text \<open>The documented transitions; a renewed lease and a take-over keep a job running.\<close>

fun job_transition :: "jstatus \<Rightarrow> jstatus \<Rightarrow> bool" where
  "job_transition Queued Running = True"
| "job_transition Queued Canceled = True"
| "job_transition Running s = (s \<noteq> Queued)"
| "job_transition s t = (s = t)"

text \<open>
  What a step does to the table: every row is kept or updated in place by one of five row
  updates, and at most one queued row with a fresh identifier is added at the end.
\<close>

inductive row_step :: "int \<Rightarrow> py_time \<Rightarrow> job \<Rightarrow> job \<Rightarrow> bool" for lease :: int and u :: py_time where
  row_same: "row_step lease u j j"
| row_start: "job_status j = Queued \<or> (job_status j = Running \<and> lease_expired u j) \<Longrightarrow>
     row_step lease u j (start_job w lease u j)"
| row_renew: "job_status j = Running \<Longrightarrow>
     row_step lease u j (j\<lparr>job_locked_at := Some u, job_lease_expires_at := Some (u + lease),
       job_updated_at := u\<rparr>)"
| row_succeed: "job_status j = Running \<Longrightarrow> row_step lease u j (succeed_row r u j)"
| row_fail: "job_status j = Running \<Longrightarrow> row_step lease u j (fail_row code m u j)"
| row_cancel: "job_active j \<Longrightarrow> row_step lease u j (cancel_row u j)"

definition queue_inv :: "int \<Rightarrow> py_time \<times> db \<Rightarrow> bool" where
  "queue_inv lease s = (case s of (t, d) \<Rightarrow>
     jobs_ok (db_jobs d) \<and> job_ids_below_next d \<and> started_by t d \<and>
     (\<forall>j\<in>set (db_jobs d). job_status j = Running \<longrightarrow>
        (\<exists>l. job_locked_at j = Some l \<and> l \<le> t \<and> job_lease_expires_at j = Some (l + lease))))"

text \<open>The row added by a step, if any.\<close>

definition fresh_row :: "db \<Rightarrow> job list \<Rightarrow> bool" where
  "fresh_row d new = (new = [] \<or>
     (\<exists>j. new = [j] \<and> job_status j = Queued \<and> job_started_at j = None \<and> job_id j = db_next_job_id d))"

lemma map_list_all2: "(\<And>x. x \<in> set xs \<Longrightarrow> R x (f x)) \<Longrightarrow> list_all2 R xs (map f xs)"
  by (simp add: list_all2_map2 list.rel_refl_strong)

lemma insert_job_shape:
  assumes "insert_job d j = Inr (r, d')" "job_status j = Queued" "job_started_at j = None"
  shows "\<exists>new. db_jobs d' = db_jobs d @ new \<and> fresh_row d new \<and> jobs_ok (db_jobs d') \<and>
    db_next_job_id d' = db_next_job_id d + length new"
  using insert_job_InrD[OF assms(1)] assms(2,3) by (auto simp: fresh_row_def)

lemma update_owned_shape:
  assumes "update_owned i w f d = Inr d'" "\<And>j. owned_by i w j \<Longrightarrow> row_step lease u j (f j)"
  shows "list_all2 (row_step lease u) (db_jobs d) (db_jobs d')" "jobs_ok (db_jobs d')"
    "db_next_job_id d' = db_next_job_id d"
  using update_owned_InrD[OF assms(1)] assms(2) by (auto intro!: map_list_all2 row_same)

lemma step_shape:
  assumes "job_step lease (t, d) (u, d')" "jobs_ok (db_jobs d)" "0 < lease"
  shows "\<exists>old new. db_jobs d' = old @ new \<and> list_all2 (row_step lease u) (db_jobs d) old \<and>
    fresh_row d new \<and> jobs_ok (db_jobs d') \<and> db_next_job_id d' = db_next_job_id d + length new"
proof -
  have keep: ?thesis if "list_all2 (row_step lease u) (db_jobs d) (db_jobs d')" "jobs_ok (db_jobs d')"
    "db_next_job_id d' = db_next_job_id d"
    using that by (intro exI[of _ "db_jobs d'"] exI[of _ "[]"]) (simp add: fresh_row_def)
  have grow: ?thesis if "\<exists>new. db_jobs d' = db_jobs d @ new \<and> fresh_row d new \<and> jobs_ok (db_jobs d') \<and>
    db_next_job_id d' = db_next_job_id d + length new"
    using that by (blast intro: list.rel_refl row_same)
  from assms(1) show ?thesis
  proof cases
    case (step_create jtype ttype tid payload creator prio j)
    show ?thesis
      by (rule grow, rule insert_job_shape[OF step_create(2)[unfolded create_job_def]])
         (simp_all add: new_job_def)
  next
    case (step_acquire locked worker enabled batch supported js)
    let ?p = "acquire_candidates locked enabled supported batch u d"
    have d': "d' = d\<lparr>db_jobs := map (\<lambda>j. if j \<in> set ?p then start_job worker lease u j else j) (db_jobs d)\<rparr>"
      using step_acquire acquire_jobs_eq[OF assms(2,3)] by (simp add: Let_def)
    have row: "row_step lease u j (start_job worker lease u j)" if "j \<in> set ?p" for j
      using candidates_sub[OF that] by (auto simp: acquirable_def intro: row_start)
    show ?thesis
    proof (rule keep)
      show "list_all2 (row_step lease u) (db_jobs d) (db_jobs d')"
        unfolding d' using row by (auto intro!: map_list_all2 row_same)
      show "jobs_ok (db_jobs d')"
        using step_acquire(2) unfolding acquire_jobs_def Let_def
        by (auto dest: update_where_InrD split: sum.splits)
      show "db_next_job_id d' = db_next_job_id d" unfolding d' by simp
    qed
  next
    case (step_renew i worker)
    show ?thesis
      by (rule keep; rule update_owned_shape[OF step_renew(2)[unfolded renew_lease_def]])
         (auto simp: owned_by_def intro: row_renew)
  next
    case (step_succeed i worker result)
    show ?thesis
      by (rule keep; rule update_owned_shape[OF step_succeed(2)[unfolded mark_succeeded_def, folded succeed_row_def]])
         (auto simp: owned_by_def intro: row_succeed)
  next
    case (step_fail i worker code message)
    show ?thesis
      by (rule keep; rule update_owned_shape[OF step_fail(2)[unfolded mark_failed_def, folded fail_row_def]])
         (auto simp: owned_by_def intro: row_fail)
  next
    case (step_cancel i)
    then obtain n where "update_where (\<lambda>j. job_id j = i \<and> job_active j) (cancel_row u) d = Inr (n, d')"
      by (auto simp: mark_canceled_def cancel_row_def[abs_def] split: sum.splits)
    from update_where_InrD[OF this] show ?thesis
      by (intro keep) (auto intro!: map_list_all2 row_same row_cancel)
  next
    case (step_retry seen i uid resp)
    then obtain j d1 r where d1: "prepare_document_ingest_retry j u d = Inr d1"
      and c: "create_retry_job j (Some uid) u d1 = Inr (r, d')"
      by (auto simp: retry_job_in_def Let_def split: option.splits if_splits sum.splits)
    from c have "\<exists>new. db_jobs d' = db_jobs d1 @ new \<and> fresh_row d1 new \<and> jobs_ok (db_jobs d') \<and>
        db_next_job_id d' = db_next_job_id d1 + length new"
      by (intro insert_job_shape[OF c[unfolded create_retry_job_def]]) simp_all
    then show ?thesis using prepare_keeps_jobs[OF d1] by (intro grow) (simp add: fresh_row_def)
  qed
qed

lemma row_step_id: "row_step lease u j k \<Longrightarrow> job_id k = job_id j"
  by (induction rule: row_step.induct)
     (simp_all add: start_job_def succeed_row_def fail_row_def cancel_row_def)

lemma row_step_terminal: "row_step lease u j k \<Longrightarrow> job_terminal j \<Longrightarrow> k = j"
  by (induction rule: row_step.induct) (auto simp: job_terminal_def job_active_def)

lemma job_transition_refl [simp]: "job_transition st st"
  by (cases st) simp_all

lemma row_step_transition: "row_step lease u j k \<Longrightarrow> job_transition (job_status j) (job_status k)"
  by (induction rule: row_step.induct)
     (auto simp: start_job_def succeed_row_def fail_row_def cancel_row_def job_active_def)

lemma row_step_keeps_start:
  "row_step lease u j k \<Longrightarrow> job_started_at j \<noteq> None \<Longrightarrow> job_started_at k = job_started_at j"
  by (induction rule: row_step.induct)
     (auto simp: start_job_def succeed_row_def fail_row_def cancel_row_def)

lemma row_step_started:
  "row_step lease u j k \<Longrightarrow> (case job_started_at j of None \<Rightarrow> True | Some s \<Rightarrow> s \<le> u) \<Longrightarrow>
   (case job_started_at k of None \<Rightarrow> True | Some s \<Rightarrow> s \<le> u)"
  by (induction rule: row_step.induct)
     (simp_all add: start_job_def succeed_row_def fail_row_def cancel_row_def split: option.splits)

lemma row_step_lease:
  assumes "row_step lease u j k" "job_status k = Running"
    and "job_status j = Running \<longrightarrow>
      (\<exists>l. job_locked_at j = Some l \<and> l \<le> u \<and> job_lease_expires_at j = Some (l + lease))"
  shows "\<exists>l. job_locked_at k = Some l \<and> l \<le> u \<and> job_lease_expires_at k = Some (l + lease)"
  using assms
  by (induction rule: row_step.induct)
     (simp_all add: start_job_def succeed_row_def fail_row_def cancel_row_def)

text \<open>Every row of the new table comes from a row of the old one or is the fresh queued row.\<close>

lemma step_row_origin:
  assumes "job_step lease (t, d) (u, d')" "jobs_ok (db_jobs d)" "0 < lease" "k \<in> set (db_jobs d')"
  shows "(\<exists>j\<in>set (db_jobs d). row_step lease u j k) \<or>
    (job_status k = Queued \<and> job_started_at k = None \<and> job_id k = db_next_job_id d)"
proof -
  obtain old new where s: "db_jobs d' = old @ new" "list_all2 (row_step lease u) (db_jobs d) old"
    "fresh_row d new" using step_shape[OF assms(1-3)] by blast
  from s(1) assms(4) consider "k \<in> set old" | "k \<in> set new" by auto
  then show ?thesis
  proof cases
    case 1
    with s(2) show ?thesis by (metis in_set_conv_nth list_all2_conv_all_nth)
  next
    case 2
    with s(3) show ?thesis by (auto simp: fresh_row_def)
  qed
qed

lemma step_row_image:
  assumes "job_step lease (t, d) (u, d')" "jobs_ok (db_jobs d)" "0 < lease" "j \<in> set (db_jobs d)"
  shows "\<exists>k\<in>set (db_jobs d'). row_step lease u j k"
proof -
  obtain old new where s: "db_jobs d' = old @ new" "list_all2 (row_step lease u) (db_jobs d) old"
    using step_shape[OF assms(1-3)] by blast
  then have "\<exists>k\<in>set old. row_step lease u j k"
    using assms(4) by (metis in_set_conv_nth list_all2_conv_all_nth)
  with s(1) show ?thesis by auto
qed

lemma step_time: "job_step lease (t, d) (u, d') \<Longrightarrow> t \<le> u"
  by (erule job_step.cases) auto

lemma queue_inv_step:
  assumes step: "job_step lease s s'" and pos: "0 < lease" and inv: "queue_inv lease s"
  shows "queue_inv lease s'"
proof -
  obtain t d u d' where s: "s = (t, d)" "s' = (u, d')" by (metis prod.exhaust)
  note st = step[unfolded s]
  have tu: "t \<le> u" by (rule step_time[OF st])
  have ok: "jobs_ok (db_jobs d)" and below: "job_ids_below_next d" and started: "started_by t d"
    and leases: "\<And>j. j \<in> set (db_jobs d) \<Longrightarrow> job_status j = Running \<Longrightarrow>
      \<exists>l. job_locked_at j = Some l \<and> l \<le> t \<and> job_lease_expires_at j = Some (l + lease)"
    using inv by (auto simp: queue_inv_def s)
  note origin = step_row_origin[OF st ok pos]
  obtain n where n: "jobs_ok (db_jobs d')" "db_next_job_id d' = db_next_job_id d + int n"
    and n0: "n = 0 \<longrightarrow> length (db_jobs d') = length (db_jobs d)"
    and fresh: "\<And>k. k \<in> set (db_jobs d') \<Longrightarrow> job_id k = db_next_job_id d \<Longrightarrow> 0 < n"
  proof -
    from step_shape[OF st ok pos] obtain old new where sh: "db_jobs d' = old @ new"
      "list_all2 (row_step lease u) (db_jobs d) old" "fresh_row d new" "jobs_ok (db_jobs d')"
      "db_next_job_id d' = db_next_job_id d + length new" by blast
    have old: "job_id k < db_next_job_id d" if "k \<in> set old" for k
      using sh(2) that below row_step_id
      by (metis in_set_conv_nth job_ids_below_next_def list_all2_conv_all_nth)
    show thesis
    proof (rule that[of "length new"])
      show "0 < length new" if "k \<in> set (db_jobs d')" "job_id k = db_next_job_id d" for k
        using that sh(1) old[of k] by (cases new) auto
    qed (use sh in \<open>auto dest: list_all2_lengthD\<close>)
  qed
  have below': "job_ids_below_next d'"
    unfolding job_ids_below_next_def
  proof
    fix k assume k: "k \<in> set (db_jobs d')"
    from origin[OF k] show "job_id k < db_next_job_id d'"
      using n(2) fresh[OF k] below row_step_id by (fastforce simp: job_ids_below_next_def)
  qed
  have started': "started_by u d'"
    unfolding started_by_def
  proof
    fix k assume "k \<in> set (db_jobs d')"
    from origin[OF this] show "case job_started_at k of None \<Rightarrow> True | Some s \<Rightarrow> s \<le> u"
    proof
      assume "\<exists>j\<in>set (db_jobs d). row_step lease u j k"
      then obtain j where j: "j \<in> set (db_jobs d)" "row_step lease u j k" by blast
      then show ?thesis using started_by_mono[OF started tu]
        by (intro row_step_started[OF j(2)]) (simp add: started_by_def)
    qed simp
  qed
  have "\<exists>l. job_locked_at k = Some l \<and> l \<le> u \<and> job_lease_expires_at k = Some (l + lease)"
    if k: "k \<in> set (db_jobs d')" "job_status k = Running" for k
  proof -
    from origin[OF k(1)] k(2) obtain j where j: "j \<in> set (db_jobs d)" "row_step lease u j k" by auto
    show ?thesis using leases[OF j(1)] tu by (intro row_step_lease[OF j(2) k(2)]) force
  qed
  then show ?thesis using n(1) below' started' by (simp add: queue_inv_def s)
qed

subsection \<open>Reachable states\<close>

definition empty_queue :: "db \<Rightarrow> bool" where
  "empty_queue d = (db_jobs d = [])"

lemma queue_inv_empty: "empty_queue d \<Longrightarrow> queue_inv lease (t, d)"
  by (simp add: empty_queue_def queue_inv_def jobs_ok_def job_ids_below_next_def started_by_def
      ux_active_retry_def ux_message_edit_def fk_retry_of_def)

text \<open>
  Three instances of the invariant rule: the constraints themselves, the persistence of a
  finished row, and the exclusiveness of a lease up to its expiry. The positive lease of the
  configuration is part of each invariant.
\<close>

definition queue_ok :: "int \<Rightarrow> py_time \<times> db \<Rightarrow> bool" where
  "queue_ok lease s = (0 < lease \<and> queue_inv lease s)"

definition keeps_row :: "int \<Rightarrow> job \<Rightarrow> py_time \<times> db \<Rightarrow> bool" where
  "keeps_row lease j s = (queue_ok lease s \<and> job_terminal j \<and> j \<in> set (db_jobs (snd s)))"

definition lease_held :: "int \<Rightarrow> int \<Rightarrow> string \<Rightarrow> py_time \<Rightarrow> py_time \<times> db \<Rightarrow> bool" where
  "lease_held lease i w e s = (queue_ok lease s \<and> (fst s \<le> e \<longrightarrow>
     (\<exists>j\<in>set (db_jobs (snd s)). job_id j = i \<and> (job_terminal j \<or>
        (job_status j = Running \<and> job_locked_by j = Some w \<and>
         (\<exists>x. job_lease_expires_at j = Some x \<and> e \<le> x))))))"

lemma queue_ok_step: "job_step lease s s' \<Longrightarrow> queue_ok lease s \<Longrightarrow> queue_ok lease s'"
  by (auto simp: queue_ok_def intro: queue_inv_step)

lemma queue_okD: "queue_ok lease (t, d) \<Longrightarrow> jobs_ok (db_jobs d) \<and> 0 < lease"
  by (simp add: queue_ok_def queue_inv_def)

lemma keeps_row_step: "job_step lease s s' \<Longrightarrow> keeps_row lease j s \<Longrightarrow> keeps_row lease j s'"
  using queue_ok_step queue_okD step_row_image row_step_terminal
  by (cases s; cases s') (simp add: keeps_row_def, blast)

text \<open>A running row whose lease has not expired is only renewed by its owner or finished.\<close>

lemma step_owned_row:
  assumes step: "job_step lease (t, d) (u, d')" and ok: "jobs_ok (db_jobs d)" "0 < lease"
    and j: "j \<in> set (db_jobs d)" "job_status j = Running" "\<not> lease_expired u j"
  shows "\<exists>k\<in>set (db_jobs d'). job_id k = job_id j \<and>
    (job_terminal k \<or> k = j \<or>
     k = j\<lparr>job_locked_at := Some u, job_lease_expires_at := Some (u + lease), job_updated_at := u\<rparr>)"
proof -
  obtain k where k: "k \<in> set (db_jobs d')" "row_step lease u j k"
    using step_row_image[OF step ok j(1)] by blast
  from k(2) j(2,3) have "job_terminal k \<or> k = j \<or>
     k = j\<lparr>job_locked_at := Some u, job_lease_expires_at := Some (u + lease), job_updated_at := u\<rparr>"
    by (induction rule: row_step.induct)
       (simp_all add: job_terminal_def job_active_def succeed_row_def fail_row_def cancel_row_def)
  with k row_step_id show ?thesis by blast
qed

lemma lease_held_step:
  assumes step: "job_step lease s s'" and held: "lease_held lease i w e s"
  shows "lease_held lease i w e s'"
proof -
  obtain t d u d' where s: "s = (t, d)" "s' = (u, d')" by (metis prod.exhaust)
  note st = step[unfolded s]
  have ok: "queue_ok lease (t, d)" using held by (simp add: lease_held_def s)
  have "\<exists>k\<in>set (db_jobs d'). job_id k = i \<and> (job_terminal k \<or> (job_status k = Running \<and>
      job_locked_by k = Some w \<and> (\<exists>x. job_lease_expires_at k = Some x \<and> e \<le> x)))" if "u \<le> e"
  proof -
    have "t \<le> e" using step_time[OF st] that by simp
    then obtain j where j: "j \<in> set (db_jobs d)" "job_id j = i"
      and c: "job_terminal j \<or> (job_status j = Running \<and> job_locked_by j = Some w \<and>
        (\<exists>x. job_lease_expires_at j = Some x \<and> e \<le> x))"
      using held by (auto simp: lease_held_def s)
    show ?thesis
    proof (cases "job_terminal j")
      case True
      then show ?thesis using step_row_image[OF st _ _ j(1)] queue_okD[OF ok] row_step_terminal j(2)
        by blast
    next
      case False
      with c obtain x where x: "job_status j = Running" "job_locked_by j = Some w"
        "job_lease_expires_at j = Some x" "e \<le> x" by blast
      obtain l where "job_locked_at j = Some l" "l \<le> t" "x = l + lease"
        using ok j x by (auto simp: queue_ok_def queue_inv_def)
      then have "e \<le> u + lease" using x(4) step_time[OF st] by simp
      moreover have "\<not> lease_expired u j" using x that by (simp add: lease_expired_def)
      ultimately show ?thesis
        using step_owned_row[OF st _ _ j(1) x(1)] queue_okD[OF ok] x j(2) by fastforce
    qed
  qed
  then show ?thesis using queue_ok_step[OF st ok] by (simp add: lease_held_def s)
qed

interpretation queue_ok_run: preserved "job_step lease" "queue_ok lease" for lease
  by unfold_locales (rule queue_ok_step)

interpretation keeps_row_run: preserved "job_step lease" "keeps_row lease j" for lease j
  by unfold_locales (rule keeps_row_step)

interpretation lease_run: preserved "job_step lease" "lease_held lease i w e" for lease i w e
  by unfold_locales (rule lease_held_step)

end
