(* ===== verification/Job_Properties.thy ===== *)
theory Job_Properties
  imports Job_Lifecycle
begin

section \<open>Properties of the job queue\<close>

text \<open>
  The properties of the queue, the retry service and the redaction, each with a concrete
  instance: the constraints of the table never reject a worker, finished jobs and leases are
  safe in every run, acquisition takes the first eligible jobs, retries are exclusive per
  source job, and nothing sensitive is stored or shown.
\<close>

subsection \<open>Concrete tables\<close>

definition ex_failed_job :: job where
  "ex_failed_job = (new_job ''document_ingest'' (Some ''document_version'') (Some 7) (Some []) None 100 0)
    \<lparr>job_id := 1, job_status := Failed, job_locked_by := Some ''w1'', job_locked_at := Some 1,
     job_started_at := Some 1, job_finished_at := Some 2, job_error_code := Some ''parse_error''\<rparr>"

definition ex_failed_version :: document_version where
  "ex_failed_version =
    \<lparr>ver_id = 7, ver_document_id = 3, ver_no = 1, ver_content_hash = replicate 64 CHR ''a'',
     ver_status = VFailed, ver_is_active = False, ver_error_code = Some ''parse_error'',
     ver_file_name = ''a.txt'', ver_mime_type = ''text/plain'', ver_file_size_bytes = 10,
     ver_storage_key = None, ver_metadata = None, ver_page_count = None,
     ver_extractor_name = None, ver_extractor_version = None, ver_created_by = 1,
     ver_created_at = 0, ver_updated_at = 2\<rparr>"

definition ex_empty_db :: db where
  "ex_empty_db = \<lparr>db_jobs = [], db_next_job_id = 1, db_versions = [ex_failed_version],
     db_documents = [], db_users = [], db_roles = [], db_sessions = [], db_next_session_id = 1,
     db_audit_logs = [], db_next_document_id = 1, db_next_version_id = 8,
     db_chunks = [], db_next_chunk_id = 1, db_corpus_marker = None, db_settings = []\<rparr>"

definition ex_failed_db :: db where
  "ex_failed_db = ex_empty_db\<lparr>db_jobs := [ex_failed_job], db_next_job_id := 2\<rparr>"

definition ex_retried_db :: db where
  "ex_retried_db = ex_failed_db\<lparr>db_jobs := [ex_failed_job, (retry_row ex_failed_job (Some 5) 9 ex_failed_db)
     \<lparr>job_id := 2\<rparr>], db_next_job_id := 3\<rparr>"

lemmas ex_defs = ex_failed_job_def ex_failed_version_def ex_empty_db_def ex_failed_db_def ex_retried_db_def

lemma ex_failed_db_facts:
  "jobs_ok (db_jobs ex_failed_db)" "job_ids_below_next ex_failed_db"
  "get_job 1 ex_failed_db = Some ex_failed_job" "job_status ex_failed_job = Failed"
  "find_active_retry (original_source_job_id ex_failed_job) ex_failed_db = None"
  "\<not> message_edit_conflict ex_failed_job ex_failed_db"
  by (simp_all add: ex_defs jobs_ok_def ck_job_def new_job_def ux_active_retry_def
      ux_message_edit_def ux_active_retry_key_def ux_message_edit_key_def fk_retry_of_def
      job_ids_below_next_def get_job_def find_active_retry_None message_edit_conflict_def
      message_edit_type_def job_active_def)

lemma ex_prepare:
  "prepare_document_ingest_retry ex_failed_job 9 d = 
    (case get_version 7 d of None \<Rightarrow> Inl ResourceNotFound | Some v \<Rightarrow>
       if ver_status v \<noteq> VFailed then Inr d
       else Inr (d\<lparr>
              db_versions := map (\<lambda>w. if ver_id w = 7 then reset_version 9 w else w) (db_versions d),
              db_documents := map (\<lambda>x. if doc_id x = ver_document_id v
                then x\<lparr>doc_updated_at := 9\<rparr> else x) (db_documents d)\<rparr>))"
  by (simp add: prepare_document_ingest_retry_def ex_failed_job_def new_job_def)

lemma ex_get_version: "get_version 7 ex_failed_db = Some ex_failed_version"
   "get_version 7 ex_retried_db = Some ex_failed_version"
  by (simp_all add: get_version_def ex_defs)

lemma ex_retry_active:
  "\<exists>k\<in>set (db_jobs ex_retried_db). job_retry_of k = Some (original_source_job_id ex_failed_job) \<and> job_active k"
  by (simp add: ex_retried_db_def ex_failed_db_def job_active_def)

definition ex_j0 :: job where
  "ex_j0 = (new_job ''evaluation_run'' None None (Some []) None 100 0)\<lparr>job_id := 1\<rparr>"

definition ex_j1 :: job where
  "ex_j1 = start_job ''w1'' 10 1 ex_j0"

definition ex_created_db :: db where
  "ex_created_db = ex_empty_db\<lparr>db_jobs := [ex_j0], db_next_job_id := 2\<rparr>"

definition ex_running_db :: db where
  "ex_running_db = ex_created_db\<lparr>db_jobs := [ex_j1]\<rparr>"

definition ex_done_db :: db where
  "ex_done_db = ex_created_db\<lparr>db_jobs := [succeed_row None 5 ex_j1]\<rparr>"

lemmas ex_run_defs = ex_j0_def ex_j1_def ex_created_db_def ex_running_db_def ex_done_db_def
  start_job_def succeed_row_def new_job_def

lemma ex_created_ok: "jobs_ok (db_jobs ex_created_db)"
  by (simp add: ex_run_defs ex_defs jobs_ok_def ck_job_def ux_active_retry_def
      ux_message_edit_def ux_active_retry_key_def ux_message_edit_key_def fk_retry_of_def
      message_edit_type_def job_active_def)

lemma ex_create: "create_job ''evaluation_run'' None None None None 100 0 ex_empty_db = Inr (ex_j0, ex_created_db)"
proof -
  have row: "(new_job ''evaluation_run'' None None (Some (sanitize_job_payload None)) None 100 0)
      \<lparr>job_id := db_next_job_id ex_empty_db\<rparr> = ex_j0"
    by (simp add: sanitize_job_payload_def ex_j0_def ex_empty_db_def new_job_def)
  have tab: "db_jobs ex_empty_db @ [ex_j0] = db_jobs ex_created_db"
    by (simp add: ex_created_db_def ex_empty_db_def)
  show ?thesis unfolding create_job_def insert_job_def Let_def row put_jobs_def tab
    using ex_created_ok by (simp add: ex_created_db_def ex_empty_db_def)
qed

lemma ex_acquire: "acquire_jobs (\<lambda>_. False) ''w1'' None 10 1 None 1 ex_created_db = Inr ([ex_j1], ex_running_db)"
  unfolding acquire_jobs_eq[OF ex_created_ok, of 10, simplified]
  by (simp add: acquire_candidates_def acquirable_def type_enabled_def ex_run_defs ex_defs)

lemma ex_succeed: "mark_succeeded 1 ''w1'' None 5 ex_running_db = Inr ex_done_db"
proof -
  have "jobs_ok (db_jobs ex_running_db)" "started_by 5 ex_running_db"
    by (simp_all add: ex_run_defs ex_defs jobs_ok_def ck_job_def ux_active_retry_def started_by_def
      ux_message_edit_def ux_active_retry_key_def ux_message_edit_key_def fk_retry_of_def
      message_edit_type_def job_active_def)
  from mark_succeeded_eq[OF this] show ?thesis by (simp add: owned_by_def ex_run_defs ex_defs)
qed

lemma ex_steps:
  "job_step 10 (0, ex_empty_db) (0, ex_created_db)"
  "job_step 10 (0, ex_created_db) (1, ex_running_db)"
  "job_step 10 (1, ex_running_db) (5, ex_done_db)"
  using ex_create ex_acquire ex_succeed by (auto intro: job_step.intros)

lemma ex_reach_running: "(job_step 10)\<^sup>*\<^sup>* (0, ex_empty_db) (1, ex_running_db)"
  using ex_steps(1,2) by (meson rtranclp.rtrancl_refl rtranclp.rtrancl_into_rtrancl)

lemma ex_empty_queue: "empty_queue ex_empty_db"
  by (simp add: empty_queue_def ex_defs)

lemma reach_queue_inv:
  "(job_step lease)\<^sup>*\<^sup>* (t0, d0) (t, d) \<Longrightarrow> empty_queue d0 \<Longrightarrow> 0 < lease \<Longrightarrow> queue_ok lease (t, d)"
  using queue_ok_run.reach queue_inv_empty unfolding queue_ok_def by blast

subsection \<open>Runs of the queue\<close>

text \<open>
  C1: In every state the queue can reach, the constraints and unique indexes of the jobs
  table hold, and none of the writes of a worker or of a cancellation is rejected by them at
  any later time: acquisitions and cancellations succeed, and a renewal or a terminal update
  succeeds or reports a lost lease, never an integrity error.
\<close>

theorem queue_writes_never_violate_constraints:
  assumes "(job_step lease)\<^sup>*\<^sup>* (t0, d0) (t, d)" "empty_queue d0" "0 < lease" "t \<le> now"
  shows "jobs_ok (db_jobs d) \<and>
    (\<exists>js d'. acquire_jobs locked w enabled lease batch supported now d = Inr (js, d')) \<and>
    (\<exists>d'. mark_canceled i now d = Inr d') \<and>
    renew_lease i w lease now d \<noteq> Inl IntegrityError \<and>
    mark_succeeded i w result now d \<noteq> Inl IntegrityError \<and>
    mark_failed i w code message now d \<noteq> Inl IntegrityError"
proof -
  have inv: "queue_inv lease (t, d)" using reach_queue_inv[OF assms(1-3)] by (simp add: queue_ok_def)
  then have ok: "jobs_ok (db_jobs d)" and st: "started_by now d"
    using assms(4) started_by_mono by (auto simp: queue_inv_def)
  from acquire_jobs_eq[OF ok assms(3)] renew_lease_eq[OF ok assms(3)] mark_canceled_eq[OF ok st]
    mark_succeeded_eq[OF ok st] mark_failed_eq[OF ok st] ok
  show ?thesis by (simp add: Let_def)
qed

theorem queue_writes_never_violate_constraints_witness:
  "jobs_ok (db_jobs ex_running_db) \<and> renew_lease 1 ''w2'' 10 3 ex_running_db \<noteq> Inl IntegrityError"
  using queue_writes_never_violate_constraints[OF ex_reach_running ex_empty_queue, of 3 "\<lambda>_. False" "''w2''"]
  by simp

text \<open>
  C17: A finished job is final: once a row is succeeded, failed or canceled, the same row,
  with every column unchanged, is in every later state of the queue.
\<close>

theorem finished_job_is_never_changed:
  assumes "(job_step lease)\<^sup>*\<^sup>* (t0, d0) (t, d)" "empty_queue d0" "0 < lease"
    and "j \<in> set (db_jobs d)" "job_status j \<in> {Succeeded, Failed, Canceled}"
    and "(job_step lease)\<^sup>*\<^sup>* (t, d) (u, d')"
  shows "j \<in> set (db_jobs d')"
proof -
  have "keeps_row lease j (t, d)"
    using reach_queue_inv[OF assms(1-3)] assms(4,5)
    by (auto simp: keeps_row_def job_terminal_def job_active_def)
  from keeps_row_run.reach[OF assms(6) this] show ?thesis by (simp add: keeps_row_def)
qed

theorem finished_job_is_never_changed_witness:
  "succeed_row None 5 ex_j1 \<in> set (db_jobs ex_done_db)"
proof -
  have "(job_step 10)\<^sup>*\<^sup>* (0, ex_empty_db) (5, ex_done_db)"
    using ex_reach_running ex_steps(3) by (rule rtranclp.rtrancl_into_rtrancl)
  from finished_job_is_never_changed[OF this ex_empty_queue, of "succeed_row None 5 ex_j1" 5 ex_done_db]
  show ?thesis by (simp add: ex_done_db_def succeed_row_def)
qed

text \<open>
  C3: A lease excludes the other workers until it expires: if a worker holds a job in a
  reachable state, then in every later state up to the expiry of that lease the job is
  finished or still running under the same worker, and no acquisition by anybody up to then
  returns it.
\<close>

theorem lease_excludes_other_workers:
  assumes "(job_step lease)\<^sup>*\<^sup>* (t0, d0) (t, d)" "empty_queue d0" "0 < lease"
    and "j \<in> set (db_jobs d)" "owned_by i w j" "job_lease_expires_at j = Some e"
    and "(job_step lease)\<^sup>*\<^sup>* (t, d) (u, d')" "u \<le> now" "now \<le> e"
  shows "(\<exists>k\<in>set (db_jobs d'). job_id k = i \<and>
      (job_status k \<in> {Succeeded, Failed, Canceled} \<or> owned_by i w k)) \<and>
    (\<forall>locked w' enabled batch supported js d''.
      acquire_jobs locked w' enabled lease batch supported now d' = Inr (js, d'') \<longrightarrow>
      i \<notin> set (map job_id js))"
proof -
  have held: "lease_held lease i w e (t, d)"
    using reach_queue_inv[OF assms(1-3)] assms(4-6) by (auto simp: lease_held_def owned_by_def)
  from lease_run.reach[OF assms(7) held] assms(8,9) obtain k where k: "k \<in> set (db_jobs d')" "job_id k = i"
    and st: "job_terminal k \<or> (job_status k = Running \<and> job_locked_by k = Some w \<and>
      (\<exists>x. job_lease_expires_at k = Some x \<and> e \<le> x))"
    by (auto simp: lease_held_def)
  have ok: "jobs_ok (db_jobs d')" "0 < lease"
    using lease_run.reach[OF assms(7) held] by (auto simp: lease_held_def dest: queue_okD)
  have "\<not> acquirable enabled supported now k" for enabled supported
    using st assms(9) by (auto simp: acquirable_def job_terminal_def job_active_def lease_expired_def)
  then have cand: "i \<notin> set (map job_id (acquire_candidates locked enabled supported batch now d'))"
    for locked enabled supported batch
    using candidate_id[OF ok(1) k(1)] k(2) by (blast dest: candidates_sub)
  have "i \<notin> set (map job_id js)"
    if "acquire_jobs locked w' enabled lease batch supported now d' = Inr (js, d'')"
    for locked w' enabled batch supported js d''
  proof -
    have "map job_id js = map job_id (acquire_candidates locked enabled supported batch now d')"
      using that acquire_jobs_eq[OF ok] by (auto simp: Let_def start_job_def comp_def)
    then show ?thesis using cand by simp
  qed
  moreover have "job_status k \<in> {Succeeded, Failed, Canceled} \<or> owned_by i w k"
    using st k(2) by (cases "job_status k") (auto simp: job_terminal_def job_active_def owned_by_def)
  ultimately show ?thesis using k by blast
qed

theorem lease_excludes_other_workers_witness:
  "\<exists>k\<in>set (db_jobs ex_running_db). job_id k = 1 \<and>
      (job_status k \<in> {Succeeded, Failed, Canceled} \<or> owned_by 1 ''w1'' k)"
  using lease_excludes_other_workers[OF ex_reach_running ex_empty_queue, of ex_j1 1 "''w1''" 11 1 ex_running_db 11]
  by (simp add: ex_running_db_def ex_j1_def start_job_def ex_j0_def owned_by_def new_job_def)

text \<open>
  A transaction moves a job only along the documented transitions: every row after
  the step is a row of before with the same identifier, a status reached by one transition
  and an unchanged start time once it had one, or a queued job that is new.
\<close>

theorem job_steps_follow_the_state_diagram:
  assumes "job_step lease (t, d) (u, d')" "queue_ok lease (t, d)" "k \<in> set (db_jobs d')"
  shows "(\<exists>j\<in>set (db_jobs d). job_id k = job_id j \<and>
      job_transition (job_status j) (job_status k) \<and>
      (job_started_at j \<noteq> None \<longrightarrow> job_started_at k = job_started_at j)) \<or>
    (job_status k = Queued \<and> job_id k \<notin> set (map job_id (db_jobs d)))"
proof -
  have "queue_inv lease (t, d)" "jobs_ok (db_jobs d)" "0 < lease"
    using assms(2) queue_okD by (auto simp: queue_ok_def)
  then have "db_next_job_id d \<notin> set (map job_id (db_jobs d))"
    by (auto simp: queue_inv_def job_ids_below_next_def)
  then show ?thesis
    using step_row_origin[OF assms(1) \<open>jobs_ok _\<close> \<open>0 < lease\<close> assms(3)]
      row_step_id row_step_transition row_step_keeps_start
    by metis
qed

theorem job_steps_follow_the_state_diagram_witness:
  "\<exists>j\<in>set (db_jobs ex_created_db). job_id ex_j1 = job_id j \<and>
      job_transition (job_status j) (job_status ex_j1)"
proof -
  have "queue_ok 10 (0, ex_created_db)"
    using reach_queue_inv[of 10 0 ex_empty_db 0 ex_created_db] ex_steps(1) ex_empty_queue by auto
  then show ?thesis
    using job_steps_follow_the_state_diagram[OF ex_steps(2), of ex_j1]
    by (auto simp: ex_running_db_def ex_j1_def start_job_def)
qed

subsection \<open>Acquisition\<close>

text \<open>
  C32: An acquisition takes at most a batch of rows, all of them eligible and not locked by
  another transaction, in the queue's order; an eligible row it leaves behind comes later in
  that order than every row it takes, and is left only when the batch is full. Each row it
  takes is running under the worker with a fresh lease afterwards, every other row is unchanged.
\<close>

theorem acquisition_takes_the_first_eligible_jobs:
  assumes "jobs_ok (db_jobs d)" "0 < lease"
  shows "\<exists>picked d'. acquire_jobs locked w enabled lease batch supported now d =
      Inr (map (start_job w lease now) picked, d') \<and>
    length picked \<le> batch \<and> sorted (map acquire_key picked) \<and>
    (\<forall>j\<in>set picked. j \<in> set (db_jobs d) \<and> acquirable enabled supported now j \<and> \<not> locked (job_id j)) \<and>
    (\<forall>j\<in>set (db_jobs d). acquirable enabled supported now j \<and> \<not> locked (job_id j) \<and> j \<notin> set picked \<longrightarrow>
       length picked = batch \<and> (\<forall>p\<in>set picked. acquire_key p \<le> acquire_key j)) \<and>
    db_jobs d' = map (\<lambda>j. if j \<in> set picked then start_job w lease now j else j) (db_jobs d)"
proof -
  let ?el = "filter (\<lambda>j. acquirable enabled supported now j \<and> \<not> locked (job_id j)) (db_jobs d)"
  define picked where "picked = acquire_candidates locked enabled supported batch now d"
  have p: "picked = take batch (sort_key acquire_key ?el)"
    by (simp add: picked_def acquire_candidates_def)
  have "sorted (map acquire_key picked)" using sorted_wrt_take[OF sorted_sort_key[of acquire_key ?el], of batch] by (simp add: p take_map)
  moreover have "length picked = batch \<and> (\<forall>q\<in>set picked. acquire_key q \<le> acquire_key j)"
    if "j \<in> set ?el" "j \<notin> set picked" for j
  proof -
    have "length picked = batch" if "q \<in> set picked" for q
      using take_sort_key_least(2)[OF \<open>j \<in> set ?el\<close>] \<open>j \<notin> set picked\<close> that unfolding p by blast
    moreover have "batch = 0" if "picked = []"
    proof -
      have "length (sort_key acquire_key ?el) \<noteq> 0" using \<open>j \<in> set ?el\<close> by (auto simp: filter_empty_conv)
      then show ?thesis using that unfolding p by (cases batch) (simp_all del: length_sort)
    qed
    ultimately have "length picked = batch" by (cases picked) auto
    then show ?thesis using take_sort_key_least(1)[OF \<open>j \<in> set ?el\<close>] \<open>j \<notin> set picked\<close> unfolding p by blast
  qed
  moreover have "\<forall>j\<in>set picked. j \<in> set (db_jobs d) \<and> acquirable enabled supported now j \<and> \<not> locked (job_id j)"
    unfolding picked_def using candidates_sub by blast
  moreover have "length picked \<le> batch" unfolding p by simp
  ultimately show ?thesis
    using acquire_jobs_eq[OF assms, of locked w enabled batch supported now]
    by (intro exI[of _ picked] exI[of _ "d\<lparr>db_jobs := map (\<lambda>j. if j \<in> set picked
      then start_job w lease now j else j) (db_jobs d)\<rparr>"]) (simp add: Let_def flip: picked_def, blast)
qed

theorem acquisition_takes_the_first_eligible_jobs_witness:
  "\<exists>picked d'. acquire_jobs (\<lambda>_. False) ''w1'' None 10 1 None 1 ex_created_db =
      Inr (map (start_job ''w1'' 10 1) picked, d') \<and> length picked \<le> 1"
  using acquisition_takes_the_first_eligible_jobs[OF ex_created_ok, of 10 "\<lambda>_. False" "''w1''" None 1 None 1]
  by auto

subsection \<open>Retries\<close>



text \<open>
  Two concurrent retries of one source cannot both succeed: if another transaction has
  committed an active retry between the check and the insert, the request is refused as an
  active retry, naming a job that is active now, and nothing is stored.
\<close>

theorem concurrent_retry_is_refused:
  assumes "get_job i seen = Some j" "job_status j = Failed"
    and "find_active_retry (original_source_job_id j) seen = None"
    and "prepare_document_ingest_retry j now d = Inr d1"
    and "\<exists>k\<in>set (db_jobs d). job_retry_of k = Some (original_source_job_id j) \<and> job_active k"
  shows "\<exists>a\<in>set (db_jobs d). job_retry_of a = Some (original_source_job_id j) \<and> job_active a \<and>
    retry_job_in seen i uid now d =
      Inl (JobActiveRetryExists (original_source_job_id j) (Some (job_id a)))"
proof -
  let ?src = "original_source_job_id j"
  obtain a where a: "find_active_retry ?src d = Some a"
    using assms(5) find_active_retry_None by (cases "find_active_retry ?src d") auto
  then have "find_active_retry ?src d1 = Some a"
    using prepare_keeps_jobs[OF assms(4)] by (simp add: find_active_retry_def)
  then have "create_retry_job j (Some uid) now d1 = Inl IntegrityError"
    by (rule create_retry_job_conflict)
  then show ?thesis using assms a find_active_retry_Some[OF a]
    by (auto simp: retry_job_in_def Let_def)
qed

theorem concurrent_retry_is_refused_witness:
  "\<exists>a\<in>set (db_jobs ex_retried_db). job_active a \<and>
    retry_job_in ex_failed_db 1 5 9 ex_retried_db = Inl (JobActiveRetryExists 1 (Some (job_id a)))"
proof -
  have "original_source_job_id ex_failed_job = 1"
    by (simp add: original_source_job_id_def ex_defs new_job_def)
  then show ?thesis
    using concurrent_retry_is_refused[OF ex_failed_db_facts(3-5), of 9 ex_retried_db _ 5]
      ex_prepare[of ex_retried_db] ex_get_version(2) ex_retry_active
    by (auto simp: ex_failed_version_def)
qed

subsection \<open>Redaction\<close>

text \<open>
  Whatever payload a job is created with, every entry the sanitizer keeps is flat (a
  scalar or a list of integers), free of secrets and paths unless cut, the marker when its key
  is sensitive, and otherwise under an allowed key; sanitizing a payload whose strings are
  within the cut-off a second time changes nothing.
\<close>

theorem sanitized_payload_is_flat_and_stable:
  "(\<forall>(k, x)\<in>set (sanitize_job_payload payload). redact_clean x \<and> flat_value x \<and>
      (is_sensitive_key k \<longrightarrow> x = PStr REDACTED) \<and> (x = PStr REDACTED \<or> is_safe_payload_key k x)) \<and>
   (\<forall>d. list_all (\<lambda>(k, x). short_strings x) d \<longrightarrow>
      sanitize_job_payload (Some (sanitize_job_payload (Some d))) = sanitize_job_payload (Some d))"
  using sanitize_job_payload_entry sanitize_job_payload_idem by auto

theorem sanitized_payload_is_flat_and_stable_witness:
  "sanitize_job_payload (Some (sanitize_job_payload (Some [(''status'', PStr ''ok'')]))) =
   sanitize_job_payload (Some [(''status'', PStr ''ok'')])"
  using sanitized_payload_is_flat_and_stable by (simp add: list_all_iff)

text \<open>
  The error message a failed job stores, and the one a client is shown, never names a
  password, secret, token, path, prompt, content or any other listed part, and has at most 500
  characters.
\<close>

theorem error_messages_are_safe:
  assumes "part \<in> set sensitive_key_parts"
  shows "\<not> py_in part (py_lower (redact_error_message message)) \<and>
    length (redact_error_message message) \<le> 500 \<and>
    (\<forall>m. item_error_message (to_item j) = Some m \<longrightarrow> \<not> py_in part (py_lower m) \<and> length m \<le> 500)"
  using redact_error_message_safe[OF assms] redact_error_message_length
  by (auto simp: to_item_def safe_error_message_def split: if_splits)

theorem error_messages_are_safe_witness:
  "\<not> py_in ''password'' (py_lower (redact_error_message (Some ''bad password'')))"
  using error_messages_are_safe[of "''password''" "Some ''bad password''" ex_failed_job]
  by (simp add: sensitive_key_parts_def)

end
