(* ===== verification/Worker.thy ===== *)
theory Worker
  imports Job_Lifecycle "HOL-Library.List_Lexorder" "HOL-Library.Char_ord"
begin

section \<open>The worker\<close>

text \<open>
  \<open>backend/app/workers/worker_config.py\<close>, \<open>job_dispatcher.py\<close>, \<open>handlers/base.py\<close> and
  \<open>worker_main.py\<close>: the selection of job types, the identity of a worker, the dispatch of a
  job to its handler, the heartbeat that renews the lease while the handler runs, and the
  terminal update. A handler is a function from its context to an outcome; what other
  transactions commit while it runs is an argument of the run.
\<close>

subsection \<open>Configuration\<close>

definition SUPPORTED_JOB_TYPES :: "string list" where
  "SUPPORTED_JOB_TYPES =
    [''document_ingest'', ''qdrant_mirror_update'', ''qdrant_consistency_sweep'',
     ''message_edit_regeneration'', ''evaluation_run'', ''temporary_chat_cleanup'',
     ''graph_index_build'']"

datatype enabled_input = NoTypes | TypesText string | TypesItems "string list"

datatype config_error = CombinesAll | CombinesNone | UnknownTypes "string list"

definition enabled_items :: "enabled_input \<Rightarrow> string list" where
  "enabled_items value = (case value of
     NoTypes \<Rightarrow> []
   | TypesText s \<Rightarrow> filter (\<lambda>x. x \<noteq> []) (map py_strip (py_split_on CHR '','' s))
   | TypesItems xs \<Rightarrow> filter (\<lambda>x. x \<noteq> []) (map py_strip xs))"

definition parse_enabled_job_types :: "enabled_input \<Rightarrow> config_error + string list option" where
  "parse_enabled_job_types value =
     (let items = enabled_items value; lowered_items = map py_lower items in
      if items = [] then Inr None
      else if ''all'' \<in> set lowered_items then
        (if length items > 1 then Inl CombinesAll else Inr None)
      else if ''none'' \<in> set lowered_items then
        (if length items > 1 then Inl CombinesNone else Inr (Some []))
      else (let enabled = uniq_first items;
                unknown = filter (\<lambda>t. t \<notin> set SUPPORTED_JOB_TYPES) enabled
            in if unknown \<noteq> [] then Inl (UnknownTypes (sort unknown)) else Inr (Some enabled)))"

definition safe_part :: "string \<Rightarrow> nat \<Rightarrow> string" where
  "safe_part value max_length =
     (let safe = map (\<lambda>c. if py_isalnum c \<or> c = CHR ''-'' \<or> c = CHR ''_'' then c else CHR ''-'') value;
          cut = take max_length safe
      in if cut = [] then ''worker'' else cut)"

definition build_worker_instance_id :: "string \<Rightarrow> nat \<Rightarrow> string \<Rightarrow> string option \<Rightarrow> string" where
  "build_worker_instance_id hostname process_id boot_uuid instance_name =
     (let host = safe_part hostname 36; boot = safe_part boot_uuid 16;
          name_part = (case instance_name of None \<Rightarrow> [] | Some n \<Rightarrow> if n = [] then [] else [safe_part n 24]);
          parts = name_part @ [host, ''pid-'' @ nat_str process_id, ''boot-'' @ boot]
      in take 100 (py_join '':'' parts))"

subsection \<open>Handlers and the dispatcher\<close>

datatype handler_status = HSucceeded | HFailed

record handler_result =
  res_status :: handler_status
  res_json :: "pyval pydict"
  res_error_code :: "string option"
  res_error_message :: "string option"

definition handler_succeeded :: "pyval pydict option \<Rightarrow> handler_result" where
  "handler_succeeded json = \<lparr>res_status = HSucceeded,
     res_json = (case json of None \<Rightarrow> [] | Some d \<Rightarrow> d), res_error_code = None, res_error_message = None\<rparr>"

definition handler_failed :: "string \<Rightarrow> string \<Rightarrow> handler_result" where
  "handler_failed code message = \<lparr>res_status = HFailed, res_json = [], res_error_code = Some code,
     res_error_message = Some (redact_error_message (Some message))\<rparr>"

record job_context =
  ctx_job_id :: int
  ctx_job_type :: string
  ctx_target_type :: "string option"
  ctx_target_id :: "int option"
  ctx_payload :: "pyval pydict"
  ctx_worker :: string

datatype 'r outcome = Returned 'r | RaisedLeaseLost | RaisedOther

type_synonym handlers = "(string \<times> (job_context \<Rightarrow> handler_result outcome)) list"

definition context_from_job :: "job \<Rightarrow> string \<Rightarrow> job_context" where
  "context_from_job j worker =
    \<lparr>ctx_job_id = job_id j, ctx_job_type = job_type j, ctx_target_type = job_target_type j,
     ctx_target_id = job_target_id j,
     ctx_payload = (case job_payload j of None \<Rightarrow> [] | Some p \<Rightarrow> p), ctx_worker = worker\<rparr>"

definition supported_job_types :: "handlers \<Rightarrow> string list" where
  "supported_job_types handlers = map fst handlers"

definition dispatch :: "handlers \<Rightarrow> job_context \<Rightarrow> handler_result outcome" where
  "dispatch handlers context = (case map_of handlers (ctx_job_type context) of
     None \<Rightarrow> Returned (handler_failed ''unknown_job_type'' ''Unknown job type.'')
   | Some handler \<Rightarrow> (case handler context of
       Returned r \<Rightarrow> Returned r
     | RaisedLeaseLost \<Rightarrow> RaisedLeaseLost
     | RaisedOther \<Rightarrow> Returned (handler_failed ''internal_error'' ''Job handler failed.'')))"

subsection \<open>The heartbeat\<close>

text \<open>
  A beat at a time, after the transactions the other processes committed since the last one
  (\<open>None\<close> for a database failure of the beat). The heartbeat stops at the first beat that
  does not renew the lease.
\<close>

record worker_config =
  cfg_batch_size :: nat
  cfg_lease :: int
  cfg_enabled :: "string list option"
  cfg_worker_id :: string

type_synonym beat = "(py_time \<times> (db \<Rightarrow> db)) option"

fun heartbeat :: "worker_config \<Rightarrow> int \<Rightarrow> beat list \<Rightarrow> db \<Rightarrow> bool \<times> db" where
  "heartbeat cfg i [] d = (False, d)"
| "heartbeat cfg i (None # beats) d = (True, d)"
| "heartbeat cfg i (Some (now, others) # beats) d =
     (case renew_lease i (cfg_worker_id cfg) (cfg_lease cfg) now (others d) of
        Inl _ \<Rightarrow> (True, others d)
      | Inr d' \<Rightarrow> heartbeat cfg i beats d')"

subsection \<open>The terminal update and the run of a job\<close>

datatype store_outcome = Stored | SkippedLostLease | StoreRaised

definition text_or :: "string option \<Rightarrow> string \<Rightarrow> string" where
  "text_or value dflt = (case value of None \<Rightarrow> dflt | Some s \<Rightarrow> if s = [] then dflt else s)"

definition mark_result :: "int \<Rightarrow> string \<Rightarrow> handler_result \<Rightarrow> py_time \<Rightarrow> db \<Rightarrow> job_error + db" where
  "mark_result i worker result now d =
     (if res_status result = HSucceeded then mark_succeeded i worker (Some (res_json result)) now d
      else mark_failed i worker (text_or (res_error_code result) ''internal_error'')
             (text_or (res_error_message result) ''Job failed.'') now d)"

definition store_terminal_result :: "worker_config \<Rightarrow> int \<Rightarrow> handler_result \<Rightarrow> py_time \<Rightarrow> py_time \<Rightarrow>
    db \<Rightarrow> store_outcome \<times> db" where
  "store_terminal_result cfg i result renew_time mark_time d =
     (case renew_lease i (cfg_worker_id cfg) (cfg_lease cfg) renew_time d of
        Inl LeaseLost \<Rightarrow> (SkippedLostLease, d)
      | Inl IntegrityError \<Rightarrow> (StoreRaised, d)
      | Inr d1 \<Rightarrow> (case mark_result i (cfg_worker_id cfg) result mark_time d1 of
          Inl LeaseLost \<Rightarrow> (SkippedLostLease, d)
        | Inl IntegrityError \<Rightarrow> (StoreRaised, d)
        | Inr d2 \<Rightarrow> (Stored, d2)))"

definition run_context :: "worker_config \<Rightarrow> handlers \<Rightarrow> job_context \<Rightarrow> beat list \<Rightarrow> py_time \<Rightarrow>
    py_time \<Rightarrow> db \<Rightarrow> store_outcome \<times> db" where
  "run_context cfg handlers context beats renew_time mark_time d =
     (let (lost, d1) = heartbeat cfg (ctx_job_id context) beats d in
      case dispatch handlers context of
        Returned result \<Rightarrow>
          if lost then (SkippedLostLease, d1)
          else store_terminal_result cfg (ctx_job_id context) result renew_time mark_time d1
      | RaisedLeaseLost \<Rightarrow> (SkippedLostLease, d1)
      | RaisedOther \<Rightarrow> store_terminal_result cfg (ctx_job_id context)
          (handler_failed ''internal_error'' ''Job handler failed.'') renew_time mark_time d1)"

definition acquire_contexts :: "worker_config \<Rightarrow> handlers \<Rightarrow> (int \<Rightarrow> bool) \<Rightarrow> py_time \<Rightarrow> db \<Rightarrow>
    job_error + job_context list \<times> db" where
  "acquire_contexts cfg handlers row_locked now d =
     (case acquire_jobs row_locked (cfg_worker_id cfg) (cfg_enabled cfg) (cfg_lease cfg)
        (cfg_batch_size cfg) (Some (supported_job_types handlers)) now d of
        Inl e \<Rightarrow> Inl e
      | Inr (jobs, d') \<Rightarrow> Inr (map (\<lambda>j. context_from_job j (cfg_worker_id cfg)) jobs, d'))"

text \<open>
  One polling round: the schedule gives the beats and the two times of the terminal update
  of each acquired job, in order; a raised store ends the round.
\<close>

fun run_contexts :: "worker_config \<Rightarrow> handlers \<Rightarrow> job_context list \<Rightarrow>
    (beat list \<times> py_time \<times> py_time) list \<Rightarrow> db \<Rightarrow> store_outcome list \<times> db" where
  "run_contexts cfg handlers (c # cs) ((beats, t1, t2) # schedule) d =
     (let (out, d') = run_context cfg handlers c beats t1 t2 d in
      if out = StoreRaised then ([out], d')
      else (let (outs, d'') = run_contexts cfg handlers cs schedule d' in (out # outs, d'')))"
| "run_contexts cfg handlers _ _ d = ([], d)"

definition run_once :: "worker_config \<Rightarrow> handlers \<Rightarrow> (int \<Rightarrow> bool) \<Rightarrow> py_time \<Rightarrow>
    (beat list \<times> py_time \<times> py_time) list \<Rightarrow> db \<Rightarrow> job_error + store_outcome list \<times> nat \<times> db" where
  "run_once cfg handlers row_locked now schedule d =
     (case acquire_contexts cfg handlers row_locked now d of
        Inl e \<Rightarrow> Inl e
      | Inr (contexts, d1) \<Rightarrow>
          (let (outs, d2) = run_contexts cfg handlers contexts schedule d1
           in Inr (outs, length contexts, d2)))"

subsection \<open>The contract the terminal update relies on\<close>

text \<open>
  A queue of leased rows as the worker sees it: on a valid state an operation of the owner
  succeeds and keeps the state valid, and an operation of anybody else is a lost lease.
\<close>

locale leased_queue =
  fixes valid :: "py_time \<Rightarrow> 'd \<Rightarrow> bool"
    and owns :: "int \<Rightarrow> string \<Rightarrow> 'd \<Rightarrow> bool"
    and renew :: "int \<Rightarrow> string \<Rightarrow> py_time \<Rightarrow> 'd \<Rightarrow> 'e + 'd"
    and finish :: "int \<Rightarrow> string \<Rightarrow> 'r \<Rightarrow> py_time \<Rightarrow> 'd \<Rightarrow> 'e + 'd"
    and lost :: 'e
  assumes valid_later: "valid t d \<Longrightarrow> t \<le> u \<Longrightarrow> valid u d"
    and renew_owner: "valid t d \<Longrightarrow> owns i w d \<Longrightarrow> \<exists>d'. renew i w t d = Inr d' \<and> valid t d' \<and> owns i w d'"
    and renew_other: "valid t d \<Longrightarrow> \<not> owns i w d \<Longrightarrow> renew i w t d = Inl lost"
    and finish_owner: "valid t d \<Longrightarrow> owns i w d \<Longrightarrow> \<exists>d'. finish i w r t d = Inr d' \<and> valid t d' \<and> \<not> owns i w d'"
begin

lemma renew_finish:
  assumes "valid t d" "owns i w d" "t \<le> u"
  shows "\<exists>d1 d2. renew i w t d = Inr d1 \<and> finish i w r u d1 = Inr d2 \<and> \<not> owns i w d2 \<and> valid u d2"
proof -
  obtain d1 where d1: "renew i w t d = Inr d1" "valid t d1" "owns i w d1"
    using renew_owner[OF assms(1,2)] by blast
  with finish_owner[OF valid_later[OF d1(2) assms(3)] d1(3), of r] show ?thesis by blast
qed

lemma renew_error: "valid t d \<Longrightarrow> renew i w t d = Inl e \<Longrightarrow> e = lost"
  using renew_owner[of t d i w] renew_other[of t d i w] by force

lemma renew_iff: "valid t d \<Longrightarrow> (\<exists>d'. renew i w t d = Inr d') = owns i w d"
  using renew_owner[of t d i w] renew_other[of t d i w] by force

end

definition owns_job :: "int \<Rightarrow> string \<Rightarrow> db \<Rightarrow> bool" where
  "owns_job i w d = (\<exists>j\<in>set (db_jobs d). owned_by i w j)"

definition queue_valid :: "int \<Rightarrow> py_time \<Rightarrow> db \<Rightarrow> bool" where
  "queue_valid lease now d = (0 < lease \<and> jobs_ok (db_jobs d) \<and> started_by now d)"

definition finish_row :: "handler_result \<Rightarrow> py_time \<Rightarrow> job \<Rightarrow> job" where
  "finish_row result now =
     (if res_status result = HSucceeded then succeed_row (Some (res_json result)) now
      else fail_row (text_or (res_error_code result) ''internal_error'')
             (text_or (res_error_message result) ''Job failed.'') now)"

definition renew_row :: "int \<Rightarrow> py_time \<Rightarrow> job \<Rightarrow> job" where
  "renew_row lease now j = j\<lparr>job_locked_at := Some now, job_lease_expires_at := Some (now + lease),
     job_updated_at := now\<rparr>"

lemma renew_lease_owner:
  assumes "queue_valid lease now d"
  shows "renew_lease i w lease now d =
    (if owns_job i w d
     then Inr (d\<lparr>db_jobs := map (\<lambda>j. if owned_by i w j then renew_row lease now j else j) (db_jobs d)\<rparr>)
     else Inl LeaseLost)"
  using renew_lease_eq[of d lease i w now] assms by (simp add: queue_valid_def owns_job_def renew_row_def)

lemma mark_result_eq:
  assumes "queue_valid lease now d"
  shows "mark_result i w result now d =
    (if owns_job i w d
     then Inr (d\<lparr>db_jobs := map (\<lambda>j. if owned_by i w j then finish_row result now j else j) (db_jobs d)\<rparr>)
     else Inl LeaseLost)"
  using assms mark_succeeded_eq[of d now i w] mark_failed_eq[of d now i w]
  by (simp add: mark_result_def finish_row_def queue_valid_def owns_job_def)

lemma owned_renew_row [simp]: "owned_by i w (renew_row lease now j) = owned_by i w j"
  by (simp add: owned_by_def renew_row_def)

lemma owned_finish_row [simp]: "\<not> owned_by i w (finish_row result now j)"
  by (simp add: owned_by_def finish_row_def succeed_row_def fail_row_def)

lemma started_by_map:
  "started_by now d \<Longrightarrow> (\<And>j. j \<in> set (db_jobs d) \<Longrightarrow> job_started_at (f j) = job_started_at j) \<Longrightarrow>
   started_by now (d\<lparr>db_jobs := map f (db_jobs d)\<rparr>)"
  by (simp add: started_by_def)

lemma renew_valid:
  assumes v: "queue_valid lease now d" and m: "renew_lease i w lease now d = Inr d'"
  shows "queue_valid lease now d' \<and> owns_job i w d'"
proof -
  have own: "owns_job i w d"
    and d': "d' = d\<lparr>db_jobs := map (\<lambda>j. if owned_by i w j then renew_row lease now j else j) (db_jobs d)\<rparr>"
    using m renew_lease_owner[OF v, of i w] by (simp_all split: if_splits)
  have "jobs_ok (db_jobs d')"
    using m unfolding renew_lease_def by (auto dest: update_owned_InrD)
  moreover have "started_by now d'"
    unfolding d' using v by (intro started_by_map) (auto simp: queue_valid_def renew_row_def)
  moreover have "owns_job i w d'"
  proof -
    obtain j where j: "j \<in> set (db_jobs d)" "owned_by i w j" using own by (auto simp: owns_job_def)
    then have "renew_row lease now j \<in> set (db_jobs d')" by (auto simp: d' image_iff)
    with j(2) show ?thesis unfolding owns_job_def by (metis owned_renew_row)
  qed
  ultimately show ?thesis using v by (simp add: queue_valid_def)
qed

lemma mark_result_valid:
  assumes v: "queue_valid lease now d" and m: "mark_result i w result now d = Inr d'"
  shows "queue_valid lease now d' \<and> \<not> owns_job i w d'"
proof -
  have d': "d' = d\<lparr>db_jobs := map (\<lambda>j. if owned_by i w j then finish_row result now j else j) (db_jobs d)\<rparr>"
    using m mark_result_eq[OF v, of i w result] by (simp split: if_splits)
  have "jobs_ok (db_jobs d')"
    using m unfolding mark_result_def mark_succeeded_def mark_failed_def
    by (auto dest: update_owned_InrD split: if_splits)
  moreover have "started_by now d'"
    unfolding d' using v by (intro started_by_map)
      (auto simp: queue_valid_def finish_row_def succeed_row_def fail_row_def)
  ultimately show ?thesis using v by (auto simp: queue_valid_def owns_job_def d')
qed

interpretation wq: leased_queue "queue_valid lease" owns_job
  "\<lambda>i w now. renew_lease i w lease now" mark_result LeaseLost
  for lease
proof
  show "queue_valid lease t d \<Longrightarrow> t \<le> u \<Longrightarrow> queue_valid lease u d" for t d u
    by (auto simp: queue_valid_def intro: started_by_mono)
  show "\<exists>d'. renew_lease i w lease t d = Inr d' \<and> queue_valid lease t d' \<and> owns_job i w d'"
    if "queue_valid lease t d" "owns_job i w d" for t d i w
    using renew_valid[OF that(1), of i w] renew_lease_owner[OF that(1), of i w] that(2) by simp
  show "renew_lease i w lease t d = Inl LeaseLost"
    if "queue_valid lease t d" "\<not> owns_job i w d" for t d i w
    using renew_lease_owner[OF that(1), of i w] that(2) by simp
  show "\<exists>d'. mark_result i w r t d = Inr d' \<and> queue_valid lease t d' \<and> \<not> owns_job i w d'"
    if "queue_valid lease t d" "owns_job i w d" for t d i w r
    using mark_result_valid[OF that(1), of i w r] mark_result_eq[OF that(1), of i w r] that(2) by simp
qed

end
