(* ===== verification/Worker_Properties.thy ===== *)
theory Worker_Properties
  imports Worker Job_Properties
begin

section \<open>Properties of the worker\<close>

text \<open>
  The terminal update of a job, the runs of a worker as runs of the queue, and the parsing
  of the worker's configuration; each property with an application to a concrete queue.
\<close>

subsection \<open>The terminal update\<close>

lemma store_terminal_result_eq:
  assumes "jobs_ok (db_jobs d)" "started_by t d" "t \<le> u" "0 < cfg_lease cfg"
  shows "store_terminal_result cfg i result t u d =
    (if \<exists>j\<in>set (db_jobs d). owned_by i (cfg_worker_id cfg) j
     then (Stored, d\<lparr>db_jobs := map (\<lambda>j. if owned_by i (cfg_worker_id cfg) j
        then finish_row result u (renew_row (cfg_lease cfg) t j) else j) (db_jobs d)\<rparr>)
     else (SkippedLostLease, d))"
proof (cases "owns_job i (cfg_worker_id cfg) d")
  case True
  let ?w = "cfg_worker_id cfg" and ?l = "cfg_lease cfg"
  have v: "queue_valid ?l t d" using assms by (simp add: queue_valid_def)
  obtain d1 d2 where d1: "renew_lease i ?w ?l t d = Inr d1" and d2: "mark_result i ?w result u d1 = Inr d2"
    using wq.renew_finish[OF v True assms(3)] by blast
  have v1: "queue_valid ?l u d1"
    using renew_valid[OF v d1] assms(3) by (auto simp: queue_valid_def intro: started_by_mono)
  have "d1 = d\<lparr>db_jobs := map (\<lambda>j. if owned_by i ?w j then renew_row ?l t j else j) (db_jobs d)\<rparr>"
    using d1 renew_lease_owner[OF v, of i ?w] True by simp
  moreover have "d2 = d1\<lparr>db_jobs := map (\<lambda>j. if owned_by i ?w j then finish_row result u j else j) (db_jobs d1)\<rparr>"
    using d2 mark_result_eq[OF v1, of i ?w result] by (simp split: if_splits)
  ultimately have "d2 = d\<lparr>db_jobs := map (\<lambda>j. if owned_by i ?w j
        then finish_row result u (renew_row ?l t j) else j) (db_jobs d)\<rparr>" by (simp cong: map_cong)
  then show ?thesis using True d1 d2 by (simp add: store_terminal_result_def owns_job_def)
next
  case False
  then show ?thesis
    using assms renew_lease_owner[of "cfg_lease cfg" t d i "cfg_worker_id cfg"]
    by (simp add: store_terminal_result_def owns_job_def queue_valid_def)
qed

text \<open>
  C11: The terminal update of a job is stored exactly when the worker still owns the running
  row: then every owned row is renewed and finished, succeeded with the sanitized result or
  failed with the redacted error, and no other row and no other table changes. A worker whose
  lease was taken over, or whose job was canceled, changes nothing, and the update never fails
  on a constraint.
\<close>

theorem terminal_result_is_stored_iff_owned:
  assumes "jobs_ok (db_jobs d)" "started_by t d" "t \<le> u" "0 < cfg_lease cfg"
  shows "store_terminal_result cfg i result t u d =
    (if \<exists>j\<in>set (db_jobs d). owned_by i (cfg_worker_id cfg) j
     then (Stored, d\<lparr>db_jobs := map (\<lambda>j. if owned_by i (cfg_worker_id cfg) j
        then finish_row result u (renew_row (cfg_lease cfg) t j) else j) (db_jobs d)\<rparr>)
     else (SkippedLostLease, d))"
  by (rule store_terminal_result_eq[OF assms])

definition ex_cfg :: worker_config where
  "ex_cfg = \<lparr>cfg_batch_size = 1, cfg_lease = 10, cfg_enabled = None, cfg_worker_id = ''w1''\<rparr>"

theorem terminal_result_is_stored_iff_owned_witness:
  "fst (store_terminal_result ex_cfg 1 (handler_succeeded None) 4 5 ex_running_db) = Stored \<and>
   store_terminal_result (ex_cfg\<lparr>cfg_worker_id := ''w2''\<rparr>) 1 (handler_succeeded None) 4 5 ex_running_db =
     (SkippedLostLease, ex_running_db)"
proof -
  have ok: "jobs_ok (db_jobs ex_running_db)" "started_by 4 ex_running_db"
    by (simp_all add: ex_run_defs ex_defs jobs_ok_def ck_job_def ux_active_retry_def started_by_def
      ux_message_edit_def ux_active_retry_key_def ux_message_edit_key_def fk_retry_of_def
      message_edit_type_def job_active_def)
  show ?thesis
    using terminal_result_is_stored_iff_owned[OF ok, of 5 ex_cfg 1 "handler_succeeded None"]
      terminal_result_is_stored_iff_owned[OF ok, of 5 "ex_cfg\<lparr>cfg_worker_id := ''w2''\<rparr>" 1 "handler_succeeded None"]
    by (simp add: ex_cfg_def ex_run_defs ex_defs owned_by_def)
qed

subsection \<open>A worker's round is a run of the queue\<close>

text \<open>
  What the other processes commit between two actions of the worker is itself a run of the
  queue that ends no later than the worker's next action.
\<close>

definition others_ok :: "int \<Rightarrow> py_time \<Rightarrow> (db \<Rightarrow> db) \<Rightarrow> bool" where
  "others_ok lease now others = (\<forall>t d. t \<le> now \<longrightarrow>
     (\<exists>u. t \<le> u \<and> u \<le> now \<and> (job_step lease)\<^sup>*\<^sup>* (t, d) (u, others d)))"

fun beats_ok :: "int \<Rightarrow> py_time \<Rightarrow> beat list \<Rightarrow> py_time \<Rightarrow> bool" where
  "beats_ok lease t [] u = (t \<le> u)"
| "beats_ok lease t (None # beats) u = beats_ok lease t beats u"
| "beats_ok lease t (Some (now, others) # beats) u =
     (t \<le> now \<and> others_ok lease now others \<and> beats_ok lease now beats u)"

fun schedule_ok :: "int \<Rightarrow> py_time \<Rightarrow> (beat list \<times> py_time \<times> py_time) list \<Rightarrow> bool" where
  "schedule_ok lease t [] = True"
| "schedule_ok lease t ((beats, t1, t2) # schedule) =
     (beats_ok lease t beats t1 \<and> t1 \<le> t2 \<and> schedule_ok lease t2 schedule)"

lemma beats_ok_le: "beats_ok lease t beats u \<Longrightarrow> t \<le> u"
  by (induction lease t beats u rule: beats_ok.induct) auto

lemma others_step:
  assumes "others_ok lease now others" "t \<le> now"
  obtains u where "t \<le> u" "u \<le> now" "(job_step lease)\<^sup>*\<^sup>* (t, d) (u, others d)"
  using assms unfolding others_ok_def by blast

lemma heartbeat_run:
  assumes "beats_ok (cfg_lease cfg) t beats e"
  shows "\<exists>u. t \<le> u \<and> u \<le> e \<and> (job_step (cfg_lease cfg))\<^sup>*\<^sup>* (t, d) (u, snd (heartbeat cfg i beats d))"
  using assms
proof (induction cfg i beats d arbitrary: t rule: heartbeat.induct)
  case (1 cfg i d)
  then show ?case by auto
next
  case (2 cfg i beats d)
  then show ?case using beats_ok_le by fastforce
next
  case (3 cfg i now others beats d)
  have le: "t \<le> now" and oth: "others_ok (cfg_lease cfg) now others"
    and b: "beats_ok (cfg_lease cfg) now beats e" using "3.prems" by auto
  obtain u where u: "t \<le> u" "u \<le> now" "(job_step (cfg_lease cfg))\<^sup>*\<^sup>* (t, d) (u, others d)"
    using others_step[OF oth le] .
  show ?case
  proof (cases "renew_lease i (cfg_worker_id cfg) (cfg_lease cfg) now (others d)")
    case (Inl x)
    then show ?thesis using u beats_ok_le[OF b] by auto
  next
    case (Inr d')
    have s: "job_step (cfg_lease cfg) (u, others d) (now, d')" by (rule step_renew[OF u(2) Inr])
    obtain v where v: "now \<le> v" "v \<le> e"
      "(job_step (cfg_lease cfg))\<^sup>*\<^sup>* (now, d') (v, snd (heartbeat cfg i beats d'))"
      using "3.IH"[OF Inr b] by blast
    have "(job_step (cfg_lease cfg))\<^sup>*\<^sup>* (t, d) (v, snd (heartbeat cfg i beats d'))"
      using rtranclp.rtrancl_into_rtrancl[OF u(3) s] v(3) by (rule rtranclp_trans)
    then show ?thesis using Inr v(1,2) le by (intro exI[of _ v]) simp
  qed
qed

lemma mark_result_step:
  "mark_result i w result now d = Inr d' \<Longrightarrow> t \<le> now \<Longrightarrow> job_step lease (t, d) (now, d')"
  by (auto simp: mark_result_def split: if_splits intro: step_succeed step_fail)

lemma store_run:
  assumes "t \<le> t1" "t1 \<le> t2"
  shows "\<exists>u. t \<le> u \<and> u \<le> t2 \<and> (job_step (cfg_lease cfg))\<^sup>*\<^sup>* (t, d)
    (u, snd (store_terminal_result cfg i result t1 t2 d))"
proof (cases "\<exists>d1 d2. renew_lease i (cfg_worker_id cfg) (cfg_lease cfg) t1 d = Inr d1 \<and>
    mark_result i (cfg_worker_id cfg) result t2 d1 = Inr d2")
  case True
  then obtain d1 d2 where d1: "renew_lease i (cfg_worker_id cfg) (cfg_lease cfg) t1 d = Inr d1"
    and d2: "mark_result i (cfg_worker_id cfg) result t2 d1 = Inr d2" by blast
  have "(job_step (cfg_lease cfg))\<^sup>*\<^sup>* (t, d) (t2, d2)"
    using step_renew[OF assms(1) d1] mark_result_step[OF d2 assms(2)]
    by (meson converse_rtranclp_into_rtranclp r_into_rtranclp)
  then show ?thesis using d1 d2 assms
    by (intro exI[of _ t2]) (simp add: store_terminal_result_def)
next
  case False
  then have "snd (store_terminal_result cfg i result t1 t2 d) = d"
    by (auto simp: store_terminal_result_def split: sum.splits job_error.splits)
  then show ?thesis using assms by auto
qed

lemma run_context_run:
  assumes "beats_ok (cfg_lease cfg) t beats t1" "t1 \<le> t2"
  shows "\<exists>u. t \<le> u \<and> u \<le> t2 \<and> (job_step (cfg_lease cfg))\<^sup>*\<^sup>* (t, d)
    (u, snd (run_context cfg handlers c beats t1 t2 d))"
proof -
  obtain lost d1 where h: "heartbeat cfg (ctx_job_id c) beats d = (lost, d1)" by fastforce
  obtain u where u: "t \<le> u" "u \<le> t1" "(job_step (cfg_lease cfg))\<^sup>*\<^sup>* (t, d) (u, d1)"
    using heartbeat_run[OF assms(1), of d "ctx_job_id c"] h by auto
  have "snd (run_context cfg handlers c beats t1 t2 d) = d1 \<or>
    (\<exists>r. snd (run_context cfg handlers c beats t1 t2 d) =
      snd (store_terminal_result cfg (ctx_job_id c) r t1 t2 d1))"
    by (auto simp: run_context_def h split: outcome.splits)
  then show ?thesis
  proof (elim disjE exE)
    assume "snd (run_context cfg handlers c beats t1 t2 d) = d1"
    then show ?thesis using u assms(2) by (intro exI[of _ u]) simp
  next
    fix r assume r: "snd (run_context cfg handlers c beats t1 t2 d) =
      snd (store_terminal_result cfg (ctx_job_id c) r t1 t2 d1)"
    obtain v where "u \<le> v" "v \<le> t2"
      "(job_step (cfg_lease cfg))\<^sup>*\<^sup>* (u, d1) (v, snd (store_terminal_result cfg (ctx_job_id c) r t1 t2 d1))"
      using store_run[OF u(2) assms(2)] by blast
    then show ?thesis using u r by (metis order_trans rtranclp_trans)
  qed
qed

lemma run_contexts_run:
  assumes "schedule_ok (cfg_lease cfg) t schedule"
  shows "length (fst (run_contexts cfg handlers cs schedule d)) \<le> length cs \<and>
    (\<exists>u. t \<le> u \<and> (job_step (cfg_lease cfg))\<^sup>*\<^sup>* (t, d) (u, snd (run_contexts cfg handlers cs schedule d)))"
  using assms
proof (induction cfg handlers cs schedule d arbitrary: t rule: run_contexts.induct)
  case (1 cfg handlers c cs beats t1 t2 schedule d)
  obtain out d' where r: "run_context cfg handlers c beats t1 t2 d = (out, d')" by fastforce
  obtain u where u: "t \<le> u" "u \<le> t2" "(job_step (cfg_lease cfg))\<^sup>*\<^sup>* (t, d) (u, d')"
    using run_context_run[of cfg t beats t1 t2 d handlers c] "1.prems" r by auto
  show ?case
  proof (cases "out = StoreRaised")
    case True
    then show ?thesis using u r by auto
  next
    case False
    obtain outs d'' where rest: "run_contexts cfg handlers cs schedule d' = (outs, d'')" by fastforce
    have mono: "schedule_ok l t2 schedule \<Longrightarrow> u \<le> t2 \<Longrightarrow> schedule_ok l u schedule" for l
    proof (cases schedule)
      case (Cons x xs)
      obtain b s1 s2 where x: "x = (b, s1, s2)" by (metis prod.exhaust)
      have "beats_ok l t2 b s1 \<Longrightarrow> u \<le> t2 \<Longrightarrow> beats_ok l u b s1"
        by (induction l t2 b s1 rule: beats_ok.induct) auto
      then show "schedule_ok l t2 schedule \<Longrightarrow> u \<le> t2 \<Longrightarrow> schedule_ok l u schedule"
        by (simp add: Cons x)
    qed simp
    have "schedule_ok (cfg_lease cfg) u schedule" using "1.prems" mono u(2) by simp
    from "1.IH"[OF r[symmetric] refl False this]
    obtain v where v: "length outs \<le> length cs" "u \<le> v" "(job_step (cfg_lease cfg))\<^sup>*\<^sup>* (u, d') (v, d'')"
      using rest by auto
    have "(job_step (cfg_lease cfg))\<^sup>*\<^sup>* (t, d) (v, d'')"
      using rtranclp_trans[OF u(3) v(3)] .
    then show ?thesis using u(1) v r rest False by (auto intro: order_trans)
  qed
qed auto

text \<open>
  A polling round of a worker is a run of the queue: whatever the handlers return or
  raise, whenever the heartbeats come and whatever the other processes commit between them,
  the round only takes steps of the queue's step relation, so every property of the queue's
  runs holds of the workers; and it takes at most a batch of jobs.
\<close>

theorem worker_round_is_a_queue_run:
  assumes "run_once cfg handlers row_locked now schedule d = Inr (outs, n, d')"
    and "schedule_ok (cfg_lease cfg) now schedule" "t \<le> now"
  shows "(\<exists>u. t \<le> u \<and> (job_step (cfg_lease cfg))\<^sup>*\<^sup>* (t, d) (u, d')) \<and>
    n \<le> cfg_batch_size cfg \<and> length outs \<le> n"
proof -
  obtain js d1 where acq: "acquire_jobs row_locked (cfg_worker_id cfg) (cfg_enabled cfg) (cfg_lease cfg)
        (cfg_batch_size cfg) (Some (supported_job_types handlers)) now d = Inr (js, d1)"
    and n: "n = length js"
    and run: "run_contexts cfg handlers (map (\<lambda>j. context_from_job j (cfg_worker_id cfg)) js) schedule d1 =
      (outs, d')"
    using assms(1) by (auto simp: run_once_def acquire_contexts_def split: sum.splits prod.splits)
  have s: "job_step (cfg_lease cfg) (t, d) (now, d1)" by (rule step_acquire[OF assms(3) acq])
  have "length js \<le> cfg_batch_size cfg"
    using acq by (auto simp: acquire_jobs_def acquire_candidates_def Let_def split: sum.splits)
  moreover obtain u where "length outs \<le> length js" "now \<le> u"
      "(job_step (cfg_lease cfg))\<^sup>*\<^sup>* (now, d1) (u, d')"
    using run_contexts_run[OF assms(2), of handlers "map (\<lambda>j. context_from_job j (cfg_worker_id cfg)) js" d1] run
    by auto
  ultimately show ?thesis using s n assms(3)
    by (metis converse_rtranclp_into_rtranclp order_trans)
qed

definition ex_handlers :: handlers where
  "ex_handlers = [(''evaluation_run'', \<lambda>_. Returned (handler_succeeded None))]"

lemma ex_acquire_supported:
  "acquire_jobs (\<lambda>_. False) ''w1'' None 10 1 (Some [''evaluation_run'']) 1 ex_created_db =
   Inr ([ex_j1], ex_running_db)"
  unfolding acquire_jobs_eq[OF ex_created_ok, of 10, simplified]
  by (simp add: acquire_candidates_def acquirable_def type_enabled_def ex_run_defs ex_defs)

lemma ex_running_valid: "jobs_ok (db_jobs ex_running_db)" "started_by 4 ex_running_db"
  by (simp_all add: ex_run_defs ex_defs jobs_ok_def ck_job_def ux_active_retry_def started_by_def
      ux_message_edit_def ux_active_retry_key_def ux_message_edit_key_def fk_retry_of_def
      message_edit_type_def job_active_def)

lemma ex_run_once:
  "\<exists>d'. run_once ex_cfg ex_handlers (\<lambda>_. False) 1 [([], 4, 5)] ex_created_db = Inr ([Stored], 1, d')"
  using ex_acquire_supported store_terminal_result_eq[OF ex_running_valid, of 5 ex_cfg 1 "handler_succeeded None"]
  by (simp add: run_once_def acquire_contexts_def ex_cfg_def ex_handlers_def supported_job_types_def
     run_context_def dispatch_def context_from_job_def ex_run_defs ex_defs owned_by_def handler_succeeded_def)

theorem worker_round_is_a_queue_run_witness:
  "\<exists>d'. run_once ex_cfg ex_handlers (\<lambda>_. False) 1 [([], 4, 5)] ex_created_db = Inr ([Stored], 1, d') \<and>
    (\<exists>u. (job_step 10)\<^sup>*\<^sup>* (0, ex_created_db) (u, d'))"
proof -
  obtain d' where r: "run_once ex_cfg ex_handlers (\<lambda>_. False) 1 [([], 4, 5)] ex_created_db = Inr ([Stored], 1, d')"
    using ex_run_once by blast
  from worker_round_is_a_queue_run[OF r, of 0] show ?thesis using r by (auto simp: ex_cfg_def)
qed

subsection \<open>What a worker stores\<close>

text \<open>What the handler of a job comes to, as the worker records it.\<close>

definition decided :: "handlers \<Rightarrow> job_context \<Rightarrow> handler_result option" where
  "decided handlers c = (case map_of handlers (ctx_job_type c) of
     None \<Rightarrow> Some (handler_failed ''unknown_job_type'' ''Unknown job type.'')
   | Some handler \<Rightarrow> (case handler c of
       Returned r \<Rightarrow> Some r
     | RaisedLeaseLost \<Rightarrow> None
     | RaisedOther \<Rightarrow> Some (handler_failed ''internal_error'' ''Job handler failed.'')))"

lemma dispatch_decided:
  "dispatch handlers c = (case decided handlers c of None \<Rightarrow> RaisedLeaseLost | Some r \<Rightarrow> Returned r)"
  by (simp add: dispatch_def decided_def split: option.splits outcome.splits)

lemma heartbeat_lost:
  assumes "heartbeat cfg i beats d = (lost, d1)"
  shows "if lost then None \<in> set beats \<or> (\<exists>now others e. Some (now, others) \<in> set beats \<and>
      renew_lease i (cfg_worker_id cfg) (cfg_lease cfg) now d1 = Inl e) else None \<notin> set beats"
  using assms
proof (induction cfg i beats d rule: heartbeat.induct)
  case (3 cfg i now others beats d)
  show ?case
  proof (cases "renew_lease i (cfg_worker_id cfg) (cfg_lease cfg) now (others d)")
    case (Inl e)
    then show ?thesis using "3.prems" by auto
  next
    case (Inr d')
    then show ?thesis using "3.IH"[OF Inr] "3.prems" by (auto split: if_splits)
  qed
qed auto

text \<open>
  C16: A worker stores what the handler of its job decided, and only while the job is its own.
  If no beat of the heartbeat failed while the handler ran, the handler did not itself find the
  lease lost, and the worker still owns the running row, the row gets the result the handler
  returned: it is succeeded with the sanitized result, or failed with the handler's error code
  and redacted message; it is failed as unknown_job_type if the type has no handler and as
  internal_error if the handler raised anything else. No other row and no other table
  changes. In every other case the database stays as the heartbeat left it, and the result is
  dropped. The
  heartbeat is lost only when a beat could not reach the database or could not renew the lease,
  and always in the first case.
\<close>

theorem worker_stores_what_the_handler_decided:
  assumes "heartbeat cfg i beats d = (lost, d1)" "queue_valid (cfg_lease cfg) t1 d1" "t1 \<le> t2"
    and "i = ctx_job_id c" "w = cfg_worker_id cfg"
  shows "run_context cfg handlers c beats t1 t2 d =
      (if lost \<or> \<not> owns_job i w d1 then (SkippedLostLease, d1)
       else (case decided handlers c of
           None \<Rightarrow> (SkippedLostLease, d1)
         | Some result \<Rightarrow> (Stored, d1\<lparr>db_jobs := map (\<lambda>j. if owned_by i w j
             then finish_row result t2 (renew_row (cfg_lease cfg) t1 j) else j) (db_jobs d1)\<rparr>))) \<and>
    (if lost then None \<in> set beats \<or> (\<exists>now others e. Some (now, others) \<in> set beats \<and>
         renew_lease i w (cfg_lease cfg) now d1 = Inl e)
     else None \<notin> set beats)"
proof -
  have store: "store_terminal_result cfg i result t1 t2 d1 =
      (if owns_job i w d1 then (Stored, d1\<lparr>db_jobs := map (\<lambda>j. if owned_by i w j
             then finish_row result t2 (renew_row (cfg_lease cfg) t1 j) else j) (db_jobs d1)\<rparr>)
       else (SkippedLostLease, d1))" for result
    using store_terminal_result_eq[of d1 t1 t2 cfg i result] assms(2,3,5) by (simp add: queue_valid_def owns_job_def)
  have "run_context cfg handlers c beats t1 t2 d =
      (if lost \<or> \<not> owns_job i w d1 then (SkippedLostLease, d1)
       else (case decided handlers c of
           None \<Rightarrow> (SkippedLostLease, d1)
         | Some result \<Rightarrow> (Stored, d1\<lparr>db_jobs := map (\<lambda>j. if owned_by i w j
             then finish_row result t2 (renew_row (cfg_lease cfg) t1 j) else j) (db_jobs d1)\<rparr>)))"
    using assms(1) unfolding assms(4) run_context_def dispatch_decided
    by (auto simp: store[unfolded assms(4)] split: option.splits)
  then show ?thesis using heartbeat_lost[OF assms(1)] unfolding assms(5) by blast
qed

text \<open>A handler that raises fails the job; after a beat that could not renew, nothing is stored.\<close>

theorem worker_stores_what_the_handler_decided_witness:
  "run_context ex_cfg [(job_type ex_j1, \<lambda>_. RaisedOther)] (context_from_job ex_j1 ''w1'') [] 4 5 ex_running_db =
     (Stored, ex_running_db\<lparr>db_jobs :=
        [fail_row ''internal_error'' ''Job handler failed.'' 5 (renew_row 10 4 ex_j1)]\<rparr>) \<and>
   run_context ex_cfg [(job_type ex_j1, \<lambda>_. Returned (handler_succeeded None))] (context_from_job ex_j1 ''w1'')
     [None] 4 5 ex_running_db = (SkippedLostLease, ex_running_db)"
proof -
  have valid: "queue_valid (cfg_lease ex_cfg) 4 ex_running_db"
    using ex_running_valid by (simp add: queue_valid_def ex_cfg_def)
  have own: "owns_job 1 ''w1'' ex_running_db" "owned_by 1 ''w1'' ex_j1" "ctx_job_id (context_from_job ex_j1 ''w1'') = 1"
    "cfg_worker_id ex_cfg = ''w1''" "cfg_lease ex_cfg = 10" "db_jobs ex_running_db = [ex_j1]"
    "ctx_job_type (context_from_job ex_j1 ''w1'') = job_type ex_j1"
    by (simp_all add: owns_job_def owned_by_def context_from_job_def ex_cfg_def ex_run_defs ex_defs)
  have h: "heartbeat ex_cfg 1 [] ex_running_db = (False, ex_running_db)"
    "heartbeat ex_cfg 1 [None] ex_running_db = (True, ex_running_db)" by simp_all
  have msg: "text_or (Some ''internal_error'') ''internal_error'' = ''internal_error''" by (simp add: text_or_def)
  have red: "redact_error_message (Some ''Job handler failed.'') = ''Job handler failed.''" by code_simp
  have d: "decided [(job_type ex_j1, \<lambda>_. RaisedOther)] (context_from_job ex_j1 ''w1'') =
      Some (handler_failed ''internal_error'' ''Job handler failed.'')"
    by (simp add: decided_def own(7))
  have f: "finish_row (handler_failed ''internal_error'' ''Job handler failed.'') 5 =
      fail_row ''internal_error'' ''Job handler failed.'' 5"
    by (simp add: finish_row_def handler_failed_def text_or_def red)
  show ?thesis
    using worker_stores_what_the_handler_decided[OF h(1) valid _ own(3)[symmetric] own(4)[symmetric], of 5
        "[(job_type ex_j1, \<lambda>_. RaisedOther)]"]
      worker_stores_what_the_handler_decided[OF h(2) valid _ own(3)[symmetric] own(4)[symmetric], of 5
        "[(job_type ex_j1, \<lambda>_. Returned (handler_succeeded None))]"]
    by (simp only: own(1,2,5,6) d f list.map option.case if_True if_False simp_thms)
qed

subsection \<open>Configuration\<close>

lemma supported_types_plain:
  "list_all (\<lambda>t. py_strip t = t \<and> py_lower t = t \<and> CHR '','' \<notin> set t \<and> t \<noteq> [] \<and> t \<noteq> ''all'' \<and> t \<noteq> ''none'')
     SUPPORTED_JOB_TYPES"
  by code_simp

lemma supported_plain: "set xs \<subseteq> set SUPPORTED_JOB_TYPES \<Longrightarrow> t \<in> set xs \<Longrightarrow>
    py_strip t = t \<and> py_lower t = t \<and> CHR '','' \<notin> set t \<and> t \<noteq> [] \<and> t \<noteq> ''all'' \<and> t \<noteq> ''none''"
  using supported_types_plain by (auto simp: list_all_iff)

lemma enabled_items_supported:
  assumes "xs \<noteq> []" "set xs \<subseteq> set SUPPORTED_JOB_TYPES"
  shows "enabled_items (TypesText (py_join '','' xs)) = xs" "enabled_items (TypesItems xs) = xs"
    "map py_lower xs = xs"
proof -
  note plain = supported_plain[OF assms(2)]
  have m: "map py_strip xs = xs" "filter (\<lambda>x. x \<noteq> []) xs = xs" "map py_lower xs = xs"
    using plain by (auto intro: map_idI simp: filter_id_conv)
  have "py_split_on CHR '','' (py_join '','' xs) = xs"
    using plain assms(1) by (intro py_split_on_join) auto
  then show "enabled_items (TypesText (py_join '','' xs)) = xs" "enabled_items (TypesItems xs) = xs"
    "map py_lower xs = xs" using m by (simp_all add: enabled_items_def)
qed

text \<open>
  The selection of job types is parsed to a set of supported types or refused: whatever
  the text, an accepted explicit selection names supported types only; the comma-separated
  names of supported types are accepted as exactly themselves; and a worker restricted to an
  explicit selection acquires jobs of those types only.
\<close>

theorem enabled_job_types_are_supported:
  "(\<forall>en. parse_enabled_job_types value = Inr (Some en) \<longrightarrow> set en \<subseteq> set SUPPORTED_JOB_TYPES \<and> distinct en) \<and>
   (xs \<noteq> [] \<and> set xs \<subseteq> set SUPPORTED_JOB_TYPES \<and> distinct xs \<longrightarrow>
      parse_enabled_job_types (TypesText (py_join '','' xs)) = Inr (Some xs) \<and>
      parse_enabled_job_types (TypesItems xs) = Inr (Some xs)) \<and>
   (\<forall>en js d'. parse_enabled_job_types value = Inr (Some en) \<and> jobs_ok (db_jobs d) \<and> 0 < lease \<and>
      acquire_jobs locked w (Some en) lease batch supported now d = Inr (js, d') \<longrightarrow>
      (\<forall>j\<in>set js. job_type j \<in> set en))"
proof (intro conjI allI impI ballI)
  fix en assume "parse_enabled_job_types value = Inr (Some en)"
  then show "set en \<subseteq> set SUPPORTED_JOB_TYPES" "distinct en"
    by (auto simp: parse_enabled_job_types_def Let_def filter_empty_conv split: if_splits)
next
  assume xs: "xs \<noteq> [] \<and> set xs \<subseteq> set SUPPORTED_JOB_TYPES \<and> distinct xs"
  then have n: "''all'' \<notin> set xs" "''none'' \<notin> set xs" using supported_plain[of xs] by auto
  have f: "filter (\<lambda>t. t \<notin> set SUPPORTED_JOB_TYPES) xs = []" using xs by (auto simp: filter_empty_conv)
  show "parse_enabled_job_types (TypesText (py_join '','' xs)) = Inr (Some xs)"
    "parse_enabled_job_types (TypesItems xs) = Inr (Some xs)"
    using xs n f enabled_items_supported[of xs] by (simp_all add: parse_enabled_job_types_def uniq_first_id)
next
  fix en js d' j
  assume a: "parse_enabled_job_types value = Inr (Some en) \<and> jobs_ok (db_jobs d) \<and> 0 < lease \<and>
      acquire_jobs locked w (Some en) lease batch supported now d = Inr (js, d')" and j: "j \<in> set js"
  then have "js = map (start_job w lease now) (acquire_candidates locked (Some en) supported batch now d)"
    using acquire_jobs_eq[of d lease locked w "Some en" batch supported now] by (simp add: Let_def)
  with j obtain k where k: "k \<in> set (acquire_candidates locked (Some en) supported batch now d)"
    and "j = start_job w lease now k" by auto
  then have "job_type j = job_type k" by (simp add: start_job_def)
  with candidates_sub[OF k] show "job_type j \<in> set en" by (auto simp: acquirable_def type_enabled_def)
qed

theorem enabled_job_types_are_supported_witness:
  "parse_enabled_job_types (TypesText ''evaluation_run,document_ingest'') =
     Inr (Some [''evaluation_run'', ''document_ingest''])"
proof -
  have "set [''evaluation_run'', ''document_ingest''] \<subseteq> set SUPPORTED_JOB_TYPES"
    by (simp add: SUPPORTED_JOB_TYPES_def)
  with enabled_job_types_are_supported[of NoTypes "[''evaluation_run'', ''document_ingest'']" ex_created_db 1]
  show ?thesis by simp
qed

definition id_char :: "char \<Rightarrow> bool" where
  "id_char c = (py_isalnum c \<or> c = CHR ''-'' \<or> c = CHR ''_'' \<or> c = CHR '':'')"

lemma safe_part_chars: "list_all id_char (safe_part v n)"
proof -
  have w: "list_all id_char ''worker''" by code_simp
  have "list_all id_char (map (\<lambda>c. if py_isalnum c \<or> c = CHR ''-'' \<or> c = CHR ''_'' then c else CHR ''-'') v)"
    by (auto simp: list_all_iff id_char_def)
  then show ?thesis using w by (auto simp: safe_part_def Let_def list_all_iff dest: in_set_takeD)
qed

lemma safe_part_nonempty: "safe_part v n \<noteq> []"
  by (simp add: safe_part_def Let_def)

lemma digit_char_id: "(n::nat) < 10 \<Longrightarrow> id_char (char_of (48 + n))"
proof -
  have "list_all (\<lambda>n. id_char (char_of (48 + n))) [0..<10::nat]" by code_simp
  then show "n < 10 \<Longrightarrow> id_char (char_of (48 + n))" by (simp only: list_all_iff set_upt) simp
qed

lemma nat_str_chars: "list_all id_char (nat_str n)"
  by (induction n rule: nat_str.induct) (subst nat_str.simps, simp add: digit_char_id)

lemma join_chars: "list_all p sep \<Longrightarrow> list_all (list_all p) xs \<Longrightarrow> list_all p (py_join sep xs)"
  by (induction sep xs rule: py_join.induct) auto

text \<open>
  The identifier a worker signs its leases with fits its column and is safe to log:
  whatever the host name, the boot token and the configured name are, it is not empty, has at
  most a hundred characters and is made of letters, digits, the separators of the format and
  the marks the sanitizer keeps.
\<close>

theorem worker_instance_id_is_safe:
  "list_all id_char (build_worker_instance_id host pid boot name) \<and>
   build_worker_instance_id host pid boot name \<noteq> [] \<and>
   length (build_worker_instance_id host pid boot name) \<le> 100"
proof -
  let ?parts = "(case name of None \<Rightarrow> [] | Some n \<Rightarrow> if n = [] then [] else [safe_part n 24]) @
      [safe_part host 36, ''pid-'' @ nat_str pid, ''boot-'' @ safe_part boot 16]"
  have lit: "list_all id_char ''pid-''" "list_all id_char ''boot-''" "list_all id_char '':''"
    by code_simp+
  have "list_all (list_all id_char) ?parts"
    using safe_part_chars nat_str_chars lit by (simp split: option.split)
  then have j: "list_all id_char (py_join '':'' ?parts)" using lit by (intro join_chars)
  have "py_join '':'' ?parts \<noteq> []"
    using safe_part_nonempty by (auto split: option.split)
  with j show ?thesis
    by (auto simp: build_worker_instance_id_def Let_def list_all_iff dest: in_set_takeD)
qed

end
