(* ===== verification/Rate_Limiter.thy ===== *)
theory Rate_Limiter
  imports Py_Prelude
begin

section \<open>The login rate limiter\<close>

text \<open>
  \<open>LoginRateLimiter\<close> of \<open>backend/app/core/security.py\<close>: a dict from the hashed pair of
  an e-mail address and a client address to the recent failures, the lock and the last use.
  The dict is an association list in insertion order; \<open>time.monotonic()\<close> is an argument.
  A login attempt uses the limiter as \<open>auth_service.login\<close> does: a check, then a recorded
  failure or a reset. The lemmas bound the number of answered attempts and the size of the
  table.
\<close>

record limit_settings =
  login_window :: int
  login_max_attempts :: nat
  login_lock :: int
  login_max_keys :: nat

record limit_entry =
  le_failures :: "py_time list"
  le_locked_until :: py_time
  le_last_seen :: py_time

type_synonym limiter = "(string \<times> limit_entry) list"

definition new_limit_entry :: limit_entry where
  "new_limit_entry = \<lparr>le_failures = [], le_locked_until = 0, le_last_seen = 0\<rparr>"

definition entry_of :: "string \<Rightarrow> limiter \<Rightarrow> limit_entry" where
  "entry_of k l = (case map_of l k of None \<Rightarrow> new_limit_entry | Some e \<Rightarrow> e)"

definition recent_failures :: "limit_settings \<Rightarrow> py_time \<Rightarrow> limit_entry \<Rightarrow> py_time list" where
  "recent_failures cfg now e = filter (\<lambda>f. now - login_window cfg \<le> f) (le_failures e)"

definition check_allowed :: "limit_settings \<Rightarrow> string \<Rightarrow> py_time \<Rightarrow> limiter \<Rightarrow> bool \<times> limiter" where
  "check_allowed cfg k now l =
     (let e = (entry_of k l)\<lparr>le_last_seen := now\<rparr> in
      if now < le_locked_until e then (False, AList.update k e l)
      else (True, AList.update k (e\<lparr>le_failures := recent_failures cfg now e\<rparr>) l))"

definition stale_entry :: "limit_settings \<Rightarrow> py_time \<Rightarrow> limit_entry \<Rightarrow> bool" where
  "stale_entry cfg now e =
     (le_last_seen e < now - max (login_window cfg) (login_lock cfg) \<and> le_locked_until e < now)"

definition prune :: "limit_settings \<Rightarrow> py_time \<Rightarrow> limiter \<Rightarrow> limiter" where
  "prune cfg now l =
     (let l1 = filter (\<lambda>(k, e). \<not> stale_entry cfg now e) l;
          overflow = length l1 - login_max_keys cfg
      in if overflow = 0 then l1
         else (let oldest = map fst (take overflow (sort_key (\<lambda>(k, e). le_last_seen e) l1))
               in filter (\<lambda>(k, e). k \<notin> set oldest) l1))"

definition record_failure :: "limit_settings \<Rightarrow> string \<Rightarrow> py_time \<Rightarrow> limiter \<Rightarrow> limiter" where
  "record_failure cfg k now l =
     (let l1 = prune cfg now l;
          e = (entry_of k l1)\<lparr>le_last_seen := now\<rparr>;
          failures = recent_failures cfg now e @ [now];
          e1 = e\<lparr>le_failures := failures\<rparr>;
          e2 = (if login_max_attempts cfg \<le> length failures
                then e1\<lparr>le_locked_until := now + login_lock cfg\<rparr> else e1)
      in AList.update k e2 l1)"

definition limiter_reset :: "string \<Rightarrow> limiter \<Rightarrow> limiter" where
  "limiter_reset k l = AList.delete k l"

subsection \<open>Login attempts\<close>

datatype attempt_outcome = Blocked | Refused | Accepted

text \<open>
  An attempt is the key, whether its credentials are right, the times of the check and of
  the recorded failure.
\<close>

record attempt =
  at_key :: string
  at_ok :: bool
  at_check :: py_time
  at_record :: py_time

definition login_attempt :: "limit_settings \<Rightarrow> attempt \<Rightarrow> limiter \<Rightarrow> attempt_outcome \<times> limiter" where
  "login_attempt cfg a l =
     (let (allowed, l1) = check_allowed cfg (at_key a) (at_check a) l in
      if \<not> allowed then (Blocked, l1)
      else if at_ok a then (Accepted, limiter_reset (at_key a) l1)
      else (Refused, record_failure cfg (at_key a) (at_record a) l1))"

fun login_attempts :: "limit_settings \<Rightarrow> attempt list \<Rightarrow> limiter \<Rightarrow> attempt_outcome list \<times> limiter" where
  "login_attempts cfg [] l = ([], l)"
| "login_attempts cfg (a # as) l =
     (let (out, l1) = login_attempt cfg a l; (outs, l2) = login_attempts cfg as l1
      in (out # outs, l2))"

definition refusals :: "string \<Rightarrow> attempt list \<Rightarrow> attempt_outcome list \<Rightarrow> nat" where
  "refusals k as outs = length (filter (\<lambda>(a, out). at_key a = k \<and> out = Refused) (zip as outs))"

subsection \<open>The keys of the table\<close>

definition limiter_keys :: "limiter \<Rightarrow> string set" where
  "limiter_keys l = fst ` set l"

definition limiter_ok :: "limiter \<Rightarrow> bool" where
  "limiter_ok l = distinct (map fst l)"

lemma prune_sub: "set (prune cfg now l) \<subseteq> set l"
  by (auto simp: prune_def Let_def)

lemma prune_keys: "limiter_keys (prune cfg now l) \<subseteq> limiter_keys l"
  unfolding limiter_keys_def using prune_sub by (rule image_mono)

lemma limiter_keys_dom: "limiter_keys l = dom (map_of l)"
  by (simp add: limiter_keys_def dom_map_of_conv_image_fst)

lemma limiter_ok_filter: "limiter_ok l \<Longrightarrow> limiter_ok (filter p l)"
  by (simp add: limiter_ok_def distinct_map_filter)

lemma limiter_ok_prune [simp]: "limiter_ok l \<Longrightarrow> limiter_ok (prune cfg now l)"
  by (simp add: prune_def Let_def limiter_ok_filter)

lemma limiter_ok_update [simp]: "limiter_ok l \<Longrightarrow> limiter_ok (AList.update k e l)"
  by (simp add: limiter_ok_def distinct_update)

lemma limiter_keys_update [simp]: "limiter_keys (AList.update k e l) = insert k (limiter_keys l)"
  by (simp add: limiter_keys_dom update_conv')

lemma limiter_reset_ok [simp]: "limiter_ok l \<Longrightarrow> limiter_ok (limiter_reset k l)"
  by (simp add: limiter_ok_def limiter_reset_def distinct_delete)

lemma limiter_reset_keys [simp]: "limiter_keys (limiter_reset k l) = limiter_keys l - {k}"
  by (simp add: limiter_keys_dom limiter_reset_def delete_conv')

lemma length_update_le: "length (AList.update k e l) \<le> Suc (length l)"
  by (induction l) auto

lemma length_update_mem: "k \<in> limiter_keys l \<Longrightarrow> length (AList.update k e l) = length l"
  by (induction l) (auto simp: limiter_keys_def)

lemma limiter_length: "limiter_ok l \<Longrightarrow> length l = card (limiter_keys l)"
  using distinct_card[of "map fst l"] by (simp add: limiter_ok_def limiter_keys_def)

lemma prune_length:
  assumes "limiter_ok l" shows "length (prune cfg now l) \<le> login_max_keys cfg"
proof -
  define l1 where "l1 = filter (\<lambda>(k, e). \<not> stale_entry cfg now e) l"
  define n where "n = length l1 - login_max_keys cfg"
  define old where "old = map fst (take n (sort_key (\<lambda>(k, e). le_last_seen e) l1))"
  have ok1: "limiter_ok l1" using assms by (simp add: l1_def limiter_ok_filter)
  show ?thesis
  proof (cases "n = 0")
    case True
    then show ?thesis by (simp add: prune_def Let_def l1_def[symmetric] n_def)
  next
    case False
    have "distinct (map fst (sort_key (\<lambda>(k, e). le_last_seen e) l1))"
      using ok1 mset_eq_imp_distinct_iff[of "map fst (sort_key (\<lambda>(k, e). le_last_seen e) l1)" "map fst l1"]
      by (simp add: limiter_ok_def)
    then have d: "distinct old" unfolding old_def take_map[symmetric] by simp
    have sub: "set old \<subseteq> limiter_keys l1"
      unfolding old_def limiter_keys_def set_map by (rule image_mono) (auto dest: in_set_takeD)
    have "length old = n" unfolding old_def n_def by simp
    then have c: "card (set old) = n" using d by (simp add: distinct_card)
    have p: "prune cfg now l = filter (\<lambda>(k, e). k \<notin> set old) l1"
      using False
      by (simp only: prune_def Let_def l1_def[symmetric] n_def[symmetric] old_def[symmetric] if_False)
    have "limiter_keys (prune cfg now l) = limiter_keys l1 - set old"
      unfolding p limiter_keys_def by force
    then have "length (prune cfg now l) = card (limiter_keys l1) - n"
      using limiter_length[OF limiter_ok_prune[OF assms]] card_Diff_subset[OF _ sub] c by simp
    then show ?thesis using limiter_length[OF ok1] by (simp add: n_def)
  qed
qed

subsection \<open>The size of the table\<close>

lemma record_failure_length:
  "limiter_ok l \<Longrightarrow> length (record_failure cfg k now l) \<le> Suc (login_max_keys cfg)"
  using prune_length[of l cfg now] length_update_le[of k _ "prune cfg now l"]
  by (auto simp: record_failure_def Let_def intro: order_trans)

lemma check_allowed_ok [simp]: "limiter_ok l \<Longrightarrow> limiter_ok (snd (check_allowed cfg k now l))"
  by (simp add: check_allowed_def Let_def)

lemma record_failure_ok [simp]: "limiter_ok l \<Longrightarrow> limiter_ok (record_failure cfg k now l)"
  by (simp add: record_failure_def Let_def)

lemma check_allowed_keys [simp]:
  "limiter_keys (snd (check_allowed cfg k now l)) = insert k (limiter_keys l)"
  by (simp add: check_allowed_def Let_def)

lemma record_failure_keys: "limiter_keys (record_failure cfg k now l) \<subseteq> insert k (limiter_keys l)"
  using prune_keys by (auto simp: record_failure_def Let_def)

lemma login_attempt_ok: "limiter_ok l \<Longrightarrow> limiter_ok (snd (login_attempt cfg a l))"
  using check_allowed_ok[of l cfg "at_key a" "at_check a"]
  by (cases "check_allowed cfg (at_key a) (at_check a) l") (simp add: login_attempt_def)

lemma login_attempt_keys:
  "limiter_keys (snd (login_attempt cfg a l)) \<subseteq> insert (at_key a) (limiter_keys l)"
proof -
  obtain b l1 where c: "check_allowed cfg (at_key a) (at_check a) l = (b, l1)" by fastforce
  have "limiter_keys l1 = insert (at_key a) (limiter_keys l)"
    using check_allowed_keys[of cfg "at_key a" "at_check a" l] by (simp add: c)
  then show ?thesis
    using record_failure_keys[of cfg "at_key a" "at_record a" l1] by (auto simp: login_attempt_def c)
qed

lemma blocked_known:
  "check_allowed cfg k now l = (False, l') \<Longrightarrow> 0 \<le> now \<Longrightarrow> k \<in> limiter_keys l"
  by (auto simp: check_allowed_def Let_def entry_of_def new_limit_entry_def limiter_keys_dom
      split: if_splits option.splits)

lemma login_attempt_length:
  assumes ok: "limiter_ok l" and len: "length l \<le> Suc (login_max_keys cfg)" and now: "0 \<le> at_check a"
  shows "length (snd (login_attempt cfg a l)) \<le> Suc (login_max_keys cfg)"
proof -
  obtain allowed l1 where c: "check_allowed cfg (at_key a) (at_check a) l = (allowed, l1)" by fastforce
  have ok1: "limiter_ok l1" and keys1: "limiter_keys l1 = insert (at_key a) (limiter_keys l)"
    using check_allowed_ok[OF ok, of cfg "at_key a" "at_check a"]
      check_allowed_keys[of cfg "at_key a" "at_check a" l] by (simp_all add: c)
  consider "\<not> allowed" | "allowed" "at_ok a" | "allowed" "\<not> at_ok a" by blast
  then show ?thesis
  proof cases
    case 1
    then have "length l1 = length l"
      using c blocked_known[of cfg "at_key a" "at_check a" l l1] now keys1 limiter_length[OF ok] limiter_length[OF ok1]
      by (simp add: insert_absorb)
    then show ?thesis using 1 c len by (simp add: login_attempt_def)
  next
    case 2
    have "limiter_keys (limiter_reset (at_key a) l1) \<subseteq> limiter_keys l" by (auto simp: keys1)
    then have "card (limiter_keys (limiter_reset (at_key a) l1)) \<le> card (limiter_keys l)"
      by (intro card_mono) (auto simp: limiter_keys_def)
    then show ?thesis using 2 c len limiter_length[OF ok] limiter_length[OF limiter_reset_ok[OF ok1]]
      by (simp add: login_attempt_def)
  next
    case 3
    then show ?thesis using c record_failure_length[OF ok1] by (simp add: login_attempt_def)
  qed
qed

lemma login_attempts_inv:
  "limiter_ok l \<Longrightarrow> length l \<le> Suc (login_max_keys cfg) \<Longrightarrow> \<forall>a\<in>set as. 0 \<le> at_check a \<Longrightarrow>
   limiter_ok (snd (login_attempts cfg as l)) \<and>
   length (snd (login_attempts cfg as l)) \<le> Suc (login_max_keys cfg)"
proof (induction as arbitrary: l)
  case Nil
  then show ?case by simp
next
  case (Cons a as)
  then show ?case
    using login_attempt_ok[of l cfg a] login_attempt_length[of l cfg a]
    by (cases "login_attempt cfg a l"; cases "login_attempts cfg as (snd (login_attempt cfg a l))") fastforce
qed

subsection \<open>The number of answered attempts\<close>

text \<open>
  The refusals of a key counted since a time are among the failures of its entry, and after
  the allowed number of them the entry is locked for the rest of the span.
\<close>

definition tracked :: "limit_settings \<Rightarrow> string \<Rightarrow> py_time \<Rightarrow> py_time \<Rightarrow> nat \<Rightarrow> limiter \<Rightarrow> bool" where
  "tracked cfg k s e c l =
     (c \<le> login_max_attempts cfg \<and>
      (0 < c \<longrightarrow> (\<exists>en. map_of l k = Some en \<and> s \<le> le_last_seen en \<and>
         c \<le> length (filter (\<lambda>f. s \<le> f) (le_failures en)) \<and>
         (c = login_max_attempts cfg \<longrightarrow> e \<le> le_locked_until en))))"

lemma prune_fits:
  "length l \<le> login_max_keys cfg \<Longrightarrow> prune cfg now l = filter (\<lambda>(k, e). \<not> stale_entry cfg now e) l"
  using length_filter_le[of "\<lambda>(k, e). \<not> stale_entry cfg now e" l]
  by (simp only: prune_def Let_def diff_is_0_eq' order_trans refl if_True)

lemma prune_keeps:
  assumes "limiter_ok l" "length l \<le> login_max_keys cfg" "map_of l k = Some e" "\<not> stale_entry cfg now e"
  shows "map_of (prune cfg now l) k = Some e"
proof -
  have "(k, e) \<in> set (prune cfg now l)"
    using assms(3,4) by (auto simp: prune_fits[OF assms(2)] dest: map_of_SomeD)
  then show ?thesis
    using limiter_ok_prune[OF assms(1)] by (simp add: limiter_ok_def)
qed

lemma tracked_other:
  "map_of l' k = map_of l k \<Longrightarrow> tracked cfg k s e c l \<Longrightarrow> tracked cfg k s e c l'"
  by (simp add: tracked_def)

lemma prune_tracked:
  assumes "limiter_ok l" "length l \<le> login_max_keys cfg" "tracked cfg k s e c l"
    and "now < s + min (login_window cfg) (login_lock cfg)"
  shows "tracked cfg k s e c (prune cfg now l)"
proof (cases "c = 0")
  case True
  then show ?thesis by (simp add: tracked_def)
next
  case False
  then obtain en where en: "map_of l k = Some en" "s \<le> le_last_seen en"
    using assms(3) by (auto simp: tracked_def)
  then have "\<not> stale_entry cfg now en" using assms(4) by (auto simp: stale_entry_def)
  from prune_keeps[OF assms(1,2) en(1) this] show ?thesis
    using assms(3) en(1) by (simp add: tracked_def)
qed

lemma check_tracked_other:
  "k' \<noteq> k \<Longrightarrow> tracked cfg k s e c l \<Longrightarrow> tracked cfg k s e c (snd (check_allowed cfg k' now l))"
  by (rule tracked_other) (simp_all add: check_allowed_def Let_def update_conv')

lemma filter_recent:
  "now - login_window cfg \<le> s \<Longrightarrow>
   filter (\<lambda>f. s \<le> f) (recent_failures cfg now e) = filter (\<lambda>f. s \<le> f) (le_failures e)"
  by (auto simp: recent_failures_def intro!: filter_cong)

lemma check_tracked_self:
  assumes "tracked cfg k s e c l" "s \<le> now" "now < s + min (login_window cfg) (login_lock cfg)"
  shows "tracked cfg k s e c (snd (check_allowed cfg k now l))"
  using assms filter_recent[of now cfg s "(entry_of k l)\<lparr>le_last_seen := now\<rparr>"]
  by (auto simp: tracked_def check_allowed_def Let_def update_conv' entry_of_def)

text \<open>After the check, the key's entry has been seen in the span.\<close>

lemma check_entry:
  "check_allowed cfg k now l = (b, l1) \<Longrightarrow> \<exists>en. map_of l1 k = Some en \<and> le_last_seen en = now"
  by (auto simp: check_allowed_def Let_def update_conv' split: if_splits)

lemma check_unlocked:
  "check_allowed cfg k now l = (True, l1) \<Longrightarrow> map_of l k = Some en \<Longrightarrow> le_locked_until en \<le> now"
  by (auto simp: check_allowed_def Let_def entry_of_def split: if_splits)

lemma record_tracked:
  assumes ok: "limiter_ok l" "length l \<le> login_max_keys cfg"
    and tr: "tracked cfg k s (s + min (login_window cfg) (login_lock cfg)) c l"
    and more: "c < login_max_attempts cfg"
    and en: "map_of l k = Some en" "s \<le> le_last_seen en"
    and now: "s \<le> now" "now < s + min (login_window cfg) (login_lock cfg)"
  shows "tracked cfg k s (s + min (login_window cfg) (login_lock cfg)) (Suc c) (record_failure cfg k now l)"
proof -
  have p: "map_of (prune cfg now l) k = Some en"
    using en now(2) by (intro prune_keeps[OF ok en(1)]) (auto simp: stale_entry_def)
  have c: "c \<le> length (filter (\<lambda>f. s \<le> f) (le_failures en))"
    using tr en(1) by (cases "c = 0") (auto simp: tracked_def)
  define e1 where "e1 = en\<lparr>le_last_seen := now\<rparr>"
  have f: "filter (\<lambda>f. s \<le> f) (recent_failures cfg now e1) = filter (\<lambda>f. s \<le> f) (le_failures en)"
    using now filter_recent[of now cfg s e1] by (simp add: e1_def)
  have "length (filter (\<lambda>f. s \<le> f) (recent_failures cfg now e1)) \<le> length (recent_failures cfg now e1)"
    by (rule length_filter_le)
  then have len: "Suc c \<le> length (recent_failures cfg now e1 @ [now])" using c f by simp
  have cnt: "Suc c \<le> length (filter (\<lambda>f. s \<le> f) (recent_failures cfg now e1 @ [now]))"
    using c f now(1) by simp
  show ?thesis
    using more now len cnt p
    by (auto simp: tracked_def record_failure_def Let_def update_conv' entry_of_def e1_def[symmetric])
       (auto simp: e1_def)
qed

lemma attempt_tracked:
  assumes ok: "limiter_ok l" and K: "limiter_keys l \<subseteq> K" "at_key a \<in> K" "finite K" "card K \<le> login_max_keys cfg"
    and tr: "tracked cfg k s (s + min (login_window cfg) (login_lock cfg)) c l"
    and pos: "0 < login_max_attempts cfg" and bad: "at_key a = k \<Longrightarrow> out \<noteq> Accepted"
    and now: "s \<le> at_check a" "at_check a \<le> at_record a"
      "at_record a < s + min (login_window cfg) (login_lock cfg)"
    and r: "login_attempt cfg a l = (out, l')"
  shows "tracked cfg k s (s + min (login_window cfg) (login_lock cfg))
      (if at_key a = k \<and> out = Refused then Suc c else c) l'"
proof -
  let ?e = "s + min (login_window cfg) (login_lock cfg)"
  obtain allowed l1 where ch: "check_allowed cfg (at_key a) (at_check a) l = (allowed, l1)" by fastforce
  have now': "at_check a < ?e" using now by simp
  have tr1: "tracked cfg k s ?e c l1"
    using check_tracked_other[OF _ tr, of "at_key a" "at_check a"]
      check_tracked_self[OF tr now(1) now'] ch by (cases "at_key a = k") auto
  have ok1: "limiter_ok l1" using check_allowed_ok[OF ok, of cfg "at_key a" "at_check a"] ch by simp
  have "limiter_keys l1 \<subseteq> K" using check_allowed_keys[of cfg "at_key a" "at_check a" l] ch K by simp
  then have len: "length l1 \<le> login_max_keys cfg"
    using card_mono[OF K(3)] K(4) limiter_length[OF ok1] by (metis order_trans)
  consider (locked) "\<not> allowed" | (good) "allowed" "at_ok a" | (wrong) "allowed" "\<not> at_ok a" by blast
  then show ?thesis
  proof cases
    case locked
    then show ?thesis using r ch tr1 by (auto simp: login_attempt_def)
  next
    case good
    then have "map_of l' k = map_of l1 k"
      using r ch bad by (auto simp: login_attempt_def limiter_reset_def delete_conv')
    then show ?thesis using r ch good bad tr1 by (auto simp: login_attempt_def intro: tracked_other)
  next
    case wrong
    then have l': "out = Refused" "l' = record_failure cfg (at_key a) (at_record a) l1"
      using r ch by (auto simp: login_attempt_def)
    show ?thesis
    proof (cases "at_key a = k")
      case True
      obtain en where en: "map_of l1 k = Some en" "le_last_seen en = at_check a"
        using check_entry[OF ch] True by auto
      have "c < login_max_attempts cfg"
      proof (rule ccontr)
        assume "\<not> ?thesis"
        then obtain e0 where "map_of l k = Some e0" "?e \<le> le_locked_until e0"
          using tr pos by (auto simp: tracked_def)
        then show False using check_unlocked[of cfg k "at_check a" l l1 e0] ch wrong True now' by auto
      qed
      from record_tracked[OF ok1 len tr1 this en(1)] show ?thesis
        using en(2) now l' True by auto
    next
      case False
      have "tracked cfg k s ?e c (prune cfg (at_record a) l1)"
        by (rule prune_tracked[OF ok1 len tr1 now(3)])
      then have "tracked cfg k s ?e c l'"
        using False by (elim tracked_other[rotated]) (auto simp: l'(2) record_failure_def Let_def update_conv')
      then show ?thesis using False by simp
    qed
  qed
qed

lemma attempts_tracked:
  assumes "limiter_ok l" "limiter_keys l \<union> at_key ` set as \<subseteq> K" "finite K" "card K \<le> login_max_keys cfg"
    and "tracked cfg k s (s + min (login_window cfg) (login_lock cfg)) c l"
    and "0 < login_max_attempts cfg"
    and "\<forall>(a, out)\<in>set (zip as (fst (login_attempts cfg as l))). at_key a = k \<longrightarrow> out \<noteq> Accepted"
    and "\<forall>a\<in>set as. s \<le> at_check a \<and> at_check a \<le> at_record a \<and>
      at_record a < s + min (login_window cfg) (login_lock cfg)"
  shows "c + refusals k as (fst (login_attempts cfg as l)) \<le> login_max_attempts cfg"
  using assms
proof (induction as arbitrary: c l)
  case Nil
  then show ?case by (simp add: refusals_def tracked_def)
next
  case (Cons a as)
  obtain out l1 where r: "login_attempt cfg a l = (out, l1)" by fastforce
  let ?c = "if at_key a = k \<and> out = Refused then Suc c else c"
  have outs: "fst (login_attempts cfg (a # as) l) = out # fst (login_attempts cfg as l1)"
    by (simp add: r split: prod.splits)
  have bad: "at_key a = k \<longrightarrow> out \<noteq> Accepted"
    "\<forall>(a, out)\<in>set (zip as (fst (login_attempts cfg as l1))). at_key a = k \<longrightarrow> out \<noteq> Accepted"
    using Cons.prems(7) unfolding outs by simp_all
  have "tracked cfg k s (s + min (login_window cfg) (login_lock cfg)) ?c l1"
    using Cons.prems bad(1) by (intro attempt_tracked[OF _ _ _ _ _ _ _ _ _ _ _ r]) auto
  moreover have "limiter_ok l1" using login_attempt_ok[of l cfg a] r Cons.prems(1) by simp
  moreover have "limiter_keys l1 \<union> at_key ` set as \<subseteq> K"
    using login_attempt_keys[of cfg a l] r Cons.prems(2) by auto
  ultimately have "?c + refusals k as (fst (login_attempts cfg as l1)) \<le> login_max_attempts cfg"
    using Cons.prems(3,4,6,8) bad(2) by (intro Cons.IH) auto
  then show ?case
    by (cases "login_attempts cfg as l1") (auto simp: r refusals_def split: if_splits)
qed

end
