(* ===== verification/Audit_Log.thy ===== *)
theory Audit_Log
  imports Db_Models Rate_Limiter
begin

section \<open>Requests, client addresses and the audit log\<close>

text \<open>
  The request as the services see it, \<open>client_ip\<close> and \<open>user_agent\<close> of
  \<open>backend/app/core/sessions.py\<close>, and \<open>services/audit_service.py\<close> with
  \<open>repositories/audit_repository.py\<close>. The keyed hash (HMAC-SHA256), the password hash
  check of passlib and the test of a bracketed host by the \<open>ipaddress\<close> module are
  functions of the environment; a password check that raises is \<open>None\<close>.
\<close>

record auth_env =
  env_mac :: "string \<Rightarrow> string \<Rightarrow> string"
  env_pw_verify :: "string \<Rightarrow> string \<Rightarrow> bool option"
  env_host_literal :: "string \<Rightarrow> bool"
  env_secret :: string
  env_session_max_age :: int
  env_csrf_max_age :: int
  env_trusted_proxies :: "string list"
  env_cors_origins :: "string list"
  env_limits :: limit_settings

record request =
  req_method :: string
  req_path :: string
  req_scheme :: string
  req_netloc :: string
  req_id :: "string option"
  req_peer :: "string option"
  req_forwarded_for :: "string option"
  req_user_agent :: "string option"
  req_origin :: "string option"
  req_referer :: "string option"
  req_csrf_header :: "string option"
  req_session_cookie :: "string option"
  req_csrf_cookie :: "string option"

text \<open>A string that is absent or empty is false in Python.\<close>

definition nonempty :: "string option \<Rightarrow> string option" where
  "nonempty s = (case s of None \<Rightarrow> None | Some x \<Rightarrow> if x = [] then None else Some x)"

definition client_ip :: "auth_env \<Rightarrow> request \<Rightarrow> string option" where
  "client_ip env req =
     (let peer_ip = map_option (take 45) (req_peer req) in
      case nonempty (req_forwarded_for req) of
        None \<Rightarrow> peer_ip
      | Some f \<Rightarrow>
          if peer_ip \<in> set (map Some (env_trusted_proxies env))
          then nonempty (Some (take 45 (py_strip (hd (py_split_on CHR '','' f)))))
          else peer_ip)"

definition truncate_user_agent :: "string option \<Rightarrow> string option" where
  "truncate_user_agent value = nonempty (map_option (take 512) value)"

definition user_agent :: "request \<Rightarrow> string option" where
  "user_agent req = truncate_user_agent (req_user_agent req)"

subsection \<open>Metadata\<close>

definition forbidden_metadata_parts :: "string list" where
  "forbidden_metadata_parts =
     [''password'', ''session_token'', ''csrf'', ''token'', ''secret'', ''prompt'', ''content'',
      ''document_text'', ''payload'']"

definition is_forbidden_metadata_key :: "string \<Rightarrow> bool" where
  "is_forbidden_metadata_key key = list_ex (\<lambda>part. py_in part (py_lower key)) forbidden_metadata_parts"

definition forbidden_opt :: "string option \<Rightarrow> bool" where
  "forbidden_opt key = (case key of None \<Rightarrow> False | Some k \<Rightarrow> k \<noteq> [] \<and> is_forbidden_metadata_key k)"

definition redacted_mark :: pyval where
  "redacted_mark = PStr ''[redacted]''"

definition truncate_metadata :: "string \<Rightarrow> string" where
  "truncate_metadata s = (if 512 < length s then take 512 s @ ''...[truncated]'' else s)"

fun redact_metadata :: "string option \<Rightarrow> pyval \<Rightarrow> pyval" where
  "redact_metadata key (PDict d) =
     (if forbidden_opt key then redacted_mark
      else PDict (map (\<lambda>(k, x). (k, redact_metadata (Some k) x)) d))"
| "redact_metadata key (PList xs) =
     (if forbidden_opt key then redacted_mark else PList (map (redact_metadata None) xs))"
| "redact_metadata key (PStr s) =
     (if forbidden_opt key then redacted_mark else PStr (truncate_metadata s))"
| "redact_metadata key v = (if forbidden_opt key then redacted_mark else v)"

definition safe_metadata :: "pyval pydict option \<Rightarrow> pyval pydict" where
  "safe_metadata metadata = (case metadata of None \<Rightarrow> []
     | Some d \<Rightarrow> map (\<lambda>(k, x). (k, redact_metadata (Some k) x)) d)"

subsection \<open>Audit records\<close>

definition add_audit_log :: "audit_log \<Rightarrow> db \<Rightarrow> db" where
  "add_audit_log a d = d\<lparr>db_audit_logs := db_audit_logs d @ [a]\<rparr>"

definition or_system :: "string option \<Rightarrow> string" where
  "or_system s = (case nonempty s of None \<Rightarrow> ''system'' | Some x \<Rightarrow> x)"

definition audit_from_request :: "auth_env \<Rightarrow> request \<Rightarrow> string \<Rightarrow> int option \<Rightarrow> string \<Rightarrow> int option \<Rightarrow>
    pyval pydict option \<Rightarrow> db \<Rightarrow> db" where
  "audit_from_request env req action actor target_type target_id metadata =
     add_audit_log \<lparr>audit_request_id = or_system (req_id req), audit_actor = actor,
       audit_action = action, audit_target_type = target_type, audit_target_id = target_id,
       audit_metadata = safe_metadata metadata, audit_ip_address = client_ip env req,
       audit_user_agent = user_agent req\<rparr>"

definition audit :: "string \<Rightarrow> int option \<Rightarrow> string option \<Rightarrow> string option \<Rightarrow> int option \<Rightarrow>
    pyval pydict option \<Rightarrow> db \<Rightarrow> db" where
  "audit action actor request_id target_type target_id metadata =
     add_audit_log \<lparr>audit_request_id = or_system request_id, audit_actor = actor,
       audit_action = action, audit_target_type = or_system target_type,
       audit_target_id = target_id, audit_metadata = safe_metadata metadata,
       audit_ip_address = None, audit_user_agent = None\<rparr>"

subsection \<open>What an audit record may hold\<close>

fun metadata_clean :: "pyval \<Rightarrow> bool" where
  "metadata_clean (PDict d) =
     list_all (\<lambda>(k, x). metadata_clean x \<and> (k \<noteq> [] \<and> is_forbidden_metadata_key k \<longrightarrow> x = redacted_mark)) d"
| "metadata_clean (PList xs) = list_all metadata_clean xs"
| "metadata_clean (PStr s) = (length s \<le> 526)"
| "metadata_clean _ = True"

lemma truncate_length: "length (truncate_metadata s) \<le> 526"
  by (simp add: truncate_metadata_def)

lemma truncate_idem [simp]: "truncate_metadata (truncate_metadata s) = truncate_metadata s"
  by (simp add: truncate_metadata_def)

lemma redacted_mark_clean [simp]: "metadata_clean redacted_mark"
  by (simp add: redacted_mark_def)

lemma redact_forbidden: "forbidden_opt key \<Longrightarrow> redact_metadata key v = redacted_mark"
  by (cases v) simp_all

lemma redact_metadata_clean: "metadata_clean (redact_metadata key v)"
  by (induction key v rule: redact_metadata.induct)
     (auto simp: list_all_iff forbidden_opt_def truncate_length redact_forbidden)

lemma redact_mark_fixed [simp]: "redact_metadata key redacted_mark = redacted_mark"
  by (simp add: redacted_mark_def truncate_metadata_def)

lemma redact_metadata_idem: "redact_metadata key (redact_metadata key v) = redact_metadata key v"
proof (induction key v rule: redact_metadata.induct)
  case (1 key d)
  then show ?case by (auto split: prod.splits)
qed auto

lemma db_audit_frame [simp]:
  "db_users (add_audit_log a d) = db_users d" "db_roles (add_audit_log a d) = db_roles d"
  "db_sessions (add_audit_log a d) = db_sessions d" "db_jobs (add_audit_log a d) = db_jobs d"
  "db_documents (add_audit_log a d) = db_documents d" "db_versions (add_audit_log a d) = db_versions d"
  "db_next_session_id (add_audit_log a d) = db_next_session_id d"
  by (simp_all add: add_audit_log_def)

lemma audit_from_request_frame [simp]:
  "db_users (audit_from_request env req ac u t i m d) = db_users d"
  "db_roles (audit_from_request env req ac u t i m d) = db_roles d"
  "db_sessions (audit_from_request env req ac u t i m d) = db_sessions d"
  "db_jobs (audit_from_request env req ac u t i m d) = db_jobs d"
  by (simp_all add: audit_from_request_def)

end
