(* ===== verification/Auth.thy ===== *)
theory Auth
  imports Audit_Log
begin

section \<open>Sessions, CSRF protection and logins\<close>

text \<open>
  \<open>backend/app/core/security.py\<close>, \<open>sessions.py\<close>, \<open>csrf.py\<close> and
  \<open>permissions.py\<close>, the session and user repositories, \<open>services/csrf_service.py\<close>,
  \<open>services/auth_service.py\<close> and the dependencies of \<open>api/deps.py\<close>. An exception is a
  left value; an operation that commits before it raises returns the database it committed.
  The current time, the process-local clock of the limiter and the random tokens are
  arguments.
\<close>

datatype auth_error =
    CsrfMissing | CsrfInvalid | AuthenticationRequired | AuthenticationFailed | PermissionDenied
  | RateLimitExceeded | RaisedTypeError | RaisedValueError | StoreError

subsection \<open>Tokens and passwords\<close>

definition hash_token :: "auth_env \<Rightarrow> string \<Rightarrow> string" where
  "hash_token env token = env_mac env (env_secret env) token"

text \<open>
  \<open>hmac.compare_digest\<close> on two strings raises a \<open>TypeError\<close> when one of them has a
  character outside ASCII.
\<close>

definition is_ascii :: "string \<Rightarrow> bool" where
  "is_ascii s = list_all (\<lambda>c. code_point c < 128) s"

definition compare_digest :: "string \<Rightarrow> string \<Rightarrow> bool option" where
  "compare_digest a b = (if is_ascii a \<and> is_ascii b then Some (a = b) else None)"

definition verify_token_hash :: "auth_env \<Rightarrow> string \<Rightarrow> string option \<Rightarrow> auth_error + bool" where
  "verify_token_hash env token token_hash = (case nonempty token_hash of
     None \<Rightarrow> Inr False
   | Some h \<Rightarrow> (case compare_digest (hash_token env token) h of
       None \<Rightarrow> Inl RaisedTypeError | Some b \<Rightarrow> Inr b))"

definition DUMMY_PASSWORD_HASH :: string where
  "DUMMY_PASSWORD_HASH = ''$2b$12$C6UzMDM.H6dfI/f/IKcEeO6Xq1yHYGg4KzucLSlbJjY1dxT9fF6Cy''"

definition verify_password :: "auth_env \<Rightarrow> string \<Rightarrow> string option \<Rightarrow> bool" where
  "verify_password env password password_hash = (case nonempty password_hash of
     None \<Rightarrow> False
   | Some h \<Rightarrow> (case env_pw_verify env password h of None \<Rightarrow> False | Some b \<Rightarrow> b))"

definition verify_password_or_dummy :: "auth_env \<Rightarrow> string \<Rightarrow> string option \<Rightarrow> bool" where
  "verify_password_or_dummy env password password_hash =
     verify_password env password (case nonempty password_hash of
       None \<Rightarrow> Some DUMMY_PASSWORD_HASH | Some h \<Rightarrow> Some h)"

definition normalize_email :: "string \<Rightarrow> string" where
  "normalize_email email = py_lower (py_strip email)"

definition hash_identifier :: "auth_env \<Rightarrow> string \<Rightarrow> string" where
  "hash_identifier env value = hash_token env (py_lower (py_strip value))"

definition limiter_key :: "auth_env \<Rightarrow> string \<Rightarrow> string option \<Rightarrow> string" where
  "limiter_key env email ip = hash_token env
     (email @ '':'' @ (case nonempty ip of None \<Rightarrow> ''unknown'' | Some x \<Rightarrow> x))"

subsection \<open>Sessions\<close>

definition session_is_active :: "user_session \<Rightarrow> py_time \<Rightarrow> bool" where
  "session_is_active s now = (ses_revoked_at s = None \<and> now < ses_expires_at s)"

definition new_session :: "auth_env \<Rightarrow> int \<Rightarrow> string \<Rightarrow> string option \<Rightarrow> string option \<Rightarrow>
    string option \<Rightarrow> py_time \<Rightarrow> user_session" where
  "new_session env uid raw_token csrf_hash agent ip now =
     \<lparr>ses_id = 0, ses_user_id = uid, ses_token_hash = hash_token env raw_token,
      ses_csrf_hash = csrf_hash, ses_user_agent = truncate_user_agent agent,
      ses_ip_address = ip, ses_created_at = now,
      ses_expires_at = now + env_session_max_age env, ses_revoked_at = None\<rparr>"

definition get_session_by_raw_token :: "auth_env \<Rightarrow> string \<Rightarrow> db \<Rightarrow> user_session option" where
  "get_session_by_raw_token env raw_token d =
     find (\<lambda>s. ses_token_hash s = hash_token env raw_token) (db_sessions d)"

text \<open>The flush of a new session fails when it violates a constraint of the table.\<close>

definition add_session :: "user_session \<Rightarrow> db \<Rightarrow> auth_error + db" where
  "add_session s d =
     (let ss = db_sessions d @ [s\<lparr>ses_id := db_next_session_id d\<rparr>] in
      if sessions_ok ss then Inr (d\<lparr>db_sessions := ss, db_next_session_id := db_next_session_id d + 1\<rparr>)
      else Inl StoreError)"

definition update_session :: "user_session \<Rightarrow> (user_session \<Rightarrow> user_session) \<Rightarrow> db \<Rightarrow> db" where
  "update_session s f d =
     d\<lparr>db_sessions := map (\<lambda>x. if ses_id x = ses_id s then f x else x) (db_sessions d)\<rparr>"

definition update_csrf_state :: "user_session \<Rightarrow> string option \<Rightarrow> db \<Rightarrow> db" where
  "update_csrf_state s h = update_session s (\<lambda>x. x\<lparr>ses_csrf_hash := h\<rparr>)"

definition revoke_session :: "user_session \<Rightarrow> py_time \<Rightarrow> db \<Rightarrow> db" where
  "revoke_session s revoked_at =
     update_session s (\<lambda>x. x\<lparr>ses_revoked_at := Some revoked_at, ses_csrf_hash := None\<rparr>)"

definition get_user_by_email :: "string \<Rightarrow> db \<Rightarrow> user option" where
  "get_user_by_email email d = find (\<lambda>u. user_email u = email) (db_users d)"

definition get_user_by_id :: "int \<Rightarrow> db \<Rightarrow> user option" where
  "get_user_by_id i d = find (\<lambda>u. user_id u = i) (db_users d)"

definition get_role_name :: "user \<Rightarrow> db \<Rightarrow> string option" where
  "get_role_name u d = map_of (db_roles d) (user_role_id u)"

subsection \<open>Roles\<close>

definition KNOWN_ROLES :: "string list" where
  "KNOWN_ROLES = [''admin'', ''viewer'']"

definition ensure_known_role :: "string option \<Rightarrow> auth_error + string" where
  "ensure_known_role role = (case role of None \<Rightarrow> Inl PermissionDenied
     | Some r \<Rightarrow> if r \<in> set KNOWN_ROLES then Inr r else Inl PermissionDenied)"

definition ensure_role :: "string option \<Rightarrow> string list \<Rightarrow> auth_error + string" where
  "ensure_role role allowed = (case ensure_known_role role of Inl e \<Rightarrow> Inl e
     | Inr r \<Rightarrow> if r \<in> set allowed then Inr r else Inl PermissionDenied)"

definition ensure_admin :: "string option \<Rightarrow> auth_error + string" where
  "ensure_admin role = ensure_role role [''admin'']"

definition ensure_viewer_or_admin :: "string option \<Rightarrow> auth_error + string" where
  "ensure_viewer_or_admin role = ensure_role role [''admin'', ''viewer'']"

subsection \<open>The signed state of a visitor without a session\<close>

definition make_pre_auth_state :: "auth_env \<Rightarrow> string \<Rightarrow> int option \<Rightarrow> py_time \<Rightarrow> string" where
  "make_pre_auth_state env raw_csrf issued_at now =
     (let timestamp = (case issued_at of None \<Rightarrow> now | Some t \<Rightarrow> if t = 0 then now else t);
          payload = int_str timestamp @ ''.'' @ hash_token env raw_csrf
      in payload @ ''.'' @ env_mac env (env_secret env) payload)"

definition verify_pre_auth_state :: "auth_env \<Rightarrow> string \<Rightarrow> string option \<Rightarrow> py_time \<Rightarrow> auth_error + bool" where
  "verify_pre_auth_state env raw_csrf signed_state now =
     (if raw_csrf = [] then Inl CsrfMissing else
      case nonempty signed_state of None \<Rightarrow> Inl CsrfInvalid
      | Some state \<Rightarrow> (case py_split_on CHR ''.'' state of
          [issued_at_raw, expected_hash, signature] \<Rightarrow>
            (case compare_digest signature
                (env_mac env (env_secret env) (issued_at_raw @ ''.'' @ expected_hash)) of
               None \<Rightarrow> Inl RaisedTypeError
             | Some False \<Rightarrow> Inl CsrfInvalid
             | Some True \<Rightarrow> (case parse_int issued_at_raw of None \<Rightarrow> Inl CsrfInvalid
                 | Some issued_at \<Rightarrow>
                     if issued_at + env_csrf_max_age env < now then Inl CsrfInvalid
                     else (case verify_token_hash env raw_csrf (Some expected_hash) of
                        Inl e \<Rightarrow> Inl e
                      | Inr ok \<Rightarrow> if ok then Inr True else Inl CsrfInvalid)))
        | _ \<Rightarrow> Inl CsrfInvalid))"

subsection \<open>Origins\<close>

text \<open>
  \<open>urllib.parse.urlparse\<close> as far as the source reads it: the scheme and the network
  location. \<open>None\<close> is the \<open>ValueError\<close> of an unbalanced or malformed bracketed host;
  the normalization test of a location outside ASCII rejects no character below 256.
\<close>

definition is_c0_or_space :: "char \<Rightarrow> bool" where
  "is_c0_or_space c = (code_point c \<le> 32)"

definition scheme_char :: "char \<Rightarrow> bool" where
  "scheme_char c = (ascii_alpha c \<or> py_isdigit c \<or> c \<in> set ''+-.'')"

definition tab_or_newline :: "char \<Rightarrow> bool" where
  "tab_or_newline c = (code_point c \<in> {9, 10, 13})"

definition split_scheme :: "string \<Rightarrow> string \<times> string" where
  "split_scheme url =
     (let s = takeWhile (\<lambda>c. c \<noteq> CHR '':'') url; rest = dropWhile (\<lambda>c. c \<noteq> CHR '':'') url in
      if rest \<noteq> [] \<and> s \<noteq> [] \<and> ascii_alpha (hd url) \<and> list_all scheme_char s
      then (py_lower s, tl rest) else ([], url))"

definition split_netloc :: "string \<Rightarrow> string" where
  "split_netloc url =
     (if take 2 url = ''//'' then takeWhile (\<lambda>c. c \<notin> set ''/?#'') (drop 2 url) else [])"

definition bracketed_host :: "string \<Rightarrow> string" where
  "bracketed_host netloc =
     takeWhile (\<lambda>c. c \<noteq> CHR '']'') (tl (dropWhile (\<lambda>c. c \<noteq> CHR ''['') netloc))"

definition urlparse :: "auth_env \<Rightarrow> string \<Rightarrow> (string \<times> string) option" where
  "urlparse env url =
     (let clean = filter (\<lambda>c. \<not> tab_or_newline c) (dropWhile is_c0_or_space url);
          (scheme, rest) = split_scheme clean;
          netloc = split_netloc rest;
          opens = CHR ''['' \<in> set netloc; closes = CHR '']'' \<in> set netloc
      in if opens \<noteq> closes then None
         else if opens \<and> closes \<and> \<not> env_host_literal env (bracketed_host netloc) then None
         else Some (scheme, netloc))"

definition origin_allowed :: "auth_env \<Rightarrow> request \<Rightarrow> string \<Rightarrow> bool" where
  "origin_allowed env req origin =
     (origin \<in> set (env_cors_origins env) \<or> origin = req_scheme req @ ''://'' @ req_netloc req)"

definition validate_origin_or_referer :: "auth_env \<Rightarrow> request \<Rightarrow> auth_error + unit" where
  "validate_origin_or_referer env req = (case nonempty (req_origin req) of
     Some origin \<Rightarrow> if origin_allowed env req origin then Inr () else Inl CsrfInvalid
   | None \<Rightarrow> (case nonempty (req_referer req) of
       Some referer \<Rightarrow> (case urlparse env referer of
           None \<Rightarrow> Inl RaisedValueError
         | Some (scheme, netloc) \<Rightarrow>
             if scheme \<noteq> [] \<and> netloc \<noteq> [] \<and> origin_allowed env req (scheme @ ''://'' @ netloc)
             then Inr () else Inl CsrfInvalid)
     | None \<Rightarrow> Inl CsrfInvalid))"

subsection \<open>CSRF checks of the services\<close>

definition SAFE_METHODS :: "string list" where
  "SAFE_METHODS = [''GET'', ''HEAD'', ''OPTIONS'']"

record csrf_response =
  resp_token :: string
  resp_pre_auth_cookie :: "string option"
  resp_expire_cookie :: bool

text \<open>The session whose CSRF state the token replaces, if the visitor has one.\<close>

definition csrf_session :: "auth_env \<Rightarrow> request \<Rightarrow> py_time \<Rightarrow> db \<Rightarrow> user_session option" where
  "csrf_session env req now d = (case nonempty (req_session_cookie req) of None \<Rightarrow> None
     | Some raw \<Rightarrow> (case get_session_by_raw_token env raw d of None \<Rightarrow> None
         | Some s \<Rightarrow> if session_is_active s now then
             (case get_user_by_id (ses_user_id s) d of None \<Rightarrow> None
              | Some u \<Rightarrow> if user_status u = UserActive then Some s else None)
             else None))"

definition issue_csrf_token :: "auth_env \<Rightarrow> request \<Rightarrow> string \<Rightarrow> py_time \<Rightarrow> db \<Rightarrow> csrf_response \<times> db" where
  "issue_csrf_token env req raw_csrf now d = (case csrf_session env req now d of
     Some s \<Rightarrow> (\<lparr>resp_token = raw_csrf, resp_pre_auth_cookie = None, resp_expire_cookie = True\<rparr>,
                update_csrf_state s (Some (hash_token env raw_csrf)) d)
   | None \<Rightarrow> (\<lparr>resp_token = raw_csrf,
                resp_pre_auth_cookie = Some (make_pre_auth_state env raw_csrf None now),
                resp_expire_cookie = False\<rparr>, d))"

definition audit_csrf_failure :: "auth_env \<Rightarrow> request \<Rightarrow> string \<Rightarrow> db \<Rightarrow> db" where
  "audit_csrf_failure env req code =
     audit_from_request env req ''auth.csrf_rejected'' None ''auth'' None
       (Some [(''error_code'', PStr code), (''method'', PStr (req_method req)),
              (''path'', PStr (req_path req))])"

definition csrf_guard :: "auth_env \<Rightarrow> request \<Rightarrow> auth_error + unit \<Rightarrow> db \<Rightarrow> (auth_error + unit) \<times> db" where
  "csrf_guard env req result d = (case result of
     Inl CsrfMissing \<Rightarrow> (Inl CsrfMissing, audit_csrf_failure env req ''csrf_missing'' d)
   | Inl CsrfInvalid \<Rightarrow> (Inl CsrfInvalid, audit_csrf_failure env req ''csrf_invalid'' d)
   | r \<Rightarrow> (r, d))"

definition validate_pre_auth_csrf :: "auth_env \<Rightarrow> request \<Rightarrow> py_time \<Rightarrow> db \<Rightarrow> (auth_error + unit) \<times> db" where
  "validate_pre_auth_csrf env req now d = csrf_guard env req
     (case nonempty (req_csrf_header req) of None \<Rightarrow> Inl CsrfMissing
      | Some raw \<Rightarrow> (case validate_origin_or_referer env req of Inl e \<Rightarrow> Inl e
          | Inr _ \<Rightarrow> (case verify_pre_auth_state env raw (req_csrf_cookie req) now of
              Inl e \<Rightarrow> Inl e | Inr _ \<Rightarrow> Inr ()))) d"

definition check_session_token :: "auth_env \<Rightarrow> string \<Rightarrow> user_session \<Rightarrow> auth_error + unit" where
  "check_session_token env raw s = (case verify_token_hash env raw (ses_csrf_hash s) of
     Inl e \<Rightarrow> Inl e | Inr ok \<Rightarrow> if ok then Inr () else Inl CsrfInvalid)"

definition validate_csrf :: "auth_env \<Rightarrow> request \<Rightarrow> py_time \<Rightarrow> db \<Rightarrow> (auth_error + unit) \<times> db" where
  "validate_csrf env req now d =
     (if req_method req \<in> set SAFE_METHODS then (Inr (), d) else csrf_guard env req
       (case nonempty (req_csrf_header req) of None \<Rightarrow> Inl CsrfMissing
        | Some raw \<Rightarrow> (case validate_origin_or_referer env req of Inl e \<Rightarrow> Inl e
            | Inr _ \<Rightarrow> (case nonempty (req_session_cookie req) of None \<Rightarrow> Inl CsrfInvalid
                | Some cookie \<Rightarrow> (case get_session_by_raw_token env cookie d of None \<Rightarrow> Inl CsrfInvalid
                    | Some s \<Rightarrow> if \<not> session_is_active s now then Inl CsrfInvalid
                        else check_session_token env raw s)))) d)"

definition validate_session_csrf :: "auth_env \<Rightarrow> request \<Rightarrow> user_session \<Rightarrow> py_time \<Rightarrow> db \<Rightarrow>
    (auth_error + unit) \<times> db" where
  "validate_session_csrf env req s now d =
     (if req_method req \<in> set SAFE_METHODS then (Inr (), d) else csrf_guard env req
       (case nonempty (req_csrf_header req) of None \<Rightarrow> Inl CsrfMissing
        | Some raw \<Rightarrow> (case validate_origin_or_referer env req of Inl e \<Rightarrow> Inl e
            | Inr _ \<Rightarrow> if \<not> session_is_active s now then Inl CsrfInvalid
                else check_session_token env raw s)) d)"

subsection \<open>The dependencies of the routes\<close>

record session_context =
  sc_user :: user
  sc_session :: user_session
  sc_role :: string
  sc_raw_token :: string

definition require_authenticated_session :: "auth_env \<Rightarrow> request \<Rightarrow> py_time \<Rightarrow> db \<Rightarrow>
    auth_error + session_context" where
  "require_authenticated_session env req now d = (case nonempty (req_session_cookie req) of
     None \<Rightarrow> Inl AuthenticationRequired
   | Some raw \<Rightarrow> (case get_session_by_raw_token env raw d of None \<Rightarrow> Inl AuthenticationRequired
       | Some s \<Rightarrow> if \<not> session_is_active s now then Inl AuthenticationRequired else
           (case get_user_by_id (ses_user_id s) d of None \<Rightarrow> Inl AuthenticationRequired
            | Some u \<Rightarrow> if user_status u \<noteq> UserActive then Inl AuthenticationRequired else
                (case get_role_name u d of None \<Rightarrow> Inl AuthenticationRequired
                 | Some role \<Rightarrow> if role \<notin> {''admin'', ''viewer''} then Inl AuthenticationRequired
                     else Inr \<lparr>sc_user = u, sc_session = s, sc_role = role, sc_raw_token = raw\<rparr>))))"

definition require_role :: "string list \<Rightarrow> session_context \<Rightarrow> auth_error + user" where
  "require_role allowed context = (case ensure_role (Some (sc_role context)) allowed of
     Inl e \<Rightarrow> Inl e | Inr _ \<Rightarrow> Inr (sc_user context))"

definition require_admin :: "session_context \<Rightarrow> auth_error + user" where
  "require_admin context = (case ensure_admin (Some (sc_role context)) of
     Inl e \<Rightarrow> Inl e | Inr _ \<Rightarrow> Inr (sc_user context))"

definition require_viewer_or_admin :: "session_context \<Rightarrow> auth_error + user" where
  "require_viewer_or_admin context = (case ensure_viewer_or_admin (Some (sc_role context)) of
     Inl e \<Rightarrow> Inl e | Inr _ \<Rightarrow> Inr (sc_user context))"

definition require_csrf :: "auth_env \<Rightarrow> request \<Rightarrow> py_time \<Rightarrow> db \<Rightarrow> (auth_error + unit) \<times> db" where
  "require_csrf env req now d = (case require_authenticated_session env req now d of
     Inl e \<Rightarrow> (Inl e, d)
   | Inr context \<Rightarrow> validate_session_csrf env req (sc_session context) now d)"

subsection \<open>Login and logout\<close>

record user_public =
  pub_user_id :: int
  pub_email :: string
  pub_display_name :: string
  pub_role :: string

record login_result =
  login_user :: user_public
  login_session_token :: string
  login_csrf_token :: string

definition user_to_public :: "user \<Rightarrow> string \<Rightarrow> user_public" where
  "user_to_public u role = \<lparr>pub_user_id = user_id u, pub_email = user_email u,
     pub_display_name = user_display_name u, pub_role = role\<rparr>"

definition audit_login_failure :: "auth_env \<Rightarrow> request \<Rightarrow> string \<Rightarrow> string \<Rightarrow> db \<Rightarrow> db" where
  "audit_login_failure env req email code =
     audit_from_request env req ''auth.login_failure'' None ''auth'' None
       (Some [(''result'', PStr ''failure''), (''error_code'', PStr code),
              (''credential_identifier'', PStr (hash_identifier env email))])"

definition credentials :: "auth_env \<Rightarrow> string \<Rightarrow> string \<Rightarrow> db \<Rightarrow> (user \<times> string) option" where
  "credentials env email password d =
     (let found = get_user_by_email email d;
          role = (case found of None \<Rightarrow> None | Some u \<Rightarrow> get_role_name u d);
          ok = verify_password_or_dummy env password
            (case found of None \<Rightarrow> None | Some u \<Rightarrow> user_password_hash u)
      in case (found, role) of
        (Some u, Some r) \<Rightarrow>
          if user_status u = UserActive \<and> r \<in> set KNOWN_ROLES \<and> ok then Some (u, r) else None
      | _ \<Rightarrow> None)"

record clocks =
  clk_now :: py_time
  clk_check :: py_time
  clk_record :: py_time

definition open_session :: "auth_env \<Rightarrow> request \<Rightarrow> user \<Rightarrow> string \<Rightarrow> string \<Rightarrow> py_time \<Rightarrow> db \<Rightarrow>
    auth_error + db" where
  "open_session env req u raw_session raw_csrf now d =
     (case add_session (new_session env (user_id u) raw_session (Some (hash_token env raw_csrf))
          (req_user_agent req) (client_ip env req) now) d of
        Inl e \<Rightarrow> Inl e
      | Inr d1 \<Rightarrow> Inr (audit_from_request env req ''auth.login_success'' (Some (user_id u)) ''user''
          (Some (user_id u)) (Some [(''result'', PStr ''success'')])
          (d1\<lparr>db_users := map (\<lambda>x. if user_id x = user_id u
                then x\<lparr>user_last_login_at := Some now\<rparr> else x) (db_users d1)\<rparr>)))"

text \<open>
  A login is two steps of its request, with the password check between them. The routes run in
  a thread pool and neither the service nor the limiter takes a lock: other requests may do
  their own steps after the check of the limiter (\<open>login_start\<close>) and before its failure is
  recorded or its session opened (\<open>login_finish\<close>, which gets what \<open>credentials\<close> found
  meanwhile). \<open>login\<close> is the request that nobody interrupts.
\<close>

definition login_start :: "auth_env \<Rightarrow> request \<Rightarrow> string \<Rightarrow> py_time \<Rightarrow> limiter \<times> db \<Rightarrow>
    (auth_error + unit) \<times> limiter \<times> db" where
  "login_start env req email check st =
     (let (l, d) = st;
          normalized = normalize_email email;
          (allowed, l1) = check_allowed (env_limits env) (limiter_key env normalized (client_ip env req)) check l
      in if \<not> allowed then
           (Inl RateLimitExceeded, l1, audit_login_failure env req normalized ''rate_limit_exceeded'' d)
         else (Inr (), l1, d))"

definition login_finish :: "auth_env \<Rightarrow> request \<Rightarrow> string \<Rightarrow> (user \<times> string) option \<Rightarrow> string \<Rightarrow> string \<Rightarrow>
    clocks \<Rightarrow> limiter \<times> db \<Rightarrow> (auth_error + login_result) \<times> limiter \<times> db" where
  "login_finish env req email verified raw_session raw_csrf clk st =
     (let (l, d) = st;
          normalized = normalize_email email;
          key = limiter_key env normalized (client_ip env req)
      in case verified of
           None \<Rightarrow> (Inl AuthenticationFailed,
                    record_failure (env_limits env) key (clk_record clk) l,
                    audit_login_failure env req normalized ''authentication_failed'' d)
         | Some (u, role) \<Rightarrow>
             (let l1 = limiter_reset key l in
              case open_session env req u raw_session raw_csrf (clk_now clk) d of
                Inl e \<Rightarrow> (Inl e, l1, d)
              | Inr d' \<Rightarrow> (Inr \<lparr>login_user = user_to_public u role, login_session_token = raw_session,
                               login_csrf_token = raw_csrf\<rparr>, l1, d')))"

definition login :: "auth_env \<Rightarrow> request \<Rightarrow> string \<Rightarrow> string \<Rightarrow> string \<Rightarrow> string \<Rightarrow> clocks \<Rightarrow>
    limiter \<times> db \<Rightarrow> (auth_error + login_result) \<times> limiter \<times> db" where
  "login env req email password raw_session raw_csrf clk st =
     (case login_start env req email (clk_check clk) st of
        (Inl e, st1) \<Rightarrow> (Inl e, st1)
      | (Inr _, st1) \<Rightarrow> login_finish env req email
            (credentials env (normalize_email email) password (snd st1)) raw_session raw_csrf clk st1)"

lemmas login_parts = login_def login_start_def login_finish_def

definition logout :: "auth_env \<Rightarrow> request \<Rightarrow> session_context \<Rightarrow> py_time \<Rightarrow> db \<Rightarrow> db" where
  "logout env req context now d =
     audit_from_request env req ''auth.logout_success'' (Some (user_id (sc_user context)))
       ''user_session'' None (Some [(''session_revoked'', PBool True)])
       (revoke_session (sc_session context) now d)"

end
