(* ===== verification/Auth_Properties.thy ===== *)
theory Auth_Properties
  imports Auth
begin

section \<open>Properties of logins, sessions and CSRF checks\<close>

text \<open>
  The number of password guesses, the signed state of a visitor, the life of a session from
  login to logout, the acceptance of a state-changing request and the redaction of audit
  records. The keyed hash is assumed to return what \<open>hexdigest\<close> documents: a non-empty
  string of hexadecimal digits.
\<close>

definition hex_mac :: "auth_env \<Rightarrow> bool" where
  "hex_mac env = (\<forall>k m. env_mac env k m \<noteq> [] \<and> list_all hex_char (env_mac env k m))"

definition ex_env :: auth_env where
  "ex_env = \<lparr>env_mac = (\<lambda>k m. nat_str (length m)), env_pw_verify = (\<lambda>p h. Some (p = h)),
     env_host_literal = (\<lambda>_. False), env_secret = ''key'', env_session_max_age = 100,
     env_csrf_max_age = 60, env_trusted_proxies = [], env_cors_origins = [''http://ui''],
     env_limits = \<lparr>login_window = 300, login_max_attempts = 1, login_lock = 300, login_max_keys = 100\<rparr>\<rparr>"

lemma digit_hex: "py_isdigit c \<Longrightarrow> hex_char c"
  by (simp add: py_isdigit_def hex_char_def Let_def)

lemma ex_env_hex: "hex_mac ex_env"
  using nat_str_digits digit_hex by (auto simp: hex_mac_def ex_env_def list_all_iff)

lemma hex_ascii: "list_all hex_char s \<Longrightarrow> is_ascii s"
  by (auto simp: list_all_iff is_ascii_def hex_char_def Let_def)

lemma hex_no_dot: "list_all hex_char s \<Longrightarrow> CHR ''.'' \<notin> set s"
  by (auto simp: list_all_iff hex_char_def code_point_def Let_def)

lemma hash_token_hex: "hex_mac env \<Longrightarrow> hash_token env t \<noteq> [] \<and> list_all hex_char (hash_token env t)"
  by (simp add: hex_mac_def hash_token_def)

lemma nonempty_Some [simp]: "x \<noteq> [] \<Longrightarrow> nonempty (Some x) = Some x" "nonempty None = None" "nonempty (Some []) = None"
  by (simp_all add: nonempty_def)

lemma verify_own_hash:
  "hex_mac env \<Longrightarrow> verify_token_hash env t (Some (hash_token env t)) = Inr True"
  using hash_token_hex[of env t] hex_ascii by (simp add: verify_token_hash_def compare_digest_def)

lemma verify_token_hash_iff:
  "hex_mac env \<Longrightarrow> verify_token_hash env t h = Inr True \<longleftrightarrow> h = Some (hash_token env t)"
  using hash_token_hex[of env t] hex_ascii[of "hash_token env t"]
  by (cases h) (auto simp: verify_token_hash_def compare_digest_def nonempty_def split: if_splits option.splits)

subsection \<open>Password guesses\<close>

record login_call =
  lc_req :: request
  lc_email :: string
  lc_password :: string
  lc_session :: string
  lc_csrf :: string
  lc_clk :: clocks

definition call_key :: "auth_env \<Rightarrow> login_call \<Rightarrow> string" where
  "call_key env c = limiter_key env (normalize_email (lc_email c)) (client_ip env (lc_req c))"

definition login_by :: "auth_env \<Rightarrow> login_call \<Rightarrow> limiter \<times> db \<Rightarrow> (auth_error + login_result) \<times> limiter \<times> db" where
  "login_by env c = login env (lc_req c) (lc_email c) (lc_password c) (lc_session c) (lc_csrf c) (lc_clk c)"

fun login_run :: "auth_env \<Rightarrow> login_call list \<Rightarrow> limiter \<times> db \<Rightarrow> (auth_error + login_result) list \<times> limiter \<times> db" where
  "login_run env [] st = ([], st)"
| "login_run env (c # cs) st =
     (let (r, st1) = login_by env c st; (rs, st2) = login_run env cs st1 in (r # rs, st2))"

definition attempt_of :: "auth_env \<Rightarrow> login_call \<Rightarrow> db \<Rightarrow> attempt" where
  "attempt_of env c d = \<lparr>at_key = call_key env c,
     at_ok = (credentials env (normalize_email (lc_email c)) (lc_password c) d \<noteq> None),
     at_check = clk_check (lc_clk c), at_record = clk_record (lc_clk c)\<rparr>"

fun attempts_of :: "auth_env \<Rightarrow> login_call list \<Rightarrow> limiter \<times> db \<Rightarrow> attempt list" where
  "attempts_of env [] st = []"
| "attempts_of env (c # cs) st =
     attempt_of env c (snd st) # attempts_of env cs (snd (login_by env c st))"

text \<open>The limiter goes through a login as through an attempt.\<close>

lemma login_limiter:
  assumes "login_by env c (l, d) = (r, l', d')"
  shows "snd (login_attempt (env_limits env) (attempt_of env c d) l) = l'"
    and "fst (login_attempt (env_limits env) (attempt_of env c d) l) = Refused \<longleftrightarrow> r = Inl AuthenticationFailed"
    and "r \<in> {Inl AuthenticationFailed, Inl RateLimitExceeded} \<Longrightarrow>
         fst (login_attempt (env_limits env) (attempt_of env c d) l) \<noteq> Accepted"
  using assms
  by (auto simp: login_by_def login_parts login_attempt_def attempt_of_def call_key_def Let_def
        open_session_def add_session_def split: prod.splits option.splits sum.splits if_splits)

lemma login_run_attempts:
  assumes "login_run env cs (l, d) = (rs, l', d')"
  shows "snd (login_attempts (env_limits env) (attempts_of env cs (l, d)) l) = l' \<and>
    length rs = length cs \<and>
    list_all2 (\<lambda>out r. (out = Refused) = (r = Inl AuthenticationFailed) \<and>
        (r \<in> {Inl AuthenticationFailed, Inl RateLimitExceeded} \<longrightarrow> out \<noteq> Accepted))
      (fst (login_attempts (env_limits env) (attempts_of env cs (l, d)) l)) rs"
  using assms
proof (induction cs arbitrary: l d rs)
  case Nil
  then show ?case by simp
next
  case (Cons c cs)
  obtain r l1 d1 where c: "login_by env c (l, d) = (r, l1, d1)" by (metis prod.exhaust)
  obtain rs2 st2 where rest: "login_run env cs (l1, d1) = (rs2, st2)" by (rule prod.exhaust)
  have rs: "rs = r # rs2" "st2 = (l', d')" using Cons.prems c rest by auto
  obtain out where a: "login_attempt (env_limits env) (attempt_of env c d) l = (out, l1)"
    using login_limiter(1)[OF c] by (metis prod.collapse)
  have st: "(out = Refused) = (r = Inl AuthenticationFailed)"
    "r \<in> {Inl AuthenticationFailed, Inl RateLimitExceeded} \<longrightarrow> out \<noteq> Accepted"
    using login_limiter(2,3)[OF c] a by auto
  show ?case
    using Cons.IH[of l1 d1 rs2] rest rs st c a
    by (cases "login_attempts (env_limits env) (attempts_of env cs (l1, d1)) l1") simp
qed

lemma attempts_of_map:
  "length (attempts_of env cs st) = length cs \<and>
   map at_key (attempts_of env cs st) = map (call_key env) cs \<and>
   map at_check (attempts_of env cs st) = map (\<lambda>c. clk_check (lc_clk c)) cs \<and>
   map at_record (attempts_of env cs st) = map (\<lambda>c. clk_record (lc_clk c)) cs"
  by (induction cs arbitrary: st) (simp_all add: attempt_of_def)

definition failures_of :: "auth_env \<Rightarrow> string \<Rightarrow> login_call list \<Rightarrow> (auth_error + login_result) list \<Rightarrow> nat" where
  "failures_of env k cs rs =
     length (filter (\<lambda>(c, r). call_key env c = k \<and> r = Inl AuthenticationFailed) (zip cs rs))"

lemma failures_refusals:
  assumes "list_all2 (\<lambda>out r. (out = Refused) = (r = Inl AuthenticationFailed) \<and> Q out r) outs rs"
    and "map at_key as = map (call_key env) cs"
  shows "failures_of env k cs rs = refusals k as outs"
  using assms
proof (induction outs rs arbitrary: as cs rule: list_all2_induct)
  case Nil
  then show ?case by (simp add: failures_of_def refusals_def)
next
  case (Cons out outs r rs)
  then show ?case
    by (cases as; cases cs) (auto simp: failures_of_def refusals_def)
qed

lemma not_accepted:
  assumes "list_all2 (\<lambda>out r. P out r \<and> (r \<in> R \<longrightarrow> out \<noteq> Accepted)) outs rs"
    and "map at_key as = map (call_key env) cs"
    and "\<forall>(c, r)\<in>set (zip cs rs). call_key env c = k \<longrightarrow> r \<in> R"
  shows "\<forall>(a, out)\<in>set (zip as outs). at_key a = k \<longrightarrow> out \<noteq> Accepted"
  using assms
proof (induction outs rs arbitrary: as cs rule: list_all2_induct)
  case (Cons out outs r rs)
  show ?case
  proof (cases as)
    case (Cons a as')
    then obtain c cs' where cs: "cs = c # cs'" "at_key a = call_key env c" "map at_key as' = map (call_key env) cs'"
      using Cons.prems(1) by (cases cs) auto
    have "\<forall>(a, out)\<in>set (zip as' outs). at_key a = k \<longrightarrow> out \<noteq> Accepted"
      using Cons.prems(2) cs by (intro Cons.IH[of as' cs']) simp_all
    moreover have "at_key a = k \<longrightarrow> out \<noteq> Accepted"
      using Cons.hyps(1) Cons.prems(2) cs by simp
    ultimately show ?thesis using Cons by simp
  qed simp
qed simp

text \<open>Logins that overlap: each passes its check before any of them is answered.\<close>

definition start_by :: "auth_env \<Rightarrow> login_call \<Rightarrow> limiter \<times> db \<Rightarrow> (auth_error + unit) \<times> limiter \<times> db" where
  "start_by env c = login_start env (lc_req c) (lc_email c) (clk_check (lc_clk c))"

definition finish_by :: "auth_env \<Rightarrow> login_call \<Rightarrow> db \<Rightarrow> limiter \<times> db \<Rightarrow>
    (auth_error + login_result) \<times> limiter \<times> db" where
  "finish_by env c d = login_finish env (lc_req c) (lc_email c)
     (credentials env (normalize_email (lc_email c)) (lc_password c) d) (lc_session c) (lc_csrf c) (lc_clk c)"

fun start_all :: "auth_env \<Rightarrow> login_call list \<Rightarrow> limiter \<times> db \<Rightarrow> (auth_error + unit) list \<times> limiter \<times> db" where
  "start_all env [] st = ([], st)"
| "start_all env (c # cs) st =
     (let (r, st1) = start_by env c st; (rs, st2) = start_all env cs st1 in (r # rs, st2))"

text \<open>The checks of the passwords read the accounts as \<open>d\<close> has them.\<close>

fun finish_all :: "auth_env \<Rightarrow> db \<Rightarrow> (login_call \<times> (auth_error + unit)) list \<Rightarrow> limiter \<times> db \<Rightarrow>
    (auth_error + login_result) list \<times> limiter \<times> db" where
  "finish_all env d [] st = ([], st)"
| "finish_all env d ((c, checked) # cs) st =
     (let (r, st1) = (case checked of Inl e \<Rightarrow> (Inl e, st) | Inr _ \<Rightarrow> finish_by env c d st);
          (rs, st2) = finish_all env d cs st1 in (r # rs, st2))"

definition overlapping_logins :: "auth_env \<Rightarrow> login_call list \<Rightarrow> limiter \<times> db \<Rightarrow>
    (auth_error + login_result) list \<times> limiter \<times> db" where
  "overlapping_logins env cs st =
     (let (checks, st1) = start_all env cs st in finish_all env (snd st) (zip cs checks) st1)"

text \<open>A login that is served alone is both of its steps at once.\<close>

lemma login_alone: "login_by env c st = (case overlapping_logins env [c] st of (rs, st') \<Rightarrow> (hd rs, st'))"
  by (auto simp: login_by_def login_def start_by_def finish_by_def overlapping_logins_def login_start_def Let_def
      split: prod.splits sum.splits if_splits)

lemma check_keeps_lock:
  "le_locked_until (entry_of k (snd (check_allowed cfg k' t l))) = le_locked_until (entry_of k l)"
  by (auto simp: check_allowed_def Let_def entry_of_def update_conv')

lemma unlocked_checks_pass:
  assumes "\<forall>c\<in>set cs. le_locked_until (entry_of (call_key env c) l) \<le> clk_check (lc_clk c)"
  shows "\<exists>l'. start_all env cs (l, d) = (replicate (length cs) (Inr ()), l', d)"
  using assms
proof (induction cs arbitrary: l)
  case (Cons c cs)
  let ?l = "snd (check_allowed (env_limits env) (call_key env c) (clk_check (lc_clk c)) l)"
  have "start_by env c (l, d) = (Inr (), ?l, d)"
    using Cons.prems by (auto simp: start_by_def login_start_def call_key_def check_allowed_def Let_def)
  moreover obtain l' where "start_all env cs (?l, d) = (replicate (length cs) (Inr ()), l', d)"
    using Cons.IH[of ?l] Cons.prems by (auto simp: check_keeps_lock)
  ultimately show ?case by simp
qed simp

lemma wrong_guesses_are_answered:
  assumes "\<forall>c\<in>set cs. credentials env (normalize_email (lc_email c)) (lc_password c) d = None"
  shows "fst (finish_all env d (zip cs (replicate (length cs) (Inr ()))) st) =
    replicate (length cs) (Inl AuthenticationFailed)"
  using assms
proof (induction cs arbitrary: st)
  case (Cons c cs)
  have "fst (finish_by env c d st) = Inl AuthenticationFailed"
    using Cons.prems by (cases st) (simp add: finish_by_def login_finish_def Let_def)
  then show ?case using Cons.IH[of "snd (finish_by env c d st)"] Cons.prems
    by (cases "finish_by env c d st"; cases "finish_all env d (zip cs (replicate (length cs) (Inr ()))) (snd (finish_by env c d st))")
       simp
qed simp

lemma overlapping_guesses_pass:
  assumes "\<forall>c\<in>set cs. le_locked_until (entry_of (call_key env c) l) \<le> clk_check (lc_clk c) \<and>
      credentials env (normalize_email (lc_email c)) (lc_password c) d = None"
  shows "fst (overlapping_logins env cs (l, d)) = replicate (length cs) (Inl AuthenticationFailed)"
proof -
  obtain l' where "start_all env cs (l, d) = (replicate (length cs) (Inr ()), l', d)"
    using unlocked_checks_pass[of cs env l d] assms by auto
  then show ?thesis using wrong_guesses_are_answered[of cs env d "(l', d)"] assms
    by (simp add: overlapping_logins_def)
qed

lemma failures_of_all:
  "\<forall>c\<in>set cs. call_key env c = k \<Longrightarrow>
   failures_of env k cs (replicate (length cs) (Inl AuthenticationFailed)) = length cs"
  by (induction cs) (simp_all add: failures_of_def)

text \<open>
  C24: Password guessing is bounded for logins that are served one after the other, and only
  for those. Whatever else the server answers meanwhile, in any time span no longer than the
  limiter's window and its lock, an address and client pair that never logs in gets at most
  the configured number of password checks answered by such logins; the other attempts are
  turned away by the limiter without a check. The bound needs the table to have room for the
  pairs of the span: with more pairs than the table's size it may forget a lock. Logins that
  overlap escape the bound: as the check of the limiter and the record of the failure are
  separate steps, any number of wrong guesses that pass their checks before the first of them
  is answered are all answered, whatever the configured number is.
\<close>

theorem password_guesses_are_bounded:
  assumes "limiter_ok l" "login_run env calls (l, d) = (rs, l', d')"
    and "limiter_keys l \<union> call_key env ` set calls \<subseteq> K" "finite K" "card K \<le> login_max_keys (env_limits env)"
    and "0 < login_max_attempts (env_limits env)"
    and "\<forall>c\<in>set calls. s \<le> clk_check (lc_clk c) \<and> clk_check (lc_clk c) \<le> clk_record (lc_clk c) \<and>
      clk_record (lc_clk c) < s + min (login_window (env_limits env)) (login_lock (env_limits env))"
    and "\<forall>(c, r)\<in>set (zip calls rs). call_key env c = k \<longrightarrow>
      r \<in> {Inl AuthenticationFailed, Inl RateLimitExceeded}"
  shows "failures_of env k calls rs \<le> login_max_attempts (env_limits env) \<and>
    ((\<forall>c\<in>set guesses. call_key env c = k \<and> le_locked_until (entry_of k l) \<le> clk_check (lc_clk c) \<and>
        credentials env (normalize_email (lc_email c)) (lc_password c) d = None) \<longrightarrow>
      failures_of env k guesses (fst (overlapping_logins env guesses (l, d))) = length guesses)"
proof -
  let ?as = "attempts_of env calls (l, d)" and ?cfg = "env_limits env"
  note run = login_run_attempts[OF assms(2)]
  note maps = attempts_of_map[of env calls "(l, d)"]
  have eq: "failures_of env k calls rs = refusals k ?as (fst (login_attempts ?cfg ?as l))"
    using run maps by (intro failures_refusals) auto
  have na: "\<forall>(a, out)\<in>set (zip ?as (fst (login_attempts ?cfg ?as l))). at_key a = k \<longrightarrow> out \<noteq> Accepted"
    by (rule not_accepted[OF conjunct2[OF conjunct2[OF run]] _ assms(8)]) (use maps in simp)
  have keys: "at_key ` set ?as = call_key env ` set calls" using maps by (metis list.set_map)
  have times: "\<forall>a\<in>set ?as. s \<le> at_check a \<and> at_check a \<le> at_record a \<and>
      at_record a < s + min (login_window ?cfg) (login_lock ?cfg)"
  proof
    fix a assume "a \<in> set ?as"
    then obtain i where i: "i < length ?as" "a = ?as ! i" by (metis in_set_conv_nth)
    then have "at_check a = clk_check (lc_clk (calls ! i))" "at_record a = clk_record (lc_clk (calls ! i))"
      "calls ! i \<in> set calls"
      using maps by (metis nth_map, metis nth_map, simp)
    then show "s \<le> at_check a \<and> at_check a \<le> at_record a \<and>
      at_record a < s + min (login_window ?cfg) (login_lock ?cfg)" using assms(7) by simp
  qed
  have "0 + refusals k ?as (fst (login_attempts ?cfg ?as l)) \<le> login_max_attempts ?cfg"
    by (rule attempts_tracked[OF assms(1) _ assms(4,5) _ assms(6) na times])
       (use assms(3) keys in \<open>simp_all add: tracked_def\<close>)
  then have "failures_of env k calls rs \<le> login_max_attempts ?cfg" using eq by simp
  moreover have "failures_of env k guesses (fst (overlapping_logins env guesses (l, d))) = length guesses"
    if "\<forall>c\<in>set guesses. call_key env c = k \<and> le_locked_until (entry_of k l) \<le> clk_check (lc_clk c) \<and>
        credentials env (normalize_email (lc_email c)) (lc_password c) d = None"
    using that overlapping_guesses_pass[of guesses env l d] failures_of_all[of guesses env k] by fastforce
  ultimately show ?thesis by blast
qed

definition ex_req :: request where
  "ex_req = \<lparr>req_method = ''POST'', req_path = ''/login'', req_scheme = ''http'', req_netloc = ''api'',
     req_id = None, req_peer = Some ''9.9.9.9'', req_forwarded_for = None, req_user_agent = None,
     req_origin = Some ''http://ui'', req_referer = None, req_csrf_header = None,
     req_session_cookie = None, req_csrf_cookie = None\<rparr>"

definition ex_auth_db :: db where
  "ex_auth_db = \<lparr>db_jobs = [], db_next_job_id = 1, db_versions = [], db_documents = [],
     db_users = [\<lparr>user_id = 7, user_role_id = 1, user_email = ''a@b'', user_display_name = ''A'',
       user_password_hash = Some ''pw'', user_status = UserActive, user_last_login_at = None\<rparr>],
     db_roles = [(1, ''admin'')], db_sessions = [], db_next_session_id = 1, db_audit_logs = [], db_next_document_id = 1, db_next_version_id = 1,
     db_chunks = [], db_next_chunk_id = 1, db_corpus_marker = None, db_settings = []\<rparr>"

definition ex_call :: "string \<Rightarrow> py_time \<Rightarrow> login_call" where
  "ex_call pw t = \<lparr>lc_req = ex_req, lc_email = '' A@b'', lc_password = pw, lc_session = ''sess_1'',
     lc_csrf = ''csrf_12'', lc_clk = \<lparr>clk_now = t, clk_check = t, clk_record = t\<rparr>\<rparr>"

lemmas ex_auth_defs = ex_req_def ex_auth_db_def ex_call_def ex_env_def

lemma ex_env_limits [simp]:
  "login_window (env_limits ex_env) = 300" "login_max_attempts (env_limits ex_env) = 1"
  "login_lock (env_limits ex_env) = 300" "login_max_keys (env_limits ex_env) = 100"
  "lc_clk (ex_call pw t) = \<lparr>clk_now = t, clk_check = t, clk_record = t\<rparr>"
  by (simp_all add: ex_env_def ex_call_def)

lemma ex_guess_run:
  "fst (login_run ex_env [ex_call ''x'' 5, ex_call ''pw'' 6] ([], ex_auth_db)) =
     [Inl AuthenticationFailed, Inl RateLimitExceeded]"
  by code_simp

theorem password_guesses_are_bounded_witness:
  "failures_of ex_env (call_key ex_env (ex_call ''x'' 5)) [ex_call ''x'' 5, ex_call ''pw'' 6]
     (fst (login_run ex_env [ex_call ''x'' 5, ex_call ''pw'' 6] ([], ex_auth_db))) \<le> 1 \<and>
   failures_of ex_env (call_key ex_env (ex_call ''x'' 5)) [ex_call ''x'' 5, ex_call ''y'' 6, ex_call ''z'' 6]
     (fst (overlapping_logins ex_env [ex_call ''x'' 5, ex_call ''y'' 6, ex_call ''z'' 6] ([], ex_auth_db))) = 3"
proof -
  obtain rs l' d' where r: "login_run ex_env [ex_call ''x'' 5, ex_call ''pw'' 6] ([], ex_auth_db) = (rs, l', d')"
    by (metis prod.exhaust)
  have k: "call_key ex_env (ex_call ''pw'' 6) = call_key ex_env (ex_call ''x'' 5)"
    by (simp add: call_key_def ex_call_def)
  have wrong: "(case credentials ex_env (normalize_email (lc_email c)) (lc_password c) ex_auth_db of
      None \<Rightarrow> True | _ \<Rightarrow> False)" if "c \<in> set [ex_call ''x'' 5, ex_call ''y'' 6, ex_call ''z'' 6]" for c
  proof -
    have "list_all (\<lambda>c. case credentials ex_env (normalize_email (lc_email c)) (lc_password c) ex_auth_db of
        None \<Rightarrow> True | _ \<Rightarrow> False) [ex_call ''x'' 5, ex_call ''y'' 6, ex_call ''z'' 6]" by code_simp
    then show ?thesis using that by (auto simp: list_all_iff)
  qed
  have guesses: "\<forall>c\<in>set [ex_call ''x'' 5, ex_call ''y'' 6, ex_call ''z'' 6].
      call_key ex_env c = call_key ex_env (ex_call ''x'' 5) \<and>
      le_locked_until (entry_of (call_key ex_env (ex_call ''x'' 5)) []) \<le> clk_check (lc_clk c) \<and>
      credentials ex_env (normalize_email (lc_email c)) (lc_password c) ex_auth_db = None"
  proof
    fix c assume c: "c \<in> set [ex_call ''x'' 5, ex_call ''y'' 6, ex_call ''z'' 6]"
    have "call_key ex_env c = call_key ex_env (ex_call ''x'' 5)" using c by (auto simp: call_key_def ex_call_def)
    moreover have "0 \<le> clk_check (lc_clk c)" using c by (auto simp: ex_call_def)
    ultimately show "call_key ex_env c = call_key ex_env (ex_call ''x'' 5) \<and>
      le_locked_until (entry_of (call_key ex_env (ex_call ''x'' 5)) []) \<le> clk_check (lc_clk c) \<and>
      credentials ex_env (normalize_email (lc_email c)) (lc_password c) ex_auth_db = None"
      using wrong[OF c] by (simp add: entry_of_def new_limit_entry_def split: option.splits)
  qed
  have run: "fst (login_run ex_env [ex_call ''x'' 5, ex_call ''pw'' 6] ([], ex_auth_db)) = rs"
    by (simp only: r fst_conv)
  let ?k = "call_key ex_env (ex_call ''x'' 5)"
  have "limiter_ok []" "limiter_keys [] \<union> call_key ex_env ` set [ex_call ''x'' 5, ex_call ''pw'' 6] \<subseteq> {?k}"
    "finite {?k}" "card {?k} \<le> login_max_keys (env_limits ex_env)" "0 < login_max_attempts (env_limits ex_env)"
    by (simp_all add: limiter_ok_def limiter_keys_def k)
  moreover have "\<forall>c\<in>set [ex_call ''x'' 5, ex_call ''pw'' 6]. 5 \<le> clk_check (lc_clk c) \<and>
      clk_check (lc_clk c) \<le> clk_record (lc_clk c) \<and>
      clk_record (lc_clk c) < 5 + min (login_window (env_limits ex_env)) (login_lock (env_limits ex_env))"
    by simp
  moreover have "\<forall>(c, r)\<in>set (zip [ex_call ''x'' 5, ex_call ''pw'' 6] rs). call_key ex_env c = ?k \<longrightarrow>
      r \<in> {Inl AuthenticationFailed, Inl RateLimitExceeded}"
    unfolding run[symmetric] ex_guess_run by simp
  ultimately have "failures_of ex_env ?k [ex_call ''x'' 5, ex_call ''pw'' 6] rs
        \<le> login_max_attempts (env_limits ex_env) \<and>
      failures_of ex_env ?k [ex_call ''x'' 5, ex_call ''y'' 6, ex_call ''z'' 6]
        (fst (overlapping_logins ex_env [ex_call ''x'' 5, ex_call ''y'' 6, ex_call ''z'' 6] ([], ex_auth_db))) =
        length [ex_call ''x'' 5, ex_call ''y'' 6, ex_call ''z'' 6]"
    using password_guesses_are_bounded[OF _ r, of "{?k}" 5 ?k "[ex_call ''x'' 5, ex_call ''y'' 6, ex_call ''z'' 6]"]
      guesses by blast
  then show ?thesis unfolding run by simp
qed

text \<open>
  The limiter's memory is bounded: whatever addresses and clients try to log in, and
  however often, the table never holds more than one entry beyond its configured size, with
  one entry for each key.
\<close>

theorem limiter_table_is_bounded:
  assumes "login_run env calls ([], d) = (rs, l', d')" "\<forall>c\<in>set calls. 0 \<le> clk_check (lc_clk c)"
  shows "length l' \<le> login_max_keys (env_limits env) + 1 \<and> distinct (map fst l')"
proof -
  let ?as = "attempts_of env calls ([], d)"
  have "\<forall>a\<in>set ?as. 0 \<le> at_check a"
    using assms(2) attempts_of_map[of env calls "([], d)"] by (metis (no_types, lifting) image_iff list.set_map)
  then have "limiter_ok (snd (login_attempts (env_limits env) ?as [])) \<and>
      length (snd (login_attempts (env_limits env) ?as [])) \<le> Suc (login_max_keys (env_limits env))"
    by (intro login_attempts_inv) (simp_all add: limiter_ok_def)
  then show ?thesis using login_run_attempts[OF assms(1)] by (simp add: limiter_ok_def)
qed

theorem limiter_table_is_bounded_witness:
  "\<exists>rs l' d'. login_run ex_env [ex_call ''x'' 5] ([], ex_auth_db) = (rs, l', d') \<and> length l' \<le> 101"
proof -
  obtain rs l' d' where r: "login_run ex_env [ex_call ''x'' 5] ([], ex_auth_db) = (rs, l', d')"
    by (metis prod.exhaust)
  from limiter_table_is_bounded[OF r] show ?thesis using r by auto
qed

text \<open>A full table forgets the lock of its oldest key: here a table of one key.\<close>

lemma lock_can_be_forgotten:
  "let cfg = \<lparr>login_window = 300, login_max_attempts = 1, login_lock = 300, login_max_keys = 1\<rparr>;
       bad = (\<lambda>k t. \<lparr>at_key = k, at_ok = False, at_check = t, at_record = t\<rparr>)
   in fst (login_attempts cfg [bad ''a'' 1, bad ''a'' 2, bad ''b'' 3, bad ''c'' 4, bad ''a'' 5] []) =
     [Refused, Blocked, Refused, Refused, Refused]"
  by code_simp

subsection \<open>The signed state of a visitor\<close>

lemma split_state:
  "CHR ''.'' \<notin> set a \<Longrightarrow> CHR ''.'' \<notin> set b \<Longrightarrow> CHR ''.'' \<notin> set c \<Longrightarrow>
   py_split_on CHR ''.'' (a @ ''.'' @ b @ ''.'' @ c) = [a, b, c]"
  using py_split_on_join[of "[a, b, c]" "CHR ''.''"] by simp

lemma split_char_not_Nil [simp]: "split_char d cur s \<noteq> []"
  by (induction s arbitrary: cur) auto

lemma split_char_join_back: "py_join [d] (split_char d cur s) = cur @ s"
proof (induction s arbitrary: cur)
  case (Cons x xs)
  show ?case using Cons[of "[]"] Cons[of "cur @ [x]"]
    by (cases "split_char d [] xs") auto
qed simp

lemma join_split_on: "py_join [d] (py_split_on d s) = s"
  by (simp add: py_split_on_def split_char_join_back)

text \<open>
  The double-submit check of a visitor without a session accepts exactly the states the
  server signed for the submitted token: the state made for a token is accepted with that
  token until it expires and refused afterwards, and a state that is accepted consists of an
  unexpired time stamp and the hash of the very token submitted, followed by the server's
  signature over both.
\<close>

theorem pre_auth_state_round_trip:
  assumes "hex_mac env" "token \<noteq> []"
  shows "verify_pre_auth_state env token (Some (make_pre_auth_state env token None issued)) now =
      (if issued + env_csrf_max_age env < now then Inl CsrfInvalid else Inr True) \<and>
    (verify_pre_auth_state env token (Some state) now = Inr True \<longrightarrow>
      (\<exists>stamp t. state = (stamp @ ''.'' @ hash_token env token) @ ''.'' @
           env_mac env (env_secret env) (stamp @ ''.'' @ hash_token env token) \<and>
         parse_int stamp = Some t \<and> now \<le> t + env_csrf_max_age env))"
proof
  let ?p = "int_str issued @ ''.'' @ hash_token env token"
  let ?sig = "env_mac env (env_secret env) ?p"
  have hex: "list_all hex_char ?sig" "list_all hex_char (hash_token env token)"
    using assms(1) by (simp_all add: hex_mac_def hash_token_def)
  have state: "make_pre_auth_state env token None issued = int_str issued @ ''.'' @ hash_token env token @ ''.'' @ ?sig"
    by (simp add: make_pre_auth_state_def)
  have split: "py_split_on CHR ''.'' (make_pre_auth_state env token None issued) =
      [int_str issued, hash_token env token, ?sig]"
    unfolding state using hex by (intro split_state) (simp_all add: hex_no_dot)
  have ne: "make_pre_auth_state env token None issued \<noteq> []" by (simp add: state)
  show "verify_pre_auth_state env token (Some (make_pre_auth_state env token None issued)) now =
      (if issued + env_csrf_max_age env < now then Inl CsrfInvalid else Inr True)"
    using assms ne hex_ascii[OF hex(1)] verify_own_hash[OF assms(1), of token]
    by (simp add: verify_pre_auth_state_def split compare_digest_def)
next
  show "verify_pre_auth_state env token (Some state) now = Inr True \<longrightarrow>
      (\<exists>stamp t. state = (stamp @ ''.'' @ hash_token env token) @ ''.'' @
           env_mac env (env_secret env) (stamp @ ''.'' @ hash_token env token) \<and>
         parse_int stamp = Some t \<and> now \<le> t + env_csrf_max_age env)"
  proof
    assume v: "verify_pre_auth_state env token (Some state) now = Inr True"
    then obtain stamp h sig t where
      parts: "py_split_on CHR ''.'' state = [stamp, h, sig]"
      and sig: "compare_digest sig (env_mac env (env_secret env) (stamp @ ''.'' @ h)) = Some True"
      and t: "parse_int stamp = Some t" "\<not> t + env_csrf_max_age env < now"
      and tok: "verify_token_hash env token (Some h) = Inr True"
      by (auto simp: verify_pre_auth_state_def nonempty_def
            split: if_splits list.splits option.splits bool.splits sum.splits)
    have "state = stamp @ ''.'' @ h @ ''.'' @ sig"
      using join_split_on[of "CHR ''.''" state] by (simp add: parts)
    moreover have "sig = env_mac env (env_secret env) (stamp @ ''.'' @ h)"
      using sig by (simp add: compare_digest_def split: if_splits)
    moreover have "h = hash_token env token" using tok verify_token_hash_iff[OF assms(1)] by simp
    ultimately show "\<exists>stamp t. state = (stamp @ ''.'' @ hash_token env token) @ ''.'' @
           env_mac env (env_secret env) (stamp @ ''.'' @ hash_token env token) \<and>
         parse_int stamp = Some t \<and> now \<le> t + env_csrf_max_age env"
      using t by (intro exI[of _ stamp] exI[of _ t]) simp
  qed
qed

theorem pre_auth_state_round_trip_witness:
  "verify_pre_auth_state ex_env ''csrf_1'' (Some (make_pre_auth_state ex_env ''csrf_1'' None 5)) 65 = Inr True \<and>
   verify_pre_auth_state ex_env ''csrf_1'' (Some (make_pre_auth_state ex_env ''csrf_1'' None 5)) 66 = Inl CsrfInvalid"
  using pre_auth_state_round_trip[OF ex_env_hex, of "''csrf_1''" 5 65]
    pre_auth_state_round_trip[OF ex_env_hex, of "''csrf_1''" 5 66]
  by (simp add: ex_env_def)

text \<open>A signature with a character outside ASCII raises instead of being refused.\<close>

lemma non_ascii_signature_raises:
  "verify_pre_auth_state ex_env ''t'' (Some (''1.2.'' @ [CHR 0xE9])) 5 = Inl RaisedTypeError"
  by code_simp

lemma malformed_referer_raises:
  "validate_origin_or_referer ex_env (ex_req\<lparr>req_origin := None, req_referer := Some ''http://[''\<rparr>) =
   Inl RaisedValueError"
  by code_simp

subsection \<open>Sessions\<close>


lemma find_map_same:
  "(\<And>x. p (f x) = p x) \<Longrightarrow> find p (map f xs) = map_option f (find p xs)"
  by (induction xs) auto

text \<open>The user a session belongs to, as \<open>require_authenticated_session\<close> needs it.\<close>

definition session_user :: "user_session \<Rightarrow> db \<Rightarrow> (user \<times> string) option" where
  "session_user s d = (case get_user_by_id (ses_user_id s) d of None \<Rightarrow> None
     | Some u \<Rightarrow> if user_status u \<noteq> UserActive then None else
         (case get_role_name u d of None \<Rightarrow> None
          | Some r \<Rightarrow> if r \<in> set KNOWN_ROLES then Some (u, r) else None))"

lemma authenticated_iff:
  "require_authenticated_session env req now d = Inr ctx \<longleftrightarrow>
   (\<exists>raw s u r. req_session_cookie req = Some raw \<and> raw \<noteq> [] \<and>
      get_session_by_raw_token env raw d = Some s \<and> session_is_active s now \<and>
      session_user s d = Some (u, r) \<and>
      ctx = \<lparr>sc_user = u, sc_session = s, sc_role = r, sc_raw_token = raw\<rparr>)"
  by (auto simp: require_authenticated_session_def session_user_def KNOWN_ROLES_def nonempty_def
        split: option.splits if_splits)

lemma authenticated_error:
  "require_authenticated_session env req now d = Inl e \<Longrightarrow> e = AuthenticationRequired"
  by (auto simp: require_authenticated_session_def split: option.splits if_splits)






definition ex_clk :: clocks where
  "ex_clk = \<lparr>clk_now = 10, clk_check = 5, clk_record = 6\<rparr>"

definition ex_login_db :: db where
  "ex_login_db = snd (snd (login ex_env ex_req ''a@B '' ''pw'' ''sess_1'' ''csrf_12'' ex_clk ([], ex_auth_db)))"


definition ex_session_req :: request where
  "ex_session_req = ex_req\<lparr>req_session_cookie := Some ''sess_1'', req_csrf_header := Some ''csrf_12''\<rparr>"


text \<open>
  C19: Logging out ends the session for good: in the database it leaves, no request carrying
  the session's token is authenticated or passes a CSRF check at any time, every other session
  stays exactly as usable as before, and one audit record is written.
\<close>

theorem logout_ends_the_session:
  assumes "require_authenticated_session env req now d = Inr ctx"
  shows "(\<forall>q later. req_session_cookie q = req_session_cookie req \<longrightarrow>
      require_authenticated_session env q later (logout env req ctx t d) = Inl AuthenticationRequired \<and>
      (req_method q \<notin> set SAFE_METHODS \<longrightarrow> fst (validate_csrf env q later (logout env req ctx t d)) \<noteq> Inr ())) \<and>
    (\<forall>q later raw s. req_session_cookie q = Some raw \<and> get_session_by_raw_token env raw d = Some s \<and>
      ses_id s \<noteq> ses_id (sc_session ctx) \<longrightarrow>
      require_authenticated_session env q later (logout env req ctx t d) =
      require_authenticated_session env q later d) \<and>
    length (db_audit_logs (logout env req ctx t d)) = length (db_audit_logs d) + 1"
proof -
  let ?d = "logout env req ctx t d"
  define f :: "user_session \<Rightarrow> user_session" where "f = (\<lambda>x. if ses_id x = ses_id (sc_session ctx)
      then x\<lparr>ses_revoked_at := Some t, ses_csrf_hash := None\<rparr> else x)"
  have ss: "db_sessions ?d = map f (db_sessions d)" "db_users ?d = db_users d" "db_roles ?d = db_roles d"
    by (simp_all add: logout_def revoke_session_def update_session_def f_def)
  have find: "get_session_by_raw_token env raw ?d = map_option f (get_session_by_raw_token env raw d)" for raw
    unfolding get_session_by_raw_token_def ss by (rule find_map_same) (simp add: f_def)
  obtain raw where raw: "req_session_cookie req = Some raw" "raw \<noteq> []"
    "get_session_by_raw_token env raw d = Some (sc_session ctx)"
    using assms unfolding authenticated_iff by auto
  have dead: "\<not> session_is_active (f (sc_session ctx)) later" for later
    by (simp add: f_def session_is_active_def)
  show ?thesis
  proof (intro conjI allI impI)
    fix q :: request and later assume q: "req_session_cookie q = req_session_cookie req"
    then show "require_authenticated_session env q later ?d = Inl AuthenticationRequired"
      using raw dead find[of raw] by (simp add: require_authenticated_session_def)
    assume "req_method q \<notin> set SAFE_METHODS"
    then show "fst (validate_csrf env q later ?d) \<noteq> Inr ()"
      using q raw dead find[of raw]
      by (auto simp: validate_csrf_def csrf_guard_def split: option.split sum.split auth_error.split)
  next
    fix q :: request and later raw' s
    assume a: "req_session_cookie q = Some raw' \<and> get_session_by_raw_token env raw' d = Some s \<and>
      ses_id s \<noteq> ses_id (sc_session ctx)"
    have "get_role_name u ?d = get_role_name u d" for u by (simp add: get_role_name_def ss)
    moreover have "get_session_by_raw_token env raw' ?d = Some s" using a find[of raw'] by (simp add: f_def)
    ultimately show "require_authenticated_session env q later ?d = require_authenticated_session env q later d"
      using a by (cases "raw' = []")
        (simp_all add: require_authenticated_session_def get_user_by_id_def ss split: option.split)
  next
    show "length (db_audit_logs ?d) = length (db_audit_logs d) + 1"
      by (simp add: logout_def audit_from_request_def add_audit_log_def revoke_session_def update_session_def)
  qed
qed

theorem logout_ends_the_session_witness:
  "\<exists>ctx. require_authenticated_session ex_env ex_session_req 50 ex_login_db = Inr ctx \<and>
     require_authenticated_session ex_env ex_session_req 60 (logout ex_env ex_session_req ctx 55 ex_login_db) =
       Inl AuthenticationRequired"
proof -
  have "isl (require_authenticated_session ex_env ex_session_req 50 ex_login_db) = False" by code_simp
  then obtain ctx where c: "require_authenticated_session ex_env ex_session_req 50 ex_login_db = Inr ctx"
    by (cases "require_authenticated_session ex_env ex_session_req 50 ex_login_db") auto
  from logout_ends_the_session[OF c, of 55] show ?thesis using c by auto
qed

text \<open>
  C10: A state-changing request of an authenticated user is accepted exactly when it comes
  from an allowed origin and its CSRF header is the token whose hash the session stores; the
  two forms of the check in the source agree, and a rejected request changes nothing but the
  audit log.
\<close>

theorem state_change_needs_the_session_csrf_token:
  assumes "hex_mac env" "req_method q \<notin> set SAFE_METHODS"
    and "require_authenticated_session env q now d = Inr ctx"
  shows "(fst (require_csrf env q now d) = Inr () \<longleftrightarrow>
      (\<exists>raw. req_csrf_header q = Some raw \<and> raw \<noteq> [] \<and> validate_origin_or_referer env q = Inr () \<and>
         ses_csrf_hash (sc_session ctx) = Some (hash_token env raw))) \<and>
    require_csrf env q now d = validate_csrf env q now d \<and>
    (snd (require_csrf env q now d) = d \<or> (\<exists>a. snd (require_csrf env q now d) = add_audit_log a d))"
proof -
  obtain cookie where c: "req_session_cookie q = Some cookie" "cookie \<noteq> []"
    "get_session_by_raw_token env cookie d = Some (sc_session ctx)" "session_is_active (sc_session ctx) now"
    using assms(3) unfolding authenticated_iff by auto
  have tok: "check_session_token env raw s = Inr () \<longleftrightarrow> ses_csrf_hash s = Some (hash_token env raw)" for raw s
    using verify_token_hash_iff[OF assms(1), of raw "ses_csrf_hash s"]
    by (auto simp: check_session_token_def split: sum.splits bool.splits)
  have guard: "fst (csrf_guard env q r d) = r" "snd (csrf_guard env q r d) = d \<or>
      (\<exists>a. snd (csrf_guard env q r d) = add_audit_log a d)" for r
    by (auto simp: csrf_guard_def audit_csrf_failure_def audit_from_request_def split: sum.split auth_error.split)
  have eq: "require_csrf env q now d = csrf_guard env q
     (case nonempty (req_csrf_header q) of None \<Rightarrow> Inl CsrfMissing
      | Some raw \<Rightarrow> (case validate_origin_or_referer env q of Inl e \<Rightarrow> Inl e
          | Inr _ \<Rightarrow> check_session_token env raw (sc_session ctx))) d"
    using assms(2,3) c(4) by (simp add: require_csrf_def validate_session_csrf_def split: option.split sum.split)
  moreover have "validate_csrf env q now d = require_csrf env q now d"
    unfolding eq using assms(2) c by (simp add: validate_csrf_def split: option.split sum.split)
  ultimately show ?thesis
    by (auto simp: guard nonempty_def tok split: option.splits sum.splits if_splits)
qed

theorem state_change_needs_the_session_csrf_token_witness:
  "fst (require_csrf ex_env ex_session_req 50 ex_login_db) = Inr () \<and>
   require_csrf ex_env ex_session_req 50 ex_login_db = validate_csrf ex_env ex_session_req 50 ex_login_db"
proof -
  have "isl (require_authenticated_session ex_env ex_session_req 50 ex_login_db) = False" by code_simp
  then obtain ctx where c: "require_authenticated_session ex_env ex_session_req 50 ex_login_db = Inr ctx"
    by (cases "require_authenticated_session ex_env ex_session_req 50 ex_login_db") auto
  have m: "req_method ex_session_req \<notin> set SAFE_METHODS"
    by (simp add: ex_session_req_def ex_req_def SAFE_METHODS_def)
  have "isl (fst (require_csrf ex_env ex_session_req 50 ex_login_db)) = False" by code_simp
  then have "fst (require_csrf ex_env ex_session_req 50 ex_login_db) = Inr ()"
    by (cases "fst (require_csrf ex_env ex_session_req 50 ex_login_db)") auto
  with state_change_needs_the_session_csrf_token[OF ex_env_hex m c] show ?thesis by blast
qed

text \<open>
  A refused login says nothing about the account: for one request and address, an
  unknown address, a disabled account, an account without a known role and a wrong password
  give the same answer, the same state of the limiter and the same audit record, and change
  nothing else in the database.
\<close>

theorem failed_logins_are_indistinguishable:
  assumes "credentials env (normalize_email email) password d = None"
    and "credentials env (normalize_email email) password2 d2 = None"
  shows "\<exists>e l' a. e \<in> {AuthenticationFailed, RateLimitExceeded} \<and>
    login env req email password raw_session raw_csrf clk (l, d) = (Inl e, l', add_audit_log a d) \<and>
    login env req email password2 raw_session2 raw_csrf2 clk (l, d2) = (Inl e, l', add_audit_log a d2)"
  using assms
  by (auto simp: login_parts Let_def audit_login_failure_def audit_from_request_def split: prod.splits)

theorem failed_logins_are_indistinguishable_witness:
  "\<exists>e l' a. login ex_env ex_req ''a@b'' ''bad'' ''s'' ''c'' ex_clk ([], ex_auth_db) =
      (Inl e, l', add_audit_log a ex_auth_db) \<and>
    login ex_env ex_req ''a@b'' ''pw'' ''s'' ''c'' ex_clk ([], ex_auth_db\<lparr>db_users := []\<rparr>) =
      (Inl e, l', add_audit_log a (ex_auth_db\<lparr>db_users := []\<rparr>))"
proof -
  have "(case credentials ex_env (normalize_email ''a@b'') ''bad'' ex_auth_db of None \<Rightarrow> True | _ \<Rightarrow> False)"
    "(case credentials ex_env (normalize_email ''a@b'') ''pw'' (ex_auth_db\<lparr>db_users := []\<rparr>) of None \<Rightarrow> True | _ \<Rightarrow> False)"
    by code_simp+
  then have "credentials ex_env (normalize_email ''a@b'') ''bad'' ex_auth_db = None"
    "credentials ex_env (normalize_email ''a@b'') ''pw'' (ex_auth_db\<lparr>db_users := []\<rparr>) = None"
    by (simp_all split: option.splits)
  from failed_logins_are_indistinguishable[OF this, of ex_req "''s''" "''c''" ex_clk "[]" "''s''" "''c''"]
  show ?thesis by blast
qed

text \<open>
  An audit record never stores the value of a metadata key that names a secret, nor a
  long text: whatever the caller passes, every such value at any depth is the redaction mark,
  every text is truncated, the client address and the user agent fit their columns, and
  redacting the stored metadata again changes nothing.
\<close>

theorem audit_records_are_redacted:
  "\<exists>a. audit_from_request env req action actor ttype tid metadata d = add_audit_log a d \<and>
     metadata_clean (PDict (audit_metadata a)) \<and>
     safe_metadata (Some (audit_metadata a)) = audit_metadata a \<and>
     (\<forall>ip. audit_ip_address a = Some ip \<longrightarrow> length ip \<le> 45) \<and>
     (\<forall>ua. audit_user_agent a = Some ua \<longrightarrow> ua \<noteq> [] \<and> length ua \<le> 512) \<and> audit_request_id a \<noteq> []"
proof -
  have clean: "metadata_clean (PDict (safe_metadata metadata))"
    by (auto simp: safe_metadata_def list_all_iff redact_metadata_clean redact_forbidden forbidden_opt_def
      split: option.split)
  have idem: "safe_metadata (Some (safe_metadata metadata)) = safe_metadata metadata"
    by (auto simp: safe_metadata_def redact_metadata_idem split: option.split)
  have ip: "client_ip env req = Some x \<Longrightarrow> length x \<le> 45" for x
    by (auto simp: client_ip_def nonempty_def Let_def split: option.splits if_splits)
  show ?thesis unfolding audit_from_request_def
    by (rule exI, rule conjI, rule refl)
       (auto simp: clean idem ip user_agent_def truncate_user_agent_def nonempty_def or_system_def
          simp del: metadata_clean.simps split: option.splits if_splits)
qed

theorem audit_records_are_redacted_witness:
  "\<exists>a. audit_from_request ex_env ex_req ''x'' None ''y'' None (Some [(''apiToken'', PStr ''s'')]) ex_auth_db =
     add_audit_log a ex_auth_db \<and> metadata_clean (PDict (audit_metadata a))"
  using audit_records_are_redacted[of ex_env ex_req "''x''" None "''y''" None] by blast

end
