(* ===== verification/Fusion.thy ===== *)
theory Fusion
  imports Py_Prelude
begin

section \<open>Fusion of dense and sparse retrieval\<close>

text \<open>
  \<open>backend/app/rag/fusion.py\<close> with the candidate of \<open>rag/retrieval.py\<close> and the
  methods of \<open>rag/strategy.py\<close>. The two ranked lists are merged by chunk, scored by
  reciprocal ranks or by normalized weighted scores, and cut to a limit. A score of the
  inputs is a Python float; the arithmetic on the finite scores is over the rationals. The
  \<open>math.inf\<close> that stands for an absent rank in a sort key is the larger first component
  of \<open>rank_key\<close>. A division by \<open>rrf_k + rank = 0\<close> is the left value.
\<close>

record candidate =
  cand_id :: "int option"
  cand_score :: pyfloat
  cand_order :: nat
  cand_payload :: "pyval pydict"

datatype fusion_method = RRF | WEIGHTED

definition method_value :: "fusion_method \<Rightarrow> string" where
  "method_value m = (case m of RRF \<Rightarrow> ''rrf'' | WEIGHTED \<Rightarrow> ''weighted'')"

record fusion_input =
  fi_id :: int
  fi_dense_score :: "rat option"
  fi_sparse_score :: "rat option"
  fi_dense_rank :: "nat option"
  fi_sparse_rank :: "nat option"

type_synonym fusion_table = "(int \<times> fusion_input) list"

datatype fusion_error = ZeroDivision

subsection \<open>Merging the lists\<close>

definition finite_score :: "pyfloat \<Rightarrow> rat option" where
  "finite_score x = (case x of Fin r \<Rightarrow> Some r | _ \<Rightarrow> None)"

definition max_optional_score :: "rat option \<Rightarrow> rat option \<Rightarrow> rat option" where
  "max_optional_score l r = (case l of None \<Rightarrow> r | Some a \<Rightarrow> (case r of None \<Rightarrow> l | Some b \<Rightarrow> Some (max a b)))"

definition best_rank :: "nat option \<Rightarrow> nat \<Rightarrow> nat" where
  "best_rank existing index = (case existing of None \<Rightarrow> index
     | Some r \<Rightarrow> if r = 0 then index else min r index)"

definition empty_input :: "int \<Rightarrow> fusion_input" where
  "empty_input i = \<lparr>fi_id = i, fi_dense_score = None, fi_sparse_score = None,
     fi_dense_rank = None, fi_sparse_rank = None\<rparr>"

definition existing_input :: "int \<Rightarrow> fusion_table \<Rightarrow> fusion_input" where
  "existing_input i t = (case map_of t i of None \<Rightarrow> empty_input i | Some e \<Rightarrow> e)"

definition merge_dense :: "fusion_table \<Rightarrow> nat \<times> candidate \<Rightarrow> fusion_table" where
  "merge_dense t p = (case p of (index, c) \<Rightarrow> (case cand_id c of None \<Rightarrow> t
     | Some i \<Rightarrow> (let e = existing_input i t in
         AList.update i \<lparr>fi_id = i,
           fi_dense_score = max_optional_score (fi_dense_score e) (finite_score (cand_score c)),
           fi_sparse_score = fi_sparse_score e,
           fi_dense_rank = Some (best_rank (fi_dense_rank e) index),
           fi_sparse_rank = fi_sparse_rank e\<rparr> t)))"

definition merge_sparse :: "fusion_table \<Rightarrow> nat \<times> candidate \<Rightarrow> fusion_table" where
  "merge_sparse t p = (case p of (index, c) \<Rightarrow> (case cand_id c of None \<Rightarrow> t
     | Some i \<Rightarrow> (let e = existing_input i t in
         AList.update i \<lparr>fi_id = i,
           fi_dense_score = fi_dense_score e,
           fi_sparse_score = max_optional_score (fi_sparse_score e) (finite_score (cand_score c)),
           fi_dense_rank = fi_dense_rank e,
           fi_sparse_rank = Some (best_rank (fi_sparse_rank e) index)\<rparr> t)))"

definition fusion_table :: "candidate list \<Rightarrow> candidate list \<Rightarrow> fusion_table" where
  "fusion_table dense sparse =
     foldl merge_sparse (foldl merge_dense [] (enum_from 1 dense)) (enum_from 1 sparse)"

definition dedupe_candidates :: "candidate list \<Rightarrow> candidate list \<Rightarrow> fusion_input list" where
  "dedupe_candidates dense sparse = map snd (fusion_table dense sparse)"

subsection \<open>Scores\<close>

definition max_list :: "rat list \<Rightarrow> rat" where
  "max_list xs = (case xs of [] \<Rightarrow> 0 | y # ys \<Rightarrow> foldl max y ys)"

definition min_list :: "rat list \<Rightarrow> rat" where
  "min_list xs = (case xs of [] \<Rightarrow> 0 | y # ys \<Rightarrow> foldl min y ys)"

definition normalize_fused_scores :: "(fusion_input \<times> rat) list \<Rightarrow> (fusion_input \<times> rat) list" where
  "normalize_fused_scores raw =
     (let m = max_list (map snd raw) in
      if m \<le> 0 then [] else map (\<lambda>(x, s). (x, min 1 (max 0 (s / m)))) (filter (\<lambda>(x, s). 0 < s) raw))"

definition normalize_shifted_scores :: "(fusion_input \<times> rat) list \<Rightarrow> (fusion_input \<times> rat) list" where
  "normalize_shifted_scores raw =
     (if raw = [] then [] else
      (let lo = min_list (map snd raw); hi = max_list (map snd raw) in
       if hi = lo then map (\<lambda>(x, s). (x, 1)) raw
       else map (\<lambda>(x, s). (x, min 1 (max 0 ((s - lo) / (hi - lo))))) raw))"

definition rrf_term :: "int \<Rightarrow> rat \<Rightarrow> nat option \<Rightarrow> rat" where
  "rrf_term k w rank = (case rank of None \<Rightarrow> 0 | Some r \<Rightarrow> w / of_int (k + int r))"

definition rrf_raw :: "int \<Rightarrow> rat \<Rightarrow> rat \<Rightarrow> fusion_input \<Rightarrow> rat" where
  "rrf_raw k dw sw x = 0 + rrf_term k dw (fi_dense_rank x) + rrf_term k sw (fi_sparse_rank x)"

definition rrf_divides :: "int \<Rightarrow> fusion_input \<Rightarrow> bool" where
  "rrf_divides k x = ((case fi_dense_rank x of None \<Rightarrow> True | Some r \<Rightarrow> k + int r \<noteq> 0) \<and>
     (case fi_sparse_rank x of None \<Rightarrow> True | Some r \<Rightarrow> k + int r \<noteq> 0))"

definition rrf_fusion :: "fusion_input list \<Rightarrow> int \<Rightarrow> rat \<Rightarrow> rat \<Rightarrow> fusion_error + (fusion_input \<times> rat) list" where
  "rrf_fusion inputs k dw sw =
     (if list_all (rrf_divides k) inputs
      then Inr (normalize_fused_scores (map (\<lambda>x. (x, rrf_raw k dw sw x)) inputs))
      else Inl ZeroDivision)"

definition score_bounds :: "rat option list \<Rightarrow> (rat \<times> rat) option" where
  "score_bounds scores =
     (let fs = concat (map (\<lambda>s. case s of None \<Rightarrow> [] | Some x \<Rightarrow> [x]) scores) in
      if fs = [] then None else Some (min_list fs, max_list fs))"

definition normalized_source_score :: "rat option \<Rightarrow> (rat \<times> rat) option \<Rightarrow> rat" where
  "normalized_source_score score bounds = (case score of None \<Rightarrow> 0 | Some s \<Rightarrow> (case bounds of None \<Rightarrow> 0
     | Some (lo, hi) \<Rightarrow> if hi = lo then 1 else min 1 (max 0 ((s - lo) / (hi - lo)))))"

definition has_positive_weighted_source :: "rat \<Rightarrow> rat \<Rightarrow> fusion_input \<Rightarrow> bool" where
  "has_positive_weighted_source dw sw x =
     ((0 < dw \<and> fi_dense_score x \<noteq> None) \<or> (0 < sw \<and> fi_sparse_score x \<noteq> None))"

definition weighted_fusion :: "fusion_input list \<Rightarrow> rat \<Rightarrow> rat \<Rightarrow> (fusion_input \<times> rat) list" where
  "weighted_fusion inputs dw sw =
     (let tw = dw + sw in
      if tw \<le> 0 then [] else
      (let db = score_bounds (map fi_dense_score (filter (\<lambda>x. fi_dense_rank x \<noteq> None) inputs));
           sb = score_bounds (map fi_sparse_score (filter (\<lambda>x. fi_sparse_rank x \<noteq> None) inputs))
       in normalize_shifted_scores
            (map (\<lambda>x. (x, (normalized_source_score (fi_dense_score x) db * dw +
                            normalized_source_score (fi_sparse_score x) sb * sw) / tw))
              (filter (has_positive_weighted_source dw sw) inputs))))"

subsection \<open>The fused ranking\<close>

definition rank_key :: "nat option \<Rightarrow> nat \<times> nat" where
  "rank_key r = (case r of None \<Rightarrow> (1, 0) | Some n \<Rightarrow> (0, n))"

definition fusion_key :: "fusion_input \<times> rat \<Rightarrow> rat \<times> (nat \<times> nat) \<times> (nat \<times> nat) \<times> int" where
  "fusion_key p = (case p of (x, s) \<Rightarrow> (- s, rank_key (fi_dense_rank x), rank_key (fi_sparse_rank x), fi_id x))"

definition opt_float :: "rat option \<Rightarrow> pyval" where
  "opt_float s = (case s of None \<Rightarrow> PNone | Some x \<Rightarrow> PFloat (Fin (py_round 6 x)))"

definition opt_rank :: "nat option \<Rightarrow> pyval" where
  "opt_rank r = (case r of None \<Rightarrow> PNone | Some n \<Rightarrow> PInt (int n))"

definition fused_candidate :: "fusion_method \<Rightarrow> nat \<times> fusion_input \<times> rat \<Rightarrow> candidate" where
  "fused_candidate m p = (case p of (index, x, s) \<Rightarrow>
     \<lparr>cand_id = Some (fi_id x), cand_score = Fin (py_round 6 s), cand_order = index,
      cand_payload =
       [(''retrieval_source'', PStr ''hybrid''), (''fusion_method'', PStr (method_value m)),
        (''dense_score'', opt_float (fi_dense_score x)), (''sparse_score'', opt_float (fi_sparse_score x)),
        (''fused_score'', PFloat (Fin (py_round 6 s))), (''dense_rank'', opt_rank (fi_dense_rank x)),
        (''sparse_rank'', opt_rank (fi_sparse_rank x))]\<rparr>)"

definition fused_ranking :: "(fusion_input \<times> rat) list \<Rightarrow> nat \<Rightarrow> (fusion_input \<times> rat) list" where
  "fused_ranking scored limit = take limit (sort_key fusion_key scored)"

definition fuse_candidates :: "candidate list \<Rightarrow> candidate list \<Rightarrow> fusion_method \<Rightarrow> int \<Rightarrow> int \<Rightarrow>
    rat \<Rightarrow> rat \<Rightarrow> fusion_error + candidate list" where
  "fuse_candidates dense sparse m limit k dw sw =
     (if limit < 1 then Inr [] else
      (let inputs = dedupe_candidates dense sparse in
       if inputs = [] then Inr [] else
       (case (case m of WEIGHTED \<Rightarrow> Inr (weighted_fusion inputs dw sw)
              | RRF \<Rightarrow> rrf_fusion inputs k dw sw) of
          Inl e \<Rightarrow> Inl e
        | Inr scored \<Rightarrow>
            Inr (map (fused_candidate m) (enum_from 1 (fused_ranking scored (nat limit)))))))"

subsection \<open>The merged table\<close>

text \<open>The position of the first candidate of a chunk in a list.\<close>

fun first_rank :: "nat \<Rightarrow> candidate list \<Rightarrow> int \<Rightarrow> nat option" where
  "first_rank n [] i = None"
| "first_rank n (c # cs) i = (if cand_id c = Some i then Some n else first_rank (Suc n) cs i)"

definition table_ok :: "fusion_table \<Rightarrow> bool" where
  "table_ok t = (distinct (map fst t) \<and> (\<forall>(i, e)\<in>set t. fi_id e = i))"

lemma existing_update [simp]:
  "existing_input i (AList.update j v t) = (if i = j then v else existing_input i t)"
  by (simp add: existing_input_def update_conv')

lemma table_ok_update: "table_ok t \<Longrightarrow> fi_id v = j \<Longrightarrow> table_ok (AList.update j v t)"
proof -
  assume a: "table_ok t" "fi_id v = j"
  have "distinct (map fst (AList.update j v t))" using a by (simp add: table_ok_def distinct_update)
  moreover have "fi_id e = i" if "(i, e) \<in> set (AList.update j v t)" for i e
  proof -
    have "map_of (AList.update j v t) i = Some e"
      using that \<open>distinct (map fst (AList.update j v t))\<close> by simp
    then show ?thesis using a by (auto simp: update_conv' table_ok_def split: if_splits dest: map_of_SomeD)
  qed
  ultimately show ?thesis by (auto simp: table_ok_def)
qed

lemma merge_dense_ok: "table_ok t \<Longrightarrow> table_ok (merge_dense t p)"
  by (auto simp: merge_dense_def Let_def table_ok_update split: prod.split option.split)

lemma merge_sparse_ok: "table_ok t \<Longrightarrow> table_ok (merge_sparse t p)"
  by (auto simp: merge_sparse_def Let_def table_ok_update split: prod.split option.split)

lemma foldl_ok: "(\<And>t p. table_ok t \<Longrightarrow> table_ok (f t p)) \<Longrightarrow> table_ok t \<Longrightarrow> table_ok (foldl f t ps)"
  by (induction ps arbitrary: t) auto

lemma fusion_table_ok: "table_ok (fusion_table dense sparse)"
  unfolding fusion_table_def
  by (intro foldl_ok merge_dense_ok merge_sparse_ok) (simp_all add: table_ok_def)

lemma dedupe_ids: "map fi_id (dedupe_candidates dense sparse) = map fst (fusion_table dense sparse)"
proof -
  have "\<forall>p\<in>set (fusion_table dense sparse). fi_id (snd p) = fst p"
    using fusion_table_ok[of dense sparse] by (auto simp: table_ok_def)
  then show ?thesis by (simp add: dedupe_candidates_def)
qed

lemma dedupe_distinct: "distinct (map fi_id (dedupe_candidates dense sparse))"
  using fusion_table_ok[of dense sparse] unfolding dedupe_ids by (simp add: table_ok_def)

lemma dedupe_existing:
  "x \<in> set (dedupe_candidates dense sparse) \<Longrightarrow> existing_input (fi_id x) (fusion_table dense sparse) = x"
proof -
  assume "x \<in> set (dedupe_candidates dense sparse)"
  then obtain i where i: "(i, x) \<in> set (fusion_table dense sparse)" by (auto simp: dedupe_candidates_def)
  then have "map_of (fusion_table dense sparse) i = Some x" "fi_id x = i"
    using fusion_table_ok[of dense sparse] by (auto simp: table_ok_def)
  then show ?thesis by (simp add: existing_input_def)
qed

definition cand_ids :: "candidate list \<Rightarrow> int set" where
  "cand_ids cs = {i. Some i \<in> cand_id ` set cs}"

lemma keys_update: "fst ` set (AList.update k v t) = insert k (fst ` set t)"
  by (simp add: dom_map_of_conv_image_fst[symmetric] update_conv')

lemma merge_dense_keys: "fst ` set (merge_dense t (n, c)) = fst ` set t \<union> cand_ids [c]"
  by (auto simp: merge_dense_def cand_ids_def keys_update Let_def split: option.split)

lemma merge_sparse_keys: "fst ` set (merge_sparse t (n, c)) = fst ` set t \<union> cand_ids [c]"
  by (auto simp: merge_sparse_def cand_ids_def keys_update Let_def split: option.split)

lemma foldl_keys:
  assumes "\<And>t n c. fst ` set (f t (n, c)) = fst ` set t \<union> cand_ids [c]"
  shows "fst ` set (foldl f t (enum_from n cs)) = fst ` set t \<union> cand_ids cs"
  by (induction cs arbitrary: t n) (auto simp: assms cand_ids_def)

lemma fusion_table_keys: "fst ` set (fusion_table dense sparse) = cand_ids dense \<union> cand_ids sparse"
  unfolding fusion_table_def
  by (simp only: foldl_keys[of merge_sparse, OF merge_sparse_keys] foldl_keys[of merge_dense, OF merge_dense_keys]) simp

lemma dedupe_ids_set: "fi_id ` set (dedupe_candidates dense sparse) = cand_ids dense \<union> cand_ids sparse"
  using fusion_table_keys dedupe_ids by (metis image_set)

text \<open>The ranks of the table are the first positions in the two lists.\<close>

definition ranks_below :: "nat \<Rightarrow> (fusion_input \<Rightarrow> nat option) \<Rightarrow> fusion_table \<Rightarrow> bool" where
  "ranks_below n rank t = (\<forall>i r. rank (existing_input i t) = Some r \<longrightarrow> 0 < r \<and> r < n)"

definition or_else :: "nat option \<Rightarrow> nat option \<Rightarrow> nat option" where
  "or_else a b = (case a of None \<Rightarrow> b | Some r \<Rightarrow> Some r)"

lemma or_else_simps [simp]: "or_else None b = b" "or_else (Some r) b = Some r"
  by (simp_all add: or_else_def)

lemma existing_merge_dense:
  "existing_input i (merge_dense t (n, c)) =
    (if cand_id c = Some i then \<lparr>fi_id = i,
           fi_dense_score = max_optional_score (fi_dense_score (existing_input i t)) (finite_score (cand_score c)),
           fi_sparse_score = fi_sparse_score (existing_input i t),
           fi_dense_rank = Some (best_rank (fi_dense_rank (existing_input i t)) n),
           fi_sparse_rank = fi_sparse_rank (existing_input i t)\<rparr> else existing_input i t)"
  by (auto simp: merge_dense_def Let_def split: option.split)

lemma existing_merge_sparse:
  "existing_input i (merge_sparse t (n, c)) =
    (if cand_id c = Some i then \<lparr>fi_id = i,
           fi_dense_score = fi_dense_score (existing_input i t),
           fi_sparse_score = max_optional_score (fi_sparse_score (existing_input i t)) (finite_score (cand_score c)),
           fi_dense_rank = fi_dense_rank (existing_input i t),
           fi_sparse_rank = Some (best_rank (fi_sparse_rank (existing_input i t)) n)\<rparr> else existing_input i t)"
  by (auto simp: merge_sparse_def Let_def split: option.split)

lemma foldl_dense_rank:
  "ranks_below n fi_dense_rank t \<Longrightarrow> 0 < n \<Longrightarrow>
   fi_dense_rank (existing_input i (foldl merge_dense t (enum_from n cs))) =
     or_else (fi_dense_rank (existing_input i t)) (first_rank n cs i) \<and>
   fi_sparse_rank (existing_input i (foldl merge_dense t (enum_from n cs))) = fi_sparse_rank (existing_input i t)"
proof (induction cs arbitrary: t n)
  case Nil
  then show ?case by (simp add: or_else_def split: option.split)
next
  case (Cons c cs)
  have rb: "fi_dense_rank (existing_input j t) = Some r \<Longrightarrow> 0 < r \<and> r < n" for j r
    using Cons.prems(1) unfolding ranks_below_def by blast
  have b: "best_rank (fi_dense_rank (existing_input j t)) n = (case fi_dense_rank (existing_input j t) of None \<Rightarrow> n | Some r \<Rightarrow> r)" for j
    by (cases "fi_dense_rank (existing_input j t)") (use rb in \<open>fastforce simp: best_rank_def\<close>)+
  have "ranks_below (Suc n) fi_dense_rank (merge_dense t (n, c))"
    using Cons.prems by (auto simp: ranks_below_def existing_merge_dense b less_Suc_eq split: option.splits)
  from Cons.IH[OF this] show ?case
    by (auto simp: existing_merge_dense b or_else_def split: option.split)
qed

lemma foldl_sparse_rank:
  "ranks_below n fi_sparse_rank t \<Longrightarrow> 0 < n \<Longrightarrow>
   fi_sparse_rank (existing_input i (foldl merge_sparse t (enum_from n cs))) =
     or_else (fi_sparse_rank (existing_input i t)) (first_rank n cs i) \<and>
   fi_dense_rank (existing_input i (foldl merge_sparse t (enum_from n cs))) = fi_dense_rank (existing_input i t)"
proof (induction cs arbitrary: t n)
  case Nil
  then show ?case by (simp add: or_else_def split: option.split)
next
  case (Cons c cs)
  have rb: "fi_sparse_rank (existing_input j t) = Some r \<Longrightarrow> 0 < r \<and> r < n" for j r
    using Cons.prems(1) unfolding ranks_below_def by blast
  have b: "best_rank (fi_sparse_rank (existing_input j t)) n = (case fi_sparse_rank (existing_input j t) of None \<Rightarrow> n | Some r \<Rightarrow> r)" for j
    by (cases "fi_sparse_rank (existing_input j t)") (use rb in \<open>fastforce simp: best_rank_def\<close>)+
  have "ranks_below (Suc n) fi_sparse_rank (merge_sparse t (n, c))"
    using Cons.prems by (auto simp: ranks_below_def existing_merge_sparse b less_Suc_eq split: option.splits)
  from Cons.IH[OF this] show ?case
    by (auto simp: existing_merge_sparse b or_else_def split: option.split)
qed

lemma dedupe_ranks:
  assumes "x \<in> set (dedupe_candidates dense sparse)"
  shows "fi_dense_rank x = first_rank 1 dense (fi_id x)" "fi_sparse_rank x = first_rank 1 sparse (fi_id x)"
proof -
  let ?t = "foldl merge_dense [] (enum_from 1 dense)"
  have d: "fi_dense_rank (existing_input i ?t) = first_rank 1 dense i"
    "fi_sparse_rank (existing_input i ?t) = None" for i
    using foldl_dense_rank[of 1 "[]" i dense]
    by (simp_all add: ranks_below_def existing_input_def empty_input_def)
  have "ranks_below 1 fi_sparse_rank ?t" unfolding ranks_below_def d by simp
  from foldl_sparse_rank[OF this, of "fi_id x" sparse]
  show "fi_dense_rank x = first_rank 1 dense (fi_id x)" "fi_sparse_rank x = first_rank 1 sparse (fi_id x)"
    using dedupe_existing[OF assms] d by (simp_all add: fusion_table_def)
qed

subsection \<open>Normalized scores\<close>

lemma max_list_Max: "xs \<noteq> [] \<Longrightarrow> max_list xs = Max (set xs)"
  by (cases xs) (simp_all add: max_list_def foldl_max_Max)

lemma max_list_ge: "x \<in> set xs \<Longrightarrow> x \<le> max_list xs"
  using max_list_Max[of xs] by (cases xs) auto

lemma max_list_in: "xs \<noteq> [] \<Longrightarrow> max_list xs \<in> set xs"
  using max_list_Max[of xs] Max_in[of "set xs"] by simp

definition unit_scores :: "(fusion_input \<times> rat) list \<Rightarrow> bool" where
  "unit_scores xs = ((\<forall>(x, s)\<in>set xs. 0 \<le> s \<and> s \<le> 1) \<and> (xs \<noteq> [] \<longrightarrow> 1 \<in> snd ` set xs))"

lemma normalize_fused_unit: "unit_scores (normalize_fused_scores raw)"
proof (cases "0 < max_list (map snd raw)")
  case True
  then have "map snd raw \<noteq> []" by (auto simp: max_list_def)
  from max_list_in[OF this] obtain x where x: "(x, max_list (map snd raw)) \<in> set raw" by auto
  have "1 \<in> snd ` set (normalize_fused_scores raw)"
    using True x by (force simp: normalize_fused_scores_def Let_def image_iff)
  then show ?thesis by (auto simp: unit_scores_def normalize_fused_scores_def Let_def split: if_splits)
next
  case False
  then show ?thesis by (simp add: unit_scores_def normalize_fused_scores_def)
qed

lemma normalize_shifted_unit: "unit_scores (normalize_shifted_scores raw)"
proof (cases "raw = [] \<or> max_list (map snd raw) = min_list (map snd raw)")
  case True
  then show ?thesis by (cases raw) (auto simp: unit_scores_def normalize_shifted_scores_def Let_def)
next
  case False
  then obtain x where x: "(x, max_list (map snd raw)) \<in> set raw"
    using max_list_in[of "map snd raw"] by auto
  have "1 \<in> snd ` set (normalize_shifted_scores raw)"
    using False x by (auto simp: normalize_shifted_scores_def Let_def image_iff intro!: bexI[of _ "(x, max_list (map snd raw))"])
  then show ?thesis using False by (auto simp: unit_scores_def normalize_shifted_scores_def Let_def)
qed

text \<open>A scoring keeps the order of the inputs and may drop some.\<close>

definition scores_inputs :: "fusion_input list \<Rightarrow> (fusion_input \<times> rat) list \<Rightarrow> bool" where
  "scores_inputs inputs xs = (subseq (map fst xs) inputs \<and> unit_scores xs)"

lemma rrf_fusion_scores: "rrf_fusion inputs k dw sw = Inr xs \<Longrightarrow> scores_inputs inputs xs"
proof -
  assume a: "rrf_fusion inputs k dw sw = Inr xs"
  then have xs: "xs = normalize_fused_scores (map (\<lambda>x. (x, rrf_raw k dw sw x)) inputs)"
    by (simp add: rrf_fusion_def split: if_splits)
  have "subseq (map fst xs) inputs"
    by (simp add: xs normalize_fused_scores_def Let_def case_prod_beta comp_def filter_map)
  then show ?thesis by (simp add: scores_inputs_def xs normalize_fused_unit)
qed

lemma map_fst_shifted: "map fst (normalize_shifted_scores raw) = map fst raw"
  by (simp add: normalize_shifted_scores_def Let_def case_prod_beta comp_def)

lemma weighted_fusion_scores: "scores_inputs inputs (weighted_fusion inputs dw sw)"
proof -
  have "subseq (map fst (weighted_fusion inputs dw sw)) inputs"
    by (simp add: weighted_fusion_def Let_def map_fst_shifted comp_def)
  moreover have "unit_scores (weighted_fusion inputs dw sw)"
    using normalize_shifted_unit by (simp add: weighted_fusion_def Let_def unit_scores_def)
  ultimately show ?thesis by (simp add: scores_inputs_def)
qed

lemma scored_ids:
  assumes "scores_inputs (dedupe_candidates dense sparse) xs"
  shows "distinct (map (\<lambda>p. fi_id (fst p)) xs)"
    and "p \<in> set xs \<Longrightarrow> fst p \<in> set (dedupe_candidates dense sparse)"
proof -
  have sub: "subseq (map fst xs) (dedupe_candidates dense sparse)" using assms by (simp add: scores_inputs_def)
  have "subseq (map fi_id (map fst xs)) (map fi_id (dedupe_candidates dense sparse))"
    using sub by (rule subseq_map)
  from subseq_distinct[OF this dedupe_distinct] show "distinct (map (\<lambda>p. fi_id (fst p)) xs)"
    by (simp add: comp_def)
  show "p \<in> set xs \<Longrightarrow> fst p \<in> set (dedupe_candidates dense sparse)"
    using subseq_memD[OF sub, of "fst p"] by simp
qed

subsection \<open>Properties of the ranking\<close>

lemma fuse_InrD:
  assumes "fuse_candidates dense sparse m limit k dw sw = Inr out" "out \<noteq> []"
  obtains xs where "scores_inputs (dedupe_candidates dense sparse) xs" "1 \<le> limit"
    "out = map (fused_candidate m) (enum_from 1 (fused_ranking xs (nat limit)))"
    "m = RRF \<Longrightarrow> rrf_fusion (dedupe_candidates dense sparse) k dw sw = Inr xs"
  using assms rrf_fusion_scores[of "dedupe_candidates dense sparse" k dw sw]
    weighted_fusion_scores[of "dedupe_candidates dense sparse" dw sw]
  by (auto simp: fuse_candidates_def Let_def split: if_splits sum.splits fusion_method.splits)

lemma map_fused_candidate:
  "map cand_id (map (fused_candidate m) (enum_from n ys)) = map (\<lambda>p. Some (fi_id (fst p))) ys"
  "map cand_order (map (fused_candidate m) (enum_from n ys)) = [n..<n + length ys]"
  "map cand_score (map (fused_candidate m) (enum_from n ys)) = map (\<lambda>p. Fin (py_round 6 (snd p))) ys"
proof -
  have f: "cand_id (fused_candidate m q) = Some (fi_id (fst (snd q)))" "cand_order (fused_candidate m q) = fst q"
    "cand_score (fused_candidate m q) = Fin (py_round 6 (snd (snd q)))" for q
    by (simp_all add: fused_candidate_def split: prod.split)
  have s: "map snd (enum_from n ys) = ys" "map fst (enum_from n ys) = [n..<n + length ys]" by simp_all
  show "map cand_id (map (fused_candidate m) (enum_from n ys)) = map (\<lambda>p. Some (fi_id (fst p))) ys"
    "map cand_order (map (fused_candidate m) (enum_from n ys)) = [n..<n + length ys]"
    "map cand_score (map (fused_candidate m) (enum_from n ys)) = map (\<lambda>p. Fin (py_round 6 (snd p))) ys"
    unfolding map_map comp_def f using s by (metis (no_types, lifting) comp_apply list.map_comp map_eq_conv)+
qed

lemma sorted_fused_scores:
  "sorted_wrt (\<lambda>p q. snd q \<le> snd p) (fused_ranking xs n)"
proof -
  have "sorted (map fusion_key (sort_key fusion_key xs))" by simp
  then have "sorted_wrt (\<lambda>p q. fusion_key p \<le> fusion_key q) (sort_key fusion_key xs)"
    by (simp add: sorted_map)
  then have "sorted_wrt (\<lambda>p q. snd q \<le> snd p) (sort_key fusion_key xs)"
    by (rule sorted_wrt_mono_rel[rotated]) (auto simp: fusion_key_def less_eq_prod_def split: prod.splits)
  then show ?thesis unfolding fused_ranking_def by (rule sorted_wrt_take)
qed

lemma fused_head:
  assumes "unit_scores xs" "fused_ranking xs n \<noteq> []"
  shows "snd (hd (fused_ranking xs n)) = 1"
proof -
  let ?s = "sort_key fusion_key xs"
  from assms obtain p where p: "p \<in> set ?s" "snd p = 1"
    by (auto simp: unit_scores_def fused_ranking_def)
  have "sorted_wrt (\<lambda>p q. snd q \<le> snd p) ?s"
    using sorted_fused_scores[of xs "length xs"] by (simp add: fused_ranking_def)
  then have "1 \<le> snd (hd ?s)" using p by (cases ?s) auto
  moreover have "hd ?s \<in> set xs" using p(1) by (metis empty_iff empty_set hd_in_set set_sort)
  then have "snd (hd ?s) \<le> 1" using assms(1) by (auto simp: unit_scores_def)
  moreover have "hd (fused_ranking xs n) = hd ?s"
    using assms(2) by (cases n; cases ?s) (auto simp: fused_ranking_def)
  ultimately show ?thesis by simp
qed

text \<open>
  Whatever the two lists hold and whichever method is configured, the fused ranking
  returns at most the requested number of candidates, numbered from one, each a chunk of one
  of the lists and none twice; the scores lie between 0 and 1, never increase down the ranking,
  and the first one is 1.
\<close>

theorem fused_ranking_is_well_formed:
  assumes "fuse_candidates dense sparse m limit k dw sw = Inr out"
  shows "length out \<le> nat limit \<and> map cand_order out = [1..<1 + length out] \<and> distinct (map cand_id out) \<and>
    (\<forall>c\<in>set out. cand_id c \<noteq> None \<and> cand_id c \<in> cand_id ` (set dense \<union> set sparse)) \<and>
    (\<exists>scores. map cand_score out = map Fin scores \<and> (\<forall>s\<in>set scores. 0 \<le> s \<and> s \<le> 1) \<and>
       sorted (rev scores) \<and> (out \<noteq> [] \<longrightarrow> hd scores = 1))"
proof (cases "out = []")
  case False
  then obtain xs where xs: "scores_inputs (dedupe_candidates dense sparse) xs"
    and out: "out = map (fused_candidate m) (enum_from 1 (fused_ranking xs (nat limit)))"
    using fuse_InrD[OF assms] by metis
  let ?r = "fused_ranking xs (nat limit)"
  have set_r: "p \<in> set ?r \<Longrightarrow> p \<in> set xs" for p by (auto simp: fused_ranking_def dest: in_set_takeD)
  have unit: "unit_scores xs" using xs by (simp add: scores_inputs_def)
  note maps = map_fused_candidate[of m 1 ?r, folded out]
  have "distinct (map (\<lambda>p. fi_id (fst p)) (sort_key fusion_key xs))"
    using scored_ids(1)[OF xs] mset_eq_imp_distinct_iff[of "map (\<lambda>p. fi_id (fst p)) (sort_key fusion_key xs)"
      "map (\<lambda>p. fi_id (fst p)) xs"] by simp
  then have "distinct (map (\<lambda>p. fi_id (fst p)) ?r)"
    by (simp add: fused_ranking_def take_map[symmetric])
  then have dist: "distinct (map cand_id out)"
    unfolding maps(1) by (simp add: distinct_map inj_on_def)
  have ids: "cand_id c \<noteq> None \<and> cand_id c \<in> cand_id ` (set dense \<union> set sparse)" if "c \<in> set out" for c
  proof -
    have "cand_id c \<in> set (map cand_id out)" using that by simp
    then obtain p where p: "p \<in> set ?r" "cand_id c = Some (fi_id (fst p))" unfolding maps(1) by auto
    then have "fi_id (fst p) \<in> cand_ids dense \<union> cand_ids sparse"
      using scored_ids(2)[OF xs set_r[OF p(1)]] dedupe_ids_set[of dense sparse] by (metis image_eqI)
    then show ?thesis using p(2) by (auto simp: cand_ids_def image_iff)
  qed
  let ?scores = "map (\<lambda>p. py_round 6 (snd p)) ?r"
  have "sorted (rev ?scores)"
    using sorted_fused_scores[of xs "nat limit"]
    by (simp add: sorted_wrt_rev sorted_wrt_map) (erule sorted_wrt_mono_rel[rotated], simp add: py_round_mono)
  moreover have "\<forall>s\<in>set ?scores. 0 \<le> s \<and> s \<le> 1"
  proof
    fix s assume "s \<in> set ?scores"
    then obtain p where p: "p \<in> set ?r" "s = py_round 6 (snd p)" by auto
    have "0 \<le> snd p \<and> snd p \<le> 1" using unit set_r[OF p(1)] by (auto simp: unit_scores_def)
    then show "0 \<le> s \<and> s \<le> 1" using py_round_unit[of "snd p" 6] p(2) by simp
  qed
  moreover have "hd ?scores = 1"
  proof -
    have "?r \<noteq> []" using False out by (metis enum_from_Nil list.simps(8))
    with fused_head[OF unit this] show ?thesis by (simp add: hd_map)
  qed
  moreover have "map cand_score out = map Fin ?scores" unfolding maps(3) by simp
  moreover have "length out \<le> nat limit" by (simp add: out fused_ranking_def)
  moreover have "map cand_order out = [1..<1 + length out]" using maps(2) by (simp add: out)
  ultimately show ?thesis using dist ids by blast
qed (auto intro: exI[of _ "[]"])

definition ex_cands :: "(int \<times> rat) list \<Rightarrow> candidate list" where
  "ex_cands xs = map (\<lambda>(i, s). \<lparr>cand_id = Some i, cand_score = Fin s, cand_order = 0, cand_payload = []\<rparr>) xs"

lemma ex_fuse: "case fuse_candidates (ex_cands [(1, 9/10), (2, 1/2)]) (ex_cands [(2, 7), (3, 5)]) RRF 2 60 (1/2) (1/2) of
    Inr out \<Rightarrow> map cand_id out = [Some 2, Some 1] | Inl _ \<Rightarrow> False"
  by code_simp

theorem fused_ranking_is_well_formed_witness:
  "\<exists>out. fuse_candidates (ex_cands [(1, 9/10), (2, 1/2)]) (ex_cands [(2, 7), (3, 5)]) RRF 2 60 (1/2) (1/2) = Inr out \<and>
     length out \<le> 2 \<and> distinct (map cand_id out)"
proof -
  obtain out where o: "fuse_candidates (ex_cands [(1, 9/10), (2, 1/2)]) (ex_cands [(2, 7), (3, 5)]) RRF 2 60 (1/2) (1/2) = Inr out"
    using ex_fuse by (auto split: sum.splits)
  from fused_ranking_is_well_formed[OF o] show ?thesis using o by auto
qed

text \<open>A rank that is at least as good as another; an absent rank is the worst.\<close>

definition rank_better :: "nat option \<Rightarrow> nat option \<Rightarrow> bool" where
  "rank_better a b = (case b of None \<Rightarrow> True | Some r \<Rightarrow> (case a of None \<Rightarrow> False | Some q \<Rightarrow> q \<le> r))"

lemma first_rank_ge: "first_rank n cs i = Some r \<Longrightarrow> n \<le> r"
  by (induction n cs i rule: first_rank.induct) (auto split: if_splits)

lemma first_rank_inj: "first_rank n cs i = Some r \<Longrightarrow> first_rank n cs j = Some r \<Longrightarrow> i = j"
proof (induction n cs i rule: first_rank.induct)
  case (2 n c cs i)
  then show ?case using first_rank_ge[of "Suc n" cs] by (fastforce split: if_splits)
qed simp

lemma first_rank_None: "first_rank n cs i = None \<longleftrightarrow> i \<notin> cand_ids cs"
  by (induction n cs i rule: first_rank.induct) (auto simp: cand_ids_def)

lemma rank_better_mem:
  assumes "rank_better (first_rank n cs i) (first_rank n cs j)" "j \<in> cand_ids cs"
  shows "i \<in> cand_ids cs"
proof -
  have "first_rank n cs j \<noteq> None" using assms(2) by (simp add: first_rank_None)
  then have "first_rank n cs i \<noteq> None" using assms(1) by (auto simp: rank_better_def split: option.splits)
  then show ?thesis by (simp add: first_rank_None)
qed

lemma rank_better_key: "rank_better a b \<Longrightarrow> rank_key a \<le> rank_key b"
  by (auto simp: rank_better_def rank_key_def split: option.splits)

lemma rrf_term_mono:
  assumes "rank_better a b" "0 \<le> w" "0 < k"
  shows "rrf_term k w b \<le> rrf_term k w a"
  using assms
  by (auto simp: rank_better_def rrf_term_def split: option.splits intro!: divide_left_mono mult_pos_pos)

lemma normalize_fused_mem:
  assumes "(x, s) \<in> set (normalize_fused_scores (map (\<lambda>x. (x, f x)) inputs))" "y \<in> set inputs" "f x \<le> f y"
  shows "\<exists>t. (y, t) \<in> set (normalize_fused_scores (map (\<lambda>x. (x, f x)) inputs)) \<and> s \<le> t"
proof -
  define m where "m = max_list (map f inputs)"
  have m: "map snd (map (\<lambda>x. (x, f x)) inputs) = map f inputs" by simp
  have *: "0 < m" "0 < f x" "s = min 1 (max 0 (f x / m))"
    using assms(1) by (auto simp: normalize_fused_scores_def Let_def m m_def comp_def split: if_splits)
  then have "(y, min 1 (max 0 (f y / m))) \<in> set (normalize_fused_scores (map (\<lambda>x. (x, f x)) inputs))"
    using assms(2,3) by (auto simp: normalize_fused_scores_def Let_def m m_def[symmetric] comp_def image_iff)
  moreover have "f x / m \<le> f y / m" using *(1) assms(3) by (simp add: divide_right_mono)
  then have "s \<le> min 1 (max 0 (f y / m))" unfolding *(3) by auto
  ultimately show ?thesis by blast
qed

lemma better_key:
  assumes "rank_better (fi_dense_rank y) (fi_dense_rank x)" "rank_better (fi_sparse_rank y) (fi_sparse_rank x)"
    and "s \<le> t" "fi_dense_rank y = fi_dense_rank x \<Longrightarrow> fi_sparse_rank y \<noteq> fi_sparse_rank x"
  shows "fusion_key (y, t) < fusion_key (x, s)"
proof -
  have inj: "rank_key a = rank_key b \<Longrightarrow> a = b" for a b by (auto simp: rank_key_def split: option.splits)
  have d: "rank_key (fi_dense_rank y) \<le> rank_key (fi_dense_rank x)"
    "rank_key (fi_sparse_rank y) \<le> rank_key (fi_sparse_rank x)"
    using assms(1,2) by (simp_all add: rank_better_key)
  consider "s < t" | "s = t" "rank_key (fi_dense_rank y) < rank_key (fi_dense_rank x)"
    | "s = t" "rank_key (fi_dense_rank y) = rank_key (fi_dense_rank x)"
      "rank_key (fi_sparse_rank y) < rank_key (fi_sparse_rank x)"
    using assms(3,4) d inj by (metis order_le_imp_less_or_eq)
  then show ?thesis
  proof cases
    case 1 then show ?thesis by (simp add: fusion_key_def less_prod_def')
  next
    case 2
    then show ?thesis unfolding fusion_key_def prod.case less_prod_def' fst_conv snd_conv by blast
  next
    case 3
    then show ?thesis unfolding fusion_key_def prod.case less_prod_def' fst_conv snd_conv by blast
  qed
qed

text \<open>
  C34: Reciprocal rank fusion respects dominance: a chunk that is ranked at least as well as
  another one in both lists, where being absent is the worst rank, is never left out or placed
  behind it: whenever the other chunk is returned, it is returned before it.
\<close>

theorem rrf_respects_dominance:
  assumes "fuse_candidates dense sparse RRF limit k dw sw = Inr out" "0 < k" "0 \<le> dw" "0 \<le> sw"
    and "rank_better (first_rank 1 dense i) (first_rank 1 dense j)"
    and "rank_better (first_rank 1 sparse i) (first_rank 1 sparse j)" "i \<noteq> j"
    and "b < length out" "cand_id (out ! b) = Some j"
  shows "\<exists>a<b. cand_id (out ! a) = Some i"
proof -
  let ?in = "dedupe_candidates dense sparse"
  have "out \<noteq> []" using assms(8) by auto
  then obtain xs where xs: "scores_inputs ?in xs"
    and out: "out = map (fused_candidate RRF) (enum_from 1 (fused_ranking xs (nat limit)))"
    and rrf: "rrf_fusion ?in k dw sw = Inr xs"
    using fuse_InrD[OF assms(1)] by metis
  have norm: "xs = normalize_fused_scores (map (\<lambda>x. (x, rrf_raw k dw sw x)) ?in)"
    using rrf by (simp add: rrf_fusion_def split: if_splits)
  define L where "L = sort_key fusion_key xs"
  have lens: "b < length (fused_ranking xs (nat limit))" using assms(8) by (simp add: out)
  then have bL: "b < length L" "fused_ranking xs (nat limit) ! b = L ! b"
    by (simp_all add: fused_ranking_def L_def)
  have id_at: "a \<le> b \<Longrightarrow> cand_id (out ! a) = Some (fi_id (fst (L ! a)))" for a
    using lens bL by (simp add: out nth_enum_from fused_candidate_def fused_ranking_def L_def[symmetric] split: prod.split)
  obtain x s where x: "L ! b = (x, s)" by fastforce
  have xj: "fi_id x = j" using id_at[of b] assms(9) x by simp
  have x_xs: "(x, s) \<in> set xs" using nth_mem[OF bL(1)] x by (simp add: L_def)
  have x_in: "x \<in> set ?in" using scored_ids(2)[OF xs x_xs] by simp
  note xr = dedupe_ranks[OF x_in, unfolded xj]
  have j_mem: "j \<in> cand_ids dense \<union> cand_ids sparse" using x_in xj dedupe_ids_set by blast
  then have "i \<in> cand_ids dense \<union> cand_ids sparse"
    using rank_better_mem[OF assms(5)] rank_better_mem[OF assms(6)] by blast
  then have "i \<in> fi_id ` set ?in" by (simp only: dedupe_ids_set)
  then obtain y where y_in: "y \<in> set ?in" and yi: "fi_id y = i" by auto
  note yr = dedupe_ranks[OF y_in, unfolded yi]
  have better: "rank_better (fi_dense_rank y) (fi_dense_rank x)" "rank_better (fi_sparse_rank y) (fi_sparse_rank x)"
    using assms(5,6) by (simp_all add: xr yr)
  have "rrf_raw k dw sw x \<le> rrf_raw k dw sw y"
    unfolding rrf_raw_def using better assms(2-4) by (intro add_mono rrf_term_mono) simp_all
  from normalize_fused_mem[OF x_xs[unfolded norm] y_in this]
  obtain t where t: "(y, t) \<in> set xs" "s \<le> t" unfolding norm by blast
  have "fi_dense_rank y = fi_dense_rank x \<Longrightarrow> fi_sparse_rank y \<noteq> fi_sparse_rank x"
    unfolding xr yr using j_mem assms(7) first_rank_inj first_rank_None[of 1 dense j] first_rank_None[of 1 sparse j]
    by (metis Un_iff not_Some_eq)
  then have key: "fusion_key (y, t) < fusion_key (x, s)" using better t(2) by (intro better_key)
  have split: "L = take b L @ (x, s) # drop (Suc b) L" using bL(1) x by (metis id_take_nth_drop)
  have "sorted (map fusion_key L)" "(y, t) \<in> set L" using t(1) by (simp_all add: L_def)
  then have "(y, t) \<in> set (take b L)"
    using sorted_before[of fusion_key "take b L" "(x, s)" "drop (Suc b) L" "(y, t)"] key split by simp
  then obtain a where "a < b" "a < length L" "L ! a = (y, t)" by (auto simp: in_set_conv_nth)
  then show ?thesis using id_at[of a] yi by auto
qed

lemma ex_fuse_all: "case fuse_candidates (ex_cands [(1, 9/10), (2, 1/2)]) (ex_cands [(2, 7), (3, 5)]) RRF 3 60 (1/2) (1/2) of
    Inr out \<Rightarrow> map cand_id out = [Some 2, Some 1, Some 3] | Inl _ \<Rightarrow> False"
  by code_simp

lemma ex_dominates:
  "rank_better (first_rank 1 (ex_cands [(1, 9/10), (2, 1/2)]) 2) (first_rank 1 (ex_cands [(1, 9/10), (2, 1/2)]) 3)"
  "rank_better (first_rank 1 (ex_cands [(2, 7), (3, 5)]) 2) (first_rank 1 (ex_cands [(2, 7), (3, 5)]) 3)"
  by code_simp+

theorem rrf_respects_dominance_witness:
  "\<exists>out. fuse_candidates (ex_cands [(1, 9/10), (2, 1/2)]) (ex_cands [(2, 7), (3, 5)]) RRF 3 60 (1/2) (1/2) = Inr out \<and>
     (\<exists>a<2. cand_id (out ! a) = Some 2)"
proof -
  obtain out where o: "fuse_candidates (ex_cands [(1, 9/10), (2, 1/2)]) (ex_cands [(2, 7), (3, 5)]) RRF 3 60 (1/2) (1/2) = Inr out"
    and ids: "map cand_id out = [Some 2, Some 1, Some 3]" using ex_fuse_all by (auto split: sum.splits)
  then have "length out = 3" "cand_id (out ! 2) = Some 3"
    by (auto simp: map_eq_Cons_conv)
  with rrf_respects_dominance[OF o _ _ _ ex_dominates] o show ?thesis by auto
qed

end
