(* ===== verification/Citations.thy ===== *)
theory Citations
  imports Py_Prelude
begin

section \<open>Citation markers of a generated answer\<close>

text \<open>
  \<open>backend/app/rag/citations.py\<close>: the answer text is normalized line by line, its markers
  \<open>[n]\<close> are found with their positions, and the markers are resolved against the sources
  the prompt offered. The regular expression of the marker, an opening bracket, one or more
  digits and a closing bracket, matches deterministically, so the left-to-right scan below is
  \<open>finditer\<close>. The detail code of a \<open>CitationBuildError\<close> is the left value.
\<close>

datatype citation_error = ParseInvalid | MarkerMissing | IndexOutOfRange | SourceUnmapped | SourceMissing

record citation_source =
  src_local_id :: int
  src_run_item_id :: int
  src_chunk_id :: int
  src_label :: string
  src_snippet :: string
  src_page_from :: "int option"
  src_page_to :: "int option"
  src_section_title :: "string option"
  src_type :: string
  src_url :: "string option"

record citation_marker =
  mk_id :: int
  mk_start :: nat
  mk_end :: nat

record parsed_output =
  po_text :: string
  po_markers :: "citation_marker list"
  po_unique :: "int list"

subsection \<open>Normalization and the scan for markers\<close>

definition normalize_line :: "string \<Rightarrow> string" where
  "normalize_line line = py_join '' '' (py_split line)"

definition normalize_answer_text :: "string \<Rightarrow> string" where
  "normalize_answer_text content =
     py_join newline (filter (\<lambda>l. l \<noteq> [])
       (map normalize_line (py_splitlines (replace_char nul_char CHR '' '' content))))"

text \<open>The digits of a marker at the start of a text, if there is one.\<close>

definition marker_here :: "string \<Rightarrow> string option" where
  "marker_here s = (case s of [] \<Rightarrow> None
     | c # cs \<Rightarrow>
        (let ds = takeWhile py_isdigit cs; rest = dropWhile py_isdigit cs in
         if c = CHR ''['' \<and> ds \<noteq> [] \<and> rest \<noteq> [] \<and> hd rest = CHR '']'' then Some ds else None))"

function scan_markers :: "nat \<Rightarrow> string \<Rightarrow> (string \<times> nat \<times> nat) list" where
  "scan_markers pos [] = []"
| "scan_markers pos (c # cs) = (case marker_here (c # cs) of
     None \<Rightarrow> scan_markers (pos + 1) cs
   | Some ds \<Rightarrow> (ds, pos, pos + length ds + 2) #
       scan_markers (pos + length ds + 2) (drop (length ds + 1) cs))"
  by pat_completeness auto
termination by (relation "measure (\<lambda>(pos, s). length s)") auto

function remove_markers :: "string \<Rightarrow> string" where
  "remove_markers [] = []"
| "remove_markers (c # cs) = (case marker_here (c # cs) of
     None \<Rightarrow> c # remove_markers cs
   | Some ds \<Rightarrow> remove_markers (drop (length ds + 1) cs))"
  by pat_completeness auto
termination by (relation "measure length") auto

definition MAX_MARKER_DIGITS :: nat where
  "MAX_MARKER_DIGITS = 6"

definition marker_of :: "string \<times> nat \<times> nat \<Rightarrow> citation_marker" where
  "marker_of m = (case m of (ds, s, e) \<Rightarrow> \<lparr>mk_id = int (digits_val ds), mk_start = s, mk_end = e\<rparr>)"

definition unique_in_order :: "int list \<Rightarrow> int list" where
  "unique_in_order xs = uniq_first xs"

definition parse_generation_output :: "string \<Rightarrow> citation_error + parsed_output" where
  "parse_generation_output content =
     (let text = normalize_answer_text content; found = scan_markers 0 text in
      if list_ex (\<lambda>(ds, s, e). MAX_MARKER_DIGITS < length ds) found then Inl ParseInvalid
      else (let markers = map marker_of found in
        Inr \<lparr>po_text = text, po_markers = markers, po_unique = unique_in_order (map mk_id markers)\<rparr>))"

subsection \<open>Resolution against the sources\<close>

fun source_table :: "(int \<times> citation_source) list \<Rightarrow> citation_source list \<Rightarrow>
    citation_error + (int \<times> citation_source) list" where
  "source_table t [] = Inr t"
| "source_table t (s # ss) =
     (if src_local_id s < 1 then Inl SourceUnmapped
      else if map_of t (src_local_id s) \<noteq> None then Inl SourceUnmapped
      else source_table (t @ [(src_local_id s, s)]) ss)"

definition max_key :: "(int \<times> citation_source) list \<Rightarrow> int" where
  "max_key t = foldl max (fst (hd t)) (map fst (tl t))"

definition validate_generation_citations :: "parsed_output \<Rightarrow> citation_source list \<Rightarrow>
    citation_error + citation_source list" where
  "validate_generation_citations parsed source_map =
     (if po_markers parsed = [] then Inl MarkerMissing
      else if py_strip (remove_markers (po_text parsed)) = [] then Inl ParseInvalid
      else if list_ex (\<lambda>i. i < 1) (po_unique parsed) then Inl IndexOutOfRange
      else (case source_table [] source_map of
        Inl e \<Rightarrow> Inl e
      | Inr t \<Rightarrow>
          if t = [] then Inl SourceMissing
          else if list_ex (\<lambda>i. max_key t < i) (po_unique parsed) then Inl IndexOutOfRange
          else if list_ex (\<lambda>i. map_of t i = None) (po_unique parsed) then Inl SourceUnmapped
          else Inr (map (\<lambda>i. the (map_of t i)) (po_unique parsed))))"

subsection \<open>The scan finds exactly the markers\<close>

text \<open>A marker at a position of a text.\<close>

definition marker_at :: "string \<Rightarrow> nat \<Rightarrow> string \<Rightarrow> bool" where
  "marker_at text i ds = (ds \<noteq> [] \<and> list_all py_isdigit ds \<and> prefix (''['' @ ds @ '']'') (drop i text))"

lemma bracket_not_digit [simp]: "\<not> py_isdigit CHR '']''" "\<not> py_isdigit CHR ''[''"
  by code_simp+

lemma takeWhile_marker: "list_all py_isdigit ds \<Longrightarrow> takeWhile py_isdigit (ds @ CHR '']'' # r) = ds"
  by (induction ds) auto

lemma dropWhile_marker: "list_all py_isdigit ds \<Longrightarrow> dropWhile py_isdigit (ds @ CHR '']'' # r) = CHR '']'' # r"
  by (induction ds) auto

lemma marker_here_iff: "marker_here s = Some ds \<longleftrightarrow> marker_at s 0 ds"
proof
  assume "marker_here s = Some ds"
  then obtain cs where s: "s = CHR ''['' # cs" and ds: "ds = takeWhile py_isdigit cs" "ds \<noteq> []"
    and rest: "dropWhile py_isdigit cs \<noteq> []" "hd (dropWhile py_isdigit cs) = CHR '']''"
    by (auto simp: marker_here_def Let_def split: list.splits if_splits)
  have "cs = ds @ CHR '']'' # tl (dropWhile py_isdigit cs)"
    using rest takeWhile_dropWhile_id[of py_isdigit cs] ds(1) by (metis list.collapse)
  then show "marker_at s 0 ds"
    using ds by (auto simp: marker_at_def s prefix_def list_all_iff dest: set_takeWhileD)
next
  assume "marker_at s 0 ds"
  then obtain r where "s = CHR ''['' # ds @ CHR '']'' # r" "ds \<noteq> []" "list_all py_isdigit ds"
    by (auto simp: marker_at_def prefix_def)
  then show "marker_here s = Some ds"
    by (simp add: marker_here_def takeWhile_marker dropWhile_marker)
qed

lemma marker_at_drop: "marker_at s (i + n) ds = marker_at (drop n s) i ds"
  by (simp add: marker_at_def add.commute)

lemma marker_at_unique: "marker_at s i ds \<Longrightarrow> marker_at s i es \<Longrightarrow> ds = es"
  using marker_at_drop[of s 0 i] marker_here_iff[of "drop i s"] by (metis add_0 option.inject)

text \<open>No marker starts inside another one: between the brackets there are only digits.\<close>

lemma marker_no_overlap:
  assumes "marker_at s 0 ds" "0 < i" "i < length ds + 2" shows "\<not> marker_at s i es"
proof
  assume e: "marker_at s i es"
  obtain r where s: "s = ''['' @ ds @ '']'' @ r" using assms(1) by (auto simp: marker_at_def prefix_def)
  have "s ! i = CHR ''[''" using e by (auto simp: marker_at_def prefix_def intro: nth_via_drop)
  moreover have "s ! i = (ds @ CHR '']'' # r) ! (i - 1)" using assms(2) by (simp add: s nth_Cons')
  moreover have "(ds @ CHR '']'' # r) ! (i - 1) \<noteq> CHR ''[''"
  proof (cases "i - 1 < length ds")
    case True
    then have "ds ! (i - 1) \<in> set ds" by simp
    then have "py_isdigit (ds ! (i - 1))" using assms(1) by (simp add: marker_at_def list_all_iff)
    then show ?thesis using True bracket_not_digit(2) by (auto simp: nth_append)
  next
    case False
    then have "i - 1 = length ds" using assms(2,3) by simp
    then show ?thesis by simp
  qed
  ultimately show False by simp
qed

text \<open>
  The scan returns the markers of the text: every reported triple is a marker at its position,
  every marker is reported, and the positions increase without overlap.
\<close>

lemma scan_sound:
  "(ds, a, b) \<in> set (scan_markers pos s) \<Longrightarrow>
   pos \<le> a \<and> b = a + length ds + 2 \<and> b \<le> pos + length s \<and> marker_at s (a - pos) ds"
proof (induction pos s rule: scan_markers.induct)
  case (2 pos c cs)
  show ?case
  proof (cases "marker_here (c # cs)")
    case None
    with 2 have IH: "pos + 1 \<le> a" "b = a + length ds + 2" "b \<le> pos + 1 + length cs" "marker_at cs (a - (pos + 1)) ds"
      by auto
    have "marker_at (c # cs) (a - pos) ds"
      using marker_at_drop[of "c # cs" "a - (pos + 1)" 1 ds] IH by (simp add: Suc_diff_Suc less_eq_Suc_le)
    then show ?thesis using IH by simp
  next
    case (Some es)
    then have m: "marker_at (c # cs) 0 es" by (simp add: marker_here_iff)
    then have len: "length es + 2 \<le> length (c # cs)"
      by (auto simp: marker_at_def dest: prefix_length_le)
    show ?thesis
    proof (cases "(ds, a, b) = (es, pos, pos + length es + 2)")
      case True
      then show ?thesis using m len by simp
    next
      case False
      with "2.prems" Some have "(ds, a, b) \<in> set (scan_markers (pos + length es + 2) (drop (length es + 1) cs))" by auto
      from "2.IH"(2)[OF Some this] have IH: "pos + length es + 2 \<le> a" "b = a + length ds + 2"
        "b \<le> pos + length es + 2 + length (drop (length es + 1) cs)"
        "marker_at (drop (length es + 1) cs) (a - (pos + length es + 2)) ds" by auto
      have "a - pos = (a - (pos + length es + 2)) + (length es + 2)" using IH(1) by simp
      then have "marker_at (c # cs) (a - pos) ds"
        using marker_at_drop[of "c # cs" "a - (pos + length es + 2)" "length es + 2" ds] IH(4) by simp
      then show ?thesis using IH len by simp
    qed
  qed
qed simp

lemma scan_complete:
  "marker_at s i ds \<Longrightarrow> (ds, pos + i, pos + i + length ds + 2) \<in> set (scan_markers pos s)"
proof (induction pos s arbitrary: i rule: scan_markers.induct)
  case (1 pos)
  then show ?case by (simp add: marker_at_def)
next
  case (2 pos c cs)
  show ?case
  proof (cases "marker_here (c # cs)")
    case None
    then have "i \<noteq> 0" using "2.prems" marker_here_iff[of "c # cs" ds] by (metis option.distinct(1))
    then obtain j where j: "i = j + 1" by (metis Suc_eq_plus1 not0_implies_Suc)
    then have "marker_at cs j ds" using "2.prems" marker_at_drop[of "c # cs" j 1 ds] by simp
    from "2.IH"(1)[OF None this] show ?thesis using None j by simp
  next
    case (Some es)
    then have m: "marker_at (c # cs) 0 es" by (simp add: marker_here_iff)
    show ?thesis
    proof (cases "i = 0")
      case True
      then have "ds = es" using "2.prems" m marker_at_unique by blast
      then show ?thesis using True Some by simp
    next
      case False
      have "\<not> i < length es + 2" using marker_no_overlap[OF m, of i ds] False "2.prems" by auto
      then obtain j where j: "i = j + (length es + 2)" by (metis add.commute le_add_diff_inverse not_less)
      then have "marker_at (drop (length es + 1) cs) j ds"
        using "2.prems" marker_at_drop[of "c # cs" j "length es + 2" ds] by simp
      from "2.IH"(2)[OF Some this] show ?thesis using Some j by (simp add: algebra_simps)
    qed
  qed
qed

lemma scan_ordered: "sorted_wrt (\<lambda>(ds, a, b) (es, c, d). b \<le> c) (scan_markers pos s)"
proof (induction pos s rule: scan_markers.induct)
  case (2 pos c cs)
  show ?case
  proof (cases "marker_here (c # cs)")
    case None
    then show ?thesis using "2.IH"(1) by simp
  next
    case (Some es)
    then show ?thesis using "2.IH"(2) scan_sound by fastforce
  qed
qed simp

text \<open>
  Parsing an answer finds its citation markers exactly: a successful parse reports every
  bracketed number of the normalized text with its value and its first and last position, in
  text order and without overlap, and nothing else, and lists each cited number once in order
  of first appearance; it fails only for a number of more than six digits.
\<close>

theorem parse_finds_exactly_the_markers:
  "(case parse_generation_output content of
     Inr p \<Rightarrow> po_text p = normalize_answer_text content \<and>
       (\<forall>i a b. \<lparr>mk_id = i, mk_start = a, mk_end = b\<rparr> \<in> set (po_markers p) \<longleftrightarrow>
          (\<exists>ds. marker_at (po_text p) a ds \<and> i = int (digits_val ds) \<and> b = a + length ds + 2)) \<and>
       sorted_wrt (\<lambda>m n. mk_end m \<le> mk_start n) (po_markers p) \<and>
       (\<forall>m\<in>set (po_markers p). mk_end m \<le> length (po_text p)) \<and>
       set (po_unique p) = mk_id ` set (po_markers p) \<and> distinct (po_unique p) \<and>
       subseq (po_unique p) (map mk_id (po_markers p))
   | Inl e \<Rightarrow> e = ParseInvalid \<and>
       (\<exists>i ds. marker_at (normalize_answer_text content) i ds \<and> 6 < length ds))"
proof -
  let ?t = "normalize_answer_text content"
  have mem: "(ds, a, b) \<in> set (scan_markers 0 ?t) \<longleftrightarrow> marker_at ?t a ds \<and> b = a + length ds + 2" for ds a b
    using scan_sound[of ds a b 0 ?t] scan_complete[of ?t a ds 0] by auto
  show ?thesis
  proof (cases "list_ex (\<lambda>(ds, s, e). MAX_MARKER_DIGITS < length ds) (scan_markers 0 ?t)")
    case True
    then obtain ds a b where "(ds, a, b) \<in> set (scan_markers 0 ?t)" "6 < length ds"
      by (auto simp: list_ex_iff MAX_MARKER_DIGITS_def)
    then have "\<exists>i ds. marker_at ?t i ds \<and> 6 < length ds" unfolding mem by blast
    then show ?thesis using True by (simp add: parse_generation_output_def Let_def)
  next
    case False
    define ms where "ms = map marker_of (scan_markers 0 ?t)"
    have "parse_generation_output content = Inr \<lparr>po_text = ?t, po_markers = ms, po_unique = uniq_first (map mk_id ms)\<rparr>"
      using False by (simp add: parse_generation_output_def Let_def unique_in_order_def ms_def)
    moreover have "sorted_wrt (\<lambda>m n. mk_end m \<le> mk_start n) ms"
      unfolding ms_def sorted_wrt_map using scan_ordered
      by (rule sorted_wrt_mono_rel[rotated]) (auto simp: marker_of_def)
    moreover have "\<lparr>mk_id = i, mk_start = a, mk_end = b\<rparr> \<in> set ms \<longleftrightarrow>
          (\<exists>ds. marker_at ?t a ds \<and> i = int (digits_val ds) \<and> b = a + length ds + 2)" for i a b
    proof -
      have "\<lparr>mk_id = i, mk_start = a, mk_end = b\<rparr> \<in> set ms \<longleftrightarrow>
          (\<exists>ds. (ds, a, b) \<in> set (scan_markers 0 ?t) \<and> i = int (digits_val ds))"
        unfolding ms_def set_map image_iff Bex_def split_paired_Ex by (auto simp: marker_of_def)
      then show ?thesis unfolding mem by blast
    qed
    moreover have "mk_end m \<le> length ?t" if "m \<in> set ms" for m
      using that scan_sound[of _ _ _ 0 ?t] by (fastforce simp: marker_of_def ms_def)
    ultimately show ?thesis using uniq_first_subseq[of "map mk_id ms"] by simp
  qed
qed

theorem parse_finds_exactly_the_markers_witness:
  "\<exists>p. parse_generation_output ''Yes [2] and [1][2].'' = Inr p \<and> po_unique p = [2, 1] \<and>
     (\<forall>m\<in>set (po_markers p). mk_end m \<le> length (po_text p))"
proof -
  have "case parse_generation_output ''Yes [2] and [1][2].'' of Inr p \<Rightarrow> po_unique p = [2, 1] | Inl _ \<Rightarrow> False"
    by code_simp
  then show ?thesis using parse_finds_exactly_the_markers[of "''Yes [2] and [1][2].''"]
    by (auto split: sum.splits)
qed

subsection \<open>What a validated answer cites\<close>

lemma source_table_InrD:
  "source_table t ss = Inr t' \<Longrightarrow> distinct (map fst t) \<Longrightarrow>
   t' = t @ map (\<lambda>s. (src_local_id s, s)) ss \<and> distinct (map fst t @ map src_local_id ss) \<and>
   (\<forall>s\<in>set ss. 1 \<le> src_local_id s)"
proof (induction t ss rule: source_table.induct)
  case (2 t s ss)
  have *: "\<not> src_local_id s < 1" "map_of t (src_local_id s) = None"
    "source_table (t @ [(src_local_id s, s)]) ss = Inr t'"
    using "2.prems"(1) by (simp_all split: if_splits)
  have "src_local_id s \<notin> set (map fst t)" using *(2) by (simp add: map_of_eq_None_iff)
  have "\<not> map_of t (src_local_id s) \<noteq> None" using *(2) by simp
  from "2.IH"[OF *(1) this *(3)] show ?case
    using *(1) "2.prems"(2) \<open>src_local_id s \<notin> set (map fst t)\<close>
    by simp
qed simp

lemma source_table_Inr:
  "distinct (map src_local_id ss) \<Longrightarrow> \<forall>s\<in>set ss. 1 \<le> src_local_id s \<and> src_local_id s \<notin> fst ` set t \<Longrightarrow>
   source_table t ss = Inr (t @ map (\<lambda>s. (src_local_id s, s)) ss)"
proof (induction t ss rule: source_table.induct)
  case (2 t s ss)
  then have "map_of t (src_local_id s) = None" by (simp add: map_of_eq_None_iff)
  moreover have "source_table (t @ [(src_local_id s, s)]) ss =
      Inr ((t @ [(src_local_id s, s)]) @ map (\<lambda>s. (src_local_id s, s)) ss)"
    using 2 calculation by (intro "2.IH") (auto simp: image_iff)
  ultimately show ?case using 2 by simp
qed simp

lemma source_table_Inl: "source_table t ss = Inl e \<Longrightarrow> e = SourceUnmapped"
  by (induction t ss rule: source_table.induct) (auto split: if_splits)

lemma max_key_ge: "p \<in> set t \<Longrightarrow> fst p \<le> max_key t"
  by (cases t) (auto simp: max_key_def foldl_max_Max)

definition sources_ok :: "citation_source list \<Rightarrow> bool" where
  "sources_ok ss = (distinct (map src_local_id ss) \<and> (\<forall>s\<in>set ss. 1 \<le> src_local_id s))"

text \<open>
  An answer passes citation validation exactly when it cites something, says something
  besides its markers, and every cited number is the number of an offered source, the sources
  being numbered distinctly from one. The result lists, in order of first citation, precisely
  the cited sources, each once; a citation of a source that was not offered never passes.
\<close>

theorem validated_answer_cites_offered_sources:
  "case validate_generation_citations p sources of
     Inr cited \<Rightarrow> po_markers p \<noteq> [] \<and> py_strip (remove_markers (po_text p)) \<noteq> [] \<and>
       sources_ok sources \<and> map src_local_id cited = po_unique p \<and> set cited \<subseteq> set sources
   | Inl e \<Rightarrow> po_markers p = [] \<or> py_strip (remove_markers (po_text p)) = [] \<or> sources = [] \<or>
       \<not> sources_ok sources \<or> \<not> set (po_unique p) \<subseteq> src_local_id ` set sources"
proof (cases "po_markers p = [] \<or> py_strip (remove_markers (po_text p)) = []")
  case True
  then show ?thesis by (auto simp: validate_generation_citations_def)
next
  case False
  let ?t = "map (\<lambda>s. (src_local_id s, s)) sources"
  have key: "fst ` set ?t = src_local_id ` set sources" by force
  show ?thesis
  proof (cases "source_table [] sources")
    case (Inl e)
    then have "\<not> sources_ok sources" using source_table_Inr[of sources "[]"] by (auto simp: sources_ok_def)
    then show ?thesis using False Inl by (simp add: validate_generation_citations_def)
  next
    case (Inr t)
    from source_table_InrD[OF this] have t: "t = ?t" "distinct (map fst ?t)" "\<forall>s\<in>set sources. 1 \<le> src_local_id s"
      by (simp_all add: comp_def)
    then have ok: "sources_ok sources" by (simp add: sources_ok_def comp_def)
    have in_t: "\<exists>s\<in>set sources. src_local_id s = i \<and> map_of ?t i = Some s" if i: "i \<in> src_local_id ` set sources" for i
    proof -
      obtain s where s: "s \<in> set sources" "src_local_id s = i" using i by auto
      then have "(i, s) \<in> set ?t" by auto
      then have "map_of ?t i = Some s" using t(2) by (intro map_of_is_SomeI)
      then show ?thesis using s by blast
    qed
    show ?thesis
    proof (cases "set (po_unique p) \<subseteq> src_local_id ` set sources \<and> sources \<noteq> []")
      case True
      have in_t: "\<exists>s\<in>set sources. src_local_id s = i \<and> map_of ?t i = Some s" if "i \<in> set (po_unique p)" for i
        using in_t[of i] True that by auto
      have "\<not> list_ex (\<lambda>i. i < 1) (po_unique p)"
        using True ok by (fastforce simp: list_ex_iff sources_ok_def)
      moreover have "\<not> list_ex (\<lambda>i. max_key ?t < i) (po_unique p)"
      proof -
        have "i \<le> max_key ?t" if "i \<in> set (po_unique p)" for i
        proof -
          obtain s where "map_of ?t i = Some s" using in_t \<open>i \<in> set (po_unique p)\<close> by blast
          from max_key_ge[OF map_of_SomeD[OF this]] show ?thesis by simp
        qed
        then show ?thesis by (fastforce simp: list_ex_iff)
      qed
      moreover have "\<not> list_ex (\<lambda>i. map_of ?t i = None) (po_unique p)"
        using in_t by (fastforce simp: list_ex_iff)
      ultimately have v: "validate_generation_citations p sources = Inr (map (\<lambda>i. the (map_of ?t i)) (po_unique p))"
        using False Inr True t(1) by (simp add: validate_generation_citations_def)
      have "map src_local_id (map (\<lambda>i. the (map_of ?t i)) (po_unique p)) = po_unique p"
        unfolding map_map using in_t by (intro map_idI) fastforce
      moreover have "set (map (\<lambda>i. the (map_of ?t i)) (po_unique p)) \<subseteq> set sources"
        using in_t by fastforce
      ultimately show ?thesis using False ok by (simp add: v)
    next
      case no: False
      have "\<exists>e. validate_generation_citations p sources = Inl e"
      proof (rule ccontr)
        assume "\<not> ?thesis"
        then have "sources \<noteq> []" "\<not> list_ex (\<lambda>i. map_of ?t i = None) (po_unique p)"
          using False Inr t(1) by (auto simp: validate_generation_citations_def split: if_splits)
        moreover from this(2) have "set (po_unique p) \<subseteq> fst ` set ?t"
          by (auto simp: list_ex_iff map_of_eq_None_iff)
        ultimately show False using no key by simp
      qed
      then show ?thesis using no by auto
    qed
  qed
qed

definition ex_source :: "int \<Rightarrow> citation_source" where
  "ex_source i = \<lparr>src_local_id = i, src_run_item_id = 1, src_chunk_id = 10 + i, src_label = ''s'', src_snippet = ''t'',
     src_page_from = None, src_page_to = None, src_section_title = None, src_type = ''upload'', src_url = None\<rparr>"

theorem validated_answer_cites_offered_sources_witness:
  "\<exists>p cited. parse_generation_output ''Yes [2].'' = Inr p \<and>
     validate_generation_citations p [ex_source 1, ex_source 2] = Inr cited \<and>
     map src_local_id cited = [2] \<and> set cited \<subseteq> {ex_source 1, ex_source 2}"
proof -
  have "case parse_generation_output ''Yes [2].'' of Inl _ \<Rightarrow> False
    | Inr p \<Rightarrow> po_unique p = [2] \<and> \<not> isl (validate_generation_citations p [ex_source 1, ex_source 2])"
    by code_simp
  then obtain p where p: "parse_generation_output ''Yes [2].'' = Inr p" "po_unique p = [2]"
    "\<not> isl (validate_generation_citations p [ex_source 1, ex_source 2])"
    by (auto split: sum.splits)
  then obtain cited where "validate_generation_citations p [ex_source 1, ex_source 2] = Inr cited"
    by (cases "validate_generation_citations p [ex_source 1, ex_source 2]") auto
  then show ?thesis using p validated_answer_cites_offered_sources[of p "[ex_source 1, ex_source 2]"] by auto
qed

end
