(* ===== verification/Confidence.thy ===== *)
theory Confidence
  imports Py_Prelude
begin

section \<open>Answer confidence\<close>

text \<open>
  \<open>backend/app/rag/confidence.py\<close> over the rationals: the weighted composite of the present
  retrieval signals, the cap by retrieval support and the label. A retrieval score that is
  absent is \<open>None\<close>.
\<close>

record conf_settings =
  conf_high :: rat
  conf_medium :: rat
  ground_high :: rat
  ground_medium :: rat

record conf_inputs =
  ci_retrieval :: "rat option"
  ci_rerank :: "rat option"
  ci_marker_count :: int
  ci_unique_citations :: int
  ci_selected :: int

datatype conf_label = High | Medium | Low

record conf_scores =
  cs_answer :: rat
  cs_grounded :: rat
  cs_label :: conf_label

record conf_component =
  cc_weight :: rat
  cc_value :: rat
  cc_present :: bool

definition MEDIUM_FLOOR :: rat where "MEDIUM_FLOOR = 30 / 100"
definition HIGH_FLOOR :: rat where "HIGH_FLOOR = 60 / 100"

definition safe_ratio :: "int \<Rightarrow> int \<Rightarrow> rat" where
  "safe_ratio n d = (if d \<le> 0 then 0 else clamp01 (of_int n / of_int d))"

definition required_citation_count :: "int \<Rightarrow> int \<Rightarrow> int" where
  "required_citation_count selected unique =
     (if selected \<le> 0 \<or> unique \<le> 0 then max 1 selected else min selected unique)"

definition context_strength :: "int \<Rightarrow> rat" where
  "context_strength selected = (if 0 < selected then 1 else 0)"

definition optional_score :: "rat option \<Rightarrow> rat" where
  "optional_score v = (case v of None \<Rightarrow> 0 | Some x \<Rightarrow> clamp01 x)"

definition present_scores :: "rat option list \<Rightarrow> rat list" where
  "present_scores scores = map optional_score (filter (\<lambda>s. s \<noteq> None) scores)"

definition retrieval_support_score :: "rat option list \<Rightarrow> rat" where
  "retrieval_support_score scores =
     (let present = present_scores scores in
      if present = [] then 0 else sum_list present / of_nat (length present))"

definition weighted_renormalized :: "conf_component list \<Rightarrow> rat" where
  "weighted_renormalized components =
     (let present = filter cc_present components;
          tw = sum_list (map cc_weight present)
      in if tw \<le> 0 then 0
         else sum_list (map (\<lambda>c. cc_weight c * cc_value c) present) / tw)"

definition below_threshold :: "rat \<Rightarrow> rat" where
  "below_threshold threshold = max 0 (min 1 threshold - 1 / 100)"

definition support_capped_confidence :: "conf_settings \<Rightarrow> rat \<Rightarrow> rat \<Rightarrow> rat" where
  "support_capped_confidence settings support answer =
     (if support < MEDIUM_FLOOR then min answer (below_threshold (conf_medium settings))
      else if support < HIGH_FLOOR then min answer (below_threshold (conf_high settings))
      else answer)"

definition confidence_label :: "conf_settings \<Rightarrow> rat \<Rightarrow> rat \<Rightarrow> rat \<Rightarrow> conf_label" where
  "confidence_label settings answer grounded support =
     (if conf_high settings \<le> answer \<and> ground_high settings \<le> grounded \<and> HIGH_FLOOR \<le> support then High
      else if conf_medium settings \<le> answer \<and> ground_medium settings \<le> grounded \<and> MEDIUM_FLOOR \<le> support
      then Medium else Low)"

definition groundedness :: "conf_inputs \<Rightarrow> rat" where
  "groundedness inp =
     (let selected = max 0 (ci_selected inp);
          coverage = safe_ratio (ci_unique_citations inp)
            (required_citation_count selected (ci_unique_citations inp));
          marker_presence = (if 0 < ci_marker_count inp then 1 else 0)
      in clamp01 (3 / 4 * coverage + 1 / 4 * marker_presence))"

definition conf_components :: "conf_inputs \<Rightarrow> conf_component list" where
  "conf_components inp =
     [\<lparr>cc_weight = 35 / 100, cc_value = optional_score (ci_retrieval inp), cc_present = (ci_retrieval inp \<noteq> None)\<rparr>,
      \<lparr>cc_weight = 35 / 100, cc_value = optional_score (ci_rerank inp), cc_present = (ci_rerank inp \<noteq> None)\<rparr>,
      \<lparr>cc_weight = 20 / 100, cc_value = groundedness inp, cc_present = True\<rparr>,
      \<lparr>cc_weight = 10 / 100, cc_value = context_strength (max 0 (ci_selected inp)), cc_present = True\<rparr>]"

definition calculate_confidence :: "conf_inputs \<Rightarrow> conf_settings \<Rightarrow> conf_scores" where
  "calculate_confidence inp settings =
     (let grounded = groundedness inp;
          support = retrieval_support_score [ci_retrieval inp, ci_rerank inp];
          answer = support_capped_confidence settings support
            (clamp01 (weighted_renormalized (conf_components inp)))
      in \<lparr>cs_answer = py_round 6 answer, cs_grounded = py_round 6 grounded,
          cs_label = confidence_label settings answer grounded support\<rparr>)"

definition has_high_retrieval_support :: "rat option \<Rightarrow> rat option \<Rightarrow> bool" where
  "has_high_retrieval_support retrieval rerank =
     (HIGH_FLOOR \<le> retrieval_support_score [retrieval, rerank])"

subsection \<open>Monotonicity\<close>

text \<open>The same signals are present and none is weaker.\<close>

definition signal_le :: "rat option \<Rightarrow> rat option \<Rightarrow> bool" where
  "signal_le a b = (case a of None \<Rightarrow> b = None | Some x \<Rightarrow> (case b of None \<Rightarrow> False | Some y \<Rightarrow> x \<le> y))"

fun label_rank :: "conf_label \<Rightarrow> nat" where
  "label_rank Low = 0" | "label_rank Medium = 1" | "label_rank High = 2"

lemma signal_leD: "signal_le a b \<Longrightarrow> (a = None) = (b = None) \<and> optional_score a \<le> optional_score b"
  by (auto simp: signal_le_def optional_score_def clamp01_mono split: option.splits)

lemma support_mono:
  assumes "signal_le a b" "signal_le c d"
  shows "retrieval_support_score [a, c] \<le> retrieval_support_score [b, d]"
  using signal_leD[OF assms(1)] signal_leD[OF assms(2)]
  by (auto simp: retrieval_support_score_def present_scores_def Let_def)

lemma weighted_mono:
  assumes "signal_le (ci_retrieval x) (ci_retrieval y)" "signal_le (ci_rerank x) (ci_rerank y)"
    and "groundedness x \<le> groundedness y" "ci_selected x = ci_selected y"
  shows "weighted_renormalized (conf_components x) \<le> weighted_renormalized (conf_components y)"
  using signal_leD[OF assms(1)] signal_leD[OF assms(2)] assms(3,4)
  by (auto simp: weighted_renormalized_def conf_components_def Let_def)

lemma capped_mono:
  assumes "s \<le> t" "a \<le> b" "conf_medium settings \<le> conf_high settings"
  shows "support_capped_confidence settings s a \<le> support_capped_confidence settings t b"
  using assms by (auto simp: support_capped_confidence_def below_threshold_def MEDIUM_FLOOR_def HIGH_FLOOR_def min_def max_def)

lemma label_mono:
  assumes "a \<le> b" "g \<le> h" "s \<le> t"
  shows "label_rank (confidence_label settings a g s) \<le> label_rank (confidence_label settings b h t)"
  using assms by (auto simp: confidence_label_def)

lemma groundedness_cong:
  "ci_marker_count x = ci_marker_count y \<Longrightarrow> ci_unique_citations x = ci_unique_citations y \<Longrightarrow>
   ci_selected x = ci_selected y \<Longrightarrow> groundedness x = groundedness y"
  by (simp add: groundedness_def)

lemma capped_range:
  "0 \<le> a \<Longrightarrow> a \<le> 1 \<Longrightarrow> 0 \<le> support_capped_confidence settings s a \<and> support_capped_confidence settings s a \<le> 1"
  by (auto simp: support_capped_confidence_def below_threshold_def)

text \<open>
  C35: Confidence is bounded, gated and monotone in the retrieval: the two reported scores lie
  between 0 and 1; a label above low needs retrieval support at its floor, so an answer whose
  retrieval and rerank signals are absent or weak is low however well it is cited; and for equal
  counts of markers, cited sources and selected sources, when the same retrieval and rerank
  signals are present and none is weaker, neither the reported confidence nor the label goes
  down. The medium threshold of the settings is at most the high one, as their validation
  demands.
\<close>

theorem confidence_is_gated_and_monotone:
  assumes "signal_le (ci_retrieval x) (ci_retrieval y)" "signal_le (ci_rerank x) (ci_rerank y)"
    and "ci_marker_count x = ci_marker_count y" "ci_unique_citations x = ci_unique_citations y"
    and "ci_selected x = ci_selected y" "conf_medium settings \<le> conf_high settings"
  shows "0 \<le> cs_answer (calculate_confidence x settings) \<and> cs_answer (calculate_confidence x settings) \<le> 1 \<and>
    0 \<le> cs_grounded (calculate_confidence x settings) \<and> cs_grounded (calculate_confidence x settings) \<le> 1 \<and>
    (cs_label (calculate_confidence x settings) = High \<longrightarrow>
       has_high_retrieval_support (ci_retrieval x) (ci_rerank x)) \<and>
    (retrieval_support_score [ci_retrieval x, ci_rerank x] < 3 / 10 \<longrightarrow>
       cs_label (calculate_confidence x settings) = Low \<and>
       cs_answer (calculate_confidence x settings) \<le> py_round 6 (max 0 (conf_medium settings - 1 / 100))) \<and>
    cs_answer (calculate_confidence x settings) \<le> cs_answer (calculate_confidence y settings) \<and>
    label_rank (cs_label (calculate_confidence x settings)) \<le> label_rank (cs_label (calculate_confidence y settings))"
proof -
  define w :: "conf_inputs \<Rightarrow> rat" where "w = (\<lambda>z. clamp01 (weighted_renormalized (conf_components z)))"
  define s :: "conf_inputs \<Rightarrow> rat" where "s = (\<lambda>z. retrieval_support_score [ci_retrieval z, ci_rerank z])"
  define a :: "conf_inputs \<Rightarrow> rat" where "a = (\<lambda>z. support_capped_confidence settings (s z) (w z))"
  have calc: "calculate_confidence z settings = \<lparr>cs_answer = py_round 6 (a z), cs_grounded = py_round 6 (groundedness z),
      cs_label = confidence_label settings (a z) (groundedness z) (s z)\<rparr>" for z
    by (simp add: calculate_confidence_def Let_def a_def s_def w_def)
  have g: "groundedness x = groundedness y" using assms(3-5) by (rule groundedness_cong)
  have sm: "s x \<le> s y" unfolding s_def by (rule support_mono[OF assms(1,2)])
  have wm: "w x \<le> w y" unfolding w_def by (intro clamp01_mono weighted_mono) (use assms g in simp_all)
  have am: "a x \<le> a y" unfolding a_def by (rule capped_mono[OF sm wm assms(6)])
  have ar: "0 \<le> a x \<and> a x \<le> 1" unfolding a_def w_def by (intro capped_range) simp_all
  have gr: "0 \<le> groundedness x \<and> groundedness x \<le> 1" by (simp add: groundedness_def Let_def)
  have cap: "s x < 3 / 10 \<Longrightarrow> a x \<le> max 0 (conf_medium settings - 1 / 100)"
    by (auto simp: a_def support_capped_confidence_def MEDIUM_FLOOR_def below_threshold_def)
  have "s x < 3 / 10 \<Longrightarrow> confidence_label settings (a x) (groundedness x) (s x) = Low"
    by (simp add: confidence_label_def MEDIUM_FLOOR_def HIGH_FLOOR_def)
  moreover have "confidence_label settings (a x) (groundedness x) (s x) = High \<Longrightarrow>
      has_high_retrieval_support (ci_retrieval x) (ci_rerank x)"
    by (auto simp: confidence_label_def has_high_retrieval_support_def s_def split: if_splits)
  ultimately show ?thesis
    unfolding calc conf_scores.simps
    using py_round_unit[of "a x" 6] py_round_unit[of "groundedness x" 6] ar gr py_round_mono[OF am] py_round_mono[OF cap]
      label_mono[OF am _ sm, of "groundedness x" "groundedness y" settings] g
    by (auto simp: s_def)
qed

definition ex_conf :: "rat \<Rightarrow> conf_inputs" where
  "ex_conf r = \<lparr>ci_retrieval = Some r, ci_rerank = None, ci_marker_count = 2, ci_unique_citations = 1, ci_selected = 3\<rparr>"

definition ex_conf_settings :: conf_settings where
  "ex_conf_settings = \<lparr>conf_high = 3/4, conf_medium = 45/100, ground_high = 3/4, ground_medium = 45/100\<rparr>"

theorem confidence_is_gated_and_monotone_witness:
  "cs_label (calculate_confidence (ex_conf (1/5)) ex_conf_settings) = Low \<and>
   cs_answer (calculate_confidence (ex_conf (1/5)) ex_conf_settings) \<le>
   cs_answer (calculate_confidence (ex_conf (9/10)) ex_conf_settings)"
proof -
  have "retrieval_support_score [ci_retrieval (ex_conf (1/5)), ci_rerank (ex_conf (1/5))] < 3 / 10" by code_simp
  then show ?thesis
    using confidence_is_gated_and_monotone[of "ex_conf (1/5)" "ex_conf (9/10)" ex_conf_settings]
    by (simp add: ex_conf_def ex_conf_settings_def signal_le_def)
qed

end
