(* ===== verification/Trace_Redactor.thy ===== *)
theory Trace_Redactor
  imports Job_Utils
begin

section \<open>Redaction of the traces, and the token estimate\<close>

text \<open>
  \<open>TraceRedactor\<close> of \<open>rag/trace.py\<close>, the context string sanitizer of
  \<open>rag/context_budget.py\<close> built on it, and \<open>core/tokens.py\<close>. A redaction drops the
  entries of sensitive keys at every depth and replaces a text that shows a credential
  assignment, a URL or a mail address by a mark. The lemmas show what a redacted text cannot
  show any more: a match of a pattern without a closing word boundary survives an extension
  of the text, so the cut-off of a clean text is clean.
\<close>

definition sensitive_trace_key_parts :: "string list" where
  "sensitive_trace_key_parts =
     [''api-key'', ''api_key'', ''apikey'', ''chunk_text'', ''content_text'', ''credential'',
      ''cookie'', ''csrf'', ''full_context'', ''password'', ''pii'', ''private_key'', ''prompt'',
      ''raw_chunk'', ''raw_text'', ''secret'', ''session'', ''token'']"

definition dotted_name_char :: "char \<Rightarrow> bool" where
  "dotted_name_char c = (alnum_char c \<or> c \<in> set ''_.-'')"

definition secret_assignment_re :: rx where
  "secret_assignment_re = rx_seq
     [Alt Bol (Ch py_isspace),
      rx_opt (Sq (rx_ilit ''export'') (rx_plus (Ch py_isspace))),
      Star (Ch dotted_name_char),
      rx_alts [rx_seq [rx_ilit ''api'', rx_opt (rx_in ''_-''), rx_ilit ''key''],
        rx_ilit ''secret'', rx_ilit ''password'', rx_ilit ''token'', rx_ilit ''credential''],
      Star (Ch dotted_name_char), Star (Ch py_isspace), rx_in '':='', Star (Ch py_isspace),
      rx_plus (Ch (\<lambda>c. \<not> py_isspace c))]"

definition url_re :: rx where
  "url_re = rx_seq
     [WordB, Ch ascii_alpha, Star (Ch (\<lambda>c. alnum_char c \<or> c \<in> set ''+.-'')), rx_lit ''://'']"

definition email_re :: rx where
  "email_re = rx_seq
     [WordB, rx_plus (Ch (\<lambda>c. alnum_char c \<or> c \<in> set ''._%+-'')), rx_in ''@'',
      rx_plus (Ch (\<lambda>c. alnum_char c \<or> c \<in> set ''.-'')), rx_in ''.'',
      rx_at_least 2 (Ch ascii_alpha), WordB]"

definition clean_text :: "string \<Rightarrow> string" where
  "clean_text s = py_join '' '' (py_split (replace_char nul_char CHR '' '' s))"

definition safe_string :: "nat \<Rightarrow> string \<Rightarrow> string" where
  "safe_string max_length s =
     (let normalized = clean_text s in
      if rx_search secret_assignment_re normalized \<or> rx_search url_re normalized \<or>
         rx_search email_re normalized
      then ''redacted'' else take max_length normalized)"

definition is_sensitive_trace_key :: "string \<Rightarrow> bool" where
  "is_sensitive_trace_key key =
     list_ex (\<lambda>part. py_in part (py_lower key)) sensitive_trace_key_parts"

fun redact_trace :: "pyval \<Rightarrow> pyval" where
  "redact_trace (PDict d) = PDict (map (\<lambda>(k, x). (k, redact_trace x))
     (filter (\<lambda>(k, x). \<not> is_sensitive_trace_key k) d))"
| "redact_trace (PList xs) = PList (map redact_trace xs)"
| "redact_trace (PStr s) = PStr (safe_string 255 s)"
| "redact_trace v = v"

definition safe_dict :: "pyval pydict \<Rightarrow> pyval pydict" where
  "safe_dict payload = (case redact_trace (PDict payload) of PDict d \<Rightarrow> d | _ \<Rightarrow> [])"

subsection \<open>Context strings\<close>

definition context_windows_path_re :: rx where
  "context_windows_path_re = rx_seq
     [Alt Bol (Ch py_isspace), Ch ascii_alpha, rx_in '':'', rx_in [CHR 0x5C, CHR ''/'']]"

definition safe_context_string :: "nat \<Rightarrow> string \<Rightarrow> string" where
  "safe_context_string max_length value =
     (let safe = safe_string max_length value;
          path_normalized = replace_char CHR 0x5C CHR ''/'' safe
      in if take 1 path_normalized = ''/'' \<or> rx_search context_windows_path_re path_normalized
         then ''redacted'' else safe)"

text \<open>The field validators of the context models: a text that is empty when sanitized is absent.\<close>

definition sanitize_text :: "nat \<Rightarrow> string option \<Rightarrow> string option" where
  "sanitize_text max_length value = (case value of None \<Rightarrow> None
     | Some s \<Rightarrow> (let safe = safe_context_string max_length s in if safe = [] then None else Some safe))"

subsection \<open>The token estimate\<close>

definition estimate_tokens :: "string \<Rightarrow> nat" where
  "estimate_tokens text =
     (if text = [] then 0
      else (let ascii_count = length (filter (\<lambda>c. code_point c < 128) text);
                non_ascii_count = length text - ascii_count
            in nat \<lceil>of_nat ascii_count / (4 :: rat)\<rceil> + non_ascii_count))"

lemma ceil_quarter: "nat \<lceil>of_nat n / (4 :: rat)\<rceil> = (n + 3) div 4"
proof -
  have "\<lceil>of_nat n / (4 :: rat)\<rceil> = \<lceil>rat_of_int (int n) / rat_of_int 4\<rceil>" by simp
  also have "\<dots> = - (- int n div 4)" by (simp only: ceiling_divide_eq_div)
  also have "\<dots> = int ((n + 3) div 4)" by presburger
  finally show ?thesis by simp
qed

lemma estimate_tokens_eq:
  "\<exists>a \<le> length s. estimate_tokens s = (a + 3) div 4 + (length s - a)"
proof (cases "s = []")
  case True
  then show ?thesis by (simp add: estimate_tokens_def)
next
  case False
  then show ?thesis
    by (intro exI[of _ "length (filter (\<lambda>c. code_point c < 128) s)"])
       (simp only: estimate_tokens_def Let_def ceil_quarter if_False length_filter_le simp_thms)
qed

text \<open>The estimate never exceeds the characters, and never undercounts a quarter of them.\<close>

lemma estimate_tokens_le: "estimate_tokens s \<le> length s"
  using estimate_tokens_eq[of s] by auto

lemma estimate_tokens_ge: "length s \<le> 4 * estimate_tokens s"
  using estimate_tokens_eq[of s] by auto

lemma estimate_tokens_0 [simp]: "estimate_tokens s = 0 \<longleftrightarrow> s = []"
  using estimate_tokens_ge[of s] estimate_tokens_le[of s] by auto

subsection \<open>Cleaned texts\<close>

definition blank_char :: "char \<Rightarrow> bool" where
  "blank_char c = (py_isspace c \<or> c = nul_char)"

lemma split_ws_Nil: "split_ws cur s = [] \<longleftrightarrow> cur = [] \<and> list_all py_isspace s"
  by (induction cur s rule: split_ws.induct) auto

lemma split_ws_words:
  "list_all (\<lambda>c. \<not> py_isspace c) cur \<Longrightarrow> w \<in> set (split_ws cur s) \<Longrightarrow>
   w \<noteq> [] \<and> list_all (\<lambda>c. \<not> py_isspace c) w \<and> set w \<subseteq> set cur \<union> set s"
  by (induction cur s rule: split_ws.induct) (auto split: if_splits)

lemma py_join_Nil: "\<forall>w\<in>set ws. w \<noteq> [] \<Longrightarrow> py_join sep ws = [] \<longleftrightarrow> ws = []"
  by (cases ws rule: remdups_adj.cases) auto

lemma hd_py_join: "w \<noteq> [] \<Longrightarrow> hd (py_join sep (w # ws)) = hd w"
  by (cases ws) auto

lemma space_is_blank: "py_isspace (if c = nul_char then CHR '' '' else c) = blank_char c"
  by (simp add: blank_char_def py_isspace_def code_point_def)

lemma clean_text_Nil: "clean_text s = [] \<longleftrightarrow> list_all blank_char s"
proof -
  have "clean_text s = [] \<longleftrightarrow> py_split (replace_char nul_char CHR '' '' s) = []"
    unfolding clean_text_def py_split_def by (rule py_join_Nil) (use split_ws_words[of "[]"] in auto)
  then show ?thesis
    by (simp add: py_split_def split_ws_Nil replace_char_def list.pred_map comp_def space_is_blank)
qed

lemma hd_clean_text: "clean_text s \<noteq> [] \<Longrightarrow> \<not> blank_char (hd (clean_text s))"
proof -
  assume ne: "clean_text s \<noteq> []"
  then obtain w ws where w: "py_split (replace_char nul_char CHR '' '' s) = w # ws"
    by (cases "py_split (replace_char nul_char CHR '' '' s)") (auto simp: clean_text_def)
  then have "w \<noteq> []" "list_all (\<lambda>c. \<not> py_isspace c) w" "set w \<subseteq> set (replace_char nul_char CHR '' '' s)"
    using split_ws_words[of "[]" w "replace_char nul_char CHR '' '' s"] by (auto simp: py_split_def)
  moreover from this have "hd w \<in> set (replace_char nul_char CHR '' '' s)"
    by (meson hd_in_set subsetD)
  then have "hd w \<noteq> nul_char" by (auto simp: replace_char_def nul_char_def)
  ultimately have "\<not> blank_char (hd w)" by (cases w) (auto simp: blank_char_def)
  then show ?thesis using w \<open>w \<noteq> []\<close> by (simp add: clean_text_def hd_py_join)
qed

lemma no_match_in_empty [simp]:
  "\<not> rx_search secret_assignment_re []" "\<not> rx_search url_re []" "\<not> rx_search email_re []"
  "\<not> rx_search context_windows_path_re []"
  by code_simp+

lemma safe_string_Nil: "0 < n \<Longrightarrow> safe_string n s = [] \<longleftrightarrow> clean_text s = []"
  by (auto simp: safe_string_def Let_def)

lemma safe_string_hd:
  "0 < n \<Longrightarrow> safe_string n s \<noteq> [] \<Longrightarrow> \<not> blank_char (hd (safe_string n s))"
  using hd_clean_text[of s]
  by (auto simp: safe_string_def Let_def hd_take blank_char_def py_isspace_def code_point_def nul_char_def)

text \<open>A text that survives the sanitizer survives it again.\<close>

lemma sanitize_text_None: "0 < n \<Longrightarrow> sanitize_text n (Some s) = None \<longleftrightarrow> list_all blank_char s"
  using safe_string_Nil[of n s] unfolding clean_text_Nil
  by (cases "safe_string n s")
     (auto simp: sanitize_text_def safe_context_string_def Let_def replace_char_def)

lemma sanitize_text_again:
  assumes "0 < n" "sanitize_text n (Some s) = Some t"
  shows "sanitize_text n (Some t) \<noteq> None"
proof -
  have "t \<noteq> []" "\<not> blank_char (hd t)"
    using assms safe_string_hd[of n s]
    by (auto simp: sanitize_text_def safe_context_string_def Let_def blank_char_def py_isspace_def
        code_point_def nul_char_def split: if_splits)
  then show ?thesis using assms(1) by (cases t) (simp_all add: sanitize_text_None)
qed

subsection \<open>Matches and extensions of the text\<close>

fun rx_no_wordb :: "rx \<Rightarrow> bool" where
  "rx_no_wordb (Sq r s) = (rx_no_wordb r \<and> rx_no_wordb s)"
| "rx_no_wordb (Alt r s) = (rx_no_wordb r \<and> rx_no_wordb s)"
| "rx_no_wordb (Star r) = rx_no_wordb r"
| "rx_no_wordb WordB = False"
| "rx_no_wordb _ = True"

lemma rx_sem_extend:
  "rx_sem r x y \<Longrightarrow> rx_no_wordb r \<Longrightarrow> rx_sem r (fst x, snd x @ z) (fst y, snd y @ z)"
proof (induction rule: rx_sem.induct)
  case (sem_star r x y u)
  then show ?case using rx_sem.sem_star by fastforce
qed (auto intro: rx_sem.intros)

lemma rx_search_take:
  assumes "rx_no_wordb r" "rx_search r (take n s)"
  shows "rx_search r s"
proof -
  obtain p q y where "take n s = p @ q" "rx_sem r (rev p, q) y"
    using assms(2) unfolding rx_search_iff by blast
  then have "s = p @ q @ drop n s" "rx_sem r (rev p, q @ drop n s) (fst y, snd y @ drop n s)"
    using rx_sem_extend[of r "(rev p, q)" y "drop n s"] assms(1)
    by (metis append.assoc append_take_drop_id, simp)
  then show ?thesis unfolding rx_search_iff by blast
qed

text \<open>An opening word boundary followed by a character does not look past that character.\<close>

lemma rx_search_take_wordb:
  assumes "rx_no_wordb r" "rx_search (Sq WordB (Sq (Ch p) r)) (take n s)"
  shows "rx_search (Sq WordB (Sq (Ch p) r)) s"
proof -
  obtain a q y where t: "take n s = a @ q" and m: "rx_sem (Sq WordB (Sq (Ch p) r)) (rev a, q) y"
    using assms(2) unfolding rx_search_iff by blast
  from m have b: "at_word_boundary (rev a, q)" and c: "rx_sem (Sq (Ch p) r) (rev a, q) y"
    by (auto simp: rx_sem_simps)
  then have ne: "q \<noteq> []" by (auto simp: rx_sem_simps)
  have "rx_sem (Sq (Ch p) r) (rev a, q @ drop n s) (fst y, snd y @ drop n s)"
    using rx_sem_extend[OF c, of "drop n s"] assms(1) by simp
  moreover have "at_word_boundary (rev a, q @ drop n s)"
    using b ne by (cases q) (simp_all add: at_word_boundary_def)
  moreover have "s = a @ q @ drop n s" using t by (metis append.assoc append_take_drop_id)
  ultimately show ?thesis unfolding rx_search_iff
    by (metis rx_sem.sem_sq rx_sem.sem_wordb)
qed

subsection \<open>What a redacted text cannot show\<close>

definition trace_text_clean :: "string \<Rightarrow> bool" where
  "trace_text_clean s = (\<not> rx_search secret_assignment_re s \<and> \<not> rx_search url_re s)"

fun trace_clean :: "pyval \<Rightarrow> bool" where
  "trace_clean (PStr s) = (trace_text_clean s \<and> length s \<le> 255)"
| "trace_clean (PList xs) = list_all trace_clean xs"
| "trace_clean (PDict d) = list_all (\<lambda>(k, x). \<not> is_sensitive_trace_key k \<and> trace_clean x) d"
| "trace_clean _ = True"

lemma trace_mark_clean: "trace_text_clean ''redacted''" by code_simp

lemma secret_assignment_no_wordb: "rx_no_wordb secret_assignment_re" by code_simp

lemma url_take: "rx_search url_re (take n s) \<Longrightarrow> rx_search url_re s"
  by (simp only: url_re_def rx_seq.simps) (rule rx_search_take_wordb; simp)

lemma safe_string_clean: "trace_text_clean (safe_string n s)"
proof (cases "rx_search secret_assignment_re (clean_text s) \<or> rx_search url_re (clean_text s) \<or>
    rx_search email_re (clean_text s)")
  case True
  then show ?thesis by (simp add: safe_string_def Let_def trace_mark_clean)
next
  case False
  then have "safe_string n s = take n (clean_text s)" by (simp add: safe_string_def Let_def)
  moreover have "\<not> rx_search secret_assignment_re (take n (clean_text s))"
    using False rx_search_take[OF secret_assignment_no_wordb] by blast
  moreover have "\<not> rx_search url_re (take n (clean_text s))" using False url_take by blast
  ultimately show ?thesis by (simp add: trace_text_clean_def)
qed

lemma safe_string_length: "length (safe_string n s) \<le> max 8 n"
  by (auto simp: safe_string_def Let_def le_max_iff_disj)

lemma safe_context_string_clean: "trace_text_clean (safe_context_string n s)"
  by (simp add: safe_context_string_def Let_def trace_mark_clean safe_string_clean)

lemma safe_context_string_length: "length (safe_context_string n s) \<le> max 8 n"
  using safe_string_length[of n s] by (auto simp: safe_context_string_def Let_def le_max_iff_disj)

lemma redact_trace_clean: "trace_clean (redact_trace v)"
  using safe_string_length[of 255]
  by (induction v rule: redact_trace.induct) (auto simp: list_all_iff safe_string_clean)

lemma safe_dict_eq: "PDict (safe_dict d) = redact_trace (PDict d)"
  by (simp add: safe_dict_def)

definition no_absolute_path :: "string \<Rightarrow> bool" where
  "no_absolute_path s = (let u = replace_char CHR 0x5C CHR ''/'' s in
     take 1 u \<noteq> ''/'' \<and> \<not> rx_search context_windows_path_re u)"

lemma redacted_mark_no_path: "no_absolute_path ''redacted''" by code_simp

lemma safe_context_string_no_path: "no_absolute_path (safe_context_string n s)"
  using redacted_mark_no_path by (auto simp: safe_context_string_def no_absolute_path_def Let_def)

text \<open>
  C38: A redacted trace keeps neither a sensitive key nor a leaking text: at every depth of
  the payload the entries of sensitive keys are gone and each text is short and shows no
  credential assignment and no URL, whatever it was and wherever it was cut; at the top
  exactly the other keys remain, in order. A sanitized context string moreover does not start
  with a path separator and shows no path with a drive letter.
\<close>

theorem traces_are_redacted:
  "trace_clean (PDict (safe_dict payload)) \<and>
   map fst (safe_dict payload) = filter (\<lambda>k. \<not> is_sensitive_trace_key k) (map fst payload) \<and>
   trace_text_clean (safe_context_string n s) \<and> no_absolute_path (safe_context_string n s) \<and>
   length (safe_context_string n s) \<le> max 8 n"
proof -
  have "map fst (safe_dict payload) = filter (\<lambda>k. \<not> is_sensitive_trace_key k) (map fst payload)"
    by (induction payload) (auto simp: safe_dict_def)
  moreover have "trace_clean (PDict (safe_dict payload))"
    unfolding safe_dict_eq by (rule redact_trace_clean)
  ultimately show ?thesis
    using safe_context_string_clean safe_context_string_no_path safe_context_string_length by blast
qed

end
