(* ===== verification/Context_Budget.thy ===== *)
theory Context_Budget
  imports Trace_Redactor "HOL-Library.List_Lexorder" "HOL-Library.Char_ord"
begin

section \<open>The context budget\<close>

text \<open>
  \<open>rag/context_budget.py\<close>: which retrieved chunks enter the prompt. The candidates become
  items, duplicates, empty texts and oversized texts are dropped, the rest is put in an order
  (citation candidates first, best rank first, one of each source first) and taken greedily
  while the number of items and the token budget allow it; the trace counts what happened.
  Every model of the source validates its texts, and a required text that is empty when
  sanitized is the value \<open>None\<close> (pydantic's \<open>ValidationError\<close>). Subtraction of naturals
  is the source's \<open>max(0, \<dots>)\<close>. The reading of a stored trace from JSON is left out.
\<close>

datatype drop_reason =
    OverBudget | MaxItemsExceeded | LowScore | DuplicateSource | DuplicateChunk | MissingText
  | UnsafeContent | NotSelectedByRerank | SourceDiversityLimit | UnknownReason

record budget_candidate =
  bc_run_item_id :: int
  bc_chunk_id :: int
  bc_source_label :: "string option"
  bc_section_title :: "string option"
  bc_page_from :: "int option"
  bc_page_to :: "int option"
  bc_score :: "pyfloat option"
  bc_rank :: "int option"
  bc_rerank_score :: "pyfloat option"
  bc_rerank_order :: "int option"
  bc_text :: "string option"
  bc_citation :: bool
  bc_group :: string
  bc_retrieval_source :: "string option"

record budget_policy =
  pol_enabled :: bool
  pol_max_context_tokens :: nat
  pol_reserve_answer_tokens :: nat
  pol_max_items :: nat
  pol_max_tokens_per_item :: nat
  pol_min_citations :: nat
  pol_drop_low_score_first :: bool
  pol_preserve_diversity :: bool

definition policy_ok :: "budget_policy \<Rightarrow> bool" where
  "policy_ok p =
     (1 \<le> pol_max_context_tokens p \<and> pol_max_context_tokens p \<le> 200000 \<and>
      pol_reserve_answer_tokens p \<le> 200000 \<and> 1 \<le> pol_max_items p \<and> pol_max_items p \<le> 100 \<and>
      1 \<le> pol_max_tokens_per_item p \<and> pol_max_tokens_per_item p \<le> 200000 \<and>
      pol_min_citations p \<le> 100 \<and>
      pol_reserve_answer_tokens p < pol_max_context_tokens p \<and>
      pol_max_tokens_per_item p \<le> pol_max_context_tokens p \<and>
      pol_min_citations p \<le> pol_max_items p)"

record context_item =
  it_run_item_id :: int
  it_chunk_id :: int
  it_source_label :: "string option"
  it_section_title :: "string option"
  it_page_from :: "int option"
  it_page_to :: "int option"
  it_score :: "rat option"
  it_rank :: "int option"
  it_rerank_score :: "rat option"
  it_rerank_order :: "int option"
  it_char_count :: nat
  it_tokens :: nat
  it_citation :: bool
  it_group :: string
  it_retrieval_source :: "string option"
  it_selected :: bool
  it_reason :: "string option"
  it_drop :: "drop_reason option"

definition rounded :: "pyfloat option \<Rightarrow> rat option" where
  "rounded v = (case v of Some (Fin r) \<Rightarrow> Some (py_round 6 r) | _ \<Rightarrow> None)"

definition candidate_text :: "string option \<Rightarrow> string" where
  "candidate_text t = (case t of None \<Rightarrow> [] | Some s \<Rightarrow> clean_text s)"

definition make_item :: "budget_candidate \<Rightarrow> context_item option" where
  "make_item c = (let text = candidate_text (bc_text c) in
     case sanitize_text 255 (Some (bc_group c)) of None \<Rightarrow> None
     | Some gkey \<Rightarrow> Some \<lparr>
         it_run_item_id = bc_run_item_id c, it_chunk_id = bc_chunk_id c,
         it_source_label = sanitize_text 255 (bc_source_label c),
         it_section_title = sanitize_text 255 (bc_section_title c),
         it_page_from = bc_page_from c, it_page_to = bc_page_to c,
         it_score = rounded (bc_score c), it_rank = bc_rank c,
         it_rerank_score = rounded (bc_rerank_score c), it_rerank_order = bc_rerank_order c,
         it_char_count = length text, it_tokens = estimate_tokens text,
         it_citation = bc_citation c, it_group = gkey,
         it_retrieval_source = sanitize_text 255 (bc_retrieval_source c),
         it_selected = False, it_reason = None, it_drop = None\<rparr>)"

subsection \<open>The order of the selection\<close>

definition or_int :: "int option \<Rightarrow> int \<Rightarrow> int" where
  "or_int v dflt = (case v of None \<Rightarrow> dflt | Some n \<Rightarrow> if n = 0 then dflt else n)"

definition score_order :: "context_item \<Rightarrow> int \<times> rat \<times> int \<times> int" where
  "score_order item =
     (or_int (it_rerank_order item) (or_int (it_rank item) 1000000),
      - (case (case it_rerank_score item of None \<Rightarrow> it_score item | Some x \<Rightarrow> Some x) of
           None \<Rightarrow> 0 | Some x \<Rightarrow> x),
      or_int (it_rank item) 1000000, it_chunk_id item)"

fun split_by_source :: "context_item list \<Rightarrow> string list \<Rightarrow> nat list \<Rightarrow> nat list \<times> nat list" where
  "split_by_source items seen [] = ([], [])"
| "split_by_source items seen (i # is) =
     (let source = it_group (items ! i) in
      if source \<in> set seen
      then (let (first, rest) = split_by_source items seen is in (first, i # rest))
      else (let (first, rest) = split_by_source items (source # seen) is in (i # first, rest)))"

definition selection_order :: "context_item list \<Rightarrow> nat list \<Rightarrow> budget_policy \<Rightarrow> nat list" where
  "selection_order items eligible p =
     (let ordered = (if pol_drop_low_score_first p
                     then sort_key (\<lambda>i. score_order (items ! i)) eligible else eligible)
      in if \<not> pol_preserve_diversity p then ordered
         else (let (first, rest) = split_by_source items [] ordered in first @ rest))"

definition first_indices_by_source :: "context_item list \<Rightarrow> nat list \<Rightarrow> nat list" where
  "first_indices_by_source items ordered = fst (split_by_source items [] ordered)"

subsection \<open>The selection\<close>

definition effective_limit :: "budget_policy \<Rightarrow> nat" where
  "effective_limit p = pol_max_context_tokens p - pol_reserve_answer_tokens p"

definition first_drop_reason :: "budget_policy \<Rightarrow> int list \<Rightarrow> context_item \<Rightarrow> drop_reason option" where
  "first_drop_reason p seen item =
     (if it_chunk_id item \<in> set seen then Some DuplicateChunk
      else if it_char_count item \<le> 0 then Some MissingText
      else if pol_max_tokens_per_item p < it_tokens item then Some OverBudget
      else None)"

fun triage :: "budget_policy \<Rightarrow> int list \<Rightarrow> context_item list \<Rightarrow> context_item list" where
  "triage p seen [] = []"
| "triage p seen (item # items) =
     item\<lparr>it_drop := first_drop_reason p seen item\<rparr> # triage p (it_chunk_id item # seen) items"

record selection =
  sel_items :: "context_item list"
  sel_count :: nat
  sel_tokens :: nat
  sel_exhausted :: bool

definition drop_item :: "selection \<Rightarrow> nat \<Rightarrow> drop_reason \<Rightarrow> selection" where
  "drop_item st i r =
     st\<lparr>sel_items := (sel_items st)[i := (sel_items st ! i)\<lparr>it_drop := Some r\<rparr>]\<rparr>"

definition select_reason :: "budget_policy \<Rightarrow> nat list \<Rightarrow> context_item \<Rightarrow> nat \<Rightarrow> string" where
  "select_reason p first item i =
     (if \<not> it_citation item then ''min_citation_candidates''
      else if pol_preserve_diversity p \<and> i \<in> set first then ''source_diversity''
      else ''high_score'')"

definition select_step :: "budget_policy \<Rightarrow> nat list \<Rightarrow> selection \<Rightarrow> nat \<Rightarrow> selection" where
  "select_step p first st i =
     (let item = sel_items st ! i in
      if it_drop item \<noteq> None then st
      else if pol_max_items p \<le> sel_count st then drop_item st i MaxItemsExceeded
      else if \<not> it_citation item \<and> pol_min_citations p \<le> sel_count st
        then drop_item st i NotSelectedByRerank
      else if effective_limit p < sel_tokens st + it_tokens item
        then (drop_item st i OverBudget)\<lparr>sel_exhausted := True\<rparr>
      else \<lparr>sel_items = (sel_items st)[i := item\<lparr>it_selected := True,
                 it_reason := Some (select_reason p first item i), it_drop := None\<rparr>],
            sel_count = sel_count st + 1, sel_tokens = sel_tokens st + it_tokens item,
            sel_exhausted = sel_exhausted st\<rparr>)"

definition eligible_order :: "budget_policy \<Rightarrow> context_item list \<Rightarrow> nat list" where
  "eligible_order p decided =
     (let eligible = filter (\<lambda>i. it_drop (decided ! i) = None) [0..<length decided];
          citations = filter (\<lambda>i. it_citation (decided ! i)) eligible;
          extras = filter (\<lambda>i. \<not> it_citation (decided ! i)) eligible
      in selection_order decided citations p @ selection_order decided extras p)"

definition select_items :: "context_item list \<Rightarrow> budget_policy \<Rightarrow> context_item list \<times> bool" where
  "select_items items p =
     (let decided = triage p [] items;
          ordered = eligible_order p decided;
          first = first_indices_by_source decided ordered;
          st = foldl (select_step p first)
                 \<lparr>sel_items = decided, sel_count = 0, sel_tokens = 0, sel_exhausted = False\<rparr> ordered
      in (sel_items st, sel_exhausted st))"

subsection \<open>The trace\<close>

record item_ref =
  ref_run_item_id :: int
  ref_chunk_id :: int
  ref_source_label :: "string option"
  ref_section_title :: "string option"
  ref_page_from :: "int option"
  ref_page_to :: "int option"
  ref_score :: "rat option"
  ref_rank :: "int option"
  ref_rerank_score :: "rat option"
  ref_rerank_order :: "int option"
  ref_tokens :: nat
  ref_char_count :: nat
  ref_retrieval_source :: "string option"
  ref_reason :: "string option"
  ref_drop :: "drop_reason option"

definition make_item_ref :: "context_item \<Rightarrow> item_ref" where
  "make_item_ref item = \<lparr>
     ref_run_item_id = it_run_item_id item, ref_chunk_id = it_chunk_id item,
     ref_source_label = sanitize_text 255 (it_source_label item),
     ref_section_title = sanitize_text 255 (it_section_title item),
     ref_page_from = it_page_from item, ref_page_to = it_page_to item,
     ref_score = it_score item, ref_rank = it_rank item,
     ref_rerank_score = it_rerank_score item, ref_rerank_order = it_rerank_order item,
     ref_tokens = it_tokens item, ref_char_count = it_char_count item,
     ref_retrieval_source = sanitize_text 255 (it_retrieval_source item),
     ref_reason = sanitize_text 255 (it_reason item), ref_drop = it_drop item\<rparr>"

record source_ref =
  sr_key :: string
  sr_label :: "string option"
  sr_candidates :: nat
  sr_selected :: nat
  sr_dropped :: nat
  sr_tokens :: nat

definition tokens_of :: "context_item list \<Rightarrow> nat" where
  "tokens_of items = sum_list (map it_tokens items)"

definition first_label :: "context_item list \<Rightarrow> string option" where
  "first_label items = (case filter (\<lambda>l. l \<noteq> None \<and> l \<noteq> Some []) (map it_source_label items) of
     [] \<Rightarrow> None | l # _ \<Rightarrow> l)"

definition make_source_ref :: "context_item list \<Rightarrow> string \<Rightarrow> source_ref option" where
  "make_source_ref items source =
     (let grouped = filter (\<lambda>item. it_group item = source) items in
      case sanitize_text 255 (Some source) of None \<Rightarrow> None
      | Some key \<Rightarrow> Some \<lparr>sr_key = key, sr_label = sanitize_text 255 (first_label grouped),
          sr_candidates = length grouped, sr_selected = length (filter it_selected grouped),
          sr_dropped = length (filter (\<lambda>item. \<not> it_selected item) grouped),
          sr_tokens = tokens_of (filter it_selected grouped)\<rparr>)"

definition source_summary :: "context_item list \<Rightarrow> source_ref list option" where
  "source_summary items = those (map (make_source_ref items) (sort (uniq_first (map it_group items))))"

record strategy_summary =
  sum_strategy_type :: "string option"
  sum_selected_strategy :: "string option"
  sum_execution_strategy :: "string option"
  sum_tools_used :: "string list"

definition make_strategy_summary :: "string option \<Rightarrow> string option \<Rightarrow> string option \<Rightarrow> pyval \<Rightarrow>
    strategy_summary" where
  "make_strategy_summary stype selected execution tools = \<lparr>
     sum_strategy_type = sanitize_text 100 stype, sum_selected_strategy = sanitize_text 100 selected,
     sum_execution_strategy = sanitize_text 100 execution,
     sum_tools_used = (case tools of
       PList xs \<Rightarrow> concat (map (\<lambda>x. case x of
           PStr s \<Rightarrow> (case sanitize_text 100 (Some s) of None \<Rightarrow> [] | Some safe \<Rightarrow> [safe])
         | _ \<Rightarrow> []) xs)
     | _ \<Rightarrow> [])\<rparr>"

record budget_trace =
  tr_enabled :: bool
  tr_policy :: budget_policy
  tr_prompt_tokens :: nat
  tr_context_tokens :: nat
  tr_input_tokens :: nat
  tr_reserve_tokens :: nat
  tr_remaining_tokens :: nat
  tr_exhausted :: bool
  tr_candidate_count :: nat
  tr_selected_count :: nat
  tr_dropped_count :: nat
  tr_citation_count :: nat
  tr_source_count :: nat
  tr_drop_reasons :: "(drop_reason \<times> nat) list"
  tr_sources :: "source_ref list"
  tr_strategy :: "strategy_summary option"
  tr_selected_refs :: "item_ref list"
  tr_dropped_refs :: "item_ref list"

record budget_decision =
  dec_selected_ids :: "int list"
  dec_trace :: budget_trace
  dec_items :: "context_item list"

text \<open>\<open>Counter\<close>: how often each value occurs, in the order of first occurrence.\<close>

definition counter :: "'a list \<Rightarrow> ('a \<times> nat) list" where
  "counter xs = map (\<lambda>x. (x, count_list xs x)) (uniq_first xs)"

definition drop_or_unknown :: "context_item \<Rightarrow> drop_reason" where
  "drop_or_unknown item = (case it_drop item of None \<Rightarrow> UnknownReason | Some r \<Rightarrow> r)"

definition decision :: "context_item list \<Rightarrow> budget_policy \<Rightarrow> int \<Rightarrow> strategy_summary option \<Rightarrow> bool \<Rightarrow>
    budget_decision option" where
  "decision items p prompt strategy exhausted =
     (let selected = filter it_selected items;
          dropped = filter (\<lambda>item. \<not> it_selected item) items;
          tokens = tokens_of selected;
          reasons = counter (map drop_or_unknown dropped)
      in case source_summary items of None \<Rightarrow> None
      | Some sources \<Rightarrow> Some \<lparr>
          dec_selected_ids = map it_run_item_id selected,
          dec_trace = \<lparr>
            tr_enabled = pol_enabled p, tr_policy = p,
            tr_prompt_tokens = nat prompt, tr_context_tokens = tokens,
            tr_input_tokens = nat prompt + tokens,
            tr_reserve_tokens = pol_reserve_answer_tokens p,
            tr_remaining_tokens = effective_limit p - tokens,
            tr_exhausted = (exhausted \<or> map_of reasons OverBudget \<noteq> None),
            tr_candidate_count = length items, tr_selected_count = length selected,
            tr_dropped_count = length dropped,
            tr_citation_count = length (filter it_citation items),
            tr_source_count = length (uniq_first (map it_group selected)),
            tr_drop_reasons = reasons, tr_sources = sources, tr_strategy = strategy,
            tr_selected_refs = map make_item_ref selected,
            tr_dropped_refs = map make_item_ref dropped\<rparr>,
          dec_items = items\<rparr>)"

subsection \<open>The manager\<close>

definition disabled_items :: "context_item list \<Rightarrow> context_item list" where
  "disabled_items items =
     (let selected = map it_run_item_id (filter (\<lambda>item. it_citation item \<and> 0 < it_char_count item) items)
      in map (\<lambda>item. if it_run_item_id item \<in> set selected
           then item\<lparr>it_selected := True, it_reason := Some ''budget_disabled'', it_drop := None\<rparr>
           else item\<lparr>it_selected := False, it_reason := None, it_drop := Some NotSelectedByRerank\<rparr>) items)"

definition budget_apply :: "budget_candidate list \<Rightarrow> budget_policy \<Rightarrow> int \<Rightarrow> strategy_summary option \<Rightarrow>
    budget_decision option" where
  "budget_apply candidates p prompt strategy = (case those (map make_item candidates) of
     None \<Rightarrow> None
   | Some items \<Rightarrow>
       if \<not> pol_enabled p then decision (disabled_items items) p prompt strategy False
       else (let (decided, exhausted) = select_items items p
             in decision decided p prompt strategy exhausted))"

definition finalize_item :: "int set \<Rightarrow> drop_reason \<Rightarrow> context_item \<Rightarrow> context_item" where
  "finalize_item ids r item =
     (if it_run_item_id item \<in> ids then item\<lparr>it_selected := True, it_drop := None\<rparr>
      else item\<lparr>it_selected := False, it_reason := None,
        it_drop := Some (if it_selected item then r else drop_or_unknown item)\<rparr>)"

definition finalize_selection :: "budget_decision \<Rightarrow> int set \<Rightarrow> drop_reason \<Rightarrow> budget_decision option" where
  "finalize_selection d ids r =
     (if set (dec_selected_ids d) = ids then Some d
      else if \<not> policy_ok (tr_policy (dec_trace d)) then None
      else decision (map (finalize_item ids r) (dec_items d)) (tr_policy (dec_trace d))
             (int (tr_prompt_tokens (dec_trace d))) (tr_strategy (dec_trace d)) True)"

end
