(* ===== verification/Context_Budget_Properties.thy ===== *)
theory Context_Budget_Properties
  imports Context_Budget
begin

section \<open>What the context budget guarantees\<close>

text \<open>
  The selection is a fold over an order of the eligible items. Its invariant says of the
  items processed so far which were taken and why each other one was dropped, and that
  the counters of the fold count them; the theorems read it off at the end of the order.
\<close>

lemmas item_defs = drop_item_def select_step_def Let_def

definition core :: "context_item \<Rightarrow> context_item" where
  "core item = item\<lparr>it_selected := False, it_reason := None, it_drop := None\<rparr>"

lemma core_simps [simp]:
  "core (item\<lparr>it_selected := b\<rparr>) = core item" "core (item\<lparr>it_reason := r\<rparr>) = core item"
  "core (item\<lparr>it_drop := d\<rparr>) = core item"
  by (simp_all add: core_def)

lemma core_fields:
  assumes "core x = core y"
  shows "it_tokens x = it_tokens y" "it_citation x = it_citation y" "it_chunk_id x = it_chunk_id y"
    "it_char_count x = it_char_count y" "it_group x = it_group y" "it_run_item_id x = it_run_item_id y"
  using assms by (cases x; cases y; simp add: core_def)+

subsection \<open>Orders\<close>

lemma split_by_source_mset:
  "mset (fst (split_by_source items seen is)) + mset (snd (split_by_source items seen is)) = mset is"
  by (induction items seen "is" rule: split_by_source.induct) (auto simp: Let_def split: prod.splits)

lemma mset_selection_order [simp]: "mset (selection_order items is p) = mset is"
  using split_by_source_mset[of items "[]"]
  by (auto simp: selection_order_def Let_def split: prod.splits) (metis fst_conv snd_conv mset_sort)+

lemma set_selection_order [simp]: "set (selection_order items is p) = set is"
  using mset_selection_order mset_eq_setD by blast

lemma distinct_selection_order [simp]: "distinct (selection_order items is p) = distinct is"
  using mset_selection_order mset_eq_imp_distinct_iff by blast

lemma set_eligible_order:
  "set (eligible_order p decided) = {i. i < length decided \<and> it_drop (decided ! i) = None}"
  by (auto simp: eligible_order_def Let_def)

lemma distinct_eligible_order: "distinct (eligible_order p decided)"
  by (auto simp: eligible_order_def Let_def)

subsection \<open>The triage\<close>

lemma length_triage [simp]: "length (triage p seen items) = length items"
  by (induction p seen items rule: triage.induct) auto

lemma triage_nth:
  "i < length items \<Longrightarrow> triage p seen items ! i =
     (items ! i)\<lparr>it_drop := first_drop_reason p (rev (map it_chunk_id (take i items)) @ seen) (items ! i)\<rparr>"
proof (induction p seen items arbitrary: i rule: triage.induct)
  case (2 p seen item items)
  then show ?case by (cases i) auto
qed simp

subsection \<open>The invariant of the fold\<close>

definition taken :: "selection \<Rightarrow> nat list \<Rightarrow> nat list" where
  "taken st order = filter (\<lambda>i. it_selected (sel_items st ! i)) order"

text \<open>Which items fit after the ones taken so far, and the reason of a drop.\<close>

definition verdict :: "budget_policy \<Rightarrow> nat \<Rightarrow> nat \<Rightarrow> context_item \<Rightarrow> drop_reason option" where
  "verdict p n tokens item =
     (if pol_max_items p \<le> n then Some MaxItemsExceeded
      else if \<not> it_citation item \<and> pol_min_citations p \<le> n then Some NotSelectedByRerank
      else if effective_limit p < tokens + it_tokens item then Some OverBudget
      else None)"

lemma verdict_core: "core x = core y \<Longrightarrow> verdict p n m x = verdict p n m y"
  using core_fields(1,2)[of x y] by (simp add: verdict_def)

definition sel_inv :: "budget_policy \<Rightarrow> context_item list \<Rightarrow> nat list \<Rightarrow> selection \<Rightarrow> bool" where
  "sel_inv p decided order st =
     (length (sel_items st) = length decided \<and>
      (\<forall>i<length decided. core (sel_items st ! i) = core (decided ! i)) \<and>
      (\<forall>i<length decided. i \<notin> set order \<longrightarrow> sel_items st ! i = decided ! i) \<and>
      sel_count st = length (taken st order) \<and>
      sel_tokens st = sum_list (map (\<lambda>i. it_tokens (decided ! i)) (taken st order)) \<and>
      sel_count st \<le> pol_max_items p \<and> sel_tokens st \<le> effective_limit p \<and>
      (\<forall>i\<in>set order. it_selected (sel_items st ! i) \<longleftrightarrow> it_drop (sel_items st ! i) = None) \<and>
      (\<forall>k<length order. it_drop (sel_items st ! (order ! k)) =
         verdict p (length (taken st (take k order)))
           (sum_list (map (\<lambda>i. it_tokens (decided ! i)) (taken st (take k order)))) (decided ! (order ! k))) \<and>
      (sel_exhausted st \<longleftrightarrow> (\<exists>i\<in>set order. it_drop (sel_items st ! i) = Some OverBudget)))"

lemma taken_cong:
  "(\<And>i. i \<in> set order \<Longrightarrow> sel_items st ! i = sel_items st' ! i) \<Longrightarrow> taken st order = taken st' order"
  by (simp add: taken_def cong: filter_cong)

lemma select_step_eq:
  assumes "it_drop (sel_items st ! i) = None" "\<not> it_selected (sel_items st ! i)"
  shows "select_step p first st i =
    (case verdict p (sel_count st) (sel_tokens st) (sel_items st ! i) of
       Some r \<Rightarrow> (drop_item st i r)\<lparr>sel_exhausted := (sel_exhausted st \<or> r = OverBudget)\<rparr>
     | None \<Rightarrow> \<lparr>sel_items = (sel_items st)[i := (sel_items st ! i)\<lparr>it_selected := True,
                 it_reason := Some (select_reason p first (sel_items st ! i) i), it_drop := None\<rparr>],
            sel_count = sel_count st + 1, sel_tokens = sel_tokens st + it_tokens (sel_items st ! i),
            sel_exhausted = sel_exhausted st\<rparr>)"
  using assms by (simp add: item_defs verdict_def)

lemma sel_inv_step:
  assumes inv: "sel_inv p decided order st" and i: "i < length decided" "i \<notin> set order"
    and fresh: "it_drop (decided ! i) = None" "\<not> it_selected (decided ! i)"
    and order: "set order \<subseteq> {..<length decided}"
  shows "sel_inv p decided (order @ [i]) (select_step p first st i)"
proof -
  let ?st = "select_step p first st i"
  have here: "sel_items st ! i = decided ! i" and len: "length (sel_items st) = length decided"
    using inv i by (auto simp: sel_inv_def)
  have step: "?st = (case verdict p (sel_count st) (sel_tokens st) (decided ! i) of
       Some r \<Rightarrow> (drop_item st i r)\<lparr>sel_exhausted := (sel_exhausted st \<or> r = OverBudget)\<rparr>
     | None \<Rightarrow> \<lparr>sel_items = (sel_items st)[i := (decided ! i)\<lparr>it_selected := True,
                 it_reason := Some (select_reason p first (decided ! i) i), it_drop := None\<rparr>],
            sel_count = sel_count st + 1, sel_tokens = sel_tokens st + it_tokens (decided ! i),
            sel_exhausted = sel_exhausted st\<rparr>)"
    using select_step_eq[of st i p first] fresh by (simp only: here simp_thms)
  have other: "j \<noteq> i \<Longrightarrow> sel_items ?st ! j = sel_items st ! j" for j
    by (simp add: step drop_item_def split: option.split)
  have same: "taken ?st xs = taken st xs" if "i \<notin> set xs" for xs
    using that other by (intro taken_cong) metis
  have at_i: "it_drop (sel_items ?st ! i) = verdict p (sel_count st) (sel_tokens st) (decided ! i)"
    "it_selected (sel_items ?st ! i) = (verdict p (sel_count st) (sel_tokens st) (decided ! i) = None)"
    "core (sel_items ?st ! i) = core (decided ! i)"
    using i len here fresh by (auto simp: step drop_item_def split: option.split)
  have count: "sel_count st = length (taken st order)"
    and toks: "sel_tokens st = sum_list (map (\<lambda>i. it_tokens (decided ! i)) (taken st order))"
    using inv by (auto simp: sel_inv_def)
  have tk: "taken ?st (order @ [i]) =
      taken st order @ (if verdict p (sel_count st) (sel_tokens st) (decided ! i) = None then [i] else [])"
    using same[of order] i at_i by (simp add: taken_def)
  have tk': "k \<le> length order \<Longrightarrow> taken ?st (take k order) = taken st (take k order)" for k
    using same i by (metis in_set_takeD)
  have bounds: "sel_count ?st \<le> pol_max_items p" "sel_tokens ?st \<le> effective_limit p"
    using inv by (auto simp: step sel_inv_def drop_item_def verdict_def split: option.split if_splits)
  have counts: "sel_count ?st = length (taken ?st (order @ [i]))"
    "sel_tokens ?st = sum_list (map (\<lambda>i. it_tokens (decided ! i)) (taken ?st (order @ [i])))"
    unfolding tk using count toks by (auto simp: step drop_item_def split: option.split)
  have exh: "sel_exhausted ?st \<longleftrightarrow> (\<exists>j\<in>set (order @ [i]). it_drop (sel_items ?st ! j) = Some OverBudget)"
  proof -
    have "(\<exists>j\<in>set order. it_drop (sel_items ?st ! j) = Some OverBudget) \<longleftrightarrow>
      (\<exists>j\<in>set order. it_drop (sel_items st ! j) = Some OverBudget)"
      using other i by metis
    then have "(\<exists>j\<in>set (order @ [i]). it_drop (sel_items ?st ! j) = Some OverBudget) \<longleftrightarrow>
      sel_exhausted st \<or> verdict p (sel_count st) (sel_tokens st) (decided ! i) = Some OverBudget"
      using inv at_i by (auto simp: sel_inv_def)
    then show ?thesis by (auto simp: step drop_item_def split: option.split)
  qed
  have verd: "\<forall>k<length (order @ [i]). it_drop (sel_items ?st ! ((order @ [i]) ! k)) =
      verdict p (length (taken ?st (take k (order @ [i]))))
        (sum_list (map (\<lambda>i. it_tokens (decided ! i)) (taken ?st (take k (order @ [i])))))
        (decided ! ((order @ [i]) ! k))"
  proof (intro allI impI)
    fix k assume "k < length (order @ [i])"
    then consider "k < length order" | "k = length order" by fastforce
    then show "it_drop (sel_items ?st ! ((order @ [i]) ! k)) =
      verdict p (length (taken ?st (take k (order @ [i]))))
        (sum_list (map (\<lambda>i. it_tokens (decided ! i)) (taken ?st (take k (order @ [i])))))
        (decided ! ((order @ [i]) ! k))"
    proof cases
      case 1
      then have "order ! k \<noteq> i" using i by (metis nth_mem)
      then show ?thesis using 1 inv other[of "order ! k"] tk'[of k]
        by (simp add: sel_inv_def nth_append)
    next
      case 2
      then show ?thesis using at_i count toks tk'[of k] by (simp add: nth_append)
    qed
  qed
  have cores: "\<forall>j<length decided. core (sel_items ?st ! j) = core (decided ! j)"
    using inv other at_i(3) unfolding sel_inv_def by metis
  have rest: "\<forall>j<length decided. j \<notin> set (order @ [i]) \<longrightarrow> sel_items ?st ! j = decided ! j"
    using inv other by (simp add: sel_inv_def)
  have iff: "\<forall>j\<in>set (order @ [i]). it_selected (sel_items ?st ! j) \<longleftrightarrow> it_drop (sel_items ?st ! j) = None"
    using inv other at_i i by (auto simp: sel_inv_def) metis+
  have "length (sel_items ?st) = length decided"
    using len by (simp add: step drop_item_def split: option.split)
  with cores rest counts bounds iff verd exh show ?thesis unfolding sel_inv_def by blast
qed

lemma sel_inv_fold:
  assumes "distinct order" "\<forall>i\<in>set order. i < length decided \<and> it_drop (decided ! i) = None"
    and unselected: "\<forall>i<length decided. \<not> it_selected (decided ! i)"
  shows "sel_inv p decided order (foldl (select_step p first)
    \<lparr>sel_items = decided, sel_count = 0, sel_tokens = 0, sel_exhausted = False\<rparr> order)"
  using assms(1,2)
proof (induction order rule: rev_induct)
  case Nil
  show ?case by (simp add: sel_inv_def taken_def)
next
  case (snoc i order)
  then show ?case using unselected by (simp add: sel_inv_step subset_eq)
qed

definition sel_order :: "budget_policy \<Rightarrow> context_item list \<Rightarrow> nat list" where
  "sel_order p items = eligible_order p (triage p [] items)"

lemma select_items_inv:
  assumes "\<forall>x\<in>set items. \<not> it_selected x"
  obtains st where "select_items items p = (sel_items st, sel_exhausted st)"
    "sel_inv p (triage p [] items) (sel_order p items) st"
proof -
  have "\<forall>i<length (triage p [] items). \<not> it_selected (triage p [] items ! i)"
    using assms by (simp add: triage_nth)
  then have "sel_inv p (triage p [] items) (sel_order p items)
      (foldl (select_step p (first_indices_by_source (triage p [] items) (sel_order p items)))
        \<lparr>sel_items = triage p [] items, sel_count = 0, sel_tokens = 0, sel_exhausted = False\<rparr>
        (sel_order p items))"
    unfolding sel_order_def
    by (intro sel_inv_fold) (auto simp: set_eligible_order distinct_eligible_order)
  moreover have "select_items items p = (sel_items st, sel_exhausted st)"
    if "st = foldl (select_step p (first_indices_by_source (triage p [] items) (sel_order p items)))
        \<lparr>sel_items = triage p [] items, sel_count = 0, sel_tokens = 0, sel_exhausted = False\<rparr>
        (sel_order p items)" for st
    using that by (simp add: select_items_def sel_order_def Let_def)
  ultimately show ?thesis using that by blast
qed

subsection \<open>Counting by position\<close>

lemma length_filter_positions:
  "distinct ns \<Longrightarrow> \<forall>i<length xs. P (xs ! i) \<longrightarrow> i \<in> set ns \<Longrightarrow> \<forall>i\<in>set ns. i < length xs \<Longrightarrow>
   length (filter P xs) = length (filter (\<lambda>i. P (xs ! i)) ns)"
proof -
  assume a: "distinct ns" "\<forall>i<length xs. P (xs ! i) \<longrightarrow> i \<in> set ns" "\<forall>i\<in>set ns. i < length xs"
  then have "{i. i < length xs \<and> P (xs ! i)} = set (filter (\<lambda>i. P (xs ! i)) ns)" by auto
  then show ?thesis using a by (simp only: length_filter_conv_card distinct_card distinct_filter)
qed

lemma sum_filter_positions:
  "distinct ns \<Longrightarrow> \<forall>i<length xs. P (xs ! i) \<longrightarrow> i \<in> set ns \<Longrightarrow> \<forall>i\<in>set ns. i < length xs \<Longrightarrow>
   sum_list (map f (filter P xs)) = (\<Sum>i\<leftarrow>filter (\<lambda>i. P (xs ! i)) ns. (f (xs ! i) :: nat))"
proof -
  assume a: "distinct ns" "\<forall>i<length xs. P (xs ! i) \<longrightarrow> i \<in> set ns" "\<forall>i\<in>set ns. i < length xs"
  have "filter P xs = map (\<lambda>i. xs ! i) (filter (\<lambda>i. P (xs ! i)) [0..<length xs])"
    using filter_map[of P "\<lambda>i. xs ! i" "[0..<length xs]"] by (simp add: map_nth comp_def)
  then have "sum_list (map f (filter P xs)) = (\<Sum>i\<leftarrow>filter (\<lambda>i. P (xs ! i)) [0..<length xs]. f (xs ! i))"
    by (simp add: comp_def)
  also have "\<dots> = (\<Sum>i\<in>set (filter (\<lambda>i. P (xs ! i)) [0..<length xs]). f (xs ! i))"
    by (rule sum_list_distinct_conv_sum_set) simp
  also have "set (filter (\<lambda>i. P (xs ! i)) [0..<length xs]) = set (filter (\<lambda>i. P (xs ! i)) ns)"
    using a by auto
  also have "(\<Sum>i\<in>set (filter (\<lambda>i. P (xs ! i)) ns). f (xs ! i)) =
      (\<Sum>i\<leftarrow>filter (\<lambda>i. P (xs ! i)) ns. f (xs ! i))"
    using a by (simp add: sum_list_distinct_conv_sum_set)
  finally show ?thesis .
qed

subsection \<open>The decision\<close>

lemma make_item_fields:
  assumes "make_item c = Some x"
  shows "\<not> it_selected x" "it_run_item_id x = bc_run_item_id c" "it_chunk_id x = bc_chunk_id c"
    "it_group x \<noteq> []" "it_drop x = None"
  using assms by (auto simp: make_item_def sanitize_text_def Let_def split: option.splits if_splits)

lemma those_map_SomeD:
  "those (map f xs) = Some ys \<Longrightarrow> length ys = length xs \<and> (\<forall>i<length xs. f (xs ! i) = Some (ys ! i))"
proof (induction xs arbitrary: ys)
  case (Cons x xs)
  then obtain y zs where "f x = Some y" "those (map f xs) = Some zs" "ys = y # zs"
    by (auto split: option.splits)
  with Cons.IH[of zs] show ?case by (auto simp: nth_Cons split: nat.splits)
qed simp

lemma those_eq_None: "those (map f xs) = None \<longleftrightarrow> (\<exists>x\<in>set xs. f x = None)"
  by (induction xs) (auto split: option.splits)

lemma decision_fields:
  assumes "decision items p prompt strategy exhausted = Some d"
  shows "dec_items d = items" "dec_selected_ids d = map it_run_item_id (filter it_selected items)"
    "tr_policy (dec_trace d) = p" "tr_context_tokens (dec_trace d) = tokens_of (filter it_selected items)"
  using assms by (auto simp: decision_def Let_def split: option.splits)

text \<open>What the decision of an enabled budget rests on.\<close>

lemma budget_apply_enabled:
  assumes "budget_apply cands p prompt strategy = Some d" "pol_enabled p"
  obtains items st where "those (map make_item cands) = Some items"
    "sel_inv p (triage p [] items) (sel_order p items) st" "dec_items d = sel_items st"
    "decision (sel_items st) p prompt strategy (sel_exhausted st) = Some d"
    "\<forall>x\<in>set items. \<not> it_selected x"
proof -
  from assms obtain items where i: "those (map make_item cands) = Some items"
    by (auto simp: budget_apply_def split: option.splits)
  then have u: "\<forall>x\<in>set items. \<not> it_selected x"
    using those_map_SomeD[OF i] make_item_fields(1) by (metis in_set_conv_nth)
  then obtain st where s: "select_items items p = (sel_items st, sel_exhausted st)"
    "sel_inv p (triage p [] items) (sel_order p items) st" by (rule select_items_inv)
  then have dec: "decision (sel_items st) p prompt strategy (sel_exhausted st) = Some d"
    using assms i by (simp add: budget_apply_def)
  from that[OF i s(2) decision_fields(1)[OF dec] dec u] show ?thesis .
qed

lemma inv_item_fields:
  assumes "sel_inv p (triage p [] items) (sel_order p items) st" "i < length items"
  shows "it_tokens (sel_items st ! i) = it_tokens (items ! i)"
    "it_citation (sel_items st ! i) = it_citation (items ! i)"
    "it_chunk_id (sel_items st ! i) = it_chunk_id (items ! i)"
    "it_char_count (sel_items st ! i) = it_char_count (items ! i)"
    "it_run_item_id (sel_items st ! i) = it_run_item_id (items ! i)"
    "it_group (sel_items st ! i) = it_group (items ! i)"
proof -
  have "core (sel_items st ! i) = core (triage p [] items ! i)"
    using assms by (simp add: sel_inv_def)
  also have "\<dots> = core (items ! i)" using assms(2) by (simp add: triage_nth)
  finally have c: "core (sel_items st ! i) = core (items ! i)" .
  show "it_tokens (sel_items st ! i) = it_tokens (items ! i)"
    "it_citation (sel_items st ! i) = it_citation (items ! i)"
    "it_chunk_id (sel_items st ! i) = it_chunk_id (items ! i)"
    "it_char_count (sel_items st ! i) = it_char_count (items ! i)"
    "it_run_item_id (sel_items st ! i) = it_run_item_id (items ! i)"
    "it_group (sel_items st ! i) = it_group (items ! i)"
    by (rule core_fields[OF c])+
qed

lemma sel_order_iff:
  "i \<in> set (sel_order p items) \<longleftrightarrow> i < length items \<and>
     first_drop_reason p (map it_chunk_id (take i items)) (items ! i) = None"
  by (auto simp: sel_order_def set_eligible_order triage_nth first_drop_reason_def)

lemma not_in_order_item:
  assumes "sel_inv p (triage p [] items) (sel_order p items) st" "\<forall>x\<in>set items. \<not> it_selected x"
    and "i < length items" "i \<notin> set (sel_order p items)"
  shows "\<not> it_selected (sel_items st ! i)"
    "it_drop (sel_items st ! i) = first_drop_reason p (map it_chunk_id (take i items)) (items ! i)"
    "it_drop (sel_items st ! i) \<noteq> None"
proof -
  have e: "sel_items st ! i = triage p [] items ! i" using assms by (simp add: sel_inv_def)
  then show "\<not> it_selected (sel_items st ! i)" using assms by (simp add: triage_nth)
  show d: "it_drop (sel_items st ! i) = first_drop_reason p (map it_chunk_id (take i items)) (items ! i)"
    using e assms(3) by (simp add: triage_nth first_drop_reason_def)
  then show "it_drop (sel_items st ! i) \<noteq> None" using assms(3,4) by (simp add: sel_order_iff)
qed

lemma selected_in_order:
  assumes "sel_inv p (triage p [] items) (sel_order p items) st" "\<forall>x\<in>set items. \<not> it_selected x"
  shows "\<forall>i<length (sel_items st). it_selected (sel_items st ! i) \<longrightarrow> i \<in> set (sel_order p items)"
proof -
  have "length (sel_items st) = length items" using assms(1) by (simp add: sel_inv_def)
  then show ?thesis using not_in_order_item(1)[OF assms] by auto
qed

lemma order_below:
  assumes "sel_inv p (triage p [] items) (sel_order p items) st"
  shows "\<forall>i\<in>set (sel_order p items). i < length (sel_items st)"
  using assms by (auto simp: sel_inv_def sel_order_iff)

lemma distinct_sel_order: "distinct (sel_order p items)"
  by (simp add: sel_order_def distinct_eligible_order)

lemma selected_counts:
  assumes "sel_inv p (triage p [] items) (sel_order p items) st" "\<forall>x\<in>set items. \<not> it_selected x"
  shows "length (filter it_selected (sel_items st)) = sel_count st"
    "tokens_of (filter it_selected (sel_items st)) = sel_tokens st"
proof -
  note pos = distinct_sel_order[of p items] selected_in_order[OF assms] order_below[OF assms(1)]
  show "length (filter it_selected (sel_items st)) = sel_count st"
    using length_filter_positions[OF pos] assms(1) by (simp add: sel_inv_def taken_def)
  have "tokens_of (filter it_selected (sel_items st)) =
      (\<Sum>i\<leftarrow>taken st (sel_order p items). it_tokens (sel_items st ! i))"
    unfolding tokens_of_def taken_def by (rule sum_filter_positions[OF pos])
  also have "\<dots> = (\<Sum>i\<leftarrow>taken st (sel_order p items). it_tokens (triage p [] items ! i))"
  proof (intro arg_cong[of _ _ sum_list] map_cong refl)
    fix i assume "i \<in> set (taken st (sel_order p items))"
    then have "i < length items" by (simp add: taken_def sel_order_iff)
    then show "it_tokens (sel_items st ! i) = it_tokens (triage p [] items ! i)"
      by (simp add: inv_item_fields(1)[OF assms(1)] triage_nth)
  qed
  finally show "tokens_of (filter it_selected (sel_items st)) = sel_tokens st"
    using assms(1) by (simp add: sel_inv_def)
qed

lemma distinct_filter_positions:
  assumes "\<forall>i<length xs. \<forall>j<i. P (xs ! i) \<longrightarrow> f (xs ! j) \<noteq> f (xs ! i)"
  shows "distinct (map f (filter P xs))"
  using assms
proof (induction xs rule: rev_induct)
  case (snoc x xs)
  have "distinct (map f (filter P xs))"
    using snoc.prems by (intro snoc.IH) (auto simp: nth_append split: if_splits)
  moreover have "P x \<Longrightarrow> f x \<notin> f ` set xs"
    using snoc.prems[rule_format, of "length xs"] by (force simp: nth_append in_set_conv_nth)
  ultimately show ?case by auto
qed simp

subsection \<open>Counters and groups\<close>

lemma counter_sum: "sum_list (map snd (counter xs)) = length xs"
proof -
  have "sum_list (map snd (counter xs)) = (\<Sum>x\<in>set (uniq_first xs). count_list xs x)"
    by (simp add: counter_def comp_def sum_list_distinct_conv_sum_set)
  also have "\<dots> = length xs" by (simp add: sum_count_set)
  finally show ?thesis .
qed

lemma counter_map_of: "map_of (counter xs) x \<noteq> None \<longleftrightarrow> x \<in> set xs"
  by (auto simp: counter_def map_of_eq_None_iff image_iff)

lemma sum_by_key:
  "distinct ks \<Longrightarrow> g ` set xs \<subseteq> set ks \<Longrightarrow>
   (\<Sum>k\<leftarrow>ks. sum_list (map f (filter (\<lambda>x. g x = k) xs))) = (sum_list (map f xs) :: nat)"
proof (induction xs)
  case Nil
  show ?case by (induction ks) auto
next
  case (Cons x xs)
  have "(\<Sum>k\<leftarrow>ks. sum_list (map f (filter (\<lambda>x. g x = k) (x # xs)))) =
      (\<Sum>k\<leftarrow>ks. (if k = g x then f x else 0) + sum_list (map f (filter (\<lambda>x. g x = k) xs)))"
    by (intro arg_cong[of _ _ sum_list] map_cong) auto
  also have "\<dots> = (\<Sum>k\<leftarrow>ks. if k = g x then f x else 0) + sum_list (map f xs)"
    using Cons by (simp add: sum_list_addf)
  also have "(\<Sum>k\<leftarrow>ks. if k = g x then f x else 0) = f x"
    using Cons.prems by (simp add: sum_list_distinct_conv_sum_set)
  finally show ?case by simp
qed

lemma length_by_key:
  "distinct ks \<Longrightarrow> g ` set xs \<subseteq> set ks \<Longrightarrow>
   (\<Sum>k\<leftarrow>ks. length (filter (\<lambda>x. g x = k) xs)) = length xs"
  using sum_by_key[of ks g xs "\<lambda>_. 1"] by (simp add: sum_list_triv)

lemma source_summary_sums:
  assumes "source_summary items = Some sources"
  shows "sum_list (map sr_candidates sources) = length items"
    "sum_list (map sr_selected sources) = length (filter it_selected items)"
    "sum_list (map sr_dropped sources) = length (filter (\<lambda>x. \<not> it_selected x) items)"
    "sum_list (map sr_tokens sources) = tokens_of (filter it_selected items)"
proof -
  let ?ks = "sort (uniq_first (map it_group items))"
  let ?g = "\<lambda>P k. filter P (filter (\<lambda>x. it_group x = k) items)"
  have ks: "distinct ?ks" "\<And>P. it_group ` set (filter P items) \<subseteq> set ?ks" by auto
  have some: "length sources = length ?ks"
      "\<forall>i<length ?ks. make_source_ref items (?ks ! i) = Some (sources ! i)"
    using those_map_SomeD[of "make_source_ref items" ?ks sources] assms by (auto simp: source_summary_def)
  have maps: "map h sources = map g ?ks"
    if "\<And>k r. make_source_ref items k = Some r \<Longrightarrow> h r = g k" for h :: "source_ref \<Rightarrow> nat" and g
    by (rule nth_equalityI) (use some that in auto)
  have flt: "?g P k = filter (\<lambda>x. it_group x = k) (filter P items)" for P k
    by (simp add: conj_commute)
  have m: "map sr_candidates sources = map (\<lambda>k. length (filter (\<lambda>x. it_group x = k) items)) ?ks"
    "map sr_selected sources = map (\<lambda>k. length (?g it_selected k)) ?ks"
    "map sr_dropped sources = map (\<lambda>k. length (?g (\<lambda>x. \<not> it_selected x) k)) ?ks"
    "map sr_tokens sources = map (\<lambda>k. tokens_of (?g it_selected k)) ?ks"
    by (rule maps; auto simp: make_source_ref_def Let_def split: option.splits)+
  show "sum_list (map sr_candidates sources) = length items"
    unfolding m(1) by (rule length_by_key) (use ks ks(2)[of "\<lambda>_. True"] in auto)
  show "sum_list (map sr_selected sources) = length (filter it_selected items)"
    unfolding m(2) flt by (rule length_by_key[OF ks])
  show "sum_list (map sr_dropped sources) = length (filter (\<lambda>x. \<not> it_selected x) items)"
    unfolding m(3) flt by (rule length_by_key[OF ks])
  show "sum_list (map sr_tokens sources) = tokens_of (filter it_selected items)"
    unfolding m(4) flt tokens_of_def by (rule sum_by_key[OF ks])
qed

subsection \<open>When a decision is made at all\<close>

lemma make_item_group_again:
  "make_item c = Some x \<Longrightarrow> sanitize_text 255 (Some (it_group x)) \<noteq> None"
  using sanitize_text_again[of 255 "bc_group c" "it_group x"]
  by (auto simp: make_item_def Let_def split: option.splits)

lemma decision_total:
  assumes "\<forall>x\<in>set items. sanitize_text 255 (Some (it_group x)) \<noteq> None"
  shows "decision items p prompt strategy exhausted \<noteq> None"
proof -
  have "source_summary items \<noteq> None"
    using assms by (auto simp: source_summary_def those_eq_None make_source_ref_def Let_def split: option.splits)
  then show ?thesis by (auto simp: decision_def Let_def)
qed

lemma groups_kept:
  assumes "those (map make_item cands) = Some items" "x \<in> set items"
  shows "sanitize_text 255 (Some (it_group x)) \<noteq> None"
  using those_map_SomeD[OF assms(1)] assms(2) make_item_group_again by (metis in_set_conv_nth)

lemma make_item_None: "make_item c = None \<longleftrightarrow> list_all blank_char (bc_group c)"
  using sanitize_text_None[of 255 "bc_group c"] by (auto simp: make_item_def Let_def split: option.splits)

lemma budget_apply_total:
  "budget_apply cands p prompt strategy \<noteq> None \<longleftrightarrow> (\<forall>c\<in>set cands. \<not> list_all blank_char (bc_group c))"
proof (cases "those (map make_item cands)")
  case None
  then have "\<exists>c\<in>set cands. list_all blank_char (bc_group c)"
    by (simp add: those_eq_None make_item_None)
  moreover have "budget_apply cands p prompt strategy = None" using None by (simp add: budget_apply_def)
  ultimately show ?thesis by auto
next
  case (Some items)
  have blank: "\<forall>c\<in>set cands. \<not> list_all blank_char (bc_group c)"
    using Some those_eq_None[of make_item cands] by (auto simp: make_item_None)
  have u: "\<forall>x\<in>set items. \<not> it_selected x"
    using those_map_SomeD[OF Some] make_item_fields(1) by (metis in_set_conv_nth)
  obtain st where s: "select_items items p = (sel_items st, sel_exhausted st)"
    "sel_inv p (triage p [] items) (sel_order p items) st" using u by (rule select_items_inv)
  have "\<forall>x\<in>set (sel_items st). sanitize_text 255 (Some (it_group x)) \<noteq> None"
  proof
    fix x assume "x \<in> set (sel_items st)"
    then obtain i where i: "i < length items" "x = sel_items st ! i"
      using s(2) by (auto simp: in_set_conv_nth sel_inv_def)
    then show "sanitize_text 255 (Some (it_group x)) \<noteq> None"
      using inv_item_fields(6)[OF s(2) i(1)] groups_kept[OF Some, of "items ! i"] by simp
  qed
  moreover have "\<forall>x\<in>set (disabled_items items). sanitize_text 255 (Some (it_group x)) \<noteq> None"
    using groups_kept[OF Some] by (auto simp: disabled_items_def Let_def)
  ultimately show ?thesis using blank Some s(1) decision_total by (simp add: budget_apply_def)
qed

definition ex_candidate :: "int \<Rightarrow> string \<Rightarrow> string \<Rightarrow> bool \<Rightarrow> budget_candidate" where
  "ex_candidate i source text citation = \<lparr>bc_run_item_id = i, bc_chunk_id = i mod 10,
     bc_source_label = Some source, bc_section_title = None, bc_page_from = None, bc_page_to = None,
     bc_score = None, bc_rank = Some i, bc_rerank_score = None, bc_rerank_order = None,
     bc_text = Some text, bc_citation = citation, bc_group = source, bc_retrieval_source = None\<rparr>"

definition ex_policy :: budget_policy where
  "ex_policy = \<lparr>pol_enabled = True, pol_max_context_tokens = 8, pol_reserve_answer_tokens = 3,
     pol_max_items = 2, pol_max_tokens_per_item = 4, pol_min_citations = 1,
     pol_drop_low_score_first = True, pol_preserve_diversity = True\<rparr>"

definition ex_candidates :: "budget_candidate list" where
  "ex_candidates = [ex_candidate 1 ''a'' ''one two three'' True, ex_candidate 11 ''a'' ''again'' True,
     ex_candidate 2 ''b'' ''four'' True, ex_candidate 3 ''b'' ''five'' True]"


lemma ex_policy_ok: "policy_ok ex_policy" "pol_enabled ex_policy"
  by (simp_all add: ex_policy_def policy_ok_def)

lemma ex_groups: "\<forall>c\<in>set ex_candidates. \<not> list_all blank_char (bc_group c)"
  by (simp add: ex_candidates_def ex_candidate_def blank_char_def py_isspace_def code_point_def nul_char_def)

lemma ex_decision:
  obtains d where "budget_apply ex_candidates ex_policy 5 None = Some d"
  using budget_apply_total[of ex_candidates ex_policy 5 None] ex_groups by auto

subsection \<open>The theorems\<close>

text \<open>
  C37: The budget is respected: an enabled budget with a valid policy selects at most the
  configured number of items, their estimated tokens and the answer's reserve fit the context
  window, each selected item has a text within the limit of an item, and no chunk is selected
  twice. Every candidate keeps its place and is either selected or dropped for a reason.
\<close>

theorem context_budget_is_respected:
  assumes "budget_apply cands p prompt strategy = Some d" "pol_enabled p" "policy_ok p"
  shows "length (filter it_selected (dec_items d)) \<le> pol_max_items p \<and>
    tokens_of (filter it_selected (dec_items d)) + pol_reserve_answer_tokens p \<le> pol_max_context_tokens p \<and>
    (\<forall>x\<in>set (dec_items d). it_selected x \<longrightarrow>
       it_tokens x \<le> pol_max_tokens_per_item p \<and> 0 < it_char_count x) \<and>
    distinct (map it_chunk_id (filter it_selected (dec_items d))) \<and>
    map it_run_item_id (dec_items d) = map bc_run_item_id cands \<and>
    (\<forall>x\<in>set (dec_items d). it_selected x \<longleftrightarrow> it_drop x = None)"
proof -
  obtain items st where items: "those (map make_item cands) = Some items"
    and inv: "sel_inv p (triage p [] items) (sel_order p items) st" and d: "dec_items d = sel_items st"
    and u: "\<forall>x\<in>set items. \<not> it_selected x"
    using assms(1,2) by (rule budget_apply_enabled)
  have len: "length (sel_items st) = length items" using inv by (simp add: sel_inv_def)
  note in_order = selected_in_order[OF inv u]
  have count: "length (filter it_selected (sel_items st)) \<le> pol_max_items p"
    "tokens_of (filter it_selected (sel_items st)) \<le> effective_limit p"
    unfolding selected_counts[OF inv u] using inv by (simp_all add: sel_inv_def)
  have fits: "it_tokens (sel_items st ! i) \<le> pol_max_tokens_per_item p \<and> 0 < it_char_count (sel_items st ! i)"
    if "i < length items" "it_selected (sel_items st ! i)" for i
    using that in_order len inv_item_fields[OF inv that(1)]
    by (auto simp: sel_order_iff first_drop_reason_def split: if_splits)
  have "it_chunk_id (sel_items st ! j) \<noteq> it_chunk_id (sel_items st ! i)"
    if "i < length (sel_items st)" "j < i" "it_selected (sel_items st ! i)" for i j
  proof -
    have "it_chunk_id (items ! i) \<notin> set (map it_chunk_id (take i items))"
      using that in_order len by (auto simp: sel_order_iff first_drop_reason_def split: if_splits)
    moreover have "items ! j \<in> set (take i items)"
      using that len by (metis in_set_conv_nth length_take min.absorb2 nat_less_le nth_take)
    then have "it_chunk_id (items ! j) \<in> set (map it_chunk_id (take i items))" by simp
    ultimately show ?thesis using that len inv_item_fields(3)[OF inv] by auto
  qed
  then have "distinct (map it_chunk_id (filter it_selected (sel_items st)))"
    by (intro distinct_filter_positions) auto
  moreover have "map it_run_item_id (sel_items st) = map bc_run_item_id cands"
    using those_map_SomeD[OF items] len make_item_fields(2) inv_item_fields(5)[OF inv]
    by (intro nth_equalityI) auto
  moreover have "it_selected (sel_items st ! i) \<longleftrightarrow> it_drop (sel_items st ! i) = None"
    if "i < length items" for i
    using that inv not_in_order_item[OF inv u that] by (cases "i \<in> set (sel_order p items)") (auto simp: sel_inv_def)
  moreover have "tokens_of (filter it_selected (sel_items st)) + pol_reserve_answer_tokens p \<le> pol_max_context_tokens p"
    using count(2) assms(3) unfolding effective_limit_def policy_ok_def by linarith
  ultimately show ?thesis using count(1) fits len d by (simp add: all_set_conv_all_nth)
qed

theorem context_budget_is_respected_witness:
  "\<exists>d. budget_apply ex_candidates ex_policy 5 None = Some d \<and>
    length (filter it_selected (dec_items d)) \<le> 2 \<and> tokens_of (filter it_selected (dec_items d)) + 3 \<le> 8"
proof -
  obtain d where d: "budget_apply ex_candidates ex_policy 5 None = Some d" by (rule ex_decision)
  from context_budget_is_respected[OF d ex_policy_ok(2,1)] d show ?thesis by (auto simp: ex_policy_def)
qed

text \<open>
  The selection is the greedy one, and each drop reason tells the truth: an item is
  dropped at once exactly as a repeated chunk, an empty text or a text above the limit of an
  item; the other items are judged one after the other, all citation candidates before all
  others and, without source diversity, best score first, by whether the number of items, the
  required number of citation candidates and the token budget leave room after the items
  taken before.
\<close>

theorem context_selection_is_greedy:
  assumes "budget_apply cands p prompt strategy = Some d" "pol_enabled p"
    and "those (map make_item cands) = Some items"
  shows "length (dec_items d) = length items \<and> distinct (sel_order p items) \<and>
    (\<forall>i<length items. i \<in> set (sel_order p items) \<longleftrightarrow>
       first_drop_reason p (map it_chunk_id (take i items)) (items ! i) = None) \<and>
    (\<forall>i<length items. i \<notin> set (sel_order p items) \<longrightarrow> it_drop (dec_items d ! i) =
       first_drop_reason p (map it_chunk_id (take i items)) (items ! i)) \<and>
    (\<forall>k<length (sel_order p items).
       let before = filter (\<lambda>i. it_selected (dec_items d ! i)) (take k (sel_order p items))
       in it_drop (dec_items d ! (sel_order p items ! k)) =
          verdict p (length before) (\<Sum>i\<leftarrow>before. it_tokens (items ! i)) (items ! (sel_order p items ! k))) \<and>
    sorted_wrt (\<lambda>i j. it_citation (items ! j) \<longrightarrow> it_citation (items ! i)) (sel_order p items) \<and>
    (pol_drop_low_score_first p \<and> \<not> pol_preserve_diversity p \<longrightarrow>
       sorted_wrt (\<lambda>i j. it_citation (items ! i) = it_citation (items ! j) \<longrightarrow>
         score_order (items ! i) \<le> score_order (items ! j)) (sel_order p items))"
proof -
  obtain st where inv: "sel_inv p (triage p [] items) (sel_order p items) st"
    and d: "dec_items d = sel_items st" and u: "\<forall>x\<in>set items. \<not> it_selected x"
    using budget_apply_enabled[OF assms(1,2)] assms(3) by (metis option.inject)
  let ?D = "triage p [] items" and ?order = "sel_order p items"
  have nth: "i < length items \<Longrightarrow> core (?D ! i) = core (items ! i)" for i by (simp add: triage_nth)
  have toks: "(\<Sum>i\<leftarrow>xs. it_tokens (?D ! i)) = (\<Sum>i\<leftarrow>xs. it_tokens (items ! i))"
    if "set xs \<subseteq> set ?order" for xs
    using that by (intro arg_cong[of _ _ sum_list] map_cong) (auto simp: sel_order_iff triage_nth)
  have judged: "let before = filter (\<lambda>i. it_selected (dec_items d ! i)) (take k ?order)
       in it_drop (dec_items d ! (?order ! k)) =
          verdict p (length before) (\<Sum>i\<leftarrow>before. it_tokens (items ! i)) (items ! (?order ! k))"
    if "k < length ?order" for k
  proof -
    have "?order ! k < length items" using that nth_mem sel_order_iff by blast
    then have "verdict p n m (?D ! (?order ! k)) = verdict p n m (items ! (?order ! k))" for n m
      using verdict_core nth by blast
    moreover have "set (taken st (take k ?order)) \<subseteq> set ?order"
      by (auto simp: taken_def dest: in_set_takeD)
    ultimately show ?thesis using inv that toks by (simp add: sel_inv_def d taken_def Let_def)
  qed
  have cit: "set (selection_order ?D (filter P (filter Q [0..<length ?D])) p) \<subseteq> {i. P i \<and> i < length items}" for P Q
    by auto
  have same: "i < length items \<Longrightarrow> it_citation (?D ! i) = it_citation (items ! i) \<and>
      score_order (?D ! i) = score_order (items ! i)" for i
    by (simp add: triage_nth score_order_def split: option.split)
  have cits: "sorted_wrt (\<lambda>i j. it_citation (items ! j) \<longrightarrow> it_citation (items ! i)) ?order"
  proof -
    have all: "sorted_wrt (\<lambda>i j. it_citation (items ! j) \<longrightarrow> it_citation (items ! i)) xs"
      if "(\<forall>i\<in>set xs. it_citation (items ! i)) \<or> (\<forall>i\<in>set xs. \<not> it_citation (items ! i))" for xs
      using that by (induction xs) auto
    show ?thesis unfolding sel_order_def eligible_order_def Let_def sorted_wrt_append
      using same by (intro conjI all) (auto simp: triage_nth)
  qed
  have ranks: "pol_drop_low_score_first p \<and> \<not> pol_preserve_diversity p \<longrightarrow>
      sorted_wrt (\<lambda>i j. it_citation (items ! i) = it_citation (items ! j) \<longrightarrow>
        score_order (items ! i) \<le> score_order (items ! j)) ?order"
  proof
    assume s: "pol_drop_low_score_first p \<and> \<not> pol_preserve_diversity p"
    have srt: "sorted_wrt (\<lambda>i j. it_citation (items ! i) = it_citation (items ! j) \<longrightarrow>
        score_order (items ! i) \<le> score_order (items ! j)) (selection_order ?D xs p)"
      if "\<forall>i\<in>set xs. i < length items" for xs
    proof -
      have "sorted (map (\<lambda>i. score_order (?D ! i)) (selection_order ?D xs p))"
        using s by (simp add: selection_order_def)
      then have "sorted_wrt (\<lambda>i j. score_order (?D ! i) \<le> score_order (?D ! j)) (selection_order ?D xs p)"
        by (simp add: sorted_map)
      then show ?thesis using that same by (rule_tac sorted_wrt_mono_rel) auto
    qed
    show "sorted_wrt (\<lambda>i j. it_citation (items ! i) = it_citation (items ! j) \<longrightarrow>
        score_order (items ! i) \<le> score_order (items ! j)) ?order"
      unfolding sel_order_def eligible_order_def Let_def sorted_wrt_append
      using same by (intro conjI srt) (auto simp: triage_nth)
  qed
  have len: "length (dec_items d) = length items" using inv d by (simp add: sel_inv_def)
  have place: "\<forall>i<length items. i \<in> set ?order \<longleftrightarrow>
      first_drop_reason p (map it_chunk_id (take i items)) (items ! i) = None"
    by (simp add: sel_order_iff)
  have early: "\<forall>i<length items. i \<notin> set ?order \<longrightarrow>
      it_drop (dec_items d ! i) = first_drop_reason p (map it_chunk_id (take i items)) (items ! i)"
    using not_in_order_item(2)[OF inv u] d by simp
  show ?thesis using len distinct_sel_order[of p items] place early judged cits ranks
    by (intro conjI allI impI) (assumption | simp)+
qed

theorem context_selection_is_greedy_witness:
  "\<exists>d items. budget_apply ex_candidates ex_policy 5 None = Some d \<and>
    those (map make_item ex_candidates) = Some items \<and> distinct (sel_order ex_policy items) \<and>
    length (dec_items d) = length items"
proof -
  obtain d where d: "budget_apply ex_candidates ex_policy 5 None = Some d" by (rule ex_decision)
  then obtain items where "those (map make_item ex_candidates) = Some items"
    by (auto simp: budget_apply_def split: option.splits)
  with context_selection_is_greedy[OF d ex_policy_ok(2)] d show ?thesis by blast
qed

lemma decision_trace:
  assumes "decision items p prompt strategy exhausted = Some d"
  shows "tr_candidate_count (dec_trace d) = length items"
    "tr_selected_count (dec_trace d) = length (filter it_selected items)"
    "tr_dropped_count (dec_trace d) = length (filter (\<lambda>x. \<not> it_selected x) items)"
    "sum_list (map snd (tr_drop_reasons (dec_trace d))) = tr_dropped_count (dec_trace d)"
    "source_summary items = Some (tr_sources (dec_trace d))"
    "tr_exhausted (dec_trace d) \<longleftrightarrow> exhausted \<or> (\<exists>x\<in>set items. \<not> it_selected x \<and> it_drop x = Some OverBudget)"
    "tr_remaining_tokens (dec_trace d) = effective_limit p - tr_context_tokens (dec_trace d)"
    "tr_input_tokens (dec_trace d) = nat prompt + tr_context_tokens (dec_trace d)"
    "tr_prompt_tokens (dec_trace d) = nat prompt" "tr_strategy (dec_trace d) = strategy"
proof -
  obtain sources where s: "source_summary items = Some sources"
    using assms by (auto simp: decision_def Let_def split: option.splits)
  have r: "drop_or_unknown x = OverBudget \<longleftrightarrow> it_drop x = Some OverBudget" for x
    by (simp add: drop_or_unknown_def split: option.split)
  have "map_of (counter (map drop_or_unknown (filter (\<lambda>x. \<not> it_selected x) items))) OverBudget \<noteq> None \<longleftrightarrow>
      (\<exists>x\<in>set items. \<not> it_selected x \<and> it_drop x = Some OverBudget)"
    unfolding counter_map_of using r by force
  with assms s show "tr_exhausted (dec_trace d) \<longleftrightarrow>
      exhausted \<or> (\<exists>x\<in>set items. \<not> it_selected x \<and> it_drop x = Some OverBudget)"
    by (auto simp: decision_def Let_def)
  show "tr_candidate_count (dec_trace d) = length items"
    "tr_selected_count (dec_trace d) = length (filter it_selected items)"
    "tr_dropped_count (dec_trace d) = length (filter (\<lambda>x. \<not> it_selected x) items)"
    "sum_list (map snd (tr_drop_reasons (dec_trace d))) = tr_dropped_count (dec_trace d)"
    "source_summary items = Some (tr_sources (dec_trace d))"
    "tr_remaining_tokens (dec_trace d) = effective_limit p - tr_context_tokens (dec_trace d)"
    "tr_input_tokens (dec_trace d) = nat prompt + tr_context_tokens (dec_trace d)"
    "tr_prompt_tokens (dec_trace d) = nat prompt" "tr_strategy (dec_trace d) = strategy"
    using assms s counter_sum[of "map drop_or_unknown (filter (\<lambda>x. \<not> it_selected x) items)"]
    by (auto simp: decision_def Let_def)
qed

lemma budget_apply_decision:
  assumes "budget_apply cands p prompt strategy = Some d"
  obtains exhausted where "decision (dec_items d) p prompt strategy exhausted = Some d"
    "length (dec_items d) = length cands"
    "exhausted \<longrightarrow> (\<exists>x\<in>set (dec_items d). \<not> it_selected x \<and> it_drop x = Some OverBudget)"
proof (cases "pol_enabled p")
  case True
  then obtain items st where items: "those (map make_item cands) = Some items"
    and inv: "sel_inv p (triage p [] items) (sel_order p items) st" and d: "dec_items d = sel_items st"
      "decision (sel_items st) p prompt strategy (sel_exhausted st) = Some d"
    using assms budget_apply_enabled by metis
  have "\<exists>x\<in>set (dec_items d). \<not> it_selected x \<and> it_drop x = Some OverBudget" if ex: "sel_exhausted st"
  proof -
    obtain i where i: "i \<in> set (sel_order p items)" "it_drop (sel_items st ! i) = Some OverBudget"
      using inv ex by (auto simp: sel_inv_def)
    then have "\<not> it_selected (sel_items st ! i)" using inv by (auto simp: sel_inv_def)
    then show ?thesis using i order_below[OF inv] d(1) nth_mem by metis
  qed
  moreover have "length (dec_items d) = length cands"
    using inv those_map_SomeD[OF items] d(1) by (simp add: sel_inv_def)
  ultimately show ?thesis using that[of "sel_exhausted st"] d by simp
next
  case False
  with assms obtain items where i: "those (map make_item cands) = Some items"
    "decision (disabled_items items) p prompt strategy False = Some d"
    by (auto simp: budget_apply_def split: option.splits)
  then have "dec_items d = disabled_items items" by (simp add: decision_fields)
  moreover from this have "length (dec_items d) = length cands"
    using those_map_SomeD[OF i(1)] by (simp add: disabled_items_def Let_def)
  ultimately show ?thesis using that[of False] i(2) by simp
qed

text \<open>
  The trace accounts for every candidate: selected and dropped items, the counts of the
  drop reasons and the counts and tokens of the sources add up to the candidates; the budget
  is reported as exhausted exactly when an item was dropped for its tokens; and a decision is
  refused only for a candidate whose source key is blank.
\<close>

theorem budget_trace_accounts_for_every_candidate:
  assumes "budget_apply cands p prompt strategy = Some d"
  shows "(\<forall>c\<in>set cands. \<not> list_all blank_char (bc_group c)) \<and>
    tr_candidate_count (dec_trace d) = length cands \<and>
    tr_selected_count (dec_trace d) + tr_dropped_count (dec_trace d) = length cands \<and>
    tr_selected_count (dec_trace d) = length (dec_selected_ids d) \<and>
    dec_selected_ids d = map it_run_item_id (filter it_selected (dec_items d)) \<and>
    sum_list (map snd (tr_drop_reasons (dec_trace d))) = tr_dropped_count (dec_trace d) \<and>
    sum_list (map sr_candidates (tr_sources (dec_trace d))) = length cands \<and>
    sum_list (map sr_selected (tr_sources (dec_trace d))) = tr_selected_count (dec_trace d) \<and>
    sum_list (map sr_dropped (tr_sources (dec_trace d))) = tr_dropped_count (dec_trace d) \<and>
    sum_list (map sr_tokens (tr_sources (dec_trace d))) = tr_context_tokens (dec_trace d) \<and>
    tr_input_tokens (dec_trace d) = tr_prompt_tokens (dec_trace d) + tr_context_tokens (dec_trace d) \<and>
    (tr_exhausted (dec_trace d) \<longleftrightarrow>
       (\<exists>x\<in>set (dec_items d). \<not> it_selected x \<and> it_drop x = Some OverBudget))"
proof -
  obtain exhausted where dec: "decision (dec_items d) p prompt strategy exhausted = Some d"
    and len: "length (dec_items d) = length cands"
    and ex: "exhausted \<longrightarrow> (\<exists>x\<in>set (dec_items d). \<not> it_selected x \<and> it_drop x = Some OverBudget)"
    using assms by (rule budget_apply_decision)
  note tr = decision_trace[OF dec]
  have "length (filter it_selected (dec_items d)) + length (filter (\<lambda>x. \<not> it_selected x) (dec_items d)) =
      length cands" using sum_length_filter_compl[of it_selected "dec_items d"] len by simp
  moreover have "\<forall>c\<in>set cands. \<not> list_all blank_char (bc_group c)"
    using assms budget_apply_total[of cands p prompt strategy] by simp
  ultimately show ?thesis
    using tr len ex source_summary_sums[OF tr(5)] decision_fields[OF dec] by auto
qed

theorem budget_trace_accounts_for_every_candidate_witness:
  "\<exists>d. budget_apply ex_candidates ex_policy 5 None = Some d \<and>
    tr_selected_count (dec_trace d) + tr_dropped_count (dec_trace d) = 4"
proof -
  obtain d where d: "budget_apply ex_candidates ex_policy 5 None = Some d" by (rule ex_decision)
  from budget_trace_accounts_for_every_candidate[OF d] d show ?thesis by (auto simp: ex_candidates_def)
qed

lemma tokens_of_filter_le: "tokens_of (filter P xs) \<le> tokens_of xs"
  by (induction xs) (auto simp: tokens_of_def)

lemma finalize_item_fields [simp]:
  "it_run_item_id (finalize_item ids r x) = it_run_item_id x" "it_tokens (finalize_item ids r x) = it_tokens x"
  "it_group (finalize_item ids r x) = it_group x"
  "it_selected (finalize_item ids r x) \<longleftrightarrow> it_run_item_id x \<in> ids"
  by (simp_all add: finalize_item_def)

text \<open>With distinct identifiers, keeping a part of the selected ones selects no other item.\<close>

lemma narrowed_filter:
  assumes "distinct (map it_run_item_id xs)" "ids \<subseteq> it_run_item_id ` set (filter it_selected xs)"
  shows "filter (\<lambda>x. it_run_item_id x \<in> ids) xs = filter (\<lambda>x. it_run_item_id x \<in> ids) (filter it_selected xs)"
proof -
  have "it_selected x" if x: "x \<in> set xs" "it_run_item_id x \<in> ids" for x
  proof -
    obtain y where "y \<in> set xs" "it_selected y" "it_run_item_id y = it_run_item_id x"
      using assms(2) x(2) by auto
    then show ?thesis using assms(1) x(1) by (metis distinct_map inj_onD)
  qed
  then show ?thesis by (auto intro!: filter_cong)
qed

lemma finalized_tokens:
  "tokens_of (filter it_selected (map (finalize_item ids r) xs)) = tokens_of (filter (\<lambda>x. it_run_item_id x \<in> ids) xs)"
  by (simp add: filter_map comp_def tokens_of_def)

lemma inv_limits:
  "sel_inv p decided order st \<Longrightarrow> sel_count st \<le> pol_max_items p \<and> sel_tokens st \<le> effective_limit p"
  by (simp add: sel_inv_def)

lemma selected_iff_no_drop:
  assumes "sel_inv p (triage p [] items) (sel_order p items) st" "\<forall>x\<in>set items. \<not> it_selected x"
    and "x \<in> set (sel_items st)"
  shows "it_selected x \<longleftrightarrow> it_drop x = None"
proof -
  obtain i where i: "i < length items" "x = sel_items st ! i"
    using assms(1,3) unfolding sel_inv_def in_set_conv_nth by auto
  then show ?thesis using assms(1) not_in_order_item[OF assms(1,2) i(1)]
    by (cases "i \<in> set (sel_order p items)") (auto simp: sel_inv_def)
qed

text \<open>
  Narrowing a decision keeps it within the budget: finalizing an enabled decision with a
  part of the selected identifiers succeeds, selects precisely that part, drops the others
  of the selected items for the given reason and leaves the earlier drop reasons; the limits
  still hold, and finalizing again with the same identifiers changes nothing.
\<close>

theorem finalized_selection_stays_within_budget:
  assumes "budget_apply cands p prompt strategy = Some d" "pol_enabled p" "policy_ok p"
    and "distinct (map bc_run_item_id cands)" "ids \<subseteq> set (dec_selected_ids d)"
  shows "\<exists>d'. finalize_selection d ids r = Some d' \<and> set (dec_selected_ids d') = ids \<and>
    length (dec_selected_ids d') \<le> pol_max_items p \<and>
    tr_context_tokens (dec_trace d') \<le> effective_limit p \<and>
    (\<forall>i<length (dec_items d). it_drop (dec_items d' ! i) =
       (if it_run_item_id (dec_items d ! i) \<in> ids then None
        else if it_selected (dec_items d ! i) then Some r else it_drop (dec_items d ! i))) \<and>
    finalize_selection d' ids r' = Some d'"
proof -
  obtain items st where items: "those (map make_item cands) = Some items"
    and inv: "sel_inv p (triage p [] items) (sel_order p items) st" and d: "dec_items d = sel_items st"
    and dec: "decision (sel_items st) p prompt strategy (sel_exhausted st) = Some d"
    and u: "\<forall>x\<in>set items. \<not> it_selected x"
    using assms(1,2) by (rule budget_apply_enabled)
  note old = decision_fields[OF dec] decision_trace(9,10)[OF dec]
  let ?xs = "sel_items st" and ?keep = "\<lambda>x. it_run_item_id x \<in> ids"
  have len: "length ?xs = length items" using inv by (simp add: sel_inv_def)
  have "map it_run_item_id ?xs = map bc_run_item_id cands"
    using those_map_SomeD[OF items] len make_item_fields(2) inv_item_fields(5)[OF inv]
    by (intro nth_equalityI) auto
  then have dist: "distinct (map it_run_item_id ?xs)" using assms(4) by simp
  have sub: "ids \<subseteq> it_run_item_id ` set (filter it_selected ?xs)" using assms(5) old(2) by simp
  note narrow = narrowed_filter[OF dist sub]
  have limits: "length (filter ?keep ?xs) \<le> pol_max_items p" "tokens_of (filter ?keep ?xs) \<le> effective_limit p"
    unfolding narrow using selected_counts[OF inv u] inv_limits[OF inv]
      length_filter_le[of ?keep "filter it_selected ?xs"] tokens_of_filter_le[of ?keep "filter it_selected ?xs"]
    by linarith+
  have drop: "it_selected x \<longleftrightarrow> it_drop x = None" if "x \<in> set ?xs" for x
    using selected_iff_no_drop[OF inv u that] .
  show ?thesis
  proof (cases "set (dec_selected_ids d) = ids")
    case True
    have keeps: "it_selected x \<longleftrightarrow> ?keep x" if "x \<in> set ?xs" for x
    proof -
      have "?keep x \<longrightarrow> x \<in> set (filter ?keep ?xs)" using that by simp
      then show ?thesis unfolding narrow using True old(2) that by auto
    qed
    then have eq: "filter it_selected ?xs = filter ?keep ?xs" by (simp cong: filter_cong)
    have "\<forall>i<length (dec_items d). it_drop (dec_items d ! i) = (if ?keep (dec_items d ! i) then None
        else if it_selected (dec_items d ! i) then Some r else it_drop (dec_items d ! i))"
    proof (intro allI impI)
      fix i assume "i < length (dec_items d)"
      then show "it_drop (dec_items d ! i) = (if ?keep (dec_items d ! i) then None
          else if it_selected (dec_items d ! i) then Some r else it_drop (dec_items d ! i))"
        using drop[of "?xs ! i"] keeps[of "?xs ! i"] by (auto simp: d)
    qed
    moreover have "finalize_selection d ids q = Some d" for q using True by (simp add: finalize_selection_def)
    moreover have "length (dec_selected_ids d) \<le> pol_max_items p" "tr_context_tokens (dec_trace d) \<le> effective_limit p"
      using limits old(2,4) by (simp_all add: eq)
    ultimately show ?thesis using True by (intro exI[of _ d] conjI) assumption+
  next
    case False
    let ?ys = "map (finalize_item ids r) ?xs"
    have "\<forall>x\<in>set ?ys. sanitize_text 255 (Some (it_group x)) \<noteq> None"
    proof
      fix y assume "y \<in> set ?ys"
      then obtain i where i: "i < length items" "it_group y = it_group (?xs ! i)"
        using len by (auto simp: in_set_conv_nth)
      then show "sanitize_text 255 (Some (it_group y)) \<noteq> None"
        using inv_item_fields(6)[OF inv i(1)] groups_kept[OF items, of "items ! i"] by simp
    qed
    then obtain d' where d': "decision ?ys p (int (tr_prompt_tokens (dec_trace d))) strategy True = Some d'"
      using decision_total by blast
    then have fin: "finalize_selection d ids r = Some d'"
      using False old assms(3) d by (simp add: finalize_selection_def)
    note new = decision_fields[OF d']
    have ids': "dec_selected_ids d' = map it_run_item_id (filter ?keep ?xs)"
      using new(2) by (simp add: filter_map comp_def)
    have "set (dec_selected_ids d') = ids" using sub unfolding ids' by auto
    moreover from this have "finalize_selection d' ids r' = Some d'" by (simp add: finalize_selection_def)
    moreover have "tr_context_tokens (dec_trace d') = tokens_of (filter ?keep ?xs)"
      using new(4) by (simp add: finalized_tokens)
    moreover have "it_drop (dec_items d' ! i) = (if ?keep (dec_items d ! i) then None
        else if it_selected (dec_items d ! i) then Some r else it_drop (dec_items d ! i))"
      if "i < length (dec_items d)" for i
      using that new(1) d drop[of "?xs ! i"]
      by (auto simp: finalize_item_def drop_or_unknown_def split: option.split)
    ultimately show ?thesis using fin limits ids' by auto
  qed
qed

theorem finalized_selection_stays_within_budget_witness:
  "\<exists>d d'. budget_apply ex_candidates ex_policy 5 None = Some d \<and>
    finalize_selection d {} OverBudget = Some d' \<and> dec_selected_ids d' = []"
proof -
  obtain d where d: "budget_apply ex_candidates ex_policy 5 None = Some d" by (rule ex_decision)
  have "distinct (map bc_run_item_id ex_candidates)" by (simp add: ex_candidates_def ex_candidate_def)
  from finalized_selection_stays_within_budget[OF d ex_policy_ok(2,1) this empty_subsetI, of OverBudget OverBudget] d
  show ?thesis by auto
qed

end
