(* ===== verification/Metrics.thy ===== *)
theory Metrics
  imports Py_Prelude
begin

section \<open>The evaluation metrics of an answer\<close>

text \<open>
  \<open>evaluation/metrics.py\<close>: the metrics of one evaluation case from the answer, its
  citations and the retrieved chunks. The hashes of the question and of the case (SHA-256
  over JSON) are functions given to the calculation. A metric that does not apply has no
  score; a division by a rank of zero is out of reach, because ranks start at one in the
  tables the items come from, and is the hypothesis of the theorems.
\<close>

record eval_case =
  ec_case_id :: string
  ec_question :: string
  ec_keywords :: "string list"
  ec_required_citation :: bool
  ec_answer :: "string option"
  ec_document_ids :: "int list"
  ec_chunk_ids :: "int list"
  ec_tags :: "string list"
  ec_metadata :: "pyval pydict option"

record ask_citation =
  ac_citation_id :: int
  ac_local_id :: int
  ac_chunk_id :: int
  ac_source_label :: string
  ac_snippet :: string
  ac_page_from :: "int option"
  ac_page_to :: "int option"
  ac_section_title :: "string option"
  ac_old_version :: bool

record ask_confidence =
  acf_answer :: rat
  acf_groundedness :: rat
  acf_label :: string
  acf_basis :: string

record score_summary =
  rs_requested_top_k :: int
  rs_dense_candidates :: int
  rs_sparse_candidates :: "int option"
  rs_post_filter :: int
  rs_selected :: int
  rs_excluded :: int
  rs_top1_retrieval :: "rat option"
  rs_top3_retrieval :: "rat option"
  rs_top1_rerank :: "rat option"

record retrieved_item =
  ri_chunk_id :: int
  ri_document_id :: "int option"
  ri_rank :: int
  ri_snippet :: string

record metric_inputs =
  mi_case :: eval_case
  mi_answer :: string
  mi_citations :: "ask_citation list"
  mi_confidence :: "ask_confidence option"
  mi_summary :: "score_summary option"
  mi_retrieved :: "retrieved_item list option"
  mi_latency_ms :: "int option"
  mi_error_code :: "string option"

record metric_value =
  mv_name :: string
  mv_score :: "rat option"
  mv_label :: "string option"
  mv_details :: "pyval pydict"
  mv_value :: "rat option"

definition SCHEMA_VERSION :: "string \<times> pyval" where
  "SCHEMA_VERSION = (''schema_version'', PStr ''phase2.eval.v1'')"

definition SEMANTICS_VERSION :: "string \<times> pyval" where
  "SEMANTICS_VERSION = (''metric_semantics_version'', PStr ''rag.eval.metric.v2'')"

definition count_detail :: "string \<Rightarrow> nat \<Rightarrow> string \<times> pyval" where
  "count_detail k n = (k, PInt (int n))"

definition opt_str :: "string option \<Rightarrow> pyval" where
  "opt_str s = (case s of None \<Rightarrow> PNone | Some x \<Rightarrow> PStr x)"

subsection \<open>Scores and labels\<close>

definition metric_clamp :: "rat \<Rightarrow> rat" where
  "metric_clamp x = py_round 6 (clamp01 x)"

definition ratio :: "nat \<Rightarrow> nat \<Rightarrow> rat" where
  "ratio n d = (if d \<le> 0 then 0 else metric_clamp (of_nat n / of_nat d))"

definition score_label :: "rat \<Rightarrow> string" where
  "score_label x = (let score = metric_clamp x in
     if 75 / 100 \<le> score then ''pass'' else if 45 / 100 \<le> score then ''partial'' else ''fail'')"

definition optional_label :: "rat option \<Rightarrow> string" where
  "optional_label x = (case x of None \<Rightarrow> ''not_applicable'' | Some s \<Rightarrow> score_label s)"

definition keyword_hits :: "string \<Rightarrow> string list \<Rightarrow> nat" where
  "keyword_hits txt keywords =
     (let haystack = py_casefold txt in length (filter (\<lambda>k. py_in (py_casefold k) haystack) keywords))"

definition answer_given :: "eval_case \<Rightarrow> string option" where
  "answer_given c = (case ec_answer c of None \<Rightarrow> None | Some a \<Rightarrow> if a = [] then None else Some a)"

definition expected_answer_hit :: "string \<Rightarrow> eval_case \<Rightarrow> nat" where
  "expected_answer_hit txt c =
     (if ec_keywords c \<noteq> [] then 0 else (case answer_given c of None \<Rightarrow> 0
      | Some a \<Rightarrow> if py_in (py_casefold a) (py_casefold txt) then 1 else 0))"

definition expected_signal_hits :: "string \<Rightarrow> eval_case \<Rightarrow> nat" where
  "expected_signal_hits txt c = keyword_hits txt (ec_keywords c) + expected_answer_hit txt c"

definition metadata_string_values :: "pyval pydict option \<Rightarrow> string \<Rightarrow> string list" where
  "metadata_string_values metadata key = (case metadata of None \<Rightarrow> []
     | Some d \<Rightarrow> (case map_of d key of
         Some (PList xs) \<Rightarrow> uniq_first (filter (\<lambda>v. v \<noteq> []) (concat (map (\<lambda>x. case x of
            PStr s \<Rightarrow> [py_join '' '' (py_split (replace_char nul_char CHR '' '' s))]
          | _ \<Rightarrow> []) xs)))
       | _ \<Rightarrow> []))"

subsection \<open>Retrieval metrics\<close>

definition target_count :: "eval_case \<Rightarrow> nat" where
  "target_count c =
     (if ec_chunk_ids c \<noteq> [] then length (uniq_first (ec_chunk_ids c))
      else if ec_document_ids c \<noteq> [] then length (uniq_first (ec_document_ids c))
      else if ec_keywords c \<noteq> [] then length (ec_keywords c)
      else if answer_given c \<noteq> None then 1 else 0)"

definition matched_target_count :: "eval_case \<Rightarrow> retrieved_item list \<Rightarrow> string \<Rightarrow> nat" where
  "matched_target_count c items evidence =
     (if ec_chunk_ids c \<noteq> []
      then length (filter (\<lambda>i. i \<in> set (map ri_chunk_id items)) (uniq_first (ec_chunk_ids c)))
      else if ec_document_ids c \<noteq> []
      then length (filter (\<lambda>i. Some i \<in> set (map ri_document_id items)) (uniq_first (ec_document_ids c)))
      else if ec_keywords c \<noteq> [] then keyword_hits evidence (ec_keywords c)
      else expected_answer_hit evidence c)"

definition recall_at_k :: "eval_case \<Rightarrow> retrieved_item list \<Rightarrow> string \<Rightarrow> rat option" where
  "recall_at_k c items evidence =
     (if target_count c \<le> 0 then None
      else Some (ratio (matched_target_count c items evidence) (target_count c)))"

definition rank_of_first :: "(retrieved_item \<Rightarrow> bool) \<Rightarrow> retrieved_item list \<Rightarrow> int option" where
  "rank_of_first p items = map_option ri_rank (find p items)"

definition first_relevant_rank :: "eval_case \<Rightarrow> retrieved_item list \<Rightarrow> string \<Rightarrow> int option" where
  "first_relevant_rank c items evidence =
     (if items = [] then None
      else if ec_chunk_ids c \<noteq> [] then rank_of_first (\<lambda>x. ri_chunk_id x \<in> set (ec_chunk_ids c)) items
      else if ec_document_ids c \<noteq> []
      then rank_of_first (\<lambda>x. ri_document_id x \<in> Some ` set (ec_document_ids c)) items
      else if ec_keywords c \<noteq> []
      then rank_of_first (\<lambda>x. list_ex (\<lambda>k. py_in (py_casefold k) (py_casefold (ri_snippet x))) (ec_keywords c)) items
      else (case answer_given c of None \<Rightarrow> None
        | Some a \<Rightarrow> if py_in (py_casefold a) (py_casefold evidence) then Some (ri_rank (hd items)) else None))"

definition mrr :: "eval_case \<Rightarrow> retrieved_item list \<Rightarrow> string \<Rightarrow> rat option" where
  "mrr c items evidence =
     (if target_count c \<le> 0 then None
      else Some (case first_relevant_rank c items evidence of None \<Rightarrow> 0
        | Some r \<Rightarrow> py_round 6 (1 / of_int r)))"

definition context_precision :: "string \<Rightarrow> int \<Rightarrow> nat \<Rightarrow> rat" where
  "context_precision evidence selected hits =
     (if selected \<le> 0 then 0 else if py_strip evidence = [] then 0
      else metric_clamp (of_nat hits / of_int selected))"

definition relevance_details :: "eval_case \<Rightarrow> retrieved_item list \<Rightarrow> nat option \<Rightarrow> int option \<Rightarrow> bool \<Rightarrow>
    pyval pydict" where
  "relevance_details c items matched rank not_applicable =
     [SCHEMA_VERSION, (''case_key'', PStr (ec_case_id c)),
      count_detail ''expected_document_ids_count'' (length (ec_document_ids c)),
      count_detail ''expected_chunk_ids_count'' (length (ec_chunk_ids c)),
      count_detail ''expected_keyword_count'' (length (ec_keywords c)),
      count_detail ''retrieved_count'' (length items), (''not_applicable'', PBool not_applicable)] @
     (case matched of None \<Rightarrow> [] | Some n \<Rightarrow> [count_detail ''matched_count'' n]) @
     (case rank of None \<Rightarrow> [] | Some r \<Rightarrow> [(''rank'', PInt r)])"

subsection \<open>Correctness of the citations\<close>

definition not_applicable_details :: "string \<Rightarrow> string \<Rightarrow> pyval pydict" where
  "not_applicable_details reason gold =
     [(''not_applicable'', PBool True), (''reason_code'', PStr reason),
      (''gold_source'', PStr gold), (''matched_citation_count'', PInt 0)]"

definition document_map :: "retrieved_item list \<Rightarrow> (int \<times> int) list" where
  "document_map items = foldl (\<lambda>t x. case ri_document_id x of None \<Rightarrow> t
     | Some i \<Rightarrow> AList.update (ri_chunk_id x) i t) [] items"

definition gold_source :: "eval_case \<Rightarrow> string option" where
  "gold_source c =
     (if ec_chunk_ids c \<noteq> [] then Some ''expected_chunk_ids''
      else if ec_document_ids c \<noteq> [] then Some ''expected_document_ids''
      else if ec_keywords c \<noteq> [] then Some ''expected_keywords''
      else if answer_given c \<noteq> None then Some ''expected_answer'' else None)"

definition citation_matches :: "eval_case \<Rightarrow> retrieved_item list \<Rightarrow> ask_citation \<Rightarrow> bool" where
  "citation_matches c items cit =
     (if ec_chunk_ids c \<noteq> [] then ac_chunk_id cit \<in> set (ec_chunk_ids c)
      else if ec_document_ids c \<noteq> []
      then map_of (document_map items) (ac_chunk_id cit) \<in> Some ` set (ec_document_ids c)
      else if ec_keywords c \<noteq> [] then 0 < keyword_hits (ac_snippet cit) (ec_keywords c)
      else (case answer_given c of None \<Rightarrow> False
        | Some a \<Rightarrow> py_in (py_casefold a) (py_casefold (ac_snippet cit))))"

definition citation_correctness :: "eval_case \<Rightarrow> ask_citation list \<Rightarrow> retrieved_item list \<Rightarrow>
    rat option \<times> pyval pydict" where
  "citation_correctness c cits items =
     (let details = [SCHEMA_VERSION, SEMANTICS_VERSION, count_detail ''citation_count'' (length cits)] in
      if cits = [] then
        (if \<not> ec_required_citation c
         then (None, details @ not_applicable_details ''citation_not_required'' ''none'')
         else (Some 0, details @ [(''not_applicable'', PBool False),
           (''reason_code'', PStr ''required_citation_missing''),
           (''gold_source'', PStr ''citation_presence''), (''matched_citation_count'', PInt 0)]))
      else (case gold_source c of
        None \<Rightarrow> (None, details @ not_applicable_details ''citation_gold_signal_missing'' ''none'')
      | Some gold \<Rightarrow>
          if gold = ''expected_document_ids'' \<and> document_map items = []
          then (None, details @
             not_applicable_details ''citation_document_mapping_unavailable'' ''expected_document_ids'')
          else (let matching = length (filter (citation_matches c items) cits) in
            (Some (ratio matching (length cits)), details @
              [(''not_applicable'', PBool False), (''gold_source'', PStr gold),
               count_detail ''matched_citation_count'' matching]))))"

subsection \<open>The metrics of a case\<close>

definition sorted_items :: "metric_inputs \<Rightarrow> retrieved_item list" where
  "sorted_items x = sort_key ri_rank (case mi_retrieved x of None \<Rightarrow> [] | Some items \<Rightarrow> items)"

definition evidence_text :: "metric_inputs \<Rightarrow> string" where
  "evidence_text x =
     (let txt = py_join '' '' (map ri_snippet (sorted_items x)) in
      if txt = [] then py_join '' '' (map ac_snippet (mi_citations x)) else txt)"

definition has_answer :: "metric_inputs \<Rightarrow> bool" where
  "has_answer x = (py_strip (mi_answer x) \<noteq> [])"

definition answer_slots :: "metric_inputs \<Rightarrow> string list" where
  "answer_slots x = metadata_string_values (ec_metadata (mi_case x)) ''expected_answer_slots''"

definition selected_count :: "metric_inputs \<Rightarrow> int" where
  "selected_count x = (case mi_summary x of None \<Rightarrow> 0 | Some s \<Rightarrow> rs_selected s)"

definition faithfulness :: "metric_inputs \<Rightarrow> rat option" where
  "faithfulness x = (if has_answer x \<and> ec_keywords (mi_case x) \<noteq> []
     then Some (ratio (keyword_hits (mi_answer x) (ec_keywords (mi_case x))) (length (ec_keywords (mi_case x))))
     else None)"

definition answer_completeness :: "metric_inputs \<Rightarrow> rat option" where
  "answer_completeness x = (if has_answer x \<and> answer_slots x \<noteq> []
     then Some (ratio (keyword_hits (mi_answer x) (answer_slots x)) (length (answer_slots x))) else None)"

definition citation_presence :: "metric_inputs \<Rightarrow> rat option" where
  "citation_presence x = (if has_answer x
     then Some (if \<not> ec_required_citation (mi_case x) \<or> mi_citations x \<noteq> [] then 1 else 0) else None)"

definition groundedness_value :: "metric_inputs \<Rightarrow> rat option" where
  "groundedness_value x = (if has_answer x then Some (case mi_confidence x of
       Some c \<Rightarrow> acf_groundedness c | None \<Rightarrow> if 0 < selected_count x then 1 else 0) else None)"

definition answer_reason :: "metric_inputs \<Rightarrow> pyval" where
  "answer_reason x = (if has_answer x then PNone else PStr ''answer_not_generated'')"

definition case_metadata_metric :: "(string \<Rightarrow> string) \<Rightarrow> (eval_case \<Rightarrow> string) \<Rightarrow> metric_inputs \<Rightarrow> metric_value" where
  "case_metadata_metric question_hash case_hash x = (let c = mi_case x in
     \<lparr>mv_name = ''case_metadata'', mv_score = None, mv_label = Some (ec_case_id c),
      mv_details = [(''case_id'', PStr (ec_case_id c)),
        (''question_hash'', PStr (question_hash (ec_question c))),
        (''case_snapshot_hash'', PStr (case_hash c)),
        count_detail ''expected_keyword_count'' (length (ec_keywords c)),
        count_detail ''expected_answer_slot_count'' (length (answer_slots x)),
        (''required_citation'', PBool (ec_required_citation c)),
        (''answer_generated'', PBool (has_answer x))] @
        (case mi_error_code x of None \<Rightarrow> [] | Some e \<Rightarrow> if e = [] then [] else [(''error_code'', PStr e)]),
      mv_value = None\<rparr>)"

definition scored_metric :: "string \<Rightarrow> rat option \<Rightarrow> pyval pydict \<Rightarrow> metric_value" where
  "scored_metric name score details = \<lparr>mv_name = name, mv_score = score,
     mv_label = Some (optional_label score), mv_details = details, mv_value = None\<rparr>"

definition recall_metric :: "metric_inputs \<Rightarrow> metric_value" where
  "recall_metric x = (let c = mi_case x; items = sorted_items x; recall = recall_at_k c items (evidence_text x) in
     scored_metric ''recall_at_k'' recall
       (relevance_details c items
         (if recall = None then None else Some (matched_target_count c items (evidence_text x)))
         None (recall = None)))"

definition mrr_metric :: "metric_inputs \<Rightarrow> metric_value" where
  "mrr_metric x = (let c = mi_case x; items = sorted_items x; m = mrr c items (evidence_text x) in
     scored_metric ''mrr'' m
       (relevance_details c items None (first_relevant_rank c items (evidence_text x)) (m = None)))"

definition faithfulness_metric :: "metric_inputs \<Rightarrow> metric_value" where
  "faithfulness_metric x = (let c = mi_case x; n = length (ec_keywords c) in
     scored_metric ''faithfulness'' (faithfulness x)
       [SCHEMA_VERSION, SEMANTICS_VERSION, (''evidence_scope'', PStr ''answer_text_only''),
        count_detail ''matched_expected_keywords'' (keyword_hits (mi_answer x) (ec_keywords c)),
        (''matched_expected_answer'', PBool False), count_detail ''expected_keyword_count'' n,
        count_detail ''expected_signal_count'' n, (''not_applicable'', PBool (faithfulness x = None)),
        (''reason_code'', if \<not> has_answer x then PStr ''answer_not_generated''
           else if n = 0 then PStr ''expected_keywords_not_configured'' else PNone)])"

definition completeness_metric :: "metric_inputs \<Rightarrow> metric_value" where
  "completeness_metric x =
     scored_metric ''answer_completeness'' (answer_completeness x)
       [SCHEMA_VERSION, SEMANTICS_VERSION, (''evidence_scope'', PStr ''answer_text_only''),
        count_detail ''expected_answer_slot_count'' (length (answer_slots x)),
        count_detail ''matched_answer_slot_count'' (keyword_hits (mi_answer x) (answer_slots x)),
        (''not_applicable'', PBool (answer_completeness x = None)),
        (''reason_code'', if answer_completeness x \<noteq> None then PNone
           else if \<not> has_answer x then PStr ''answer_not_generated''
           else PStr ''expected_answer_slots_missing'')]"

definition groundedness_metric :: "metric_inputs \<Rightarrow> metric_value" where
  "groundedness_metric x =
     \<lparr>mv_name = ''groundedness'', mv_score = map_option metric_clamp (groundedness_value x),
      mv_label = Some (optional_label (groundedness_value x)),
      mv_details = [(''source'', if has_answer x then (if mi_confidence x \<noteq> None then PStr ''rag_confidence''
           else PStr ''retrieval_presence'') else PStr ''not_applicable''),
        (''has_confidence'', PBool (mi_confidence x \<noteq> None)), (''selected_count'', PInt (selected_count x)),
        (''not_applicable'', PBool (\<not> has_answer x)), (''reason_code'', answer_reason x)],
      mv_value = None\<rparr>"

definition presence_details :: "metric_inputs \<Rightarrow> pyval pydict" where
  "presence_details x =
     [(''required_citation'', PBool (ec_required_citation (mi_case x))),
      count_detail ''citation_count'' (length (mi_citations x)),
      (''not_applicable'', PBool (\<not> has_answer x)), (''reason_code'', answer_reason x)]"

definition coverage_metric :: "metric_inputs \<Rightarrow> metric_value" where
  "coverage_metric x = scored_metric ''citation_coverage'' (citation_presence x)
     ([SCHEMA_VERSION, SEMANTICS_VERSION, (''legacy_alias_for'', PStr ''citation_presence'')] @ presence_details x)"

definition presence_metric :: "metric_inputs \<Rightarrow> metric_value" where
  "presence_metric x = scored_metric ''citation_presence'' (citation_presence x)
     ([SCHEMA_VERSION, SEMANTICS_VERSION] @ presence_details x)"

definition correctness_result :: "metric_inputs \<Rightarrow> rat option \<times> pyval pydict" where
  "correctness_result x =
     (if has_answer x then citation_correctness (mi_case x) (mi_citations x) (sorted_items x)
      else (None, [SCHEMA_VERSION, SEMANTICS_VERSION,
        count_detail ''citation_count'' (length (mi_citations x)), (''not_applicable'', PBool True),
        (''reason_code'', PStr ''answer_not_generated'')]))"

definition correctness_metric :: "metric_inputs \<Rightarrow> metric_value" where
  "correctness_metric x = scored_metric ''citation_correctness'' (fst (correctness_result x)) (snd (correctness_result x))"

definition precision_metric :: "metric_inputs \<Rightarrow> metric_value" where
  "precision_metric x =
     (let hits = expected_signal_hits (evidence_text x) (mi_case x) in
      scored_metric ''context_precision'' (Some (context_precision (evidence_text x) (selected_count x) hits))
        [SCHEMA_VERSION, SEMANTICS_VERSION, (''evidence_scope'', PStr ''retrieval_evidence_only''),
         (''selected_count'', PInt (selected_count x)), count_detail ''matched_expected_signals'' hits])"

definition no_context_metric :: "metric_inputs \<Rightarrow> metric_value" where
  "no_context_metric x = (let rate = (if selected_count x \<le> 0 then 1 else 0) in
     \<lparr>mv_name = ''no_context_rate'', mv_score = Some rate, mv_label = Some (score_label (1 - rate)),
      mv_details = [SCHEMA_VERSION, (''selected_count'', PInt (selected_count x)),
        (''no_context'', PBool (rate \<noteq> 0))], mv_value = None\<rparr>)"

definition latency_metric :: "metric_inputs \<Rightarrow> metric_value" where
  "latency_metric x =
     \<lparr>mv_name = ''p95_latency'', mv_score = None,
      mv_label = Some (if mi_latency_ms x \<noteq> None then ''ms'' else ''not_applicable''),
      mv_details = [SCHEMA_VERSION, (''unit'', PStr ''ms''),
        (''sample_latency_ms'', case mi_latency_ms x of None \<Rightarrow> PNone | Some n \<Rightarrow> PInt n),
        (''not_applicable'', PBool (mi_latency_ms x = None))],
      mv_value = map_option of_int (mi_latency_ms x)\<rparr>"

definition strategy_metric :: metric_value where
  "strategy_metric =
     \<lparr>mv_name = ''strategy_selection_accuracy'', mv_score = None, mv_label = Some ''not_applicable'',
      mv_details = [SCHEMA_VERSION, (''not_applicable'', PBool True),
        (''reason_code'', PStr ''agentic_router_not_implemented'')], mv_value = None\<rparr>"

definition calculate_metrics :: "(string \<Rightarrow> string) \<Rightarrow> (eval_case \<Rightarrow> string) \<Rightarrow> metric_inputs \<Rightarrow> metric_value list" where
  "calculate_metrics question_hash case_hash x =
     [case_metadata_metric question_hash case_hash x, recall_metric x, mrr_metric x, faithfulness_metric x,
      completeness_metric x, groundedness_metric x, coverage_metric x, presence_metric x,
      correctness_metric x, precision_metric x, no_context_metric x, latency_metric x, strategy_metric]"

definition failure_metrics :: "(string \<Rightarrow> string) \<Rightarrow> (eval_case \<Rightarrow> string) \<Rightarrow> eval_case \<Rightarrow> string \<Rightarrow> metric_value list" where
  "failure_metrics question_hash case_hash c error_code = calculate_metrics question_hash case_hash
     \<lparr>mi_case = c, mi_answer = [], mi_citations = [], mi_confidence = None, mi_summary = None,
      mi_retrieved = None, mi_latency_ms = None, mi_error_code = Some error_code\<rparr>"

subsection \<open>Ranges\<close>

lemma metric_clamp_unit [simp]: "0 \<le> metric_clamp x" "metric_clamp x \<le> 1"
  using py_round_unit[of "clamp01 x" 6] by (simp_all add: metric_clamp_def)

lemma metric_clamp_mono: "x \<le> y \<Longrightarrow> metric_clamp x \<le> metric_clamp y"
  by (simp add: metric_clamp_def clamp01_mono py_round_mono)

lemma ratio_unit [simp]: "0 \<le> ratio n d" "ratio n d \<le> 1"
  by (simp_all add: ratio_def)

lemma ratio_mono: "m \<le> n \<Longrightarrow> ratio m d \<le> ratio n d"
  by (simp add: ratio_def metric_clamp_mono divide_right_mono)

lemma ratio_exact: "n \<le> d \<Longrightarrow> 0 < d \<Longrightarrow> ratio n d = py_round 6 (of_nat n / of_nat d)"
  by (simp add: ratio_def metric_clamp_def clamp01_id)

definition unit_score :: "rat option \<Rightarrow> bool" where
  "unit_score s = (\<forall>v. s = Some v \<longrightarrow> 0 \<le> v \<and> v \<le> 1)"

lemma unit_score_simps [simp]: "unit_score None" "unit_score (Some v) \<longleftrightarrow> 0 \<le> v \<and> v \<le> 1"
  by (auto simp: unit_score_def)

lemma rank_unit: "1 \<le> (r :: int) \<Longrightarrow> unit_score (Some (py_round 6 (1 / of_int r)))"
  using py_round_unit[of "1 / of_int r" 6] by simp

lemma first_relevant_rank_mem:
  "first_relevant_rank c items ev = Some r \<Longrightarrow> r \<in> ri_rank ` set items"
  by (auto simp: first_relevant_rank_def rank_of_first_def find_Some_iff hd_in_set
      split: if_splits option.splits)

lemma mrr_unit: "\<forall>i\<in>set items. 1 \<le> ri_rank i \<Longrightarrow> unit_score (mrr c items ev)"
  using first_relevant_rank_mem[of c items ev] rank_unit
  by (fastforce simp: mrr_def split: option.split)

lemma citation_correctness_unit: "unit_score (fst (citation_correctness c cits items))"
  by (simp add: citation_correctness_def Let_def split: option.split)

lemmas metric_defs = case_metadata_metric_def recall_metric_def mrr_metric_def faithfulness_metric_def
  completeness_metric_def groundedness_metric_def coverage_metric_def presence_metric_def
  correctness_metric_def precision_metric_def no_context_metric_def latency_metric_def strategy_metric_def
  scored_metric_def Let_def

lemma set_sorted_items [simp]:
  "set (sorted_items x) = (case mi_retrieved x of None \<Rightarrow> {} | Some items \<Rightarrow> set items)"
  by (simp add: sorted_items_def split: option.split)

definition answer_metric_names :: "string list" where
  "answer_metric_names = [''faithfulness'', ''answer_completeness'', ''groundedness'',
     ''citation_coverage'', ''citation_presence'', ''citation_correctness'']"

lemma score_label_values: "score_label v \<in> {''pass'', ''partial'', ''fail''}"
  by (simp add: score_label_def Let_def)

definition ex_case :: eval_case where
  "ex_case = \<lparr>ec_case_id = ''c1'', ec_question = ''q'', ec_keywords = [], ec_required_citation = True,
     ec_answer = None, ec_document_ids = [], ec_chunk_ids = [7, 8], ec_tags = [], ec_metadata = None\<rparr>"

definition ex_retrieved :: "int \<Rightarrow> int \<Rightarrow> retrieved_item" where
  "ex_retrieved i r = \<lparr>ri_chunk_id = i, ri_document_id = None, ri_rank = r, ri_snippet = ''s''\<rparr>"

definition ex_inputs :: "retrieved_item list \<Rightarrow> metric_inputs" where
  "ex_inputs items = \<lparr>mi_case = ex_case, mi_answer = [], mi_citations = [], mi_confidence = None,
     mi_summary = None, mi_retrieved = Some items, mi_latency_ms = None, mi_error_code = None\<rparr>"

text \<open>
  Whatever the answer, the citations and the retrieved chunks are, the calculation
  reports thirteen metrics in a fixed order, each with a label, and every score lies between
  0 and 1; without an answer the metrics of the answer and of its citations have no score, and
  a failed case counts as one without context.
\<close>

theorem metric_scores_are_in_range:
  assumes "\<forall>i\<in>set (sorted_items x). 1 \<le> ri_rank i"
    and "\<forall>c. mi_confidence x = Some c \<longrightarrow> 0 \<le> acf_groundedness c \<and> acf_groundedness c \<le> 1"
  shows "(\<forall>m\<in>set (calculate_metrics qh ch x). unit_score (mv_score m) \<and> mv_label m \<noteq> None) \<and>
    map mv_name (calculate_metrics qh ch x) =
      [''case_metadata'', ''recall_at_k'', ''mrr'', ''faithfulness'', ''answer_completeness'',
       ''groundedness'', ''citation_coverage'', ''citation_presence'', ''citation_correctness'',
       ''context_precision'', ''no_context_rate'', ''p95_latency'', ''strategy_selection_accuracy''] \<and>
    (\<not> has_answer x \<longrightarrow> (\<forall>m\<in>set (calculate_metrics qh ch x).
       mv_name m \<in> set answer_metric_names \<longrightarrow> mv_score m = None)) \<and>
    (\<exists>m\<in>set (failure_metrics qh ch c code). mv_name m = ''no_context_rate'' \<and> mv_score m = Some 1)"
proof -
  have "unit_score (mrr (mi_case x) (sorted_items x) (evidence_text x))" using assms(1) by (rule mrr_unit)
  moreover have "unit_score (recall_at_k (mi_case x) (sorted_items x) (evidence_text x))"
    by (simp add: recall_at_k_def)
  moreover have "unit_score (fst (correctness_result x))"
    by (simp add: correctness_result_def citation_correctness_unit)
  moreover have "unit_score (faithfulness x)" "unit_score (answer_completeness x)" "unit_score (citation_presence x)"
    "unit_score (map_option metric_clamp (groundedness_value x))"
    by (simp_all add: faithfulness_def answer_completeness_def citation_presence_def groundedness_value_def)
  moreover have "unit_score (Some (context_precision ev n hits))" for ev n hits
    by (simp add: context_precision_def)
  ultimately have "\<forall>m\<in>set (calculate_metrics qh ch x). unit_score (mv_score m) \<and> mv_label m \<noteq> None"
    by (simp add: calculate_metrics_def metric_defs)
  moreover have "\<not> has_answer x \<longrightarrow> (\<forall>m\<in>set (calculate_metrics qh ch x).
       mv_name m \<in> set answer_metric_names \<longrightarrow> mv_score m = None)"
    by (simp add: calculate_metrics_def metric_defs answer_metric_names_def faithfulness_def
        answer_completeness_def groundedness_value_def citation_presence_def correctness_result_def)
  moreover have "\<exists>m\<in>set (failure_metrics qh ch c code). mv_name m = ''no_context_rate'' \<and> mv_score m = Some 1"
    by (simp add: failure_metrics_def calculate_metrics_def metric_defs selected_count_def)
  ultimately show ?thesis by (simp add: calculate_metrics_def metric_defs)
qed

theorem metric_scores_are_in_range_witness:
  "list_all (\<lambda>m. unit_score (mv_score m))
     (calculate_metrics id ec_case_id (ex_inputs [ex_retrieved 8 2, ex_retrieved 5 1]))"
proof -
  let ?x = "ex_inputs [ex_retrieved 8 2, ex_retrieved 5 1]"
  have "\<forall>i\<in>set (sorted_items ?x). 1 \<le> ri_rank i" by (simp add: ex_inputs_def ex_retrieved_def)
  moreover have "\<forall>c. mi_confidence ?x = Some c \<longrightarrow> 0 \<le> acf_groundedness c \<and> acf_groundedness c \<le> 1"
    by (simp add: ex_inputs_def)
  ultimately show ?thesis
    using metric_scores_are_in_range[of ?x id ec_case_id ex_case "''e''"] unfolding list_all_iff by blast
qed

subsection \<open>Recall and reciprocal rank\<close>

lemma find_least:
  "sorted (map f xs) \<Longrightarrow> find p xs = Some y \<Longrightarrow> z \<in> set xs \<Longrightarrow> p z \<Longrightarrow> f y \<le> f z"
  by (induction xs) (auto split: if_splits)

lemma find_in: "find p xs = Some y \<Longrightarrow> y \<in> set xs \<and> p y"
  by (auto simp: find_Some_iff)

lemma rank_of_first_sorted:
  assumes "sorted (map ri_rank items)"
  shows "rank_of_first p items =
    (if \<exists>i\<in>set items. p i then Some (Min (ri_rank ` {i\<in>set items. p i})) else None)"
proof (cases "find p items")
  case None
  then show ?thesis by (auto simp: rank_of_first_def find_None_iff)
next
  case (Some y)
  have "ri_rank y = Min (ri_rank ` {i\<in>set items. p i})"
    using find_in[OF Some] find_least[OF assms Some] by (intro Min_eqI[symmetric]) auto
  then show ?thesis using find_in[OF Some] Some by (auto simp: rank_of_first_def)
qed

definition relevant :: "eval_case \<Rightarrow> retrieved_item list \<Rightarrow> retrieved_item set" where
  "relevant c items = {i\<in>set items. ri_chunk_id i \<in> set (ec_chunk_ids c)}"

lemma length_uniq_filter: "length (filter p (uniq_first xs)) = card {x\<in>set xs. p x}"
proof -
  have "length (filter p (uniq_first xs)) = card (set (filter p (uniq_first xs)))"
    by (metis distinct_card distinct_filter distinct_uniq_first)
  then show ?thesis by simp
qed

lemma recall_chunks:
  assumes "ec_chunk_ids c \<noteq> []"
  shows "recall_at_k c items ev = Some (py_round 6
    (of_nat (card (ri_chunk_id ` relevant c items)) / of_nat (card (set (ec_chunk_ids c)))))"
proof -
  have m: "matched_target_count c items ev = card (ri_chunk_id ` relevant c items)"
    using assms by (auto simp: matched_target_count_def length_uniq_filter relevant_def intro: arg_cong[of _ _ card])
  have t: "target_count c = card (set (ec_chunk_ids c))"
    using assms length_uniq_filter[of "\<lambda>_. True" "ec_chunk_ids c"] by (simp add: target_count_def)
  have "card (ri_chunk_id ` relevant c items) \<le> card (set (ec_chunk_ids c))"
    by (intro card_mono) (auto simp: relevant_def)
  moreover have "0 < card (set (ec_chunk_ids c))" using assms by (simp add: card_gt_0_iff)
  ultimately show ?thesis unfolding recall_at_k_def m t using assms by (simp add: ratio_exact)
qed

lemma mrr_chunks:
  assumes "ec_chunk_ids c \<noteq> []" "sorted (map ri_rank items)"
  shows "mrr c items ev = Some (if relevant c items = {} then 0
    else py_round 6 (1 / of_int (Min (ri_rank ` relevant c items))))"
proof -
  have "uniq_first (ec_chunk_ids c) \<noteq> []" using assms(1) set_uniq_first[of "ec_chunk_ids c"] by force
  then have "target_count c \<noteq> 0" using assms(1) by (simp add: target_count_def)
  moreover have "first_relevant_rank c items ev =
      (if relevant c items = {} then None else Some (Min (ri_rank ` relevant c items)))"
    using assms by (auto simp: first_relevant_rank_def rank_of_first_sorted relevant_def)
  ultimately show ?thesis by (simp add: mrr_def)
qed

lemma sorted_sorted_items: "sorted (map ri_rank (sorted_items x))"
  by (simp add: sorted_items_def)

text \<open>
  C39: For a case with expected chunks, recall is the share of the expected chunks that were
  retrieved, and the reciprocal rank that of the best ranked expected chunk, or zero when
  there is none, whatever order the items arrive in; retrieving more chunks never lowers
  either score.
\<close>

theorem recall_and_mrr_measure_the_targets:
  assumes "ec_chunk_ids (mi_case x) \<noteq> []" "mi_retrieved x = Some items" "\<forall>i\<in>set items. 1 \<le> ri_rank i"
  shows "recall_at_k (mi_case x) (sorted_items x) (evidence_text x) = Some (py_round 6
      (of_nat (card (ri_chunk_id ` relevant (mi_case x) items)) / of_nat (card (set (ec_chunk_ids (mi_case x)))))) \<and>
    mrr (mi_case x) (sorted_items x) (evidence_text x) = Some (if relevant (mi_case x) items = {} then 0
      else py_round 6 (1 / of_int (Min (ri_rank ` relevant (mi_case x) items)))) \<and>
    (\<forall>y more. mi_case y = mi_case x \<and> mi_retrieved y = Some more \<and> set items \<subseteq> set more \<and>
       (\<forall>i\<in>set more. 1 \<le> ri_rank i) \<longrightarrow>
       the (recall_at_k (mi_case x) (sorted_items x) (evidence_text x)) \<le>
         the (recall_at_k (mi_case y) (sorted_items y) (evidence_text y)) \<and>
       the (mrr (mi_case x) (sorted_items x) (evidence_text x)) \<le>
         the (mrr (mi_case y) (sorted_items y) (evidence_text y)))"
proof -
  let ?c = "mi_case x"
  have rel: "relevant ?c (sorted_items z) = relevant ?c xs" if "mi_retrieved z = Some xs" for z xs
    using that by (simp add: relevant_def)
  have rec: "recall_at_k ?c (sorted_items z) (evidence_text z) = Some (py_round 6
      (of_nat (card (ri_chunk_id ` relevant ?c xs)) / of_nat (card (set (ec_chunk_ids ?c)))))"
    if "mi_retrieved z = Some xs" for z xs
    using recall_chunks[OF assms(1)] rel[OF that] by simp
  have m: "mrr ?c (sorted_items z) (evidence_text z) = Some (if relevant ?c xs = {} then 0
      else py_round 6 (1 / of_int (Min (ri_rank ` relevant ?c xs))))"
    if "mi_retrieved z = Some xs" for z xs
    using mrr_chunks[OF assms(1) sorted_sorted_items] rel[OF that] by simp
  have mono: "the (recall_at_k ?c (sorted_items x) (evidence_text x)) \<le>
        the (recall_at_k ?c (sorted_items y) (evidence_text y)) \<and>
      the (mrr ?c (sorted_items x) (evidence_text x)) \<le> the (mrr ?c (sorted_items y) (evidence_text y))"
    if y: "mi_retrieved y = Some more" "set items \<subseteq> set more" "\<forall>i\<in>set more. 1 \<le> ri_rank i" for y more
  proof -
    have sub: "relevant ?c items \<subseteq> relevant ?c more" using y(2) by (auto simp: relevant_def)
    have fin: "finite (relevant ?c more)" by (simp add: relevant_def)
    have least: "1 \<le> Min (ri_rank ` relevant ?c more)" if "relevant ?c more \<noteq> {}"
      using that fin y(3) by (subst Min_ge_iff) (auto simp: relevant_def)
    have "card (ri_chunk_id ` relevant ?c items) \<le> card (ri_chunk_id ` relevant ?c more)"
      using sub fin by (intro card_mono) auto
    then have "the (recall_at_k ?c (sorted_items x) (evidence_text x)) \<le>
        the (recall_at_k ?c (sorted_items y) (evidence_text y))"
      unfolding rec[OF assms(2)] rec[OF y(1)] by (simp add: py_round_mono divide_right_mono)
    moreover have "1 / rat_of_int (Min (ri_rank ` relevant ?c items)) \<le>
          1 / rat_of_int (Min (ri_rank ` relevant ?c more))" if ne: "relevant ?c items \<noteq> {}"
    proof -
      have "Min (ri_rank ` relevant ?c more) \<le> Min (ri_rank ` relevant ?c items)"
        using ne sub fin by (intro Min_antimono) auto
      moreover have "1 \<le> Min (ri_rank ` relevant ?c more)" using ne sub least by blast
      ultimately show ?thesis by (intro divide_left_mono) auto
    qed
    then have "the (mrr ?c (sorted_items x) (evidence_text x)) \<le> the (mrr ?c (sorted_items y) (evidence_text y))"
      unfolding m[OF assms(2)] m[OF y(1)]
      using sub rank_unit[of "Min (ri_rank ` relevant ?c more)"] least by (auto simp: py_round_mono)
    ultimately show ?thesis by blast
  qed
  show ?thesis using rec[OF assms(2)] m[OF assms(2)] mono by simp
qed

theorem recall_and_mrr_measure_the_targets_witness:
  "recall_at_k ex_case (sorted_items (ex_inputs [ex_retrieved 8 2, ex_retrieved 5 1]))
     (evidence_text (ex_inputs [ex_retrieved 8 2, ex_retrieved 5 1])) = Some (1 / 2)"
proof -
  let ?x = "ex_inputs [ex_retrieved 8 2, ex_retrieved 5 1]"
  have "relevant ex_case [ex_retrieved 8 2, ex_retrieved 5 1] = {ex_retrieved 8 2}"
    by (auto simp: relevant_def ex_case_def ex_retrieved_def)
  then have "ri_chunk_id ` relevant ex_case [ex_retrieved 8 2, ex_retrieved 5 1] = {8}"
    by (simp add: ex_retrieved_def)
  moreover have "set (ec_chunk_ids ex_case) = {7, 8}" "ec_chunk_ids ex_case \<noteq> []" by (simp_all add: ex_case_def)
  moreover have "py_round 6 (1 / 2) = 1 / 2" by code_simp
  moreover have "mi_case ?x = ex_case" "mi_retrieved ?x = Some [ex_retrieved 8 2, ex_retrieved 5 1]"
    "\<forall>i\<in>set [ex_retrieved 8 2, ex_retrieved 5 1]. 1 \<le> ri_rank i"
    by (simp_all add: ex_inputs_def ex_retrieved_def)
  ultimately show ?thesis
    using recall_and_mrr_measure_the_targets[of ?x "[ex_retrieved 8 2, ex_retrieved 5 1]"] by simp
qed

end
