(* ===== verification/Chunking.thy ===== *)
theory Chunking
  imports Trace_Redactor
begin

section \<open>Cutting a document into chunks\<close>

text \<open>
  \<open>ingest/chunking.py\<close> and \<open>ingest/hashing.py\<close>: the words of the pages, each with the
  page and the structure it comes from, are split into segments of one structure and each
  segment into overlapping windows. The regular expression of the words, \<open>\S+\<close>, finds the
  maximal runs without white space, which is what \<open>str.split\<close> returns. The digest
  SHA-256 is a function given to the chunker. Page metadata is a Python value per key.
\<close>

datatype chunking_error = ChunkSizeInvalid | NoChunksCreated

record chunking_config =
  ck_size :: int
  ck_overlap :: int

record extracted_page =
  pg_text :: string
  pg_number :: "int option"
  pg_section :: "string option"
  pg_metadata :: "pyval pydict"

record chunk =
  ch_version :: int
  ch_index :: nat
  ch_hash :: string
  ch_text :: string
  ch_tokens :: nat
  ch_chars :: nat
  ch_page_from :: "int option"
  ch_page_to :: "int option"
  ch_section :: "string option"
  ch_modality :: string
  ch_metadata :: "pyval pydict option"

record word_token =
  tk_value :: string
  tk_page :: "int option"
  tk_section :: "string option"
  tk_metadata :: "pyval pydict"

definition config_ok :: "chunking_config \<Rightarrow> bool" where
  "config_ok c = (0 < ck_size c \<and> 0 \<le> ck_overlap c \<and> ck_overlap c < ck_size c)"

definition words :: "string \<Rightarrow> string list" where
  "words s = py_split s"

definition estimate_token_count :: "string \<Rightarrow> nat" where
  "estimate_token_count s = length (words s)"

definition normalize_chunk_text :: "string \<Rightarrow> string" where
  "normalize_chunk_text s = py_strip (py_join '' '' (py_split s))"

definition chunk_hash :: "(string \<Rightarrow> string) \<Rightarrow> string \<Rightarrow> int \<Rightarrow> nat \<Rightarrow> string" where
  "chunk_hash sha txt version index = sha (txt @ int_str version @ nat_str index)"

subsection \<open>The words of a document\<close>

definition normalize_page_text :: "string \<Rightarrow> string" where
  "normalize_page_text s = py_strip (py_join newline (map py_strip (py_splitlines s)))"

definition page_tokens :: "extracted_page \<Rightarrow> word_token list" where
  "page_tokens p = map (\<lambda>w. \<lparr>tk_value = w, tk_page = pg_number p, tk_section = pg_section p,
     tk_metadata = pg_metadata p\<rparr>) (words (normalize_page_text (pg_text p)))"

definition document_tokens :: "extracted_page list \<Rightarrow> word_token list" where
  "document_tokens pages = concat (map page_tokens pages)"

subsection \<open>Segments\<close>

type_synonym boundary_key = "(string \<times> string \<times> int option option) option"

definition str_value :: "pyval option \<Rightarrow> string option" where
  "str_value v = (case v of Some (PStr s) \<Rightarrow> Some s | _ \<Rightarrow> None)"

definition int_value :: "pyval option \<Rightarrow> int option" where
  "int_value v = (case v of Some (PInt i) \<Rightarrow> Some i | _ \<Rightarrow> None)"

definition metadata_boundary_key :: "pyval pydict \<Rightarrow> boundary_key" where
  "metadata_boundary_key m = (case str_value (map_of m ''parent_chunk_key'') of None \<Rightarrow> None
     | Some parent_key \<Rightarrow> if parent_key = [] then None else
         (let structure_key = (case str_value (map_of m ''structure_type'') of
                None \<Rightarrow> ''structured'' | Some s \<Rightarrow> s)
          in if structure_key = ''excel_sheet''
             then Some (structure_key, parent_key, Some (int_value (map_of m ''table_index'')))
             else Some (structure_key, parent_key, None)))"

text \<open>The loop keeps the current segment and the key of its last word.\<close>

fun segments_from :: "word_token list \<Rightarrow> boundary_key \<Rightarrow> word_token list \<Rightarrow> word_token list list" where
  "segments_from current key [] = (if current = [] then [] else [current])"
| "segments_from current key (t # ts) =
     (let k = metadata_boundary_key (tk_metadata t) in
      if current \<noteq> [] \<and> k \<noteq> key then current # segments_from [t] k ts
      else segments_from (current @ [t]) k ts)"

definition token_segments :: "word_token list \<Rightarrow> word_token list list" where
  "token_segments ts = segments_from [] None ts"

subsection \<open>Metadata of a chunk\<close>

definition first_section_title :: "word_token list \<Rightarrow> string option" where
  "first_section_title ts =
     (case filter (\<lambda>s. s \<noteq> None \<and> s \<noteq> Some []) (map tk_section ts) of [] \<Rightarrow> None | s # _ \<Rightarrow> s)"

fun is_safe_metadata_value :: "pyval \<Rightarrow> bool" where
  "is_safe_metadata_value PNone = False"
| "is_safe_metadata_value (PStr s) = (py_strip s \<noteq> [] \<and> length s \<le> 255)"
| "is_safe_metadata_value (PBool b) = True"
| "is_safe_metadata_value (PInt i) = True"
| "is_safe_metadata_value (PFloat x) = True"
| "is_safe_metadata_value (PList xs) = list_all (\<lambda>b. b) (take 20 (map is_safe_metadata_value xs))"
| "is_safe_metadata_value _ = False"

definition merge_int_range :: "string \<Rightarrow> (int list \<Rightarrow> int) \<Rightarrow> pyval pydict list \<Rightarrow> pyval pydict \<Rightarrow> pyval pydict" where
  "merge_int_range key reducer items target =
     (let ints = concat (map (\<lambda>m. case int_value (map_of m key) of None \<Rightarrow> [] | Some i \<Rightarrow> [i]) items)
      in if ints = [] then target else AList.update key (PInt (reducer ints)) target)"

definition min_int :: "int list \<Rightarrow> int" where
  "min_int xs = (case xs of [] \<Rightarrow> 0 | y # ys \<Rightarrow> foldl min y ys)"

definition max_int :: "int list \<Rightarrow> int" where
  "max_int xs = (case xs of [] \<Rightarrow> 0 | y # ys \<Rightarrow> foldl max y ys)"

definition chunk_metadata :: "word_token list \<Rightarrow> nat \<Rightarrow> pyval pydict option" where
  "chunk_metadata ts index = (case filter (\<lambda>m. m \<noteq> []) (map tk_metadata ts) of
     [] \<Rightarrow> None
   | base # rest \<Rightarrow>
      (let items = base # rest; safe = filter (\<lambda>(k, v). is_safe_metadata_value v) base in
       if safe = [] then None else
        (let s1 = AList.update ''chunk_index'' (PInt (int index)) (AList.update ''chunk_level'' (PStr ''child'') safe);
             s2 = (case str_value (map_of s1 ''parent_chunk_key'') of None \<Rightarrow> s1
                | Some k \<Rightarrow> if k = [] then s1
                    else AList.update ''child_chunk_key'' (PStr (k @ '':chunk:'' @ nat_str index)) s1)
         in Some (merge_int_range ''slide_number'' min_int items
              (merge_int_range ''column_to'' max_int items (merge_int_range ''column_from'' min_int items
                (merge_int_range ''row_to'' max_int items (merge_int_range ''row_from'' min_int items s2))))))))"

subsection \<open>Windows and chunks\<close>

definition page_numbers :: "word_token list \<Rightarrow> int list" where
  "page_numbers ts = concat (map (\<lambda>t. case tk_page t of None \<Rightarrow> [] | Some n \<Rightarrow> [n]) ts)"

definition make_chunk :: "(string \<Rightarrow> string) \<Rightarrow> int \<Rightarrow> nat \<Rightarrow> word_token list \<Rightarrow> chunk" where
  "make_chunk sha version index window =
     (let content = py_strip (py_join '' '' (map tk_value window)); pages = page_numbers window in
      \<lparr>ch_version = version, ch_index = index,
       ch_hash = chunk_hash sha (normalize_chunk_text content) version index, ch_text = content,
       ch_tokens = estimate_token_count content, ch_chars = length content,
       ch_page_from = (if pages = [] then None else Some (min_int pages)),
       ch_page_to = (if pages = [] then None else Some (max_int pages)),
       ch_section = first_section_title window, ch_modality = ''text'',
       ch_metadata = chunk_metadata window index\<rparr>)"

text \<open>
  The inner loop: a window at \<open>start\<close>, then the next one a step further. The step of a
  valid configuration is positive, which is what ends the loop.
\<close>

function windows :: "nat \<Rightarrow> nat \<Rightarrow> word_token list \<Rightarrow> nat \<Rightarrow> word_token list list" where
  "windows sz stp segment start =
     (if start < length segment \<and> 0 < stp
      then take sz (drop start segment) # windows sz stp segment (start + stp) else [])"
  by pat_completeness auto
termination by (relation "measure (\<lambda>(sz, stp, segment, start). length segment - start)") auto

declare windows.simps [simp del]

definition append_chunk :: "(string \<Rightarrow> string) \<Rightarrow> int \<Rightarrow> chunk list \<Rightarrow> word_token list \<Rightarrow> chunk list" where
  "append_chunk sha version chunks window =
     (if normalize_chunk_text (py_strip (py_join '' '' (map tk_value window))) = [] then chunks
      else chunks @ [make_chunk sha version (length chunks) window])"

definition chunk_document :: "(string \<Rightarrow> string) \<Rightarrow> chunking_config \<Rightarrow> extracted_page list \<Rightarrow> int \<Rightarrow>
    chunking_error + chunk list" where
  "chunk_document sha cfg pages version =
     (if \<not> config_ok cfg then Inl ChunkSizeInvalid
      else (let tokens = document_tokens pages in
        if tokens = [] then Inl NoChunksCreated
        else (let stp = nat (ck_size cfg - ck_overlap cfg);
                  all_windows = concat (map (\<lambda>seg. windows (nat (ck_size cfg)) stp seg 0) (token_segments tokens));
                  chunks = foldl (append_chunk sha version) [] all_windows
              in if chunks = [] then Inl NoChunksCreated else Inr chunks)))"

subsection \<open>Statistics\<close>

record chunk_stats =
  st_count :: nat
  st_min :: int
  st_max :: int
  st_median :: int

text \<open>\<open>int(median(counts))\<close>: the middle value, or the mean of the two middle ones cut to an
  integer.\<close>

definition int_median :: "int list \<Rightarrow> int" where
  "int_median xs = (let s = sort xs; n = length xs in
     if odd n then s ! (n div 2)
     else (let a = s ! (n div 2 - 1) + s ! (n div 2) in if 0 \<le> a then a div 2 else - (- a div 2)))"

definition chunk_statistics :: "int list \<Rightarrow> chunk_stats" where
  "chunk_statistics counts =
     (if counts = [] then \<lparr>st_count = 0, st_min = 0, st_max = 0, st_median = 0\<rparr>
      else \<lparr>st_count = length counts, st_min = min_int counts, st_max = max_int counts,
        st_median = int_median counts\<rparr>)"

subsection \<open>Words and joined words\<close>

definition word_ok :: "string \<Rightarrow> bool" where
  "word_ok w = (w \<noteq> [] \<and> list_all (\<lambda>c. \<not> py_isspace c) w)"

lemma words_ok: "w \<in> set (words s) \<Longrightarrow> word_ok w"
  using split_ws_words[of "[]" w s] by (auto simp: words_def py_split_def word_ok_def)

lemma split_ws_word:
  "list_all (\<lambda>c. \<not> py_isspace c) w \<Longrightarrow> split_ws cur (w @ rest) = split_ws (cur @ w) rest"
  by (induction w arbitrary: cur) auto

lemma blank_space: "py_isspace CHR '' ''"
  by (simp add: py_isspace_def code_point_def)

lemma words_join: "list_all word_ok ws \<Longrightarrow> words (py_join '' '' ws) = ws"
proof (induction "'' ''" ws rule: py_join.induct)
  case (2 x)
  then show ?case using split_ws_word[of x "[]" "[]"] by (simp add: words_def py_split_def word_ok_def)
next
  case (3 x y ys)
  then have "words (py_join '' '' (x # y # ys)) = x # words (py_join '' '' (y # ys))"
    using split_ws_word[of x "[]" "CHR '' '' # py_join '' '' (y # ys)"]
    by (simp add: words_def py_split_def word_ok_def blank_space)
  with 3 show ?case by simp
qed (simp add: words_def py_split_def)

lemma py_join_last_ne: "ws \<noteq> [] \<Longrightarrow> last ws \<noteq> [] \<Longrightarrow> py_join sep ws \<noteq> []"
  by (induction sep ws rule: py_join.induct) auto

lemma last_py_join: "ws \<noteq> [] \<Longrightarrow> last ws \<noteq> [] \<Longrightarrow> last (py_join sep ws) = last (last ws)"
proof (induction sep ws rule: py_join.induct)
  case (3 sep x y ys)
  have "py_join sep (y # ys) \<noteq> []" using 3(3) py_join_last_ne[of "y # ys" sep] by simp
  with 3 show ?case by simp
qed simp_all

lemma strip_by_keep: "s \<noteq> [] \<Longrightarrow> \<not> p (hd s) \<Longrightarrow> \<not> p (last s) \<Longrightarrow> strip_by p s = s"
proof -
  assume a: "s \<noteq> []" "\<not> p (hd s)" "\<not> p (last s)"
  then have "dropWhile p s = s" by (cases s) auto
  moreover have "dropWhile p (rev s) = rev s" using a by (cases s rule: rev_cases) auto
  ultimately show ?thesis by (simp add: strip_by_def)
qed

lemma py_join_ne: "ws \<noteq> [] \<Longrightarrow> list_all word_ok ws \<Longrightarrow> py_join sep ws \<noteq> []"
  by (subst py_join_Nil) (auto simp: list_all_iff word_ok_def)

lemma strip_join:
  assumes "ws \<noteq> []" "list_all word_ok ws"
  shows "py_strip (py_join '' '' ws) = py_join '' '' ws"
proof -
  have w: "word_ok (hd ws)" "word_ok (last ws)" using assms by (auto simp: list_all_iff)
  have "hd (py_join '' '' ws) = hd (hd ws)" using w(1) assms(1) by (cases ws) (auto simp: hd_py_join word_ok_def)
  moreover have "last (py_join '' '' ws) = last (last ws)"
    using w(2) assms(1) by (intro last_py_join) (auto simp: word_ok_def)
  ultimately show ?thesis unfolding py_strip_def
    using w py_join_ne[OF assms] by (intro strip_by_keep) (auto simp: word_ok_def list_all_iff)
qed

lemma content_words:
  assumes "ws \<noteq> []" "list_all word_ok ws"
  shows "words (py_strip (py_join '' '' ws)) = ws" "normalize_chunk_text (py_strip (py_join '' '' ws)) \<noteq> []"
proof -
  show w: "words (py_strip (py_join '' '' ws)) = ws" using assms by (simp add: strip_join words_join)
  then have "py_split (py_strip (py_join '' '' ws)) = ws" by (simp add: words_def)
  then show "normalize_chunk_text (py_strip (py_join '' '' ws)) \<noteq> []"
    using assms by (simp add: normalize_chunk_text_def strip_join py_join_ne)
qed

lemma document_words_ok: "t \<in> set (document_tokens pages) \<Longrightarrow> word_ok (tk_value t)"
  by (auto simp: document_tokens_def page_tokens_def words_ok)

subsection \<open>Segments and windows\<close>

lemma segments_from_concat: "concat (segments_from cur key ts) = cur @ ts"
  by (induction cur key ts rule: segments_from.induct) (auto simp: Let_def)

definition one_structure :: "word_token list \<Rightarrow> bool" where
  "one_structure ts = (ts \<noteq> [] \<and> (\<exists>k. \<forall>t\<in>set ts. metadata_boundary_key (tk_metadata t) = k))"

lemma segments_from_uniform:
  "\<forall>t\<in>set cur. metadata_boundary_key (tk_metadata t) = key \<Longrightarrow> seg \<in> set (segments_from cur key ts) \<Longrightarrow>
   one_structure seg"
  by (induction cur key ts rule: segments_from.induct)
     (auto simp: one_structure_def Let_def split: if_splits)

lemma token_segments_concat: "concat (token_segments ts) = ts"
  by (simp add: token_segments_def segments_from_concat)

lemma token_segments_uniform: "seg \<in> set (token_segments ts) \<Longrightarrow> one_structure seg"
  unfolding token_segments_def by (rule segments_from_uniform[rotated]) auto

lemma windows_cover:
  "0 < stp \<Longrightarrow> stp \<le> sz \<Longrightarrow> concat (map (take stp) (windows sz stp seg start)) = drop start seg"
proof (induction sz stp seg start rule: windows.induct)
  case (1 sz stp seg start)
  show ?case
  proof (cases "start < length seg")
    case True
    then have "concat (map (take stp) (windows sz stp seg start)) =
        take stp (drop start seg) @ drop (start + stp) seg"
      using 1 by (subst windows.simps) (simp add: min_absorb1)
    then show ?thesis by (metis add.commute append_take_drop_id drop_drop)
  next
    case False
    then show ?thesis by (subst windows.simps) simp
  qed
qed

lemma windows_sub:
  "0 < sz \<Longrightarrow> w \<in> set (windows sz stp seg start) \<Longrightarrow> w \<noteq> [] \<and> length w \<le> sz \<and> sublist w seg"
proof (induction sz stp seg start rule: windows.induct)
  case (1 sz stp seg start)
  show ?case
  proof (cases "start < length seg \<and> 0 < stp")
    case True
    then consider "w = take sz (drop start seg)" | "w \<in> set (windows sz stp seg (start + stp))"
      using 1(3) by (subst (asm) windows.simps) auto
    then show ?thesis
    proof cases
      case 1
      have "sublist (take sz (drop start seg)) seg"
        by (metis sublist_drop sublist_order.order_trans sublist_take)
      then show ?thesis using 1 True \<open>0 < sz\<close> by auto
    next
      case 2
      then show ?thesis using 1(1)[OF True 1(2)] by blast
    qed
  next
    case False
    then show ?thesis using 1(3) by (subst (asm) windows.simps) simp
  qed
qed

definition document_windows :: "chunking_config \<Rightarrow> extracted_page list \<Rightarrow> word_token list list" where
  "document_windows cfg pages = concat (map (\<lambda>seg. windows (nat (ck_size cfg))
     (nat (ck_size cfg - ck_overlap cfg)) seg 0) (token_segments (document_tokens pages)))"

lemma concat_pieces:
  "\<forall>seg\<in>set segs. concat (map g (f seg)) = seg \<Longrightarrow> concat (map g (concat (map f segs))) = concat segs"
  by (induction segs) auto

lemma document_windows_cover:
  assumes "config_ok cfg"
  shows "concat (map (take (nat (ck_size cfg - ck_overlap cfg))) (document_windows cfg pages)) = document_tokens pages"
proof -
  have "concat (map (take (nat (ck_size cfg - ck_overlap cfg)))
      (windows (nat (ck_size cfg)) (nat (ck_size cfg - ck_overlap cfg)) seg 0)) = seg" for seg
    using assms windows_cover[of "nat (ck_size cfg - ck_overlap cfg)" "nat (ck_size cfg)" seg 0]
    by (simp add: config_ok_def nat_le_iff)
  then show ?thesis unfolding document_windows_def
    by (subst concat_pieces) (simp_all add: token_segments_concat)
qed

lemma document_window:
  assumes "config_ok cfg" "w \<in> set (document_windows cfg pages)"
  shows "one_structure w" "length w \<le> nat (ck_size cfg)" "list_all word_ok (map tk_value w)" "w \<noteq> []"
    "sublist w (document_tokens pages)"
proof -
  obtain seg where seg: "seg \<in> set (token_segments (document_tokens pages))"
    and w: "w \<in> set (windows (nat (ck_size cfg)) (nat (ck_size cfg - ck_overlap cfg)) seg 0)"
    using assms(2) by (auto simp: document_windows_def)
  have sub: "w \<noteq> []" "length w \<le> nat (ck_size cfg)" "sublist w seg"
    using windows_sub[OF _ w] assms(1) by (auto simp: config_ok_def)
  have "sublist seg (concat (token_segments (document_tokens pages)))"
    using seg by (metis concat.simps(2) concat_append in_set_conv_decomp sublist_appendI)
  then have whole: "sublist w (document_tokens pages)"
    using sub(3) unfolding token_segments_concat by (metis sublist_order.order_trans)
  show "one_structure w" using token_segments_uniform[OF seg] sub set_mono_sublist[OF sub(3)]
    by (auto simp: one_structure_def)
  show "list_all word_ok (map tk_value w)"
    using set_mono_sublist[OF whole] document_words_ok by (auto simp: list_all_iff)
  show "w \<noteq> []" "length w \<le> nat (ck_size cfg)" "sublist w (document_tokens pages)"
    using sub whole by auto
qed

subsection \<open>The chunks\<close>

lemma append_chunks:
  assumes "\<forall>w\<in>set ws. normalize_chunk_text (py_strip (py_join '' '' (map tk_value w))) \<noteq> []"
  shows "foldl (append_chunk sha v) chunks ws =
    chunks @ map (\<lambda>(i, w). make_chunk sha v i w) (enum_from (length chunks) ws)"
  using assms by (induction ws arbitrary: chunks) (simp_all add: append_chunk_def)

lemma chunk_document_eq:
  assumes "config_ok cfg"
  shows "chunk_document sha cfg pages v = (if document_tokens pages = [] then Inl NoChunksCreated
    else Inr (map (\<lambda>(i, w). make_chunk sha v i w) (enum_from 0 (document_windows cfg pages))))"
proof -
  have ok: "\<forall>w\<in>set (document_windows cfg pages). normalize_chunk_text (py_strip (py_join '' '' (map tk_value w))) \<noteq> []"
    using document_window(3,4)[OF assms] content_words(2) by auto
  have ne: "document_windows cfg pages \<noteq> []" if "document_tokens pages \<noteq> []"
    using document_windows_cover[OF assms, of pages] that by auto
  have "map (\<lambda>(i, w). make_chunk sha v i w) (enum_from 0 (document_windows cfg pages)) \<noteq> []"
    if "document_tokens pages \<noteq> []" using ne[OF that] by (cases "document_windows cfg pages") auto
  then show ?thesis using assms append_chunks[OF ok, of sha v "[]"]
    by (simp add: chunk_document_def Let_def document_windows_def)
qed

lemma make_chunk_fields:
  assumes "w \<noteq> []" "list_all word_ok (map tk_value w)"
  shows "words (ch_text (make_chunk sha v i w)) = map tk_value w" "ch_tokens (make_chunk sha v i w) = length w"
    "ch_index (make_chunk sha v i w) = i"
  using content_words(1)[of "map tk_value w"] assms
  by (simp_all add: make_chunk_def Let_def estimate_token_count_def)

definition ex_page :: "string \<Rightarrow> int \<Rightarrow> extracted_page" where
  "ex_page s n = \<lparr>pg_text = s, pg_number = Some n, pg_section = None, pg_metadata = []\<rparr>"

text \<open>
  C40: Chunking covers the document and nothing else: the chunks are numbered from zero; each
  is a window of at most the configured number of consecutive words of one structure, with
  those words as its text and their number as its token count; dropping from every window the
  words it shares with the next one gives back exactly the words of the pages, in order.
  Chunking fails only for an invalid configuration or a document without words.
\<close>

theorem chunks_cover_the_document:
  assumes "config_ok cfg"
  shows "(chunk_document sha cfg pages v = Inl NoChunksCreated \<longleftrightarrow>
      (\<forall>p\<in>set pages. words (normalize_page_text (pg_text p)) = [])) \<and>
    (\<forall>chunks. chunk_document sha cfg pages v = Inr chunks \<longrightarrow>
      (\<exists>ws. length ws = length chunks \<and> map ch_index chunks = [0..<length chunks] \<and>
        (\<forall>i<length chunks. words (ch_text (chunks ! i)) = map tk_value (ws ! i) \<and>
           ch_tokens (chunks ! i) = length (ws ! i) \<and> 1 \<le> length (ws ! i) \<and>
           int (length (ws ! i)) \<le> ck_size cfg \<and> one_structure (ws ! i) \<and>
           sublist (ws ! i) (document_tokens pages)) \<and>
        concat (map (take (nat (ck_size cfg - ck_overlap cfg))) ws) = document_tokens pages))"
proof -
  let ?ws = "document_windows cfg pages"
  let ?chunks = "map (\<lambda>(i, w). make_chunk sha v i w) (enum_from 0 ?ws)"
  note eq = chunk_document_eq[OF assms, of sha pages v]
  have empty: "document_tokens pages = [] \<longleftrightarrow> (\<forall>p\<in>set pages. words (normalize_page_text (pg_text p)) = [])"
    by (auto simp: document_tokens_def page_tokens_def)
  have nth: "?chunks ! i = make_chunk sha v i (?ws ! i)" if "i < length ?ws" for i
    using that by (simp add: nth_enum_from)
  have "map ch_index ?chunks = [0..<length ?ws]"
    by (rule nth_equalityI) (auto simp: nth_enum_from make_chunk_def Let_def)
  moreover have "words (ch_text (?chunks ! i)) = map tk_value (?ws ! i) \<and> ch_tokens (?chunks ! i) = length (?ws ! i) \<and>
      1 \<le> length (?ws ! i) \<and> int (length (?ws ! i)) \<le> ck_size cfg \<and> one_structure (?ws ! i) \<and>
      sublist (?ws ! i) (document_tokens pages)" if i: "i < length ?ws" for i
  proof -
    note w = document_window[OF assms nth_mem[OF i]]
    have "int (length (?ws ! i)) \<le> ck_size cfg" using w(2) assms by (simp add: config_ok_def nat_le_iff le_nat_iff)
    then show ?thesis using w make_chunk_fields[OF w(4,3)] nth[OF i] by (cases "?ws ! i") auto
  qed
  ultimately show ?thesis using eq empty document_windows_cover[OF assms, of pages]
    by (auto intro!: exI[of _ ?ws])
qed

theorem chunks_cover_the_document_witness:
  "\<exists>chunks. chunk_document id \<lparr>ck_size = 2, ck_overlap = 1\<rparr> [ex_page ''a b c'' 1] 9 = Inr chunks \<and>
    map ch_index chunks = [0..<length chunks]"
proof -
  have c: "config_ok \<lparr>ck_size = 2, ck_overlap = 1\<rparr>" by (simp add: config_ok_def)
  have "words (normalize_page_text ''a b c'') \<noteq> []" by code_simp
  then have "chunk_document id \<lparr>ck_size = 2, ck_overlap = 1\<rparr> [ex_page ''a b c'' 1] 9 \<noteq> Inl NoChunksCreated"
    using chunks_cover_the_document[OF c, of id "[ex_page ''a b c'' 1]" 9] by (simp add: ex_page_def)
  then obtain chunks where "chunk_document id \<lparr>ck_size = 2, ck_overlap = 1\<rparr> [ex_page ''a b c'' 1] 9 = Inr chunks"
    unfolding chunk_document_eq[OF c] by (auto split: if_splits)
  with chunks_cover_the_document[OF c, of id "[ex_page ''a b c'' 1]" 9] show ?thesis by blast
qed

lemma int_str_inj: "int_str a = int_str b \<Longrightarrow> a = b"
  by (metis option.inject parse_int_str)

text \<open>
  The hash of a chunk never recognizes unchanged text in a new version: without a
  collision of the digest, the same text at the same place of two versions has two different
  hashes, so the comparison of versions, which looks for equal hashes, cannot find it; and
  within one version equal hashes do not mean equal text, because the parts are joined
  without a separator.
\<close>

theorem chunk_hash_is_bound_to_the_version:
  assumes "inj sha" "v \<noteq> v'"
  shows "chunk_hash sha txt v i \<noteq> chunk_hash sha txt v' i \<and>
    chunk_hash sha ''x'' 1 11 = chunk_hash sha ''x1'' 1 1"
proof -
  have "int_str v \<noteq> int_str v'" using assms(2) int_str_inj by blast
  then have "txt @ int_str v @ nat_str i \<noteq> txt @ int_str v' @ nat_str i" by simp
  moreover have "''x'' @ int_str 1 @ nat_str 11 = ''x1'' @ int_str 1 @ nat_str 1" by code_simp
  ultimately show ?thesis using assms(1) by (simp add: chunk_hash_def inj_eq)
qed

theorem chunk_hash_is_bound_to_the_version_witness: "chunk_hash id ''same'' 1 0 \<noteq> chunk_hash id ''same'' 2 0"
  using chunk_hash_is_bound_to_the_version[of id 1 2 "''same''" 0] by simp

end
