(* ===== verification/Upload_Validation.thy ===== *)
theory Upload_Validation
  imports Py_Regex
begin

section \<open>Validation of an uploaded file\<close>

text \<open>
  \<open>backend/app/storage/validators.py\<close>: the file name, its extension and its declared
  type are checked, and the content is checked against the extension. Bytes are characters.
  The zip directory reader, the text decoders and the XML parser are libraries: they are the
  fields of \<open>file_parsers\<close>. The decoder returns nothing where it raises
  \<open>UnicodeDecodeError\<close>. The XML parser takes the pieces it is fed and returns the
  start tags it reports and whether it accepts the document. A leading byte order mark has no
  counterpart in Latin-1 text, so its removal is not a step of the model.
\<close>

datatype upload_error =
    UploadInvalid string
  | PayloadTooLarge
  | UnsafeFileRejected
  | UnsupportedMediaType
  | UncaughtValueError

record zip_info =
  zip_filename :: string
  zip_encrypted :: bool
  zip_file_size :: nat
  zip_compress_size :: nat

record file_parsers =
  read_zip :: "string \<Rightarrow> zip_info list option"
  decode_text :: "string \<Rightarrow> string \<Rightarrow> string option"
  parse_xml :: "string list \<Rightarrow> string list \<times> bool"
  xml_max_elements :: nat

record validated_upload =
  up_file_name :: string
  up_extension :: string
  up_mime_type :: string
  up_size :: nat

subsection \<open>Tables\<close>

definition octet_stream :: string where
  "octet_stream = ''application/octet-stream''"

definition dangerous_extensions :: "string list" where
  "dangerous_extensions = [''.bat'', ''.cmd'', ''.com'', ''.dll'', ''.exe'', ''.js'', ''.msi'',
     ''.ps1'', ''.scr'', ''.sh'', ''.vbs'']"

definition office_mime :: "string \<Rightarrow> string list" where
  "office_mime kind = [''application/vnd.openxmlformats-officedocument.'' @ kind,
     ''application/zip'', octet_stream]"

definition mime_types_by_extension :: "(string \<times> string list) list" where
  "mime_types_by_extension =
    [(''.pdf'', [''application/pdf'', octet_stream]),
     (''.docx'', office_mime ''wordprocessingml.document''),
     (''.xlsx'', office_mime ''spreadsheetml.sheet''),
     (''.pptx'', office_mime ''presentationml.presentation''),
     (''.txt'', [''text/plain'', octet_stream]),
     (''.md'', [''text/markdown'', ''text/plain'', octet_stream]),
     (''.markdown'', [''text/markdown'', ''text/plain'', octet_stream]),
     (''.csv'', [''text/csv'', ''application/csv'', ''application/vnd.ms-excel'', ''text/plain'']),
     (''.html'', [''text/html'', ''application/xhtml+xml'', octet_stream]),
     (''.htm'', [''text/html'', ''application/xhtml+xml'', octet_stream]),
     (''.xml'', [''text/xml'', ''application/xml'', ''application/rss+xml'', ''application/atom+xml'',
        octet_stream])]"

definition allowed_mime_types :: "string \<Rightarrow> string list" where
  "allowed_mime_types ext =
     (case map_of mime_types_by_extension ext of None \<Rightarrow> [octet_stream] | Some ms \<Rightarrow> ms)"

definition macro_enabled_extensions :: "string list" where
  "macro_enabled_extensions = [''.docm'', ''.xlsm'', ''.pptm'']"

definition xml_content_types :: "string list" where
  "xml_content_types = [''application/xhtml+xml'', ''text/xml'', ''application/xml'',
     ''application/rss+xml'', ''application/atom+xml'']"

definition text_encodings :: "string list" where
  "text_encodings = [''utf-8'', ''utf-8-sig'', ''cp932'']"

subsection \<open>File names\<close>

definition slash :: char where "slash = CHR ''/''"
definition backslash :: char where "backslash = CHR 0x5C"

definition is_control_char :: "char \<Rightarrow> bool" where
  "is_control_char c = (code_point c < 32 \<or> code_point c = 127)"

definition safe_name_char :: "char \<Rightarrow> bool" where
  "safe_name_char c = (ascii_alpha c \<or> py_isdigit c \<or> c \<in> set ''._ -'')"

text \<open>\<open>_SAFE_FILENAME_PATTERN.sub("_", s)\<close>: a maximal run of other characters
  becomes one underscore; \<open>fresh\<close> tells that no run is open.\<close>

fun sub_unsafe :: "bool \<Rightarrow> string \<Rightarrow> string" where
  "sub_unsafe fresh [] = []"
| "sub_unsafe fresh (c # cs) =
     (if safe_name_char c then c # sub_unsafe True cs
      else (if fresh then ''_'' else []) @ sub_unsafe False cs)"

text \<open>\<open>".." in PureWindowsPath(filename).parts\<close> of a name without separators: the
  drive is a first character before a colon.\<close>

definition dotdot_part :: "string \<Rightarrow> bool" where
  "dotdot_part s = ((case s of _ # d # r \<Rightarrow> if d = CHR '':'' then r else s | _ \<Rightarrow> s) = ''..'')"

text \<open>\<open>s.rpartition(".")\<close> and \<open>s.rsplit(".", 1)\<close>: the text before and
  after the last dot, if there is one.\<close>

definition split_last_dot :: "string \<Rightarrow> (string \<times> string) option" where
  "split_last_dot s =
     (let suf = rev (takeWhile (\<lambda>c. c \<noteq> CHR ''.'') (rev s)) in
      if CHR ''.'' \<in> set s then Some (take (length s - length suf - 1) s, suf) else None)"

text \<open>\<open>s[:n]\<close>, where a negative bound counts from the end.\<close>

definition py_take :: "int \<Rightarrow> string \<Rightarrow> string" where
  "py_take n s = (if 0 \<le> n then take (nat n) s else take (nat (int (length s) + n)) s)"

definition strip_space_dot :: "string \<Rightarrow> string" where
  "strip_space_dot s = strip_by (\<lambda>c. c \<in> set '' .'') s"

definition shorten_name :: "string \<Rightarrow> string" where
  "shorten_name s =
     (if length s \<le> 255 then s
      else case split_last_dot s of
        Some (stem, suf) \<Rightarrow> py_take (255 - int (length suf) - 1) stem @ ''.'' @ suf
      | None \<Rightarrow> take 255 s)"

definition sanitize_file_name :: "string \<Rightarrow> upload_error + string" where
  "sanitize_file_name f =
     (if list_ex is_control_char f then Inl UnsafeFileRejected
      else if slash \<in> set f \<or> backslash \<in> set f then Inl UnsafeFileRejected
      else if f = ''.'' \<or> f = ''..'' \<or> dotdot_part f then Inl UnsafeFileRejected
      else (let safe = strip_space_dot (sub_unsafe True (py_strip f)) in
        if safe = [] then Inl UnsafeFileRejected else Inr (shorten_name safe)))"

definition safe_title_from_file_name :: "string \<Rightarrow> string" where
  "safe_title_from_file_name f =
     (let stem = py_strip (case split_last_dot f of None \<Rightarrow> f | Some (p, _) \<Rightarrow> p) in
      if stem = [] then f else stem)"

definition file_extension :: "string \<Rightarrow> upload_error + string" where
  "file_extension f = (case split_last_dot f of
      None \<Rightarrow> Inl UnsupportedMediaType
    | Some (_, suf) \<Rightarrow> Inr (''.'' @ py_lower suf))"

definition extension_from_file_name :: "string \<Rightarrow> upload_error + string" where
  "extension_from_file_name f =
     (case sanitize_file_name f of Inl e \<Rightarrow> Inl e | Inr s \<Rightarrow> file_extension s)"

definition allowed_mime_types_for_extension :: "string \<Rightarrow> string list" where
  "allowed_mime_types_for_extension ext = allowed_mime_types (py_lower ext)"

definition name_suffixes :: "string \<Rightarrow> string list" where
  "name_suffixes f = map (\<lambda>p. ''.'' @ py_lower p) (tl (py_split_on (CHR ''.'') f))"

definition dangerous_suffix :: "string \<Rightarrow> bool" where
  "dangerous_suffix f = list_ex (\<lambda>s. s \<in> set dangerous_extensions) (name_suffixes f)"

subsection \<open>Office archives\<close>

definition mebi :: nat where "mebi = 1024 * 1024"

definition bad_entry_name :: "string \<Rightarrow> bool" where
  "bad_entry_name n = (n = [] \<or> prefix ''/'' n \<or> backslash \<in> set n \<or>
     ''..'' \<in> set (py_split_on slash n))"

definition is_rejected_office_part :: "string \<Rightarrow> bool" where
  "is_rejected_office_part n = (let m = py_lower (''/'' @ n) in
     py_endswith ''/vbaproject.bin'' m \<or> py_in ''/activex/'' m \<or> py_in ''/embeddings/'' m)"

definition bad_compression :: "zip_info \<Rightarrow> bool" where
  "bad_compression z =
     ((zip_compress_size z = 0 \<and> 0 < zip_file_size z) \<or>
      (0 < zip_compress_size z \<and>
       (100::rat) < of_nat (zip_file_size z) / of_nat (zip_compress_size z)))"

text \<open>The loop over the entries: the running total and the size of the main part.\<close>

fun scan_entries :: "nat \<Rightarrow> string \<Rightarrow> nat \<Rightarrow> nat option \<Rightarrow> zip_info list \<Rightarrow> nat option option" where
  "scan_entries limit main tot main_size [] = Some main_size"
| "scan_entries limit main tot main_size (z # zs) =
     (if bad_entry_name (zip_filename z) \<or> is_rejected_office_part (zip_filename z) \<or> zip_encrypted z
      then None
      else if limit < tot + zip_file_size z \<or> bad_compression z then None
      else scan_entries limit main (tot + zip_file_size z)
        (if zip_filename z = main then Some (zip_file_size z) else main_size) zs)"

definition archive_ok :: "nat \<Rightarrow> nat \<Rightarrow> nat \<Rightarrow> string list \<Rightarrow> string \<Rightarrow> zip_info list \<Rightarrow> bool" where
  "archive_ok max_entries max_total max_main required main infos =
     (infos \<noteq> [] \<and> length infos \<le> max_entries \<and>
      set required \<subseteq> set (map zip_filename infos) \<and>
      (case scan_entries max_total main 0 None infos of
         Some (Some n) \<Rightarrow> n \<le> max_main | _ \<Rightarrow> False))"

definition docx_archive_ok :: "zip_info list \<Rightarrow> bool" where
  "docx_archive_ok = archive_ok 200 (10 * mebi) (5 * mebi) [] ''word/document.xml''"

definition office_archive_ok :: "string list \<Rightarrow> string \<Rightarrow> zip_info list \<Rightarrow> bool" where
  "office_archive_ok = archive_ok 1000 (30 * mebi) (10 * mebi)"

definition zip_magic :: "string \<Rightarrow> bool" where
  "zip_magic s = (prefix [CHR ''P'', CHR ''K'', CHR 0x03, CHR 0x04] s \<or>
     prefix [CHR ''P'', CHR ''K'', CHR 0x05, CHR 0x06] s \<or>
     prefix [CHR ''P'', CHR ''K'', CHR 0x07, CHR 0x08] s)"

definition zip_content_ok :: "file_parsers \<Rightarrow> (zip_info list \<Rightarrow> bool) \<Rightarrow> string \<Rightarrow> bool" where
  "zip_content_ok fp ok s = (zip_magic s \<and> (case read_zip fp s of None \<Rightarrow> False | Some infos \<Rightarrow> ok infos))"

subsection \<open>Markup\<close>

text \<open>\<open>_HTML_SVG_TAG_PATTERN\<close>: an opening svg tag, with an optional prefix, up to a
  delimiter or the end of the text (\<open>$\<close>, which also matches before a final newline).\<close>

definition svg_tag_start :: rx where
  "svg_tag_start = rx_seq [rx_in ''<'', Star (Ch py_isspace),
     rx_opt (rx_seq [Ch (\<lambda>c. ascii_alpha c \<or> c = CHR ''_''),
       Star (Ch (\<lambda>c. py_wordchar c \<or> c = CHR ''.'' \<or> c = CHR ''-'')), rx_in '':'']),
     rx_ilit ''svg'']"

definition tag_delimiter :: rx where
  "tag_delimiter = Ch (\<lambda>c. py_isspace c \<or> c = CHR ''>'' \<or> c = slash)"

fun rx_search_to_end :: "rx \<Rightarrow> string \<Rightarrow> string \<Rightarrow> bool" where
  "rx_search_to_end r l s =
     (list_ex (\<lambda>z. snd z = [] \<or> snd z = newline) (rx_ends r (l, s)) \<or>
      (case s of [] \<Rightarrow> False | c # cs \<Rightarrow> rx_search_to_end r (c # l) cs))"

definition html_svg_tag :: "string \<Rightarrow> bool" where
  "html_svg_tag s = (rx_search (Sq svg_tag_start tag_delimiter) s \<or> rx_search_to_end svg_tag_start [] s)"

definition svg_namespace :: string where
  "svg_namespace = ''http://www.w3.org/2000/svg''"

definition is_svg_xml_tag :: "string \<Rightarrow> bool" where
  "is_svg_xml_tag t =
     (if prefix ''{'' t then
        (let rest = tl t; ns = takeWhile (\<lambda>c. c \<noteq> CHR ''}'') rest;
             local = drop (length ns + 1) rest in
         py_lower local = ''svg'' \<or> py_lower ns = svg_namespace)
      else py_lower (last (py_split_on (CHR '':'') t)) = ''svg'')"

function text_chunks :: "nat \<Rightarrow> string \<Rightarrow> string list" where
  "text_chunks n s = (if s = [] \<or> n = 0 then [] else take n s # text_chunks n (drop n s))"
  by pat_completeness auto
termination by (relation "measure (\<lambda>(n, s). length s)") auto

declare text_chunks.simps [simp del]

definition xml_text_ok :: "file_parsers \<Rightarrow> string \<Rightarrow> bool" where
  "xml_text_ok fp text =
     (let low = py_lower text in
      \<not> py_in ''<!doctype'' low \<and> \<not> py_in ''<!entity'' low \<and>
      (case parse_xml fp (text_chunks 8192 text) of (tags, accepted) \<Rightarrow>
         length tags \<le> xml_max_elements fp \<and> \<not> list_ex is_svg_xml_tag tags \<and> accepted))"

definition first_decoding :: "file_parsers \<Rightarrow> string \<Rightarrow> string option" where
  "first_decoding fp s = (case List.map_filter (\<lambda>enc. decode_text fp enc s) text_encodings of
      [] \<Rightarrow> None | t # _ \<Rightarrow> Some t)"

definition markup_ok :: "file_parsers \<Rightarrow> string \<Rightarrow> string \<Rightarrow> string \<Rightarrow> bool" where
  "markup_ok fp ext mime text =
     (if ext = ''.xml'' \<or> mime \<in> set xml_content_types then xml_text_ok fp text
      else if ext = ''.html'' \<or> ext = ''.htm'' then \<not> html_svg_tag text
      else True)"

definition text_content_ok :: "file_parsers \<Rightarrow> string \<Rightarrow> string \<Rightarrow> string \<Rightarrow> bool" where
  "text_content_ok fp ext mime s =
     (nul_char \<notin> set s \<and>
      (case first_decoding fp s of None \<Rightarrow> False | Some text \<Rightarrow> markup_ok fp ext mime text))"

definition web_content_safe :: "file_parsers \<Rightarrow> string \<Rightarrow> string \<Rightarrow> bool" where
  "web_content_safe fp ctype s =
     (let mime = py_lower (py_strip (hd (py_split_on (CHR '';'') ctype))) in
      if mime \<notin> set xml_content_types \<and> mime \<noteq> ''text/html'' then True
      else nul_char \<notin> set s \<and>
        (case first_decoding fp s of None \<Rightarrow> False
         | Some text \<Rightarrow> if mime \<in> set xml_content_types then xml_text_ok fp text
             else \<not> html_svg_tag text))"

subsection \<open>The upload\<close>

definition magic_bytes_ok :: "file_parsers \<Rightarrow> string \<Rightarrow> string \<Rightarrow> string \<Rightarrow> bool" where
  "magic_bytes_ok fp ext mime s =
     (if ext = ''.pdf'' then prefix ''%PDF-'' s
      else if ext = ''.docx'' then zip_content_ok fp docx_archive_ok s
      else if ext = ''.xlsx'' then zip_content_ok fp
        (office_archive_ok [''[Content_Types].xml'', ''xl/workbook.xml''] ''xl/workbook.xml'') s
      else if ext = ''.pptx'' then zip_content_ok fp
        (office_archive_ok [''[Content_Types].xml'', ''ppt/presentation.xml''] ''ppt/presentation.xml'') s
      else if ext \<in> {''.txt'', ''.md'', ''.markdown'', ''.csv'', ''.html'', ''.htm'', ''.xml''}
        then text_content_ok fp ext mime s
      else True)"

definition normalized_mime :: "string option \<Rightarrow> string" where
  "normalized_mime ctype =
     py_lower (hd (py_split_on (CHR '';'') (case ctype of None \<Rightarrow> octet_stream
       | Some t \<Rightarrow> if t = [] then octet_stream else t)))"

definition validate_upload :: "file_parsers \<Rightarrow> string option \<Rightarrow> string option \<Rightarrow> string \<Rightarrow> nat \<Rightarrow>
    string list \<Rightarrow> upload_error + validated_upload" where
  "validate_upload fp filename ctype content max_bytes allowed =
     (case filename of None \<Rightarrow> Inl (UploadInvalid ''file name is required.'')
      | Some f \<Rightarrow>
        if py_strip f = [] then Inl (UploadInvalid ''file name is required.'')
        else if content = [] then Inl (UploadInvalid ''file must not be empty.'')
        else if max_bytes < length content then Inl PayloadTooLarge
        else case sanitize_file_name f of Inl e \<Rightarrow> Inl e | Inr safe \<Rightarrow>
          (case file_extension safe of Inl e \<Rightarrow> Inl e | Inr ext \<Rightarrow>
            if py_lower ext \<in> set macro_enabled_extensions then Inl UnsafeFileRejected
            else if ext \<notin> set (map py_lower allowed) then Inl UnsupportedMediaType
            else if dangerous_suffix safe then Inl UnsafeFileRejected
            else (let mime = normalized_mime ctype in
              if mime \<notin> set (allowed_mime_types ext) then Inl UnsupportedMediaType
              else if \<not> magic_bytes_ok fp ext mime content then Inl UnsafeFileRejected
              else Inr \<lparr>up_file_name = safe, up_extension = ext, up_mime_type = mime,
                up_size = length content\<rparr>)))"

subsection \<open>What a sanitized name looks like\<close>

lemma sub_unsafe_safe: "list_all safe_name_char (sub_unsafe fresh s)"
  by (induction fresh s rule: sub_unsafe.induct) (auto simp: safe_name_char_def)

lemma list_all_subset: "list_all p xs \<Longrightarrow> set ys \<subseteq> set xs \<Longrightarrow> list_all p ys"
  by (auto simp: list_all_iff)

lemma strip_by_set: "set (strip_by p s) \<subseteq> set s"
  by (auto simp: strip_by_def dest!: set_dropWhileD)

lemma strip_by_hd: "strip_by p s \<noteq> [] \<Longrightarrow> \<not> p (hd (strip_by p s))"
proof -
  assume ne: "strip_by p s \<noteq> []"
  let ?t = "dropWhile p s"
  have "strip_by p s = rev (dropWhile p (rev ?t))" by (simp add: strip_by_def)
  moreover obtain q where "rev ?t = q @ dropWhile p (rev ?t)"
    by (metis takeWhile_dropWhile_id)
  ultimately have pre: "?t = strip_by p s @ rev q" by (metis rev_append rev_rev_ident)
  with ne have "hd ?t = hd (strip_by p s)" "?t \<noteq> []" by auto
  then show ?thesis using hd_dropWhile[of p s] by simp
qed

lemma tail_after_dot:
  "CHR ''.'' \<notin> set b \<Longrightarrow> takeWhile (\<lambda>c. c \<noteq> CHR ''.'') (rev (a @ CHR ''.'' # b)) = rev b"
  by (simp add: takeWhile_append)

lemma last_dot_unique:
  "a @ CHR ''.'' # b = c @ CHR ''.'' # e \<Longrightarrow> CHR ''.'' \<notin> set b \<Longrightarrow> CHR ''.'' \<notin> set e \<Longrightarrow> b = e"
  by (metis tail_after_dot rev_is_rev_conv)

lemma split_last_dot_join:
  "split_last_dot s = Some (a, b) \<Longrightarrow> s = a @ ''.'' @ b \<and> CHR ''.'' \<notin> set b"
proof -
  assume sp: "split_last_dot s = Some (a, b)"
  then have "CHR ''.'' \<in> set s" by (auto simp: split_last_dot_def Let_def split: if_splits)
  then obtain ys zs where s: "s = ys @ CHR ''.'' # zs" "CHR ''.'' \<notin> set zs"
    by (meson split_list_last)
  have "split_last_dot s = Some (ys, zs)"
    using tail_after_dot[OF s(2), of ys] by (simp add: split_last_dot_def Let_def s(1))
  with sp s show ?thesis by simp
qed

lemma split_last_dot_char: "split_last_dot s = None \<longleftrightarrow> CHR ''.'' \<notin> set s"
  by (auto simp: split_last_dot_def Let_def)

lemma py_take_set: "set (py_take n s) \<subseteq> set s"
  by (auto simp: py_take_def dest: in_set_takeD)

lemma shorten_name_chars:
  assumes "list_all safe_name_char s" "s \<noteq> []"
  shows "list_all safe_name_char (shorten_name s) \<and> shorten_name s \<noteq> []"
proof (cases "split_last_dot s")
  case None
  then show ?thesis using assms by (auto simp: shorten_name_def list_all_iff dest: in_set_takeD)
next
  case (Some p)
  obtain stem suf where p: "p = (stem, suf)" by fastforce
  have "s = stem @ ''.'' @ suf" using split_last_dot_join Some p by blast
  moreover have "safe_name_char (CHR ''.'')" by code_simp
  ultimately show ?thesis
    using assms Some p py_take_set[of _ stem] by (auto simp: shorten_name_def list_all_iff)
qed

lemma sanitize_file_name_safe:
  assumes "sanitize_file_name f = Inr s"
  shows "list_all safe_name_char s" "s \<noteq> []"
proof -
  define t where "t = strip_space_dot (sub_unsafe True (py_strip f))"
  have t: "t \<noteq> []" "s = shorten_name t"
    using assms by (simp_all add: sanitize_file_name_def Let_def t_def split: if_splits)
  have "list_all safe_name_char t"
    unfolding t_def strip_space_dot_def
    by (rule list_all_subset[OF sub_unsafe_safe strip_by_set])
  then show "list_all safe_name_char s" "s \<noteq> []"
    using shorten_name_chars[of t] t by simp_all
qed

lemma separators_not_safe:
  "\<not> safe_name_char slash" "\<not> safe_name_char backslash" "\<not> safe_name_char nul_char"
  by code_simp+

lemma slash_not_safe: "list_all safe_name_char s \<Longrightarrow>
   slash \<notin> set s \<and> backslash \<notin> set s \<and> nul_char \<notin> set s"
  using separators_not_safe by (auto simp: list_all_iff)

text \<open>A name with an extension that is not itself too long keeps its first character and fits.\<close>

lemma shorten_name_bounds:
  assumes "split_last_dot (shorten_name s) = Some (a, b)" "length b < 254" "s \<noteq> []"
  shows "length (shorten_name s) \<le> 255 \<and> hd (shorten_name s) = hd s"
proof (cases "length s \<le> 255")
  case True
  then show ?thesis by (simp add: shorten_name_def)
next
  case False
  show ?thesis
  proof (cases "split_last_dot s")
    case None
    then show ?thesis using False assms(3) by (simp add: shorten_name_def hd_take)
  next
    case (Some p)
    obtain stem suf where p: "p = (stem, suf)" by fastforce
    note join = split_last_dot_join[of s stem suf]
    have shape: "shorten_name s = py_take (255 - int (length suf) - 1) stem @ ''.'' @ suf"
      using False Some p by (simp add: shorten_name_def)
    have "a @ CHR ''.'' # b = py_take (255 - int (length suf) - 1) stem @ CHR ''.'' # suf"
      using split_last_dot_join[OF assms(1)] shape by simp
    then have "b = suf"
      using last_dot_unique split_last_dot_join[OF assms(1)] join Some p by blast
    with assms(2) have pos: "0 < 255 - int (length suf) - 1" by simp
    have s: "s = stem @ CHR ''.'' # suf" using join Some p by simp
    then have "stem \<noteq> []" using False \<open>b = suf\<close> assms(2) by auto
    moreover define k where "k = nat (255 - int (length suf) - 1)"
    ultimately have "shorten_name s = take k stem @ CHR ''.'' # suf" "0 < k" "k + length suf = 254"
      using pos shape by (simp_all add: py_take_def)
    with s \<open>stem \<noteq> []\<close> show ?thesis by (simp add: hd_append)
  qed
qed

subsection \<open>Accepted uploads\<close>

lemma sanitize_shape:
  assumes "sanitize_file_name f = Inr s"
  obtains t where "t = strip_space_dot (sub_unsafe True (py_strip f))" "t \<noteq> []" "s = shorten_name t"
  using assms that by (simp add: sanitize_file_name_def Let_def split: if_splits)

lemma file_extension_Inr:
  "file_extension s = Inr ext \<Longrightarrow> \<exists>a b. split_last_dot s = Some (a, b) \<and> ext = ''.'' @ py_lower b"
  by (auto simp: file_extension_def split: option.splits)

lemma length_py_lower [simp]: "length (py_lower s) = length s"
  by (simp add: py_lower_def)

definition safe_upload_name :: "string \<Rightarrow> bool" where
  "safe_upload_name s = (list_all safe_name_char s \<and> s \<noteq> [] \<and> length s \<le> 255 \<and> hd s \<notin> set '' .'')"

lemma sanitized_with_extension:
  assumes "sanitize_file_name f = Inr s" "file_extension s = Inr ext" "length ext \<le> 254"
  shows "safe_upload_name s"
proof -
  obtain t where t: "t = strip_space_dot (sub_unsafe True (py_strip f))" "t \<noteq> []" "s = shorten_name t"
    using assms(1) by (rule sanitize_shape)
  obtain a b where b: "split_last_dot s = Some (a, b)" "ext = ''.'' @ py_lower b"
    using file_extension_Inr[OF assms(2)] by blast
  have "hd t \<notin> set '' .''"
    using strip_by_hd[of "\<lambda>c. c \<in> set '' .''"] t(1,2) by (simp add: strip_space_dot_def)
  moreover have "length s \<le> 255 \<and> hd s = hd t"
    using shorten_name_bounds b assms(3) t by simp
  ultimately show ?thesis
    using sanitize_file_name_safe[OF assms(1)] by (simp add: safe_upload_name_def)
qed

text \<open>What a validated upload satisfies.\<close>

definition upload_facts :: "file_parsers \<Rightarrow> string \<Rightarrow> nat \<Rightarrow> string list \<Rightarrow> validated_upload \<Rightarrow> bool" where
  "upload_facts fp content max_bytes allowed u =
     (file_extension (up_file_name u) = Inr (up_extension u) \<and>
      up_extension u \<in> set (map py_lower allowed) \<and>
      py_lower (up_extension u) \<notin> set macro_enabled_extensions \<and>
      \<not> dangerous_suffix (up_file_name u) \<and>
      up_mime_type u \<in> set (allowed_mime_types (up_extension u)) \<and>
      magic_bytes_ok fp (up_extension u) (up_mime_type u) content \<and>
      up_size u = length content \<and> 0 < up_size u \<and> up_size u \<le> max_bytes)"

lemma validate_upload_Inr:
  assumes "validate_upload fp filename ctype content max_bytes allowed = Inr u"
  shows "upload_facts fp content max_bytes allowed u \<and>
    (\<exists>f. filename = Some f \<and> sanitize_file_name f = Inr (up_file_name u))"
  using assms
  by (simp add: validate_upload_def upload_facts_def Let_def
      split: option.splits if_split_asm sum.splits)
     (auto)

text \<open>
  C22: An accepted upload has a file name of plain characters without separators, at most
  255 long and not starting with a dot or a space, as long as no configured extension is
  itself longer than 254 characters. Its extension is a configured one and none of its
  suffixes is an executable's, it is not macro-enabled, the declared type is one of those of
  the extension, the content has the marks of that type, and its size is within the limit.
\<close>

theorem accepted_upload_is_safe:
  assumes "validate_upload fp filename ctype content max_bytes allowed = Inr u"
    and "list_all (\<lambda>e. length e \<le> 254) allowed"
  shows "safe_upload_name (up_file_name u) \<and> upload_facts fp content max_bytes allowed u"
proof -
  from validate_upload_Inr[OF assms(1)] obtain f where
    facts: "upload_facts fp content max_bytes allowed u" and f: "sanitize_file_name f = Inr (up_file_name u)"
    by blast
  then have "length (up_extension u) \<le> 254"
    using assms(2) by (auto simp: upload_facts_def list_all_iff)
  with facts f show ?thesis using sanitized_with_extension by (auto simp: upload_facts_def)
qed

definition plain_parsers :: file_parsers where
  "plain_parsers = \<lparr>read_zip = (\<lambda>_. None), decode_text = (\<lambda>enc s. Some s),
     parse_xml = (\<lambda>_. ([], True)), xml_max_elements = 10\<rparr>"

lemma ex_upload:
  "validate_upload plain_parsers (Some ''my <file>.TXT'') None ''hello'' 10 [''.txt''] =
   Inr \<lparr>up_file_name = ''my _file_.TXT'', up_extension = ''.txt'', up_mime_type = octet_stream,
     up_size = 5\<rparr>"
  by code_simp

theorem accepted_upload_is_safe_witness:
  "safe_upload_name ''my _file_.TXT'' \<and> \<not> dangerous_suffix ''my _file_.TXT''"
  using accepted_upload_is_safe[OF ex_upload] by (simp add: upload_facts_def)

end
