(* ===== verification/Document_Store.thy ===== *)
theory Document_Store
  imports Job_Service Audit_Log Upload_Validation
begin

section \<open>The document tables\<close>

text \<open>
  \<open>backend/app/repositories/document_repository.py\<close>: documents, their versions and the
  chunks of a version. Every statement is checked against the constraints when it is executed,
  so a flush that updates several rows can fail between them: the order in which the session
  writes its dirty rows is the library's, and an argument of the operations that update more
  than one version. The session does not flush before its queries (\<open>autoflush=False\<close> in
  \<open>backend/app/db/session.py\<close>), so a query sees the rows before the pending changes.
\<close>

datatype doc_error =
    DocIntegrity
  | DocNotFound
  | DocumentArchived
  | DocumentVersionNotApprovable
  | ActiveVersionConflict
  | DocInvalid string
  | UploadRejected upload_error
  | MissingEvaluationDataset
  | StorageFailed
  | CommitFailed

subsection \<open>Statements\<close>

definition put_documents :: "db \<Rightarrow> logical_document list \<Rightarrow> doc_error + db" where
  "put_documents d ds = (if documents_ok ds then Inr (d\<lparr>db_documents := ds\<rparr>) else Inl DocIntegrity)"

definition put_versions :: "db \<Rightarrow> document_version list \<Rightarrow> doc_error + db" where
  "put_versions d vs = (if versions_ok vs then Inr (d\<lparr>db_versions := vs\<rparr>) else Inl DocIntegrity)"

definition put_chunks :: "db \<Rightarrow> document_chunk list \<Rightarrow> doc_error + db" where
  "put_chunks d cs = (if chunks_ok cs then Inr (d\<lparr>db_chunks := cs\<rparr>) else Inl DocIntegrity)"

definition update_document :: "int \<Rightarrow> (logical_document \<Rightarrow> logical_document) \<Rightarrow> db \<Rightarrow> doc_error + db" where
  "update_document i f d =
     put_documents d (map (\<lambda>x. if doc_id x = i then f x else x) (db_documents d))"

definition update_version :: "int \<Rightarrow> (document_version \<Rightarrow> document_version) \<Rightarrow> db \<Rightarrow> doc_error + db" where
  "update_version i f d =
     put_versions d (map (\<lambda>v. if ver_id v = i then f v else v) (db_versions d))"

fun flush_versions :: "(int \<Rightarrow> document_version \<Rightarrow> document_version) \<Rightarrow> int list \<Rightarrow> db \<Rightarrow> doc_error + db" where
  "flush_versions f [] d = Inr d"
| "flush_versions f (i # is) d = (case update_version i (f i) d of
     Inl e \<Rightarrow> Inl e | Inr d' \<Rightarrow> flush_versions f is d')"

definition touch_corpus_marker :: "py_time \<Rightarrow> db \<Rightarrow> db" where
  "touch_corpus_marker now d = d\<lparr>db_corpus_marker := Some now\<rparr>"

subsection \<open>Creation\<close>

definition create_logical_document :: "int \<Rightarrow> string \<Rightarrow> py_time \<Rightarrow> db \<Rightarrow>
    doc_error + logical_document \<times> db" where
  "create_logical_document owner title now d =
     (let x = \<lparr>doc_id = db_next_document_id d, doc_owner_user_id = owner, doc_title = title,
        doc_status = DocActive, doc_archived_at = None, doc_created_at = now, doc_updated_at = now\<rparr> in
      case put_documents d (db_documents d @ [x]) of
        Inl e \<Rightarrow> Inl e
      | Inr d' \<Rightarrow> Inr (x, d'\<lparr>db_next_document_id := db_next_document_id d + 1\<rparr>))"

definition create_version :: "int \<Rightarrow> int \<Rightarrow> string \<Rightarrow> string \<Rightarrow> string \<Rightarrow> int \<Rightarrow> string \<Rightarrow> int \<Rightarrow>
    pyval pydict option \<Rightarrow> py_time \<Rightarrow> db \<Rightarrow> doc_error + document_version \<times> db" where
  "create_version doc no hash file mime bytes key creator metadata now d =
     (let v = \<lparr>ver_id = db_next_version_id d, ver_document_id = doc, ver_no = no,
        ver_content_hash = hash, ver_status = VProcessing, ver_is_active = False,
        ver_error_code = None, ver_file_name = file, ver_mime_type = mime,
        ver_file_size_bytes = bytes, ver_storage_key = Some key, ver_metadata = metadata,
        ver_page_count = None, ver_extractor_name = None, ver_extractor_version = None,
        ver_created_by = creator, ver_created_at = now, ver_updated_at = now\<rparr> in
      case put_versions d (db_versions d @ [v]) of
        Inl e \<Rightarrow> Inl e
      | Inr d' \<Rightarrow> Inr (v, d'\<lparr>db_next_version_id := db_next_version_id d + 1\<rparr>))"

subsection \<open>Queries\<close>

definition get_document :: "int \<Rightarrow> db \<Rightarrow> logical_document option" where
  "get_document i d = find (\<lambda>x. doc_id x = i) (db_documents d)"

definition get_version_of :: "int \<Rightarrow> int \<Rightarrow> db \<Rightarrow> document_version option" where
  "get_version_of doc i d = find (\<lambda>v. ver_document_id v = doc \<and> ver_id v = i) (db_versions d)"

definition get_version_by_hash :: "int \<Rightarrow> string \<Rightarrow> db \<Rightarrow> document_version option" where
  "get_version_by_hash doc h d =
     find (\<lambda>v. ver_document_id v = doc \<and> ver_content_hash v = h) (db_versions d)"

definition versions_of :: "int \<Rightarrow> db \<Rightarrow> document_version list" where
  "versions_of doc d = filter (\<lambda>v. ver_document_id v = doc) (db_versions d)"

text \<open>\<open>SELECT max(version_no)\<close>, where a NULL or a zero becomes 0.\<close>

definition max_version_no :: "int \<Rightarrow> db \<Rightarrow> int" where
  "max_version_no doc d = (case map ver_no (versions_of doc d) of [] \<Rightarrow> 0 | n # ns \<Rightarrow> foldl max n ns)"

definition latest_version :: "int \<Rightarrow> db \<Rightarrow> document_version option" where
  "latest_version doc d = find (\<lambda>v. ver_no v = max_version_no doc d) (versions_of doc d)"

definition active_version :: "int \<Rightarrow> db \<Rightarrow> document_version option" where
  "active_version doc d = find (\<lambda>v. ver_document_id v = doc \<and> ver_is_active v) (db_versions d)"

definition list_versions :: "int \<Rightarrow> (nat \<times> nat) option \<Rightarrow> db \<Rightarrow> document_version list \<times> nat" where
  "list_versions doc window d =
     (let rows = sort_key (\<lambda>v. - ver_no v) (versions_of doc d) in
      (case window of None \<Rightarrow> rows | Some (offset, limit) \<Rightarrow> take limit (drop offset rows), length rows))"

definition version_chunks :: "int \<Rightarrow> db \<Rightarrow> document_chunk list" where
  "version_chunks i d = filter (\<lambda>c. chunk_version_id c = i) (db_chunks d)"

definition count_chunks :: "int \<Rightarrow> db \<Rightarrow> nat" where
  "count_chunks i d = length (version_chunks i d)"

definition list_all_chunks :: "int \<Rightarrow> db \<Rightarrow> document_chunk list" where
  "list_all_chunks i d = sort_key (\<lambda>c. (chunk_position c, chunk_id c)) (version_chunks i d)"

definition chunk_ids_by_version :: "int \<Rightarrow> db \<Rightarrow> int list" where
  "chunk_ids_by_version i d = map chunk_id (list_all_chunks i d)"

definition list_chunks :: "int \<Rightarrow> nat \<Rightarrow> nat \<Rightarrow> db \<Rightarrow> document_chunk list \<times> nat" where
  "list_chunks i offset limit d =
     (take limit (drop offset (sort_key chunk_position (version_chunks i d))), count_chunks i d)"

text \<open>A version the retrieval can return, in a searchable document.\<close>

definition retrieval_visible :: "db \<Rightarrow> document_version \<Rightarrow> bool" where
  "retrieval_visible d v =
     (ver_status v = VReady \<and> ver_is_active v \<and>
      list_ex (\<lambda>x. doc_id x = ver_document_id v \<and> doc_status x = DocActive) (db_documents d))"

definition any_version_is_retrieval_visible :: "int list \<Rightarrow> db \<Rightarrow> bool" where
  "any_version_is_retrieval_visible is d =
     list_ex (\<lambda>v. ver_id v \<in> set is \<and> retrieval_visible d v) (db_versions d)"

definition touch_if :: "bool \<Rightarrow> py_time \<Rightarrow> db \<Rightarrow> db" where
  "touch_if visible now d = (if visible then touch_corpus_marker now d else d)"

subsection \<open>The list of documents\<close>

text \<open>\<open>x ILIKE pattern\<close>: a percent sign stands for any text, an underscore for one
  character, a backslash takes the next character literally.\<close>

fun sql_like :: "string \<Rightarrow> string \<Rightarrow> bool" where
  "sql_like [] s = (s = [])"
| "sql_like (p # ps) s =
     (if p = CHR ''%'' then sql_like ps s \<or> (case s of [] \<Rightarrow> False | _ # cs \<Rightarrow> sql_like (p # ps) cs)
      else if p = CHR 0x5C then (case (ps, s) of (q # qs, c # cs) \<Rightarrow> q = c \<and> sql_like qs cs | _ \<Rightarrow> False)
      else (case s of [] \<Rightarrow> False | c # cs \<Rightarrow> (p = CHR ''_'' \<or> p = c) \<and> sql_like ps cs))"

definition ilike_contains :: "string \<Rightarrow> string \<Rightarrow> bool" where
  "ilike_contains q s = sql_like (py_lower (''%'' @ q @ ''%'')) (py_lower s)"

definition document_listed :: "dstatus \<Rightarrow> string option \<Rightarrow> vstatus option \<Rightarrow> bool option \<Rightarrow> db \<Rightarrow>
    logical_document \<Rightarrow> bool" where
  "document_listed st query vst vactive d x =
     (doc_status x = st \<and>
      (case query of None \<Rightarrow> True | Some q \<Rightarrow> q = [] \<or> ilike_contains q (doc_title x) \<or>
         list_ex (\<lambda>v. ilike_contains q (ver_file_name v)) (versions_of (doc_id x) d)) \<and>
      (case vst of None \<Rightarrow> True | Some s \<Rightarrow>
         (case latest_version (doc_id x) d of None \<Rightarrow> False | Some v \<Rightarrow> ver_status v = s)) \<and>
      (case vactive of None \<Rightarrow> True | Some a \<Rightarrow>
         (case latest_version (doc_id x) d of None \<Rightarrow> False | Some v \<Rightarrow> ver_is_active v = a)))"

definition list_documents :: "dstatus \<Rightarrow> string option \<Rightarrow> vstatus option \<times> bool option \<Rightarrow> nat \<Rightarrow> nat \<Rightarrow>
    db \<Rightarrow> logical_document list \<times> nat" where
  "list_documents st query flt offset limit d =
     (let rows = filter (document_listed st query (fst flt) (snd flt) d) (db_documents d) in
      (take limit (drop offset (sort_key (\<lambda>x. (- doc_updated_at x, - doc_id x)) rows)), length rows))"

subsection \<open>Activation and archiving\<close>

definition activate_row :: "py_time \<Rightarrow> document_version \<Rightarrow> document_version" where
  "activate_row now v = v\<lparr>ver_is_active := True, ver_updated_at := now\<rparr>"

definition deactivate_row :: "py_time \<Rightarrow> document_version \<Rightarrow> document_version" where
  "deactivate_row now v = v\<lparr>ver_is_active := False, ver_updated_at := now\<rparr>"

definition set_active_version :: "(int list \<Rightarrow> int list) \<Rightarrow> int \<Rightarrow> document_version \<Rightarrow> py_time \<Rightarrow> db \<Rightarrow>
    doc_error + int option \<times> db" where
  "set_active_version order doc v now d =
     (let previous = map_option ver_id (active_version doc d);
          dirty = (case previous of None \<Rightarrow> [] | Some p \<Rightarrow> if p \<noteq> ver_id v then [p] else []) @ [ver_id v]
      in case flush_versions (\<lambda>i. if i = ver_id v then activate_row now else deactivate_row now)
           (order dirty) (touch_corpus_marker now d) of
        Inl e \<Rightarrow> Inl e
      | Inr d' \<Rightarrow> Inr (previous, d'))"

definition touch_document :: "int \<Rightarrow> py_time \<Rightarrow> db \<Rightarrow> doc_error + db" where
  "touch_document i now = update_document i (\<lambda>x. x\<lparr>doc_updated_at := now\<rparr>)"

definition archive_row :: "py_time \<Rightarrow> logical_document \<Rightarrow> logical_document" where
  "archive_row now x = x\<lparr>doc_status := DocArchived, doc_archived_at := Some now, doc_updated_at := now\<rparr>"

definition store_archive_document :: "(int list \<Rightarrow> int list) \<Rightarrow> int \<Rightarrow> py_time \<Rightarrow> db \<Rightarrow> doc_error + db" where
  "store_archive_document order i now d =
     (case update_document i (archive_row now) (touch_corpus_marker now d) of
        Inl e \<Rightarrow> Inl e
      | Inr d1 \<Rightarrow> flush_versions (\<lambda>_. deactivate_row now)
          (order (map ver_id (filter ver_is_active (versions_of i d)))) d1)"

subsection \<open>Ingest\<close>

definition clear_extraction :: "document_version \<Rightarrow> document_version" where
  "clear_extraction v = v\<lparr>ver_page_count := None, ver_extractor_name := None,
     ver_extractor_version := None\<rparr>"

definition update_ingest_metadata :: "int \<Rightarrow> int option \<Rightarrow> string \<Rightarrow> string \<Rightarrow> py_time \<Rightarrow> db \<Rightarrow>
    doc_error + db" where
  "update_ingest_metadata i pages extractor extractor_version now = update_version i
     (\<lambda>v. v\<lparr>ver_page_count := pages, ver_extractor_name := Some extractor,
        ver_extractor_version := Some extractor_version, ver_status := VProcessing,
        ver_error_code := None, ver_updated_at := now\<rparr>)"

definition reset_version_for_ingest :: "int \<Rightarrow> py_time \<Rightarrow> db \<Rightarrow> doc_error + db" where
  "reset_version_for_ingest i now d = update_version i
     (\<lambda>v. clear_extraction (v\<lparr>ver_status := VProcessing, ver_error_code := None, ver_updated_at := now\<rparr>))
     (touch_if (any_version_is_retrieval_visible [i] d) now d)"

definition mark_version_failed :: "int \<Rightarrow> string \<Rightarrow> py_time \<Rightarrow> db \<Rightarrow> doc_error + db" where
  "mark_version_failed i code now d = update_version i
     (\<lambda>v. clear_extraction (v\<lparr>ver_status := VFailed, ver_error_code := Some code, ver_updated_at := now\<rparr>))
     (touch_if (any_version_is_retrieval_visible [i] d) now d)"

definition mark_version_ready :: "int \<Rightarrow> py_time \<Rightarrow> db \<Rightarrow> doc_error + db" where
  "mark_version_ready i now d = update_version i
     (\<lambda>v. v\<lparr>ver_status := VReady, ver_error_code := None, ver_updated_at := now\<rparr>)
     (touch_if (any_version_is_retrieval_visible [i] d) now d)"

definition delete_chunks :: "int \<Rightarrow> py_time \<Rightarrow> db \<Rightarrow> nat \<times> db" where
  "delete_chunks i now d =
     (count_chunks i d, touch_if (any_version_is_retrieval_visible [i] d) now
        (d\<lparr>db_chunks := filter (\<lambda>c. chunk_version_id c \<noteq> i) (db_chunks d)\<rparr>))"

fun number_chunks :: "int \<Rightarrow> document_chunk list \<Rightarrow> document_chunk list" where
  "number_chunks n [] = []"
| "number_chunks n (c # cs) = c\<lparr>chunk_id := n\<rparr> # number_chunks (n + 1) cs"

definition bulk_insert_chunks :: "document_chunk list \<Rightarrow> py_time \<Rightarrow> db \<Rightarrow> doc_error + db" where
  "bulk_insert_chunks cs now d =
     (if cs = [] then Inr d
      else case put_chunks d (db_chunks d @ number_chunks (db_next_chunk_id d) cs) of
        Inl e \<Rightarrow> Inl e
      | Inr d' \<Rightarrow> Inr (touch_if (any_version_is_retrieval_visible (map chunk_version_id cs) d') now
          (d'\<lparr>db_next_chunk_id := db_next_chunk_id d + int (length cs)\<rparr>)))"

end
