(* ===== verification/File_Storage.thy ===== *)
theory File_Storage
  imports Upload_Validation
begin

section \<open>The document storage\<close>

text \<open>
  \<open>backend/app/storage/file_storage.py\<close>: the keys under which uploaded files are kept,
  their validation, and the local storage as a finite map from keys to contents. The storage
  directory holds no symbolic links, so a valid key stays below it. The random token of a key
  is an argument, and so is the outcome of the disk: a write that fails may leave the start of
  the file behind. The S3 client is a library and its storage is not modelled.
\<close>

type_synonym files = "(string \<times> string) list"

subsection \<open>Keys\<close>

definition build_storage_key :: "string \<Rightarrow> string \<Rightarrow> upload_error + string" where
  "build_storage_key token file =
     (if file = [] \<or> slash \<in> set file \<or> backslash \<in> set file \<or> nul_char \<in> set file
      then Inl UnsafeFileRejected
      else Inr (''documents/'' @ take 2 token @ ''/'' @ token @ ''_'' @ file))"

definition storage_key_valid :: "string \<Rightarrow> bool" where
  "storage_key_valid key =
     (key \<noteq> [] \<and> \<not> prefix ''/'' key \<and> backslash \<notin> set key \<and> nul_char \<notin> set key \<and>
      list_all (\<lambda>part. part \<noteq> [] \<and> part \<noteq> ''.'' \<and> part \<noteq> ''..'') (py_split_on slash key))"

definition validate_storage_key :: "string \<Rightarrow> upload_error + string" where
  "validate_storage_key key = (if storage_key_valid key then Inr key else Inl UnsafeFileRejected)"

subsection \<open>The local storage\<close>

datatype write_outcome = WriteOk | WriteFails "string option"

datatype storage_error = KeyRejected | FileMissing | DiskError

definition local_save :: "write_outcome \<Rightarrow> string \<Rightarrow> string \<Rightarrow> files \<Rightarrow> (storage_error + unit) \<times> files" where
  "local_save outcome key content fs =
     (case validate_storage_key key of
        Inl _ \<Rightarrow> (Inl KeyRejected, fs)
      | Inr k \<Rightarrow> (case outcome of
          WriteOk \<Rightarrow> (Inr (), AList.update k content fs)
        | WriteFails None \<Rightarrow> (Inl DiskError, fs)
        | WriteFails (Some part) \<Rightarrow> (Inl DiskError, AList.update k part fs)))"

definition local_exists :: "string \<Rightarrow> files \<Rightarrow> storage_error + bool" where
  "local_exists key fs = (case validate_storage_key key of
     Inl _ \<Rightarrow> Inl KeyRejected | Inr k \<Rightarrow> Inr (map_of fs k \<noteq> None))"

definition local_delete :: "bool \<Rightarrow> string \<Rightarrow> files \<Rightarrow> (storage_error + unit) \<times> files" where
  "local_delete works key fs =
     (case validate_storage_key key of
        Inl _ \<Rightarrow> (Inl KeyRejected, fs)
      | Inr k \<Rightarrow> if works then (Inr (), AList.delete k fs) else (Inl DiskError, fs))"

definition local_materialize :: "string \<Rightarrow> files \<Rightarrow> storage_error + string" where
  "local_materialize key fs = (case validate_storage_key key of
     Inl _ \<Rightarrow> Inl KeyRejected
   | Inr k \<Rightarrow> (case map_of fs k of None \<Rightarrow> Inl FileMissing | Some c \<Rightarrow> Inr c))"

subsection \<open>What a client of a storage relies on\<close>

text \<open>
  The contract of the storage protocol towards the document service: what was saved is read
  back, a deletion removes one key only, and the other keys are not touched.
\<close>

locale object_storage =
  fixes save :: "string \<Rightarrow> string \<Rightarrow> 's \<Rightarrow> 's" and remove :: "string \<Rightarrow> 's \<Rightarrow> 's"
    and content_of :: "string \<Rightarrow> 's \<Rightarrow> string option"
  assumes content_save: "content_of k (save k c s) = Some c"
    and content_save_other: "k' \<noteq> k \<Longrightarrow> content_of k' (save k c s) = content_of k' s"
    and content_remove: "content_of k (remove k s) = None"
    and content_remove_other: "k' \<noteq> k \<Longrightarrow> content_of k' (remove k s) = content_of k' s"
begin

text \<open>Undoing a save under a fresh key restores every content.\<close>

lemma undo_save:
  assumes "content_of k s = None"
  shows "content_of k' (remove k (save k c s)) = content_of k' s"
  using assms by (cases "k' = k") (simp_all add: content_remove content_remove_other content_save_other)

end

interpretation local_files: object_storage "AList.update :: string \<Rightarrow> string \<Rightarrow> files \<Rightarrow> files"
    AList.delete "\<lambda>k fs. map_of fs k"
  by unfold_locales (simp_all add: update_conv delete_conv)

lemma local_save_fresh:
  "storage_key_valid key \<Longrightarrow> local_save WriteOk key content fs = (Inr (), AList.update key content fs)"
  by (simp add: local_save_def validate_storage_key_def)

lemma local_round_trip:
  "storage_key_valid key \<Longrightarrow>
   local_materialize key (snd (local_save WriteOk key content fs)) = Inr content"
  by (simp add: local_materialize_def local_save_fresh validate_storage_key_def local_files.content_save)

subsection \<open>Keys of uploads are valid\<close>

lemma split_char_append:
  "d \<notin> set s \<Longrightarrow> split_char d cur (s @ d # t) = (cur @ s) # split_char d [] t"
  by (induction s arbitrary: cur) auto

lemma split_on_append: "d \<notin> set s \<Longrightarrow> py_split_on d (s @ d # t) = s # py_split_on d t"
  by (simp add: py_split_on_def split_char_append)

definition uuid_hex :: "string \<Rightarrow> bool" where
  "uuid_hex token = (length token = 32 \<and> list_all (\<lambda>c. safe_name_char c \<and> c \<noteq> CHR ''.'') token)"

lemma storage_key_of_upload:
  assumes "uuid_hex token" "list_all safe_name_char file" "file \<noteq> []"
  shows "\<exists>key. build_storage_key token file = Inr key \<and> storage_key_valid key"
proof -
  let ?key = "''documents/'' @ take 2 token @ ''/'' @ token @ ''_'' @ file"
  have safe: "list_all safe_name_char (take 2 token)" "list_all safe_name_char token"
    "list_all safe_name_char (token @ ''_'' @ file)"
    using assms by (auto simp: uuid_hex_def list_all_iff safe_name_char_def dest: in_set_takeD)
  note no_slash = slash_not_safe[OF safe(1)] slash_not_safe[OF safe(3)] slash_not_safe[OF assms(2)]
  have "slash = CHR ''/''" by (simp add: slash_def)
  have first: "slash \<notin> set ''documents''" "backslash \<notin> set ''documents/''" "nul_char \<notin> set ''documents/''"
    by code_simp+
  have "py_split_on slash ?key = [''documents'', take 2 token, token @ ''_'' @ file]"
    using split_on_append[OF first(1), of "take 2 token @ slash # token @ ''_'' @ file"]
      split_on_append[of slash "take 2 token" "token @ ''_'' @ file"] no_slash
      split_on_absent[of slash "token @ ''_'' @ file"] by (simp add: \<open>slash = CHR ''/''\<close>)
  moreover obtain c1 c2 rest where tok: "token = c1 # c2 # rest"
    using assms(1) by (cases token rule: remdups_adj.cases) (auto simp: uuid_hex_def)
  moreover have "c1 \<noteq> CHR ''.''" using assms(1) tok by (simp add: uuid_hex_def)
  moreover have "backslash \<notin> set ?key" "nul_char \<notin> set ?key"
    using no_slash first slash_not_safe[OF safe(2)] separators_not_safe
    by (auto simp: backslash_def nul_char_def slash_def)
  ultimately have "storage_key_valid ?key" by (simp add: storage_key_valid_def)
  then show ?thesis using assms(3) no_slash by (simp add: build_storage_key_def)
qed

end
