(* ===== verification/Url_Fetch.thy ===== *)
theory Url_Fetch
  imports Upload_Validation
begin

section \<open>Fetching a document by its URL\<close>

text \<open>
  \<open>backend/app/services/url_fetch_service.py\<close>: a URL is parsed and checked, its host is
  resolved, every address is checked, and the request goes to one of the checked addresses,
  not to the name; a redirect starts over with the checks. URL splitting, \<open>ipaddress\<close>,
  the IDNA codec, the resolver and the HTTP client are libraries and the network: fields of
  \<open>net_env\<close>. The resolver and the network may answer differently at every hop, so they
  also take the number of the hop. The model returns the requests it sent beside the result.
\<close>

record url_parts =
  url_scheme :: string
  url_credentials :: bool
  url_hostname :: "string option"
  url_port :: "unit + int option"
  url_path :: string
  url_query :: string

record ip_info =
  ip_compressed :: string
  ip_v6 :: bool
  ip_loopback :: bool
  ip_link_local :: bool
  ip_multicast :: bool
  ip_unspecified :: bool
  ip_reserved :: bool
  ip_global :: bool

datatype net_exc = TimeoutExc | InvalidUrlExc | HttpExc

record http_request =
  hr_url :: string
  hr_host :: string
  hr_sni :: "string option"

record http_response =
  resp_status :: int
  resp_location :: "string option"
  resp_content_type :: "string option"
  resp_chunks :: "string list"
  resp_broken :: "net_exc option"

record net_env =
  urlsplit :: "string \<Rightarrow> url_parts option"
  urlunsplit :: "string \<Rightarrow> string \<Rightarrow> string \<Rightarrow> string \<Rightarrow> string"
  ip_address :: "string \<Rightarrow> ip_info option"
  idna :: "string \<Rightarrow> string option"
  unquote :: "string \<Rightarrow> string"
  resolver :: "nat \<Rightarrow> string \<Rightarrow> int \<Rightarrow> upload_error + string list"
  http_get :: "nat \<Rightarrow> http_request \<Rightarrow> net_exc + http_response"
  url_join :: "string \<Rightarrow> string \<Rightarrow> string option"

record fetch_settings =
  fs_schemes :: "string list"
  fs_content_types :: "string list"
  fs_block_private :: bool
  fs_max_redirects :: nat
  fs_max_bytes :: nat

record fetch_result =
  fr_requested_url :: string
  fr_final_url :: string
  fr_safe_source_url :: string
  fr_safe_final_url :: string
  fr_content :: string
  fr_content_type :: string
  fr_file_name :: string
  fr_redirect_count :: nat

record validated_url =
  vu_url :: string
  vu_connect_urls :: "string list"
  vu_host_header :: string
  vu_sni :: "string option"

subsection \<open>The checks\<close>

definition metadata_hostnames :: "string list" where
  "metadata_hostnames = [''metadata.google.internal'', ''metadata'', ''169.254.169.254'']"

definition rstrip_dots :: "string \<Rightarrow> string" where
  "rstrip_dots s = rev (dropWhile (\<lambda>c. c = CHR ''.'') (rev s))"

definition hostname_allowed :: "string \<Rightarrow> bool" where
  "hostname_allowed host = (let h = py_lower (rstrip_dots host) in
     h \<notin> set metadata_hostnames \<and> h \<noteq> ''localhost'' \<and> \<not> py_endswith ''.localhost'' h \<and>
     \<not> py_endswith ''.local'' h)"

definition ip_allowed :: "net_env \<Rightarrow> bool \<Rightarrow> ip_info \<Rightarrow> bool" where
  "ip_allowed env block ip =
     (ip_address env ''169.254.169.254'' \<noteq> Some ip \<and>
      \<not> (ip_loopback ip \<or> ip_link_local ip \<or> ip_multicast ip \<or> ip_unspecified ip \<or> ip_reserved ip) \<and>
      (\<not> block \<or> ip_global ip))"

definition validate_ip_policy :: "net_env \<Rightarrow> bool \<Rightarrow> string \<Rightarrow> upload_error + string" where
  "validate_ip_policy env block address = (case ip_address env address of
      None \<Rightarrow> Inl UnsafeFileRejected
    | Some ip \<Rightarrow> if ip_allowed env block ip then Inr (ip_compressed ip) else Inl UnsafeFileRejected)"

definition normalized_hostname :: "net_env \<Rightarrow> string \<Rightarrow> upload_error + string" where
  "normalized_hostname env host = (case ip_address env (rstrip_dots host) of
      Some ip \<Rightarrow> Inr (py_lower (ip_compressed ip))
    | None \<Rightarrow> (case idna env host of
        None \<Rightarrow> Inl (UploadInvalid ''Invalid URL host.'')
      | Some h \<Rightarrow> Inr (py_lower h)))"

definition host_for_netloc :: "net_env \<Rightarrow> string \<Rightarrow> string" where
  "host_for_netloc env host = (case ip_address env host of
      None \<Rightarrow> host
    | Some ip \<Rightarrow> if ip_v6 ip then ''['' @ ip_compressed ip @ '']'' else ip_compressed ip)"

definition with_port :: "string \<Rightarrow> int option \<Rightarrow> string" where
  "with_port netloc port = (case port of None \<Rightarrow> netloc | Some p \<Rightarrow> netloc @ '':'' @ int_str p)"

definition connect_netloc_for_address :: "net_env \<Rightarrow> string \<Rightarrow> int option \<Rightarrow> string" where
  "connect_netloc_for_address env address port = with_port (host_for_netloc env address) port"

text \<open>The list comprehension over the resolved addresses: the first refused one raises.\<close>

fun checked_addresses :: "net_env \<Rightarrow> bool \<Rightarrow> string list \<Rightarrow> upload_error + string list" where
  "checked_addresses env block [] = Inr []"
| "checked_addresses env block (a # as) = (case validate_ip_policy env block a of
     Inl e \<Rightarrow> Inl e
   | Inr x \<Rightarrow> (case checked_addresses env block as of Inl e \<Rightarrow> Inl e | Inr xs \<Rightarrow> Inr (x # xs)))"

definition effective_port :: "string \<Rightarrow> int option \<Rightarrow> int" where
  "effective_port scheme port = (let default = (if scheme = ''https'' then 443 else 80) in
     case port of None \<Rightarrow> default | Some p \<Rightarrow> if p = 0 then default else p)"

definition or_slash :: "string \<Rightarrow> string" where
  "or_slash p = (if p = [] then ''/'' else p)"

text \<open>The request's URLs: the name stays in the final URL and the host header, the
  connections go to the addresses.\<close>

definition pinned_url :: "net_env \<Rightarrow> string \<Rightarrow> string \<Rightarrow> int option \<Rightarrow> string \<Rightarrow> string \<Rightarrow> string list \<Rightarrow>
    validated_url" where
  "pinned_url env scheme host port path query as =
     (let netloc = with_port (host_for_netloc env host) port in
      \<lparr>vu_url = urlunsplit env scheme netloc path query,
       vu_connect_urls = map (\<lambda>a. urlunsplit env scheme
         (connect_netloc_for_address env a port) path query) as,
       vu_host_header = netloc,
       vu_sni = (if scheme = ''https'' then Some host else None)\<rparr>)"

definition validate_url :: "net_env \<Rightarrow> fetch_settings \<Rightarrow> nat \<Rightarrow> string \<Rightarrow> upload_error + validated_url" where
  "validate_url env cfg hop url =
     (case urlsplit env (py_strip url) of None \<Rightarrow> Inl (UploadInvalid ''Invalid URL.'')
      | Some p \<Rightarrow>
        (let scheme = py_lower (url_scheme p); path = or_slash (url_path p) in
         if scheme \<notin> set (fs_schemes cfg) then Inl (UploadInvalid ''URL scheme is not allowed.'')
         else if url_credentials p then Inl (UploadInvalid ''URL credentials are not allowed.'')
         else case url_hostname p of
           None \<Rightarrow> Inl (UploadInvalid ''URL host is required.'')
         | Some raw \<Rightarrow>
           if raw = [] then Inl (UploadInvalid ''URL host is required.'')
           else case normalized_hostname env raw of Inl e \<Rightarrow> Inl e | Inr host \<Rightarrow>
             if \<not> hostname_allowed host then Inl UnsafeFileRejected
             else (case url_port p of Inl _ \<Rightarrow> Inl (UploadInvalid ''Invalid URL port.'') | Inr port \<Rightarrow>
               (case resolver env hop host (effective_port scheme port) of Inl e \<Rightarrow> Inl e | Inr found \<Rightarrow>
                 (case checked_addresses env (fs_block_private cfg) found of Inl e \<Rightarrow> Inl e | Inr as \<Rightarrow>
                   if as = [] then Inl UnsafeFileRejected
                   else Inr (pinned_url env scheme host port path (url_query p) as))))))"

subsection \<open>URLs for display\<close>

definition path_punctuation :: string where
  "path_punctuation = ''._~!$&()*+,;=:-'' @ [CHR 0x27]"

definition dash_opt :: rx where
  "dash_opt = rx_opt (rx_in ''_-'')"

definition secret_word :: rx where
  "secret_word = rx_alts
    ([rx_seq [rx_ilit ''api'', dash_opt, rx_ilit ''key'']] @
     map (\<lambda>w. rx_seq [rx_ilit w, dash_opt, rx_ilit ''token'']) [''access'', ''auth'', ''refresh'', ''id''] @
     map rx_ilit [''secret'', ''password'', ''passwd'', ''credential'', ''bearer'', ''signature'',
       ''signed'', ''jwt'', ''session''])"

definition secret_segment_start :: rx where
  "secret_segment_start = Sq (Alt Bol (rx_in path_punctuation)) secret_word"

definition is_secret_path_segment :: "net_env \<Rightarrow> string \<Rightarrow> bool" where
  "is_secret_path_segment env segment =
     (segment \<noteq> [] \<and> (let s = unquote env segment in
        rx_search_to_end secret_segment_start [] s \<or>
        rx_search (Sq secret_segment_start (rx_in path_punctuation)) s))"

definition redact_url_path :: "net_env \<Rightarrow> string \<Rightarrow> string" where
  "redact_url_path env path = or_slash (py_join ''/''
     (map (\<lambda>s. if is_secret_path_segment env s then ''redacted'' else s) (py_split_on slash path)))"

definition redact_url_for_display :: "net_env \<Rightarrow> string \<Rightarrow> string" where
  "redact_url_for_display env url = (case urlsplit env url of
      None \<Rightarrow> ''redacted''
    | Some p \<Rightarrow> (let host = py_lower (case url_hostname p of None \<Rightarrow> [] | Some h \<Rightarrow> h) in
        if host = [] then ''redacted''
        else case url_port p of
          Inl _ \<Rightarrow> ''redacted''
        | Inr port \<Rightarrow> urlunsplit env (py_lower (url_scheme p)) (with_port (host_for_netloc env host) port)
            (redact_url_path env (or_slash (url_path p))) []))"

subsection \<open>The fetch\<close>

definition is_redirect :: "int \<Rightarrow> bool" where
  "is_redirect status = (status \<in> {301, 302, 303, 307, 308})"

definition exc_reason :: "net_exc \<Rightarrow> upload_error" where
  "exc_reason e = UploadInvalid (case e of
     TimeoutExc \<Rightarrow> ''URL fetch timed out.'' | InvalidUrlExc \<Rightarrow> ''Invalid URL.''
   | HttpExc \<Rightarrow> ''URL fetch failed.'')"

definition validate_content_type :: "fetch_settings \<Rightarrow> string option \<Rightarrow> upload_error + string" where
  "validate_content_type cfg v = (case v of
      None \<Rightarrow> Inl UnsupportedMediaType
    | Some s \<Rightarrow> if s = [] then Inl UnsupportedMediaType
        else (let t = py_lower (py_strip (hd (py_split_on (CHR '';'') s))) in
          if t \<in> set (fs_content_types cfg) then Inr t else Inl UnsupportedMediaType))"

fun read_limited :: "nat \<Rightarrow> string \<Rightarrow> string list \<Rightarrow> net_exc option \<Rightarrow> upload_error + string" where
  "read_limited limit acc [] broken = (case broken of
     Some e \<Rightarrow> Inl (exc_reason e)
   | None \<Rightarrow> if acc = [] then Inl (UploadInvalid ''Fetched body is empty.'') else Inr acc)"
| "read_limited limit acc (c # cs) broken =
     (if limit < length acc + length c then Inl PayloadTooLarge else read_limited limit (acc @ c) cs broken)"

definition is_xml_content_type :: "string \<Rightarrow> bool" where
  "is_xml_content_type t = (t \<in> {''text/xml'', ''application/xml'', ''application/rss+xml'',
     ''application/atom+xml''})"

definition file_name_for_url :: "net_env \<Rightarrow> string \<Rightarrow> string \<Rightarrow> upload_error + string" where
  "file_name_for_url env url ctype =
     (case urlsplit env url of None \<Rightarrow> Inl UncaughtValueError
      | Some p \<Rightarrow> sanitize_file_name
          ((case url_hostname p of None \<Rightarrow> ''document'' | Some h \<Rightarrow> if h = [] then ''document'' else h) @
           ''-url-document'' @ (if is_xml_content_type ctype then ''.xml'' else ''.html'')))"

text \<open>\<open>_safe_stream\<close>: the connect URLs are tried in turn until one answers; the requests
  sent are the second component.\<close>

fun safe_stream :: "net_env \<Rightarrow> nat \<Rightarrow> validated_url \<Rightarrow> net_exc option \<Rightarrow> string list \<Rightarrow>
    (upload_error + http_response) \<times> http_request list" where
  "safe_stream env hop u last_exc [] =
     (Inl (exc_reason (case last_exc of None \<Rightarrow> HttpExc | Some e \<Rightarrow> e)), [])"
| "safe_stream env hop u last_exc (c # cs) =
     (let r = \<lparr>hr_url = c, hr_host = vu_host_header u, hr_sni = vu_sni u\<rparr> in
      case http_get env hop r of
        Inr resp \<Rightarrow> (Inr resp, [r])
      | Inl e \<Rightarrow> (let (res, rs) = safe_stream env hop u (Some e) cs in (res, r # rs)))"

definition finish_fetch :: "net_env \<Rightarrow> file_parsers \<Rightarrow> fetch_settings \<Rightarrow> string \<Rightarrow> validated_url \<Rightarrow> nat \<Rightarrow>
    http_response \<Rightarrow> upload_error + fetch_result" where
  "finish_fetch env fp cfg url u redirects resp =
     (if resp_status resp < 200 \<or> 300 \<le> resp_status resp then Inl (UploadInvalid ''URL fetch failed.'')
      else case validate_content_type cfg (resp_content_type resp) of Inl e \<Rightarrow> Inl e | Inr ctype \<Rightarrow>
        (case read_limited (fs_max_bytes cfg) [] (resp_chunks resp) (resp_broken resp) of
           Inl e \<Rightarrow> Inl e
         | Inr body \<Rightarrow>
             if \<not> web_content_safe fp ctype body then Inl UnsafeFileRejected
             else (case file_name_for_url env (vu_url u) ctype of Inl e \<Rightarrow> Inl e | Inr name \<Rightarrow>
               Inr \<lparr>fr_requested_url = url, fr_final_url = vu_url u,
                 fr_safe_source_url = redact_url_for_display env url,
                 fr_safe_final_url = redact_url_for_display env (vu_url u),
                 fr_content = body, fr_content_type = ctype, fr_file_name = name,
                 fr_redirect_count = redirects\<rparr>)))"

text \<open>The loop: \<open>left\<close> redirects may still be followed, \<open>redirects\<close> were.\<close>

fun fetch_loop :: "net_env \<Rightarrow> file_parsers \<Rightarrow> fetch_settings \<Rightarrow> string \<Rightarrow> nat \<Rightarrow> nat \<Rightarrow> validated_url \<Rightarrow>
    (upload_error + fetch_result) \<times> http_request list" where
  "fetch_loop env fp cfg url left redirects u =
     (case safe_stream env redirects u None (vu_connect_urls u) of
        (Inl e, rs) \<Rightarrow> (Inl e, rs)
      | (Inr resp, rs) \<Rightarrow>
          if \<not> is_redirect (resp_status resp) then (finish_fetch env fp cfg url u redirects resp, rs)
          else (case left of
            0 \<Rightarrow> (Inl (UploadInvalid ''Too many redirects.''), rs)
          | Suc left' \<Rightarrow> (case resp_location resp of
              None \<Rightarrow> (Inl (UploadInvalid ''Redirect location is missing.''), rs)
            | Some loc \<Rightarrow>
              if loc = [] then (Inl (UploadInvalid ''Redirect location is missing.''), rs)
              else (case url_join env (vu_url u) loc of
                None \<Rightarrow> (Inl (UploadInvalid ''Invalid redirect URL.''), rs)
              | Some target \<Rightarrow> (case validate_url env cfg (Suc redirects) target of
                  Inl e \<Rightarrow> (Inl e, rs)
                | Inr u' \<Rightarrow> (let (res, rs') = fetch_loop env fp cfg url left' (Suc redirects) u'
                    in (res, rs @ rs')))))))"

declare fetch_loop.simps [simp del]

definition fetch :: "net_env \<Rightarrow> file_parsers \<Rightarrow> fetch_settings \<Rightarrow> string \<Rightarrow>
    (upload_error + fetch_result) \<times> http_request list" where
  "fetch env fp cfg url = (case validate_url env cfg 0 url of
      Inl e \<Rightarrow> (Inl e, [])
    | Inr u \<Rightarrow> fetch_loop env fp cfg url (fs_max_redirects cfg) 0 u)"

subsection \<open>What the requests of a fetch may contact\<close>

text \<open>
  A request that was checked at some hop: an allowed scheme, an allowed host name, and a
  connect URL built from an address that the resolver gave for that host at that hop and that
  the address policy accepts.
\<close>

definition checked_request :: "net_env \<Rightarrow> fetch_settings \<Rightarrow> http_request \<Rightarrow> bool" where
  "checked_request env cfg r =
     (\<exists>hop scheme host port found address ip path query.
        scheme \<in> set (fs_schemes cfg) \<and> hostname_allowed host \<and>
        resolver env hop host (effective_port scheme port) = Inr found \<and> address \<in> set found \<and>
        ip_address env address = Some ip \<and> ip_allowed env (fs_block_private cfg) ip \<and>
        hr_url r = urlunsplit env scheme
          (connect_netloc_for_address env (ip_compressed ip) port) path query)"

definition checked_url :: "net_env \<Rightarrow> fetch_settings \<Rightarrow> validated_url \<Rightarrow> bool" where
  "checked_url env cfg u = (\<forall>c\<in>set (vu_connect_urls u). \<forall>h s.
     checked_request env cfg \<lparr>hr_url = c, hr_host = h, hr_sni = s\<rparr>)"

lemma checked_addresses_Inr:
  "checked_addresses env block found = Inr as \<Longrightarrow> a \<in> set as \<Longrightarrow>
   \<exists>address ip. address \<in> set found \<and> ip_address env address = Some ip \<and>
     ip_allowed env block ip \<and> a = ip_compressed ip"
proof (induction found arbitrary: as)
  case (Cons x xs)
  then show ?case
    by (fastforce simp: validate_ip_policy_def split: sum.splits option.splits if_splits)
qed simp

lemma validate_url_checked:
  assumes "validate_url env cfg hop url = Inr u"
  shows "checked_url env cfg u"
proof -
  obtain scheme host port found as path query where parts:
      "scheme \<in> set (fs_schemes cfg)" "hostname_allowed host"
      "resolver env hop host (effective_port scheme port) = Inr found"
      "checked_addresses env (fs_block_private cfg) found = Inr as"
      "u = pinned_url env scheme host port path query as"
    using assms unfolding validate_url_def Let_def
    by (simp split: option.splits if_splits sum.splits) metis
  show ?thesis
    unfolding checked_url_def
  proof (intro ballI allI)
    fix c h s
    assume "c \<in> set (vu_connect_urls u)"
    then obtain a where a: "a \<in> set as" "c = urlunsplit env scheme (connect_netloc_for_address env a port) path query"
      using parts(5) by (auto simp: pinned_url_def Let_def)
    obtain address ip where "address \<in> set found" "ip_address env address = Some ip"
      "ip_allowed env (fs_block_private cfg) ip" "a = ip_compressed ip"
      using checked_addresses_Inr[OF parts(4) a(1)] by blast
    with parts(1-3) a(2) show "checked_request env cfg \<lparr>hr_url = c, hr_host = h, hr_sni = s\<rparr>"
      unfolding checked_request_def by (simp, blast)
  qed
qed

lemma safe_stream_requests:
  "safe_stream env hop u last_exc cs = (res, rs) \<Longrightarrow> set rs \<subseteq>
     {\<lparr>hr_url = c, hr_host = vu_host_header u, hr_sni = vu_sni u\<rparr> | c. c \<in> set cs} \<and> length rs \<le> length cs"
proof (induction cs arbitrary: last_exc res rs)
  case (Cons c cs)
  then show ?case
    by (fastforce simp: Let_def split: sum.splits prod.splits)
qed simp

lemma safe_stream_checked:
  assumes "checked_url env cfg u" "safe_stream env hop u e (vu_connect_urls u) = (res, rs)"
  shows "\<forall>r\<in>set rs. checked_request env cfg r"
  using safe_stream_requests[OF assms(2)] assms(1) unfolding checked_url_def by blast

lemma fetch_loop_checked:
  "checked_url env cfg u \<Longrightarrow> fetch_loop env fp cfg url left redirects u = (res, rs) \<Longrightarrow>
   \<forall>r\<in>set rs. checked_request env cfg r"
proof (induction left arbitrary: redirects u res rs)
  case 0
  from 0(2) show ?case
    by (subst (asm) fetch_loop.simps)
       (auto dest: safe_stream_checked[OF 0(1)] split: prod.splits sum.splits if_splits)
next
  case (Suc left)
  obtain first rs1 where st: "safe_stream env redirects u None (vu_connect_urls u) = (first, rs1)"
    by fastforce
  note here = safe_stream_checked[OF Suc.prems(1) st]
  show ?case
  proof (cases "rs = rs1")
    case True
    then show ?thesis using here by simp
  next
    case False
    then obtain target u' rs' where next_hop: "validate_url env cfg (Suc redirects) target = Inr u'"
      "fetch_loop env fp cfg url left (Suc redirects) u' = (res, rs')" "rs = rs1 @ rs'"
      using Suc.prems(2) st
      by (subst (asm) fetch_loop.simps)
         (auto simp: Let_def split: prod.splits sum.splits if_splits option.splits)
    show ?thesis
      using Suc.IH[OF validate_url_checked[OF next_hop(1)] next_hop(2)] here next_hop(3) by auto
  qed
qed

subsection \<open>What a fetch returns\<close>

lemma read_limited_Inr:
  "read_limited limit acc cs broken = Inr body \<Longrightarrow> length acc \<le> limit \<Longrightarrow>
   body \<noteq> [] \<and> length body \<le> limit"
  by (induction limit acc cs broken rule: read_limited.induct)
     (auto split: option.splits if_splits)

definition result_ok :: "file_parsers \<Rightarrow> fetch_settings \<Rightarrow> nat \<Rightarrow> fetch_result \<Rightarrow> bool" where
  "result_ok fp cfg redirects r =
     (fr_content r \<noteq> [] \<and> length (fr_content r) \<le> fs_max_bytes cfg \<and>
      fr_content_type r \<in> set (fs_content_types cfg) \<and> fr_redirect_count r \<le> redirects \<and>
      list_all safe_name_char (fr_file_name r) \<and> fr_file_name r \<noteq> [] \<and>
      web_content_safe fp (fr_content_type r) (fr_content r))"

lemma finish_fetch_ok:
  assumes "finish_fetch env fp cfg url u redirects resp = Inr r"
  shows "result_ok fp cfg redirects r"
proof -
  obtain ctype body where "validate_content_type cfg (resp_content_type resp) = Inr ctype"
    and body: "read_limited (fs_max_bytes cfg) [] (resp_chunks resp) (resp_broken resp) = Inr body"
    and r: "web_content_safe fp ctype body" "fr_content r = body" "fr_content_type r = ctype"
      "fr_redirect_count r = redirects"
    and name: "file_name_for_url env (vu_url u) ctype = Inr (fr_file_name r)"
    using assms by (auto simp: finish_fetch_def split: sum.splits if_splits)
  moreover from this have "ctype \<in> set (fs_content_types cfg)"
    by (auto simp: validate_content_type_def Let_def split: option.splits if_splits)
  moreover have "body \<noteq> []" "length body \<le> fs_max_bytes cfg"  using read_limited_Inr[OF body] by simp_all
  moreover have "list_all safe_name_char (fr_file_name r)" "fr_file_name r \<noteq> []"
    using name sanitize_file_name_safe by (auto simp: file_name_for_url_def split: option.splits)
  ultimately show ?thesis by (simp add: result_ok_def)
qed

lemma fetch_loop_result:
  "fetch_loop env fp cfg url left redirects u = (Inr r, rs) \<Longrightarrow> result_ok fp cfg (redirects + left) r"
proof (induction left arbitrary: redirects u rs)
  case 0
  then show ?case
    by (subst (asm) fetch_loop.simps)
       (auto dest: finish_fetch_ok split: prod.splits sum.splits if_splits)
next
  case (Suc left)
  have weaken: "result_ok fp cfg n r \<Longrightarrow> n \<le> m \<Longrightarrow> result_ok fp cfg m r" for n m
    by (simp add: result_ok_def)
  from Suc.prems show ?case
    by (subst (asm) fetch_loop.simps)
       (auto simp: Let_def dest!: finish_fetch_ok Suc.IH intro: weaken
          split: prod.splits sum.splits if_splits option.splits)
qed

subsection \<open>A run\<close>

text \<open>
  A network with one public host, whose name moves to a private address once it was
  resolved, and which redirects its root to a page.
\<close>

definition ex_ip :: "bool \<Rightarrow> string \<Rightarrow> ip_info" where
  "ex_ip public s = \<lparr>ip_compressed = s, ip_v6 = False, ip_loopback = False, ip_link_local = False,
     ip_multicast = False, ip_unspecified = False, ip_reserved = False, ip_global = public\<rparr>"

definition ex_net :: net_env where
  "ex_net = \<lparr>
     urlsplit = (\<lambda>s. Some \<lparr>url_scheme = ''http'', url_credentials = False, url_hostname = Some ''pub'',
       url_port = Inr None, url_path = (if s = ''http://pub/'' then ''/'' else ''/p''), url_query = []\<rparr>),
     urlunsplit = (\<lambda>scheme netloc path query. scheme @ ''://'' @ netloc @ path),
     ip_address = (\<lambda>s. if s = ''8.8.8.8'' then Some (ex_ip True s)
       else if s = ''10.0.0.1'' then Some (ex_ip False s)
       else if s = ''169.254.169.254'' then Some (ex_ip True s) else None),
     idna = Some, unquote = (\<lambda>s. s),
     resolver = (\<lambda>hop host port. Inr (if hop < 2 then [''8.8.8.8''] else [''10.0.0.1''])),
     http_get = (\<lambda>hop r. Inr (if hop = 0
       then \<lparr>resp_status = 302, resp_location = Some ''/p'', resp_content_type = None,
         resp_chunks = [], resp_broken = None\<rparr>
       else \<lparr>resp_status = 200, resp_location = None, resp_content_type = Some ''text/html; q'',
         resp_chunks = [''<p>'', ''hi''], resp_broken = None\<rparr>)),
     url_join = (\<lambda>base loc. Some (''http://pub'' @ loc))\<rparr>"

definition ex_fetch_settings :: fetch_settings where
  "ex_fetch_settings = \<lparr>fs_schemes = [''http'', ''https''], fs_content_types = [''text/html''],
     fs_block_private = True, fs_max_redirects = 3, fs_max_bytes = 100\<rparr>"

definition ex_parsers :: file_parsers where
  "ex_parsers = \<lparr>read_zip = (\<lambda>_. None), decode_text = (\<lambda>enc s. Some s), parse_xml = (\<lambda>_. ([], True)),
     xml_max_elements = 10\<rparr>"

definition ex_fetch_log :: "string list" where
  "ex_fetch_log = [''http://8.8.8.8/'', ''http://8.8.8.8/p'']"

lemma ex_fetch:
  "map_sum id fr_content (fst (fetch ex_net ex_parsers ex_fetch_settings ''http://pub/'')) = Inr ''<p>hi''"
  "map hr_url (snd (fetch ex_net ex_parsers ex_fetch_settings ''http://pub/'')) = ex_fetch_log"
  by code_simp+

subsection \<open>Properties\<close>

text \<open>
  C21: Whatever the resolver and the network answer, at any hop, a fetch only ever sends a
  request to a connect URL that was built from an address the resolver gave for the checked
  host name and that the address policy accepted, under an allowed scheme: neither a redirect
  nor a name that changes its address between the check and the connection leads elsewhere.
\<close>

theorem fetch_contacts_only_checked_addresses:
  "fetch env fp cfg url = (res, rs) \<Longrightarrow> r \<in> set rs \<Longrightarrow> checked_request env cfg r"
  using validate_url_checked fetch_loop_checked
  by (fastforce simp: fetch_def split: sum.splits)

theorem fetch_contacts_only_checked_addresses_witness:
  "checked_request ex_net ex_fetch_settings (hd (snd (fetch ex_net ex_parsers ex_fetch_settings ''http://pub/'')))"
proof -
  let ?f = "fetch ex_net ex_parsers ex_fetch_settings ''http://pub/''"
  have "snd ?f \<noteq> []" using ex_fetch(2) by (auto simp: ex_fetch_log_def)
  then show ?thesis
    using fetch_contacts_only_checked_addresses[of ex_net ex_parsers ex_fetch_settings "''http://pub/''"
      "fst ?f" "snd ?f" "hd (snd ?f)"] by simp
qed

text \<open>
  A fetched document is not empty and not longer than the configured limit, its type is
  one of the configured ones, markup in it passed the checks, its file name is a sanitized
  one, and no more redirects were followed than configured.
\<close>

theorem fetched_document_is_bounded:
  "fetch env fp cfg url = (Inr r, rs) \<Longrightarrow>
   fr_content r \<noteq> [] \<and> length (fr_content r) \<le> fs_max_bytes cfg \<and>
   fr_content_type r \<in> set (fs_content_types cfg) \<and> fr_redirect_count r \<le> fs_max_redirects cfg \<and>
   list_all safe_name_char (fr_file_name r) \<and> fr_file_name r \<noteq> [] \<and>
   web_content_safe fp (fr_content_type r) (fr_content r)"
  using fetch_loop_result by (fastforce simp: fetch_def result_ok_def split: sum.splits)

theorem fetched_document_is_bounded_witness:
  "(case fst (fetch ex_net ex_parsers ex_fetch_settings ''http://pub/'') of
      Inl _ \<Rightarrow> False
    | Inr r \<Rightarrow> fr_content r = ''<p>hi'' \<and> length (fr_content r) \<le> 100 \<and> fr_redirect_count r \<le> 3)"
proof -
  let ?f = "fetch ex_net ex_parsers ex_fetch_settings ''http://pub/''"
  obtain r where r: "fst ?f = Inr r" "fr_content r = ''<p>hi''"
    using ex_fetch(1) by (cases "fst ?f") auto
  then have "?f = (Inr r, snd ?f)" by (metis prod.collapse)
  from fetched_document_is_bounded[OF this] r show ?thesis by (simp add: ex_fetch_settings_def)
qed

end
