(* ===== verification/Document_Metadata.thy ===== *)
theory Document_Metadata
  imports Url_Fetch Trace_Redactor Db_Models
begin

section \<open>Metadata of versions and chunks for display\<close>

text \<open>
  The metadata filters of \<open>backend/app/services/document_service.py\<close> and
  \<open>backend/app/services/source_locator_service.py\<close>: the allowed keys, the redaction of
  their strings, the comparison of two versions' metadata and the structural key of a chunk.
  The patterns are those of the trace redactor. The text of a float is the language's
  \<open>repr\<close> and an argument where a float can be turned into text.
\<close>

definition secret_or_email :: "string \<Rightarrow> bool" where
  "secret_or_email s = (rx_search secret_assignment_re s \<or> rx_search email_re s)"

text \<open>\<open>_safe_metadata_string\<close> is the trace redactor's \<open>safe_string\<close>.\<close>

definition safe_metadata_string :: "string \<Rightarrow> string" where
  "safe_metadata_string s =
     (let normalized = clean_text s in
      if rx_search secret_assignment_re normalized \<or> rx_search url_re normalized \<or>
         rx_search email_re normalized
      then ''redacted'' else take 120 normalized)"

definition safe_url_metadata_string :: "net_env \<Rightarrow> string \<Rightarrow> string" where
  "safe_url_metadata_string env s =
     (let normalized = clean_text s; safe_url = redact_url_for_display env normalized in
      if safe_url \<noteq> ''redacted'' then
        (if secret_or_email safe_url then ''redacted'' else take 200 safe_url)
      else if secret_or_email normalized then ''redacted''
      else take 200 normalized)"

text \<open>The loop both filters share: an allowed key keeps a redacted non-empty string, a
  boolean or a number.\<close>

fun keep_scalar :: "(string \<Rightarrow> string \<Rightarrow> string option) \<Rightarrow> string \<Rightarrow> pyval \<Rightarrow> pyval option" where
  "keep_scalar text key (PStr s) = (case text key s of
     None \<Rightarrow> None | Some t \<Rightarrow> if t = [] then None else Some (PStr t))"
| "keep_scalar text key (PBool b) = Some (PBool b)"
| "keep_scalar text key (PInt i) = Some (PInt i)"
| "keep_scalar text key (PFloat x) = Some (PFloat x)"
| "keep_scalar text key _ = None"

definition filter_metadata :: "string list \<Rightarrow> (string \<Rightarrow> string \<Rightarrow> string option) \<Rightarrow> pyval pydict \<Rightarrow>
    pyval pydict" where
  "filter_metadata allowed text d = List.map_filter
     (\<lambda>(k, v). if k \<in> set allowed then map_option (Pair k) (keep_scalar text k v) else None) d"

definition none_if_empty :: "pyval pydict \<Rightarrow> pyval pydict option" where
  "none_if_empty d = (if d = [] then None else Some d)"

definition version_metadata_keys :: "string list" where
  "version_metadata_keys = [''source_type'', ''source_url'', ''final_url'', ''fetched_at'',
     ''content_type'', ''redirect_count'']"

definition safe_version_metadata :: "net_env \<Rightarrow> pyval pydict option \<Rightarrow> pyval pydict option" where
  "safe_version_metadata env m = (case m of None \<Rightarrow> None | Some d \<Rightarrow>
     none_if_empty (filter_metadata version_metadata_keys
       (\<lambda>k s. Some (if k = ''source_url'' \<or> k = ''final_url'' then safe_url_metadata_string env s
         else safe_metadata_string s)) d))"

definition chunk_metadata_keys :: "string list" where
  "chunk_metadata_keys =
     [''parent_child_schema_version'', ''structure_type'', ''chunk_level'', ''parent_chunk_key'',
      ''child_chunk_key'', ''parent_title'', ''sheet_name'', ''row_from'', ''row_to'',
      ''column_from'', ''column_to'', ''table_index'', ''slide_number'', ''slide_title'',
      ''shape_count'', ''table_count'', ''html_title'', ''heading_path'', ''element_type'',
      ''element_index'', ''xml_root'', ''xml_path'', ''element_name'', ''source_type'',
      ''source_url'']"

definition service_chunk_metadata :: "net_env \<Rightarrow> pyval pydict option \<Rightarrow> pyval pydict option" where
  "service_chunk_metadata env m = (case m of None \<Rightarrow> None | Some d \<Rightarrow>
     none_if_empty (filter_metadata chunk_metadata_keys
       (\<lambda>k s. Some (if k = ''source_url'' then safe_url_metadata_string env s
         else safe_metadata_string s)) d))"

subsection \<open>The source locator's labels\<close>

definition safe_optional_label :: "nat \<Rightarrow> string option \<Rightarrow> string option" where
  "safe_optional_label max_length v = (case v of None \<Rightarrow> None
     | Some s \<Rightarrow> (let safe = safe_string max_length s in
         if safe = [] \<or> safe = ''redacted'' then None else Some safe))"

definition safe_label :: "nat \<Rightarrow> string option \<Rightarrow> string" where
  "safe_label max_length v = (case safe_optional_label max_length v of None \<Rightarrow> ''source'' | Some s \<Rightarrow> s)"

definition safe_url :: "net_env \<Rightarrow> string \<Rightarrow> string option" where
  "safe_url env s = (let redacted = redact_url_for_display env s in
     if redacted = [] \<or> redacted = ''redacted'' \<or> secret_or_email redacted then None
     else Some (take 200 redacted))"

definition safe_chunk_metadata :: "net_env \<Rightarrow> pyval pydict option \<Rightarrow> pyval pydict" where
  "safe_chunk_metadata env m = (case m of None \<Rightarrow> [] | Some d \<Rightarrow>
     filter_metadata chunk_metadata_keys
       (\<lambda>k s. if k = ''source_url'' then safe_url env s else safe_optional_label 160 (Some s)) d)"

definition metadata_str :: "pyval pydict \<Rightarrow> string \<Rightarrow> string option" where
  "metadata_str m key = (case map_of m key of Some (PStr s) \<Rightarrow> Some s | _ \<Rightarrow> None)"

definition metadata_int :: "pyval pydict \<Rightarrow> string \<Rightarrow> int option" where
  "metadata_int m key = (case map_of m key of Some (PInt i) \<Rightarrow> Some i | _ \<Rightarrow> None)"

definition safe_file_name :: "string option \<Rightarrow> string option" where
  "safe_file_name v = (case v of None \<Rightarrow> None
     | Some s \<Rightarrow> safe_optional_label 120 (Some (last (py_split_on slash (replace_char backslash slash s)))))"

definition present :: "string option \<Rightarrow> string option" where
  "present s = (case s of None \<Rightarrow> None | Some t \<Rightarrow> if t = [] then None else Some t)"

definition joined_or_none :: "string list \<Rightarrow> string option" where
  "joined_or_none parts = present (Some (py_join '' / '' parts))"

definition or_else :: "'a option \<Rightarrow> 'a option \<Rightarrow> 'a option" where
  "or_else a b = (case a of None \<Rightarrow> b | Some x \<Rightarrow> Some x)"

definition metadata_suffix :: "pyval pydict \<Rightarrow> string option" where
  "metadata_suffix m =
     (let kind = metadata_str m ''structure_type'' in
      if kind = Some ''excel_sheet'' then joined_or_none
        ((case present (metadata_str m ''sheet_name'') of None \<Rightarrow> [] | Some s \<Rightarrow> [''Sheet: '' @ s]) @
         (case (metadata_int m ''row_from'', metadata_int m ''row_to'') of
            (Some a, Some b) \<Rightarrow> [if a \<noteq> b then ''Rows '' @ int_str a @ ''-'' @ int_str b
              else ''Row '' @ int_str a]
          | _ \<Rightarrow> []))
      else if kind = Some ''powerpoint_slide'' then joined_or_none
        ((case metadata_int m ''slide_number'' of None \<Rightarrow> [] | Some n \<Rightarrow> [''Slide '' @ int_str n]) @
         (case present (metadata_str m ''slide_title'') of None \<Rightarrow> [] | Some s \<Rightarrow> [''Title: '' @ s]))
      else if kind = Some ''html_section'' then
        or_else (present (metadata_str m ''heading_path'')) (metadata_str m ''element_type'')
      else if kind = Some ''xml_element'' then
        or_else (present (metadata_str m ''xml_path'')) (metadata_str m ''element_name'')
      else None)"

definition metadata_source_url :: "net_env \<Rightarrow> pyval pydict \<Rightarrow> string option" where
  "metadata_source_url env m =
     (if map_of m ''source_type'' \<noteq> Some (PStr ''url'') then None
      else case metadata_str m ''source_url'' of None \<Rightarrow> None | Some s \<Rightarrow> safe_url env s)"

definition source_label_for_chunk :: "net_env \<Rightarrow> logical_document \<Rightarrow> document_version \<Rightarrow> document_chunk \<Rightarrow>
    string" where
  "source_label_for_chunk env doc v c =
     (let m = safe_chunk_metadata env (chunk_meta c);
          base = (case present (metadata_source_url env m) of
              Some u \<Rightarrow> u
            | None \<Rightarrow> (case present (safe_file_name (Some (ver_file_name v))) of
                Some f \<Rightarrow> f
              | None \<Rightarrow> safe_label 120 (Some (doc_title doc))));
          suf = or_else (present (metadata_suffix m)) (safe_optional_label 120 (chunk_section c))
      in case present suf of None \<Rightarrow> take 255 base | Some s \<Rightarrow> take 255 (base @ '' / '' @ s))"

definition old_version_flag :: "document_version \<Rightarrow> logical_document \<Rightarrow> bool" where
  "old_version_flag v doc =
     (ver_status v \<noteq> VReady \<or> \<not> ver_is_active v \<or> doc_status doc \<noteq> DocActive)"

subsection \<open>The structural key of a chunk\<close>

fun py_str :: "(pyfloat \<Rightarrow> string) \<Rightarrow> pyval \<Rightarrow> string" where
  "py_str float_repr (PStr s) = s"
| "py_str float_repr (PInt i) = int_str i"
| "py_str float_repr (PBool b) = (if b then ''True'' else ''False'')"
| "py_str float_repr (PFloat x) = float_repr x"
| "py_str float_repr _ = ''None''"

definition opt_str :: "(pyfloat \<Rightarrow> string) \<Rightarrow> pyval option \<Rightarrow> string" where
  "opt_str float_repr v = (case v of None \<Rightarrow> ''None'' | Some x \<Rightarrow> py_str float_repr x)"

text \<open>\<open>isinstance(value, int)\<close> holds of a boolean too.\<close>

definition structure_key :: "(pyfloat \<Rightarrow> string) \<Rightarrow> pyval pydict \<Rightarrow> int \<Rightarrow> string option" where
  "structure_key float_repr m index =
     (let kind = metadata_str m ''structure_type''; chunk_suffix = '':chunk:'' @ int_str index;
          element = '':element:'' @ opt_str float_repr (map_of m ''element_index'') in
      if kind = Some ''excel_sheet'' then Some (py_join '':'' (''excel'' #
        map (py_str float_repr) (List.map_filter (map_of m) [''sheet_name'', ''table_index'', ''row_from'', ''row_to''])))
      else if kind = Some ''powerpoint_slide'' then
        (case map_of m ''slide_number'' of
           Some (PInt n) \<Rightarrow> Some (''pptx:slide:'' @ int_str n @ chunk_suffix)
         | Some (PBool b) \<Rightarrow> Some (''pptx:slide:'' @ py_str float_repr (PBool b) @ chunk_suffix)
         | _ \<Rightarrow> None)
      else if kind = Some ''html_section'' then
        map_option (\<lambda>p. ''html:'' @ p @ element @ chunk_suffix) (metadata_str m ''heading_path'')
      else if kind = Some ''xml_element'' then
        map_option (\<lambda>p. ''xml:'' @ p @ element @ chunk_suffix) (metadata_str m ''xml_path'')
      else None)"

definition structural_key :: "net_env \<Rightarrow> (pyfloat \<Rightarrow> string) \<Rightarrow> document_chunk \<Rightarrow> string option" where
  "structural_key env float_repr c =
     (let m = safe_chunk_metadata env (chunk_meta c) in
      case present (metadata_str m ''child_chunk_key'') of
        Some k \<Rightarrow> Some (''child_chunk_key:'' @ k)
      | None \<Rightarrow> (case present (metadata_str m ''parent_chunk_key'') of
          Some k \<Rightarrow> Some (''parent_chunk_key:'' @ k)
        | None \<Rightarrow> or_else (structure_key float_repr m (chunk_position c))
            (map_option (\<lambda>s. ''section:'' @ s @ '':chunk:'' @ int_str (chunk_position c))
               (present (chunk_section c)))))"

subsection \<open>What a filter lets through\<close>

fun scalar_value :: "pyval \<Rightarrow> bool" where
  "scalar_value (PStr s) = (s \<noteq> [])"
| "scalar_value (PBool _) = True"
| "scalar_value (PInt _) = True"
| "scalar_value (PFloat _) = True"
| "scalar_value _ = False"

lemma keep_scalar_scalar: "keep_scalar redact key v = Some w \<Longrightarrow> scalar_value w"
  by (induction redact key v rule: keep_scalar.induct) (auto split: option.splits if_splits)

lemma filter_metadata_mem:
  "(k, w) \<in> set (filter_metadata allowed redact d) \<longleftrightarrow>
   k \<in> set allowed \<and> (\<exists>v. (k, v) \<in> set d \<and> keep_scalar redact k v = Some w)"
  by (induction d) (auto simp: filter_metadata_def List.map_filter_simps split: option.splits if_splits)

lemma safe_metadata_string_safe: "safe_metadata_string s = safe_string 120 s"
  by (simp add: safe_metadata_string_def safe_string_def)

end
