(* ===== verification/Document_Service.thy ===== *)
theory Document_Service
  imports Document_Store File_Storage Document_Metadata
begin

section \<open>The document service\<close>

text \<open>
  \<open>backend/app/services/document_service.py\<close>: uploads, ingestion by URL, new versions,
  approval and archiving, listing and details. A request is a function from the database and
  the file storage to an error or a response, with the new database and storage: an exception
  rolls the database back, and a file that was saved before it is deleted again. SHA-256, the
  parsers, the network, the random token, the outcomes of the disk and of the commit, the
  order in which the session writes its dirty rows and the clock are the fields of
  \<open>doc_env\<close>. The responses of the model leave out the nested document and version
  views, which the listing and the details model by themselves.
\<close>

record doc_env =
  de_sha256 :: "string \<Rightarrow> string"
  de_flush_order :: "int list \<Rightarrow> int list"
  de_parsers :: file_parsers
  de_net :: net_env
  de_upload_max_bytes :: nat
  de_url_max_bytes :: nat
  de_allowed_extensions :: "string list"
  de_token :: string
  de_write :: write_outcome
  de_commit_ok :: bool
  de_delete_ok :: bool
  de_now :: py_time

subsection \<open>Statuses\<close>

datatype display_status = ShowActive | ShowPendingReview | ShowProcessing | ShowFailed | ShowArchived

definition display_status :: "logical_document \<Rightarrow> document_version option \<Rightarrow> display_status" where
  "display_status doc version =
     (if doc_status doc = DocArchived then ShowArchived
      else case version of
        None \<Rightarrow> ShowActive
      | Some v \<Rightarrow> (case ver_status v of
          VFailed \<Rightarrow> ShowFailed
        | VProcessing \<Rightarrow> ShowProcessing
        | VReady \<Rightarrow> if ver_is_active v then ShowActive else ShowPendingReview
        | VArchived \<Rightarrow> ShowArchived))"

definition document_status_of_text :: "string \<Rightarrow> dstatus option" where
  "document_status_of_text s = map_of [(''active'', DocActive), (''archived'', DocArchived)] s"

definition display_status_of_text :: "string \<Rightarrow> display_status option" where
  "display_status_of_text s = map_of
     [(''active'', ShowActive), (''pending_review'', ShowPendingReview), (''processing'', ShowProcessing),
      (''failed'', ShowFailed), (''archived'', ShowArchived)] s"

definition display_status_filter :: "display_status option \<Rightarrow> vstatus option \<times> bool option" where
  "display_status_filter st = (case st of
     None \<Rightarrow> (None, None)
   | Some ShowArchived \<Rightarrow> (None, None)
   | Some ShowActive \<Rightarrow> (Some VReady, Some True)
   | Some ShowPendingReview \<Rightarrow> (Some VReady, Some False)
   | Some ShowProcessing \<Rightarrow> (Some VProcessing, None)
   | Some ShowFailed \<Rightarrow> (Some VFailed, None))"

definition document_status_filter :: "dstatus option \<Rightarrow> display_status option \<Rightarrow> dstatus option" where
  "document_status_filter st shown =
     (let required = (case shown of None \<Rightarrow> None
        | Some s \<Rightarrow> Some (if s = ShowArchived then DocArchived else DocActive)) in
      if st \<noteq> None \<and> required \<noteq> None \<and> st \<noteq> required then None
      else or_else st (or_else required (Some DocActive)))"

subsection \<open>Views\<close>

record version_summary =
  sum_version_id :: int
  sum_version_no :: int
  sum_status :: vstatus
  sum_is_active :: bool
  sum_display_status :: display_status
  sum_file_name :: string
  sum_mime_type :: string
  sum_file_size_bytes :: int
  sum_page_count :: "int option"
  sum_content_hash :: string
  sum_error_code :: "string option"
  sum_metadata :: "pyval pydict option"
  sum_chunk_count :: "nat option"
  sum_created_at :: py_time
  sum_updated_at :: py_time

definition make_version_summary :: "doc_env \<Rightarrow> logical_document \<Rightarrow> nat option \<Rightarrow> document_version \<Rightarrow>
    version_summary" where
  "make_version_summary env doc chunks v =
    \<lparr>sum_version_id = ver_id v, sum_version_no = ver_no v, sum_status = ver_status v,
     sum_is_active = ver_is_active v, sum_display_status = display_status doc (Some v),
     sum_file_name = ver_file_name v, sum_mime_type = ver_mime_type v,
     sum_file_size_bytes = ver_file_size_bytes v, sum_page_count = ver_page_count v,
     sum_content_hash = ver_content_hash v, sum_error_code = ver_error_code v,
     sum_metadata = safe_version_metadata (de_net env) (ver_metadata v),
     sum_chunk_count = chunks, sum_created_at = ver_created_at v, sum_updated_at = ver_updated_at v\<rparr>"

record document_item =
  ditem_id :: int
  ditem_title :: string
  ditem_status :: dstatus
  ditem_display_status :: display_status
  ditem_latest :: "version_summary option"
  ditem_active :: "version_summary option"
  ditem_created_at :: py_time
  ditem_updated_at :: py_time

definition make_document_item :: "doc_env \<Rightarrow> db \<Rightarrow> logical_document \<Rightarrow> document_item" where
  "make_document_item env d x =
     (let latest = latest_version (doc_id x) d; active = active_version (doc_id x) d in
      \<lparr>ditem_id = doc_id x, ditem_title = doc_title x, ditem_status = doc_status x,
       ditem_display_status = display_status x latest,
       ditem_latest = map_option (make_version_summary env x None) latest,
       ditem_active = map_option (make_version_summary env x None) active,
       ditem_created_at = doc_created_at x, ditem_updated_at = doc_updated_at x\<rparr>)"

record chunk_item =
  citem_id :: int
  citem_version_id :: int
  citem_index :: int
  citem_preview :: string
  citem_truncated :: bool
  citem_page_from :: "int option"
  citem_page_to :: "int option"
  citem_section :: "string option"
  citem_metadata :: "pyval pydict option"
  citem_hash :: string

definition make_chunk_item :: "doc_env \<Rightarrow> nat \<Rightarrow> document_chunk \<Rightarrow> chunk_item" where
  "make_chunk_item env preview_chars c =
     (let n = min preview_chars 200 in
      \<lparr>citem_id = chunk_id c, citem_version_id = chunk_version_id c, citem_index = chunk_position c,
       citem_preview = take n (chunk_content c), citem_truncated = n < length (chunk_content c),
       citem_page_from = chunk_page_from c, citem_page_to = chunk_page_to c,
       citem_section = chunk_section c,
       citem_metadata = service_chunk_metadata (de_net env) (chunk_meta c),
       citem_hash = chunk_digest c\<rparr>)"

subsection \<open>Listing and details\<close>

definition service_list_documents :: "doc_env \<Rightarrow> string option \<Rightarrow> string option \<Rightarrow> string option \<Rightarrow>
    pagination_params \<Rightarrow> db \<Rightarrow> doc_error + document_item list \<times> pagination_meta" where
  "service_list_documents env st query shown p d =
     (if st \<noteq> None \<and> document_status_of_text (the st) = None then Inl (DocInvalid ''Invalid status.'')
      else if shown \<noteq> None \<and> display_status_of_text (the shown) = None
        then Inl (DocInvalid ''Invalid display_status.'')
      else (let show = Option.bind shown display_status_of_text;
                q = present (map_option py_strip query) in
        case document_status_filter (Option.bind st document_status_of_text) show of
          None \<Rightarrow> Inr ([], make_pagination_meta p 0)
        | Some status \<Rightarrow>
            if (case q of None \<Rightarrow> False | Some t \<Rightarrow> 255 < length t) then Inl (DocInvalid ''q is too long.'')
            else (let (rows, n) = list_documents status q (display_status_filter show)
                    (page_offset p) (page_size p) d
              in Inr (map (make_document_item env d) rows, make_pagination_meta p n))))"

definition get_document_detail :: "doc_env \<Rightarrow> int \<Rightarrow> db \<Rightarrow>
    doc_error + document_item \<times> version_summary list" where
  "get_document_detail env i d = (case get_document i d of
      None \<Rightarrow> Inl DocNotFound
    | Some x \<Rightarrow> Inr (make_document_item env d x,
        map (\<lambda>v. make_version_summary env x (Some (count_chunks (ver_id v) d)) v)
          (fst (list_versions i None d))))"

definition service_list_versions :: "doc_env \<Rightarrow> int \<Rightarrow> pagination_params \<Rightarrow> db \<Rightarrow>
    doc_error + version_summary list \<times> pagination_meta" where
  "service_list_versions env i p d = (case get_document i d of
      None \<Rightarrow> Inl DocNotFound
    | Some x \<Rightarrow> (let (rows, n) = list_versions i (Some (page_offset p, page_size p)) d in
        Inr (map (\<lambda>v. make_version_summary env x (Some (count_chunks (ver_id v) d)) v) rows,
          make_pagination_meta p n)))"

definition get_document_and_version :: "int \<Rightarrow> int \<Rightarrow> db \<Rightarrow>
    doc_error + logical_document \<times> document_version" where
  "get_document_and_version doc i d = (case get_document doc d of
      None \<Rightarrow> Inl DocNotFound
    | Some x \<Rightarrow> (case get_version_of doc i d of None \<Rightarrow> Inl DocNotFound | Some v \<Rightarrow> Inr (x, v)))"

definition get_version_detail :: "doc_env \<Rightarrow> int \<Rightarrow> int \<Rightarrow> db \<Rightarrow> doc_error + version_summary" where
  "get_version_detail env doc i d = (case get_document_and_version doc i d of
      Inl e \<Rightarrow> Inl e
    | Inr (x, v) \<Rightarrow> Inr (make_version_summary env x (Some (count_chunks (ver_id v) d)) v))"

definition service_list_chunks :: "doc_env \<Rightarrow> nat \<Rightarrow> int \<Rightarrow> int \<Rightarrow> pagination_params \<Rightarrow> db \<Rightarrow>
    doc_error + chunk_item list \<times> pagination_meta" where
  "service_list_chunks env preview_chars doc i p d = (case get_document_and_version doc i d of
      Inl e \<Rightarrow> Inl e
    | Inr _ \<Rightarrow> (let (rows, n) = list_chunks i (page_offset p) (page_size p) d in
        Inr (map (make_chunk_item env preview_chars) rows, make_pagination_meta p n)))"

subsection \<open>Titles\<close>

definition normalize_document_title :: "string option \<Rightarrow> string \<Rightarrow> doc_error + string" where
  "normalize_document_title value fallback =
     (let title = py_strip (case value of None \<Rightarrow> fallback | Some v \<Rightarrow> v) in
      if title = [] then Inl (DocInvalid ''title must not be empty'')
      else if 255 < length title then Inl (DocInvalid ''title must be at most 255 characters'')
      else Inr title)"

text \<open>\<open>safe_url.split("://", 1)[-1].strip("/")\<close>.\<close>

fun after_scheme :: "string \<Rightarrow> string option" where
  "after_scheme [] = None"
| "after_scheme (c # cs) = (if prefix ''://'' (c # cs) then Some (drop 3 (c # cs)) else after_scheme cs)"

definition title_from_fetched_url :: "string \<Rightarrow> string \<Rightarrow> string" where
  "title_from_fetched_url shown_url file =
     (let rest = strip_by (\<lambda>c. c = slash)
            (case after_scheme shown_url of None \<Rightarrow> shown_url | Some r \<Rightarrow> r) in
      if shown_url \<noteq> [] \<and> shown_url \<noteq> ''redacted'' \<and> rest \<noteq> [] then take 255 rest
      else safe_title_from_file_name file)"

subsection \<open>Jobs\<close>

definition lift_job :: "job_error + 'a \<Rightarrow> doc_error + 'a" where
  "lift_job r = (case r of Inl _ \<Rightarrow> Inl DocIntegrity | Inr x \<Rightarrow> Inr x)"

definition ingest_payload :: "int \<Rightarrow> int \<Rightarrow> int \<Rightarrow> int option option \<Rightarrow> doc_error + pyval pydict" where
  "ingest_payload doc ver user activation =
     (let base = [(''logical_document_id'', PInt doc), (''document_version_id'', PInt ver),
        (''requested_by_user_id'', PInt user)] in
      case activation of
        None \<Rightarrow> Inr base
      | Some dataset \<Rightarrow> (case dataset of
          None \<Rightarrow> Inl MissingEvaluationDataset
        | Some n \<Rightarrow> if n < 1 then Inl MissingEvaluationDataset
            else Inr (base @ [(''evaluation_corpus_activate'', PBool True),
              (''evaluation_dataset_id'', PInt n)])))"

definition create_ingest_job :: "doc_env \<Rightarrow> int \<Rightarrow> int \<Rightarrow> int \<Rightarrow> int option option \<Rightarrow> db \<Rightarrow>
    doc_error + job \<times> db" where
  "create_ingest_job env user doc ver activation d =
     (case ingest_payload doc ver user activation of
        Inl e \<Rightarrow> Inl e
      | Inr payload \<Rightarrow> lift_job (create_job ''document_ingest'' (Some ''document_version'') (Some ver)
          (Some payload) (Some user) 100 (de_now env) d))"

definition create_qdrant_mirror_job :: "doc_env \<Rightarrow> int \<Rightarrow> string \<Rightarrow> int \<Rightarrow> pyval pydict \<Rightarrow> db \<Rightarrow>
    doc_error + job \<times> db" where
  "create_qdrant_mirror_job env user target_type target payload d =
     lift_job (create_job ''qdrant_mirror_update'' (Some target_type) (Some target) (Some payload)
       (Some user) 100 (de_now env) d)"

definition graph_indexing_enabled :: "db \<Rightarrow> bool" where
  "graph_indexing_enabled d = (case map_of (db_settings d) ''rag.graph.indexing.enabled'' of
     None \<Rightarrow> True | Some v \<Rightarrow> v = PBool True)"

definition graph_extractor_type_override :: "db \<Rightarrow> string option" where
  "graph_extractor_type_override d = (case map_of (db_settings d) ''rag.graph.extractor.default'' of
     Some (PStr s) \<Rightarrow> (let t = py_lower (py_strip s) in
       if t = ''llm'' \<or> t = ''rule_based'' then Some t else None)
   | _ \<Rightarrow> None)"

definition graph_index_job_payload :: "int \<Rightarrow> string option \<Rightarrow> pyval pydict" where
  "graph_index_job_payload ver extractor =
     [(''job_type'', PStr ''graph_index_build''), (''document_version_id'', PInt ver)] @
     (case extractor of None \<Rightarrow> [] | Some t \<Rightarrow> [(''extractor_type'', PStr t)]) @
     [(''reindex_policy'', PStr ''replace_existing'')]"

definition create_graph_index_job :: "int option \<Rightarrow> py_time \<Rightarrow> int \<Rightarrow> db \<Rightarrow> doc_error + db" where
  "create_graph_index_job creator now ver d =
     (if \<not> graph_indexing_enabled d then Inr d
      else map_sum id snd (lift_job (create_job ''graph_index_build'' (Some ''document_version'') (Some ver)
        (Some (graph_index_job_payload ver (graph_extractor_type_override d))) creator 80 now d)))"

subsection \<open>Uploads\<close>

record upload_response =
  ur_document_id :: int
  ur_version_id :: int
  ur_job_id :: int
  ur_version_status :: vstatus
  ur_display_status :: display_status

text \<open>
  The storage part of an upload: the content is saved, then the rest of the transaction runs
  and commits. Where that fails after the save, the saved file is deleted; an error of that
  deletion is suppressed.
\<close>

definition save_then :: "doc_env \<Rightarrow> string \<Rightarrow> string \<Rightarrow> (db \<Rightarrow> doc_error + 'a \<times> db) \<Rightarrow> db \<Rightarrow> db \<Rightarrow> files \<Rightarrow>
    (doc_error + 'a) \<times> db \<times> files" where
  "save_then env key content rest before d fs =
     (case local_save (de_write env) key content fs of
        (Inl _, fs') \<Rightarrow> (Inl StorageFailed, before, fs')
      | (Inr _, fs') \<Rightarrow> (case rest d of
          Inl e \<Rightarrow> (Inl e, before, snd (local_delete (de_delete_ok env) key fs'))
        | Inr (x, d') \<Rightarrow>
            if de_commit_ok env then (Inr x, d', fs')
            else (Inl CommitFailed, before, snd (local_delete (de_delete_ok env) key fs'))))"

definition audited :: "string \<Rightarrow> int \<Rightarrow> string option \<Rightarrow> string \<Rightarrow> int \<Rightarrow> pyval pydict \<Rightarrow> db \<Rightarrow> db" where
  "audited action user request_id target_type target metadata =
     audit action (Some user) request_id (Some target_type) (Some target) (Some metadata)"

text \<open>The transaction that \<open>upload_document\<close> and \<open>ingest_url\<close> share: the
  document, its first version, the file, the ingest job and the audit record.\<close>

definition store_first_version :: "doc_env \<Rightarrow> int \<Rightarrow> string \<Rightarrow> validated_upload \<Rightarrow> string \<Rightarrow> string \<Rightarrow>
    pyval pydict option \<Rightarrow> int option option \<Rightarrow> (int \<Rightarrow> int \<Rightarrow> db \<Rightarrow> db) \<Rightarrow> db \<Rightarrow> files \<Rightarrow>
    (doc_error + upload_response) \<times> db \<times> files" where
  "store_first_version env user title up key content metadata activation audit_it d fs =
     (case create_logical_document user title (de_now env) d of
        Inl e \<Rightarrow> (Inl e, d, fs)
      | Inr (x, d1) \<Rightarrow> (case create_version (doc_id x) 1 (de_sha256 env content) (up_file_name up)
            (up_mime_type up) (int (up_size up)) key user metadata (de_now env) d1 of
          Inl e \<Rightarrow> (Inl e, d, fs)
        | Inr (v, d2) \<Rightarrow> save_then env key content
            (\<lambda>d2. case create_ingest_job env user (doc_id x) (ver_id v) activation d2 of
               Inl e \<Rightarrow> Inl e
             | Inr (j, d3) \<Rightarrow> Inr (\<lparr>ur_document_id = doc_id x, ur_version_id = ver_id v,
                 ur_job_id = job_id j, ur_version_status = ver_status v,
                 ur_display_status = display_status x (Some v)\<rparr>,
                 audit_it (doc_id x) (ver_id v) d3)) d d2 fs))"

definition upload_document :: "doc_env \<Rightarrow> int \<Rightarrow> string option \<Rightarrow> string option \<Rightarrow> string option \<Rightarrow> string \<Rightarrow>
    string option \<Rightarrow> int option option \<Rightarrow> db \<Rightarrow> files \<Rightarrow> (doc_error + upload_response) \<times> db \<times> files" where
  "upload_document env user title filename ctype content request_id activation d fs =
     (case validate_upload (de_parsers env) filename ctype content (de_upload_max_bytes env)
         (de_allowed_extensions env) of
        Inl e \<Rightarrow> (Inl (UploadRejected e), d, fs)
      | Inr up \<Rightarrow> (case normalize_document_title title (safe_title_from_file_name (up_file_name up)) of
          Inl e \<Rightarrow> (Inl e, d, fs)
        | Inr title' \<Rightarrow> (case build_storage_key (de_token env) (up_file_name up) of
            Inl e \<Rightarrow> (Inl (UploadRejected e), d, fs)
          | Inr key \<Rightarrow> store_first_version env user title' up key content None activation
              (\<lambda>doc ver. audited ''document.uploaded'' user request_id ''document_version'' ver
                 [(''logical_document_id'', PInt doc), (''document_version_id'', PInt ver),
                  (''file_size_bytes'', PInt (int (up_size up))), (''mime_type'', PStr (up_mime_type up))])
              d fs)))"

definition url_version_metadata :: "string \<Rightarrow> fetch_result \<Rightarrow> pyval pydict" where
  "url_version_metadata fetched_at r =
     [(''source_type'', PStr ''url''), (''source_url'', PStr (fr_safe_source_url r)),
      (''final_url'', PStr (fr_safe_final_url r)), (''fetched_at'', PStr fetched_at),
      (''content_type'', PStr (fr_content_type r)),
      (''redirect_count'', PInt (int (fr_redirect_count r)))]"

text \<open>The fetch settings and the text of the fetch time are arguments.\<close>

definition ingest_url :: "doc_env \<Rightarrow> fetch_settings \<Rightarrow> string \<Rightarrow> int \<Rightarrow> string \<Rightarrow> string option \<Rightarrow>
    string option \<Rightarrow> db \<Rightarrow> files \<Rightarrow> (doc_error + upload_response) \<times> db \<times> files" where
  "ingest_url env cfg fetched_at user url title request_id d fs =
     (case fst (fetch (de_net env) (de_parsers env) cfg url) of
        Inl e \<Rightarrow> (Inl (UploadRejected e), d, fs)
      | Inr r \<Rightarrow> (case validate_upload (de_parsers env) (Some (fr_file_name r)) (Some (fr_content_type r))
            (fr_content r) (de_url_max_bytes env) (de_allowed_extensions env) of
          Inl e \<Rightarrow> (Inl (UploadRejected e), d, fs)
        | Inr up \<Rightarrow> (case normalize_document_title title
              (title_from_fetched_url (fr_safe_final_url r) (up_file_name up)) of
            Inl e \<Rightarrow> (Inl e, d, fs)
          | Inr title' \<Rightarrow> (case build_storage_key (de_token env) (up_file_name up) of
              Inl e \<Rightarrow> (Inl (UploadRejected e), d, fs)
            | Inr key \<Rightarrow> store_first_version env user title' up key (fr_content r)
                (Some (url_version_metadata fetched_at r)) None
                (\<lambda>doc ver. audited ''document.url_ingested'' user request_id ''document_version'' ver
                   [(''logical_document_id'', PInt doc), (''document_version_id'', PInt ver),
                    (''source_type'', PStr ''url''), (''source_url'', PStr (fr_safe_source_url r)),
                    (''final_url'', PStr (fr_safe_final_url r)),
                    (''file_size_bytes'', PInt (int (up_size up))), (''mime_type'', PStr (up_mime_type up))])
                d fs))))"

subsection \<open>New versions\<close>

datatype version_response =
    VersionCreated int int int vstatus display_status
  | DuplicateSkipped int int

definition store_next_version :: "doc_env \<Rightarrow> int \<Rightarrow> logical_document \<Rightarrow> validated_upload \<Rightarrow> string \<Rightarrow> string \<Rightarrow>
    string option \<Rightarrow> db \<Rightarrow> files \<Rightarrow> (doc_error + version_response) \<times> db \<times> files" where
  "store_next_version env user x up key content request_id d fs =
     (let doc = doc_id x in
      case create_version doc (max_version_no doc d + 1) (de_sha256 env content)
          (up_file_name up) (up_mime_type up) (int (up_size up)) key user None (de_now env) d of
        Inl e \<Rightarrow> (Inl e, d, fs)
      | Inr (v, d1) \<Rightarrow> (case touch_document doc (de_now env) d1 of
          Inl e \<Rightarrow> (Inl e, d, fs)
        | Inr d2 \<Rightarrow> save_then env key content
            (\<lambda>d2. case create_ingest_job env user doc (ver_id v) None d2 of
               Inl e \<Rightarrow> Inl e
             | Inr (j, d3) \<Rightarrow> Inr (VersionCreated (ver_id v) (ver_no v) (job_id j) (ver_status v)
                 (display_status x (Some v)),
                 audited ''document.version_added'' user request_id ''document_version'' (ver_id v)
                   [(''logical_document_id'', PInt doc), (''document_version_id'', PInt (ver_id v)),
                    (''version_no'', PInt (ver_no v)), (''file_size_bytes'', PInt (int (up_size up))),
                    (''mime_type'', PStr (up_mime_type up))] d3)) d d2 fs))"

definition add_version :: "doc_env \<Rightarrow> int \<Rightarrow> int \<Rightarrow> string option \<Rightarrow> string option \<Rightarrow> string \<Rightarrow>
    string option \<Rightarrow> db \<Rightarrow> files \<Rightarrow> (doc_error + version_response) \<times> db \<times> files" where
  "add_version env user doc filename ctype content request_id d fs =
     (case get_document doc d of
        None \<Rightarrow> (Inl DocNotFound, d, fs)
      | Some x \<Rightarrow>
        if doc_status x = DocArchived then (Inl DocumentArchived, d, fs)
        else (case validate_upload (de_parsers env) filename ctype content (de_upload_max_bytes env)
            (de_allowed_extensions env) of
          Inl e \<Rightarrow> (Inl (UploadRejected e), d, fs)
        | Inr up \<Rightarrow> (case get_version_by_hash doc (de_sha256 env content) d of
            Some dup \<Rightarrow>
              if de_commit_ok env then (Inr (DuplicateSkipped (ver_id dup) (ver_no dup)),
                audited ''document.duplicate_skipped'' user request_id ''document_version'' (ver_id dup)
                  [(''logical_document_id'', PInt doc), (''matched_document_version_id'', PInt (ver_id dup)),
                   (''matched_version_no'', PInt (ver_no dup))] d, fs)
              else (Inl CommitFailed, d, fs)
          | None \<Rightarrow> (case build_storage_key (de_token env) (up_file_name up) of
              Inl e \<Rightarrow> (Inl (UploadRejected e), d, fs)
            | Inr key \<Rightarrow> store_next_version env user x up key content request_id d fs))))"

subsection \<open>Approval and archiving\<close>

record approve_response =
  ap_version_id :: int
  ap_version_no :: int
  ap_previous_active :: "int option"
  ap_already_active :: bool
  ap_mirror_job_id :: "int option"

definition approval_jobs :: "doc_env \<Rightarrow> int \<Rightarrow> int \<Rightarrow> int \<Rightarrow> int option \<Rightarrow> db \<Rightarrow> doc_error + job \<times> db" where
  "approval_jobs env user doc ver previous d =
     (case create_qdrant_mirror_job env user ''logical_document'' doc
         [(''logical_document_id'', PInt doc), (''document_version_id'', PInt ver),
          (''mirror_action'', PStr ''sync_payload''), (''requested_by_user_id'', PInt user)] d of
        Inl e \<Rightarrow> Inl e
      | Inr (j, d1) \<Rightarrow> (case (case previous of None \<Rightarrow> Inr d1
            | Some p \<Rightarrow> if p = ver then Inr d1
                else create_graph_index_job (Some user) (de_now env) p d1) of
          Inl e \<Rightarrow> Inl e
        | Inr d2 \<Rightarrow> (case create_graph_index_job (Some user) (de_now env) ver d2 of
            Inl e \<Rightarrow> Inl e | Inr d3 \<Rightarrow> Inr (j, d3))))"

text \<open>An \<open>IntegrityError\<close> is reported as a conflict over the active version.\<close>

definition approve_error :: "doc_error \<Rightarrow> doc_error" where
  "approve_error e = (if e = DocIntegrity then ActiveVersionConflict else e)"

definition opt_int :: "int option \<Rightarrow> pyval" where
  "opt_int n = (case n of None \<Rightarrow> PNone | Some i \<Rightarrow> PInt i)"

definition activate_version :: "doc_env \<Rightarrow> int \<Rightarrow> int \<Rightarrow> document_version \<Rightarrow> string option \<Rightarrow> db \<Rightarrow>
    doc_error + approve_response \<times> db" where
  "activate_version env user doc v request_id d =
     (case set_active_version (de_flush_order env) doc v (de_now env) d of
        Inl e \<Rightarrow> Inl e
      | Inr (previous, d1) \<Rightarrow> (case approval_jobs env user doc (ver_id v) previous d1 of
          Inl e \<Rightarrow> Inl e
        | Inr (j, d2) \<Rightarrow> (case touch_document doc (de_now env) d2 of
            Inl e \<Rightarrow> Inl e
          | Inr d3 \<Rightarrow>
              if \<not> de_commit_ok env then Inl CommitFailed
              else Inr (\<lparr>ap_version_id = ver_id v, ap_version_no = ver_no v,
                ap_previous_active = previous, ap_already_active = False,
                ap_mirror_job_id = Some (job_id j)\<rparr>,
                audited ''document.version_approved'' user request_id ''document_version'' (ver_id v)
                  [(''logical_document_id'', PInt doc),
                   (''previous_active_document_version_id'', opt_int previous)] d3))))"

definition approve_version :: "doc_env \<Rightarrow> int \<Rightarrow> int \<Rightarrow> int \<Rightarrow> string option \<Rightarrow> db \<Rightarrow>
    (doc_error + approve_response) \<times> db" where
  "approve_version env user doc ver request_id d =
     (case get_document_and_version doc ver d of
        Inl e \<Rightarrow> (Inl e, d)
      | Inr (x, v) \<Rightarrow>
          if doc_status x = DocArchived then (Inl DocumentArchived, d)
          else if ver_is_active v then
            (Inr \<lparr>ap_version_id = ver_id v, ap_version_no = ver_no v, ap_previous_active = None,
               ap_already_active = True, ap_mirror_job_id = None\<rparr>, d)
          else if ver_status v \<noteq> VReady then (Inl DocumentVersionNotApprovable, d)
          else (case activate_version env user doc v request_id d of
              Inl e \<Rightarrow> (Inl (approve_error e), d)
            | Inr (r, d') \<Rightarrow> (Inr r, d')))"

datatype archive_response = AlreadyArchived | ArchivedNow int

definition archive_now :: "doc_env \<Rightarrow> int \<Rightarrow> int \<Rightarrow> string option \<Rightarrow> db \<Rightarrow> doc_error + archive_response \<times> db" where
  "archive_now env user doc request_id d =
     (case store_archive_document (de_flush_order env) doc (de_now env) d of
        Inl e \<Rightarrow> Inl e
      | Inr d1 \<Rightarrow> (case create_qdrant_mirror_job env user ''logical_document'' doc
            [(''logical_document_id'', PInt doc), (''mirror_action'', PStr ''mark_inactive''),
             (''requested_by_user_id'', PInt user)] d1 of
          Inl e \<Rightarrow> Inl e
        | Inr (j, d2) \<Rightarrow> (case (case active_version doc d of None \<Rightarrow> Inr d2
              | Some a \<Rightarrow> create_graph_index_job (Some user) (de_now env) (ver_id a) d2) of
            Inl e \<Rightarrow> Inl e
          | Inr d3 \<Rightarrow>
              if \<not> de_commit_ok env then Inl CommitFailed
              else Inr (ArchivedNow (job_id j), audited ''document.archived'' user request_id
                ''logical_document'' doc [(''logical_document_id'', PInt doc)] d3))))"

definition archive_document :: "doc_env \<Rightarrow> int \<Rightarrow> int \<Rightarrow> string option \<Rightarrow> db \<Rightarrow>
    (doc_error + archive_response) \<times> db" where
  "archive_document env user doc request_id d =
     (case get_document doc d of
        None \<Rightarrow> (Inl DocNotFound, d)
      | Some x \<Rightarrow>
          if doc_status x = DocArchived then (Inr AlreadyArchived, d)
          else (case archive_now env user doc request_id d of
              Inl e \<Rightarrow> (Inl e, d) | Inr (r, d') \<Rightarrow> (Inr r, d')))"

end
