(* ===== verification/Document_Ingest.thy ===== *)
theory Document_Ingest
  imports Document_Service Chunking Worker
begin

section \<open>The ingest handler\<close>

text \<open>
  \<open>backend/app/workers/handlers/document_ingest_handler.py\<close>: the handler of an ingest job
  is a sequence of transactions with calls of the extractor, the vector index and the storage
  between them. Each transaction is an operation on the database, which checks that the worker
  still owns the job before it writes; the handler composes them, and between two transactions
  other processes may commit anything (\<open>ie_others\<close>, by the number of the gap). The
  extractor and the vector index are libraries and services, so their outcomes are fields of
  \<open>ingest_env\<close>. A commit succeeds.
\<close>

datatype ingest_exc = IngestLeaseLost | IngestError string

definition is_positive_int :: "pyval option \<Rightarrow> bool" where
  "is_positive_int v = (case v of Some (PInt i) \<Rightarrow> 0 < i | _ \<Rightarrow> False)"

definition evaluation_activation_requested :: "pyval pydict \<Rightarrow> bool" where
  "evaluation_activation_requested payload =
     (map_of payload ''evaluation_corpus_activate'' = Some (PBool True) \<and>
      is_positive_int (map_of payload ''evaluation_dataset_id''))"

record version_snapshot =
  snap_version :: document_version
  snap_document :: logical_document
  snap_is_active :: bool
  snap_chunk_ids :: "int list"

datatype prepared = PrepareFailed string | Prepared version_snapshot

record ingest_metadata =
  im_page_count :: "int option"
  im_extractor_name :: string
  im_extractor_version :: string
  im_text_char_count :: nat

subsection \<open>The transactions\<close>

definition get_version_by_id :: "int \<Rightarrow> db \<Rightarrow> document_version option" where
  "get_version_by_id i d = find (\<lambda>v. ver_id v = i) (db_versions d)"

definition get_version_and_document :: "int \<Rightarrow> db \<Rightarrow> (document_version \<times> logical_document) option" where
  "get_version_and_document i d = (case get_version_by_id i d of
      None \<Rightarrow> None
    | Some v \<Rightarrow> map_option (Pair v) (get_document (ver_document_id v) d))"

definition owned_then :: "job_context \<Rightarrow> db \<Rightarrow> doc_error + db \<Rightarrow> ingest_exc + db" where
  "owned_then ctx d r = (case assert_ownership (ctx_job_id ctx) (ctx_worker ctx) d of
      Inl _ \<Rightarrow> Inl IngestLeaseLost
    | Inr _ \<Rightarrow> (case r of Inl _ \<Rightarrow> Inl (IngestError ''integrity_error'') | Inr d' \<Rightarrow> Inr d'))"

definition payload_document_ok :: "job_context \<Rightarrow> int \<Rightarrow> bool" where
  "payload_document_ok ctx doc = (case map_of (ctx_payload ctx) ''logical_document_id'' of
      None \<Rightarrow> True | Some PNone \<Rightarrow> True | Some v \<Rightarrow> v = PInt doc \<and> 0 < doc)"

definition prepare_version :: "job_context \<Rightarrow> int \<Rightarrow> py_time \<Rightarrow> db \<Rightarrow> (ingest_exc + prepared) \<times> db" where
  "prepare_version ctx i now d =
     (case get_version_and_document i d of
        None \<Rightarrow> (Inr (PrepareFailed ''document_version_not_found''), d)
      | Some (v, x) \<Rightarrow>
        if \<not> payload_document_ok ctx (ver_document_id v)
          then (Inr (PrepareFailed ''validation_error''), d)
        else (let snap = \<lparr>snap_version = v, snap_document = x,
              snap_is_active = ver_is_active v \<or> evaluation_activation_requested (ctx_payload ctx),
              snap_chunk_ids = chunk_ids_by_version i d\<rparr>;
            finish = (\<lambda>r ok. case r of
              Inl IngestLeaseLost \<Rightarrow> (Inl IngestLeaseLost, d)
            | Inl (IngestError _) \<Rightarrow> (Inr (PrepareFailed ''internal_error''), d)
            | Inr d' \<Rightarrow> (Inr ok, d')) in
          if ver_status v = VArchived then (Inr (PrepareFailed ''document_version_not_ingestable''), d)
          else if doc_status x = DocArchived then
            finish (owned_then ctx d (mark_version_failed i ''document_version_not_ingestable'' now d))
              (PrepareFailed ''document_version_not_ingestable'')
          else if ver_status v \<noteq> VReady then
            finish (owned_then ctx d (reset_version_for_ingest i now d)) (Prepared snap)
          else (Inr (Prepared snap), d)))"

definition delete_chunks_tx :: "job_context \<Rightarrow> int \<Rightarrow> py_time \<Rightarrow> db \<Rightarrow> ingest_exc + db" where
  "delete_chunks_tx ctx i now d = owned_then ctx d (Inr (snd (delete_chunks i now d)))"

definition chunk_row :: "chunk \<Rightarrow> py_time \<Rightarrow> document_chunk" where
  "chunk_row c now =
    \<lparr>chunk_id = 0, chunk_version_id = ch_version c, chunk_position = int (ch_index c),
     chunk_digest = ch_hash c, chunk_content = ch_text c, chunk_tokens = Some (int (ch_tokens c)),
     chunk_chars = Some (int (ch_chars c)), chunk_page_from = ch_page_from c,
     chunk_page_to = ch_page_to c, chunk_section = ch_section c, chunk_meta = ch_metadata c,
     chunk_created_at = now\<rparr>"

datatype store_result = ChunksStored | StoreFailed string | StoreFailVersion string

definition write_chunks :: "int \<Rightarrow> ingest_metadata \<Rightarrow> chunk list \<Rightarrow> py_time \<Rightarrow> db \<Rightarrow> doc_error + db" where
  "write_chunks i meta chunks now d =
     (case bulk_insert_chunks (map (\<lambda>c. chunk_row c now) chunks) now (snd (delete_chunks i now d)) of
        Inl e \<Rightarrow> Inl e
      | Inr d1 \<Rightarrow>
          if count_chunks i d1 \<noteq> length chunks then Inl DocIntegrity
          else update_ingest_metadata i (im_page_count meta) (im_extractor_name meta)
            (im_extractor_version meta) now d1)"

definition store_chunks :: "job_context \<Rightarrow> int \<Rightarrow> ingest_metadata \<Rightarrow> chunk list \<Rightarrow> py_time \<Rightarrow> db \<Rightarrow>
    (ingest_exc + store_result) \<times> db" where
  "store_chunks ctx i meta chunks now d =
     (if chunks = [] then (Inr (StoreFailVersion ''no_chunks_created''), d)
      else case get_version_and_document i d of
        None \<Rightarrow> (Inr (StoreFailed ''document_version_not_found''), d)
      | Some (v, x) \<Rightarrow>
          if doc_status x = DocArchived \<or> ver_status v = VArchived
            then (Inr (StoreFailVersion ''document_version_not_ingestable''), d)
          else (case owned_then ctx d (write_chunks i meta chunks now d) of
              Inl IngestLeaseLost \<Rightarrow> (Inl IngestLeaseLost, d)
            | Inl (IngestError _) \<Rightarrow> (Inr (StoreFailVersion ''document_chunk_insert_failed''), d)
            | Inr d' \<Rightarrow> (Inr ChunksStored, d')))"

text \<open>\<open>_mark_version_ready\<close>: ready, activated where the payload asks for it, and the graph
  index job.\<close>

definition mark_ready_writes :: "doc_env \<Rightarrow> job_context \<Rightarrow> document_version \<Rightarrow> py_time \<Rightarrow> db \<Rightarrow> doc_error + db" where
  "mark_ready_writes env ctx v now d =
     (case mark_version_ready (ver_id v) now d of
        Inl e \<Rightarrow> Inl e
      | Inr d1 \<Rightarrow> (case (if evaluation_activation_requested (ctx_payload ctx)
            then map_sum id snd (set_active_version (de_flush_order env) (ver_document_id v) v now d1)
            else Inr d1) of
          Inl e \<Rightarrow> Inl e
        | Inr d2 \<Rightarrow> create_graph_index_job None now (ver_id v) d2))"

definition mark_ready_tx :: "doc_env \<Rightarrow> job_context \<Rightarrow> int \<Rightarrow> nat \<Rightarrow> py_time \<Rightarrow> db \<Rightarrow> ingest_exc + db" where
  "mark_ready_tx env ctx i expected now d =
     (case get_version_and_document i d of
        None \<Rightarrow> Inl (IngestError ''document version missing during ready update'')
      | Some (v, x) \<Rightarrow>
          if doc_status x = DocArchived \<or> ver_status v = VArchived
            then Inl (IngestError ''document version became non-ingestable'')
          else owned_then ctx d
            (if count_chunks i d \<noteq> expected then Inl DocIntegrity
             else mark_ready_writes env ctx v now d))"

definition mark_failed_tx :: "job_context \<Rightarrow> int \<Rightarrow> string \<Rightarrow> bool \<Rightarrow> py_time \<Rightarrow> db \<Rightarrow> (ingest_exc + string) \<times> db" where
  "mark_failed_tx ctx i code delete now d =
     (case get_version_by_id i d of
        None \<Rightarrow> (Inr code, d)
      | Some v \<Rightarrow>
          if ver_status v = VArchived then (Inr code, d)
          else (case owned_then ctx d (mark_version_failed i code now
                (if delete then snd (delete_chunks i now d) else d)) of
              Inl IngestLeaseLost \<Rightarrow> (Inl IngestLeaseLost, d)
            | Inl (IngestError _) \<Rightarrow> (Inr ''ingest_cleanup_failed'', d)
            | Inr d' \<Rightarrow> (Inr code, d')))"

subsection \<open>The handler\<close>

record ingest_env =
  ie_doc :: doc_env
  ie_others :: "nat \<Rightarrow> db \<Rightarrow> db"
  ie_now :: "nat \<Rightarrow> py_time"
  ie_points_cleaned :: "nat \<Rightarrow> bool"
  ie_stored :: "storage_error + bool"
  ie_extracted :: "string + ingest_metadata \<times> extracted_page list"
  ie_max_chars :: nat
  ie_chunking :: chunking_config
  ie_indexed :: "string + nat"

definition safe_messages :: "(string \<times> string) list" where
  "safe_messages =
    [(''validation_error'', ''Job payload is invalid.''),
     (''document_version_not_found'', ''Document version was not found.''),
     (''document_version_not_ingestable'', ''Document version cannot be ingested.''),
     (''storage_file_missing'', ''Stored object was not found.''),
     (''unsupported_file_type'', ''Unsupported type.''),
     (''mime_type_mismatch'', ''MIME type mismatch.''),
     (''text_extraction_failed'', ''Extraction failed.''),
     (''empty_extracted_text'', ''Extraction result is empty.''),
     (''chunking_failed'', ''Segmentation failed.''),
     (''no_chunks_created'', ''No segments were created.''),
     (''document_chunk_insert_failed'', ''Segment persistence failed.''),
     (''ingest_cleanup_failed'', ''Ingest cleanup failed.''),
     (''embedding_failed'', ''Embedding generation failed.''),
     (''embedding_dimension_mismatch'', ''Embedding dimension mismatch.''),
     (''embedding_empty_result'', ''Embedding result is empty.''),
     (''qdrant_unavailable'', ''Qdrant is unavailable.''),
     (''qdrant_collection_create_failed'', ''Qdrant collection create failed.''),
     (''qdrant_collection_dimension_mismatch'', ''Qdrant collection dimension mismatch.''),
     (''qdrant_upsert_failed'', ''Qdrant upsert failed.''),
     (''qdrant_cleanup_failed'', ''Qdrant cleanup failed.''),
     (''document_indexing_failed'', ''Document indexing failed.''),
     (''document_ready_update_failed'', ''Document ready update failed.''),
     (''internal_error'', ''Document ingest failed.'')]"

definition ingest_failed :: "string \<Rightarrow> handler_result" where
  "ingest_failed code = handler_failed code (case map_of safe_messages code of
     None \<Rightarrow> ''Document ingest failed.'' | Some m \<Rightarrow> m)"

definition chunking_error_code :: "chunking_error \<Rightarrow> string" where
  "chunking_error_code e = (case e of ChunkSizeInvalid \<Rightarrow> ''chunking_failed'' | NoChunksCreated \<Rightarrow> ''no_chunks_created'')"

text \<open>The end of a failed run: the version is failed in a last transaction, at gap
  \<open>g\<close>; the points of its chunks are removed first.\<close>

definition finish_failed :: "ingest_env \<Rightarrow> job_context \<Rightarrow> int \<Rightarrow> string \<Rightarrow> bool \<Rightarrow> nat \<Rightarrow> db \<Rightarrow>
    handler_result outcome \<times> db" where
  "finish_failed env ctx i code delete g d =
     (case mark_failed_tx ctx i code delete (ie_now env g) (ie_others env g d) of
        (Inl _, d') \<Rightarrow> (RaisedLeaseLost, d')
      | (Inr c, d') \<Rightarrow> (Returned (ingest_failed c), d'))"

definition fail_version :: "ingest_env \<Rightarrow> job_context \<Rightarrow> int \<Rightarrow> string \<Rightarrow> nat \<Rightarrow> db \<Rightarrow> handler_result outcome \<times> db" where
  "fail_version env ctx i code g d =
     (let d1 = ie_others env g d in
      finish_failed env ctx i code (chunk_ids_by_version i d1 = [] \<or> ie_points_cleaned env g) (g + 1) d1)"

definition ingest_result :: "version_snapshot \<Rightarrow> ingest_metadata \<Rightarrow> document_chunk list \<Rightarrow> nat \<Rightarrow> pyval pydict" where
  "ingest_result snap meta chunks indexed =
     (let st = chunk_statistics (List.map_filter chunk_chars chunks) in
      [(''document_version_id'', PInt (ver_id (snap_version snap))),
       (''logical_document_id'', PInt (doc_id (snap_document snap))),
       (''chunk_count'', PInt (int (length chunks))), (''indexed_count'', PInt (int indexed)),
       (''page_count'', opt_int (im_page_count meta)),
       (''chunk_min_char_count'', PInt (st_min st)), (''chunk_max_char_count'', PInt (st_max st)),
       (''chunk_median_char_count'', PInt (st_median st)), (''status'', PStr ''ready'')])"

definition finalize :: "ingest_env \<Rightarrow> job_context \<Rightarrow> version_snapshot \<Rightarrow> ingest_metadata \<Rightarrow> document_chunk list \<Rightarrow>
    nat \<Rightarrow> db \<Rightarrow> handler_result outcome \<times> db" where
  "finalize env ctx snap meta chunks g d =
     (let i = ver_id (snap_version snap) in
      case ie_indexed env of
        Inl code \<Rightarrow> fail_version env ctx i code g d
      | Inr indexed \<Rightarrow>
        (let d1 = ie_others env g d in
         case mark_ready_tx (ie_doc env) ctx i (length chunks) (ie_now env g) d1 of
           Inl IngestLeaseLost \<Rightarrow> (RaisedLeaseLost, d1)
         | Inl (IngestError _) \<Rightarrow> finish_failed env ctx i ''document_ready_update_failed''
             (ie_points_cleaned env g) (g + 1) d1
         | Inr d2 \<Rightarrow> (Returned (handler_succeeded (Some (ingest_result snap meta chunks indexed))), d2)))"

definition chunk_and_store :: "ingest_env \<Rightarrow> job_context \<Rightarrow> version_snapshot \<Rightarrow> ingest_metadata \<Rightarrow>
    extracted_page list \<Rightarrow> nat \<Rightarrow> db \<Rightarrow> handler_result outcome \<times> db" where
  "chunk_and_store env ctx snap meta pages g d =
     (let i = ver_id (snap_version snap) in
      if ie_max_chars env < im_text_char_count meta
        then fail_version env ctx i ''text_extraction_failed'' g d
      else case chunk_document (de_sha256 (ie_doc env)) (ie_chunking env) pages i of
        Inl e \<Rightarrow> fail_version env ctx i (chunking_error_code e) g d
      | Inr chunks \<Rightarrow>
          (case store_chunks ctx i meta chunks (ie_now env g) (ie_others env g d) of
             (Inl _, d1) \<Rightarrow> (RaisedLeaseLost, d1)
           | (Inr (StoreFailed code), d1) \<Rightarrow> (Returned (ingest_failed code), d1)
           | (Inr (StoreFailVersion code), d1) \<Rightarrow> fail_version env ctx i code (g + 1) d1
           | (Inr ChunksStored, d1) \<Rightarrow>
               (let d2 = ie_others env (g + 1) d1 in
                finalize env ctx snap meta (list_all_chunks i d2) (g + 2) d2)))"

definition extract_and_store :: "ingest_env \<Rightarrow> job_context \<Rightarrow> version_snapshot \<Rightarrow> nat \<Rightarrow> db \<Rightarrow>
    handler_result outcome \<times> db" where
  "extract_and_store env ctx snap g d =
     (let i = ver_id (snap_version snap) in
      if ver_storage_key (snap_version snap) = None then fail_version env ctx i ''storage_file_missing'' g d
      else case ie_stored env of
        Inl e \<Rightarrow> fail_version env ctx i
          (if e = FileMissing then ''storage_file_missing'' else ''internal_error'') g d
      | Inr False \<Rightarrow> fail_version env ctx i ''storage_file_missing'' g d
      | Inr True \<Rightarrow> (case ie_extracted env of
          Inl code \<Rightarrow> fail_version env ctx i code g d
        | Inr (meta, pages) \<Rightarrow> chunk_and_store env ctx snap meta pages g d))"

definition ingest_prepared :: "ingest_env \<Rightarrow> job_context \<Rightarrow> version_snapshot \<Rightarrow> db \<Rightarrow> handler_result outcome \<times> db" where
  "ingest_prepared env ctx snap d =
     (let i = ver_id (snap_version snap) in
      if ver_status (snap_version snap) = VReady then (Returned (handler_succeeded (Some
        [(''document_version_id'', PInt i), (''logical_document_id'', PInt (doc_id (snap_document snap))),
         (''status'', PStr ''already_ready''), (''result_code'', PStr ''no_op'')])), d)
      else if snap_chunk_ids snap = [] then extract_and_store env ctx snap 1 d
      else if \<not> ie_points_cleaned env 0 then finish_failed env ctx i ''qdrant_cleanup_failed'' False 1 d
      else (let d1 = ie_others env 1 d in
        case delete_chunks_tx ctx i (ie_now env 1) d1 of
          Inl IngestLeaseLost \<Rightarrow> (RaisedLeaseLost, d1)
        | Inl (IngestError _) \<Rightarrow> finish_failed env ctx i ''ingest_cleanup_failed'' True 2 d1
        | Inr d2 \<Rightarrow> extract_and_store env ctx snap 2 d2))"

definition ingest_handle :: "ingest_env \<Rightarrow> job_context \<Rightarrow> db \<Rightarrow> handler_result outcome \<times> db" where
  "ingest_handle env ctx d =
     (case map_of (ctx_payload ctx) ''document_version_id'' of
        Some (PInt i) \<Rightarrow>
          if i \<le> 0 \<or> ctx_target_type ctx \<noteq> Some ''document_version'' \<or> ctx_target_id ctx \<noteq> Some i
            then (Returned (ingest_failed ''validation_error''), d)
          else (case prepare_version ctx i (ie_now env 0) (ie_others env 0 d) of
              (Inl _, d1) \<Rightarrow> (RaisedLeaseLost, d1)
            | (Inr (PrepareFailed code), d1) \<Rightarrow> (Returned (ingest_failed code), d1)
            | (Inr (Prepared snap), d1) \<Rightarrow> ingest_prepared env ctx snap d1)
      | _ \<Rightarrow> (Returned (ingest_failed ''validation_error''), d))"

end
