(* ===== verification/Document_Lifecycle.thy ===== *)
theory Document_Lifecycle
  imports Document_Ingest Job_Lifecycle
begin

section \<open>The life of a document\<close>

text \<open>
  The document tables as a state machine: a step is a committed request of the document
  service, a transaction of the ingest handler, or a step of the job queue, with any
  arguments. The invariant joins the constraints of the two tables with what the schema does
  not state: every version has its document, and an active version's document is not archived.
  The lemmas follow the layers of the code: statements, repository operations, transactions.
\<close>

definition docs_part where
  "docs_part d = (db_documents d, db_versions d, db_next_document_id d, db_next_version_id d)"

definition has_document :: "db \<Rightarrow> document_version \<Rightarrow> bool" where
  "has_document d v = (\<exists>x\<in>set (db_documents d). doc_id x = ver_document_id v)"

definition docs_base :: "db \<Rightarrow> bool" where
  "docs_base d =
     (documents_ok (db_documents d) \<and> versions_ok (db_versions d) \<and>
      (\<forall>x\<in>set (db_documents d). doc_id x < db_next_document_id d) \<and>
      (\<forall>v\<in>set (db_versions d). ver_id v < db_next_version_id d) \<and>
      (\<forall>v\<in>set (db_versions d). has_document d v))"

definition archived :: "int \<Rightarrow> db \<Rightarrow> bool" where
  "archived i d = (\<exists>x\<in>set (db_documents d). doc_id x = i \<and> doc_status x = DocArchived)"

definition docs_inv :: "db \<Rightarrow> bool" where
  "docs_inv d = (docs_base d \<and>
     (\<forall>v\<in>set (db_versions d). ver_is_active v \<longrightarrow> \<not> archived (ver_document_id v) d))"

text \<open>What every transaction keeps: the invariant, and the archived documents.\<close>

definition doc_safe :: "db \<Rightarrow> db \<Rightarrow> bool" where
  "doc_safe d d' = (docs_inv d \<longrightarrow> docs_inv d' \<and> (\<forall>i. archived i d \<longrightarrow> archived i d'))"

lemma doc_safe_refl [simp]: "doc_safe d d"
  by (simp add: doc_safe_def)

lemma doc_safe_trans [trans]: "doc_safe a b \<Longrightarrow> doc_safe b c \<Longrightarrow> doc_safe a c"
  by (simp add: doc_safe_def)

lemma docs_part_cong:
  assumes "docs_part d' = docs_part d"
  shows "docs_inv d' = docs_inv d" "archived i d' = archived i d" "docs_base d' = docs_base d"
proof -
  have eq: "db_documents d' = db_documents d" "db_versions d' = db_versions d"
    "db_next_document_id d' = db_next_document_id d" "db_next_version_id d' = db_next_version_id d"
    using assms by (auto simp: docs_part_def)
  then show a: "archived i d' = archived i d" for i by (simp add: archived_def)
  show b: "docs_base d' = docs_base d" unfolding docs_base_def has_document_def eq ..
  show "docs_inv d' = docs_inv d" unfolding docs_inv_def a b eq ..
qed

lemma doc_safe_part: "docs_part d' = docs_part d \<Longrightarrow> doc_safe d d'"
  using docs_part_cong(1,2)[of d' d] by (simp add: doc_safe_def)

subsection \<open>Operations that leave the document tables alone\<close>

lemma docs_part_simps [simp]:
  "docs_part (touch_corpus_marker now d) = docs_part d"
  "docs_part (touch_if b now d) = docs_part d"
  "docs_part (audited a u r t i m d) = docs_part d"
  "docs_part (snd (delete_chunks i now d)) = docs_part d"
  by (simp_all add: docs_part_def touch_corpus_marker_def touch_if_def audited_def audit_def
      add_audit_log_def delete_chunks_def)

lemma docs_part_bulk_insert: "bulk_insert_chunks cs now d = Inr d' \<Longrightarrow> docs_part d' = docs_part d"
  by (auto simp: bulk_insert_chunks_def put_chunks_def docs_part_def touch_if_def
      touch_corpus_marker_def split: if_splits sum.splits)

lemma docs_part_put_jobs: "put_jobs d jobs = Inr d' \<Longrightarrow> docs_part d' = docs_part d"
  by (auto simp: put_jobs_def docs_part_def split: if_splits)

lemma docs_part_create_job: "create_job a b c e f g h d = Inr (j, d') \<Longrightarrow> docs_part d' = docs_part d"
  by (auto simp: create_job_def insert_job_def Let_def docs_part_def put_jobs_def
      split: sum.splits if_splits)

lemma docs_part_lift_job: "lift_job (create_job a b c e f g h d) = Inr (j, d') \<Longrightarrow> docs_part d' = docs_part d"
  by (auto simp: lift_job_def docs_part_create_job split: sum.splits)

lemma docs_part_ingest_job: "create_ingest_job env u i v act d = Inr (j, d') \<Longrightarrow> docs_part d' = docs_part d"
  by (auto simp: create_ingest_job_def docs_part_lift_job split: sum.splits)

lemma docs_part_mirror_job: "create_qdrant_mirror_job env u t i p d = Inr (j, d') \<Longrightarrow> docs_part d' = docs_part d"
  by (auto simp: create_qdrant_mirror_job_def docs_part_lift_job)

lemma docs_part_graph_job:
  assumes "create_graph_index_job c now v d = Inr d'"
  shows "docs_part d' = docs_part d"
proof (cases "graph_indexing_enabled d")
  case True
  with assms obtain j where "lift_job (create_job ''graph_index_build'' (Some ''document_version'') (Some v)
      (Some (graph_index_job_payload v (graph_extractor_type_override d))) c 80 now d) = Inr (j, d')"
    by (cases "lift_job (create_job ''graph_index_build'' (Some ''document_version'') (Some v)
      (Some (graph_index_job_payload v (graph_extractor_type_override d))) c 80 now d)")
       (auto simp: create_graph_index_job_def)
  then show ?thesis by (rule docs_part_lift_job)
qed (use assms in \<open>simp add: create_graph_index_job_def\<close>)

lemmas docs_frames = docs_part_bulk_insert docs_part_create_job docs_part_ingest_job
  docs_part_mirror_job docs_part_graph_job

subsection \<open>Statements\<close>

lemma update_version_InrD:
  "update_version i f d = Inr d' \<Longrightarrow>
   d' = d\<lparr>db_versions := map (\<lambda>v. if ver_id v = i then f v else v) (db_versions d)\<rparr> \<and>
   versions_ok (db_versions d')"
  by (auto simp: update_version_def put_versions_def split: if_splits)

lemma update_document_InrD:
  "update_document i f d = Inr d' \<Longrightarrow>
   d' = d\<lparr>db_documents := map (\<lambda>x. if doc_id x = i then f x else x) (db_documents d)\<rparr> \<and>
   documents_ok (db_documents d')"
  by (auto simp: update_document_def put_documents_def split: if_splits)

text \<open>Updates of the version rows that keep each row's identity and document.\<close>

definition version_map :: "(document_version \<Rightarrow> document_version) \<Rightarrow> db \<Rightarrow> db" where
  "version_map g d = d\<lparr>db_versions := map g (db_versions d)\<rparr>"

definition same_version :: "document_version \<Rightarrow> document_version \<Rightarrow> bool" where
  "same_version v w = (ver_id w = ver_id v \<and> ver_document_id w = ver_document_id v)"

lemma version_map_base:
  "docs_base d \<Longrightarrow> versions_ok (map g (db_versions d)) \<Longrightarrow> (\<And>v. same_version v (g v)) \<Longrightarrow>
   docs_base (version_map g d)"
  by (auto simp: docs_base_def version_map_def same_version_def has_document_def)

lemma version_map_archived [simp]: "archived i (version_map g d) = archived i d"
  by (simp add: archived_def version_map_def)

lemma version_map_safe:
  assumes "versions_ok (map g (db_versions d))" "\<And>v. same_version v (g v)"
    and "\<And>v. v \<in> set (db_versions d) \<Longrightarrow> ver_is_active (g v) \<Longrightarrow>
      ver_is_active v \<or> \<not> archived (ver_document_id v) d"
  shows "doc_safe d (version_map g d)"
  unfolding doc_safe_def docs_inv_def
proof (intro impI conjI ballI allI)
  assume inv: "docs_base d \<and> (\<forall>v\<in>set (db_versions d). ver_is_active v \<longrightarrow> \<not> archived (ver_document_id v) d)"
  then show "docs_base (version_map g d)" using version_map_base assms(1,2) by blast
  fix v assume "v \<in> set (db_versions (version_map g d))" and act: "ver_is_active v"
  then obtain w where w: "w \<in> set (db_versions d)" "v = g w" by (auto simp: version_map_def)
  have "ver_is_active w \<or> \<not> archived (ver_document_id w) d" using assms(3)[OF w(1)] act w(2) by simp
  with inv w(1) have "\<not> archived (ver_document_id w) d" by blast
  with assms(2)[of w] w(2) show "\<not> archived (ver_document_id v) (version_map g d)"
    by (simp add: same_version_def)
qed simp_all

lemma update_version_safe:
  assumes "update_version i f d = Inr d'" "\<And>v. same_version v (f v) \<and> (ver_is_active (f v) \<longrightarrow> ver_is_active v)"
  shows "doc_safe d d'"
proof -
  let ?g = "\<lambda>v. if ver_id v = i then f v else v"
  have "d' = version_map ?g d" "versions_ok (map ?g (db_versions d))"
    using update_version_InrD[OF assms(1)] by (auto simp: version_map_def)
  moreover have "doc_safe d (version_map ?g d)"
    using calculation(2) assms(2) by (intro version_map_safe) (auto simp: same_version_def split: if_splits)
  ultimately show ?thesis by simp
qed

subsection \<open>A flush of several rows\<close>

text \<open>
  A flush in any order that succeeds has updated every dirty row, once. The order matters only
  for whether it succeeds.
\<close>

lemma flush_versions_InrD:
  assumes "distinct is" "flush_versions f is d = Inr d'" "\<And>i v. same_version v (f i v)"
    and "versions_ok (db_versions d)"
  shows "d' = version_map (\<lambda>v. if ver_id v \<in> set is then f (ver_id v) v else v) d \<and>
    versions_ok (db_versions d')"
  using assms
proof (induction "is" arbitrary: d)
  case Nil
  then show ?case by (simp add: version_map_def)
next
  case (Cons i "is")
  obtain d1 where step: "update_version i (f i) d = Inr d1" "flush_versions f is d1 = Inr d'"
    using Cons.prems(2) by (auto split: sum.splits)
  note d1 = update_version_InrD[OF step(1)]
  have "d' = version_map (\<lambda>v. if ver_id v \<in> set is then f (ver_id v) v else v) d1 \<and> versions_ok (db_versions d')"
    by (rule Cons.IH[OF _ step(2) Cons.prems(3)]) (use d1 Cons.prems(1) in auto)
  moreover have "ver_id (f i v) = ver_id v" for v using Cons.prems(3)[of v i] by (simp add: same_version_def)
  ultimately show ?case using d1 Cons.prems(1) by (auto simp: version_map_def intro!: map_cong)
qed

definition permutes_rows :: "(int list \<Rightarrow> int list) \<Rightarrow> bool" where
  "permutes_rows order = (\<forall>is. mset (order is) = mset is)"

lemma permutes_rows_props:
  assumes "permutes_rows order"
  shows "set (order is) = set is" "distinct is \<Longrightarrow> distinct (order is)"
  using assms unfolding permutes_rows_def by (metis mset_eq_setD, metis mset_eq_imp_distinct_iff)

subsection \<open>Repository operations\<close>

lemma create_document_safe:
  assumes "create_logical_document owner title now d = Inr (x, d')"
  shows "doc_safe d d'" "doc_id x = db_next_document_id d" "x \<in> set (db_documents d')"
    "doc_status x = DocActive" "db_versions d' = db_versions d"
proof -
  have x: "doc_id x = db_next_document_id d" "doc_status x = DocActive"
    and d': "d' = d\<lparr>db_documents := db_documents d @ [x], db_next_document_id := db_next_document_id d + 1\<rparr>"
      "documents_ok (db_documents d @ [x])"
    using assms by (auto simp: create_logical_document_def put_documents_def Let_def split: if_splits)
  show "doc_id x = db_next_document_id d" "x \<in> set (db_documents d')" "doc_status x = DocActive"
    "db_versions d' = db_versions d" using x d' by auto
  show "doc_safe d d'"
    unfolding doc_safe_def using x d'
    by (auto simp: docs_inv_def docs_base_def has_document_def archived_def)
qed

lemma create_version_safe:
  assumes "create_version doc no hash file mime bytes key creator meta now d = Inr (v, d')"
    and "\<exists>x\<in>set (db_documents d). doc_id x = doc"
  shows "doc_safe d d'"
proof -
  have v: "ver_id v = db_next_version_id d" "ver_document_id v = doc" "\<not> ver_is_active v"
    and d': "d' = d\<lparr>db_versions := db_versions d @ [v], db_next_version_id := db_next_version_id d + 1\<rparr>"
      "versions_ok (db_versions d @ [v])"
    using assms(1) by (auto simp: create_version_def put_versions_def Let_def split: if_splits)
  show ?thesis
    unfolding doc_safe_def using v d' assms(2)
    by (auto simp: docs_inv_def docs_base_def has_document_def archived_def)
qed

lemma update_document_safe:
  assumes "update_document i f d = Inr d'"
    and "\<And>x. doc_id (f x) = doc_id x \<and> doc_status (f x) = doc_status x"
  shows "doc_safe d d'"
proof -
  define g where "g = (\<lambda>x. if doc_id x = i then f x else x)"
  have d': "d' = d\<lparr>db_documents := map g (db_documents d)\<rparr>" "documents_ok (map g (db_documents d))"
    using update_document_InrD[OF assms(1)] unfolding g_def by auto
  have g: "doc_id (g x) = doc_id x" "doc_status (g x) = doc_status x" for x using assms(2) by (auto simp: g_def)
  have arch: "archived k d' = archived k d" for k unfolding archived_def d'(1) by (simp add: g)
  have has: "has_document d' v = has_document d v" for v unfolding has_document_def d'(1) by (simp add: g)
  show ?thesis unfolding doc_safe_def docs_inv_def docs_base_def arch has using d' g by simp
qed

lemma touch_document_safe: "touch_document i now d = Inr d' \<Longrightarrow> doc_safe d d'"
  unfolding touch_document_def by (erule update_document_safe) simp

lemma doc_safe_after_touch: "doc_safe (touch_if b now d) d' \<Longrightarrow> doc_safe d d'"
  by (rule doc_safe_trans[OF doc_safe_part]) simp_all

lemma ingest_updates_safe:
  "update_ingest_metadata i p e ev now d = Inr d' \<Longrightarrow> doc_safe d d'"
  "reset_version_for_ingest i now d = Inr d' \<Longrightarrow> doc_safe d d'"
  "mark_version_failed i code now d = Inr d' \<Longrightarrow> doc_safe d d'"
  "mark_version_ready i now d = Inr d' \<Longrightarrow> doc_safe d d'"
  unfolding update_ingest_metadata_def reset_version_for_ingest_def mark_version_failed_def
    mark_version_ready_def clear_extraction_def
  by (erule update_version_safe doc_safe_after_touch[OF update_version_safe];
      simp add: same_version_def)+

lemma active_versionD: "active_version doc d = Some w \<Longrightarrow>
   w \<in> set (db_versions d) \<and> ver_document_id w = doc \<and> ver_is_active w"
  by (auto simp: active_version_def find_Some_iff in_set_conv_nth)

lemma versions_unique:
  "versions_ok vs \<Longrightarrow> v \<in> set vs \<Longrightarrow> w \<in> set vs \<Longrightarrow> ver_id v = ver_id w \<Longrightarrow> v = w"
  by (auto simp: versions_ok_def distinct_map dest: inj_onD)

definition switch_row :: "int option \<Rightarrow> int \<Rightarrow> py_time \<Rightarrow> document_version \<Rightarrow> document_version" where
  "switch_row previous i now v =
     (if ver_id v = i then activate_row now v
      else if Some (ver_id v) = previous then deactivate_row now v else v)"

lemma set_active_version_InrD:
  assumes "set_active_version order doc v now d = Inr (previous, d')" "permutes_rows order"
    and "versions_ok (db_versions d)"
  shows "previous = map_option ver_id (active_version doc d) \<and>
    d' = version_map (switch_row previous (ver_id v) now) (touch_corpus_marker now d) \<and>
    versions_ok (db_versions d')"
proof -
  let ?p = "map_option ver_id (active_version doc d)"
  define dirty where "dirty = (case ?p of None \<Rightarrow> [] | Some p \<Rightarrow> if p \<noteq> ver_id v then [p] else []) @ [ver_id v]"
  let ?f = "\<lambda>i. if i = ver_id v then activate_row now else deactivate_row now"
  have fl: "flush_versions ?f (order dirty) (touch_corpus_marker now d) = Inr d'" and p: "previous = ?p"
    using assms(1) by (auto simp: set_active_version_def dirty_def Let_def split: sum.splits)
  have dist: "distinct (order dirty)" and st: "set (order dirty) = set dirty"
    using permutes_rows_props[OF assms(2)] by (auto simp: dirty_def split: option.split)
  have "versions_ok (db_versions (touch_corpus_marker now d))" using assms(3) by (simp add: touch_corpus_marker_def)
  moreover have "same_version w (?f i w)" for i w
    by (simp add: same_version_def activate_row_def deactivate_row_def)
  ultimately have "d' = version_map (\<lambda>w. if ver_id w \<in> set dirty then ?f (ver_id w) w else w) (touch_corpus_marker now d)"
    "versions_ok (db_versions d')"
    using flush_versions_InrD[OF dist fl] unfolding st by blast+
  moreover have "(\<lambda>w. if ver_id w \<in> set dirty then ?f (ver_id w) w else w) = switch_row previous (ver_id v) now"
    by (rule ext, cases "active_version doc d") (auto simp: dirty_def switch_row_def p)
  ultimately show ?thesis using p by simp
qed

lemma set_active_version_safe:
  assumes "set_active_version order doc v now d = Inr (previous, d')" "permutes_rows order"
    and "v \<in> set (db_versions d)" "\<not> archived (ver_document_id v) d"
  shows "doc_safe d d'"
proof (cases "docs_inv d")
  case True
  then have ok: "versions_ok (db_versions d)" by (simp add: docs_inv_def docs_base_def)
  let ?m = "touch_corpus_marker now d"
  note eff = set_active_version_InrD[OF assms(1,2) ok]
  have m: "db_versions ?m = db_versions d" "docs_part ?m = docs_part d" by (simp_all add: touch_corpus_marker_def docs_part_def)
  have "doc_safe ?m (version_map (switch_row previous (ver_id v) now) ?m)"
  proof (rule version_map_safe)
    show "versions_ok (map (switch_row previous (ver_id v) now) (db_versions ?m))"
      using eff by (auto simp: version_map_def)
    fix w
    show "same_version w (switch_row previous (ver_id v) now w)"
      by (simp add: same_version_def switch_row_def activate_row_def deactivate_row_def)
    assume "w \<in> set (db_versions ?m)" "ver_is_active (switch_row previous (ver_id v) now w)"
    then show "ver_is_active w \<or> \<not> archived (ver_document_id w) ?m"
      using assms(3,4) versions_unique[OF ok] m docs_part_cong(2)[OF m(2)]
      by (auto simp: switch_row_def deactivate_row_def split: if_splits)
  qed
  with eff show ?thesis using doc_safe_trans[OF doc_safe_part[OF m(2)]] by simp
qed (simp add: doc_safe_def)

lemma get_documentD: "get_document i d = Some x \<Longrightarrow> x \<in> set (db_documents d) \<and> doc_id x = i"
  by (auto simp: get_document_def find_Some_iff in_set_conv_nth)

lemma get_version_ofD: "get_version_of doc i d = Some v \<Longrightarrow>
   v \<in> set (db_versions d) \<and> ver_document_id v = doc \<and> ver_id v = i"
  by (auto simp: get_version_of_def find_Some_iff in_set_conv_nth)

lemma documents_unique:
  "documents_ok ds \<Longrightarrow> x \<in> set ds \<Longrightarrow> y \<in> set ds \<Longrightarrow> doc_id x = doc_id y \<Longrightarrow> x = y"
  by (auto simp: documents_ok_def distinct_map dest: inj_onD)

lemma found_not_archived:
  assumes "documents_ok (db_documents d)" "get_document i d = Some x" "doc_status x \<noteq> DocArchived"
  shows "\<not> archived i d"
  using get_documentD[OF assms(2)] documents_unique[OF assms(1)] assms(3) by (auto simp: archived_def)

text \<open>The rows an archiving deactivates are exactly the active versions of the document.\<close>

lemma store_archive_InrD:
  assumes "store_archive_document order i now d = Inr d'" "permutes_rows order" "docs_base d"
  shows "d' = version_map (\<lambda>v. if ver_document_id v = i \<and> ver_is_active v then deactivate_row now v else v)
      ((touch_corpus_marker now d)\<lparr>db_documents :=
         map (\<lambda>x. if doc_id x = i then archive_row now x else x) (db_documents d)\<rparr>) \<and>
    documents_ok (db_documents d') \<and> versions_ok (db_versions d')"
proof -
  let ?ids = "map ver_id (filter ver_is_active (versions_of i d))"
  obtain d1 where d1: "update_document i (archive_row now) (touch_corpus_marker now d) = Inr d1"
    "flush_versions (\<lambda>_. deactivate_row now) (order ?ids) d1 = Inr d'"
    using assms(1) by (auto simp: store_archive_document_def split: sum.splits)
  note up = update_document_InrD[OF d1(1)]
  have ok: "versions_ok (db_versions d)" using assms(3) by (simp add: docs_base_def)
  have vs: "db_versions d1 = db_versions d" using up by (simp add: touch_corpus_marker_def)
  have "distinct ?ids"
    using ok by (auto simp: versions_ok_def versions_of_def distinct_map_filter)
  then have dist: "distinct (order ?ids)" and st: "set (order ?ids) = set ?ids"
    using permutes_rows_props[OF assms(2)] by auto
  have same: "same_version v (deactivate_row now v)" for v by (simp add: same_version_def deactivate_row_def)
  have eff: "d' = version_map (\<lambda>v. if ver_id v \<in> set ?ids then deactivate_row now v else v) d1"
    "versions_ok (db_versions d')"
    using flush_versions_InrD[OF dist d1(2) same] ok vs unfolding st by auto
  have "v \<in> set (db_versions d) \<Longrightarrow> ver_id v \<in> set ?ids \<longleftrightarrow> ver_document_id v = i \<and> ver_is_active v" for v
    using versions_unique[OF ok] by (auto simp: versions_of_def)
  with eff(1) vs have "d' = version_map
      (\<lambda>v. if ver_document_id v = i \<and> ver_is_active v then deactivate_row now v else v) d1"
    unfolding version_map_def by (simp cong: map_cong)
  then show ?thesis using eff(2) up by (auto simp: touch_corpus_marker_def version_map_def)
qed

lemma store_archive_safe:
  assumes "store_archive_document order i now d = Inr d'" "permutes_rows order" "get_document i d = Some x"
  shows "doc_safe d d'" "docs_inv d \<Longrightarrow> archived i d' \<and>
    (\<forall>v\<in>set (db_versions d'). ver_document_id v = i \<longrightarrow> \<not> ver_is_active v)"
proof -
  define g where "g = (\<lambda>x. if doc_id x = i then archive_row now x else x)"
  define h where "h = (\<lambda>v. if ver_document_id v = i \<and> ver_is_active v then deactivate_row now v else v)"
  have g: "doc_id (g y) = doc_id y" "doc_status (g y) = (if doc_id y = i then DocArchived else doc_status y)" for y
    by (simp_all add: g_def archive_row_def)
  have h: "ver_id (h v) = ver_id v" "ver_document_id (h v) = ver_document_id v"
    "ver_is_active (h v) \<longleftrightarrow> ver_is_active v \<and> ver_document_id v \<noteq> i" for v
    by (auto simp: h_def deactivate_row_def)
  have step: "docs_inv d' \<and> (\<forall>k. archived k d \<longrightarrow> archived k d') \<and> archived i d' \<and>
      (\<forall>v\<in>set (db_versions d'). ver_document_id v = i \<longrightarrow> \<not> ver_is_active v)" if inv: "docs_inv d"
  proof -
    have "docs_base d" using inv by (simp add: docs_inv_def)
    from store_archive_InrD[OF assms(1,2) this]
    have d': "db_documents d' = map g (db_documents d)" "db_versions d' = map h (db_versions d)"
      "documents_ok (map g (db_documents d))" "versions_ok (map h (db_versions d))"
      "db_next_document_id d' = db_next_document_id d" "db_next_version_id d' = db_next_version_id d"
      unfolding g_def h_def by (auto simp: version_map_def touch_corpus_marker_def)
    have arch: "archived k d' \<longleftrightarrow> archived k d \<or> k = i" for k
      using get_documentD[OF assms(3)] unfolding archived_def d'(1) by (cases "k = i") (auto simp: g)
    have has: "has_document d' (h v) = has_document d v" for v
      unfolding has_document_def d'(1) by (simp add: g h)
    have "docs_base d'"
      using inv d' has unfolding docs_inv_def docs_base_def by (simp add: g h)
    moreover have "\<not> archived (ver_document_id v) d'" if "v \<in> set (db_versions d)" "ver_is_active (h v)" for v
      using inv that unfolding docs_inv_def arch by (simp add: h)
    ultimately show ?thesis unfolding docs_inv_def d'(2) by (simp add: h arch)
  qed
  then show "doc_safe d d'" "docs_inv d \<Longrightarrow> archived i d' \<and>
    (\<forall>v\<in>set (db_versions d'). ver_document_id v = i \<longrightarrow> \<not> ver_is_active v)"
    by (simp_all add: doc_safe_def)
qed

subsection \<open>Requests of the service\<close>

lemma save_then_cases:
  assumes "save_then env key content rest before d fs = (r, d', fs')"
  obtains "d' = before" "\<exists>e. r = Inl e" | x where "r = Inr x" "rest d = Inr (x, d')"
  using assms by (auto simp: save_then_def split: prod.splits sum.splits if_splits)

lemma store_first_version_safe:
  assumes "store_first_version env user title up key content meta act audit_it d fs = (r, d', fs')"
    and "\<And>i j d. docs_part (audit_it i j d) = docs_part d"
  shows "doc_safe d d'"
proof (cases "d' = d")
  case False
  then obtain x d1 v d2 resp where c: "create_logical_document user title (de_now env) d = Inr (x, d1)"
      "create_version (doc_id x) 1 (de_sha256 env content) (up_file_name up) (up_mime_type up)
         (int (up_size up)) key user meta (de_now env) d1 = Inr (v, d2)"
    and rest: "(case create_ingest_job env user (doc_id x) (ver_id v) act d2 of Inl e \<Rightarrow> Inl e
      | Inr (j, d3) \<Rightarrow> Inr (\<lparr>ur_document_id = doc_id x, ur_version_id = ver_id v,
          ur_job_id = job_id j, ur_version_status = ver_status v,
          ur_display_status = display_status x (Some v)\<rparr>, audit_it (doc_id x) (ver_id v) d3)) = Inr (resp, d')"
    using assms(1) by (auto simp: store_first_version_def elim!: save_then_cases split: sum.splits prod.splits)
  note doc = create_document_safe[OF c(1)]
  have "doc_safe d1 d2" using create_version_safe[OF c(2)] doc(3) by blast
  moreover have "docs_part d' = docs_part d2"
    using rest by (auto simp: assms(2) docs_part_ingest_job split: sum.splits)
  ultimately show ?thesis using doc(1) doc_safe_trans doc_safe_part by blast
qed simp

lemma upload_document_safe:
  "upload_document env user title filename ctype content rid act d fs = (r, d', fs') \<Longrightarrow> doc_safe d d'"
  by (auto simp: upload_document_def elim!: store_first_version_safe split: sum.splits)

lemma ingest_url_safe:
  "ingest_url env cfg tm user url title rid d fs = (r, d', fs') \<Longrightarrow> doc_safe d d'"
  by (auto simp: ingest_url_def elim!: store_first_version_safe split: sum.splits)

lemma store_next_version_safe:
  assumes "store_next_version env user x up key content rid d fs = (r, d', fs')" "x \<in> set (db_documents d)"
  shows "doc_safe d d'"
proof (cases "docs_part d' = docs_part d")
  case False
  then obtain v d1 d2 j d3 where
    c: "create_version (doc_id x) (max_version_no (doc_id x) d + 1) (de_sha256 env content)
         (up_file_name up) (up_mime_type up) (int (up_size up)) key user None (de_now env) d = Inr (v, d1)"
      "touch_document (doc_id x) (de_now env) d1 = Inr d2"
    and rest: "create_ingest_job env user (doc_id x) (ver_id v) None d2 = Inr (j, d3)" "docs_part d' = docs_part d3"
    using assms(1) by (auto simp: store_next_version_def Let_def elim!: save_then_cases
        split: sum.splits prod.splits)
  have "doc_safe d d1" using create_version_safe[OF c(1)] assms(2) by blast
  moreover have "doc_safe d1 d2" by (rule touch_document_safe[OF c(2)])
  moreover have "docs_part d' = docs_part d2"
    using rest(2) docs_part_ingest_job[OF rest(1)] by simp
  ultimately show ?thesis using doc_safe_trans doc_safe_part by blast
qed (rule doc_safe_part)

lemma add_version_safe:
  "add_version env user doc filename ctype content rid d fs = (r, d', fs') \<Longrightarrow> doc_safe d d'"
  by (auto simp: add_version_def intro: doc_safe_part dest: get_documentD
      elim!: store_next_version_safe split: sum.splits option.splits if_splits)

lemma approval_jobs_part: "approval_jobs env user doc ver previous d = Inr (j, d') \<Longrightarrow> docs_part d' = docs_part d"
  by (auto simp: approval_jobs_def docs_frames split: sum.splits option.splits if_splits)

lemma get_document_and_versionD:
  "get_document_and_version doc i d = Inr (x, v) \<Longrightarrow>
   get_document doc d = Some x \<and> v \<in> set (db_versions d) \<and> ver_document_id v = doc \<and> ver_id v = i"
  by (auto simp: get_document_and_version_def dest: get_version_ofD split: option.splits)

lemma activate_version_safe:
  assumes "activate_version env user doc v rid d = Inr (r, d')" "permutes_rows (de_flush_order env)"
    and "v \<in> set (db_versions d)" "ver_document_id v = doc" "\<not> archived doc d"
  shows "doc_safe d d'"
proof -
  obtain previous d1 j d2 d3 where s: "set_active_version (de_flush_order env) doc v (de_now env) d = Inr (previous, d1)"
      "approval_jobs env user doc (ver_id v) previous d1 = Inr (j, d2)"
      "touch_document doc (de_now env) d2 = Inr d3" "docs_part d' = docs_part d3"
    using assms(1) by (auto simp: activate_version_def split: sum.splits if_splits)
  have "doc_safe d d1" using set_active_version_safe[OF s(1) assms(2,3)] assms(4,5) by simp
  also have "doc_safe d1 d2" by (rule doc_safe_part[OF approval_jobs_part[OF s(2)]])
  also have "doc_safe d2 d3" by (rule touch_document_safe[OF s(3)])
  also have "doc_safe d3 d'" by (rule doc_safe_part[OF s(4)])
  finally show ?thesis .
qed

lemma approve_version_safe:
  assumes "approve_version env user doc ver rid d = (r, d')" "permutes_rows (de_flush_order env)"
  shows "doc_safe d d'"
proof (cases "docs_inv d \<and> d' \<noteq> d")
  case True
  then obtain x v resp where c: "get_document_and_version doc ver d = Inr (x, v)" "doc_status x \<noteq> DocArchived"
      "activate_version env user doc v rid d = Inr (resp, d')"
    using assms(1) by (auto simp: approve_version_def split: sum.splits if_splits)
  note f = get_document_and_versionD[OF c(1)]
  have "documents_ok (db_documents d)" using True by (simp add: docs_inv_def docs_base_def)
  then show ?thesis
    using activate_version_safe[OF c(3) assms(2)] found_not_archived f c(2) by blast
qed (auto simp: doc_safe_def)

lemma archive_now_safe:
  assumes "archive_now env user doc rid d = Inr (r, d')" "permutes_rows (de_flush_order env)"
    and "get_document doc d = Some x"
  shows "doc_safe d d'" "docs_inv d \<Longrightarrow> archived doc d' \<and>
    (\<forall>v\<in>set (db_versions d'). ver_document_id v = doc \<longrightarrow> \<not> ver_is_active v)"
proof -
  obtain d1 where s: "store_archive_document (de_flush_order env) doc (de_now env) d = Inr d1"
      "docs_part d' = docs_part d1"
    using assms(1) by (auto simp: archive_now_def docs_frames split: sum.splits option.splits if_splits)
  note eff = store_archive_safe[OF s(1) assms(2,3)]
  show "doc_safe d d'" using doc_safe_trans[OF eff(1) doc_safe_part[OF s(2)]] .
  show "docs_inv d \<Longrightarrow> archived doc d' \<and>
    (\<forall>v\<in>set (db_versions d'). ver_document_id v = doc \<longrightarrow> \<not> ver_is_active v)"
    using eff(2) s(2) docs_part_cong(2)[OF s(2)] by (simp add: docs_part_def)
qed

lemma archive_document_safe:
  "archive_document env user doc rid d = (r, d') \<Longrightarrow> permutes_rows (de_flush_order env) \<Longrightarrow> doc_safe d d'"
  by (auto simp: archive_document_def intro: archive_now_safe split: option.splits if_splits sum.splits)

subsection \<open>Transactions of the ingest handler\<close>

lemma owned_then_InrD: "owned_then ctx d r = Inr d' \<Longrightarrow> r = Inr d'"
  by (auto simp: owned_then_def split: sum.splits)

lemma prepare_version_safe: "prepare_version ctx i now d = (r, d') \<Longrightarrow> doc_safe d d'"
  by (auto simp: prepare_version_def Let_def dest!: owned_then_InrD intro: ingest_updates_safe
      split: option.splits if_splits sum.splits ingest_exc.splits)

lemma delete_chunks_tx_safe: "delete_chunks_tx ctx i now d = Inr d' \<Longrightarrow> doc_safe d d'"
  by (auto simp: delete_chunks_tx_def dest!: owned_then_InrD intro: doc_safe_part)

lemma write_chunks_safe:
  assumes "write_chunks i meta chunks now d = Inr d'"
  shows "doc_safe d d'"
proof -
  obtain d1 where c: "bulk_insert_chunks (map (\<lambda>c. chunk_row c now) chunks) now (snd (delete_chunks i now d)) = Inr d1"
      "update_ingest_metadata i (im_page_count meta) (im_extractor_name meta) (im_extractor_version meta) now d1 = Inr d'"
    using assms by (auto simp: write_chunks_def split: sum.splits if_splits)
  have "docs_part d1 = docs_part d" using docs_part_bulk_insert[OF c(1)] by simp
  then show ?thesis using doc_safe_trans[OF doc_safe_part] ingest_updates_safe(1)[OF c(2)] by blast
qed

lemma store_chunks_safe: "store_chunks ctx i meta chunks now d = (r, d') \<Longrightarrow> doc_safe d d'"
  by (auto simp: store_chunks_def dest!: owned_then_InrD intro: write_chunks_safe
      split: option.splits if_splits sum.splits ingest_exc.splits)

lemma get_version_by_idD: "get_version_by_id i d = Some v \<Longrightarrow> v \<in> set (db_versions d) \<and> ver_id v = i"
  by (auto simp: get_version_by_id_def find_Some_iff in_set_conv_nth)

lemma set_active_version_id:
  assumes "ver_id w = ver_id v"
  shows "set_active_version order doc w now d = set_active_version order doc v now d"
  unfolding set_active_version_def assms ..

lemma mark_ready_writes_safe:
  assumes "mark_ready_writes env ctx v now d = Inr d'" "permutes_rows (de_flush_order env)"
    and "v \<in> set (db_versions d)" "\<not> archived (ver_document_id v) d"
  shows "doc_safe d d'"
proof -
  obtain d1 d2 where c: "mark_version_ready (ver_id v) now d = Inr d1"
      "(if evaluation_activation_requested (ctx_payload ctx)
        then map_sum id snd (set_active_version (de_flush_order env) (ver_document_id v) v now d1) else Inr d1) = Inr d2"
      "create_graph_index_job None now (ver_id v) d2 = Inr d'"
    using assms(1) by (auto simp: mark_ready_writes_def split: sum.splits)
  have s1: "doc_safe d d1" by (rule ingest_updates_safe(4)[OF c(1)])
  have up: "db_versions d1 = map (\<lambda>w. if ver_id w = ver_id v
      then w\<lparr>ver_status := VReady, ver_error_code := None, ver_updated_at := now\<rparr> else w) (db_versions d)"
    "archived k d1 = archived k d" for k
    using update_version_InrD[OF c(1)[unfolded mark_version_ready_def]]
    by (auto simp: touch_if_def touch_corpus_marker_def archived_def)
  have "doc_safe d1 d2"
  proof (cases "evaluation_activation_requested (ctx_payload ctx)")
    case True
    let ?v = "v\<lparr>ver_status := VReady, ver_error_code := None, ver_updated_at := now\<rparr>"
    obtain p where "set_active_version (de_flush_order env) (ver_document_id v) v now d1 = Inr (p, d2)"
      using c(2) True by (cases "set_active_version (de_flush_order env) (ver_document_id v) v now d1") auto
    then have "set_active_version (de_flush_order env) (ver_document_id v) ?v now d1 = Inr (p, d2)"
      by (subst set_active_version_id[of _ v]) simp_all
    moreover have "?v \<in> set (db_versions d1)" using up(1) assms(3) by force
    ultimately show ?thesis using set_active_version_safe[OF _ assms(2)] assms(4) up(2) by simp
  qed (use c(2) in simp)
  with s1 doc_safe_part[OF docs_part_graph_job[OF c(3)]] show ?thesis using doc_safe_trans by blast
qed

lemma mark_ready_tx_safe:
  assumes "mark_ready_tx env ctx i n now d = Inr d'" "permutes_rows (de_flush_order env)"
  shows "doc_safe d d'"
proof (cases "docs_inv d")
  case True
  obtain v x where c: "get_version_and_document i d = Some (v, x)" "doc_status x \<noteq> DocArchived"
      "mark_ready_writes env ctx v now d = Inr d'"
    using assms(1) by (auto simp: mark_ready_tx_def dest!: owned_then_InrD split: option.splits if_splits)
  have v: "v \<in> set (db_versions d)" "get_document (ver_document_id v) d = Some x"
    using c(1) get_version_by_idD by (auto simp: get_version_and_document_def split: option.splits)
  have "documents_ok (db_documents d)" using True by (simp add: docs_inv_def docs_base_def)
  then have "\<not> archived (ver_document_id v) d" using found_not_archived v(2) c(2) by blast
  then show ?thesis by (rule mark_ready_writes_safe[OF c(3) assms(2) v(1)])
qed (simp add: doc_safe_def)

lemma mark_failed_tx_safe:
  assumes "mark_failed_tx ctx i code del now d = (r, d')"
  shows "doc_safe d d'"
proof (cases "d' = d")
  case False
  then have "mark_version_failed i code now (if del then snd (delete_chunks i now d) else d) = Inr d'"
    using assms by (auto simp: mark_failed_tx_def dest!: owned_then_InrD
        split: option.splits if_splits sum.splits ingest_exc.splits)
  moreover have "doc_safe d (if del then snd (delete_chunks i now d) else d)"
    by (simp add: doc_safe_part)
  ultimately show ?thesis using ingest_updates_safe(3) doc_safe_trans by blast
qed simp

subsection \<open>Steps of the job queue\<close>

lemma reset_versions_ok:
  assumes "versions_ok vs" "v \<in> set vs" "ver_status v = VFailed"
  shows "versions_ok (map (\<lambda>w. if ver_id w = ver_id v then reset_version now w else w) vs)"
proof -
  define g where "g = (\<lambda>w. if ver_id w = ver_id v then reset_version now w else w)"
  have g: "ver_id (g w) = ver_id w" "ver_document_id (g w) = ver_document_id w" "ver_no (g w) = ver_no w"
    "ver_content_hash (g w) = ver_content_hash w" "ver_is_active (g w) \<longrightarrow> ver_is_active w" for w
    by (simp_all add: g_def reset_version_def)
  have "ck_version (g w)" if "ck_version w" for w
    using that by (auto simp: g_def ck_version_def reset_version_def)
  moreover have "distinct (map ver_document_id (filter ver_is_active (map g vs)))"
    by (rule distinct_filter_map) (use assms(1) in \<open>auto simp: versions_ok_def ux_one_active_def g\<close>)
  ultimately show ?thesis
    using assms(1) unfolding g_def[symmetric] by (simp add: versions_ok_def ux_one_active_def g comp_def)
qed

lemma prepare_retry_safe:
  assumes "prepare_document_ingest_retry j now d = Inr d'"
  shows "doc_safe d d'"
proof (cases "d' = d \<or> \<not> docs_inv d")
  case False
  then obtain v where v: "v \<in> set (db_versions d)" "ver_status v = VFailed"
    and d': "d' = d\<lparr>
       db_versions := map (\<lambda>w. if ver_id w = ver_id v then reset_version now w else w) (db_versions d),
       db_documents := map (\<lambda>x. if doc_id x = ver_document_id v then x\<lparr>doc_updated_at := now\<rparr> else x) (db_documents d)\<rparr>"
    using assms by (fastforce simp: prepare_document_ingest_retry_def get_version_def find_Some_iff
        in_set_conv_nth split: if_splits option.splits)
  define g where "g = (\<lambda>w. if ver_id w = ver_id v then reset_version now w else w)"
  define h :: "logical_document \<Rightarrow> logical_document" where "h = (\<lambda>x. if doc_id x = ver_document_id v then x\<lparr>doc_updated_at := now\<rparr> else x)"
  let ?d = "version_map g d"
  have inv: "versions_ok (db_versions d)" using False by (simp add: docs_inv_def docs_base_def)
  have "doc_safe d ?d"
    by (rule version_map_safe)
       (use reset_versions_ok[OF inv v] in \<open>auto simp: g_def same_version_def reset_version_def split: if_splits\<close>)
  moreover have "doc_safe ?d d'"
  proof -
    have ok: "documents_ok (map h (db_documents d))"
    proof -
      have "doc_id (h x) = doc_id x" "ck_document (h x) = ck_document x" for x
        by (simp_all add: h_def ck_document_def)
      then show ?thesis
        using False by (simp add: docs_inv_def docs_base_def documents_ok_def comp_def)
    qed
    have "update_document (ver_document_id v) (\<lambda>x. x\<lparr>doc_updated_at := now\<rparr>) ?d = Inr d'"
      using ok by (simp add: update_document_def put_documents_def version_map_def d' g_def h_def)
    then show ?thesis by (rule update_document_safe) simp
  qed
  ultimately show ?thesis by (rule doc_safe_trans)
qed (auto simp: doc_safe_def)

lemma docs_part_update_where: "update_where p f d = Inr (n, d') \<Longrightarrow> docs_part d' = docs_part d"
  by (auto dest!: update_where_InrD simp: docs_part_def)

lemma docs_part_update_owned: "update_owned i w f d = Inr d' \<Longrightarrow> docs_part d' = docs_part d"
  by (auto dest!: update_owned_InrD simp: docs_part_def)

lemma docs_part_insert_job: "insert_job d j = Inr (r, d') \<Longrightarrow> docs_part d' = docs_part d"
  by (auto dest!: insert_job_InrD simp: docs_part_def)

lemma job_step_safe:
  assumes "job_step lease (t, d) (u, d')"
  shows "doc_safe d d'"
  using assms
proof cases
  case (step_acquire locked worker enabled batch supported js)
  then show ?thesis
    by (auto simp: acquire_jobs_def Let_def intro: doc_safe_part docs_part_update_where split: sum.splits)
next
  case (step_cancel i)
  then show ?thesis
    by (auto simp: mark_canceled_def intro: doc_safe_part docs_part_update_where split: sum.splits)
next
  case (step_retry seen i uid resp)
  then obtain j d1 r where "prepare_document_ingest_retry j u d = Inr d1"
      "create_retry_job j (Some uid) u d1 = Inr (r, d')"
    by (auto simp: retry_job_in_def Let_def split: option.splits if_splits sum.splits)
  then show ?thesis
    using prepare_retry_safe docs_part_insert_job doc_safe_part doc_safe_trans
    unfolding create_retry_job_def by blast
qed (auto simp: renew_lease_def mark_succeeded_def mark_failed_def
    intro: doc_safe_part docs_part_update_owned docs_part_create_job)

subsection \<open>Runs of the system\<close>

inductive doc_step :: "db \<Rightarrow> db \<Rightarrow> bool" where
  doc_upload: "upload_document env user title filename ctype content rid act d fs = (r, d', fs') \<Longrightarrow> doc_step d d'"
| doc_ingest_url: "ingest_url env cfg tm user url title rid d fs = (r, d', fs') \<Longrightarrow> doc_step d d'"
| doc_add_version: "add_version env user doc filename ctype content rid d fs = (r, d', fs') \<Longrightarrow> doc_step d d'"
| doc_approve: "permutes_rows (de_flush_order env) \<Longrightarrow>
    approve_version env user doc ver rid d = (r, d') \<Longrightarrow> doc_step d d'"
| doc_archive: "permutes_rows (de_flush_order env) \<Longrightarrow>
    archive_document env user doc rid d = (r, d') \<Longrightarrow> doc_step d d'"
| doc_prepare: "prepare_version ctx i now d = (r, d') \<Longrightarrow> doc_step d d'"
| doc_delete_chunks: "delete_chunks_tx ctx i now d = Inr d' \<Longrightarrow> doc_step d d'"
| doc_store_chunks: "store_chunks ctx i meta chunks now d = (r, d') \<Longrightarrow> doc_step d d'"
| doc_mark_ready: "permutes_rows (de_flush_order env) \<Longrightarrow>
    mark_ready_tx env ctx i n now d = Inr d' \<Longrightarrow> doc_step d d'"
| doc_mark_failed: "mark_failed_tx ctx i code del now d = (r, d') \<Longrightarrow> doc_step d d'"
| doc_job: "job_step lease (t, d) (u, d') \<Longrightarrow> doc_step d d'"

lemma doc_step_safe: "doc_step d d' \<Longrightarrow> doc_safe d d'"
  by (induction rule: doc_step.induct)
     (rule upload_document_safe ingest_url_safe add_version_safe approve_version_safe
        archive_document_safe prepare_version_safe delete_chunks_tx_safe store_chunks_safe
        mark_ready_tx_safe mark_failed_tx_safe job_step_safe; assumption)+

definition stays_archived :: "int \<Rightarrow> db \<Rightarrow> bool" where
  "stays_archived i d = (docs_inv d \<and> archived i d)"

interpretation docs_run: preserved doc_step docs_inv
  by unfold_locales (use doc_step_safe in \<open>auto simp: doc_safe_def\<close>)

interpretation archived_run: preserved doc_step "stays_archived i" for i
  by unfold_locales (use doc_step_safe in \<open>auto simp: doc_safe_def stays_archived_def\<close>)

lemma docs_inv_empty: "db_documents d = [] \<Longrightarrow> db_versions d = [] \<Longrightarrow> docs_inv d"
  by (simp add: docs_inv_def docs_base_def documents_ok_def versions_ok_def ux_one_active_def)

text \<open>A handler run is a run of the system, whatever the others commit between its
  transactions.\<close>

definition others_step :: "ingest_env \<Rightarrow> bool" where
  "others_step env = (\<forall>g d. doc_step\<^sup>*\<^sup>* d (ie_others env g d))"

lemma others_then: "others_step env \<Longrightarrow> doc_step (ie_others env g d) d' \<Longrightarrow> doc_step\<^sup>*\<^sup>* d d'"
  unfolding others_step_def by (meson rtranclp.rtrancl_into_rtrancl)

lemma finish_failed_run:
  "others_step env \<Longrightarrow> finish_failed env ctx i code del g d = (out, d') \<Longrightarrow> doc_step\<^sup>*\<^sup>* d d'"
  by (auto simp: finish_failed_def intro: others_then doc_mark_failed split: prod.splits sum.splits)

lemma others_trans:
  "others_step env \<Longrightarrow> doc_step\<^sup>*\<^sup>* (ie_others env g d) d' \<Longrightarrow> doc_step\<^sup>*\<^sup>* d d'"
  unfolding others_step_def by (meson rtranclp_trans)

lemma fail_version_run:
  "others_step env \<Longrightarrow> fail_version env ctx i code g d = (out, d') \<Longrightarrow> doc_step\<^sup>*\<^sup>* d d'"
  by (auto simp: fail_version_def Let_def intro: others_trans finish_failed_run)

end
