(* ===== verification/Document_Examples.thy ===== *)
theory Document_Examples
  imports Document_Lifecycle
begin

section \<open>A concrete corpus\<close>

text \<open>
  One document with an approved second version, a superseded first one and a third one that is
  being ingested by a running job, and an environment of the document service in which every
  statement, file and commit succeeds. The concrete instances of the document properties are
  stated over them.
\<close>

definition ex_doc_env :: doc_env where
  "ex_doc_env = \<lparr>de_sha256 = (\<lambda>s. replicate 64 CHR ''e''), de_flush_order = sort, de_parsers = ex_parsers,
     de_net = ex_net, de_upload_max_bytes = 100, de_url_max_bytes = 100,
     de_allowed_extensions = [''.txt'', ''.html''], de_token = ''t0'', de_write = WriteOk,
     de_commit_ok = True, de_delete_ok = True, de_now = 50\<rparr>"

definition ex_version :: "int \<Rightarrow> char \<Rightarrow> vstatus \<Rightarrow> bool \<Rightarrow> document_version" where
  "ex_version i c st act =
    \<lparr>ver_id = i, ver_document_id = 1, ver_no = i, ver_content_hash = replicate 64 c,
     ver_status = st, ver_is_active = act, ver_error_code = None,
     ver_file_name = ''a.txt'', ver_mime_type = ''text/plain'', ver_file_size_bytes = 10,
     ver_storage_key = Some ''k'', ver_metadata = None, ver_page_count = None,
     ver_extractor_name = None, ver_extractor_version = None, ver_created_by = 1,
     ver_created_at = 0, ver_updated_at = 2\<rparr>"

definition ex_ingest_job :: job where
  "ex_ingest_job = (new_job ''document_ingest'' (Some ''document_version'') (Some 3) (Some []) None 100 0)
    \<lparr>job_id := 1, job_status := Running, job_locked_by := Some ''w1'', job_locked_at := Some 1,
     job_started_at := Some 1, job_lease_expires_at := Some 20\<rparr>"

definition ex_document :: logical_document where
  "ex_document = \<lparr>doc_id = 1, doc_owner_user_id = 1, doc_title = ''t'', doc_status = DocActive,
     doc_archived_at = None, doc_created_at = 0, doc_updated_at = 0\<rparr>"

definition ex_docs_db :: db where
  "ex_docs_db = \<lparr>db_jobs = [ex_ingest_job], db_next_job_id = 2,
     db_versions = [ex_version 1 CHR ''a'' VReady False, ex_version 2 CHR ''b'' VReady True,
       ex_version 3 CHR ''c'' VProcessing False],
     db_documents = [ex_document], db_users = [], db_roles = [], db_sessions = [], db_next_session_id = 1,
     db_audit_logs = [], db_next_document_id = 2, db_next_version_id = 4,
     db_chunks = [], db_next_chunk_id = 1, db_corpus_marker = None, db_settings = []\<rparr>"

definition ex_ingest_env :: ingest_env where
  "ex_ingest_env = \<lparr>ie_doc = ex_doc_env, ie_others = (\<lambda>g d. d), ie_now = (\<lambda>g. 10 + int g),
     ie_points_cleaned = (\<lambda>_. True), ie_stored = Inr True,
     ie_extracted = Inr (\<lparr>im_page_count = Some 1, im_extractor_name = ''plain'', im_extractor_version = ''1'',
         im_text_char_count = 5\<rparr>,
       [\<lparr>pg_text = ''hi yo'', pg_number = Some 1, pg_section = None, pg_metadata = []\<rparr>]),
     ie_max_chars = 20, ie_chunking = \<lparr>ck_size = 3, ck_overlap = 1\<rparr>, ie_indexed = Inr 1\<rparr>"

definition ex_context :: job_context where
  "ex_context = \<lparr>ctx_job_id = 1, ctx_job_type = ''document_ingest'', ctx_target_type = Some ''document_version'',
     ctx_target_id = Some 3, ctx_payload = [(''document_version_id'', PInt 3)], ctx_worker = ''w1''\<rparr>"

lemmas ex_docs_defs = ex_docs_db_def ex_document_def ex_version_def ex_ingest_job_def new_job_def

lemma ex_docs_inv: "docs_inv ex_docs_db"
  by (simp add: docs_inv_def docs_base_def documents_ok_def versions_ok_def ck_document_def ck_version_def
      ux_one_active_def has_document_def archived_def ex_docs_defs btrim_def strip_by_def hex_char_def
      code_point_def list_all_iff Let_def)

lemma ex_docs_jobs: "jobs_ok (db_jobs ex_docs_db)" "job_ids_below_next ex_docs_db"
  by (simp_all add: ex_docs_defs jobs_ok_def ck_job_def ux_active_retry_def ux_message_edit_def
      ux_active_retry_key_def ux_message_edit_key_def fk_retry_of_def message_edit_type_def
      job_ids_below_next_def)

lemma ex_sort_flush: "de_flush_order ex_doc_env = sort" "permutes_rows (de_flush_order ex_doc_env)"
  by (simp_all add: ex_doc_env_def permutes_rows_def)

text \<open>A smaller corpus and an extraction that fails, for a run of the handler.\<close>

definition ex_ingest_db :: db where
  "ex_ingest_db = ex_docs_db\<lparr>db_versions := [ex_version 3 CHR ''c'' VProcessing False]\<rparr>"

definition ex_failing_env :: ingest_env where
  "ex_failing_env = ex_ingest_env\<lparr>ie_extracted := Inl ''text_extraction_failed''\<rparr>"

lemma ex_ingest_db_inv: "docs_inv ex_ingest_db"
  using ex_docs_inv
  by (auto simp: ex_ingest_db_def docs_inv_def docs_base_def versions_ok_def ux_one_active_def
      has_document_def archived_def ex_docs_defs)

lemmas ex_version_checks = ck_version_def ux_one_active_def versions_ok_def btrim_def strip_by_def
  hex_char_def code_point_def list_all_iff Let_def

lemma ex_ingest_failed:
  "map ver_status (db_versions (snd (ingest_handle ex_failing_env ex_context ex_ingest_db))) = [VFailed]"
  by (simp add: ex_failing_env_def ex_ingest_env_def ex_context_def ex_ingest_db_def ex_docs_defs ex_version_checks
      ingest_handle_def prepare_version_def get_version_and_document_def get_version_by_id_def get_document_def
      payload_document_ok_def owned_then_def assert_ownership_def owned_by_def reset_version_for_ingest_def
      update_version_def put_versions_def clear_extraction_def touch_if_def any_version_is_retrieval_visible_def
      retrieval_visible_def ingest_prepared_def extract_and_store_def fail_version_def finish_failed_def
      mark_failed_tx_def mark_version_failed_def delete_chunks_def chunk_ids_by_version_def list_all_chunks_def
      version_chunks_def)

end
