(* ===== verification/Document_Approval.thy ===== *)
theory Document_Approval
  imports Document_Examples
begin

section \<open>Approval and archiving go through\<close>

text \<open>
  When an approval or an archiving succeeds: the jobs it queues and the rows it writes are
  accepted by the constraints in every consistent state, except for the order in which an
  approval's two version rows are written.
\<close>

subsection \<open>Approval\<close>

text \<open>The queue's part of the state, which lets a fresh job be inserted.\<close>

definition jobs_ready :: "db \<Rightarrow> bool" where
  "jobs_ready d = (jobs_ok (db_jobs d) \<and> job_ids_below_next d)"

lemma create_job_succeeds:
  assumes "jobs_ready d" "jtype \<noteq> message_edit_type" "0 \<le> prio"
  shows "\<exists>j d'. create_job jtype ttype tid payload creator prio now d = Inr (j, d') \<and> jobs_ready d' \<and>
    docs_part d' = docs_part d"
proof -
  let ?j = "new_job jtype ttype tid (Some (sanitize_job_payload payload)) creator prio now"
  have ins: "insert_job d ?j = Inr (?j\<lparr>job_id := db_next_job_id d\<rparr>,
      d\<lparr>db_jobs := db_jobs d @ [?j\<lparr>job_id := db_next_job_id d\<rparr>], db_next_job_id := db_next_job_id d + 1\<rparr>)"
    by (rule insert_job_ok)
       (use assms in \<open>auto simp: jobs_ready_def new_job_def ck_job_def ux_active_retry_key_def ux_message_edit_key_def\<close>)
  from insert_job_InrD[OF this] show ?thesis
    using assms(1) ins by (auto simp: create_job_def jobs_ready_def job_ids_below_next_def docs_part_def)
qed

lemma create_graph_index_job_succeeds:
  assumes "jobs_ready d"
  shows "\<exists>d'. create_graph_index_job creator now ver d = Inr d' \<and> jobs_ready d' \<and> docs_part d' = docs_part d"
proof -
  obtain j d' where c: "create_job ''graph_index_build'' (Some ''document_version'') (Some ver)
      (Some (graph_index_job_payload ver (graph_extractor_type_override d))) creator 80 now d = Inr (j, d')"
    "jobs_ready d'" "docs_part d' = docs_part d"
    using create_job_succeeds[OF assms, of "''graph_index_build''" 80 "Some ''document_version''" "Some ver"
        "Some (graph_index_job_payload ver (graph_extractor_type_override d))" creator now]
    by (force simp: message_edit_type_def)
  show ?thesis
  proof (cases "graph_indexing_enabled d")
    case True
    then show ?thesis using c by (simp add: create_graph_index_job_def lift_job_def)
  qed (simp add: create_graph_index_job_def assms)
qed

lemma create_qdrant_mirror_job_succeeds:
  assumes "jobs_ready d"
  obtains j d' where "create_qdrant_mirror_job env user ttype target payload d = Inr (j, d')"
    "jobs_ready d'" "docs_part d' = docs_part d"
proof -
  obtain j d' where "create_job ''qdrant_mirror_update'' (Some ttype) (Some target) (Some payload) (Some user) 100
      (de_now env) d = Inr (j, d')" "jobs_ready d'" "docs_part d' = docs_part d"
    using create_job_succeeds[OF assms, of "''qdrant_mirror_update''" 100 "Some ttype" "Some target"
        "Some payload" "Some user" "de_now env"]
    by (force simp: message_edit_type_def)
  then show ?thesis using that[of j d'] by (simp add: create_qdrant_mirror_job_def lift_job_def)
qed

lemma approval_jobs_succeed:
  assumes "jobs_ready d"
  shows "\<exists>j d'. approval_jobs env user doc ver previous d = Inr (j, d') \<and> docs_part d' = docs_part d"
proof -
  obtain j d1 where m: "create_qdrant_mirror_job env user ''logical_document'' doc
       [(''logical_document_id'', PInt doc), (''document_version_id'', PInt ver),
        (''mirror_action'', PStr ''sync_payload''), (''requested_by_user_id'', PInt user)] d = Inr (j, d1)"
      "jobs_ready d1" "docs_part d1 = docs_part d"
    by (rule create_qdrant_mirror_job_succeeds[OF assms])
  obtain d2 where g: "(case previous of None \<Rightarrow> Inr d1
      | Some p \<Rightarrow> if p = ver then Inr d1 else create_graph_index_job (Some user) (de_now env) p d1) = Inr d2"
      "jobs_ready d2" "docs_part d2 = docs_part d1"
    using create_graph_index_job_succeeds[OF m(2), of "Some user" "de_now env" "the previous"] m(2)
    by (cases previous; cases "previous = Some ver") auto
  obtain d3 where "create_graph_index_job (Some user) (de_now env) ver d2 = Inr d3" "docs_part d3 = docs_part d2"
    using create_graph_index_job_succeeds[OF g(2)] by blast
  with m g show ?thesis by (auto simp: approval_jobs_def)
qed

subsection \<open>The active-version constraint under activation and deactivation\<close>

lemma update_version_outcome:
  "update_version i f d =
     (let vs = map (\<lambda>v. if ver_id v = i then f v else v) (db_versions d)
      in if versions_ok vs then Inr (d\<lparr>db_versions := vs\<rparr>) else Inl DocIntegrity)"
  by (simp add: update_version_def put_versions_def)

lemma touch_document_succeeds:
  assumes "documents_ok (db_documents d)"
  shows "\<exists>d'. touch_document i now d = Inr d' \<and> db_versions d' = db_versions d"
proof -
  have "documents_ok (map (\<lambda>x. if doc_id x = i then x\<lparr>doc_updated_at := now\<rparr> else x) (db_documents d))"
    using assms by (auto simp: documents_ok_def ck_document_def comp_def if_distrib cong: if_cong)
  then show ?thesis by (simp add: touch_document_def update_document_def put_documents_def)
qed

lemma one_active_iff:
  assumes "distinct vs"
  shows "ux_one_active vs \<longleftrightarrow> (\<forall>v\<in>set vs. \<forall>w\<in>set vs.
    ver_is_active v \<longrightarrow> ver_is_active w \<longrightarrow> ver_document_id v = ver_document_id w \<longrightarrow> v = w)"
  using assms by (auto simp: ux_one_active_def distinct_map inj_on_def)

lemma versions_ok_distinct: "versions_ok vs \<Longrightarrow> distinct vs"
  by (auto simp: versions_ok_def distinct_map)

text \<open>A map over the rows that keeps their keys and their checks can only violate the index.\<close>

lemma versions_ok_map_iff:
  assumes "versions_ok vs"
    and "\<And>v. v \<in> set vs \<Longrightarrow> ver_id (g v) = ver_id v \<and> ver_document_id (g v) = ver_document_id v \<and>
      ver_no (g v) = ver_no v \<and> ver_content_hash (g v) = ver_content_hash v \<and> (ck_version v \<longrightarrow> ck_version (g v))"
  shows "versions_ok (map g vs) \<longleftrightarrow> (\<forall>v\<in>set vs. \<forall>w\<in>set vs. ver_is_active (g v) \<longrightarrow> ver_is_active (g w) \<longrightarrow>
    ver_document_id v = ver_document_id w \<longrightarrow> v = w)"
proof -
  have ids: "map ver_id (map g vs) = map ver_id vs"
    "map (\<lambda>v. (ver_document_id v, ver_no v)) (map g vs) = map (\<lambda>v. (ver_document_id v, ver_no v)) vs"
    "map (\<lambda>v. (ver_document_id v, ver_content_hash v)) (map g vs) = map (\<lambda>v. (ver_document_id v, ver_content_hash v)) vs"
    using assms(2) by auto
  have dist: "distinct (map g vs)"
    using assms(1) ids(1) unfolding versions_ok_def by (metis distinct_map)
  then have inj: "\<And>v w. v \<in> set vs \<Longrightarrow> w \<in> set vs \<Longrightarrow> g v = g w \<longleftrightarrow> v = w"
    by (auto simp: distinct_map dest: inj_onD)
  have "ux_one_active (map g vs) \<longleftrightarrow> (\<forall>v\<in>set vs. \<forall>w\<in>set vs. ver_is_active (g v) \<longrightarrow> ver_is_active (g w) \<longrightarrow>
    ver_document_id v = ver_document_id w \<longrightarrow> v = w)"
    using assms(2) inj by (simp add: one_active_iff[OF dist])
  then show ?thesis
    using assms unfolding versions_ok_def ids by auto
qed

lemma activate_keeps_checks:
  assumes "versions_ok vs" "v \<in> set vs" "ver_status v = VReady" "w \<in> set vs" "ver_id w = ver_id v" "ck_version w"
  shows "ck_version (activate_row now w)"
  using versions_unique[OF assms(1,4,2,5)] assms(3,6) by (simp add: ck_version_def activate_row_def)

lemma deactivate_keeps_checks [simp]: "ck_version w \<Longrightarrow> ck_version (deactivate_row now w)"
  by (simp add: ck_version_def deactivate_row_def)

lemma permutes_sort [simp]: "permutes_rows sort"
  by (simp add: permutes_rows_def)

lemma active_version_unique:
  assumes "versions_ok (db_versions d)" "w \<in> set (db_versions d)" "ver_document_id w = doc" "ver_is_active w"
  shows "active_version doc d = Some w"
proof -
  obtain a where a: "active_version doc d = Some a"
    using assms(2-4) by (cases "active_version doc d") (auto simp: active_version_def find_None_iff)
  have "ux_one_active (db_versions d)" using assms(1) by (simp add: versions_ok_def)
  then have "a = w"
    using active_versionD[OF a] assms one_active_iff[OF versions_ok_distinct[OF assms(1)]] by blast
  with a show ?thesis by simp
qed

lemma deactivate_some_ok:
  assumes ok: "versions_ok vs"
  shows "versions_ok (map (\<lambda>w. if P w then deactivate_row now w else w) vs)"
proof (rule iffD2[OF versions_ok_map_iff[OF ok]])
  have one: "ux_one_active vs" using ok by (simp add: versions_ok_def)
  show "\<forall>v\<in>set vs. \<forall>w\<in>set vs. ver_is_active (if P v then deactivate_row now v else v) \<longrightarrow>
      ver_is_active (if P w then deactivate_row now w else w) \<longrightarrow> ver_document_id v = ver_document_id w \<longrightarrow> v = w"
    using one unfolding one_active_iff[OF versions_ok_distinct[OF ok]]
    by (simp add: deactivate_row_def)
qed (simp add: deactivate_row_def ck_version_def)

definition activate_at :: "int \<Rightarrow> py_time \<Rightarrow> document_version \<Rightarrow> document_version" where
  "activate_at i now w = (if ver_id w = i then activate_row now w else w)"

lemma activate_at_simps [simp]:
  "ver_id (activate_at i now w) = ver_id w" "ver_document_id (activate_at i now w) = ver_document_id w"
  "ver_no (activate_at i now w) = ver_no w" "ver_content_hash (activate_at i now w) = ver_content_hash w"
  "ver_is_active (activate_at i now w) \<longleftrightarrow> ver_id w = i \<or> ver_is_active w"
  by (simp_all add: activate_at_def activate_row_def)

lemma activate_ok_iff:
  assumes ok: "versions_ok vs" and v: "v \<in> set vs" "ver_status v = VReady" "\<not> ver_is_active v"
  shows "versions_ok (map (activate_at (ver_id v) now) vs) \<longleftrightarrow>
    (\<forall>w\<in>set vs. ver_document_id w = ver_document_id v \<longrightarrow> \<not> ver_is_active w)"
proof -
  have one: "\<forall>x\<in>set vs. \<forall>w\<in>set vs. ver_is_active x \<longrightarrow> ver_is_active w \<longrightarrow> ver_document_id x = ver_document_id w \<longrightarrow> x = w"
    using ok one_active_iff[OF versions_ok_distinct[OF ok]] by (simp add: versions_ok_def)
  have "ck_version w \<longrightarrow> ck_version (activate_at (ver_id v) now w)" if "w \<in> set vs" for w
    using activate_keeps_checks[OF ok v(1,2) that] by (simp add: activate_at_def)
  then have "versions_ok (map (activate_at (ver_id v) now) vs) \<longleftrightarrow> (\<forall>x\<in>set vs. \<forall>w\<in>set vs.
      ver_id x = ver_id v \<or> ver_is_active x \<longrightarrow> ver_id w = ver_id v \<or> ver_is_active w \<longrightarrow>
      ver_document_id x = ver_document_id w \<longrightarrow> x = w)"
    by (subst versions_ok_map_iff[OF ok]) simp_all
  also have "\<dots> \<longleftrightarrow> (\<forall>w\<in>set vs. ver_document_id w = ver_document_id v \<longrightarrow> \<not> ver_is_active w)"
    using one v(1,3) versions_unique[OF ok _ v(1)] by metis
  finally show ?thesis .
qed

lemma set_active_version_none:
  assumes "active_version doc d = None"
  shows "set_active_version sort doc v now d =
     (let vs = map (activate_at (ver_id v) now) (db_versions d)
      in if versions_ok vs then Inr (None, (touch_corpus_marker now d)\<lparr>db_versions := vs\<rparr>) else Inl DocIntegrity)"
  using assms by (simp add: set_active_version_def update_version_outcome touch_corpus_marker_def activate_at_def[abs_def] Let_def)

lemma set_active_version_blocked:
  assumes ok: "versions_ok (db_versions d)" and v: "v \<in> set (db_versions d)" "ver_status v = VReady" "\<not> ver_is_active v"
    and a: "active_version (ver_document_id v) d = Some a" "ver_id v < ver_id a"
  shows "set_active_version sort (ver_document_id v) v now d = Inl DocIntegrity"
proof -
  have "\<not> versions_ok (map (activate_at (ver_id v) now) (db_versions d))"
    using activate_ok_iff[OF ok v] active_versionD[OF a(1)] by blast
  then show ?thesis
    using a by (simp add: set_active_version_def update_version_outcome touch_corpus_marker_def activate_at_def[abs_def])
qed

lemma set_active_version_succeeds:
  assumes ok: "versions_ok (db_versions d)" and v: "v \<in> set (db_versions d)" "ver_status v = VReady" "\<not> ver_is_active v"
    and newer: "\<And>a. active_version (ver_document_id v) d = Some a \<Longrightarrow> ver_id a < ver_id v"
  shows "\<exists>r. set_active_version sort (ver_document_id v) v now d = Inr r"
proof (cases "active_version (ver_document_id v) d")
  case None
  then have "versions_ok (map (activate_at (ver_id v) now) (db_versions d))"
    using activate_ok_iff[OF ok v] by (auto simp: active_version_def find_None_iff)
  with None show ?thesis by (simp add: set_active_version_none)
next
  case (Some a)
  let ?off = "map (\<lambda>w. if ver_id w = ver_id a then deactivate_row now w else w) (db_versions d)"
  have lt: "ver_id a < ver_id v" using newer[OF Some] .
  have off: "versions_ok ?off" by (rule deactivate_some_ok[OF ok])
  have vm: "v \<in> set ?off" using v(1) lt by force
  have "\<not> ver_is_active w" if "w \<in> set ?off" "ver_document_id w = ver_document_id v" for w
  proof
    assume act: "ver_is_active w"
    then have "w \<in> set (db_versions d)" "ver_id w \<noteq> ver_id a"
      using that(1) by (auto simp: deactivate_row_def split: if_splits)
    then show False using active_version_unique[OF ok _ that(2) act] Some by auto
  qed
  then have "versions_ok (map (activate_at (ver_id v) now) ?off)"
    using activate_ok_iff[OF off vm v(2,3)] by blast
  with Some lt off show ?thesis
    by (simp add: set_active_version_def update_version_outcome touch_corpus_marker_def Let_def
        activate_at_def[abs_def] comp_def)
qed

subsection \<open>The outcome of an approval\<close>

lemma activate_version_succeeds:
  assumes inv: "docs_inv d" and jobs: "jobs_ready d" and env: "permutes_rows (de_flush_order env)" "de_commit_ok env"
    and s: "set_active_version (de_flush_order env) doc v (de_now env) d = Inr (previous, d1)"
  shows "\<exists>r d'. activate_version env user doc v rid d = Inr (r, d') \<and> ap_previous_active r = previous \<and>
    ap_already_active r = False \<and> db_versions d' = db_versions d1"
proof -
  have ok: "versions_ok (db_versions d)" "documents_ok (db_documents d)"
    using inv by (simp_all add: docs_inv_def docs_base_def)
  have d1: "d1 = version_map (switch_row previous (ver_id v) (de_now env)) (touch_corpus_marker (de_now env) d)"
    using set_active_version_InrD[OF s env(1) ok(1)] by simp
  have "jobs_ready d1"
    using jobs by (simp add: d1 version_map_def touch_corpus_marker_def jobs_ready_def job_ids_below_next_def)
  then obtain j d2 where a: "approval_jobs env user doc (ver_id v) previous d1 = Inr (j, d2)" "docs_part d2 = docs_part d1"
    using approval_jobs_succeed by blast
  have "db_documents d2 = db_documents d" "db_versions d2 = db_versions d1"
    using a(2) by (simp_all add: docs_part_def d1 version_map_def touch_corpus_marker_def)
  then obtain d3 where "touch_document doc (de_now env) d2 = Inr d3" "db_versions d3 = db_versions d1"
    using touch_document_succeeds[of d2 doc "de_now env"] ok(2) by auto
  with s a(1) env(2) show ?thesis
    using docs_part_simps(3) by (simp add: activate_version_def docs_part_def)
qed

text \<open>
  C20: Approving a ready, inactive version of an active document, with the session writing
  its dirty rows in the order of their keys, succeeds exactly when the version is newer than
  the document's active one or there is none: then it becomes the only active version, the
  previous one is deactivated and no other version changes. Approving a version older than the
  active one, which is how a rollback would be asked for, is always refused as a conflict and
  changes nothing, because the older row is activated before the newer one is deactivated.
\<close>

theorem approval_only_moves_forward:
  assumes "docs_inv d" "jobs_ready d" "de_flush_order env = sort" "de_commit_ok env"
    and "get_document doc d = Some x" "doc_status x = DocActive"
    and "get_version_of doc ver d = Some v" "ver_status v = VReady" "\<not> ver_is_active v"
  shows "if \<exists>a. active_version doc d = Some a \<and> ver < ver_id a
    then approve_version env user doc ver rid d = (Inl ActiveVersionConflict, d)
    else \<exists>r d'. approve_version env user doc ver rid d = (Inr r, d') \<and>
      ap_previous_active r = map_option ver_id (active_version doc d) \<and>
      db_versions d' = map (switch_row (map_option ver_id (active_version doc d)) ver (de_now env)) (db_versions d)"
proof -
  have ok: "versions_ok (db_versions d)" using assms(1) by (simp add: docs_inv_def docs_base_def)
  have v: "v \<in> set (db_versions d)" "ver_document_id v = doc" "ver_id v = ver"
    using get_version_ofD[OF assms(7)] by simp_all
  have start: "approve_version env user doc ver rid d =
      (case activate_version env user doc v rid d of Inl e \<Rightarrow> (Inl (approve_error e), d) | Inr (r, d') \<Rightarrow> (Inr r, d'))"
    using assms(5-9) by (simp add: approve_version_def get_document_and_version_def)
  show ?thesis
  proof (cases "\<exists>a. active_version doc d = Some a \<and> ver < ver_id a")
    case True
    then have "set_active_version sort doc v (de_now env) d = Inl DocIntegrity"
      using set_active_version_blocked[OF ok v(1) assms(8,9)] v by auto
    with True start show ?thesis by (simp add: activate_version_def assms(3) approve_error_def)
  next
    case False
    have "ver_id a < ver_id v" if a: "active_version doc d = Some a" for a
      using False a active_versionD[OF a] versions_unique[OF ok v(1), of a] assms(9) v(3)
      by (metis linorder_neqE)
    then obtain previous d1 where s: "set_active_version sort doc v (de_now env) d = Inr (previous, d1)"
      using set_active_version_succeeds[OF ok v(1) assms(8,9)] v(2) by fastforce
    then have d1: "previous = map_option ver_id (active_version doc d)"
      "db_versions d1 = map (switch_row previous ver (de_now env)) (db_versions d)"
      using set_active_version_InrD[OF s permutes_sort ok] v(3)
      by (simp_all add: version_map_def touch_corpus_marker_def)
    show ?thesis
      using activate_version_succeeds[OF assms(1,2) _ assms(4), of doc v previous d1 user rid] s False start d1
      by (auto simp: assms(3))
  qed
qed

lemma ex_docs_ready: "jobs_ready ex_docs_db"
  by (simp add: jobs_ready_def ex_docs_jobs)

theorem approval_only_moves_forward_witness:
  "approve_version ex_doc_env 5 1 1 None ex_docs_db = (Inl ActiveVersionConflict, ex_docs_db)"
proof -
  have a: "active_version 1 ex_docs_db = Some (ex_version 2 CHR ''b'' VReady True)"
    "get_document 1 ex_docs_db = Some ex_document" "doc_status ex_document = DocActive"
    "get_version_of 1 1 ex_docs_db = Some (ex_version 1 CHR ''a'' VReady False)"
    by (simp_all add: active_version_def get_document_def get_version_of_def ex_docs_defs)
  have b: "ver_status (ex_version 1 CHR ''a'' VReady False) = VReady"
    "\<not> ver_is_active (ex_version 1 CHR ''a'' VReady False)" "ver_id (ex_version 2 CHR ''b'' VReady True) = 2"
    "de_commit_ok ex_doc_env"
    by (simp_all add: ex_version_def ex_doc_env_def)
  show ?thesis
    using approval_only_moves_forward[OF ex_docs_inv ex_docs_ready ex_sort_flush(1) b(4) a(2,3,4) b(1,2), of 5 None]
      a(1) b(3) by simp
qed

subsection \<open>Archiving\<close>

lemma flush_deactivate_succeeds:
  "versions_ok (db_versions d) \<Longrightarrow> \<exists>d'. flush_versions (\<lambda>_. deactivate_row now) is d = Inr d' \<and>
     db_jobs d' = db_jobs d \<and> db_next_job_id d' = db_next_job_id d"
proof (induction "is" arbitrary: d)
  case (Cons i "is")
  let ?d = "d\<lparr>db_versions := map (\<lambda>w. if ver_id w = i then deactivate_row now w else w) (db_versions d)\<rparr>"
  have "versions_ok (db_versions ?d)" using deactivate_some_ok[OF Cons.prems] by simp
  from Cons.IH[OF this] this show ?case by (simp add: update_version_outcome)
qed simp

lemma archive_row_ok:
  assumes "documents_ok ds"
  shows "documents_ok (map (\<lambda>x. if doc_id x = i then archive_row now x else x) ds)"
  using assms by (auto simp: documents_ok_def ck_document_def archive_row_def comp_def if_distrib cong: if_cong)

lemma archive_document_succeeds:
  assumes inv: "docs_inv d" and jobs: "jobs_ready d" and commit: "de_commit_ok env"
    and x: "get_document doc d = Some x"
  shows "\<exists>r d'. archive_document env user doc rid d = (Inr r, d')"
proof (cases "doc_status x = DocArchived")
  case False
  have ok: "documents_ok (db_documents d)" "versions_ok (db_versions d)"
    using inv by (simp_all add: docs_inv_def docs_base_def)
  let ?d = "(touch_corpus_marker (de_now env) d)\<lparr>db_documents :=
      map (\<lambda>x. if doc_id x = doc then archive_row (de_now env) x else x) (db_documents d)\<rparr>"
  have "update_document doc (archive_row (de_now env)) (touch_corpus_marker (de_now env) d) = Inr ?d"
    using archive_row_ok[OF ok(1)] by (simp add: update_document_def put_documents_def touch_corpus_marker_def)
  moreover obtain d1 where "flush_versions (\<lambda>_. deactivate_row (de_now env))
      (de_flush_order env (map ver_id (filter ver_is_active (versions_of doc d)))) ?d = Inr d1"
    "db_jobs d1 = db_jobs d" "db_next_job_id d1 = db_next_job_id d"
    using flush_deactivate_succeeds[of ?d] ok(2) by (force simp: touch_corpus_marker_def)
  ultimately have s: "store_archive_document (de_flush_order env) doc (de_now env) d = Inr d1" "jobs_ready d1"
    using jobs by (simp_all add: store_archive_document_def jobs_ready_def job_ids_below_next_def)
  obtain j d2 where m: "create_qdrant_mirror_job env user ''logical_document'' doc
      [(''logical_document_id'', PInt doc), (''mirror_action'', PStr ''mark_inactive''),
       (''requested_by_user_id'', PInt user)] d1 = Inr (j, d2)" "jobs_ready d2"
    by (rule create_qdrant_mirror_job_succeeds[OF s(2)])
  obtain d3 where "(case active_version doc d of None \<Rightarrow> Inr d2
      | Some a \<Rightarrow> create_graph_index_job (Some user) (de_now env) (ver_id a) d2) = Inr d3"
    using create_graph_index_job_succeeds[OF m(2), of "Some user" "de_now env" "ver_id (the (active_version doc d))"]
    by (cases "active_version doc d") auto
  with s m commit x False show ?thesis by (simp add: archive_document_def archive_now_def)
qed (use x in \<open>simp add: archive_document_def\<close>)

end
