(* ===== verification/Document_Properties.thy ===== *)
theory Document_Properties
  imports Document_Approval
begin

section \<open>Properties of the documents\<close>

text \<open>
  What follows for the requests and the runs of the system from the lemmas of
  \<open>Document_Lifecycle\<close>: the invariant of the searchable corpus, approval, archiving,
  uploads, new versions and the ingest handler as a run.
\<close>

subsection \<open>The ingest handler as a run\<close>

definition fair_env :: "ingest_env \<Rightarrow> bool" where
  "fair_env env = (others_step env \<and> permutes_rows (de_flush_order (ie_doc env)))"

lemma after_others:
  "others_step env \<Longrightarrow> doc_step (ie_others env g d) d1 \<Longrightarrow> doc_step\<^sup>*\<^sup>* d1 d' \<Longrightarrow> doc_step\<^sup>*\<^sup>* d d'"
  using others_then by (meson rtranclp_trans)

lemma finalize_run:
  assumes "finalize env ctx snap meta chunks g d = (out, d')" "fair_env env"
  shows "doc_step\<^sup>*\<^sup>* d d'"
proof (cases "ie_indexed env")
  case (Inl code)
  then show ?thesis using assms by (auto simp: finalize_def fair_env_def intro: fail_version_run)
next
  case (Inr n)
  let ?i = "ver_id (snap_version snap)" and ?d1 = "ie_others env g d"
  have o: "others_step env" "doc_step\<^sup>*\<^sup>* d ?d1" using assms(2) by (auto simp: fair_env_def others_step_def)
  show ?thesis
  proof (cases "mark_ready_tx (ie_doc env) ctx ?i (length chunks) (ie_now env g) ?d1")
    case (Inl e)
    then show ?thesis
      using assms(1) Inr o
      by (cases e) (auto simp: finalize_def Let_def dest!: finish_failed_run[OF o(1)]
          intro: rtranclp_trans[OF o(2)])
  next
    case (Inr d2)
    then have "doc_step ?d1 d2" using assms(2) by (auto simp: fair_env_def intro: doc_mark_ready)
    with Inr \<open>ie_indexed env = Inr n\<close> assms(1) show ?thesis
      using others_then[OF o(1)] by (auto simp: finalize_def Let_def)
  qed
qed

lemma chunk_and_store_run:
  assumes "chunk_and_store env ctx snap meta pages g d = (out, d')" "fair_env env"
  shows "doc_step\<^sup>*\<^sup>* d d'"
proof -
  let ?i = "ver_id (snap_version snap)"
  have o: "others_step env" using assms(2) by (simp add: fair_env_def)
  show ?thesis
  proof (cases "ie_max_chars env < im_text_char_count meta")
    case True
    then show ?thesis using assms(1) fail_version_run[OF o] by (auto simp: chunk_and_store_def)
  next
    case short: False
    show ?thesis
    proof (cases "chunk_document (de_sha256 (ie_doc env)) (ie_chunking env) pages ?i")
      case (Inl e)
      then show ?thesis using assms(1) short fail_version_run[OF o] by (auto simp: chunk_and_store_def)
    next
      case (Inr chunks)
      obtain r d1 where st: "store_chunks ctx ?i meta chunks (ie_now env g) (ie_others env g d) = (r, d1)"
        by fastforce
      have run1: "doc_step\<^sup>*\<^sup>* d d1" using others_then[OF o doc_store_chunks[OF st]] .
      have "doc_step\<^sup>*\<^sup>* d1 d'"
        using assms(1) short Inr st
        by (auto simp: chunk_and_store_def Let_def intro: fail_version_run[OF o]
            others_trans[OF o finalize_run[OF _ assms(2)]]
            split: sum.splits store_result.splits)
      with run1 show ?thesis by (meson rtranclp_trans)
    qed
  qed
qed

lemma extract_and_store_run:
  assumes "extract_and_store env ctx snap g d = (out, d')" "fair_env env"
  shows "doc_step\<^sup>*\<^sup>* d d'"
  using assms(1) fail_version_run[of env] chunk_and_store_run[OF _ assms(2)] assms(2)
  by (auto simp: extract_and_store_def Let_def fair_env_def split: if_splits sum.splits bool.splits)

lemma ingest_prepared_run:
  assumes "ingest_prepared env ctx snap d = (out, d')" "fair_env env"
  shows "doc_step\<^sup>*\<^sup>* d d'"
proof -
  let ?i = "ver_id (snap_version snap)" and ?d1 = "ie_others env 1 d"
  have o: "others_step env" "doc_step\<^sup>*\<^sup>* d ?d1" using assms(2) by (auto simp: fair_env_def others_step_def)
  consider "d' = d" | "extract_and_store env ctx snap 1 d = (out, d')"
    | "finish_failed env ctx ?i ''qdrant_cleanup_failed'' False 1 d = (out, d')"
    | "d' = ?d1" | "finish_failed env ctx ?i ''ingest_cleanup_failed'' True 2 ?d1 = (out, d')"
    | d2 where "delete_chunks_tx ctx ?i (ie_now env 1) ?d1 = Inr d2" "extract_and_store env ctx snap 2 d2 = (out, d')"
    using assms(1) by (auto simp: ingest_prepared_def Let_def split: if_splits sum.splits ingest_exc.splits)
  then show ?thesis
  proof cases
    case 2
    then show ?thesis by (rule extract_and_store_run[OF _ assms(2)])
  next
    case 3
    then show ?thesis by (rule finish_failed_run[OF o(1)])
  next
    case 5
    then show ?thesis using finish_failed_run[OF o(1)] rtranclp_trans[OF o(2)] by metis
  next
    case 6
    have "doc_step ?d1 d2" by (rule doc_delete_chunks[OF 6(1)])
    then show ?thesis
      using after_others[OF o(1)] extract_and_store_run[OF 6(2) assms(2)] by blast
  qed (use o(2) in simp_all)
qed

text \<open>
  A run of the ingest handler is a run of the system: whatever the extractor, the vector
  index and the storage answer, and whatever other requests, workers and handlers commit
  between its transactions, each of its transactions is one of the document steps, so every
  invariant of the steps holds at every point of a run, also where it fails half-way.
\<close>

lemma ingest_is_run:
  assumes "fair_env env" "ingest_handle env ctx d = (out, d')"
  shows "doc_step\<^sup>*\<^sup>* d d'"
proof (cases "d' = d")
  case False
  have o: "others_step env" using assms(1) by (simp add: fair_env_def)
  obtain i r d1 where p: "prepare_version ctx i (ie_now env 0) (ie_others env 0 d) = (r, d1)"
    and rest: "d' = d1 \<or> (\<exists>snap. ingest_prepared env ctx snap d1 = (out, d'))"
    using assms(2) False
    by (auto simp: ingest_handle_def split: option.splits pyval.splits if_splits prod.splits
        sum.splits prepared.splits)
  then show ?thesis
    using after_others[OF o doc_prepare[OF p]] ingest_prepared_run[OF _ assms(1)] by blast
qed simp

subsection \<open>The searchable corpus\<close>

lemma docs_inv_visible:
  assumes "docs_inv d" "v \<in> set (db_versions d)"
  shows "retrieval_visible d v = ver_is_active v"
proof
  assume act: "ver_is_active v"
  have "ck_version v" "has_document d v"
    using assms by (auto simp: docs_inv_def docs_base_def versions_ok_def)
  moreover have "\<not> archived (ver_document_id v) d" using assms act by (simp add: docs_inv_def)
  ultimately show "retrieval_visible d v"
    using act dstatus.exhaust
    by (auto simp: retrieval_visible_def ck_version_def has_document_def archived_def list_ex_iff)
qed (simp add: retrieval_visible_def)

text \<open>
  C5: In every state reached from a consistent one by any requests, handler transactions and
  queue steps, in any interleaving, a document has at most one active version, and the active
  versions are exactly the ones retrieval can return: each is ready and its document is not
  archived.
\<close>

theorem active_versions_are_the_searchable_ones:
  assumes "docs_inv d" "doc_step\<^sup>*\<^sup>* d d'"
  shows "distinct (map ver_document_id (filter ver_is_active (db_versions d'))) \<and>
    (\<forall>v\<in>set (db_versions d'). retrieval_visible d' v \<longleftrightarrow> ver_is_active v)"
proof -
  have inv: "docs_inv d'" using docs_run.reach[OF assms(2,1)] .
  then have "ux_one_active (db_versions d')" by (simp add: docs_inv_def docs_base_def versions_ok_def)
  with docs_inv_visible[OF inv] show ?thesis by (simp add: ux_one_active_def)
qed

theorem active_versions_are_the_searchable_ones_witness:
  "\<exists>r d'. archive_document ex_doc_env 5 1 None ex_docs_db = (Inr r, d') \<and>
     distinct (map ver_document_id (filter ver_is_active (db_versions d')))"
proof -
  obtain x where "get_document 1 ex_docs_db = Some x" "de_commit_ok ex_doc_env"
    by (simp add: get_document_def ex_docs_defs ex_doc_env_def)
  then obtain r d' where a: "archive_document ex_doc_env 5 1 None ex_docs_db = (Inr r, d')"
    using archive_document_succeeds[OF ex_docs_inv ex_docs_ready] by blast
  have "doc_step ex_docs_db d'" by (rule doc_archive[OF ex_sort_flush(2) a])
  then show ?thesis
    using active_versions_are_the_searchable_ones[OF ex_docs_inv] a by blast
qed

subsection \<open>Archiving\<close>

lemma archive_document_done:
  assumes "docs_inv d" "permutes_rows (de_flush_order env)"
    and "archive_document env user doc rid d = (Inr r, d')"
  shows "stays_archived doc d'"
proof -
  obtain x where x: "get_document doc d = Some x"
    using assms(3) by (auto simp: archive_document_def split: option.splits)
  have "archived doc d'"
  proof (cases "doc_status x = DocArchived")
    case True
    then show ?thesis using assms(3) x get_documentD[OF x] by (auto simp: archive_document_def archived_def)
  next
    case False
    then have "archive_now env user doc rid d = Inr (r, d')"
      using assms(3) x by (auto simp: archive_document_def split: sum.splits)
    from archive_now_safe(2)[OF this assms(2) x assms(1)] show ?thesis by simp
  qed
  then show ?thesis
    using archive_document_safe[OF assms(3,2)] assms(1) by (simp add: stays_archived_def doc_safe_def)
qed

lemma archived_get_document:
  assumes "docs_inv d" "archived doc d"
  obtains x where "get_document doc d = Some x" "doc_status x = DocArchived"
proof -
  obtain y where y: "y \<in> set (db_documents d)" "doc_id y = doc" "doc_status y = DocArchived"
    using assms(2) by (auto simp: archived_def)
  then obtain x where x: "get_document doc d = Some x"
    by (cases "get_document doc d") (auto simp: get_document_def find_None_iff)
  have "documents_ok (db_documents d)" using assms(1) by (simp add: docs_inv_def docs_base_def)
  then have "x = y" using documents_unique get_documentD[OF x] y(1,2) by blast
  with x y(3) that show ?thesis by blast
qed

text \<open>
  C14: Archiving is final: once an archive request has succeeded, then in every later state
  of the system no version of the document is active or visible to retrieval, an approval of
  any of its versions and a new version of it are refused without a change, and the document
  is still archived.
\<close>

theorem archived_document_is_never_searchable_again:
  assumes "docs_inv d" "permutes_rows (de_flush_order env)"
    and "archive_document env user doc rid d = (Inr r, d1)" "doc_step\<^sup>*\<^sup>* d1 d2"
  shows "archived doc d2 \<and>
    (\<forall>v\<in>set (db_versions d2). ver_document_id v = doc \<longrightarrow> \<not> ver_is_active v \<and> \<not> retrieval_visible d2 v) \<and>
    add_version env' user' doc filename ctype content rid' d2 fs = (Inl DocumentArchived, d2, fs) \<and>
    approve_version env' user' doc ver rid' d2 \<in> {(Inl DocumentArchived, d2), (Inl DocNotFound, d2)}"
proof -
  have st: "stays_archived doc d2"
    using archived_run.reach[OF assms(4) archive_document_done[OF assms(1-3)]] .
  then have inv: "docs_inv d2" "archived doc d2" by (simp_all add: stays_archived_def)
  then obtain x where "get_document doc d2 = Some x" "doc_status x = DocArchived"
    by (rule archived_get_document)
  then have "add_version env' user' doc filename ctype content rid' d2 fs = (Inl DocumentArchived, d2, fs)"
    "approve_version env' user' doc ver rid' d2 \<in> {(Inl DocumentArchived, d2), (Inl DocNotFound, d2)}"
    by (auto simp: add_version_def approve_version_def get_document_and_version_def split: option.split)
  with inv docs_inv_visible[OF inv(1)] show ?thesis by (auto simp: docs_inv_def)
qed

theorem archived_document_is_never_searchable_again_witness:
  "\<exists>r d1. archive_document ex_doc_env 5 1 None ex_docs_db = (Inr r, d1) \<and> archived 1 d1 \<and>
     approve_version ex_doc_env 6 1 2 None d1 \<in> {(Inl DocumentArchived, d1), (Inl DocNotFound, d1)}"
proof -
  obtain x where "get_document 1 ex_docs_db = Some x" "de_commit_ok ex_doc_env"
    by (simp add: get_document_def ex_docs_defs ex_doc_env_def)
  then obtain r d1 where a: "archive_document ex_doc_env 5 1 None ex_docs_db = (Inr r, d1)"
    using archive_document_succeeds[OF ex_docs_inv ex_docs_ready] by blast
  show ?thesis
    using archived_document_is_never_searchable_again[OF ex_docs_inv ex_sort_flush(2) a rtranclp.rtrancl_refl]
      a by blast
qed

end
