(* ===== verification/Ingest_Outcomes.thy ===== *)
theory Ingest_Outcomes
  imports Document_Properties
begin

section \<open>What the ingest handler reports\<close>

text \<open>
  The outcome of a run of the ingest handler against the database it leaves, for each place
  where the handler can end and whatever other processes commit between its transactions: a
  reported success is an indexed, ready version with the reported number of chunks, a reported
  failure is recorded on the version, and a lost lease is a lease the worker does not hold.
\<close>

lemma fair_others: "fair_env env \<Longrightarrow> docs_inv d \<Longrightarrow> docs_inv (ie_others env g d)"
  by (auto simp: fair_env_def others_step_def intro: docs_run.reach)

lemma safe_inv: "doc_safe d d' \<Longrightarrow> docs_inv d \<Longrightarrow> docs_inv d'"
  by (simp add: doc_safe_def)

lemma owned_then_lost: "owned_then ctx d r = Inl IngestLeaseLost \<Longrightarrow> \<not> owns_job (ctx_job_id ctx) (ctx_worker ctx) d"
  by (auto simp: owned_then_def assert_ownership_def owns_job_def split: sum.splits if_splits)

lemma owned_then_owned: "owned_then ctx d r = Inr d' \<Longrightarrow> owns_job (ctx_job_id ctx) (ctx_worker ctx) d"
  by (auto simp: owned_then_def assert_ownership_def owns_job_def split: sum.splits if_splits)

subsection \<open>A failure is recorded\<close>

text \<open>
  The version is gone or archived, or failed with the reported code; or another run has
  activated it meanwhile, so that the check constraint keeps it from being failed, which the
  handler reports as a failed cleanup.
\<close>

definition told_failure :: "int \<Rightarrow> string \<Rightarrow> db \<Rightarrow> bool" where
  "told_failure i code d = (case get_version_by_id i d of
     None \<Rightarrow> True
   | Some v \<Rightarrow> ver_status v = VArchived \<or>
       (ver_status v = VFailed \<and> ver_error_code v = Some code \<and> \<not> ver_is_active v) \<or>
       (code = ''ingest_cleanup_failed'' \<and> ver_is_active v))"

lemma update_row_versions_ok:
  assumes "versions_ok vs" "\<And>v. same_version v (f v) \<and> ver_no (f v) = ver_no v \<and>
      ver_content_hash (f v) = ver_content_hash v \<and> ver_is_active (f v) = ver_is_active v"
    and "\<And>v. v \<in> set vs \<Longrightarrow> ver_id v = i \<Longrightarrow> ck_version (f v)"
  shows "versions_ok (map (\<lambda>v. if ver_id v = i then f v else v) vs)"
proof -
  define g where "g = (\<lambda>v. if ver_id v = i then f v else v)"
  have g: "ver_id (g v) = ver_id v" "ver_document_id (g v) = ver_document_id v" "ver_no (g v) = ver_no v"
    "ver_content_hash (g v) = ver_content_hash v" "ver_is_active (g v) = ver_is_active v" for v
    using assms(2)[of v] by (simp_all add: g_def same_version_def)
  have "ck_version (g v)" if "v \<in> set vs" for v
    using that assms(1,3) by (auto simp: g_def versions_ok_def)
  moreover have "filter ver_is_active (map g vs) = map g (filter ver_is_active vs)"
    by (simp add: filter_map comp_def g)
  ultimately show ?thesis
    using assms(1) unfolding g_def[symmetric] by (simp add: versions_ok_def ux_one_active_def g comp_def)
qed

lemma get_version_mapped:
  assumes "get_version_by_id i d = Some v" "\<And>w. ver_id (f w) = ver_id w"
    and "db_versions d' = map (\<lambda>w. if ver_id w = i then f w else w) (db_versions d)"
  shows "get_version_by_id i d' = Some (f v)"
proof -
  have "find (\<lambda>w. ver_id w = i) (map (\<lambda>w. if ver_id w = i then f w else w) vs) =
      map_option f (find (\<lambda>w. ver_id w = i) vs)" for vs
    by (induction vs) (auto simp: assms(2))
  then show ?thesis using assms(1,3) by (simp add: get_version_by_id_def)
qed

definition failed_row :: "string \<Rightarrow> py_time \<Rightarrow> document_version \<Rightarrow> document_version" where
  "failed_row code now v = clear_extraction (v\<lparr>ver_status := VFailed, ver_error_code := Some code, ver_updated_at := now\<rparr>)"

lemma failed_row_facts [simp]:
  "ver_id (failed_row code now v) = ver_id v" "ver_status (failed_row code now v) = VFailed"
  "ver_error_code (failed_row code now v) = Some code" "ver_is_active (failed_row code now v) = ver_is_active v"
  by (simp_all add: failed_row_def clear_extraction_def)

lemma touch_if_versions [simp]: "db_versions (touch_if b now d) = db_versions d" "db_jobs (touch_if b now d) = db_jobs d"
  "db_chunks (touch_if b now d) = db_chunks d"
  by (simp_all add: touch_if_def touch_corpus_marker_def)

lemma mark_version_failed_eq:
  assumes "docs_inv d" "get_version_by_id i d = Some v"
  shows "if ver_is_active v then mark_version_failed i code now d = Inl DocIntegrity
    else (\<exists>d'. mark_version_failed i code now d = Inr d' \<and> get_version_by_id i d' = Some (failed_row code now v))"
proof -
  let ?vs = "map (\<lambda>w. if ver_id w = i then failed_row code now w else w) (db_versions d)"
  have ok: "versions_ok (db_versions d)" using assms(1) by (simp add: docs_inv_def docs_base_def)
  note v = get_version_by_idD[OF assms(2)]
  have eq: "mark_version_failed i code now d = put_versions (touch_if (any_version_is_retrieval_visible [i] d) now d) ?vs"
    unfolding mark_version_failed_def update_version_def failed_row_def by simp
  show ?thesis
  proof (cases "ver_is_active v")
    case True
    have "\<not> ck_version (failed_row code now v)" using True by (simp add: ck_version_def)
    moreover have "failed_row code now v \<in> set ?vs" using v by force
    ultimately have "\<not> versions_ok ?vs" by (auto simp: versions_ok_def)
    then show ?thesis using True by (simp add: eq put_versions_def)
  next
    case False
    have "versions_ok ?vs"
    proof (rule update_row_versions_ok[OF ok])
      fix w assume w: "w \<in> set (db_versions d)" "ver_id w = i"
      then have "w = v" using versions_unique[OF ok] v by blast
      moreover have "ck_version v" using ok v by (simp add: versions_ok_def)
      ultimately show "ck_version (failed_row code now w)"
        using False by (simp add: ck_version_def failed_row_def clear_extraction_def)
    qed (simp add: failed_row_def clear_extraction_def same_version_def)
    then show ?thesis using False get_version_mapped[OF assms(2), of "failed_row code now"]
      by (simp add: eq put_versions_def)
  qed
qed

lemma mark_failed_told:
  assumes "docs_inv d" "mark_failed_tx ctx i code del now d = (r, d')"
  shows "case r of Inl _ \<Rightarrow> \<not> owns_job (ctx_job_id ctx) (ctx_worker ctx) d' | Inr c \<Rightarrow> told_failure i c d'"
proof (cases "get_version_by_id i d")
  case None
  then show ?thesis using assms(2) by (auto simp: mark_failed_tx_def told_failure_def)
next
  case (Some v)
  let ?d = "if del then snd (delete_chunks i now d) else d"
  have inv: "docs_inv ?d" using assms(1) safe_inv[OF doc_safe_part[of "snd (delete_chunks i now d)" d]] by simp
  have found: "get_version_by_id i ?d = Some v" using Some by (simp add: get_version_by_id_def delete_chunks_def)
  show ?thesis
  proof (cases "ver_status v = VArchived")
    case True
    then show ?thesis using assms(2) Some by (auto simp: mark_failed_tx_def told_failure_def)
  next
    case False
    note eq = mark_version_failed_eq[OF inv found, of code now]
    show ?thesis
    proof (cases "owned_then ctx d (mark_version_failed i code now ?d)")
      case (Inl e)
      have "e = IngestError ''integrity_error'' \<and> ver_is_active v"
        if "e \<noteq> IngestLeaseLost" using Inl eq that
        by (auto simp: owned_then_def split: sum.splits if_splits)
      then show ?thesis using Inl assms(2) Some False owned_then_lost[of ctx d]
        by (cases e) (auto simp: mark_failed_tx_def told_failure_def)
    next
      case (Inr d2)
      then have "\<not> ver_is_active v" "get_version_by_id i d2 = Some (failed_row code now v)"
        using eq owned_then_InrD[OF Inr] by (auto split: if_splits)
      then show ?thesis using Inr assms(2) Some False by (auto simp: mark_failed_tx_def told_failure_def)
    qed
  qed
qed

subsection \<open>The end of a run\<close>

definition indexed_version :: "ingest_env \<Rightarrow> job_context \<Rightarrow> int \<Rightarrow> handler_result \<Rightarrow> db \<Rightarrow> bool" where
  "indexed_version env ctx i r d = (\<exists>v meta pages chunks n.
     get_version_by_id i d = Some v \<and> ver_status v = VReady \<and> owns_job (ctx_job_id ctx) (ctx_worker ctx) d \<and>
     ie_stored env = Inr True \<and> ie_extracted env = Inr (meta, pages) \<and> im_text_char_count meta \<le> ie_max_chars env \<and>
     chunk_document (de_sha256 (ie_doc env)) (ie_chunking env) pages i = Inr chunks \<and> chunks \<noteq> [] \<and>
     ie_indexed env = Inr n \<and>
     map_of (res_json r) ''chunk_count'' = Some (PInt (int (count_chunks i d))) \<and>
     map_of (res_json r) ''indexed_count'' = Some (PInt (int n)))"

definition told_truth :: "ingest_env \<Rightarrow> job_context \<Rightarrow> int \<Rightarrow> handler_result outcome \<Rightarrow> db \<Rightarrow> bool" where
  "told_truth env ctx i out d = (case out of
     RaisedOther \<Rightarrow> False
   | RaisedLeaseLost \<Rightarrow> \<not> owns_job (ctx_job_id ctx) (ctx_worker ctx) d
   | Returned r \<Rightarrow> if res_status r = HSucceeded then indexed_version env ctx i r d
       else (\<exists>code. res_error_code r = Some code \<and> told_failure i code d))"

lemma ingest_failed_facts [simp]:
  "res_status (ingest_failed code) = HFailed" "res_error_code (ingest_failed code) = Some code"
  by (simp_all add: ingest_failed_def handler_failed_def)

lemma told_ingest_failed: "told_failure i code d \<Longrightarrow> told_truth env ctx i (Returned (ingest_failed code)) d"
  by (simp add: told_truth_def)

lemma finish_failed_told:
  assumes "fair_env env" "docs_inv d" "finish_failed env ctx i code del g d = (out, d')"
  shows "told_truth env ctx i out d'"
proof -
  obtain r where m: "mark_failed_tx ctx i code del (ie_now env g) (ie_others env g d) = (r, d')"
    and out: "out = (case r of Inl _ \<Rightarrow> RaisedLeaseLost | Inr c \<Rightarrow> Returned (ingest_failed c))"
    using assms(3) by (auto simp: finish_failed_def split: prod.splits sum.splits)
  from mark_failed_told[OF fair_others[OF assms(1,2)] m] out show ?thesis
    by (cases r) (auto simp: told_truth_def)
qed

lemma fail_version_told:
  assumes "fair_env env" "docs_inv d" "fail_version env ctx i code g d = (out, d')"
  shows "told_truth env ctx i out d'"
  using finish_failed_told[OF assms(1) fair_others[OF assms(1,2)]] assms(3)
  by (auto simp: fail_version_def Let_def)

lemma owns_more_jobs: "owns_job i w d \<Longrightarrow> set (db_jobs d) \<subseteq> set (db_jobs d') \<Longrightarrow> owns_job i w d'"
  by (auto simp: owns_job_def)

lemma graph_job_keeps:
  assumes "create_graph_index_job c now v d = Inr d'"
  shows "db_versions d' = db_versions d" "db_chunks d' = db_chunks d" "set (db_jobs d) \<subseteq> set (db_jobs d')"
proof -
  have "db_versions d' = db_versions d \<and> db_chunks d' = db_chunks d \<and> set (db_jobs d) \<subseteq> set (db_jobs d')"
  proof (cases "graph_indexing_enabled d")
    case True
    then obtain j jr where "insert_job d j = Inr (jr, d')"
      using assms by (auto simp: create_graph_index_job_def lift_job_def create_job_def map_sum_def split: sum.splits)
    from insert_job_InrD[OF this] show ?thesis by auto
  qed (use assms in \<open>simp add: create_graph_index_job_def\<close>)
  then show "db_versions d' = db_versions d" "db_chunks d' = db_chunks d" "set (db_jobs d) \<subseteq> set (db_jobs d')" by simp_all
qed

lemma flush_keeps:
  "flush_versions f is d = Inr d' \<Longrightarrow> db_chunks d' = db_chunks d \<and> db_jobs d' = db_jobs d"
proof (induction "is" arbitrary: d)
  case (Cons i "is")
  then show ?case using update_version_InrD[of i "f i" d] by (auto split: sum.splits)
qed simp

lemma set_active_keeps:
  assumes "set_active_version order doc v now d = Inr (p, d')" "permutes_rows order" "versions_ok (db_versions d)"
    and "get_version_by_id i d = Some w"
  shows "db_chunks d' = db_chunks d" "db_jobs d' = db_jobs d"
    "\<exists>u. get_version_by_id i d' = Some u \<and> ver_status u = ver_status w"
proof -
  show "db_chunks d' = db_chunks d" "db_jobs d' = db_jobs d"
    using assms(1) by (auto simp: set_active_version_def Let_def touch_corpus_marker_def dest!: flush_keeps split: sum.splits)
  have g: "ver_id (switch_row p j now u) = ver_id u" "ver_status (switch_row p j now u) = ver_status u" for j u
    by (simp_all add: switch_row_def activate_row_def deactivate_row_def)
  have "db_versions d' = map (switch_row p (ver_id v) now) (db_versions d)"
    using set_active_version_InrD[OF assms(1-3)] by (simp add: version_map_def touch_corpus_marker_def)
  moreover have "find (\<lambda>u. ver_id u = i) (map (switch_row p (ver_id v) now) vs) =
      map_option (switch_row p (ver_id v) now) (find (\<lambda>u. ver_id u = i) vs)" for vs
    by (induction vs) (auto simp: g)
  ultimately show "\<exists>u. get_version_by_id i d' = Some u \<and> ver_status u = ver_status w"
    using assms(4) by (simp add: get_version_by_id_def g)
qed

lemma mark_ready_writes_done:
  assumes "mark_ready_writes env ctx v now d = Inr d'" "permutes_rows (de_flush_order env)"
    and "get_version_by_id i d = Some v"
  shows "(\<exists>u. get_version_by_id i d' = Some u \<and> ver_status u = VReady) \<and> db_chunks d' = db_chunks d \<and>
    set (db_jobs d) \<subseteq> set (db_jobs d')"
proof -
  let ?f = "\<lambda>w. w\<lparr>ver_status := VReady, ver_error_code := None, ver_updated_at := now\<rparr>"
  obtain d1 d2 where c: "mark_version_ready (ver_id v) now d = Inr d1"
      "(if evaluation_activation_requested (ctx_payload ctx)
        then map_sum id snd (set_active_version (de_flush_order env) (ver_document_id v) v now d1) else Inr d1) = Inr d2"
      "create_graph_index_job None now (ver_id v) d2 = Inr d'"
    using assms(1) by (auto simp: mark_ready_writes_def split: sum.splits)
  have id: "ver_id v = i" using get_version_by_idD[OF assms(3)] by simp
  note up = update_version_InrD[OF c(1)[unfolded mark_version_ready_def]]
  have v1: "get_version_by_id i d1 = Some (?f v)"
    by (rule get_version_mapped[OF assms(3)]) (use up id in auto)
  have k1: "db_chunks d1 = db_chunks d" "db_jobs d1 = db_jobs d" using up by auto
  have "(\<exists>u. get_version_by_id i d2 = Some u \<and> ver_status u = VReady) \<and> db_chunks d2 = db_chunks d \<and> db_jobs d2 = db_jobs d"
  proof (cases "evaluation_activation_requested (ctx_payload ctx)")
    case True
    then obtain p where "set_active_version (de_flush_order env) (ver_document_id v) v now d1 = Inr (p, d2)"
      using c(2) by (cases "set_active_version (de_flush_order env) (ver_document_id v) v now d1") auto
    from set_active_keeps[OF this assms(2) conjunct2[OF up] v1] k1 show ?thesis by simp
  qed (use c(2) v1 k1 in simp)
  with graph_job_keeps[OF c(3)] show ?thesis by (simp add: get_version_by_id_def)
qed

lemma finalize_told:
  assumes "fair_env env" "docs_inv d" "finalize env ctx snap meta cs g d = (out, d')"
    and "i = ver_id (snap_version snap)"
    and "ie_stored env = Inr True" "ie_extracted env = Inr (meta, pages)" "im_text_char_count meta \<le> ie_max_chars env"
    and "chunk_document (de_sha256 (ie_doc env)) (ie_chunking env) pages i = Inr chunks" "chunks \<noteq> []"
  shows "told_truth env ctx i out d'"
proof (cases "ie_indexed env")
  case (Inl code)
  then show ?thesis using assms(3,4) fail_version_told[OF assms(1,2)] by (auto simp: finalize_def)
next
  case (Inr n)
  let ?d1 = "ie_others env g d"
  show ?thesis
  proof (cases "mark_ready_tx (ie_doc env) ctx i (length cs) (ie_now env g) ?d1")
    case (Inl e)
    have "\<not> owns_job (ctx_job_id ctx) (ctx_worker ctx) ?d1" if "e = IngestLeaseLost"
      using Inl that owned_then_lost[of ctx ?d1] by (auto simp: mark_ready_tx_def split: option.splits if_splits)
    then show ?thesis
      using Inl \<open>ie_indexed env = Inr n\<close> assms(3,4) finish_failed_told[OF assms(1) fair_others[OF assms(1,2)]]
      by (cases e) (auto simp: finalize_def Let_def told_truth_def)
  next
    case ready: (Inr d2)
    obtain v x where c: "get_version_and_document i ?d1 = Some (v, x)"
      and w: "owned_then ctx ?d1 (if count_chunks i ?d1 \<noteq> length cs then Inl DocIntegrity
             else mark_ready_writes (ie_doc env) ctx v (ie_now env g) ?d1) = Inr d2"
      using ready by (auto simp: mark_ready_tx_def split: option.splits if_splits)
    have counts: "count_chunks i ?d1 = length cs" and writes: "mark_ready_writes (ie_doc env) ctx v (ie_now env g) ?d1 = Inr d2"
      using owned_then_InrD[OF w] by (simp_all split: if_splits)
    note owned = owned_then_owned[OF w]
    have "get_version_by_id i ?d1 = Some v" using c by (auto simp: get_version_and_document_def split: option.splits)
    moreover have "permutes_rows (de_flush_order (ie_doc env))" using assms(1) by (simp add: fair_env_def)
    ultimately have d2: "\<exists>u. get_version_by_id i d2 = Some u \<and> ver_status u = VReady" "db_chunks d2 = db_chunks ?d1"
      "set (db_jobs ?d1) \<subseteq> set (db_jobs d2)" using mark_ready_writes_done[OF writes] by blast+
    have out: "out = Returned (handler_succeeded (Some (ingest_result snap meta cs n)))" "d' = d2"
      using ready \<open>ie_indexed env = Inr n\<close> assms(3,4) by (auto simp: finalize_def Let_def)
    have "map_of (ingest_result snap meta cs n) ''chunk_count'' = Some (PInt (int (count_chunks i d2)))"
      "map_of (ingest_result snap meta cs n) ''indexed_count'' = Some (PInt (int n))"
      using counts d2(2) by (simp_all add: ingest_result_def Let_def count_chunks_def version_chunks_def)
    then have "indexed_version env ctx i (handler_succeeded (Some (ingest_result snap meta cs n))) d2"
      unfolding indexed_version_def
      using d2 assms(5-9) \<open>ie_indexed env = Inr n\<close> owns_more_jobs[OF owned d2(3)] by (auto simp: handler_succeeded_def)
    then show ?thesis using out by (simp add: told_truth_def handler_succeeded_def)
  qed
qed

lemma no_version:
  assumes "docs_inv d" "get_version_and_document i d = None"
  shows "get_version_by_id i d = None"
proof (rule ccontr)
  assume "get_version_by_id i d \<noteq> None"
  then obtain v where v: "get_version_by_id i d = Some v" by blast
  have "has_document d v" using assms(1) get_version_by_idD[OF v] by (simp add: docs_inv_def docs_base_def)
  then have "get_document (ver_document_id v) d \<noteq> None"
    by (auto simp: has_document_def get_document_def find_None_iff)
  then show False using assms(2) v by (auto simp: get_version_and_document_def)
qed

lemma chunk_and_store_told:
  assumes "fair_env env" "docs_inv d" "chunk_and_store env ctx snap meta pages g d = (out, d')"
    and "i = ver_id (snap_version snap)" "ie_stored env = Inr True" "ie_extracted env = Inr (meta, pages)"
  shows "told_truth env ctx i out d'"
proof (cases "ie_max_chars env < im_text_char_count meta")
  case True
  then show ?thesis using assms(3,4) fail_version_told[OF assms(1,2)] by (auto simp: chunk_and_store_def)
next
  case short: False
  show ?thesis
  proof (cases "chunk_document (de_sha256 (ie_doc env)) (ie_chunking env) pages i")
    case (Inl e)
    then show ?thesis using short assms(3,4) fail_version_told[OF assms(1,2)] by (auto simp: chunk_and_store_def)
  next
    case (Inr chunks)
    let ?o = "ie_others env g d"
    obtain r d1 where st: "store_chunks ctx i meta chunks (ie_now env g) ?o = (r, d1)" by fastforce
    have inv: "docs_inv ?o" by (rule fair_others[OF assms(1,2)])
    have inv1: "docs_inv d1" by (rule safe_inv[OF store_chunks_safe[OF st] inv])
    show ?thesis
    proof (cases r)
      case (Inl e)
      have "\<not> owns_job (ctx_job_id ctx) (ctx_worker ctx) d1"
        using st Inl owned_then_lost[of ctx ?o]
        by (auto simp: store_chunks_def split: if_splits option.splits sum.splits ingest_exc.splits)
      then show ?thesis using short \<open>chunk_document _ _ _ _ = Inr chunks\<close> assms(3,4) st Inl
        by (auto simp: chunk_and_store_def told_truth_def Let_def)
    next
      case res: (Inr q)
      show ?thesis
      proof (cases q)
        case ChunksStored
        have "chunks \<noteq> []" using st res ChunksStored by (auto simp: store_chunks_def)
        with short Inr show ?thesis
          using finalize_told[OF assms(1) fair_others[OF assms(1) inv1]] assms(3-6) st res ChunksStored
          by (auto simp: chunk_and_store_def Let_def)
      next
        case (StoreFailed code)
        have "get_version_and_document i ?o = None" "d1 = ?o"
          using st res StoreFailed by (auto simp: store_chunks_def split: if_splits option.splits sum.splits ingest_exc.splits)
        then have "get_version_by_id i d1 = None" using no_version[OF inv] by simp
        then have "told_failure i code d1" by (simp add: told_failure_def)
        then show ?thesis using short Inr assms(3,4) st res StoreFailed told_ingest_failed
          by (auto simp: chunk_and_store_def Let_def)
      next
        case (StoreFailVersion code)
        then show ?thesis using short Inr assms(3,4) st res fail_version_told[OF assms(1) inv1]
          by (auto simp: chunk_and_store_def Let_def)
      qed
    qed
  qed
qed

lemma extract_and_store_told:
  assumes "fair_env env" "docs_inv d" "extract_and_store env ctx snap g d = (out, d')"
    and "i = ver_id (snap_version snap)"
  shows "told_truth env ctx i out d'"
proof -
  have fail: "told_truth env ctx i out d'" if "fail_version env ctx i code g d = (out, d')" for code
    by (rule fail_version_told[OF assms(1,2) that])
  show ?thesis
  proof (cases "ver_storage_key (snap_version snap) \<noteq> None \<and> ie_stored env = Inr True \<and> \<not> isl (ie_extracted env)")
    case True
    then obtain meta pages where x: "ie_extracted env = Inr (meta, pages)" by (cases "ie_extracted env") auto
    then have "chunk_and_store env ctx snap meta pages g d = (out, d')"
      using assms(3) True by (simp add: extract_and_store_def)
    then show ?thesis using chunk_and_store_told[OF assms(1,2) _ assms(4)] True x by blast
  next
    case False
    have "fail_version env ctx i
        (if ver_storage_key (snap_version snap) = None then ''storage_file_missing''
         else case ie_stored env of
             Inl e \<Rightarrow> if e = FileMissing then ''storage_file_missing'' else ''internal_error''
           | Inr False \<Rightarrow> ''storage_file_missing''
           | Inr True \<Rightarrow> projl (ie_extracted env)) g d = (out, d')"
    proof (cases "ver_storage_key (snap_version snap) = None")
      case True
      then show ?thesis using assms(3,4) by (simp add: extract_and_store_def)
    next
      case key: False
      show ?thesis
      proof (cases "ie_stored env")
        case (Inl e)
        then show ?thesis using assms(3,4) key
          by (cases "ver_storage_key (snap_version snap)") (simp_all add: extract_and_store_def)
      next
        case (Inr b)
        then show ?thesis using assms(3,4) key False
          by (cases "ver_storage_key (snap_version snap)"; cases b; cases "ie_extracted env")
             (simp_all add: extract_and_store_def)
      qed
    qed
    then show ?thesis using fail by blast
  qed
qed

lemma ingest_prepared_told:
  assumes "fair_env env" "docs_inv d" "ingest_prepared env ctx snap d = (out, d')"
    and "i = ver_id (snap_version snap)" "ver_status (snap_version snap) \<noteq> VReady"
  shows "told_truth env ctx i out d'"
proof -
  let ?d1 = "ie_others env 1 d"
  have inv: "docs_inv ?d1" by (rule fair_others[OF assms(1,2)])
  have unready: "(ver_status (snap_version snap) = VReady) = False" using assms(5) by simp
  consider "snap_chunk_ids snap = []" "extract_and_store env ctx snap 1 d = (out, d')"
    | "snap_chunk_ids snap \<noteq> []" "\<not> ie_points_cleaned env 0"
      "finish_failed env ctx i ''qdrant_cleanup_failed'' False 1 d = (out, d')"
    | "(case delete_chunks_tx ctx i (ie_now env 1) ?d1 of
          Inl IngestLeaseLost \<Rightarrow> (RaisedLeaseLost, ?d1)
        | Inl (IngestError _) \<Rightarrow> finish_failed env ctx i ''ingest_cleanup_failed'' True 2 ?d1
        | Inr d2 \<Rightarrow> extract_and_store env ctx snap 2 d2) = (out, d')"
    using assms(3) unfolding ingest_prepared_def Let_def assms(4)[symmetric] unready
    by (simp only: if_False split: if_splits) blast+
  then show ?thesis
  proof cases
    case 1
    then show ?thesis using extract_and_store_told[OF assms(1,2) _ assms(4)] by blast
  next
    case 2
    then show ?thesis using finish_failed_told[OF assms(1,2)] by blast
  next
    case 3
    show ?thesis
    proof (cases "delete_chunks_tx ctx i (ie_now env 1) ?d1")
      case (Inl e)
      show ?thesis
      proof (cases e)
        case IngestLeaseLost
        then show ?thesis using 3 Inl owned_then_lost[of ctx ?d1] by (auto simp: delete_chunks_tx_def told_truth_def)
      next
        case (IngestError c)
        then have "finish_failed env ctx i ''ingest_cleanup_failed'' True 2 ?d1 = (out, d')" using 3 Inl by simp
        then show ?thesis by (rule finish_failed_told[OF assms(1) inv])
      qed
    next
      case (Inr d2)
      have "docs_inv d2" by (rule safe_inv[OF delete_chunks_tx_safe[OF Inr] inv])
      then show ?thesis using extract_and_store_told[OF assms(1) _ _ assms(4)] 3 Inr by fastforce
    qed
  qed
qed

subsection \<open>The preparation\<close>

lemma reset_succeeds:
  assumes "docs_inv d" "get_version_by_id i d = Some v" "ver_status v \<noteq> VReady"
  shows "\<exists>d'. reset_version_for_ingest i now d = Inr d'"
proof -
  let ?f = "\<lambda>w. clear_extraction (w\<lparr>ver_status := VProcessing, ver_error_code := None, ver_updated_at := now\<rparr>)"
  have ok: "versions_ok (db_versions d)" using assms(1) by (simp add: docs_inv_def docs_base_def)
  note v = get_version_by_idD[OF assms(2)]
  have "versions_ok (map (\<lambda>w. if ver_id w = i then ?f w else w) (db_versions d))"
  proof (rule update_row_versions_ok[OF ok])
    fix w assume w: "w \<in> set (db_versions d)" "ver_id w = i"
    then have "w = v" using versions_unique[OF ok] v by blast
    moreover have "ck_version v" using ok v by (simp add: versions_ok_def)
    ultimately show "ck_version (?f w)" using assms(3) by (simp add: ck_version_def clear_extraction_def)
  qed (simp add: clear_extraction_def same_version_def)
  then show ?thesis by (simp add: reset_version_for_ingest_def update_version_def put_versions_def)
qed

lemma archived_document_fails:
  assumes "docs_inv d" "get_version_and_document i d = Some (v, x)" "doc_status x = DocArchived"
  shows "\<exists>d'. mark_version_failed i code now d = Inr d' \<and> told_failure i code d'"
proof -
  have g: "get_version_by_id i d = Some v" "get_document (ver_document_id v) d = Some x"
    using assms(2) by (auto simp: get_version_and_document_def split: option.splits)
  have "archived (ver_document_id v) d" using get_documentD[OF g(2)] assms(3) by (auto simp: archived_def)
  then have "\<not> ver_is_active v" using assms(1) get_version_by_idD[OF g(1)] by (auto simp: docs_inv_def)
  then show ?thesis using mark_version_failed_eq[OF assms(1) g(1), of code now] by (auto simp: told_failure_def)
qed

lemma prepare_told:
  assumes "docs_inv d" "prepare_version ctx i now d = (r, d')"
  shows "case r of
      Inl _ \<Rightarrow> \<not> owns_job (ctx_job_id ctx) (ctx_worker ctx) d'
    | Inr (PrepareFailed code) \<Rightarrow> (code = ''validation_error'' \<and> d' = d) \<or> told_failure i code d'
    | Inr (Prepared snap) \<Rightarrow> ver_id (snap_version snap) = i \<and>
        (ver_status (snap_version snap) = VReady \<longrightarrow> d' = d \<and> get_version_by_id i d = Some (snap_version snap))"
proof (cases "get_version_and_document i d")
  case None
  then show ?thesis using assms no_version[OF assms(1) None] by (auto simp: prepare_version_def told_failure_def)
next
  case (Some p)
  obtain v x where p: "p = (v, x)" by (cases p)
  have g: "get_version_by_id i d = Some v" using Some p by (auto simp: get_version_and_document_def split: option.splits)
  note id = get_version_by_idD[OF g]
  show ?thesis
  proof (cases "\<not> payload_document_ok ctx (ver_document_id v) \<or> ver_status v = VArchived")
    case True
    then show ?thesis using assms(2) Some p g
      by (cases "payload_document_ok ctx (ver_document_id v)") (auto simp: prepare_version_def told_failure_def Let_def)
  next
    case go: False
    show ?thesis
    proof (cases "doc_status x = DocArchived")
      case True
      let ?w = "owned_then ctx d (mark_version_failed i ''document_version_not_ingestable'' now d)"
      obtain d2 where d2: "mark_version_failed i ''document_version_not_ingestable'' now d = Inr d2"
          "told_failure i ''document_version_not_ingestable'' d2"
        using archived_document_fails[OF assms(1) _ True] Some p by blast
      have "?w = Inl IngestLeaseLost \<or> ?w = Inr d2" using d2(1) by (auto simp: owned_then_def split: sum.splits)
      then show ?thesis using assms(2) Some p go True d2 owned_then_lost[of ctx d]
        by (auto simp: prepare_version_def Let_def)
    next
      case False
      show ?thesis
      proof (cases "ver_status v = VReady")
        case True
        then show ?thesis using assms(2) Some p go False g id by (auto simp: prepare_version_def Let_def)
      next
        case unready: False
        let ?w = "owned_then ctx d (reset_version_for_ingest i now d)"
        obtain d2 where d2: "reset_version_for_ingest i now d = Inr d2"
          using reset_succeeds[OF assms(1) g unready] by blast
        have "?w = Inl IngestLeaseLost \<or> ?w = Inr d2" using d2(1) by (auto simp: owned_then_def split: sum.splits)
        then show ?thesis using assms(2) Some p go False unready d2 id owned_then_lost[of ctx d]
          by (auto simp: prepare_version_def Let_def)
      qed
    qed
  qed
qed

definition no_op_result :: "handler_result \<Rightarrow> bool" where
  "no_op_result r = (res_status r = HSucceeded \<and> map_of (res_json r) ''status'' = Some (PStr ''already_ready'') \<and>
     map_of (res_json r) ''result_code'' = Some (PStr ''no_op''))"

text \<open>
  C15: The ingest handler reports what happened. Whatever the extractor, the vector index and
  the storage answer, and whatever other requests, workers and handlers commit between its
  transactions, a run leaves a consistent state, and its outcome is true of that state. A
  reported success means that the version is ready; unless it was ready already, in which case
  the handler changed nothing, the file was in the storage, its text was extracted and short
  enough, it was chunked into at least one chunk and indexed, the version has the reported
  number of chunks and the worker still owns the job. After a reported failure the version is
  gone or archived or failed with the reported error code and inactive; the only exceptions
  are a payload that is refused before anything is written, and a version that another run has
  activated meanwhile, which is reported as ingest_cleanup_failed and stays active. A lost
  lease is raised only if the worker does not own the job, and nothing else is raised.
\<close>

theorem ingest_outcome_is_true:
  assumes "fair_env env" "docs_inv d" "ingest_handle env ctx d = (out, d')"
  shows "docs_inv d' \<and> (case out of
     RaisedOther \<Rightarrow> False
   | RaisedLeaseLost \<Rightarrow> \<not> owns_job (ctx_job_id ctx) (ctx_worker ctx) d'
   | Returned r \<Rightarrow>
       (res_status r = HFailed \<and> res_error_code r = Some ''validation_error'' \<and> d' \<in> {d, ie_others env 0 d}) \<or>
       (\<exists>i. map_of (ctx_payload ctx) ''document_version_id'' = Some (PInt i) \<and> 0 < i \<and>
          ctx_target_type ctx = Some ''document_version'' \<and> ctx_target_id ctx = Some i \<and>
          (if res_status r = HSucceeded
           then (no_op_result r \<and> d' = ie_others env 0 d \<and>
                   (\<exists>v. get_version_by_id i d' = Some v \<and> ver_status v = VReady)) \<or> indexed_version env ctx i r d'
           else (\<exists>code. res_error_code r = Some code \<and> told_failure i code d'))))"
proof -
  have inv: "docs_inv d'" using ingest_is_run[OF assms(1,3)] assms(2) docs_run.reach by blast
  let ?o = "ie_others env 0 d"
  have inv0: "docs_inv ?o" by (rule fair_others[OF assms(1,2)])
  show ?thesis
  proof (cases "\<exists>i. map_of (ctx_payload ctx) ''document_version_id'' = Some (PInt i) \<and> 0 < i \<and>
      ctx_target_type ctx = Some ''document_version'' \<and> ctx_target_id ctx = Some i")
    case False
    then have "out = Returned (ingest_failed ''validation_error'') \<and> d' = d"
      using assms(3) by (auto simp: ingest_handle_def split: option.splits pyval.splits if_splits)
    then show ?thesis using inv by simp
  next
    case True
    then obtain i where i: "map_of (ctx_payload ctx) ''document_version_id'' = Some (PInt i)" "0 < i"
      "ctx_target_type ctx = Some ''document_version''" "ctx_target_id ctx = Some i" by blast
    obtain r d1 where p: "prepare_version ctx i (ie_now env 0) ?o = (r, d1)" by fastforce
    note told = prepare_told[OF inv0 p]
    have inv1: "docs_inv d1" by (rule safe_inv[OF prepare_version_safe[OF p] inv0])
    have run: "(case r of Inl _ \<Rightarrow> (RaisedLeaseLost, d1)
        | Inr (PrepareFailed code) \<Rightarrow> (Returned (ingest_failed code), d1)
        | Inr (Prepared snap) \<Rightarrow> ingest_prepared env ctx snap d1) = (out, d')"
      using assms(3) i p by (simp add: ingest_handle_def split: sum.splits prepared.splits)
    show ?thesis
    proof (cases r)
      case (Inl e)
      then show ?thesis using told run inv by auto
    next
      case (Inr q)
      show ?thesis
      proof (cases q)
        case (PrepareFailed code)
        then show ?thesis using told run inv Inr i by auto
      next
        case (Prepared snap)
        show ?thesis
        proof (cases "ver_status (snap_version snap) = VReady")
          case True
          have "out = Returned (handler_succeeded (Some
              [(''document_version_id'', PInt (ver_id (snap_version snap))),
               (''logical_document_id'', PInt (doc_id (snap_document snap))),
               (''status'', PStr ''already_ready''), (''result_code'', PStr ''no_op'')]))" "d' = d1"
            using run Inr Prepared True by (simp_all add: ingest_prepared_def Let_def)
          then show ?thesis using told Inr Prepared True inv i by (auto simp: no_op_result_def handler_succeeded_def)
        next
          case False
          have "told_truth env ctx i out d'"
            using ingest_prepared_told[OF assms(1) inv1 _ _ False] run told Inr Prepared by simp
          then show ?thesis using inv i by (auto simp: told_truth_def split: outcome.splits if_splits)
        qed
      qed
    qed
  qed
qed

lemma ex_ingest_reported:
  "fst (ingest_handle ex_failing_env ex_context ex_ingest_db) = Returned (ingest_failed ''text_extraction_failed'')"
  by (simp add: ex_failing_env_def ex_ingest_env_def ex_context_def ex_ingest_db_def ex_docs_defs ex_version_checks
      ingest_handle_def prepare_version_def get_version_and_document_def get_version_by_id_def get_document_def
      payload_document_ok_def owned_then_def assert_ownership_def owned_by_def reset_version_for_ingest_def
      update_version_def put_versions_def clear_extraction_def touch_if_def any_version_is_retrieval_visible_def
      retrieval_visible_def ingest_prepared_def extract_and_store_def fail_version_def finish_failed_def
      mark_failed_tx_def mark_version_failed_def delete_chunks_def chunk_ids_by_version_def list_all_chunks_def
      version_chunks_def)

theorem ingest_outcome_is_true_witness:
  "\<exists>r d'. ingest_handle ex_failing_env ex_context ex_ingest_db = (Returned r, d') \<and>
     res_error_code r = Some ''text_extraction_failed'' \<and> told_failure 3 ''text_extraction_failed'' d'"
proof -
  have fair: "fair_env ex_failing_env"
    by (simp add: fair_env_def others_step_def ex_failing_env_def ex_ingest_env_def ex_sort_flush)
  obtain out d' where r: "ingest_handle ex_failing_env ex_context ex_ingest_db = (out, d')" by fastforce
  have out: "out = Returned (ingest_failed ''text_extraction_failed'')"
    using ex_ingest_reported r by simp
  show ?thesis
    using ingest_outcome_is_true[OF fair ex_ingest_db_inv r] out r
    by (auto simp: ingest_failed_def handler_failed_def ex_context_def)
qed

end
