(* ===== verification/Document_Uploads.thy ===== *)
theory Document_Uploads
  imports Document_Approval
begin

section \<open>Uploads and new versions\<close>

text \<open>
  What a client of \<open>upload_document\<close> and \<open>add_version\<close> can rely on: the rows,
  the file and the job of an accepted upload appear together or not at all, a new version takes
  the next number and a content that the document already has is not stored again, and what
  the payload of the ingest job says of an activation that was asked for.
\<close>

subsection \<open>The parts of an upload\<close>

lemma create_logical_document_InrD:
  "create_logical_document owner title now d = Inr (x, d') \<Longrightarrow>
   doc_id x = db_next_document_id d \<and> doc_status x = DocActive \<and> doc_owner_user_id x = owner \<and> doc_title x = title \<and>
   db_documents d' = db_documents d @ [x] \<and> db_versions d' = db_versions d \<and> db_jobs d' = db_jobs d"
  by (auto simp: create_logical_document_def put_documents_def Let_def split: if_splits sum.splits)

definition fresh_version :: "document_version \<Rightarrow> bool" where
  "fresh_version v = (ver_status v = VProcessing \<and> \<not> ver_is_active v)"

lemma create_version_InrD:
  "create_version doc no hash file mime bytes key creator metadata now d = Inr (v, d') \<Longrightarrow>
   ver_document_id v = doc \<and> ver_no v = no \<and> ver_content_hash v = hash \<and> ver_storage_key v = Some key \<and>
   fresh_version v \<and> db_versions d' = db_versions d @ [v] \<and> db_documents d' = db_documents d \<and>
   db_jobs d' = db_jobs d \<and> versions_ok (db_versions d')"
  by (auto simp: create_version_def put_versions_def fresh_version_def Let_def split: if_splits sum.splits)

definition queued_ingest_of :: "document_version \<Rightarrow> job \<Rightarrow> bool" where
  "queued_ingest_of v j = (job_type j = ''document_ingest'' \<and> job_status j = Queued \<and>
     job_target_type j = Some ''document_version'' \<and> job_target_id j = Some (ver_id v))"

lemma create_ingest_job_InrD:
  assumes "create_ingest_job env user doc ver activation d = Inr (j, d')"
  shows "job_type j = ''document_ingest'' \<and> job_status j = Queued \<and>
    job_target_type j = Some ''document_version'' \<and> job_target_id j = Some ver \<and>
    (\<exists>p. ingest_payload doc ver user activation = Inr p \<and> job_payload j = Some (sanitize_job_payload (Some p))) \<and>
    db_jobs d' = db_jobs d @ [j] \<and> db_versions d' = db_versions d \<and> db_documents d' = db_documents d"
proof -
  obtain p where p: "ingest_payload doc ver user activation = Inr p"
    and c: "insert_job d (new_job ''document_ingest'' (Some ''document_version'') (Some ver)
      (Some (sanitize_job_payload (Some p))) (Some user) 100 (de_now env)) = Inr (j, d')"
    using assms by (auto simp: create_ingest_job_def lift_job_def create_job_def split: sum.splits)
  then show ?thesis using insert_job_InrD[OF c] by (simp add: new_job_def)
qed

lemma audited_tables [simp]:
  "db_versions (audited a u r t i m d) = db_versions d" "db_documents (audited a u r t i m d) = db_documents d"
  "db_jobs (audited a u r t i m d) = db_jobs d"
  by (simp_all add: audited_def audit_def add_audit_log_def)

subsection \<open>The file of an upload\<close>

text \<open>The disk: a failing write leaves nothing behind, a deletion works, the token is fresh.\<close>

definition clean_disk :: "doc_env \<Rightarrow> files \<Rightarrow> bool" where
  "clean_disk env fs = (de_delete_ok env \<and> (de_write env = WriteOk \<or> de_write env = WriteFails None) \<and>
     list_all (\<lambda>(k, _). \<not> prefix (''documents/'' @ take 2 (de_token env) @ ''/'' @ de_token env) k) fs)"

lemma build_storage_key_prefix:
  "build_storage_key token file = Inr key \<Longrightarrow> prefix (''documents/'' @ take 2 token @ ''/'' @ token) key"
  by (auto simp: build_storage_key_def split: if_splits)

lemma clean_disk_fresh:
  assumes "clean_disk env fs" "build_storage_key (de_token env) file = Inr key"
  shows "map_of fs key = None"
  using assms(1) build_storage_key_prefix[OF assms(2)]
  by (auto simp: clean_disk_def list_all_iff map_of_eq_None_iff)

lemma save_then_outcome:
  assumes "save_then env key content rest before d fs = (out, d', fs')"
    and "clean_disk env fs" "map_of fs key = None"
  shows "case out of
      Inl e \<Rightarrow> d' = before \<and> map_of fs' = map_of fs
    | Inr x \<Rightarrow> rest d = Inr (x, d') \<and> local_materialize key fs' = Inr content \<and>
        map_of fs' = (map_of fs)(key \<mapsto> content)"
proof (cases "storage_key_valid key \<and> de_write env = WriteOk")
  case True
  have undo: "map_of (AList.delete key (AList.update key content fs)) = map_of fs"
    by (rule ext) (rule local_files.undo_save[OF assms(3)])
  have del: "snd (local_delete (de_delete_ok env) key (AList.update key content fs)) =
      AList.delete key (AList.update key content fs)"
    using True assms(2) by (simp add: local_delete_def validate_storage_key_def clean_disk_def)
  have save: "local_save WriteOk key content fs = (Inr (), AList.update key content fs)"
    using True by (simp add: local_save_fresh)
  show ?thesis
    using assms(1) True undo
    by (auto simp: save_then_def save del local_materialize_def validate_storage_key_def update_conv'
        split: sum.splits if_splits)
next
  case False
  then have "\<exists>e. local_save (de_write env) key content fs = (Inl e, fs)"
    using assms(2) by (auto simp: local_save_def validate_storage_key_def clean_disk_def)
  with assms(1) show ?thesis by (auto simp: save_then_def)
qed

subsection \<open>Uploads\<close>

text \<open>What the tables and the storage gain with an accepted upload.\<close>

definition uploaded :: "string \<Rightarrow> string \<Rightarrow> upload_response \<Rightarrow> db \<Rightarrow> files \<Rightarrow> db \<Rightarrow> files \<Rightarrow> bool" where
  "uploaded content hash r d fs d' fs' = (\<exists>x v j key.
     db_documents d' = db_documents d @ [x] \<and> doc_id x = ur_document_id r \<and> doc_status x = DocActive \<and>
     db_versions d' = db_versions d @ [v] \<and> ver_id v = ur_version_id r \<and> ver_document_id v = doc_id x \<and>
     ver_no v = 1 \<and> ver_content_hash v = hash \<and> fresh_version v \<and> ver_storage_key v = Some key \<and>
     db_jobs d' = db_jobs d @ [j] \<and> job_id j = ur_job_id r \<and> queued_ingest_of v j \<and>
     local_materialize key fs' = Inr content \<and> map_of fs' = (map_of fs)(key \<mapsto> content))"

lemma store_first_version_outcome:
  assumes s: "store_first_version env user title up key content metadata activation audit_it d fs = (out, d', fs')"
    and disk: "clean_disk env fs" "map_of fs key = None"
    and audit: "\<And>doc ver d. db_versions (audit_it doc ver d) = db_versions d \<and>
      db_documents (audit_it doc ver d) = db_documents d \<and> db_jobs (audit_it doc ver d) = db_jobs d"
  shows "case out of
      Inl e \<Rightarrow> d' = d \<and> map_of fs' = map_of fs
    | Inr r \<Rightarrow> uploaded content (de_sha256 env content) r d fs d' fs'"
proof (cases "create_logical_document user title (de_now env) d")
  case (Inl e)
  then show ?thesis using s by (auto simp: store_first_version_def)
next
  case (Inr p)
  then obtain x d1 where x: "create_logical_document user title (de_now env) d = Inr (x, d1)" by (cases p) auto
  show ?thesis
  proof (cases "create_version (doc_id x) 1 (de_sha256 env content) (up_file_name up)
            (up_mime_type up) (int (up_size up)) key user metadata (de_now env) d1")
    case (Inl e)
    then show ?thesis using s x by (auto simp: store_first_version_def)
  next
    case (Inr q)
    then obtain v d2 where v: "create_version (doc_id x) 1 (de_sha256 env content) (up_file_name up)
            (up_mime_type up) (int (up_size up)) key user metadata (de_now env) d1 = Inr (v, d2)" by (cases q) auto
    have st: "save_then env key content
            (\<lambda>d2. case create_ingest_job env user (doc_id x) (ver_id v) activation d2 of
               Inl e \<Rightarrow> Inl e
             | Inr (j, d3) \<Rightarrow> Inr (\<lparr>ur_document_id = doc_id x, ur_version_id = ver_id v,
                 ur_job_id = job_id j, ur_version_status = ver_status v,
                 ur_display_status = display_status x (Some v)\<rparr>,
                 audit_it (doc_id x) (ver_id v) d3)) d d2 fs = (out, d', fs')"
      using s x v by (simp add: store_first_version_def)
    show ?thesis
    proof (cases out)
      case (Inl e)
      then show ?thesis using save_then_outcome[OF st disk] by simp
    next
      case (Inr r)
      then obtain j d3 where j: "create_ingest_job env user (doc_id x) (ver_id v) activation d2 = Inr (j, d3)"
        and r: "ur_document_id r = doc_id x" "ur_version_id r = ver_id v" "ur_job_id r = job_id j"
        and d': "d' = audit_it (doc_id x) (ver_id v) d3"
        and f: "local_materialize key fs' = Inr content" "map_of fs' = (map_of fs)(key \<mapsto> content)"
        using save_then_outcome[OF st disk] by (auto split: sum.splits)
      have "uploaded content (de_sha256 env content) r d fs d' fs'"
        unfolding uploaded_def queued_ingest_of_def d'
        using create_logical_document_InrD[OF x] create_version_InrD[OF v] create_ingest_job_InrD[OF j] r f
        by (intro exI[of _ x] exI[of _ v] exI[of _ j] exI[of _ key]) (simp add: audit)
      with Inr show ?thesis by simp
    qed
  qed
qed

text \<open>
  C6: An upload is all or nothing. With a disk on which a failing write leaves no file and a
  deletion works, and a token that no stored file has, an upload that is refused at any point
  (the validation, the title, a constraint, the disk, the job, the commit) leaves the database
  and the files as they were; one that is accepted adds exactly one active document, its version 1,
  which is processing and not active and carries the hash of the content, one queued ingest
  job for that version, and the file, which is read back under the key of the version, and
  changes no other document, version, job or file.
\<close>

theorem upload_is_all_or_nothing:
  assumes "clean_disk env fs"
    and "upload_document env user title filename ctype content rid activation d fs = (out, d', fs')"
  shows "case out of
      Inl e \<Rightarrow> d' = d \<and> map_of fs' = map_of fs
    | Inr r \<Rightarrow> uploaded content (de_sha256 env content) r d fs d' fs'"
proof -
  consider (refused) e where "out = Inl e" "d' = d" "fs' = fs"
    | (stored) up title' key where "build_storage_key (de_token env) (up_file_name up) = Inr key"
      "store_first_version env user title' up key content None activation
              (\<lambda>doc ver. audited ''document.uploaded'' user rid ''document_version'' ver
                 [(''logical_document_id'', PInt doc), (''document_version_id'', PInt ver),
                  (''file_size_bytes'', PInt (int (up_size up))), (''mime_type'', PStr (up_mime_type up))])
              d fs = (out, d', fs')"
    using assms(2) by (auto simp: upload_document_def split: sum.splits)
  then show ?thesis
  proof cases
    case stored
    show ?thesis
      by (rule store_first_version_outcome[OF stored(2) assms(1) clean_disk_fresh[OF assms(1) stored(1)]]) simp
  qed simp
qed

lemma ingest_url_outcome:
  assumes "clean_disk env fs" "ingest_url env cfg tm user url title rid d fs = (out, d', fs')"
  shows "case out of
      Inl e \<Rightarrow> d' = d \<and> map_of fs' = map_of fs
    | Inr r \<Rightarrow> \<exists>content. uploaded content (de_sha256 env content) r d fs d' fs'"
proof (cases "d' = d \<and> fs' = fs \<and> isl out")
  case False
  then obtain up title' key content meta fetched where k: "build_storage_key (de_token env) (up_file_name up) = Inr key"
    and s: "store_first_version env user title' up key content (Some meta) None
              (\<lambda>doc ver. audited ''document.url_ingested'' user rid ''document_version'' ver
                 ([(''logical_document_id'', PInt doc), (''document_version_id'', PInt ver)] @ fetched))
              d fs = (out, d', fs')"
    using assms(2) by (auto simp: ingest_url_def split: sum.splits)
  have "case out of Inl e \<Rightarrow> d' = d \<and> map_of fs' = map_of fs
    | Inr r \<Rightarrow> uploaded content (de_sha256 env content) r d fs d' fs'"
    by (rule store_first_version_outcome[OF s assms(1) clean_disk_fresh[OF assms(1) k]]) simp
  then show ?thesis by (auto split: sum.splits)
qed (auto split: sum.splits)

subsection \<open>The activation an upload asks for\<close>

lemma sanitized_payload_never_activates:
  "\<not> evaluation_activation_requested (sanitize_job_payload p)"
proof
  assume "evaluation_activation_requested (sanitize_job_payload p)"
  then have "(''evaluation_corpus_activate'', PBool True) \<in> set (sanitize_job_payload p)"
    by (auto simp: evaluation_activation_requested_def dest: map_of_SomeD)
  then have "is_safe_payload_key ''evaluation_corpus_activate'' (PBool True)"
    using sanitize_job_payload_entry by blast
  moreover have "\<not> is_safe_payload_key ''evaluation_corpus_activate'' (PBool True)" by code_simp
  ultimately show False by simp
qed

lemma store_first_version_job:
  assumes "store_first_version env user title up key content meta act audit_it d fs = (Inr r, d', fs')"
    and "\<And>doc ver d. db_jobs (audit_it doc ver d) = db_jobs d"
  shows "\<exists>j p. db_jobs d' = db_jobs d @ [j] \<and> job_id j = ur_job_id r \<and>
    job_payload j = Some (sanitize_job_payload (Some p))"
proof -
  obtain x d1 v d2 where c: "create_logical_document user title (de_now env) d = Inr (x, d1)"
      "create_version (doc_id x) 1 (de_sha256 env content) (up_file_name up) (up_mime_type up)
         (int (up_size up)) key user meta (de_now env) d1 = Inr (v, d2)"
    and rest: "(case create_ingest_job env user (doc_id x) (ver_id v) act d2 of Inl e \<Rightarrow> Inl e
      | Inr (j, d3) \<Rightarrow> Inr (\<lparr>ur_document_id = doc_id x, ur_version_id = ver_id v,
          ur_job_id = job_id j, ur_version_status = ver_status v,
          ur_display_status = display_status x (Some v)\<rparr>, audit_it (doc_id x) (ver_id v) d3)) = Inr (r, d')"
    using assms(1) by (auto simp: store_first_version_def elim!: save_then_cases split: sum.splits prod.splits)
  then obtain j d3 where "create_ingest_job env user (doc_id x) (ver_id v) act d2 = Inr (j, d3)"
    "ur_job_id r = job_id j" "d' = audit_it (doc_id x) (ver_id v) d3"
    by (auto split: sum.splits)
  with create_logical_document_InrD[OF c(1)] create_version_InrD[OF c(2)] show ?thesis
    using create_ingest_job_InrD[of env user "doc_id x" "ver_id v" act d2 j d3] assms(2) by auto
qed

text \<open>
  C23: A requested activation is lost: whatever activation an accepted upload asks for, the
  job it queues does not carry the request, because the payload of a job keeps only the keys it
  knows and the flag is not among them; so the ingest handler, which looks for the flag in the
  payload, never activates the version of an evaluation source.
\<close>

theorem requested_activation_is_lost:
  assumes "upload_document env user title filename ctype content rid activation d fs = (Inr r, d', fs')"
  shows "\<exists>j. db_jobs d' = db_jobs d @ [j] \<and> job_id j = ur_job_id r \<and>
    \<not> evaluation_activation_requested (ctx_payload (context_from_job j worker))"
proof -
  obtain up title' key audit_it where
    "store_first_version env user title' up key content None activation audit_it d fs = (Inr r, d', fs')"
    "\<And>doc ver d. db_jobs (audit_it doc ver d) = db_jobs d"
    using assms by (auto simp: upload_document_def split: sum.splits)
  from store_first_version_job[OF this] show ?thesis
    using sanitized_payload_never_activates by (auto simp: context_from_job_def)
qed

subsection \<open>New versions of a document\<close>

lemma max_version_no_ge:
  assumes "v \<in> set (db_versions d)"
  shows "ver_no v \<le> max_version_no (ver_document_id v) d"
proof -
  have "ver_no v \<in> set (map ver_no (versions_of (ver_document_id v) d))"
    using assms by (simp add: versions_of_def)
  then show ?thesis
    by (cases "map ver_no (versions_of (ver_document_id v) d)")
       (use foldl_max_ge in \<open>auto simp: max_version_no_def\<close>)
qed

definition version_added :: "string \<Rightarrow> string \<Rightarrow> int \<Rightarrow> version_response \<Rightarrow> db \<Rightarrow> files \<Rightarrow> db \<Rightarrow> files \<Rightarrow> bool" where
  "version_added content hash doc r d fs d' fs' = (\<exists>v j key.
     r = VersionCreated (ver_id v) (ver_no v) (job_id j) (ver_status v) ShowProcessing \<and>
     db_versions d' = db_versions d @ [v] \<and> ver_document_id v = doc \<and> ver_content_hash v = hash \<and>
     ver_no v = max_version_no doc d + 1 \<and> fresh_version v \<and> ver_storage_key v = Some key \<and>
     db_jobs d' = db_jobs d @ [j] \<and> queued_ingest_of v j \<and>
     local_materialize key fs' = Inr content \<and> map_of fs' = (map_of fs)(key \<mapsto> content))"

lemma touch_document_InrD:
  "touch_document i now d = Inr d' \<Longrightarrow> db_versions d' = db_versions d \<and> db_jobs d' = db_jobs d"
  unfolding touch_document_def by (drule update_document_InrD) auto

lemma store_next_version_outcome:
  assumes s: "store_next_version env user x up key content rid d fs = (out, d', fs')" "doc_status x = DocActive"
    and disk: "clean_disk env fs" "map_of fs key = None"
  shows "case out of
      Inl e \<Rightarrow> d' = d \<and> map_of fs' = map_of fs
    | Inr r \<Rightarrow> version_added content (de_sha256 env content) (doc_id x) r d fs d' fs'"
proof -
  let ?cv = "create_version (doc_id x) (max_version_no (doc_id x) d + 1) (de_sha256 env content)
        (up_file_name up) (up_mime_type up) (int (up_size up)) key user None (de_now env) d"
  consider (refused) e where "out = Inl e" "d' = d" "fs' = fs"
    | (stored) v d1 d2 rest where "?cv = Inr (v, d1)" "touch_document (doc_id x) (de_now env) d1 = Inr d2"
      "rest = (\<lambda>d2. case create_ingest_job env user (doc_id x) (ver_id v) None d2 of
               Inl e \<Rightarrow> Inl e
             | Inr (j, d3) \<Rightarrow> Inr (VersionCreated (ver_id v) (ver_no v) (job_id j) (ver_status v)
                 (display_status x (Some v)),
                 audited ''document.version_added'' user rid ''document_version'' (ver_id v)
                   [(''logical_document_id'', PInt (doc_id x)), (''document_version_id'', PInt (ver_id v)),
                    (''version_no'', PInt (ver_no v)), (''file_size_bytes'', PInt (int (up_size up))),
                    (''mime_type'', PStr (up_mime_type up))] d3))"
      "save_then env key content rest d d2 fs = (out, d', fs')"
    using s(1) by (auto simp: store_next_version_def Let_def split: sum.splits)
  then show ?thesis
  proof cases
    case stored
    show ?thesis
    proof (cases out)
      case (Inl e)
      then show ?thesis using save_then_outcome[OF stored(4) disk] by simp
    next
      case (Inr r)
      then obtain j d3 where j: "create_ingest_job env user (doc_id x) (ver_id v) None d2 = Inr (j, d3)"
        and r: "r = VersionCreated (ver_id v) (ver_no v) (job_id j) (ver_status v) (display_status x (Some v))"
        and d': "db_versions d' = db_versions d3" "db_jobs d' = db_jobs d3"
        and f: "local_materialize key fs' = Inr content" "map_of fs' = (map_of fs)(key \<mapsto> content)"
        using save_then_outcome[OF stored(4) disk] stored(3) by (auto split: sum.splits)
      have disp: "fresh_version v \<Longrightarrow> display_status x (Some v) = ShowProcessing"
        using s(2) by (simp add: display_status_def fresh_version_def)
      have "version_added content (de_sha256 env content) (doc_id x) r d fs d' fs'"
        unfolding version_added_def queued_ingest_of_def d' r
        using create_version_InrD[OF stored(1)] touch_document_InrD[OF stored(2)] create_ingest_job_InrD[OF j] f disp
        by (intro exI[of _ v] exI[of _ j] exI[of _ key]) simp
      with Inr show ?thesis by simp
    qed
  qed simp
qed

text \<open>
  Adding a version is all or nothing, like an upload. A content that the document already
  has is reported as the existing version, and nothing is stored or queued. Any other accepted
  content becomes one new version, whose number is one more than the highest and whose hash no
  other version of the document has, processing and not active, with its file and one queued
  ingest job; an existing version is never changed.
\<close>

theorem new_versions_are_numbered_upwards:
  assumes "clean_disk env fs"
    and "add_version env user doc filename ctype content rid d fs = (out, d', fs')"
  shows "case out of
      Inl e \<Rightarrow> d' = d \<and> map_of fs' = map_of fs
    | Inr r \<Rightarrow>
        if \<exists>v\<in>set (versions_of doc d). ver_content_hash v = de_sha256 env content
        then (\<exists>v\<in>set (versions_of doc d). ver_content_hash v = de_sha256 env content \<and>
            r = DuplicateSkipped (ver_id v) (ver_no v)) \<and>
          docs_part d' = docs_part d \<and> db_jobs d' = db_jobs d \<and> fs' = fs
        else version_added content (de_sha256 env content) doc r d fs d' fs' \<and>
          (\<forall>v\<in>set (versions_of doc d). ver_no v < max_version_no doc d + 1)"
proof (cases "isl out \<and> d' = d \<and> fs' = fs")
  case False
  then obtain x up where x: "get_document doc d = Some x" "doc_status x \<noteq> DocArchived"
    and v: "validate_upload (de_parsers env) filename ctype content (de_upload_max_bytes env)
      (de_allowed_extensions env) = Inr up"
    using assms(2) by (auto simp: add_version_def split: option.splits if_splits sum.splits)
  have num: "\<forall>v\<in>set (versions_of doc d). ver_no v < max_version_no doc d + 1"
    using max_version_no_ge by (force simp: versions_of_def)
  show ?thesis
  proof (cases "get_version_by_hash doc (de_sha256 env content) d")
    case (Some dup)
    then have "dup \<in> set (versions_of doc d)" "ver_content_hash dup = de_sha256 env content"
      by (auto simp: get_version_by_hash_def versions_of_def find_Some_iff in_set_conv_nth)
    then show ?thesis
      using assms(2) False x v Some by (auto simp: add_version_def split: if_splits)
  next
    case None
    then have none: "\<not> (\<exists>v\<in>set (versions_of doc d). ver_content_hash v = de_sha256 env content)"
      by (auto simp: get_version_by_hash_def versions_of_def find_None_iff)
    obtain key where k: "build_storage_key (de_token env) (up_file_name up) = Inr key"
      and s: "store_next_version env user x up key content rid d fs = (out, d', fs')"
      using assms(2) False x v None by (auto simp: add_version_def split: sum.splits)
    have "doc_id x = doc" "doc_status x = DocActive"
      using get_documentD[OF x(1)] x(2) dstatus.exhaust by auto
    then show ?thesis
      using store_next_version_outcome[OF s _ assms(1) clean_disk_fresh[OF assms(1) k]] none num
      by (cases out) auto
  qed
qed (auto split: sum.splits)

subsection \<open>A concrete upload\<close>

lemma ex_upload_checks:
  "validate_upload (de_parsers ex_doc_env) (Some ''a.txt'') (Some ''text/plain'') ''hi''
     (de_upload_max_bytes ex_doc_env) (de_allowed_extensions ex_doc_env) =
     Inr \<lparr>up_file_name = ''a.txt'', up_extension = ''.txt'', up_mime_type = ''text/plain'', up_size = 2\<rparr>"
  "normalize_document_title None (safe_title_from_file_name ''a.txt'') = Inr ''a''"
  "build_storage_key (de_token ex_doc_env) ''a.txt'' = Inr ''documents/t0/t0_a.txt''"
  "storage_key_valid ''documents/t0/t0_a.txt''"
  by code_simp+

lemma create_ingest_job_succeeds:
  assumes "jobs_ready d" "ingest_payload doc ver user activation = Inr p"
  shows "\<exists>r. create_ingest_job env user doc ver activation d = Inr r"
proof -
  obtain j d' where "create_job ''document_ingest'' (Some ''document_version'') (Some ver) (Some p)
      (Some user) 100 (de_now env) d = Inr (j, d')"
    using create_job_succeeds[OF assms(1), of "''document_ingest''" 100 "Some ''document_version''" "Some ver"
        "Some p" "Some user" "de_now env"]
    by (force simp: message_edit_type_def)
  then show ?thesis by (simp add: create_ingest_job_def lift_job_def assms(2))
qed

lemma save_then_succeeds:
  assumes "storage_key_valid key" "de_write env = WriteOk" "de_commit_ok env" "rest d = Inr (x, d')"
  shows "save_then env key content rest before d fs = (Inr x, d', AList.update key content fs)"
  using assms by (simp add: save_then_def local_save_fresh)

lemma ex_upload_documents:
  "documents_ok (db_documents ex_docs_db @ [\<lparr>doc_id = db_next_document_id ex_docs_db, doc_owner_user_id = 1,
     doc_title = ''a'', doc_status = DocActive, doc_archived_at = None, doc_created_at = de_now ex_doc_env,
     doc_updated_at = de_now ex_doc_env\<rparr>])"
  by (simp add: ex_docs_defs documents_ok_def ck_document_def btrim_def strip_by_def)

lemma ex_upload_versions:
  "\<exists>v d2. create_version 2 1 (de_sha256 ex_doc_env ''hi'') ''a.txt'' ''text/plain'' 2 ''documents/t0/t0_a.txt'' 1 None
     (de_now ex_doc_env) (ex_docs_db\<lparr>db_documents := ds, db_next_document_id := n\<rparr>) = Inr (v, d2) \<and> jobs_ready d2"
proof -
  have "versions_ok (db_versions ex_docs_db)" using ex_docs_inv by (simp add: docs_inv_def docs_base_def)
  moreover have "ck_version \<lparr>ver_id = 4, ver_document_id = 2, ver_no = 1,
        ver_content_hash = replicate 64 CHR ''e'', ver_status = VProcessing, ver_is_active = False,
        ver_error_code = None, ver_file_name = ''a.txt'', ver_mime_type = ''text/plain'',
        ver_file_size_bytes = 2, ver_storage_key = Some ''documents/t0/t0_a.txt'', ver_metadata = None,
        ver_page_count = None, ver_extractor_name = None, ver_extractor_version = None,
        ver_created_by = 1, ver_created_at = 50, ver_updated_at = 50\<rparr>"
    by (simp add: ex_version_checks)
  ultimately show ?thesis
    using ex_docs_ready
    by (auto simp: create_version_def put_versions_def Let_def versions_ok_def ux_one_active_def ex_doc_env_def
        jobs_ready_def job_ids_below_next_def ex_docs_db_def ex_version_def)
qed

lemma ex_accepted_upload:
  "\<exists>r d' fs'. upload_document ex_doc_env 1 None (Some ''a.txt'') (Some ''text/plain'') ''hi'' None (Some (Some 4))
     ex_docs_db [] = (Inr r, d', fs')"
proof -
  obtain v d2 where v: "create_version 2 1 (de_sha256 ex_doc_env ''hi'') ''a.txt'' ''text/plain'' 2
     ''documents/t0/t0_a.txt'' 1 None (de_now ex_doc_env)
     (ex_docs_db\<lparr>db_documents := db_documents ex_docs_db @ [\<lparr>doc_id = db_next_document_id ex_docs_db,
        doc_owner_user_id = 1, doc_title = ''a'', doc_status = DocActive, doc_archived_at = None,
        doc_created_at = de_now ex_doc_env, doc_updated_at = de_now ex_doc_env\<rparr>],
        db_next_document_id := 3\<rparr>) = Inr (v, d2)" "jobs_ready d2"
    using ex_upload_versions by blast
  obtain p where "ingest_payload 2 (ver_id v) 1 (Some (Some 4)) = Inr p" by (simp add: ingest_payload_def)
  then obtain j d3 where j: "create_ingest_job ex_doc_env 1 2 (ver_id v) (Some (Some 4)) d2 = Inr (j, d3)"
    using create_ingest_job_succeeds[OF v(2)] by fastforce
  have n: "db_next_document_id ex_docs_db = 2" by (simp add: ex_docs_db_def)
  have env: "de_write ex_doc_env = WriteOk" "de_commit_ok ex_doc_env" by (simp_all add: ex_doc_env_def)
  show ?thesis
    using v(1) j ex_upload_documents
    by (simp add: upload_document_def ex_upload_checks store_first_version_def create_logical_document_def
        put_documents_def Let_def n save_then_succeeds[OF ex_upload_checks(4) env])
qed

theorem upload_is_all_or_nothing_witness:
  "\<exists>r d' fs'. upload_document ex_doc_env 1 None (Some ''a.txt'') (Some ''text/plain'') ''hi'' None (Some (Some 4))
     ex_docs_db [] = (Inr r, d', fs') \<and> uploaded ''hi'' (replicate 64 CHR ''e'') r ex_docs_db [] d' fs'"
proof -
  obtain r d' fs' where u: "upload_document ex_doc_env 1 None (Some ''a.txt'') (Some ''text/plain'') ''hi'' None
      (Some (Some 4)) ex_docs_db [] = (Inr r, d', fs')"
    using ex_accepted_upload by blast
  have "clean_disk ex_doc_env []" "de_sha256 ex_doc_env ''hi'' = replicate 64 CHR ''e''"
    by (simp_all add: clean_disk_def ex_doc_env_def)
  with upload_is_all_or_nothing[OF _ u] u show ?thesis by auto
qed

theorem requested_activation_is_lost_witness:
  "\<exists>r d' fs' j. upload_document ex_doc_env 1 None (Some ''a.txt'') (Some ''text/plain'') ''hi'' None (Some (Some 4))
     ex_docs_db [] = (Inr r, d', fs') \<and> job_id j = ur_job_id r \<and>
     \<not> evaluation_activation_requested (ctx_payload (context_from_job j ''w1''))"
proof -
  obtain r d' fs' where u: "upload_document ex_doc_env 1 None (Some ''a.txt'') (Some ''text/plain'') ''hi'' None
      (Some (Some 4)) ex_docs_db [] = (Inr r, d', fs')"
    using ex_accepted_upload by blast
  from requested_activation_is_lost[OF u] u show ?thesis by blast
qed

lemma ex_duplicate:
  "\<exists>d'. add_version (ex_doc_env\<lparr>de_sha256 := \<lambda>_. replicate 64 CHR ''b''\<rparr>) 1 1 (Some ''a.txt'') (Some ''text/plain'')
     ''hi'' None ex_docs_db [] = (Inr (DuplicateSkipped 2 2), d', [])"
  using ex_upload_checks(1)
  by (simp add: add_version_def get_document_def get_version_by_hash_def ex_docs_defs ex_doc_env_def)

theorem new_versions_are_numbered_upwards_witness:
  "\<exists>d'. add_version (ex_doc_env\<lparr>de_sha256 := \<lambda>_. replicate 64 CHR ''b''\<rparr>) 1 1 (Some ''a.txt'') (Some ''text/plain'')
     ''hi'' None ex_docs_db [] = (Inr (DuplicateSkipped 2 2), d', []) \<and> db_jobs d' = db_jobs ex_docs_db"
proof -
  let ?env = "ex_doc_env\<lparr>de_sha256 := \<lambda>_. replicate 64 CHR ''b''\<rparr>"
  obtain d' where a: "add_version ?env 1 1 (Some ''a.txt'') (Some ''text/plain'') ''hi'' None ex_docs_db [] =
      (Inr (DuplicateSkipped 2 2), d', [])" using ex_duplicate by blast
  have "clean_disk ?env []" by (simp add: clean_disk_def ex_doc_env_def)
  from new_versions_are_numbered_upwards[OF this a] a show ?thesis
    by (auto simp: version_added_def split: if_splits)
qed

end
