(* ===== verification/Retrieval_Strategy.thy ===== *)
theory Retrieval_Strategy
  imports Py_Prelude
begin

section \<open>Retrieval strategies and their settings\<close>

text \<open>
  The enumerations of \<open>backend/app/rag/strategy.py\<close> with their texts, and the settings of the
  router and of the bounded retrieval loop from \<open>core/config.py\<close>. The validators of the
  settings are the predicate \<open>router_settings_ok\<close>.
\<close>

subsection \<open>Strategies\<close>

datatype retrieval_strategy = StratDense | StratSparse | StratHybrid | StratGraph | StratMultiQueryDense
  | StratMultiQueryHybrid | StratMetadataFiltered | StratVersionAware | StratAgenticRouter
  | StratLlmToolOrchestrator | StratLangchainAgentic | StratLanggraphAgentic | StratFallbackDense

fun strategy_text :: "retrieval_strategy \<Rightarrow> string" where
  "strategy_text StratDense = ''dense''"
| "strategy_text StratSparse = ''sparse''"
| "strategy_text StratHybrid = ''hybrid''"
| "strategy_text StratGraph = ''graph''"
| "strategy_text StratMultiQueryDense = ''multi_query_dense''"
| "strategy_text StratMultiQueryHybrid = ''multi_query_hybrid''"
| "strategy_text StratMetadataFiltered = ''metadata_filtered''"
| "strategy_text StratVersionAware = ''version_aware''"
| "strategy_text StratAgenticRouter = ''agentic_router''"
| "strategy_text StratLlmToolOrchestrator = ''llm_tool_orchestrator''"
| "strategy_text StratLangchainAgentic = ''langchain_agentic''"
| "strategy_text StratLanggraphAgentic = ''langgraph_agentic''"
| "strategy_text StratFallbackDense = ''fallback_dense''"

definition all_strategies :: "retrieval_strategy list" where
  "all_strategies = [StratDense, StratSparse, StratHybrid, StratGraph, StratMultiQueryDense,
     StratMultiQueryHybrid, StratMetadataFiltered, StratVersionAware, StratAgenticRouter,
     StratLlmToolOrchestrator, StratLangchainAgentic, StratLanggraphAgentic, StratFallbackDense]"

text \<open>\<open>RetrievalStrategy(value)\<close>, \<open>None\<close> where it raises.\<close>

definition strategy_of_text :: "string \<Rightarrow> retrieval_strategy option" where
  "strategy_of_text s = find (\<lambda>x. strategy_text x = s) all_strategies"

lemma strategy_text_inj: "strategy_text s = strategy_text s' \<Longrightarrow> s = s'"
  by (cases s; cases s') simp_all

lemma strategy_of_text_text [simp]: "strategy_of_text (strategy_text s) = Some s"
  by (cases s) (simp_all add: strategy_of_text_def all_strategies_def)

lemma strategy_of_text_Some: "strategy_of_text v = Some s \<Longrightarrow> v = strategy_text s"
  by (auto simp: strategy_of_text_def find_Some_iff)

datatype query_intent = FactualLookup | Procedural | Comparison | Summarization | Troubleshooting
  | DefinitionIntent | VersionSpecific | UnknownIntent

fun intent_text :: "query_intent \<Rightarrow> string" where
  "intent_text FactualLookup = ''factual_lookup''"
| "intent_text Procedural = ''procedural''"
| "intent_text Comparison = ''comparison''"
| "intent_text Summarization = ''summarization''"
| "intent_text Troubleshooting = ''troubleshooting''"
| "intent_text DefinitionIntent = ''definition''"
| "intent_text VersionSpecific = ''version_specific''"
| "intent_text UnknownIntent = ''unknown''"

subsection \<open>Settings\<close>

record router_settings =
  rs_enabled :: bool
  rs_mode :: string
  rs_allow_search :: bool
  rs_allow_ask :: bool
  rs_keyword_threshold :: rat
  rs_ambiguity_threshold :: rat
  rs_max_calls :: int
  rs_max_fallback_calls :: int
  rs_min_candidates :: int
  rs_min_selected :: int
  rs_top_threshold :: rat
  rs_fallback_hybrid :: bool
  rs_fallback_dense :: bool
  rs_no_context :: bool
  rs_fallback_strategy :: string
  rs_store_trace :: bool
  rs_sparse_enabled :: bool
  rs_hybrid_enabled :: bool
  rs_sparse_weight :: rat

definition unit_rat :: "rat \<Rightarrow> bool" where
  "unit_rat x = (0 \<le> x \<and> x \<le> 1)"

definition router_settings_ok :: "router_settings \<Rightarrow> bool" where
  "router_settings_ok st =
     (rs_mode st \<in> {''rule_based'', ''llm''} \<and> rs_fallback_strategy st \<in> {''dense'', ''fallback_dense''} \<and>
      unit_rat (rs_keyword_threshold st) \<and> unit_rat (rs_ambiguity_threshold st) \<and>
      unit_rat (rs_top_threshold st) \<and> unit_rat (rs_sparse_weight st) \<and>
      1 \<le> rs_max_calls st \<and> rs_max_calls st \<le> 3 \<and> 0 \<le> rs_max_fallback_calls st \<and>
      rs_max_fallback_calls st \<le> 2 \<and> rs_max_fallback_calls st \<le> rs_max_calls st - 1 \<and>
      1 \<le> rs_min_candidates st \<and> rs_min_candidates st \<le> 20 \<and> 1 \<le> rs_min_selected st \<and>
      rs_min_selected st \<le> 20 \<and> rs_min_selected st \<le> rs_min_candidates st)"

definition configured_fallback :: "router_settings \<Rightarrow> retrieval_strategy" where
  "configured_fallback st = (if rs_fallback_strategy st = ''dense'' then StratDense else StratFallbackDense)"

text \<open>Hybrid retrieval needs the sparse one unless its weight is not positive.\<close>

definition hybrid_runs :: "router_settings \<Rightarrow> bool" where
  "hybrid_runs st = (rs_sparse_weight st \<le> 0 \<or> rs_sparse_enabled st)"

end
