(* ===== verification/Json_Text.thy ===== *)
theory Json_Text
  imports Py_Prelude "HOL-Library.List_Lexorder" "HOL-Library.Char_ord"
begin

section \<open>JSON texts\<close>

text \<open>
  Python's \<open>json.dumps\<close> as the program calls it where it hashes a value: with sorted keys,
  the compact separators, and every character outside the printable ASCII range escaped. The
  text of a float is \<open>float.__repr__\<close> and an argument. A value of bytes is not
  serializable: it has no equation. The main lemma says that two values without floats have the
  same text only when they are equal up to the order of their keys.
\<close>

subsection \<open>Strings\<close>

definition hex_digit :: "nat \<Rightarrow> char" where
  "hex_digit n = ''0123456789abcdef'' ! n"

definition json_char :: "char \<Rightarrow> string" where
  "json_char c = (let n = code_point c in
     if n = 34 then [CHR 0x5C, CHR 0x22]
     else if n = 92 then [CHR 0x5C, CHR 0x5C]
     else if n = 10 then [CHR 0x5C, CHR ''n'']
     else if n = 13 then [CHR 0x5C, CHR ''r'']
     else if n = 9 then [CHR 0x5C, CHR ''t'']
     else if n = 12 then [CHR 0x5C, CHR ''f'']
     else if n = 8 then [CHR 0x5C, CHR ''b'']
     else if 32 \<le> n \<and> n \<le> 126 then [c]
     else [CHR 0x5C, CHR ''u'', CHR ''0'', CHR ''0'', hex_digit (n div 16), hex_digit (n mod 16)])"

definition json_str :: "string \<Rightarrow> string" where
  "json_str s = CHR 0x22 # concat (map json_char s) @ [CHR 0x22]"

subsection \<open>Values\<close>

text \<open>The keys of every object in order.\<close>

fun sort_keys :: "pyval \<Rightarrow> pyval" where
  "sort_keys (PList vs) = PList (map sort_keys vs)"
| "sort_keys (PDict d) = PDict (sort_key fst (map (\<lambda>(k, v). (k, sort_keys v)) d))"
| "sort_keys v = v"

fun json_text :: "(pyfloat \<Rightarrow> string) \<Rightarrow> pyval \<Rightarrow> string"
  and json_items :: "(pyfloat \<Rightarrow> string) \<Rightarrow> pyval list \<Rightarrow> string"
  and json_pairs :: "(pyfloat \<Rightarrow> string) \<Rightarrow> (string \<times> pyval) list \<Rightarrow> string" where
  "json_text rep PNone = ''null''"
| "json_text rep (PBool b) = (if b then ''true'' else ''false'')"
| "json_text rep (PInt i) = int_str i"
| "json_text rep (PFloat x) = rep x"
| "json_text rep (PStr s) = json_str s"
| "json_text rep (PList vs) = (case vs of [] \<Rightarrow> ''[]'' | v # ws \<Rightarrow> ''['' @ json_text rep v @ json_items rep ws)"
| "json_text rep (PDict d) = (case d of [] \<Rightarrow> ''{}''
     | (k, v) # e \<Rightarrow> ''{'' @ json_str k @ '':'' @ json_text rep v @ json_pairs rep e)"
| "json_items rep [] = '']''"
| "json_items rep (v # vs) = '','' @ json_text rep v @ json_items rep vs"
| "json_pairs rep [] = ''}''"
| "json_pairs rep ((k, v) # d) = '','' @ json_str k @ '':'' @ json_text rep v @ json_pairs rep d"

definition json_dumps :: "(pyfloat \<Rightarrow> string) \<Rightarrow> pyval \<Rightarrow> string" where
  "json_dumps rep v = json_text rep (sort_keys v)"

subsection \<open>Strings delimit themselves\<close>

definition hex_value :: "char \<Rightarrow> nat" where
  "hex_value c = length (takeWhile (\<lambda>d. d \<noteq> c) ''0123456789abcdef'')"

lemma hex_value_digit:
  assumes "n < 16"
  shows "hex_value (hex_digit n) = n"
proof -
  have "list_all (\<lambda>n. hex_value (hex_digit n) = n) [0..<16]" by code_simp
  with assms show ?thesis by (simp add: list_all_iff)
qed

text \<open>Reading one escaped character back.\<close>

definition unescape :: "char \<Rightarrow> char" where
  "unescape c = (if c = CHR ''n'' then CHR 0x0A else if c = CHR ''r'' then CHR 0x0D
     else if c = CHR ''t'' then CHR 0x09 else if c = CHR ''f'' then CHR 0x0C
     else if c = CHR ''b'' then CHR 0x08 else c)"

fun read_char :: "string \<Rightarrow> (char \<times> string) option" where
  "read_char (c # s) = (if c \<noteq> CHR 0x5C then Some (c, s) else (case s of
       [] \<Rightarrow> None
     | d # t \<Rightarrow> if d \<noteq> CHR ''u'' then Some (unescape d, t) else (case t of
           _ # _ # h # l # rest \<Rightarrow> Some (char_of (16 * hex_value h + hex_value l), rest) | _ \<Rightarrow> None)))"
| "read_char [] = None"

lemma escaped_chars:
  "char_of (34::nat) = CHR 0x22" "char_of (92::nat) = CHR 0x5C" "char_of (10::nat) = CHR 0x0A"
  "char_of (13::nat) = CHR 0x0D" "char_of (9::nat) = CHR 0x09" "char_of (12::nat) = CHR 0x0C"
  "char_of (8::nat) = CHR 0x08"
  by code_simp+

lemma read_json_char: "read_char (json_char c @ r) = Some (c, r)"
proof -
  let ?n = "code_point c"
  have k: "?n = k \<Longrightarrow> c = char_of k" for k by (auto simp: code_point_def)
  note c = k[of 34, unfolded escaped_chars] k[of 92, unfolded escaped_chars] k[of 10, unfolded escaped_chars]
    k[of 13, unfolded escaped_chars] k[of 9, unfolded escaped_chars] k[of 12, unfolded escaped_chars]
    k[of 8, unfolded escaped_chars]
  show ?thesis
  proof (cases "?n \<in> {34, 92, 10, 13, 9, 12, 8} \<or> 32 \<le> ?n \<and> ?n \<le> 126")
    case True
    then consider "?n = 34" | "?n = 92" | "?n = 10" | "?n = 13" | "?n = 9" | "?n = 12" | "?n = 8"
      | "?n \<notin> {34, 92, 10, 13, 9, 12, 8}" "32 \<le> ?n \<and> ?n \<le> 126" by blast
    then show ?thesis
    proof cases
      case 1 show ?thesis by (simp add: json_char_def code_point_def c(1)[OF 1] unescape_def)
    next
      case 2 show ?thesis by (simp add: json_char_def code_point_def c(2)[OF 2] unescape_def)
    next
      case 3 show ?thesis by (simp add: json_char_def code_point_def c(3)[OF 3] unescape_def)
    next
      case 4 show ?thesis by (simp add: json_char_def code_point_def c(4)[OF 4] unescape_def)
    next
      case 5 show ?thesis by (simp add: json_char_def code_point_def c(5)[OF 5] unescape_def)
    next
      case 6 show ?thesis by (simp add: json_char_def code_point_def c(6)[OF 6] unescape_def)
    next
      case 7 show ?thesis by (simp add: json_char_def code_point_def c(7)[OF 7] unescape_def)
    next
      case 8
      then have "json_char c = [c]" by (simp add: json_char_def Let_def)
      moreover have "c \<noteq> CHR 0x5C" using 8(1) by (auto simp: code_point_def)
      ultimately show ?thesis by simp
    qed
  next
    case False
    have "?n < 256" using nat_of_char_less_256[of c] unfolding code_point_def .
    then have "hex_value (hex_digit (?n div 16)) = ?n div 16" "hex_value (hex_digit (?n mod 16)) = ?n mod 16"
      by (simp_all add: hex_value_digit div_less_iff_less_mult)
    moreover have "char_of (16 * (?n div 16) + ?n mod 16) = c" by (simp add: code_point_def)
    ultimately show ?thesis using False by (auto simp: json_char_def Let_def)
  qed
qed

lemma json_char_quote: "hd (json_char c) \<noteq> CHR 0x22" "json_char c \<noteq> []"
  by (auto simp: json_char_def Let_def code_point_def)

lemma json_char_head: obtains d ds where "json_char c = d # ds" "d \<noteq> CHR 0x22"
  using json_char_quote[of c] by (cases "json_char c") auto

lemma json_str_delimits:
  assumes "json_str s @ r = json_str t @ q"
  shows "s = t \<and> r = q"
proof -
  have ind: "concat (map json_char s) @ CHR 0x22 # r = concat (map json_char t) @ CHR 0x22 # q \<Longrightarrow> s = t \<and> r = q" for s t
  proof (induction s arbitrary: t)
    case Nil
    show ?case
    proof (cases t)
      case (Cons d u)
      obtain e es where "json_char d = e # es" "e \<noteq> CHR 0x22" by (rule json_char_head)
      with Nil Cons show ?thesis by simp
    qed (use Nil in simp)
  next
    case (Cons c s)
    show ?case
    proof (cases t)
      case Nil
      obtain e es where "json_char c = e # es" "e \<noteq> CHR 0x22" by (rule json_char_head)
      with Cons.prems Nil show ?thesis by simp
    next
      case (Cons d u)
      have "read_char (json_char c @ concat (map json_char s) @ CHR 0x22 # r) =
          read_char (json_char d @ concat (map json_char u) @ CHR 0x22 # q)"
        using Cons.prems Cons by simp
      then have "c = d" "concat (map json_char s) @ CHR 0x22 # r = concat (map json_char u) @ CHR 0x22 # q"
        unfolding read_json_char by blast+
      from this(1) Cons.IH[OF this(2)] Cons show ?thesis by blast
    qed
  qed
  have "concat (map json_char s) @ CHR 0x22 # r = concat (map json_char t) @ CHR 0x22 # q"
    using assms by (simp add: json_str_def)
  then show ?thesis by (rule ind)
qed

subsection \<open>Numbers\<close>

definition num_char :: "char \<Rightarrow> bool" where
  "num_char c = (py_isdigit c \<or> c = CHR ''-'')"

definition delimited :: "string \<Rightarrow> bool" where
  "delimited r = (r = [] \<or> hd r \<in> set '',]}'')"

lemma int_str_num: "list_all num_char (int_str i)" "int_str i \<noteq> []"
  using nat_str_digits[of "nat i"] nat_str_digits[of "nat (- i)"]
  by (auto simp: int_str_def num_char_def list_all_iff)

lemma hd_int_str: "num_char (hd (int_str i))"
  using int_str_num[of i] by (cases "int_str i") auto

lemma num_char_letters [simp]:
  "\<not> num_char CHR '',''" "\<not> num_char CHR '']''" "\<not> num_char CHR ''}''" "\<not> num_char CHR ''n''"
  "\<not> num_char CHR ''t''" "\<not> num_char CHR ''f''" "\<not> num_char CHR ''[''" "\<not> num_char CHR ''{''" "\<not> num_char CHR 0x22"
  by code_simp+

lemma int_str_delimits:
  assumes "int_str i @ r = int_str j @ q" "delimited r" "delimited q"
  shows "i = j \<and> r = q"
proof -
  have stop: "takeWhile num_char (int_str k @ x) = int_str k" if "delimited x" for k x
    using that int_str_num(1)[of k]
    by (cases x) (auto simp: delimited_def takeWhile_append list_all_iff)
  have "int_str i = int_str j" using stop[OF assms(2), of i] stop[OF assms(3), of j] assms(1) by simp
  then have "parse_int (int_str i) = parse_int (int_str j)" by simp
  with assms(1) show ?thesis by simp
qed

subsection \<open>Values\<close>

fun json_plain :: "pyval \<Rightarrow> bool" where
  "json_plain (PFloat x) = False"
| "json_plain (PBytes b) = False"
| "json_plain (PList vs) = list_all json_plain vs"
| "json_plain (PDict d) = list_all (\<lambda>(k, v). json_plain v) d"
| "json_plain v = True"

lemma hd_json_text:
  assumes "json_plain v"
  shows "json_text rep v \<noteq> [] \<and> hd (json_text rep v) \<notin> set '',]}''"
proof -
  have num: "c \<notin> set '',]}''" if "num_char c" for c using that by auto
  have pos: "int_str i \<noteq> [] \<and> hd (int_str i) \<notin> set '',]}''" for i
    using num[OF hd_int_str] int_str_num(2) by blast
  show ?thesis
  proof (cases v)
    case (PInt i)
    then show ?thesis using pos by simp
  qed (use assms in \<open>auto simp: json_str_def split: list.split\<close>)
qed

lemma delimited_rest [simp]:
  "delimited (json_items rep vs @ r)" "delimited (json_pairs rep d @ r)"
  by (cases vs; simp add: delimited_def) (cases d; auto simp: delimited_def)

text \<open>The first character of a text tells the kind of its value.\<close>

fun json_kind :: "pyval \<Rightarrow> nat" where
  "json_kind PNone = 0" | "json_kind (PBool _) = 1" | "json_kind (PInt _) = 2" | "json_kind (PStr _) = 3"
| "json_kind (PList _) = 4" | "json_kind (PDict _) = 5" | "json_kind _ = 6"

definition kind_of_char :: "char \<Rightarrow> nat" where
  "kind_of_char c = (if num_char c then 2 else if c = CHR ''n'' then 0 else if c \<in> set ''tf'' then 1
     else if c = CHR 0x22 then 3 else if c = CHR ''['' then 4 else 5)"

lemma kind_of_text: "json_plain v \<Longrightarrow> kind_of_char (hd (json_text rep v @ r)) = json_kind v"
  using hd_int_str int_str_num(2)
  by (cases v) (auto simp: kind_of_char_def json_str_def hd_append split: list.split)

lemma same_kind:
  "json_plain v \<Longrightarrow> json_plain w \<Longrightarrow> json_text rep v @ r = json_text rep w @ q \<Longrightarrow> json_kind v = json_kind w"
  using kind_of_text by metis

lemma json_delimits:
  "json_plain v \<Longrightarrow> json_plain w \<Longrightarrow> delimited r \<Longrightarrow> delimited q \<Longrightarrow>
     json_text rep v @ r = json_text rep w @ q \<Longrightarrow> v = w \<and> r = q"
  "list_all json_plain vs \<Longrightarrow> list_all json_plain ws \<Longrightarrow> delimited r \<Longrightarrow> delimited q \<Longrightarrow>
     json_items rep vs @ r = json_items rep ws @ q \<Longrightarrow> vs = ws \<and> r = q"
  "list_all (\<lambda>(k, v). json_plain v) d \<Longrightarrow> list_all (\<lambda>(k, v). json_plain v) e \<Longrightarrow> delimited r \<Longrightarrow> delimited q \<Longrightarrow>
     json_pairs rep d @ r = json_pairs rep e @ q \<Longrightarrow> d = e \<and> r = q"
proof (induction rep v and rep vs and rep d arbitrary: w r q and ws r q and e r q
    rule: json_text_json_items_json_pairs.induct)
  case (1 rep)
  then show ?case using same_kind[OF 1(1,2,5)] by (cases w) auto
next
  case (2 rep b)
  then show ?case using same_kind[OF 2(1,2,5)] by (cases w) (auto split: if_splits)
next
  case (3 rep i)
  then show ?case using same_kind[OF 3(1,2,5)] int_str_delimits[of i r _ q] by (cases w) auto
next
  case (4 rep x)
  then show ?case by simp
next
  case (5 rep s)
  then show ?case using same_kind[OF 5(1,2,5)] json_str_delimits[of s r _ q] by (cases w) auto
next
  case (6 rep vs)
  obtain ys where w: "w = PList ys" using same_kind[OF 6(3,4,7)] by (cases w) auto
  show ?case
  proof (cases "vs = [] \<or> ys = []")
    case True
    with 6(3-) w hd_json_text[of "hd ys" rep] hd_json_text[of "hd vs" rep] show ?thesis
      by (cases vs; cases ys) (auto simp: neq_Nil_conv)
  next
    case False
    then obtain v us y zs where c: "vs = v # us" "ys = y # zs" by (auto simp: neq_Nil_conv)
    have eq: "json_text rep v @ json_items rep us @ r = json_text rep y @ json_items rep zs @ q"
      using 6(3-) w c by simp
    have "v = y \<and> json_items rep us @ r = json_items rep zs @ q"
      by (rule 6(1)[OF c(1) _ _ _ _ eq]) (use 6(3-) w c in simp_all)
    moreover have "us = zs \<and> r = q" if "json_items rep us @ r = json_items rep zs @ q"
      by (rule 6(2)[OF c(1) _ _ _ _ that]) (use 6(3-) w c in simp_all)
    ultimately show ?thesis using w c by simp
  qed
next
  case (7 rep d)
  obtain e where w: "w = PDict e" using same_kind[OF 7(3,4,7)] by (cases w) auto
  show ?case
  proof (cases "d = [] \<or> e = []")
    case True
    with 7(7) w show ?thesis by (cases d; cases e) (auto simp: json_str_def)
  next
    case False
    then obtain k v d' l y e' where c: "d = (k, v) # d'" "e = (l, y) # e'"
      by (cases d; cases e) (auto simp: split_paired_all)
    have "json_str k @ '':'' @ json_text rep v @ json_pairs rep d' @ r =
        json_str l @ '':'' @ json_text rep y @ json_pairs rep e' @ q"
      using 7(7) w c by simp
    then have k: "k = l" and eq: "json_text rep v @ json_pairs rep d' @ r = json_text rep y @ json_pairs rep e' @ q"
      using json_str_delimits by blast+
    have "v = y \<and> json_pairs rep d' @ r = json_pairs rep e' @ q"
      by (rule 7(1)[OF c(1) refl _ _ _ _ eq]) (use 7(3-) w c in simp_all)
    moreover have "d' = e' \<and> r = q" if "json_pairs rep d' @ r = json_pairs rep e' @ q"
      by (rule 7(2)[OF c(1) refl _ _ _ _ that]) (use 7(3-) w c in simp_all)
    ultimately show ?thesis using w c k by simp
  qed
next
  case (8 rep)
  then show ?case by (cases ws) auto
next
  case (9 rep v vs)
  then obtain y zs where c: "ws = y # zs" by (cases ws) auto
  have eq: "json_text rep v @ json_items rep vs @ r = json_text rep y @ json_items rep zs @ q"
    using 9(7) c by simp
  have "v = y \<and> json_items rep vs @ r = json_items rep zs @ q"
    by (rule 9(1)[OF _ _ _ _ eq]) (use 9(3-) c in simp_all)
  moreover have "vs = zs \<and> r = q" if "json_items rep vs @ r = json_items rep zs @ q"
    by (rule 9(2)[OF _ _ _ _ that]) (use 9(3-) c in simp_all)
  ultimately show ?case using c by simp
next
  case (10 rep)
  then show ?case by (cases e) auto
next
  case (11 rep k v d)
  then obtain l y e' where c: "e = (l, y) # e'" by (cases e) auto
  have "json_str k @ '':'' @ json_text rep v @ json_pairs rep d @ r =
      json_str l @ '':'' @ json_text rep y @ json_pairs rep e' @ q"
    using 11(7) c by simp
  then have k: "k = l" and eq: "json_text rep v @ json_pairs rep d @ r = json_text rep y @ json_pairs rep e' @ q"
    using json_str_delimits by blast+
  have "v = y \<and> json_pairs rep d @ r = json_pairs rep e' @ q"
    by (rule 11(1)[OF _ _ _ _ eq]) (use 11(3-) c in simp_all)
  moreover have "d = e' \<and> r = q" if "json_pairs rep d @ r = json_pairs rep e' @ q"
    by (rule 11(2)[OF _ _ _ _ that]) (use 11(3-) c in simp_all)
  ultimately show ?case using c k by simp
qed simp

text \<open>Equal texts come from values that are equal up to the order of the keys.\<close>

lemma sort_keys_plain: "json_plain v \<Longrightarrow> json_plain (sort_keys v)"
  by (induction v) (auto simp: list_all_iff)

lemma json_dumps_inj:
  assumes "json_plain v" "json_plain w" "json_dumps rep v = json_dumps rep w"
  shows "sort_keys v = sort_keys w"
proof -
  have "delimited []" by (simp add: delimited_def)
  then show ?thesis
    using json_delimits(1)[of "sort_keys v" "sort_keys w" "[]" "[]" rep] assms sort_keys_plain
    by (simp add: json_dumps_def)
qed

text \<open>For an object with distinct keys and plain leaves, the text determines each entry.\<close>

lemma sort_keys_lookup:
  assumes "distinct (map fst d)" "map fst e = map fst d" "sort_keys (PDict d) = sort_keys (PDict e)"
    and "map_of d k = Some v" "map_of e k = Some w"
  shows "sort_keys v = sort_keys w"
proof -
  let ?s = "map (\<lambda>(k, v). (k, sort_keys v))"
  have "set (sort_key fst (?s d)) = set (sort_key fst (?s e))" using assms(3) by simp
  then have "set (?s d) = set (?s e)" by simp
  moreover have "(k, sort_keys v) \<in> set (?s d)" using map_of_SomeD[OF assms(4)] by force
  ultimately obtain x where "(k, x) \<in> set e" "sort_keys x = sort_keys v" by auto
  moreover have "distinct (map fst e)" using assms(1,2) by simp
  ultimately show ?thesis using assms(5) map_of_is_SomeI by fastforce
qed

end
