(* ===== verification/Retrieval_Cache.thy ===== *)
theory Retrieval_Cache
  imports Retrieval_Strategy Document_Metadata Document_Store Json_Text
begin

section \<open>The retrieval cache\<close>

text \<open>
  \<open>backend/app/rag/retrieval_cache.py\<close>: the payload of a cached retrieval with its JSON
  form, the key of an entry, the two stores and the service that looks an answer up, retrieves
  where there is none and stores what it retrieved. SHA-256, the text of a float, the ISO text
  of a time and its parser, and the settings by their names are arguments. The rows of the
  settings and of the graph index runs are arguments of the key builder too.
\<close>

subsection \<open>What is cached\<close>

record retrieval_filters =
  rf_document_ids :: "int list"
  rf_modality :: string

record cache_context =
  cc_query_hash :: string
  cc_strategy :: retrieval_strategy
  cc_top_k :: int
  cc_rerank_top_n :: int
  cc_filters :: retrieval_filters
  cc_request_kind :: string
  cc_execution :: "retrieval_strategy option"

record cache_env =
  ce_sha256 :: "string \<Rightarrow> string"
  ce_float_repr :: "pyfloat \<Rightarrow> string"
  ce_iso :: "py_time \<Rightarrow> string"
  ce_fromiso :: "string \<Rightarrow> py_time option"
  ce_setting :: "string \<Rightarrow> pyval"

subsection \<open>Payloads\<close>

record cached_item =
  ci_chunk_id :: int
  ci_score :: pyfloat
  ci_rerank_score :: "pyfloat option"
  ci_rank :: int
  ci_rerank_order :: "int option"
  ci_selected :: bool
  ci_source :: string
  ci_breakdown :: "pyval pydict option"

record cached_path =
  cp_path :: "pyval pydict"
  cp_breakdown :: "pyval pydict"
  cp_chunk_ids :: "int list"

record cached_payload =
  pl_schema :: string
  pl_query_hash :: string
  pl_strategy :: string
  pl_summary :: "pyval pydict"
  pl_items :: "cached_item list"
  pl_paths :: "cached_path list"
  pl_no_context :: bool
  pl_created_at :: "py_time option"
  pl_ttl :: "int option"

definition cache_schema_version :: string where
  "cache_schema_version = ''rag.retrieval_cache.v1''"

definition cache_key_version :: string where
  "cache_key_version = ''rag.retrieval_cache.key.v1''"

definition corpus_marker_setting :: string where
  "corpus_marker_setting = ''rag.retrieval_cache.corpus_marker''"

definition hash_none :: string where
  "hash_none = replicate 64 CHR ''0''"

text \<open>\<open>round\<close> keeps NaN and the infinities.\<close>

fun round_score :: "pyfloat \<Rightarrow> pyfloat" where
  "round_score (Fin x) = Fin (py_round 6 x)"
| "round_score x = x"

definition opt_val :: "('a \<Rightarrow> pyval) \<Rightarrow> 'a option \<Rightarrow> pyval" where
  "opt_val f x = (case x of None \<Rightarrow> PNone | Some y \<Rightarrow> f y)"

definition item_to_json :: "cached_item \<Rightarrow> pyval" where
  "item_to_json i = PDict
     [(''document_chunk_id'', PInt (ci_chunk_id i)),
      (''retrieval_score'', PFloat (round_score (ci_score i))),
      (''rerank_score'', opt_val (\<lambda>x. PFloat (round_score x)) (ci_rerank_score i)),
      (''rank_order'', PInt (ci_rank i)),
      (''rerank_order'', opt_val PInt (ci_rerank_order i)),
      (''selected_flag'', PBool (ci_selected i)),
      (''retrieval_source'', PStr (safe_string 50 (ci_source i))),
      (''score_breakdown_json'', opt_val (\<lambda>d. PDict (safe_dict d)) (ci_breakdown i))]"

definition path_to_json :: "cached_path \<Rightarrow> pyval" where
  "path_to_json p = PDict
     [(''path_json'', PDict (safe_dict (cp_path p))),
      (''score_breakdown_json'', PDict (safe_dict (cp_breakdown p))),
      (''source_chunk_ids_json'', PList (map PInt (cp_chunk_ids p)))]"

definition payload_to_json :: "cache_env \<Rightarrow> cached_payload \<Rightarrow> pyval pydict" where
  "payload_to_json env p =
     [(''schema_version'', PStr (pl_schema p)), (''query_hash'', PStr (pl_query_hash p)),
      (''strategy_type'', PStr (pl_strategy p)),
      (''retrieval_score_summary'', PDict (safe_dict (pl_summary p))),
      (''items'', PList (map item_to_json (pl_items p))),
      (''graph_paths'', PList (map path_to_json (pl_paths p))),
      (''no_context'', PBool (pl_no_context p)),
      (''cache_created_at'', opt_val (\<lambda>t. PStr (ce_iso env t)) (pl_created_at p)),
      (''ttl_seconds'', opt_val PInt (pl_ttl p))]"

subsection \<open>Reading a payload\<close>

definition cached_positive_int :: "pyval option \<Rightarrow> int option" where
  "cached_positive_int v = (case v of Some (PInt i) \<Rightarrow> if 0 < i then Some i else None | _ \<Rightarrow> None)"

definition cached_string :: "nat \<Rightarrow> pyval option \<Rightarrow> string option" where
  "cached_string n v = (case v of
     Some (PStr s) \<Rightarrow> (let t = safe_string n s in if t = [] then None else Some t) | _ \<Rightarrow> None)"

definition cached_hash :: "pyval option \<Rightarrow> string option" where
  "cached_hash v = (case v of
     Some (PStr s) \<Rightarrow> (let t = py_lower (py_strip s) in
       if length t = 64 \<and> list_all hex_char t then Some t else None)
   | _ \<Rightarrow> None)"

definition cached_score :: "pyval option \<Rightarrow> pyfloat option" where
  "cached_score v = (case v of
     Some (PInt i) \<Rightarrow> Some (round_score (Fin (of_int i)))
   | Some (PFloat x) \<Rightarrow> if isfinite x then Some (round_score x) else None
   | _ \<Rightarrow> None)"

definition cached_dict :: "pyval option \<Rightarrow> pyval pydict option" where
  "cached_dict v = (case v of Some (PDict d) \<Rightarrow> Some (safe_dict d) | _ \<Rightarrow> None)"

definition cached_time :: "cache_env \<Rightarrow> pyval option \<Rightarrow> py_time option" where
  "cached_time env v = (case v of Some (PStr s) \<Rightarrow> ce_fromiso env s | _ \<Rightarrow> None)"

fun py_truthy :: "pyval \<Rightarrow> bool" where
  "py_truthy PNone = False"
| "py_truthy (PBool b) = b"
| "py_truthy (PInt i) = (i \<noteq> 0)"
| "py_truthy (PFloat x) = (x \<noteq> Fin 0)"
| "py_truthy (PStr s) = (s \<noteq> [])"
| "py_truthy (PBytes b) = (b \<noteq> [])"
| "py_truthy (PList vs) = (vs \<noteq> [])"
| "py_truthy (PDict d) = (d \<noteq> [])"

definition cached_flag :: "pyval option \<Rightarrow> bool" where
  "cached_flag v = (case v of None \<Rightarrow> False | Some x \<Rightarrow> py_truthy x)"

definition item_from_json :: "pyval \<Rightarrow> cached_item option" where
  "item_from_json v = (case v of
     PDict d \<Rightarrow> (case (cached_positive_int (map_of d ''document_chunk_id''),
         cached_score (map_of d ''retrieval_score''), cached_positive_int (map_of d ''rank_order''),
         cached_string 50 (map_of d ''retrieval_source'')) of
       (Some i, Some s, Some r, Some src) \<Rightarrow> Some
         \<lparr>ci_chunk_id = i, ci_score = s, ci_rerank_score = cached_score (map_of d ''rerank_score''),
          ci_rank = r, ci_rerank_order = cached_positive_int (map_of d ''rerank_order''),
          ci_selected = cached_flag (map_of d ''selected_flag''), ci_source = src,
          ci_breakdown = cached_dict (map_of d ''score_breakdown_json'')\<rparr>
     | _ \<Rightarrow> None)
   | _ \<Rightarrow> None)"

definition path_from_json :: "pyval \<Rightarrow> cached_path option" where
  "path_from_json v = (case v of
     PDict d \<Rightarrow> (case (cached_dict (map_of d ''path_json''), map_of d ''source_chunk_ids_json'') of
       (Some p, Some (PList ids)) \<Rightarrow> Some
         \<lparr>cp_path = p,
          cp_breakdown = (case cached_dict (map_of d ''score_breakdown_json'') of None \<Rightarrow> [] | Some s \<Rightarrow> s),
          cp_chunk_ids = List.map_filter (\<lambda>x. cached_positive_int (Some x)) ids\<rparr>
     | _ \<Rightarrow> None)
   | _ \<Rightarrow> None)"

text \<open>A bad item refuses the whole payload, a bad graph path is skipped.\<close>

fun all_some :: "('a \<Rightarrow> 'b option) \<Rightarrow> 'a list \<Rightarrow> 'b list option" where
  "all_some f [] = Some []"
| "all_some f (x # xs) = (case f x of None \<Rightarrow> None
    | Some y \<Rightarrow> (case all_some f xs of None \<Rightarrow> None | Some ys \<Rightarrow> Some (y # ys)))"

definition payload_from_json :: "cache_env \<Rightarrow> pyval pydict \<Rightarrow> cached_payload option" where
  "payload_from_json env d =
     (if map_of d ''schema_version'' \<noteq> Some (PStr cache_schema_version) then None
      else case (cached_hash (map_of d ''query_hash''), cached_string 50 (map_of d ''strategy_type''),
          cached_dict (map_of d ''retrieval_score_summary''), map_of d ''items'') of
        (Some h, Some s, Some sm, Some (PList raw)) \<Rightarrow> (case all_some item_from_json raw of
          None \<Rightarrow> None
        | Some is \<Rightarrow> Some
            \<lparr>pl_schema = cache_schema_version, pl_query_hash = h, pl_strategy = s, pl_summary = sm,
             pl_items = is,
             pl_paths = (case map_of d ''graph_paths'' of
               Some (PList ps) \<Rightarrow> List.map_filter path_from_json ps | _ \<Rightarrow> []),
             pl_no_context = cached_flag (map_of d ''no_context''),
             pl_created_at = cached_time env (map_of d ''cache_created_at''),
             pl_ttl = cached_positive_int (map_of d ''ttl_seconds'')\<rparr>)
      | _ \<Rightarrow> None)"

subsection \<open>Hashes of values\<close>

definition hash_json :: "cache_env \<Rightarrow> pyval \<Rightarrow> string" where
  "hash_json env v = ce_sha256 env (json_dumps (ce_float_repr env) v)"

definition time_val :: "cache_env \<Rightarrow> py_time \<Rightarrow> pyval" where
  "time_val env t = PStr (ce_iso env t)"

definition user_visible_scope :: "cache_env \<Rightarrow> retrieval_filters \<Rightarrow> string" where
  "user_visible_scope env f = hash_json env (PDict
     [(''modality'', PStr (rf_modality f)), (''logical_document_ids'', PList (map PInt (rf_document_ids f)))])"

definition cache_namespace :: "cache_env \<Rightarrow> string" where
  "cache_namespace env = (let n = safe_string 80 (py_str (ce_float_repr env) (ce_setting env ''retrieval_cache_namespace''))
     in if n = [] then ''rag.retrieval'' else n)"

subsection \<open>Settings\<close>

definition strategy_uses_graph_index :: "cache_context \<Rightarrow> bool" where
  "strategy_uses_graph_index ctx = (cc_strategy ctx = StratGraph \<or> cc_execution ctx = Some StratGraph)"

definition vector_strategies :: "retrieval_strategy list" where
  "vector_strategies = [StratDense, StratHybrid, StratFallbackDense]"

definition strategy_uses_vector_distance :: "cache_context \<Rightarrow> bool" where
  "strategy_uses_vector_distance ctx = (cc_strategy ctx \<in> set vector_strategies \<or>
     (case cc_execution ctx of None \<Rightarrow> False | Some s \<Rightarrow> s \<in> set vector_strategies))"

type_synonym settings_rows = "(string \<times> pyval \<times> py_time) list"

definition system_settings_hash :: "cache_env \<Rightarrow> settings_rows \<Rightarrow> string" where
  "system_settings_hash env rows =
     (let rs = sort_key fst (filter (\<lambda>(k, _). prefix ''rag.'' k \<and> k \<noteq> corpus_marker_setting) rows)
      in if rs = [] then hash_none
         else hash_json env (PList (map (\<lambda>(k, v, t). PList [PStr k, v, time_val env t]) rs)))"

text \<open>The settings whose names are their keys in the hashed value.\<close>

definition hashed_settings :: "string list" where
  "hashed_settings =
     [''hybrid_enabled'', ''hybrid_fusion_method'', ''hybrid_rrf_k'', ''hybrid_dense_weight'',
      ''hybrid_sparse_weight'', ''hybrid_candidate_multiplier'', ''sparse_enabled'',
      ''sparse_provider'', ''sparse_language'', ''sparse_min_query_terms'',
      ''sparse_max_query_terms'', ''sparse_score_normalization'', ''query_analyzer_enabled'',
      ''query_planner_enabled'', ''query_planner_apply_rewrite_to_retrieval'',
      ''query_planner_max_sub_queries'', ''query_planner_max_preview_chars'',
      ''query_planner_store_query_preview'', ''query_planner_redact_pii'', ''router_enabled'',
      ''router_mode'', ''router_llm_planner_model_name'', ''router_llm_planner_timeout_seconds'',
      ''router_llm_planner_max_output_tokens'', ''router_allow_agentic_search'',
      ''router_allow_agentic_ask'', ''router_keyword_heavy_threshold'',
      ''router_ambiguity_threshold'', ''router_max_retrieval_calls'',
      ''router_max_fallback_calls'', ''router_sufficiency_min_candidates'',
      ''router_sufficiency_min_selected'', ''router_sufficiency_top_score_threshold'',
      ''router_enable_fallback_hybrid'', ''router_enable_fallback_dense'',
      ''router_no_context_after_budget_exhausted'', ''router_fallback_strategy'',
      ''graph_retrieval_enabled'', ''graph_retrieval_max_start_entities'',
      ''graph_retrieval_max_depth'', ''graph_retrieval_max_paths'',
      ''graph_retrieval_max_relations_per_entity'', ''graph_retrieval_max_source_chunks'',
      ''graph_retrieval_timeout_ms'', ''graph_retrieval_fallback_strategy'',
      ''graph_retrieval_min_entity_match_score'', ''graph_router_enabled'',
      ''graph_router_min_signal_score'']"

definition retrieval_settings_hash :: "cache_env \<Rightarrow> settings_rows \<Rightarrow> cache_context \<Rightarrow> string \<Rightarrow> string" where
  "retrieval_settings_hash env rows ctx scope = hash_json env (PDict
     ([(''request_kind'', PStr (cc_request_kind ctx)),
       (''strategy_type'', PStr (strategy_text (cc_strategy ctx))),
       (''execution_strategy'', opt_val (\<lambda>s. PStr (strategy_text s)) (cc_execution ctx)),
       (''filters'', PDict [(''modality'', PStr (rf_modality (cc_filters ctx))),
          (''logical_document_ids'', PList (map PInt (rf_document_ids (cc_filters ctx))))]),
       (''user_visible_scope'', PStr scope),
       (''qdrant_collection_name'', ce_setting env ''qdrant_collection_name''),
       (''qdrant_distance'', if strategy_uses_vector_distance ctx then ce_setting env ''qdrant_distance'' else PNone)] @
      map (\<lambda>n. (n, ce_setting env n)) hashed_settings @
      [(''system_settings_hash'', PStr (system_settings_hash env rows))]))"

definition rerank_settings_hash :: "cache_env \<Rightarrow> string" where
  "rerank_settings_hash env = hash_json env (PDict (map (\<lambda>n. (n, ce_setting env n))
     [''rerank_provider'', ''reranker_model'', ''rerank_score_min'', ''rerank_score_max'']))"

subsection \<open>Fingerprints of the corpus\<close>

definition active_corpus_marker :: "cache_env \<Rightarrow> string \<Rightarrow> db \<Rightarrow> string" where
  "active_corpus_marker env modality d = (case db_corpus_marker d of
     None \<Rightarrow> hash_none
   | Some t \<Rightarrow> hash_json env (PDict
       [(''scope'', PStr ''active_corpus_marker''), (''modality'', PStr modality),
        (''setting_key'', PStr corpus_marker_setting),
        (''setting_value'', PDict [(''version'', PInt 1), (''updated_at'', time_val env t)]),
        (''updated_at'', time_val env t)]))"

text \<open>Every stored chunk has the modality text, the only one the table admits.\<close>

definition chunks_of_modality :: "string \<Rightarrow> int \<Rightarrow> db \<Rightarrow> document_chunk list" where
  "chunks_of_modality modality i d = (if modality = ''text'' then version_chunks i d else [])"

definition fingerprint_row :: "cache_env \<Rightarrow> logical_document \<Rightarrow> document_version \<Rightarrow> document_chunk list \<Rightarrow> pyval" where
  "fingerprint_row env x v cs = PList
     [PInt (doc_id x), PStr ''active'', time_val env (doc_updated_at x),
      PInt (ver_id v), PInt (ver_no v), PStr (ver_content_hash v), PStr ''ready'', PBool True,
      time_val env (ver_updated_at v), PInt (int (length cs)),
      time_val env (Max (set (map chunk_created_at cs))),
      PStr (Min (set (map chunk_digest cs))), PStr (Max (set (map chunk_digest cs)))]"

definition fingerprint_rows :: "cache_env \<Rightarrow> retrieval_filters \<Rightarrow> db \<Rightarrow> pyval list" where
  "fingerprint_rows env f d = List.map_filter
     (\<lambda>v. case get_document (ver_document_id v) d of
        None \<Rightarrow> None
      | Some x \<Rightarrow> (let cs = chunks_of_modality (rf_modality f) (ver_id v) d in
          if doc_status x = DocActive \<and> ver_status v = VReady \<and> ver_is_active v \<and> cs \<noteq> [] \<and>
             doc_id x \<in> set (rf_document_ids f)
          then Some (fingerprint_row env x v cs) else None))
     (sort_key (\<lambda>v. (ver_document_id v, ver_id v)) (db_versions d))"

definition active_document_fingerprint :: "cache_env \<Rightarrow> retrieval_filters \<Rightarrow> db \<Rightarrow> string" where
  "active_document_fingerprint env f d =
     (if rf_document_ids f = [] then active_corpus_marker env (rf_modality f) d
      else (let rows = fingerprint_rows env f d in
        if rows = [] then hash_none else hash_json env (PList rows)))"

record graph_run =
  gr_version_id :: "int option"
  gr_id :: int
  gr_status :: string
  gr_extractor_type :: string
  gr_extractor_version :: "string option"
  gr_entities :: int
  gr_relations :: int
  gr_mentions :: int
  gr_updated_at :: py_time

definition graph_run_row :: "cache_env \<Rightarrow> graph_run \<Rightarrow> pyval" where
  "graph_run_row env r = PList
     [opt_val PInt (gr_version_id r), PInt (gr_id r), PStr (gr_status r), PStr (gr_extractor_type r),
      opt_val PStr (gr_extractor_version r), PInt (gr_entities r), PInt (gr_relations r),
      PInt (gr_mentions r), time_val env (gr_updated_at r)]"

definition graph_index_fingerprint :: "cache_env \<Rightarrow> retrieval_filters \<Rightarrow> graph_run list \<Rightarrow> db \<Rightarrow> string" where
  "graph_index_fingerprint env f runs d =
     (let ids = map ver_id (filter (\<lambda>v. retrieval_visible d v \<and>
            (rf_document_ids f = [] \<or> ver_document_id v \<in> set (rf_document_ids f))) (db_versions d));
          rows = sort_key (\<lambda>r. (the (gr_version_id r), gr_id r))
            (filter (\<lambda>r. gr_version_id r \<in> Some ` set ids) runs)
      in if ids = [] \<or> rows = [] then hash_none else hash_json env (PList (map (graph_run_row env) rows)))"

subsection \<open>Keys\<close>

record cache_key =
  ck_key :: string
  ck_namespace :: string
  ck_strategy :: string
  ck_query_hash :: string
  ck_retrieval_settings :: string
  ck_rerank_settings :: string
  ck_embedding_model :: string
  ck_rerank_model :: string
  ck_documents :: string
  ck_graph_index :: string
  ck_graph_store :: string
  ck_top_k :: int
  ck_rerank_top_n :: int
  ck_scope :: string

text \<open>What is hashed into the key text: every field but the key itself.\<close>

definition key_material :: "cache_key \<Rightarrow> pyval pydict" where
  "key_material k =
     [(''cache_namespace'', PStr (ck_namespace k)), (''strategy_type'', PStr (ck_strategy k)),
      (''query_hash'', PStr (ck_query_hash k)),
      (''retrieval_settings_hash'', PStr (ck_retrieval_settings k)),
      (''rerank_settings_hash'', PStr (ck_rerank_settings k)),
      (''embedding_model'', PStr (ck_embedding_model k)), (''rerank_model'', PStr (ck_rerank_model k)),
      (''active_document_fingerprint'', PStr (ck_documents k)),
      (''graph_index_fingerprint'', PStr (ck_graph_index k)),
      (''graph_store_provider'', PStr (ck_graph_store k)), (''top_k'', PInt (ck_top_k k)),
      (''rerank_top_n'', PInt (ck_rerank_top_n k)), (''user_visible_scope'', PStr (ck_scope k)),
      (''schema_version'', PStr cache_schema_version), (''key_version'', PStr cache_key_version)]"

definition setting_text :: "cache_env \<Rightarrow> string \<Rightarrow> string" where
  "setting_text env n = py_str (ce_float_repr env) (ce_setting env n)"

definition key_fields :: "cache_env \<Rightarrow> settings_rows \<Rightarrow> graph_run list \<Rightarrow> db \<Rightarrow> cache_context \<Rightarrow> cache_key" where
  "key_fields env rows runs d ctx =
     (let f = cc_filters ctx; scope = user_visible_scope env f in
      \<lparr>ck_key = [], ck_namespace = cache_namespace env, ck_strategy = strategy_text (cc_strategy ctx),
       ck_query_hash = cc_query_hash ctx,
       ck_retrieval_settings = retrieval_settings_hash env rows ctx scope,
       ck_rerank_settings = rerank_settings_hash env,
       ck_embedding_model = safe_string 255 (setting_text env ''embedding_provider'' @ '':'' @
         setting_text env ''embedding_model'' @ '':'' @ setting_text env ''effective_embedding_dimension''),
       ck_rerank_model = safe_string 255 (setting_text env ''rerank_provider'' @ '':'' @ setting_text env ''reranker_model''),
       ck_documents = active_document_fingerprint env f d,
       ck_graph_index = (if strategy_uses_graph_index ctx then graph_index_fingerprint env f runs d else hash_none),
       ck_graph_store = safe_string 50 (setting_text env ''graph_store_provider''),
       ck_top_k = cc_top_k ctx, ck_rerank_top_n = cc_rerank_top_n ctx, ck_scope = scope\<rparr>)"

definition build_cache_key :: "cache_env \<Rightarrow> settings_rows \<Rightarrow> graph_run list \<Rightarrow> db \<Rightarrow> cache_context \<Rightarrow> cache_key" where
  "build_cache_key env rows runs d ctx =
     (let k = key_fields env rows runs d ctx in k\<lparr>ck_key := hash_json env (PDict (key_material k))\<rparr>)"

definition key_metadata :: "cache_key \<Rightarrow> pyval pydict" where
  "key_metadata k =
     [(''cache_namespace'', PStr (ck_namespace k)), (''strategy_type'', PStr (ck_strategy k)),
      (''query_hash'', PStr (ck_query_hash k)),
      (''retrieval_settings_hash'', PStr (ck_retrieval_settings k)),
      (''rerank_settings_hash'', PStr (ck_rerank_settings k)),
      (''embedding_model'', PStr (ck_embedding_model k)), (''rerank_model'', PStr (ck_rerank_model k)),
      (''active_document_fingerprint'', PStr (ck_documents k)),
      (''graph_index_fingerprint'', PStr (ck_graph_index k)),
      (''graph_store_provider'', PStr (ck_graph_store k)), (''top_k'', PInt (ck_top_k k)),
      (''rerank_top_n'', PInt (ck_rerank_top_n k)), (''user_visible_scope'', PStr (ck_scope k)),
      (''schema_version'', PStr cache_schema_version), (''cache_key_hash'', PStr (ck_key k))]"

end
