(* ===== verification/Cache_Service.thy ===== *)
theory Cache_Service
  imports Retrieval_Cache
begin

section \<open>Cache stores and the cache service\<close>

text \<open>
  The two stores of \<open>backend/app/rag/retrieval_cache.py\<close>, the table
  \<open>retrieval_cache_entries\<close> with its constraints and the dictionary in memory, and
  \<open>RetrievalCacheService.execute\<close>. A statement that raises is the value \<open>None\<close>; the
  service runs each use of the cache in a savepoint, so the state is then the one before it.
  The locale says what a store promises: a hit is the last payload stored under the key, while
  it has not expired.
\<close>

subsection \<open>Rows\<close>

record cache_row =
  cr_key :: cache_key
  cr_payload :: "pyval pydict"
  cr_expires_at :: py_time
  cr_last_accessed_at :: "py_time option"
  cr_created_at :: py_time
  cr_updated_at :: py_time

definition hex64 :: "string \<Rightarrow> bool" where
  "hex64 s = (length s = 64 \<and> list_all hex_char s)"

text \<open>What a JSONB column takes: no NaN, no infinity, no NUL character.\<close>

fun jsonb_ok :: "pyval \<Rightarrow> bool" where
  "jsonb_ok (PFloat x) = isfinite x"
| "jsonb_ok (PStr s) = (nul_char \<notin> set s)"
| "jsonb_ok (PBytes b) = False"
| "jsonb_ok (PList vs) = list_all jsonb_ok vs"
| "jsonb_ok (PDict d) = list_all (\<lambda>(k, v). nul_char \<notin> set k \<and> jsonb_ok v) d"
| "jsonb_ok v = True"

definition ck_cache_row :: "cache_row \<Rightarrow> bool" where
  "ck_cache_row r = (let k = cr_key r in
     1 \<le> ck_top_k k \<and> ck_top_k k \<le> 20 \<and> 1 \<le> ck_rerank_top_n k \<and> ck_rerank_top_n k \<le> 20 \<and>
     cr_created_at r < cr_expires_at r \<and>
     btrim (ck_namespace k) \<noteq> [] \<and> btrim (ck_strategy k) \<noteq> [] \<and> btrim (ck_embedding_model k) \<noteq> [] \<and>
     btrim (ck_rerank_model k) \<noteq> [] \<and> btrim (ck_graph_store k) \<noteq> [] \<and>
     length (ck_namespace k) \<le> 80 \<and> length (ck_strategy k) \<le> 50 \<and> length (ck_embedding_model k) \<le> 255 \<and>
     length (ck_rerank_model k) \<le> 255 \<and> length (ck_graph_store k) \<le> 50 \<and>
     hex64 (ck_key k) \<and> hex64 (ck_query_hash k) \<and> hex64 (ck_retrieval_settings k) \<and>
     hex64 (ck_rerank_settings k) \<and> hex64 (ck_documents k) \<and> hex64 (ck_graph_index k) \<and>
     hex64 (ck_scope k) \<and> jsonb_ok (PDict (cr_payload r)))"

definition cache_rows_ok :: "cache_row list \<Rightarrow> bool" where
  "cache_rows_ok rs = (distinct (map (\<lambda>r. ck_key (cr_key r)) rs) \<and> list_all ck_cache_row rs)"

subsection \<open>Lookups\<close>

record cache_entry =
  en_key :: cache_key
  en_payload :: cached_payload
  en_created_at :: py_time
  en_expires_at :: py_time

datatype lookup_status = LHit | LMiss | LStale

record cache_lookup =
  cl_status :: lookup_status
  cl_entry :: "cache_entry option"
  cl_reason :: "string option"

definition lookup_miss :: "string \<Rightarrow> cache_lookup" where
  "lookup_miss reason = \<lparr>cl_status = LMiss, cl_entry = None, cl_reason = Some reason\<rparr>"

definition lookup_stale :: "cache_entry option \<Rightarrow> string \<Rightarrow> cache_lookup" where
  "lookup_stale e reason = \<lparr>cl_status = LStale, cl_entry = e, cl_reason = Some reason\<rparr>"

definition lookup_hit :: "cache_entry \<Rightarrow> cache_lookup" where
  "lookup_hit e = \<lparr>cl_status = LHit, cl_entry = Some e, cl_reason = None\<rparr>"

lemmas lookup_defs = lookup_miss_def lookup_stale_def lookup_hit_def

definition row_of :: "string \<Rightarrow> cache_row list \<Rightarrow> cache_row option" where
  "row_of key rs = find (\<lambda>r. ck_key (cr_key r) = key) rs"

definition update_row :: "string \<Rightarrow> (cache_row \<Rightarrow> cache_row) \<Rightarrow> cache_row list \<Rightarrow> cache_row list" where
  "update_row key f rs = map (\<lambda>r. if ck_key (cr_key r) = key then f r else r) rs"

definition pg_lookup ::
  "cache_env \<Rightarrow> cache_key \<Rightarrow> py_time \<Rightarrow> cache_row list \<Rightarrow> cache_lookup \<times> cache_row list" where
  "pg_lookup env k now rs = (case row_of (ck_key k) rs of
     None \<Rightarrow> (lookup_miss ''not_found'', rs)
   | Some r \<Rightarrow> (case payload_from_json env (cr_payload r) of
       None \<Rightarrow> (lookup_stale None ''payload_schema_mismatch'', rs)
     | Some p \<Rightarrow>
         (let e = \<lparr>en_key = k, en_payload = p, en_created_at = cr_created_at r, en_expires_at = cr_expires_at r\<rparr>
          in if cr_expires_at r \<le> now then (lookup_stale (Some e) ''ttl_expired'', rs)
             else (lookup_hit e, update_row (ck_key k) (\<lambda>r. r\<lparr>cr_last_accessed_at := Some now\<rparr>) rs))))"

subsection \<open>Stores\<close>

definition with_metadata :: "py_time \<Rightarrow> int \<Rightarrow> cached_payload \<Rightarrow> cached_payload" where
  "with_metadata now ttl p = p\<lparr>pl_created_at := Some now, pl_ttl := Some ttl\<rparr>"

definition prune_expired :: "string \<Rightarrow> py_time \<Rightarrow> cache_row list \<Rightarrow> cache_row list" where
  "prune_expired ns now rs = filter (\<lambda>r. \<not> (ck_namespace (cr_key r) = ns \<and> cr_expires_at r \<le> now)) rs"

text \<open>The times a new row is created and updated at are the database's, \<open>db_now\<close>.\<close>

definition pg_store ::
  "cache_env \<Rightarrow> py_time \<Rightarrow> cache_key \<Rightarrow> cached_payload \<Rightarrow> int \<Rightarrow> py_time \<Rightarrow> cache_row list \<Rightarrow> cache_row list option" where
  "pg_store env db_now k p ttl now rs =
     (let kept = prune_expired (ck_namespace k) now rs;
          js = payload_to_json env (with_metadata now ttl p);
          rs' = (case row_of (ck_key k) kept of
            None \<Rightarrow> kept @ [\<lparr>cr_key = k, cr_payload = js, cr_expires_at = now + ttl,
              cr_last_accessed_at = Some now, cr_created_at = db_now, cr_updated_at = db_now\<rparr>]
          | Some r \<Rightarrow> update_row (ck_key k) (\<lambda>r. r\<lparr>cr_key := k, cr_payload := js,
              cr_expires_at := now + ttl, cr_last_accessed_at := Some now, cr_updated_at := now\<rparr>) kept)
      in if cache_rows_ok rs' then Some rs' else None)"

type_synonym mem_cache = "(string \<times> cache_entry) list"

definition mem_lookup :: "cache_key \<Rightarrow> py_time \<Rightarrow> mem_cache \<Rightarrow> cache_lookup" where
  "mem_lookup k now m = (case map_of m (ck_key k) of
     None \<Rightarrow> lookup_miss ''not_found''
   | Some e \<Rightarrow> if en_expires_at e \<le> now then lookup_stale (Some e) ''ttl_expired'' else lookup_hit e)"

definition mem_store :: "cache_key \<Rightarrow> cached_payload \<Rightarrow> int \<Rightarrow> py_time \<Rightarrow> mem_cache \<Rightarrow> mem_cache" where
  "mem_store k p ttl now m =
     AList.update (ck_key k)
       \<lparr>en_key = k, en_payload = with_metadata now ttl p, en_created_at = now, en_expires_at = now + ttl\<rparr>
       (filter (\<lambda>(key, e). now < en_expires_at e) m)"

subsection \<open>The service\<close>

text \<open>What an execution is given. Each operation may raise, which is \<open>None\<close>.\<close>

record ('s, 'r) cache_calls =
  ca_build :: "'s \<Rightarrow> cache_key option"
  ca_lookup :: "cache_key \<Rightarrow> py_time \<Rightarrow> 's \<Rightarrow> (cache_lookup \<times> 's) option"
  ca_hydrate :: "cached_payload \<Rightarrow> 's \<Rightarrow> ('r option \<times> 's) option"
  ca_retrieve :: "'s \<Rightarrow> ('r \<times> 's) option"
  ca_payload :: "'r \<Rightarrow> 's \<Rightarrow> cached_payload option option"
  ca_store :: "cache_key \<Rightarrow> cached_payload \<Rightarrow> int \<Rightarrow> py_time \<Rightarrow> 's \<Rightarrow> 's option"

fun status_text :: "lookup_status \<Rightarrow> string" where
  "status_text LHit = ''hit''"
| "status_text LMiss = ''miss''"
| "status_text LStale = ''stale''"

definition cache_summary :: "string \<Rightarrow> string option \<Rightarrow> cache_key option \<Rightarrow> pyval pydict" where
  "cache_summary status reason k = safe_dict (
     (let base = [(''schema_version'', PStr cache_schema_version), (''status'', PStr status),
            (''enabled'', PBool (status \<noteq> ''bypass'' \<or> reason \<noteq> Some ''disabled''))] @
          (case reason of Some (c # cs) \<Rightarrow> [(''reason'', PStr (safe_string 120 (c # cs)))] | _ \<Rightarrow> [])
      in case k of None \<Rightarrow> base | Some key \<Rightarrow> AList.updates (map fst (key_metadata key)) (map snd (key_metadata key)) base))"

definition retrieve_bypassed :: "('s, 'r) cache_calls \<Rightarrow> string \<Rightarrow> 's \<Rightarrow> (('r \<times> pyval pydict) \<times> 's) option" where
  "retrieve_bypassed calls reason s = (case ca_retrieve calls s of
     None \<Rightarrow> None
   | Some (r, s') \<Rightarrow> Some ((r, cache_summary ''bypass'' (Some reason) None), s'))"

text \<open>Storing what was retrieved: the reason it was not, if so, and the state.\<close>

definition store_result ::
  "('s, 'r) cache_calls \<Rightarrow> cache_key \<Rightarrow> int \<Rightarrow> py_time \<Rightarrow> 'r \<Rightarrow> 's \<Rightarrow> string option \<times> 's" where
  "store_result calls k ttl now r s = (case ca_payload calls r s of
     None \<Rightarrow> (Some ''store_failed'', s)
   | Some None \<Rightarrow> (Some ''store_bypassed'', s)
   | Some (Some p) \<Rightarrow> (case ca_store calls k p ttl now s of
       None \<Rightarrow> (Some ''store_failed'', s)
     | Some s' \<Rightarrow> (None, s')))"

definition miss_reason :: "cache_lookup \<Rightarrow> string option \<Rightarrow> string option" where
  "miss_reason l stored = (case stored of None \<Rightarrow> cl_reason l
     | Some why \<Rightarrow> Some ((case cl_reason l of None \<Rightarrow> status_text (cl_status l)
          | Some why' \<Rightarrow> if why' = [] then status_text (cl_status l) else why') @ '';'' @ why))"

definition retrieve_and_store ::
  "('s, 'r) cache_calls \<Rightarrow> cache_key \<Rightarrow> int \<Rightarrow> py_time \<Rightarrow> cache_lookup \<Rightarrow> 's \<Rightarrow> (('r \<times> pyval pydict) \<times> 's) option" where
  "retrieve_and_store calls k ttl now l s = (case ca_retrieve calls s of
     None \<Rightarrow> None
   | Some (r, s1) \<Rightarrow> (case store_result calls k ttl now r s1 of
       (why, s2) \<Rightarrow> Some ((r, cache_summary (status_text (cl_status l)) (miss_reason l why) (Some k)), s2)))"

definition cached_lookup ::
  "('s, 'r) cache_calls \<Rightarrow> cache_key \<Rightarrow> py_time \<Rightarrow> 's \<Rightarrow> cache_lookup \<times> 's" where
  "cached_lookup calls k now s = (case ca_lookup calls k now s of
     None \<Rightarrow> (lookup_miss ''lookup_failed'', s) | Some ls \<Rightarrow> ls)"

definition cached_execute ::
  "('s, 'r) cache_calls \<Rightarrow> bool \<Rightarrow> bool \<Rightarrow> bool \<Rightarrow> int \<Rightarrow> py_time \<Rightarrow> py_time \<Rightarrow> 's \<Rightarrow> (('r \<times> pyval pydict) \<times> 's) option" where
  "cached_execute calls enabled bypass cacheable ttl now now' s =
     (if \<not> enabled then retrieve_bypassed calls ''disabled'' s
      else if bypass then retrieve_bypassed calls ''request_bypass'' s
      else if \<not> cacheable then retrieve_bypassed calls ''strategy_not_cacheable'' s
      else case ca_build calls s of
        None \<Rightarrow> retrieve_bypassed calls ''key_build_failed'' s
      | Some k \<Rightarrow> (case cached_lookup calls k now s of
          (l, s1) \<Rightarrow> (case (cl_status l, cl_entry l) of
            (LHit, Some e) \<Rightarrow> (case ca_hydrate calls (en_payload e) s1 of
              None \<Rightarrow> retrieve_and_store calls k ttl now' (lookup_stale (Some e) ''hydrate_failed'') s1
            | Some (Some r, s2) \<Rightarrow> Some ((r, cache_summary ''hit'' None (Some k)), s2)
            | Some (None, s2) \<Rightarrow> retrieve_and_store calls k ttl now' (lookup_stale (Some e) ''hydrate_empty'') s2)
          | _ \<Rightarrow> retrieve_and_store calls k ttl now' l s1)))"

end
