(* ===== verification/Corpus_Marker.thy ===== *)
theory Corpus_Marker
  imports Document_Lifecycle
begin

section \<open>The corpus and its marker\<close>

text \<open>
  The chunks a retrieval may return are the chunks of the active, ready versions of active
  documents. Every operation that changes them is to move the corpus marker, which the keys of
  the retrieval cache are built from. A step of the system is taken at a time, and the lemmas
  show for each step that it either leaves the corpus alone or sets the marker to that time.
\<close>

definition visible_ids :: "db \<Rightarrow> int list" where
  "visible_ids d = map ver_id (filter (retrieval_visible d) (db_versions d))"

definition corpus :: "db \<Rightarrow> document_chunk list" where
  "corpus d = filter (\<lambda>c. chunk_version_id c \<in> set (visible_ids d)) (db_chunks d)"

text \<open>What a step at a time may do.\<close>

definition marked :: "py_time \<Rightarrow> db \<Rightarrow> db \<Rightarrow> bool" where
  "marked t d d' = (db_corpus_marker d' = Some t \<or> db_corpus_marker d' = db_corpus_marker d \<and> corpus d' = corpus d)"

lemma marked_refl [simp]: "marked t d d"
  by (simp add: marked_def)

lemma marked_trans: "marked t a b \<Longrightarrow> marked t b c \<Longrightarrow> marked t a c"
  by (auto simp: marked_def)

lemma marked_now: "db_corpus_marker d' = Some t \<Longrightarrow> marked t d d'"
  by (simp add: marked_def)

subsection \<open>Operations that leave the corpus alone\<close>

definition corpus_part where
  "corpus_part d = (db_documents d, db_versions d, db_chunks d, db_corpus_marker d)"

lemma visible_ids_cong:
  "db_documents d' = db_documents d \<Longrightarrow> db_versions d' = db_versions d \<Longrightarrow> visible_ids d' = visible_ids d"
  by (simp add: visible_ids_def retrieval_visible_def[abs_def])

lemma marked_part:
  assumes "corpus_part d' = corpus_part d"
  shows "marked t d d'"
  using assms visible_ids_cong[of d' d] by (simp add: corpus_part_def marked_def corpus_def)

lemma marker_part: "corpus_part d' = corpus_part d \<Longrightarrow> db_corpus_marker d' = db_corpus_marker d"
  by (simp add: corpus_part_def)

lemma corpus_part_audited [simp]: "corpus_part (audited a u r t i m d) = corpus_part d"
  by (simp add: corpus_part_def audited_def audit_def add_audit_log_def)

lemma corpus_part_insert_job: "insert_job d j = Inr (r, d') \<Longrightarrow> corpus_part d' = corpus_part d"
  by (auto dest!: insert_job_InrD simp: corpus_part_def)

lemma corpus_part_update_where: "update_where p f d = Inr (n, d') \<Longrightarrow> corpus_part d' = corpus_part d"
  by (auto dest!: update_where_InrD simp: corpus_part_def)

lemma corpus_part_update_owned: "update_owned i w f d = Inr d' \<Longrightarrow> corpus_part d' = corpus_part d"
  by (auto dest!: update_owned_InrD simp: corpus_part_def)

lemma corpus_part_create_job: "create_job a b c e f g h d = Inr (j, d') \<Longrightarrow> corpus_part d' = corpus_part d"
  by (auto simp: create_job_def corpus_part_insert_job)

lemma corpus_part_lift_job: "lift_job (create_job a b c e f g h d) = Inr (j, d') \<Longrightarrow> corpus_part d' = corpus_part d"
  by (auto simp: lift_job_def corpus_part_create_job split: sum.splits)

lemma corpus_part_ingest_job: "create_ingest_job env u i v act d = Inr (j, d') \<Longrightarrow> corpus_part d' = corpus_part d"
  by (auto simp: create_ingest_job_def corpus_part_lift_job split: sum.splits)

lemma corpus_part_mirror_job: "create_qdrant_mirror_job env u t i p d = Inr (j, d') \<Longrightarrow> corpus_part d' = corpus_part d"
  by (auto simp: create_qdrant_mirror_job_def corpus_part_lift_job)

lemma corpus_part_graph_job:
  assumes "create_graph_index_job c now v d = Inr d'"
  shows "corpus_part d' = corpus_part d"
proof (cases "create_job ''graph_index_build'' (Some ''document_version'') (Some v)
    (Some (graph_index_job_payload v (graph_extractor_type_override d))) c 80 now d")
  case (Inl e)
  then show ?thesis using assms by (auto simp: create_graph_index_job_def lift_job_def split: if_splits)
next
  case (Inr p)
  then obtain j d1 where "create_job ''graph_index_build'' (Some ''document_version'') (Some v)
    (Some (graph_index_job_payload v (graph_extractor_type_override d))) c 80 now d = Inr (j, d1)"
    by (cases p) auto
  from corpus_part_create_job[OF this] this show ?thesis
    using assms by (auto simp: create_graph_index_job_def lift_job_def split: if_splits)
qed

lemma corpus_part_approval_jobs:
  "approval_jobs env user doc ver previous d = Inr (j, d') \<Longrightarrow> corpus_part d' = corpus_part d"
  by (auto simp: approval_jobs_def dest!: corpus_part_mirror_job corpus_part_graph_job
      split: sum.splits option.splits if_splits)

lemmas corpus_frames = corpus_part_ingest_job corpus_part_mirror_job corpus_part_graph_job
  corpus_part_approval_jobs

subsection \<open>Statements on the document tables\<close>

lemma create_document_marked:
  assumes "create_logical_document owner title now d = Inr (x, d')" "docs_inv d"
  shows "marked t d d'"
proof -
  have x: "doc_id x = db_next_document_id d"
    and d': "db_documents d' = db_documents d @ [x]" "db_versions d' = db_versions d" "db_chunks d' = db_chunks d"
      "db_corpus_marker d' = db_corpus_marker d"
    using assms(1) by (auto simp: create_logical_document_def put_documents_def Let_def split: if_splits)
  have "doc_id x \<noteq> ver_document_id v" if "v \<in> set (db_versions d)" for v
    using assms(2) that x by (fastforce simp: docs_inv_def docs_base_def has_document_def)
  then have "filter (retrieval_visible d') (db_versions d) = filter (retrieval_visible d) (db_versions d)"
    by (intro filter_cong) (auto simp: retrieval_visible_def d')
  then show ?thesis by (simp add: marked_def corpus_def visible_ids_def d')
qed

lemma create_version_marked:
  assumes "create_version doc no hash file mime bytes key creator meta now d = Inr (v, d')"
  shows "marked t d d'"
proof -
  have v: "\<not> ver_is_active v"
    and d': "db_versions d' = db_versions d @ [v]" "db_documents d' = db_documents d" "db_chunks d' = db_chunks d"
      "db_corpus_marker d' = db_corpus_marker d"
    using assms by (auto simp: create_version_def put_versions_def Let_def split: if_splits)
  have "retrieval_visible d' = retrieval_visible d" by (simp add: retrieval_visible_def[abs_def] d')
  moreover have "\<not> retrieval_visible d v" using v by (simp add: retrieval_visible_def)
  ultimately show ?thesis by (simp add: marked_def corpus_def visible_ids_def d')
qed

lemma update_document_marked:
  assumes "update_document i f d = Inr d'" "\<And>x. doc_id (f x) = doc_id x \<and> doc_status (f x) = doc_status x"
  shows "marked t d d' \<and> db_corpus_marker d' = db_corpus_marker d"
proof -
  define g where "g = (\<lambda>x. if doc_id x = i then f x else x)"
  have d': "d' = d\<lparr>db_documents := map g (db_documents d)\<rparr>"
    using update_document_InrD[OF assms(1)] by (simp add: g_def)
  have "doc_id (g x) = doc_id x" "doc_status (g x) = doc_status x" for x using assms(2) by (auto simp: g_def)
  then have "retrieval_visible d' = retrieval_visible d"
    by (simp add: retrieval_visible_def[abs_def] d' list_ex_iff)
  then show ?thesis by (simp add: marked_def corpus_def visible_ids_def d')
qed

lemma touch_document_marked:
  "touch_document i now d = Inr d' \<Longrightarrow> marked t d d' \<and> db_corpus_marker d' = db_corpus_marker d"
  unfolding touch_document_def by (erule update_document_marked) simp

text \<open>An update of version rows that keeps their keys and what retrieval sees of them.\<close>

lemma version_map_marked:
  assumes "\<And>v. v \<in> set (db_versions d) \<Longrightarrow> same_version v (g v) \<and> retrieval_visible d (g v) = retrieval_visible d v"
  shows "marked t d (version_map g d)"
proof -
  have vis: "retrieval_visible (version_map g d) = retrieval_visible d"
    by (simp add: retrieval_visible_def[abs_def] version_map_def)
  have "map (ver_id \<circ> g) (filter (retrieval_visible d \<circ> g) (db_versions d)) =
      map ver_id (filter (retrieval_visible d) (db_versions d))"
    by (intro map_cong filter_cong) (use assms in \<open>auto simp: same_version_def\<close>)
  then have "visible_ids (version_map g d) = visible_ids d"
    unfolding visible_ids_def vis by (simp add: version_map_def filter_map comp_def)
  then show ?thesis by (simp add: marked_def corpus_def version_map_def)
qed

text \<open>An update that clears a version's visibility moves the marker when there was any.\<close>

lemma any_visible_single:
  "any_version_is_retrieval_visible [i] d \<longleftrightarrow> i \<in> set (visible_ids d)"
  by (auto simp: any_version_is_retrieval_visible_def visible_ids_def list_ex_iff)

lemma touch_if_fields [simp]:
  "db_versions (touch_if b t d) = db_versions d" "db_documents (touch_if b t d) = db_documents d"
  "db_chunks (touch_if b t d) = db_chunks d" "retrieval_visible (touch_if b t d) = retrieval_visible d"
  by (simp_all add: touch_if_def touch_corpus_marker_def retrieval_visible_def[abs_def])

lemma update_after_touch_marked:
  assumes "update_version i f (touch_if (any_version_is_retrieval_visible [i] d) t d) = Inr d'"
    and "\<And>v. same_version v (f v)"
    and "\<And>v. v \<in> set (db_versions d) \<Longrightarrow> ver_id v = i \<Longrightarrow> \<not> retrieval_visible d v \<Longrightarrow> \<not> retrieval_visible d (f v)"
  shows "marked t d d'"
proof (cases "i \<in> set (visible_ids d)")
  case True
  then show ?thesis
    using update_version_InrD[OF assms(1)]
    by (auto simp: any_visible_single touch_if_def touch_corpus_marker_def intro!: marked_now)
next
  case False
  then have d': "d' = version_map (\<lambda>v. if ver_id v = i then f v else v) d"
    using update_version_InrD[OF assms(1)] by (simp add: any_visible_single touch_if_def version_map_def)
  have "\<not> retrieval_visible d v" if "v \<in> set (db_versions d)" "ver_id v = i" for v
    using False that by (auto simp: visible_ids_def)
  then show ?thesis
    unfolding d' using assms(2,3) by (intro version_map_marked) (auto simp: same_version_def)
qed

lemma ingest_update_marked:
  "reset_version_for_ingest i t d = Inr d' \<Longrightarrow> marked t d d'"
  "mark_version_failed i code t d = Inr d' \<Longrightarrow> marked t d d'"
  unfolding reset_version_for_ingest_def mark_version_failed_def clear_extraction_def
  by (erule update_after_touch_marked; simp add: same_version_def retrieval_visible_def)+

lemma mark_version_ready_marked:
  assumes "mark_version_ready i t d = Inr d'" "docs_inv d"
  shows "marked t d d'"
  using assms(1) unfolding mark_version_ready_def
proof (rule update_after_touch_marked)
  fix v assume v: "v \<in> set (db_versions d)" "\<not> retrieval_visible d v"
  have "ck_version v" using assms(2) v(1) by (simp add: docs_inv_def docs_base_def versions_ok_def)
  with v(2) show "\<not> retrieval_visible d (v\<lparr>ver_status := VReady, ver_error_code := None, ver_updated_at := t\<rparr>)"
    by (auto simp: retrieval_visible_def ck_version_def)
qed (simp add: same_version_def)

text \<open>Storing the extractor's metadata makes the version processing: the table refuses that for
  an active version.\<close>

lemma update_ingest_metadata_marked:
  assumes "update_ingest_metadata i p e ev t d = Inr d'"
  shows "marked t d d'"
proof -
  define g :: "document_version \<Rightarrow> document_version" where "g = (\<lambda>v. if ver_id v = i
      then v\<lparr>ver_page_count := p, ver_extractor_name := Some e, ver_extractor_version := Some ev,
        ver_status := VProcessing, ver_error_code := None, ver_updated_at := t\<rparr> else v)"
  note up = update_version_InrD[OF assms[unfolded update_ingest_metadata_def]]
  have d': "d' = version_map g d" using up by (simp add: version_map_def g_def)
  have "ck_version (g v)" if "v \<in> set (db_versions d)" for v
    using up that unfolding d' by (simp add: version_map_def versions_ok_def)
  moreover have "ck_version (g v) \<Longrightarrow> ver_id v = i \<Longrightarrow> \<not> ver_is_active v" for v
    by (auto simp: g_def ck_version_def)
  ultimately have "\<not> ver_is_active v" if "v \<in> set (db_versions d)" "ver_id v = i" for v
    using that by blast
  then have "retrieval_visible d (g v) = retrieval_visible d v" if "v \<in> set (db_versions d)" for v
    using that by (auto simp: g_def retrieval_visible_def)
  then show ?thesis
    unfolding d' by (intro version_map_marked) (auto simp: g_def same_version_def)
qed

lemma delete_chunks_marked: "marked t d (snd (delete_chunks i t d))"
proof (cases "i \<in> set (visible_ids d)")
  case True
  then show ?thesis
    by (simp add: delete_chunks_def any_visible_single touch_if_def touch_corpus_marker_def marked_now)
next
  case False
  let ?d = "d\<lparr>db_chunks := filter (\<lambda>c. chunk_version_id c \<noteq> i) (db_chunks d)\<rparr>"
  have "visible_ids ?d = visible_ids d" by (rule visible_ids_cong) simp_all
  then have "corpus ?d = corpus d" unfolding corpus_def using False by (auto intro!: filter_cong)
  then show ?thesis using False by (simp add: delete_chunks_def any_visible_single touch_if_def marked_def)
qed

lemma number_chunks_versions: "map chunk_version_id (number_chunks n cs) = map chunk_version_id cs"
  by (induction n cs rule: number_chunks.induct) auto

lemma bulk_insert_chunks_marked:
  assumes "bulk_insert_chunks cs t d = Inr d'"
  shows "marked t d d'"
proof (cases "cs = []")
  case False
  let ?new = "number_chunks (db_next_chunk_id d) cs"
  let ?d1 = "d\<lparr>db_chunks := db_chunks d @ ?new\<rparr>"
  let ?d2 = "?d1\<lparr>db_next_chunk_id := db_next_chunk_id d + int (length cs)\<rparr>"
  have d': "d' = touch_if (any_version_is_retrieval_visible (map chunk_version_id cs) ?d1) t ?d2"
    using assms False by (auto simp: bulk_insert_chunks_def put_chunks_def split: if_splits)
  have vis: "retrieval_visible ?d1 = retrieval_visible d" by (simp add: retrieval_visible_def[abs_def])
  show ?thesis
  proof (cases "any_version_is_retrieval_visible (map chunk_version_id cs) ?d1")
    case True
    then show ?thesis unfolding d' by (simp add: touch_if_def touch_corpus_marker_def marked_now)
  next
    case none: False
    have ids: "visible_ids ?d2 = visible_ids d" by (rule visible_ids_cong) simp_all
    have "chunk_version_id c \<notin> set (visible_ids d)" if "c \<in> set ?new" for c
    proof -
      have "chunk_version_id c \<in> set (map chunk_version_id ?new)" using that by simp
      then have "chunk_version_id c \<in> set (map chunk_version_id cs)" by (simp only: number_chunks_versions)
      with none vis show ?thesis
        by (auto simp: any_version_is_retrieval_visible_def visible_ids_def list_ex_iff)
    qed
    then have "corpus ?d2 = corpus d" unfolding corpus_def ids by simp
    with none show ?thesis unfolding d' by (simp add: touch_if_def marked_def)
  qed
qed (use assms in \<open>simp add: bulk_insert_chunks_def\<close>)

subsection \<open>Requests and transactions\<close>

lemma store_first_version_marked:
  assumes "store_first_version env user title up key content meta act audit_it d fs = (r, d', fs')" "docs_inv d"
    and "\<And>i j d. corpus_part (audit_it i j d) = corpus_part d"
  shows "marked t d d'"
proof (cases "d' = d")
  case False
  then obtain x d1 v d2 resp where c: "create_logical_document user title (de_now env) d = Inr (x, d1)"
      "create_version (doc_id x) 1 (de_sha256 env content) (up_file_name up) (up_mime_type up)
         (int (up_size up)) key user meta (de_now env) d1 = Inr (v, d2)"
    and rest: "(case create_ingest_job env user (doc_id x) (ver_id v) act d2 of Inl e \<Rightarrow> Inl e
      | Inr (j, d3) \<Rightarrow> Inr (\<lparr>ur_document_id = doc_id x, ur_version_id = ver_id v,
          ur_job_id = job_id j, ur_version_status = ver_status v,
          ur_display_status = display_status x (Some v)\<rparr>, audit_it (doc_id x) (ver_id v) d3)) = Inr (resp, d')"
    using assms(1) by (auto simp: store_first_version_def elim!: save_then_cases split: sum.splits prod.splits)
  have "corpus_part d' = corpus_part d2"
    using rest by (auto simp: assms(3) corpus_part_ingest_job split: sum.splits)
  with create_document_marked[OF c(1) assms(2)] create_version_marked[OF c(2)] marked_part
  show ?thesis using marked_trans by blast
qed simp

lemma upload_document_marked:
  "upload_document env user title filename ctype content rid act d fs = (r, d', fs') \<Longrightarrow> docs_inv d \<Longrightarrow> marked t d d'"
  by (auto simp: upload_document_def elim!: store_first_version_marked split: sum.splits)

lemma ingest_url_marked:
  "ingest_url env cfg tm user url title rid d fs = (r, d', fs') \<Longrightarrow> docs_inv d \<Longrightarrow> marked t d d'"
  by (auto simp: ingest_url_def elim!: store_first_version_marked split: sum.splits)

lemma store_next_version_marked:
  assumes "store_next_version env user x up key content rid d fs = (r, d', fs')"
  shows "marked t d d'"
proof (cases "d' = d")
  case False
  then obtain v d1 d2 j d3 where
    c: "create_version (doc_id x) (max_version_no (doc_id x) d + 1) (de_sha256 env content)
         (up_file_name up) (up_mime_type up) (int (up_size up)) key user None (de_now env) d = Inr (v, d1)"
      "touch_document (doc_id x) (de_now env) d1 = Inr d2"
    and rest: "create_ingest_job env user (doc_id x) (ver_id v) None d2 = Inr (j, d3)" "corpus_part d' = corpus_part d3"
    using assms(1) by (auto simp: store_next_version_def Let_def elim!: save_then_cases
        split: sum.splits prod.splits)
  have "marked t d2 d'" using rest(2) corpus_part_ingest_job[OF rest(1)] by (intro marked_part) simp
  with create_version_marked[OF c(1)] touch_document_marked[OF c(2)] show ?thesis
    using marked_trans by blast
qed simp

lemma add_version_marked:
  "add_version env user doc filename ctype content rid d fs = (r, d', fs') \<Longrightarrow> marked t d d'"
  by (auto simp: add_version_def marked_part elim: store_next_version_marked
      split: option.splits if_splits sum.splits)

lemma set_active_version_marked:
  assumes "set_active_version order doc v t d = Inr (p, d')" "permutes_rows order" "docs_inv d"
  shows "db_corpus_marker d' = Some t"
proof -
  have "versions_ok (db_versions d)" using assms(3) by (simp add: docs_inv_def docs_base_def)
  from set_active_version_InrD[OF assms(1,2) this] show ?thesis
    by (simp add: version_map_def touch_corpus_marker_def)
qed

lemma approve_version_marked:
  assumes "approve_version env user doc ver rid d = (r, d')" "permutes_rows (de_flush_order env)" "docs_inv d"
  shows "marked (de_now env) d d'"
proof (cases "d' = d")
  case False
  then obtain v p d1 j d2 d3 where c: "set_active_version (de_flush_order env) doc v (de_now env) d = Inr (p, d1)"
      "approval_jobs env user doc (ver_id v) p d1 = Inr (j, d2)" "touch_document doc (de_now env) d2 = Inr d3"
      "corpus_part d' = corpus_part d3"
    using assms(1) by (auto simp: approve_version_def activate_version_def split: sum.splits prod.splits if_splits)
  then have "db_corpus_marker d' = db_corpus_marker d1"
    using marker_part[OF c(4)] touch_document_marked[OF c(3)] marker_part[OF corpus_part_approval_jobs[OF c(2)]]
    by simp
  then show ?thesis using set_active_version_marked[OF c(1) assms(2,3)] by (intro marked_now) simp
qed simp

lemma store_archive_marked:
  assumes "store_archive_document order i t d = Inr d'" "permutes_rows order" "docs_inv d"
  shows "db_corpus_marker d' = Some t"
  using store_archive_InrD[OF assms(1,2)] assms(3)
  by (simp add: docs_inv_def version_map_def touch_corpus_marker_def)

lemma archive_document_marked:
  assumes "archive_document env user doc rid d = (r, d')" "permutes_rows (de_flush_order env)" "docs_inv d"
  shows "marked (de_now env) d d'"
proof (cases "d' = d")
  case False
  then obtain d1 j d2 d3 where c: "store_archive_document (de_flush_order env) doc (de_now env) d = Inr d1"
      "create_qdrant_mirror_job env user ''logical_document'' doc
            [(''logical_document_id'', PInt doc), (''mirror_action'', PStr ''mark_inactive''),
             (''requested_by_user_id'', PInt user)] d1 = Inr (j, d2)"
      "(case active_version doc d of None \<Rightarrow> Inr d2
              | Some a \<Rightarrow> create_graph_index_job (Some user) (de_now env) (ver_id a) d2) = Inr d3"
      "corpus_part d' = corpus_part d3"
    using assms(1) by (auto simp: archive_document_def archive_now_def split: sum.splits option.splits prod.splits if_splits)
  have "corpus_part d3 = corpus_part d2"
    using c(3) corpus_part_graph_job by (auto split: option.splits)
  then have "db_corpus_marker d' = db_corpus_marker d1"
    using c(4) marker_part corpus_part_mirror_job[OF c(2)] by metis
  then show ?thesis using store_archive_marked[OF c(1) assms(2,3)] by (intro marked_now) simp
qed simp

lemma prepare_version_marked: "prepare_version ctx i t d = (r, d') \<Longrightarrow> marked t d d'"
  by (auto simp: prepare_version_def Let_def dest!: owned_then_InrD
      intro: ingest_update_marked split: option.splits if_splits sum.splits ingest_exc.splits)

lemma delete_chunks_tx_marked: "delete_chunks_tx ctx i t d = Inr d' \<Longrightarrow> marked t d d'"
  by (auto simp: delete_chunks_tx_def delete_chunks_marked dest!: owned_then_InrD)

lemma write_chunks_marked:
  assumes "write_chunks i meta chunks t d = Inr d'"
  shows "marked t d d'"
proof -
  obtain d1 where c: "bulk_insert_chunks (map (\<lambda>c. chunk_row c t) chunks) t (snd (delete_chunks i t d)) = Inr d1"
      "update_ingest_metadata i (im_page_count meta) (im_extractor_name meta) (im_extractor_version meta) t d1 = Inr d'"
    using assms by (auto simp: write_chunks_def split: sum.splits if_splits)
  show ?thesis
    using delete_chunks_marked bulk_insert_chunks_marked[OF c(1)] update_ingest_metadata_marked[OF c(2)] marked_trans
    by blast
qed

lemma store_chunks_marked: "store_chunks ctx i meta chunks t d = (r, d') \<Longrightarrow> marked t d d'"
  by (auto simp: store_chunks_def dest!: owned_then_InrD intro: write_chunks_marked
      split: option.splits if_splits sum.splits ingest_exc.splits)

lemma mark_ready_tx_marked:
  assumes "mark_ready_tx env ctx i n t d = Inr d'" "permutes_rows (de_flush_order env)" "docs_inv d"
  shows "marked t d d'"
proof -
  obtain v d1 d2 where c: "mark_version_ready (ver_id v) t d = Inr d1"
      "(if evaluation_activation_requested (ctx_payload ctx)
        then map_sum id snd (set_active_version (de_flush_order env) (ver_document_id v) v t d1) else Inr d1) = Inr d2"
      "create_graph_index_job None t (ver_id v) d2 = Inr d'"
    using assms(1) by (auto simp: mark_ready_tx_def mark_ready_writes_def dest!: owned_then_InrD
        split: option.splits if_splits sum.splits)
  have "docs_inv d1" using ingest_updates_safe(4)[OF c(1)] assms(3) by (simp add: doc_safe_def)
  then have "marked t d1 d2"
    using c(2) set_active_version_marked[OF _ assms(2)]
    by (cases "set_active_version (de_flush_order env) (ver_document_id v) v t d1")
       (auto split: if_splits intro!: marked_now)
  then show ?thesis
    using mark_version_ready_marked[OF c(1) assms(3)] marked_part[OF corpus_part_graph_job[OF c(3)]] marked_trans
    by blast
qed

lemma mark_failed_tx_marked:
  assumes "mark_failed_tx ctx i code del t d = (r, d')"
  shows "marked t d d'"
proof (cases "d' = d")
  case False
  then have "mark_version_failed i code t (if del then snd (delete_chunks i t d) else d) = Inr d'"
    using assms by (auto simp: mark_failed_tx_def dest!: owned_then_InrD
        split: option.splits if_splits sum.splits ingest_exc.splits)
  then show ?thesis
    using ingest_update_marked(2) delete_chunks_marked marked_trans by (metis (full_types))
qed simp

text \<open>A retry resets failed versions, which retrieval does not see before or after.\<close>

lemma prepare_retry_marked:
  assumes "prepare_document_ingest_retry j t d = Inr d'" "docs_inv d"
  shows "marked t d d'"
proof (cases "d' = d")
  case False
  then obtain v where v: "v \<in> set (db_versions d)" "ver_status v = VFailed"
    and d': "d' = d\<lparr>
       db_versions := map (\<lambda>w. if ver_id w = ver_id v then reset_version t w else w) (db_versions d),
       db_documents := map (\<lambda>x. if doc_id x = ver_document_id v then x\<lparr>doc_updated_at := t\<rparr> else x) (db_documents d)\<rparr>"
    using assms(1) by (fastforce simp: prepare_document_ingest_retry_def get_version_def find_Some_iff
        in_set_conv_nth split: if_splits option.splits)
  define g where "g = (\<lambda>w. if ver_id w = ver_id v then reset_version t w else w)"
  define h :: "logical_document \<Rightarrow> logical_document"
    where "h = (\<lambda>x. if doc_id x = ver_document_id v then x\<lparr>doc_updated_at := t\<rparr> else x)"
  have ok: "versions_ok (db_versions d)" using assms(2) by (simp add: docs_inv_def docs_base_def)
  have failed: "ver_status w = VFailed" if "w \<in> set (db_versions d)" "ver_id w = ver_id v" for w
    using versions_unique[OF ok that(1) v(1) that(2)] v(2) by simp
  have "marked t d (version_map g d)"
    by (rule version_map_marked)
       (use failed in \<open>auto simp: g_def same_version_def reset_version_def retrieval_visible_def\<close>)
  moreover have "marked t (version_map g d) d'"
  proof -
    have "doc_id (h x) = doc_id x" "doc_status (h x) = doc_status x" for x by (simp_all add: h_def)
    moreover have d'_eq: "d' = (version_map g d)\<lparr>db_documents := map h (db_documents d)\<rparr>"
      by (simp add: d' version_map_def g_def h_def)
    ultimately have "retrieval_visible d' = retrieval_visible (version_map g d)"
      by (simp add: retrieval_visible_def[abs_def] list_ex_iff version_map_def)
    then show ?thesis by (simp add: marked_def corpus_def visible_ids_def d'_eq)
  qed
  ultimately show ?thesis by (rule marked_trans)
qed simp

lemma job_step_marked:
  assumes "job_step lease (u, d) (t, d')" "docs_inv d"
  shows "marked t d d'"
  using assms(1)
proof cases
  case (step_acquire locked worker enabled batch supported js)
  then show ?thesis
    by (auto simp: acquire_jobs_def Let_def intro: marked_part corpus_part_update_where split: sum.splits)
next
  case (step_cancel i)
  then show ?thesis
    by (auto simp: mark_canceled_def intro: marked_part corpus_part_update_where split: sum.splits)
next
  case (step_retry seen i uid resp)
  then obtain j d1 r where c: "prepare_document_ingest_retry j t d = Inr d1"
      "create_retry_job j (Some uid) t d1 = Inr (r, d')"
    by (auto simp: retry_job_in_def Let_def split: option.splits if_splits sum.splits)
  then show ?thesis
    using prepare_retry_marked[OF c(1) assms(2)] marked_part[OF corpus_part_insert_job] marked_trans
    unfolding create_retry_job_def by blast
qed (auto simp: renew_lease_def mark_succeeded_def mark_failed_def
    intro: marked_part corpus_part_update_owned corpus_part_create_job)

subsection \<open>Timed steps\<close>

text \<open>A step of the system together with the time at which its transaction writes.\<close>

inductive step_at :: "py_time \<Rightarrow> db \<Rightarrow> db \<Rightarrow> bool" where
  at_upload: "upload_document env user title filename ctype content rid act d fs = (r, d', fs') \<Longrightarrow>
    step_at (de_now env) d d'"
| at_ingest_url: "ingest_url env cfg tm user url title rid d fs = (r, d', fs') \<Longrightarrow> step_at (de_now env) d d'"
| at_add_version: "add_version env user doc filename ctype content rid d fs = (r, d', fs') \<Longrightarrow>
    step_at (de_now env) d d'"
| at_approve: "permutes_rows (de_flush_order env) \<Longrightarrow>
    approve_version env user doc ver rid d = (r, d') \<Longrightarrow> step_at (de_now env) d d'"
| at_archive: "permutes_rows (de_flush_order env) \<Longrightarrow>
    archive_document env user doc rid d = (r, d') \<Longrightarrow> step_at (de_now env) d d'"
| at_prepare: "prepare_version ctx i now d = (r, d') \<Longrightarrow> step_at now d d'"
| at_delete_chunks: "delete_chunks_tx ctx i now d = Inr d' \<Longrightarrow> step_at now d d'"
| at_store_chunks: "store_chunks ctx i meta chunks now d = (r, d') \<Longrightarrow> step_at now d d'"
| at_mark_ready: "permutes_rows (de_flush_order env) \<Longrightarrow>
    mark_ready_tx env ctx i n now d = Inr d' \<Longrightarrow> step_at now d d'"
| at_mark_failed: "mark_failed_tx ctx i code del now d = (r, d') \<Longrightarrow> step_at now d d'"
| at_job: "job_step lease (t, d) (now, d') \<Longrightarrow> step_at now d d'"

lemma step_at_doc_step: "step_at t d d' \<Longrightarrow> doc_step d d'"
  by (induction rule: step_at.induct) (blast intro: doc_step.intros)+

lemma step_at_marked: "step_at t d d' \<Longrightarrow> docs_inv d \<Longrightarrow> marked t d d'"
  by (induction rule: step_at.induct)
     (blast intro: upload_document_marked ingest_url_marked add_version_marked approve_version_marked
        archive_document_marked prepare_version_marked delete_chunks_tx_marked store_chunks_marked
        mark_ready_tx_marked mark_failed_tx_marked job_step_marked)+

text \<open>A run with the times of its steps.\<close>

fun run_at :: "py_time list \<Rightarrow> db \<Rightarrow> db \<Rightarrow> bool" where
  "run_at [] d d' = (d' = d)"
| "run_at (t # ts) d d' = (\<exists>e. step_at t d e \<and> run_at ts e d')"

lemma run_at_inv: "run_at ts d d' \<Longrightarrow> docs_inv d \<Longrightarrow> docs_inv d'"
proof (induction ts arbitrary: d)
  case (Cons t ts)
  then show ?case using step_at_doc_step doc_step_safe unfolding doc_safe_def by fastforce
qed simp

lemma run_at_marked:
  assumes "run_at ts d d'" "docs_inv d"
  shows "(\<exists>t\<in>set ts. db_corpus_marker d' = Some t) \<or>
    db_corpus_marker d' = db_corpus_marker d \<and> corpus d' = corpus d"
  using assms
proof (induction ts arbitrary: d)
  case (Cons t ts)
  then obtain e where e: "step_at t d e" "run_at ts e d'" by auto
  have "marked t d e" by (rule step_at_marked[OF e(1) Cons.prems(2)])
  moreover have "docs_inv e"
    using step_at_doc_step[OF e(1)] doc_step_safe Cons.prems(2) unfolding doc_safe_def by blast
  ultimately show ?case using Cons.IH[OF e(2)] by (auto simp: marked_def)
qed simp

lemma marker_tells_changes:
  assumes "run_at ts d d'" "docs_inv d" "db_corpus_marker d \<notin> Some ` set ts"
    and "corpus d' \<noteq> corpus d"
  shows "db_corpus_marker d' \<noteq> db_corpus_marker d"
  using run_at_marked[OF assms(1,2)] assms(3,4) by auto

end
