(* ===== verification/Cache_Properties.thy ===== *)
theory Cache_Properties
  imports Cache_Contract Corpus_Marker Document_Examples
begin

section \<open>Properties of the retrieval cache\<close>

text \<open>
  What is read back from a stored payload, when two keys are equal, and what a hit therefore
  says about the corpus. SHA-256 is assumed to separate the texts that are actually hashed,
  not to be injective.
\<close>

subsection \<open>Reading a payload back\<close>

declare py_round_idem [simp]

lemma round_score_idem [simp]: "round_score (round_score x) = round_score x"
  by (cases x) simp_all

lemma isfinite_round_score [simp]: "isfinite (round_score x) = isfinite x"
  by (cases x) simp_all

definition readable_item :: "cached_item \<Rightarrow> bool" where
  "readable_item i = (0 < ci_chunk_id i \<and> isfinite (ci_score i) \<and> 0 < ci_rank i \<and>
     safe_string 50 (safe_string 50 (ci_source i)) \<noteq> [])"

definition readable_payload :: "cached_payload \<Rightarrow> bool" where
  "readable_payload p = (pl_schema p = cache_schema_version \<and> hex64 (py_lower (py_strip (pl_query_hash p))) \<and>
     safe_string 50 (pl_strategy p) \<noteq> [] \<and> list_all readable_item (pl_items p))"

definition keep_if :: "('a \<Rightarrow> bool) \<Rightarrow> 'a option \<Rightarrow> 'a option" where
  "keep_if P x = (case x of None \<Rightarrow> None | Some y \<Rightarrow> if P y then Some y else None)"

definition settle_item :: "cached_item \<Rightarrow> cached_item" where
  "settle_item i = i\<lparr>ci_score := round_score (ci_score i),
     ci_rerank_score := map_option round_score (keep_if isfinite (ci_rerank_score i)),
     ci_rerank_order := keep_if (\<lambda>n. 0 < n) (ci_rerank_order i),
     ci_source := safe_string 50 (safe_string 50 (ci_source i)),
     ci_breakdown := map_option (\<lambda>d. safe_dict (safe_dict d)) (ci_breakdown i)\<rparr>"

definition settle_path :: "cached_path \<Rightarrow> cached_path" where
  "settle_path p = \<lparr>cp_path = safe_dict (safe_dict (cp_path p)),
     cp_breakdown = safe_dict (safe_dict (cp_breakdown p)), cp_chunk_ids = filter (\<lambda>n. 0 < n) (cp_chunk_ids p)\<rparr>"

definition settle_payload :: "cache_env \<Rightarrow> cached_payload \<Rightarrow> cached_payload" where
  "settle_payload env p = p\<lparr>pl_query_hash := py_lower (py_strip (pl_query_hash p)),
     pl_strategy := safe_string 50 (pl_strategy p), pl_summary := safe_dict (safe_dict (pl_summary p)),
     pl_items := map settle_item (pl_items p), pl_paths := map settle_path (pl_paths p),
     pl_created_at := Option.bind (pl_created_at p) (\<lambda>t. ce_fromiso env (ce_iso env t)),
     pl_ttl := keep_if (\<lambda>n. 0 < n) (pl_ttl p)\<rparr>"

lemmas cached_reads = cached_positive_int_def cached_string_def cached_hash_def cached_score_def
  cached_dict_def cached_time_def cached_flag_def opt_val_def keep_if_def Let_def

lemma item_reads_back:
  "item_from_json (item_to_json i) = (if readable_item i then Some (settle_item i) else None)"
  by (cases i; cases "ci_score i"; cases "ci_rerank_score i")
     (auto simp: item_from_json_def item_to_json_def readable_item_def settle_item_def cached_reads split: option.splits)

lemma map_filter_positive: "List.map_filter (\<lambda>x. cached_positive_int (Some x)) (map PInt ns) = filter (\<lambda>n. 0 < n) ns"
  by (induction ns) (auto simp: List.map_filter_def cached_positive_int_def)

lemma path_reads_back: "path_from_json (path_to_json p) = Some (settle_path p)"
  by (simp add: path_from_json_def path_to_json_def settle_path_def cached_dict_def map_filter_positive)

lemma items_read_back:
  "all_some item_from_json (map item_to_json is) =
     (if list_all readable_item is then Some (map settle_item is) else None)"
  by (induction "is") (auto simp: item_reads_back)

lemma paths_read_back: "List.map_filter path_from_json (map path_to_json ps) = map settle_path ps"
  by (induction ps) (auto simp: List.map_filter_def path_reads_back)

text \<open>
  C27: A payload written to the cache table is read back as itself, rounded and redacted once
  more, when every item is readable; one unreadable item (an empty source, an identifier or a
  rank that is not positive, a score that is not finite) makes the whole entry unreadable.
\<close>

theorem stored_payload_reads_back:
  "payload_from_json env (payload_to_json env p) =
     (if readable_payload p then Some (settle_payload env p) else None)"
proof (cases "pl_schema p = cache_schema_version")
  case True
  then show ?thesis
    by (cases p; cases "pl_created_at p"; cases "pl_ttl p")
       (auto simp: payload_from_json_def payload_to_json_def readable_payload_def settle_payload_def
          items_read_back paths_read_back hex64_def cached_reads split: option.splits)
qed (simp add: payload_from_json_def payload_to_json_def readable_payload_def)

subsection \<open>Both stores follow the last payload stored\<close>

text \<open>
  C25: After any history of lookups and successful stores, the two stores agree: the dictionary
  hits exactly with the last payload stored under the key while it has not expired, and the
  table hits with the same payload as far as it can be read back.
\<close>

theorem cache_stores_agree:
  assumes "run_cache (pg_look env) (pg_store env) ops [] = Some table"
    and "run_cache (\<lambda>k t m. m) (\<lambda>n k p ttl t m. Some (mem_store k p ttl t m)) ops [] = Some m"
    and "\<forall>op\<in>set ops. op_time op \<le> now"
  shows "mem_hit k now m = live_payload now (last_stored (ck_key k) ops None) \<and>
    pg_hit env k now table = Option.bind (mem_hit k now m) (read_back env)"
proof -
  have mem: "mem_hit k now m = live_payload now (last_stored (ck_key k) ops None)"
    using mem.hit_after_run[OF assms(2) _ assms(3), of k] by (simp add: mem_hit_eq bind_eq_Some_conv split: option.splits)
  moreover have "pg_hit env k now table = Option.bind (mem_hit k now m) (read_back env)"
    unfolding mem by (rule pg.hit_after_run[OF assms(1) _ assms(3)]) (simp_all add: keys_distinct_def pg_hit_eq)
  ultimately show ?thesis by blast
qed

subsection \<open>Equal keys\<close>

definition marker_value :: "cache_env \<Rightarrow> string \<Rightarrow> py_time \<Rightarrow> pyval" where
  "marker_value env modality t = PDict
     [(''scope'', PStr ''active_corpus_marker''), (''modality'', PStr modality),
      (''setting_key'', PStr corpus_marker_setting),
      (''setting_value'', PDict [(''version'', PInt 1), (''updated_at'', time_val env t)]),
      (''updated_at'', time_val env t)]"

definition scope_value :: "retrieval_filters \<Rightarrow> pyval" where
  "scope_value f = PDict
     [(''modality'', PStr (rf_modality f)), (''logical_document_ids'', PList (map PInt (rf_document_ids f)))]"

text \<open>The values hashed for a key whose separation by SHA-256 matters.\<close>

definition hashed_values ::
  "cache_env \<Rightarrow> settings_rows \<Rightarrow> graph_run list \<Rightarrow> db \<Rightarrow> cache_context \<Rightarrow> pyval list" where
  "hashed_values env rows runs d ctx =
     [PDict (key_material (key_fields env rows runs d ctx)), scope_value (cc_filters ctx)] @
     (case db_corpus_marker d of None \<Rightarrow> [] | Some t \<Rightarrow> [marker_value env (rf_modality (cc_filters ctx)) t])"

definition sha_separates :: "cache_env \<Rightarrow> pyval list \<Rightarrow> bool" where
  "sha_separates env vs = (let texts = map (json_dumps (ce_float_repr env)) vs in
     inj_on (ce_sha256 env) (set texts) \<and> hash_none \<notin> ce_sha256 env ` set texts)"

lemma hashed_values_plain: "v \<in> set (hashed_values env rows runs d ctx) \<Longrightarrow> json_plain v"
  by (auto simp: hashed_values_def key_material_def scope_value_def marker_value_def time_val_def
      list_all_iff split: option.splits)

lemma sha_separatesD:
  assumes "sha_separates env vs" "v \<in> set vs" "w \<in> set vs" "json_plain v" "json_plain w"
    and "hash_json env v = hash_json env w"
  shows "sort_keys v = sort_keys w"
proof (rule json_dumps_inj[OF assms(4,5)])
  show "json_dumps (ce_float_repr env) v = json_dumps (ce_float_repr env) w"
    using assms(1-3,6) by (auto simp: sha_separates_def Let_def hash_json_def dest: inj_onD)
qed

lemma sha_not_none: "sha_separates env vs \<Longrightarrow> v \<in> set vs \<Longrightarrow> hash_json env v \<noteq> hash_none"
  by (force simp: sha_separates_def Let_def hash_json_def)

lemma key_material_keys [simp]: "map fst (key_material k) = map fst (key_material k')"
  "distinct (map fst (key_material k))"
  by (simp_all add: key_material_def)

lemma key_material_entries:
    "map_of (key_material j) ''cache_namespace'' = Some (PStr (ck_namespace j))"
    "map_of (key_material j) ''strategy_type'' = Some (PStr (ck_strategy j))"
    "map_of (key_material j) ''query_hash'' = Some (PStr (ck_query_hash j))"
    "map_of (key_material j) ''retrieval_settings_hash'' = Some (PStr (ck_retrieval_settings j))"
    "map_of (key_material j) ''rerank_settings_hash'' = Some (PStr (ck_rerank_settings j))"
    "map_of (key_material j) ''embedding_model'' = Some (PStr (ck_embedding_model j))"
    "map_of (key_material j) ''rerank_model'' = Some (PStr (ck_rerank_model j))"
    "map_of (key_material j) ''active_document_fingerprint'' = Some (PStr (ck_documents j))"
    "map_of (key_material j) ''graph_index_fingerprint'' = Some (PStr (ck_graph_index j))"
    "map_of (key_material j) ''graph_store_provider'' = Some (PStr (ck_graph_store j))"
    "map_of (key_material j) ''user_visible_scope'' = Some (PStr (ck_scope j))"
    "map_of (key_material j) ''top_k'' = Some (PInt (ck_top_k j))"
    "map_of (key_material j) ''rerank_top_n'' = Some (PInt (ck_rerank_top_n j))"
  by (simp_all add: key_material_def)

lemma key_material_inj:
  assumes "sort_keys (PDict (key_material k)) = sort_keys (PDict (key_material k'))" "ck_key k = ck_key k'"
  shows "k = k'"
proof -
  have str: "a = b"
    if "map_of (key_material k) n = Some (PStr a)" "map_of (key_material k') n = Some (PStr b)" for n a b
    using sort_keys_lookup[OF _ _ assms(1) that] by simp
  have int: "a = b"
    if "map_of (key_material k) n = Some (PInt a)" "map_of (key_material k') n = Some (PInt b)" for n a b
    using sort_keys_lookup[OF _ _ assms(1) that] by simp
  show ?thesis
    by (rule cache_key.equality)
       (use assms(2) str[OF key_material_entries(1) key_material_entries(1)]
          str[OF key_material_entries(2) key_material_entries(2)]
          str[OF key_material_entries(3) key_material_entries(3)]
          str[OF key_material_entries(4) key_material_entries(4)]
          str[OF key_material_entries(5) key_material_entries(5)]
          str[OF key_material_entries(6) key_material_entries(6)]
          str[OF key_material_entries(7) key_material_entries(7)]
          str[OF key_material_entries(8) key_material_entries(8)]
          str[OF key_material_entries(9) key_material_entries(9)]
          str[OF key_material_entries(10) key_material_entries(10)]
          str[OF key_material_entries(11) key_material_entries(11)]
          int[OF key_material_entries(12) key_material_entries(12)]
          int[OF key_material_entries(13) key_material_entries(13)] in \<open>simp_all\<close>)
qed

lemma build_key_fields:
  "build_cache_key env rows runs d ctx =
     (key_fields env rows runs d ctx)\<lparr>ck_key := hash_json env (PDict (key_material (key_fields env rows runs d ctx)))\<rparr>"
  by (simp add: build_cache_key_def Let_def)

lemma key_fields_key [simp]: "ck_key (key_fields env rows runs d ctx) = []"
  by (simp add: key_fields_def Let_def)

text \<open>Keys with equal texts are equal in every field.\<close>

lemma equal_keys:
  assumes "sha_separates env vs"
    and "set (hashed_values env rows runs d ctx) \<subseteq> set vs" "set (hashed_values env rows' runs' d' ctx') \<subseteq> set vs"
    and "ck_key (build_cache_key env rows runs d ctx) = ck_key (build_cache_key env rows' runs' d' ctx')"
  shows "key_fields env rows runs d ctx = key_fields env rows' runs' d' ctx'"
proof -
  let ?v = "PDict (key_material (key_fields env rows runs d ctx))"
  let ?w = "PDict (key_material (key_fields env rows' runs' d' ctx'))"
  have m: "?v \<in> set (hashed_values env rows runs d ctx)" "?w \<in> set (hashed_values env rows' runs' d' ctx')"
    by (simp_all add: hashed_values_def)
  have "sort_keys ?v = sort_keys ?w"
    by (rule sha_separatesD[OF assms(1) _ _ hashed_values_plain[OF m(1)] hashed_values_plain[OF m(2)]])
       (use m assms in \<open>auto simp: build_key_fields\<close>)
  then show ?thesis by (rule key_material_inj) simp
qed

lemma user_visible_scope_eq: "user_visible_scope env f = hash_json env (scope_value f)"
  by (simp add: user_visible_scope_def scope_value_def)

lemma map_PInt_inj: "map PInt xs = map PInt ys \<Longrightarrow> xs = ys"
  by (induction xs arbitrary: ys) auto

lemma equal_scopes:
  assumes "sha_separates env vs" "scope_value f \<in> set vs" "scope_value g \<in> set vs"
    and "user_visible_scope env f = user_visible_scope env g"
  shows "f = g"
proof -
  have eq: "sort_keys (scope_value f) = sort_keys (scope_value g)"
    by (rule sha_separatesD[OF assms(1-3)])
       (use assms(4) in \<open>auto simp: user_visible_scope_eq scope_value_def list_all_iff\<close>)
  have "sort_keys (PStr (rf_modality f)) = sort_keys (PStr (rf_modality g))"
    by (rule sort_keys_lookup[OF _ _ eq[unfolded scope_value_def], of "''modality''"]) simp_all
  moreover have "sort_keys (PList (map PInt (rf_document_ids f))) = sort_keys (PList (map PInt (rf_document_ids g)))"
    by (rule sort_keys_lookup[OF _ _ eq[unfolded scope_value_def], of "''logical_document_ids''"]) simp_all
  ultimately show ?thesis by (cases f; cases g) (auto simp: comp_def dest: map_PInt_inj)
qed

lemma active_corpus_marker_eq: "active_corpus_marker env m d = (case db_corpus_marker d of None \<Rightarrow> hash_none
   | Some t \<Rightarrow> hash_json env (marker_value env m t))"
  by (simp add: active_corpus_marker_def marker_value_def split: option.split)

lemma marker_value_inj:
  assumes "sort_keys (marker_value env m t) = sort_keys (marker_value env m' t')" "inj (ce_iso env)"
  shows "t = t'"
proof -
  have "sort_keys (time_val env t) = sort_keys (time_val env t')"
    by (rule sort_keys_lookup[OF _ _ assms(1)[unfolded marker_value_def], of "''updated_at''"]) simp_all
  then show ?thesis using assms(2) by (simp add: time_val_def inj_eq)
qed

lemma equal_markers:
  assumes "sha_separates env vs" "inj (ce_iso env)"
    and "set (hashed_values env rows runs d ctx) \<subseteq> set vs" "set (hashed_values env rows' runs' d' ctx') \<subseteq> set vs"
    and "active_corpus_marker env (rf_modality (cc_filters ctx)) d =
      active_corpus_marker env (rf_modality (cc_filters ctx')) d'"
  shows "db_corpus_marker d = db_corpus_marker d'"
proof (cases "db_corpus_marker d"; cases "db_corpus_marker d'")
  fix t t' assume m: "db_corpus_marker d = Some t" "db_corpus_marker d' = Some t'"
  let ?v = "marker_value env (rf_modality (cc_filters ctx)) t"
  let ?w = "marker_value env (rf_modality (cc_filters ctx')) t'"
  have "?v \<in> set (hashed_values env rows runs d ctx)" "?w \<in> set (hashed_values env rows' runs' d' ctx')"
    by (simp_all add: hashed_values_def m)
  then have "sort_keys ?v = sort_keys ?w"
    by (intro sha_separatesD[OF assms(1)])
       (use assms(3-) m hashed_values_plain in \<open>auto simp: active_corpus_marker_eq\<close>)
  then show ?thesis using marker_value_inj[OF _ assms(2)] m by simp
qed (use assms(3-) sha_not_none[OF assms(1)] in
    \<open>auto simp: active_corpus_marker_eq hashed_values_def subset_iff dest!: sym[of hash_none]\<close>)

subsection \<open>Hits are for the current corpus\<close>

text \<open>One use of the cache that ended with a store: the state its key was built in, and the steps since.\<close>

record cache_fill =
  fl_rows :: settings_rows
  fl_runs :: "graph_run list"
  fl_db :: db
  fl_context :: cache_context
  fl_since :: "py_time list"
  fl_db_now :: py_time
  fl_payload :: cached_payload
  fl_ttl :: int
  fl_at :: py_time

definition fill_key :: "cache_env \<Rightarrow> cache_fill \<Rightarrow> cache_key" where
  "fill_key env x = build_cache_key env (fl_rows x) (fl_runs x) (fl_db x) (fl_context x)"

definition fill_values :: "cache_env \<Rightarrow> cache_fill \<Rightarrow> pyval list" where
  "fill_values env x = hashed_values env (fl_rows x) (fl_runs x) (fl_db x) (fl_context x)"

definition put_of :: "cache_env \<Rightarrow> cache_fill \<Rightarrow> cache_op" where
  "put_of env x = CachePut (fl_db_now x) (fill_key env x) (fl_payload x) (fl_ttl x) (fl_at x)"

fun is_look :: "cache_op \<Rightarrow> bool" where
  "is_look (CacheLook k t) = True"
| "is_look (CachePut n k p ttl t) = False"

definition earlier_fill :: "db \<Rightarrow> cache_fill \<Rightarrow> bool" where
  "earlier_fill d x = (docs_inv (fl_db x) \<and> run_at (fl_since x) (fl_db x) d \<and>
     db_corpus_marker (fl_db x) \<notin> Some ` set (fl_since x))"

lemma fill_same_question:
  assumes "ck_key (fill_key env x) = ck_key (build_cache_key env rows runs d ctx)"
    and "sha_separates env vs" "set (fill_values env x) \<subseteq> set vs" "set (hashed_values env rows runs d ctx) \<subseteq> set vs"
  shows "cc_filters (fl_context x) = cc_filters ctx" "cc_query_hash (fl_context x) = cc_query_hash ctx"
    "cc_strategy (fl_context x) = cc_strategy ctx" "cc_top_k (fl_context x) = cc_top_k ctx"
    "cc_rerank_top_n (fl_context x) = cc_rerank_top_n ctx"
    "active_document_fingerprint env (cc_filters (fl_context x)) (fl_db x) =
     active_document_fingerprint env (cc_filters ctx) d"
proof -
  have k: "key_fields env (fl_rows x) (fl_runs x) (fl_db x) (fl_context x) = key_fields env rows runs d ctx"
    using equal_keys[OF assms(2) assms(3)[unfolded fill_values_def] assms(4)] assms(1) by (simp add: fill_key_def)
  have "scope_value (cc_filters (fl_context x)) \<in> set vs" "scope_value (cc_filters ctx) \<in> set vs"
    using assms(3,4) by (auto simp: fill_values_def hashed_values_def)
  then show "cc_filters (fl_context x) = cc_filters ctx"
    by (rule equal_scopes[OF assms(2)]) (use arg_cong[OF k, of ck_scope] in \<open>simp add: key_fields_def Let_def\<close>)
  show "cc_strategy (fl_context x) = cc_strategy ctx"
    using arg_cong[OF k, of ck_strategy] by (simp add: key_fields_def Let_def strategy_text_inj)
  show "cc_query_hash (fl_context x) = cc_query_hash ctx" "cc_top_k (fl_context x) = cc_top_k ctx"
    "cc_rerank_top_n (fl_context x) = cc_rerank_top_n ctx"
    "active_document_fingerprint env (cc_filters (fl_context x)) (fl_db x) =
     active_document_fingerprint env (cc_filters ctx) d"
    using arg_cong[OF k, of ck_query_hash] arg_cong[OF k, of ck_top_k] arg_cong[OF k, of ck_rerank_top_n]
      arg_cong[OF k, of ck_documents] by (simp_all add: key_fields_def Let_def)
qed

lemma fill_same_corpus:
  assumes "ck_key (fill_key env x) = ck_key (build_cache_key env rows runs d ctx)"
    and "sha_separates env vs" "set (fill_values env x) \<subseteq> set vs" "set (hashed_values env rows runs d ctx) \<subseteq> set vs"
    and "inj (ce_iso env)" "rf_document_ids (cc_filters ctx) = []" "earlier_fill d x"
  shows "corpus d = corpus (fl_db x)"
proof -
  note q = fill_same_question[OF assms(1-4)]
  have "db_corpus_marker (fl_db x) = db_corpus_marker d"
    using equal_markers[OF assms(2,5) assms(3)[unfolded fill_values_def] assms(4)] q(1,6) assms(6)
    by (simp add: active_document_fingerprint_def)
  then show ?thesis
    using marker_tells_changes[of "fl_since x" "fl_db x" d] assms(7) by (auto simp: earlier_fill_def)
qed

text \<open>
  C9: A hit of the cache for a question over all documents answers the question that is asked
  now, over the corpus as it is now. Whatever operations on documents, jobs and the cache
  happened in between, the entry it returns was stored under a key built for the same query
  hash, strategy, limits and filters when the chunks of the searchable versions were the same,
  it has not expired, and its payload is the stored one read back. The question has no document
  filter: the key of a filtered one does not hold the corpus marker. The marker is a time, so
  the entries are those whose marker is not the time of a later change of the corpus; the hash
  and the text of a time tell the values that were hashed apart; and no operation on the cache
  is later than the hit.
\<close>

theorem hits_answer_over_the_current_corpus:
  assumes "run_cache (pg_look env) (pg_store env) ops [] = Some table" "\<forall>op\<in>set ops. op_time op \<le> now"
    and "\<forall>op\<in>set ops. is_look op \<or> op \<in> put_of env ` set fills" "\<forall>x\<in>set fills. earlier_fill d x"
    and "sha_separates env (hashed_values env rows runs d ctx @ concat (map (fill_values env) fills))"
    and "inj (ce_iso env)" "rf_document_ids (cc_filters ctx) = []"
    and "pg_hit env (build_cache_key env rows runs d ctx) now table = Some p"
  shows "\<exists>x\<in>set fills. corpus d = corpus (fl_db x) \<and> cc_filters (fl_context x) = cc_filters ctx \<and>
    cc_query_hash (fl_context x) = cc_query_hash ctx \<and> cc_strategy (fl_context x) = cc_strategy ctx \<and>
    cc_top_k (fl_context x) = cc_top_k ctx \<and> cc_rerank_top_n (fl_context x) = cc_rerank_top_n ctx \<and>
    now < fl_at x + fl_ttl x \<and> read_back env (with_metadata (fl_at x) (fl_ttl x) (fl_payload x)) = Some p"
proof -
  let ?k = "build_cache_key env rows runs d ctx"
  have "Option.bind (live_payload now (last_stored (ck_key ?k) ops None)) (read_back env) = Some p"
    using pg.hit_after_run[OF assms(1) _ assms(2), of ?k] assms(8) by (simp add: keys_distinct_def pg_hit_eq)
  then obtain q ttl t where l: "last_stored (ck_key ?k) ops None = Some (q, ttl, t)" "now < t + ttl"
      and p: "read_back env (with_metadata t ttl q) = Some p"
    by (auto simp: live_payload_def bind_eq_Some_conv split: option.splits if_splits)
  from last_stored_in[OF l(1)] obtain n k where put: "CachePut n k q ttl t \<in> set ops" "ck_key k = ck_key ?k" by blast
  then obtain x where x: "x \<in> set fills" "put_of env x = CachePut n k q ttl t" using assms(3) by fastforce
  then have key: "ck_key (fill_key env x) = ck_key ?k" using put(2) by (simp add: put_of_def)
  note sub = fill_same_question[OF key assms(5)] fill_same_corpus[OF key assms(5) _ _ assms(6,7)]
  have "set (fill_values env x) \<subseteq> set (hashed_values env rows runs d ctx @ concat (map (fill_values env) fills))"
    using x(1) by auto
  then show ?thesis using sub x assms(4) l(2) p by (intro bexI[of _ x]) (auto simp: put_of_def)
qed

subsection \<open>A concrete entry\<close>

definition ex_cache_env :: cache_env where
  "ex_cache_env = \<lparr>ce_sha256 = (\<lambda>s. replicate 64 (if s ! 2 = CHR ''a'' then CHR ''a''
       else if s ! 2 = CHR ''l'' then CHR ''b'' else if s ! 2 = CHR ''m'' then CHR ''c'' else CHR ''d'')),
     ce_float_repr = (\<lambda>_. ''0.5''), ce_iso = int_str, ce_fromiso = parse_int, ce_setting = (\<lambda>_. PInt 1)\<rparr>"

definition ex_cache_context :: cache_context where
  "ex_cache_context = \<lparr>cc_query_hash = replicate 64 CHR ''f'', cc_strategy = StratDense, cc_top_k = 5,
     cc_rerank_top_n = 3, cc_filters = \<lparr>rf_document_ids = [], rf_modality = ''text''\<rparr>,
     cc_request_kind = ''search'', cc_execution = None\<rparr>"

definition ex_marked_db :: db where
  "ex_marked_db = ex_docs_db\<lparr>db_corpus_marker := Some 5\<rparr>"

lemma ex_marked_db_marker: "db_corpus_marker ex_marked_db = Some 5"
  by (simp add: ex_marked_db_def)

lemma ex_cache_modality: "rf_modality (cc_filters ex_cache_context) = ''text''"
  by (simp add: ex_cache_context_def)

definition ex_fields :: cache_key where
  "ex_fields = \<lparr>ck_key = [], ck_namespace = ''1'', ck_strategy = ''dense'',
     ck_query_hash = replicate 64 CHR ''f'',
     ck_retrieval_settings = retrieval_settings_hash ex_cache_env [] ex_cache_context (replicate 64 CHR ''b''),
     ck_rerank_settings = replicate 64 CHR ''d'', ck_embedding_model = ''1:1:1'', ck_rerank_model = ''1:1'',
     ck_documents = replicate 64 CHR ''c'', ck_graph_index = hash_none, ck_graph_store = ''1'',
     ck_top_k = 5, ck_rerank_top_n = 3, ck_scope = replicate 64 CHR ''b''\<rparr>"

lemma ex_namespace: "cache_namespace ex_cache_env = ''1''"
  by code_simp

lemma ex_scope_hash: "user_visible_scope ex_cache_env \<lparr>rf_document_ids = [], rf_modality = ''text''\<rparr> = replicate 64 CHR ''b''"
  by code_simp

lemma ex_rerank_hash: "rerank_settings_hash ex_cache_env = replicate 64 CHR ''d''"
  by code_simp

lemma ex_marker_hash: "active_corpus_marker ex_cache_env ''text'' ex_marked_db = replicate 64 CHR ''c''"
  by code_simp

lemma ex_model_texts: "safe_string 255 ''1:1:1'' = ''1:1:1'' \<and> safe_string 255 ''1:1'' = ''1:1'' \<and> safe_string 50 ''1'' = ''1''"
  by code_simp

lemma ex_setting_text: "setting_text ex_cache_env n = ''1''" 
proof -
  have "int_str 1 = ''1''" by code_simp
  then show ?thesis by (simp add: setting_text_def ex_cache_env_def)
qed

lemma ex_key_fields: "key_fields ex_cache_env [] [] ex_marked_db ex_cache_context = ex_fields"
  using ex_namespace ex_scope_hash ex_rerank_hash ex_marker_hash ex_model_texts
  by (simp add: key_fields_def ex_fields_def Let_def ex_setting_text ex_cache_context_def active_document_fingerprint_def strategy_uses_graph_index_def)

lemma ex_key_hash: "hash_json ex_cache_env (PDict (key_material ex_fields)) = replicate 64 CHR ''a''"
  by (simp add: hash_json_def json_dumps_def key_material_def json_str_def ex_cache_env_def json_char_def code_point_def)

definition ex_cached_payload :: cached_payload where
  "ex_cached_payload = \<lparr>pl_schema = cache_schema_version, pl_query_hash = replicate 64 CHR ''f'',
     pl_strategy = ''dense'', pl_summary = [],
     pl_items = [\<lparr>ci_chunk_id = 7, ci_score = Fin (1/2), ci_rerank_score = None, ci_rank = 1, ci_rerank_order = None,
       ci_selected = True, ci_source = ''dense'', ci_breakdown = None\<rparr>],
     pl_paths = [], pl_no_context = False, pl_created_at = None, pl_ttl = None\<rparr>"

definition ex_fill :: cache_fill where
  "ex_fill = \<lparr>fl_rows = [], fl_runs = [], fl_db = ex_marked_db, fl_context = ex_cache_context, fl_since = [],
     fl_db_now = 9, fl_payload = ex_cached_payload, fl_ttl = 60, fl_at = 10\<rparr>"

lemma ex_build_key: "build_cache_key ex_cache_env [] [] ex_marked_db ex_cache_context = ex_fields\<lparr>ck_key := replicate 64 CHR ''a''\<rparr>"
  by (simp add: build_key_fields ex_key_fields ex_key_hash)

lemma hex64_replicate: "hex64 (replicate 64 c) = hex_char c"
  by (simp add: hex64_def list_all_iff)

lemma ex_sha_hex: "hex64 (ce_sha256 ex_cache_env s)"
  by (simp add: ex_cache_env_def hex64_replicate) (simp add: hex_char_def code_point_def)

lemma ex_settings_hash_hex: "hex64 (ck_retrieval_settings ex_fields)"
  by (simp add: ex_fields_def retrieval_settings_hash_def hash_json_def ex_sha_hex)

lemma ex_safe_texts: "safe_string 50 ''dense'' = ''dense'' \<and> safe_dict [] = []" by code_simp

lemma ex_payload_json: "payload_to_json ex_cache_env (with_metadata 10 60 ex_cached_payload) =
  [(''schema_version'', PStr cache_schema_version), (''query_hash'', PStr (replicate 64 CHR ''f'')),
      (''strategy_type'', PStr ''dense''),
      (''retrieval_score_summary'', PDict []),
      (''items'', PList [item_to_json (hd (pl_items ex_cached_payload))]),
      (''graph_paths'', PList []),
      (''no_context'', PBool False),
      (''cache_created_at'', PStr ''10''),
      (''ttl_seconds'', PInt 60)]"
proof -
  have "int_str 10 = ''10''" by code_simp
  then show ?thesis by (simp add: payload_to_json_def with_metadata_def ex_cached_payload_def opt_val_def ex_safe_texts ex_cache_env_def)
qed

lemma ex_item_jsonb: "jsonb_ok (item_to_json (hd (pl_items ex_cached_payload)))"
  using ex_safe_texts by (simp add: item_to_json_def ex_cached_payload_def opt_val_def nul_char_def)

lemma ex_payload_jsonb: "jsonb_ok (PDict (payload_to_json ex_cache_env (with_metadata 10 60 ex_cached_payload)))"
  unfolding ex_payload_json using ex_item_jsonb by (simp add: nul_char_def cache_schema_version_def)

definition ex_row :: cache_row where
  "ex_row = \<lparr>cr_key = ex_fields\<lparr>ck_key := replicate 64 CHR ''a''\<rparr>,
   cr_payload = payload_to_json ex_cache_env (with_metadata 10 60 ex_cached_payload), cr_expires_at = 70,
              cr_last_accessed_at = Some 10, cr_created_at = 9, cr_updated_at = 9\<rparr>"

lemma ex_row_ok: "ck_cache_row ex_row"
  using ex_payload_jsonb ex_settings_hash_hex
  by (simp add: ck_cache_row_def ex_row_def Let_def ex_fields_def hex64_replicate hash_none_def btrim_def strip_by_def
     hex_char_def code_point_def)

lemma ex_fill_run: "run_cache (pg_look ex_cache_env) (pg_store ex_cache_env) [put_of ex_cache_env ex_fill] [] = Some [ex_row]"
  using ex_row_ok by (simp add: put_of_def ex_fill_def fill_key_def ex_build_key pg_store_def prune_expired_def cache_rows_ok_def ex_row_def)

lemma ex_fill_hit: "pg_hit ex_cache_env (build_cache_key ex_cache_env [] [] ex_marked_db ex_cache_context) 20 [ex_row] =
   Some (settle_payload ex_cache_env (with_metadata 10 60 ex_cached_payload))"
proof -
  have "safe_string 50 (safe_string 50 ''dense'') = ''dense''" "py_lower (py_strip (replicate 64 CHR ''f'')) = replicate 64 CHR ''f''" by code_simp+
  then have "readable_payload (with_metadata 10 60 ex_cached_payload)"
    using ex_safe_texts by (simp add: readable_payload_def with_metadata_def ex_cached_payload_def readable_item_def hex64_replicate
      hex_char_def code_point_def)
  then show ?thesis
    by (simp add: pg_hit_eq ex_build_key row_of_Cons ex_row_def stored_payload_reads_back)
qed

lemma ex_sha_separates: "sha_separates ex_cache_env (hashed_values ex_cache_env [] [] ex_marked_db ex_cache_context @
   concat (map (fill_values ex_cache_env) [ex_fill]))"
proof -
  let ?h = "\<lambda>s. ce_sha256 ex_cache_env (json_dumps (ce_float_repr ex_cache_env) s)"
  have "?h (PDict (key_material ex_fields)) = replicate 64 CHR ''a''"
    "?h (scope_value (cc_filters ex_cache_context)) = replicate 64 CHR ''b''"
    "?h (marker_value ex_cache_env ''text'' 5) = replicate 64 CHR ''c''"
    using ex_key_hash ex_scope_hash ex_marker_hash
    by (simp_all add: hash_json_def user_visible_scope_eq ex_cache_context_def active_corpus_marker_eq ex_marked_db_def)
  moreover have "set (hashed_values ex_cache_env [] [] ex_marked_db ex_cache_context @
      concat (map (fill_values ex_cache_env) [ex_fill])) =
    {PDict (key_material ex_fields), scope_value (cc_filters ex_cache_context), marker_value ex_cache_env ''text'' 5}"
    by (auto simp: hashed_values_def fill_values_def ex_fill_def ex_key_fields ex_marked_db_marker ex_cache_modality)
  ultimately show ?thesis
    unfolding sha_separates_def Let_def set_map by (simp only:) (auto simp: hash_none_def inj_on_def)
qed

theorem cache_stores_agree_witness:
  "mem_hit (fill_key ex_cache_env ex_fill) 20 (mem_store (fill_key ex_cache_env ex_fill) ex_cached_payload 60 10 []) =
     Some (with_metadata 10 60 ex_cached_payload) \<and>
   pg_hit ex_cache_env (fill_key ex_cache_env ex_fill) 20 [ex_row] \<noteq> None"
proof -
  have "mem_hit (fill_key ex_cache_env ex_fill) 20 (mem_store (fill_key ex_cache_env ex_fill) ex_cached_payload 60 10 []) =
     live_payload 20 (last_stored (ck_key (fill_key ex_cache_env ex_fill)) [put_of ex_cache_env ex_fill] None)"
    using cache_stores_agree[OF ex_fill_run, of _ 20 "fill_key ex_cache_env ex_fill"]
    by (simp add: put_of_def ex_fill_def)
  then show ?thesis
    using ex_fill_hit by (simp add: live_payload_def put_of_def ex_fill_def fill_key_def)
qed

theorem hits_answer_over_the_current_corpus_witness:
  "\<exists>x\<in>set [ex_fill]. corpus ex_marked_db = corpus (fl_db x) \<and> cc_query_hash (fl_context x) = replicate 64 CHR ''f'' \<and> 20 < fl_at x + fl_ttl x"
proof -
  have "inj (ce_iso ex_cache_env)"
    by (rule inj_on_inverseI[where g = "\<lambda>s. the (parse_int s)"]) (simp add: ex_cache_env_def)
  moreover have "docs_inv ex_marked_db" using ex_docs_inv
    by (simp add: ex_marked_db_def docs_inv_def docs_base_def has_document_def archived_def)
  ultimately show ?thesis
  using hits_answer_over_the_current_corpus[OF ex_fill_run _ _ _ ex_sha_separates _ _ ex_fill_hit]
    by (auto simp: put_of_def earlier_fill_def ex_fill_def ex_cache_context_def)
qed

subsection \<open>The service\<close>



end
