(* ===== verification/Agentic_Planner.thy ===== *)
theory Agentic_Planner
  imports Retrieval_Strategy Trace_Redactor
begin

section \<open>The strategy planner\<close>

text \<open>
  \<open>backend/app/rag/agentic_planner.py\<close>: the requests to a planner, what is accepted of the text
  a model answers with, and the trace of a planner call. The HTTP call and \<open>json.loads\<close> are
  arguments; the text of the prompt is not modelled. A model's answer is only ever read as an
  action with one of the strategies it was offered. Two exceptions of reading an answer are not
  caught by the source and are values of \<open>planner_exc\<close> here: a text nested too deeply for
  \<open>json\<close>, and an integer too large for \<open>float\<close>.
\<close>

subsection \<open>Requests and results\<close>

record attempt_summary =
  as_strategy :: retrieval_strategy
  as_role :: string
  as_candidates :: int
  as_qdrant :: int
  as_sparse :: "int option"
  as_hybrid :: "int option"
  as_excluded :: int
  as_top_score :: "rat option"

record sufficiency_summary =
  ss_sufficient :: bool
  ss_score :: rat
  ss_reasons :: "string list"
  ss_candidates :: int
  ss_selected :: int
  ss_top_score :: "rat option"
  ss_fallback_recommended :: bool
  ss_diversity :: int

record planning_request =
  pr_query :: string
  pr_phase :: string
  pr_available :: "retrieval_strategy list"
  pr_candidates :: "retrieval_strategy list"
  pr_attempted :: "retrieval_strategy list"
  pr_analysis :: "pyval pydict option"
  pr_attempts :: "attempt_summary list"
  pr_sufficiency :: "sufficiency_summary list"
  pr_remaining_calls :: int
  pr_remaining_fallbacks :: int

text \<open>\<open>max(0.0, min(1.0, x))\<close> of a number: NaN stays out of both comparisons, so it gives 1.\<close>

fun bounded_confidence :: "pyfloat \<Rightarrow> rat" where
  "bounded_confidence (Fin x) = py_round 6 (max 0 (min 1 x))"
| "bounded_confidence NegInf = 0"
| "bounded_confidence _ = 1"

fun safe_codes :: "string list \<Rightarrow> pyval list \<Rightarrow> string list" where
  "safe_codes seen [] = []"
| "safe_codes seen (v # vs) = (case v of
     PStr s \<Rightarrow> (let t = safe_string 100 s in
       if t = [] \<or> t \<in> set seen then safe_codes seen vs else t # safe_codes (t # seen) vs)
   | _ \<Rightarrow> safe_codes seen vs)"

definition safe_reason_codes :: "pyval \<Rightarrow> string list" where
  "safe_reason_codes v = (case v of PList vs \<Rightarrow> safe_codes [] (take 10 vs) | _ \<Rightarrow> [])"

definition opt_int_val :: "int option \<Rightarrow> pyval" where
  "opt_int_val x = (case x of None \<Rightarrow> PNone | Some i \<Rightarrow> PInt i)"

definition rounded_float :: "rat option \<Rightarrow> pyval" where
  "rounded_float x = (case x of None \<Rightarrow> PNone | Some r \<Rightarrow> PFloat (Fin (py_round 6 r)))"

definition attempt_payload :: "attempt_summary \<Rightarrow> pyval pydict" where
  "attempt_payload a = safe_dict
     [(''strategy'', PStr (strategy_text (as_strategy a))), (''role'', PStr (as_role a)),
      (''candidate_count'', PInt (max 0 (as_candidates a))),
      (''qdrant_candidate_count'', PInt (max 0 (as_qdrant a))),
      (''sparse_candidate_count'', opt_int_val (as_sparse a)),
      (''hybrid_candidate_count'', opt_int_val (as_hybrid a)),
      (''excluded_by_rdb_check_count'', PInt (max 0 (as_excluded a))),
      (''top_score'', rounded_float (as_top_score a))]"

definition sufficiency_payload :: "sufficiency_summary \<Rightarrow> pyval pydict" where
  "sufficiency_payload d = safe_dict
     [(''sufficient'', PBool (ss_sufficient d)), (''score'', PFloat (Fin (bounded_confidence (Fin (ss_score d))))),
      (''reason_codes'', PList (map PStr (safe_reason_codes (PList (map PStr (ss_reasons d)))))),
      (''candidate_count'', PInt (max 0 (ss_candidates d))), (''selected_count'', PInt (max 0 (ss_selected d))),
      (''top_score'', rounded_float (ss_top_score d)),
      (''fallback_recommended'', PBool (ss_fallback_recommended d)),
      (''source_diversity'', PInt (max 0 (ss_diversity d)))]"

datatype plan_action = PlanRetrieve | PlanFinalize

fun action_text :: "plan_action \<Rightarrow> string" where
  "action_text PlanRetrieve = ''retrieve''"
| "action_text PlanFinalize = ''finalize''"

record strategy_plan =
  sp_action :: plan_action
  sp_strategy :: "retrieval_strategy option"
  sp_confidence :: rat
  sp_reasons :: "string list"
  sp_provider :: string
  sp_model :: string

record planner_result =
  pn_plan :: "strategy_plan option"
  pn_fallback_reason :: "string option"
  pn_provider :: "string option"
  pn_model :: "string option"

subsection \<open>Reading a plan\<close>

definition planner_strategies :: "retrieval_strategy list" where
  "planner_strategies = [StratDense, StratSparse, StratHybrid, StratFallbackDense]"

definition is_str :: "pyval \<Rightarrow> bool" where
  "is_str v = (case v of PStr s \<Rightarrow> True | _ \<Rightarrow> False)"

definition required_reason_codes :: "pyval \<Rightarrow> string list option" where
  "required_reason_codes v = (case v of
     PList vs \<Rightarrow> if 10 < length vs \<or> \<not> list_all is_str vs then None else Some (safe_reason_codes v)
   | _ \<Rightarrow> None)"

datatype planner_exc = RaisedOverflow | RaisedRecursion

text \<open>\<open>float\<close> of an integer rounds to the nearest double, ties to even; from halfway between the
  largest double and the power of two above it, it raises.\<close>

definition float_range :: "int \<Rightarrow> bool" where
  "float_range i = (\<bar>i\<bar> < 2 ^ 1024 - 2 ^ 970)"

definition float_value :: "pyval \<Rightarrow> planner_exc + pyfloat option" where
  "float_value v = (case v of
     PInt i \<Rightarrow> if float_range i then Inr (Some (Fin (of_int i))) else Inl RaisedOverflow
   | PFloat x \<Rightarrow> Inr (Some x)
   | _ \<Rightarrow> Inr None)"

definition required_confidence :: "pyval \<Rightarrow> planner_exc + rat option" where
  "required_confidence v = map_sum id (\<lambda>score. case score of
     Some (Fin x) \<Rightarrow> if x < 0 \<or> 1 < x then None else Some (py_round 6 x)
   | _ \<Rightarrow> None) (float_value v)"

definition parse_action :: "pyval option \<Rightarrow> plan_action option" where
  "parse_action v = (case v of Some (PStr s) \<Rightarrow>
       if s = ''retrieve'' then Some PlanRetrieve else if s = ''finalize'' then Some PlanFinalize else None
     | _ \<Rightarrow> None)"

definition parse_strategy :: "retrieval_strategy list \<Rightarrow> pyval \<Rightarrow> retrieval_strategy option" where
  "parse_strategy allowed v = (case v of
     PStr s \<Rightarrow> (case strategy_of_text s of
         None \<Rightarrow> None
       | Some x \<Rightarrow> if x \<in> set planner_strategies \<and> x \<in> set allowed then Some x else None)
   | _ \<Rightarrow> None)"

definition plan_of_parts :: "retrieval_strategy list \<Rightarrow> string \<Rightarrow> string \<Rightarrow> plan_action \<Rightarrow> pyval \<Rightarrow>
    rat \<Rightarrow> string list \<Rightarrow> strategy_plan option" where
  "plan_of_parts allowed provider model a sv c rs =
     (let plan = (\<lambda>s. \<lparr>sp_action = a, sp_strategy = s, sp_confidence = c, sp_reasons = rs,
         sp_provider = provider, sp_model = model\<rparr>)
      in case a of
        PlanRetrieve \<Rightarrow> map_option (\<lambda>s. plan (Some s)) (parse_strategy allowed sv)
      | PlanFinalize \<Rightarrow> if sv = PNone then Some (plan None) else None)"

definition parse_plan_object ::
  "retrieval_strategy list \<Rightarrow> string \<Rightarrow> string \<Rightarrow> pyval pydict \<Rightarrow> planner_exc + strategy_plan option" where
  "parse_plan_object allowed provider model d =
     (case parse_action (map_of d ''action'') of
        None \<Rightarrow> Inr None
      | Some a \<Rightarrow> (case (map_of d ''strategy'', map_of d ''confidence'', map_of d ''reason_codes'') of
          (Some sv, Some cv, Some rv) \<Rightarrow>
            (case required_confidence cv of
               Inl e \<Rightarrow> Inl e
             | Inr None \<Rightarrow> Inr None
             | Inr (Some c) \<Rightarrow> (case required_reason_codes rv of
                 None \<Rightarrow> Inr None
               | Some rs \<Rightarrow> Inr (plan_of_parts allowed provider model a sv c rs)))
        | _ \<Rightarrow> Inr None))"




text \<open>What \<open>json.loads\<close> makes of a text: a value, a \<open>ValueError\<close>, or a \<open>RecursionError\<close>, which is
  none.\<close>

datatype json_read = JsonValue pyval | JsonInvalid | JsonTooDeep



subsection \<open>Calling the model\<close>






subsection \<open>Traces\<close>

definition opt_val_str :: "string option \<Rightarrow> pyval" where
  "opt_val_str x = (case x of None \<Rightarrow> PNone | Some s \<Rightarrow> PStr s)"

text \<open>Python's \<open>x or y\<close> on optional strings.\<close>

definition str_or :: "string option \<Rightarrow> string option \<Rightarrow> string option" where
  "str_or x y = (case x of None \<Rightarrow> y | Some s \<Rightarrow> if s = [] then y else x)"

definition planner_trace_event ::
  "string \<Rightarrow> planner_result option \<Rightarrow> bool \<Rightarrow> string option \<Rightarrow> retrieval_strategy option \<Rightarrow> string option \<Rightarrow> pyval pydict" where
  "planner_trace_event phase result used action selected fallback_reason =
     (let plan = Option.bind result pn_plan in
      safe_dict
       [(''schema_version'', PStr ''phase2.agentic_planner.v1''), (''phase'', PStr phase),
        (''llm_planner_used'', PBool used),
        (''planner_provider'', opt_val_str (str_or (Option.bind result pn_provider) (map_option sp_provider plan))),
        (''planner_model'', opt_val_str (str_or (Option.bind result pn_model) (map_option sp_model plan))),
        (''planner_action'', opt_val_str (str_or action (map_option (\<lambda>p. action_text (sp_action p)) plan))),
        (''planner_selected_strategy'', opt_val_str (map_option strategy_text
           (case selected of None \<Rightarrow> Option.bind plan sp_strategy | Some s \<Rightarrow> Some s))),
        (''planner_reason_codes'', PList (case plan of None \<Rightarrow> [] | Some p \<Rightarrow> map PStr (sp_reasons p))),
        (''planner_fallback_reason'', opt_val_str (str_or fallback_reason (Option.bind result pn_fallback_reason)))])"

subsection \<open>The payload of an analysis\<close>

record query_analysis =
  qa_intent :: query_intent
  qa_ambiguity :: rat
  qa_ambiguity_flags :: "string list"
  qa_needs_clarification :: bool
  qa_keyword :: rat
  qa_keyword_signals :: "string list"
  qa_version_specific :: bool
  qa_temporal :: bool
  qa_reasons :: "string list"
  qa_recommended :: "retrieval_strategy list"

definition query_analysis_payload :: "query_analysis option \<Rightarrow> pyval pydict option" where
  "query_analysis_payload a = map_option (\<lambda>q. safe_dict
     [(''intent'', PStr (intent_text (qa_intent q))),
      (''ambiguity_score'', PFloat (Fin (bounded_confidence (Fin (qa_ambiguity q))))),
      (''ambiguity_flags'', PList (map PStr (safe_reason_codes (PList (map PStr (qa_ambiguity_flags q)))))),
      (''needs_clarification_candidate'', PBool (qa_needs_clarification q)),
      (''keyword_heavy_score'', PFloat (Fin (bounded_confidence (Fin (qa_keyword q))))),
      (''keyword_signals'', PList (map PStr (safe_reason_codes (PList (map PStr (qa_keyword_signals q)))))),
      (''version_specific_flag'', PBool (qa_version_specific q)),
      (''temporal_reference_flag'', PBool (qa_temporal q)),
      (''reason_codes'', PList (map PStr (safe_reason_codes (PList (map PStr (qa_reasons q))))))]) a"

subsection \<open>What a plan can be\<close>















text \<open>An integer confidence of four hundred digits raises.\<close>

lemma huge_confidence_raises:
  "parse_plan_object [StratDense] ''p'' ''m'' [(''action'', PStr ''finalize''), (''strategy'', PNone),
     (''confidence'', PInt (10 ^ 400)), (''reason_codes'', PList [])] = Inl RaisedOverflow"
  by (simp add: parse_plan_object_def parse_action_def required_confidence_def float_value_def float_range_def)

end
