(* ===== verification/Agentic_Retrieval.thy ===== *)
theory Agentic_Retrieval
  imports Agentic_Planner "HOL-Library.List_Lexorder" "HOL-Library.Char_ord"
begin

section \<open>The bounded retrieval loop\<close>

text \<open>
  \<open>backend/app/rag/agentic.py\<close>: the check whether a retrieval suffices, the merge of the
  candidates of several attempts, and the executor that retries with other strategies under a
  budget. One retrieval and the planner are arguments that thread a state and may raise. The
  loop of the source has a branch that repeats without consuming budget, so it is a partial
  function here: that it returns is a theorem.
\<close>

subsection \<open>Candidates and attempts\<close>

record checked_candidate =
  kd_chunk_id :: int
  kd_document_id :: int
  kd_score :: rat
  kd_rank :: nat
  kd_payload :: "pyval pydict"

record attempt =
  at_strategy :: retrieval_strategy
  at_candidates :: "checked_candidate list"
  at_qdrant :: int
  at_sparse :: "int option"
  at_hybrid :: "int option"
  at_excluded :: int
  at_role :: string

subsection \<open>Is the context sufficient?\<close>

record sufficiency =
  su_sufficient :: bool
  su_score :: rat
  su_reasons :: "string list"
  su_candidates :: int
  su_selected :: int
  su_top_score :: "rat option"
  su_min_candidates :: int
  su_min_selected :: int
  su_fallback_recommended :: bool
  su_diversity :: int

definition top_score :: "checked_candidate list \<Rightarrow> rat option" where
  "top_score cs = (if cs = [] then None else Some (Max (set (map kd_score cs))))"

definition source_diversity :: "checked_candidate list \<Rightarrow> int" where
  "source_diversity cs = int (card (set (map kd_document_id cs)))"

definition sufficiency_score :: "router_settings \<Rightarrow> int \<Rightarrow> int \<Rightarrow> rat option \<Rightarrow> int \<Rightarrow> bool \<Rightarrow> rat" where
  "sufficiency_score st n sel best diversity comparison =
     py_round 6 (min 1
       (0 + (if rs_min_candidates st \<le> n then 35/100 else 0) +
        (if rs_min_selected st \<le> sel then 25/100 else 0) +
        (case best of None \<Rightarrow> 0 | Some s \<Rightarrow> if rs_top_threshold st \<le> s then 3/10 else 0) +
        (if \<not> comparison \<or> 2 \<le> diversity then 1/10 else 0)))"

text \<open>The reasons against, in the order they are tested.\<close>

definition insufficiency_reasons :: "router_settings \<Rightarrow> int \<Rightarrow> int \<Rightarrow> rat option \<Rightarrow> int \<Rightarrow> bool \<Rightarrow> string list" where
  "insufficiency_reasons st n sel best diversity comparison =
     (if n = 0 then [''no_candidates''] else []) @
     (if n < rs_min_candidates st then [''too_few_candidates''] else []) @
     (if sel < rs_min_selected st then [''too_few_selected_candidates''] else []) @
     (case best of None \<Rightarrow> [''missing_top_score'']
        | Some s \<Rightarrow> if s < rs_top_threshold st then [''low_top_score''] else []) @
     (if comparison \<and> sel < 2 then [''too_few_selected_candidates_for_comparison''] else []) @
     (if comparison \<and> diversity < 2 then [''insufficient_source_diversity_for_comparison''] else [])"

definition check_sufficiency ::
  "router_settings \<Rightarrow> checked_candidate list \<Rightarrow> nat \<Rightarrow> query_intent option \<Rightarrow> sufficiency" where
  "check_sufficiency st cs selected intent =
     (let n = int (length cs); sel = int selected; best = top_score cs;
          diversity = source_diversity (take selected cs); comparison = (intent = Some Comparison);
          against = insufficiency_reasons st n sel best diversity comparison
      in \<lparr>su_sufficient = (against = []),
          su_score = sufficiency_score st n sel best diversity comparison,
          su_reasons = (if against = [] then [''sufficient_context''] else against),
          su_candidates = n, su_selected = sel, su_top_score = best,
          su_min_candidates = rs_min_candidates st, su_min_selected = rs_min_selected st,
          su_fallback_recommended = (against \<noteq> []), su_diversity = diversity\<rparr>)"

subsection \<open>Merging\<close>

definition optional_float :: "pyval \<Rightarrow> pyfloat option" where
  "optional_float v = (case v of PInt i \<Rightarrow> Some (Fin (of_int i)) | PFloat x \<Rightarrow> Some x | _ \<Rightarrow> None)"

fun py_float_less :: "pyfloat \<Rightarrow> pyfloat \<Rightarrow> bool" where
  "py_float_less NaN y = False"
| "py_float_less x NaN = False"
| "py_float_less (Fin x) (Fin y) = (x < y)"
| "py_float_less NegInf y = (y \<noteq> NegInf)"
| "py_float_less x PosInf = (x \<noteq> PosInf)"
| "py_float_less x y = False"

text \<open>Python's \<open>max(x, y)\<close>: the second only if it is greater.\<close>

definition max_numeric :: "pyval \<Rightarrow> pyval \<Rightarrow> pyval" where
  "max_numeric l r = (case (optional_float l, optional_float r) of
     (None, _) \<Rightarrow> r
   | (_, None) \<Rightarrow> l
   | (Some x, Some y) \<Rightarrow> PFloat (if py_float_less x y then y else x))"

definition score_keys :: "string list" where
  "score_keys = [''dense_score'', ''sparse_score'', ''fused_score'']"

definition payload_get :: "pyval pydict \<Rightarrow> string \<Rightarrow> pyval" where
  "payload_get d k = (case map_of d k of None \<Rightarrow> PNone | Some v \<Rightarrow> v)"

definition merge_entry :: "pyval pydict \<Rightarrow> string \<times> pyval \<Rightarrow> pyval pydict" where
  "merge_entry merged kv = (case kv of (k, v) \<Rightarrow>
     if k \<in> set score_keys then AList.update k (max_numeric (payload_get merged k) v) merged
     else if payload_get merged k = PNone then AList.update k v merged
     else merged)"

definition merge_payloads :: "pyval pydict \<Rightarrow> pyval pydict \<Rightarrow> pyval pydict" where
  "merge_payloads l r = foldl merge_entry l r"

definition prefer_candidate :: "checked_candidate \<Rightarrow> checked_candidate \<Rightarrow> bool" where
  "prefer_candidate l r = (kd_score l < kd_score r \<or>
     kd_score r = kd_score l \<and> kd_chunk_id r < kd_chunk_id l)"

text \<open>What is kept of a chunk: the candidate, its payload and the sources it was seen in.\<close>

type_synonym merged_entry = "checked_candidate \<times> pyval pydict \<times> string list"
type_synonym merge_table = "(int \<times> merged_entry) list"

definition source_name :: "attempt \<Rightarrow> string" where
  "source_name a = at_role a @ ''_'' @ strategy_text (at_strategy a)"

definition first_entry :: "retrieval_strategy \<Rightarrow> attempt \<Rightarrow> checked_candidate \<Rightarrow> merged_entry" where
  "first_entry initial a c =
     (let p = AList.update ''agentic_primary_source'' (PStr (strategy_text (at_strategy a))) (kd_payload c);
          p = AList.update ''agentic_sources'' (PList [PStr (source_name a)]) p;
          p = AList.update ''agentic_initial_strategy'' (PStr (strategy_text initial)) p;
          p = (if at_role a = ''fallback''
               then AList.update ''agentic_fallback_strategy'' (PStr (strategy_text (at_strategy a))) p else p)
      in (c, p, [source_name a]))"

definition next_entry :: "attempt \<Rightarrow> checked_candidate \<Rightarrow> merged_entry \<Rightarrow> merged_entry" where
  "next_entry a c e = (case e of (old, payload, sources) \<Rightarrow>
     (let names = insort_insert (source_name a) sources;
          p = AList.update ''agentic_sources'' (PList (map PStr names)) (merge_payloads payload (kd_payload c));
          p = (if at_role a = ''fallback''
               then AList.update ''agentic_fallback_strategy'' (PStr (strategy_text (at_strategy a))) p else p);
          p = (if prefer_candidate old c
               then AList.update ''agentic_primary_source'' (PStr (strategy_text (at_strategy a))) p else p)
      in (if prefer_candidate old c then c else old, p, names)))"

definition add_candidate :: "retrieval_strategy \<Rightarrow> attempt \<Rightarrow> merge_table \<Rightarrow> checked_candidate \<Rightarrow> merge_table" where
  "add_candidate initial a t c = (case map_of t (kd_chunk_id c) of
     None \<Rightarrow> AList.update (kd_chunk_id c) (first_entry initial a c) t
   | Some e \<Rightarrow> AList.update (kd_chunk_id c) (next_entry a c e) t)"

definition merge_table :: "attempt list \<Rightarrow> merge_table" where
  "merge_table attempts = foldl (\<lambda>t a. foldl (add_candidate (at_strategy (hd attempts)) a) t (at_candidates a)) [] attempts"

definition merge_dedupe :: "attempt list \<Rightarrow> nat \<Rightarrow> checked_candidate list" where
  "merge_dedupe attempts limit =
     map (\<lambda>(i, c, p, srcs). c\<lparr>kd_rank := i, kd_payload := p\<rparr>)
       (enum_from 1 (take limit (sort_key (\<lambda>(c, p, srcs). (- kd_score c, kd_chunk_id c)) (map snd (merge_table attempts)))))"

subsection \<open>Strategies for another attempt\<close>

definition execution_family :: "retrieval_strategy \<Rightarrow> string" where
  "execution_family s = (if s \<in> {StratDense, StratFallbackDense} then ''dense'' else strategy_text s)"

definition strategy_available :: "router_settings \<Rightarrow> retrieval_strategy \<Rightarrow> bool" where
  "strategy_available st s =
     (if s \<in> {StratDense, StratFallbackDense} then rs_fallback_dense st
      else if s = StratSparse then rs_sparse_enabled st
      else if s = StratHybrid then rs_fallback_hybrid st \<and> rs_hybrid_enabled st \<and> hybrid_runs st
      else False)"

definition fallback_strategies :: "router_settings \<Rightarrow> retrieval_strategy \<Rightarrow> retrieval_strategy list" where
  "fallback_strategies st initial =
     filter (\<lambda>s. strategy_available st s \<and> execution_family s \<noteq> execution_family initial)
       (if initial \<in> {StratDense, StratFallbackDense, StratSparse}
        then [StratHybrid, configured_fallback st] else [configured_fallback st])"

definition attempted_families :: "attempt list \<Rightarrow> string list" where
  "attempted_families attempts = map (\<lambda>a. execution_family (at_strategy a)) attempts"

definition available_fallbacks :: "router_settings \<Rightarrow> retrieval_strategy \<Rightarrow> attempt list \<Rightarrow> retrieval_strategy list" where
  "available_fallbacks st initial attempts =
     filter (\<lambda>s. s \<notin> set (map at_strategy attempts) \<and> execution_family s \<notin> set (attempted_families attempts))
       (fallback_strategies st initial)"

definition next_rule_based :: "router_settings \<Rightarrow> retrieval_strategy \<Rightarrow> attempt list \<Rightarrow> retrieval_strategy option" where
  "next_rule_based st initial attempts = (case available_fallbacks st initial attempts of [] \<Rightarrow> None | s # _ \<Rightarrow> Some s)"

definition planner_rejection :: "retrieval_strategy \<Rightarrow> retrieval_strategy list \<Rightarrow> attempt list \<Rightarrow> string option" where
  "planner_rejection s available attempts =
     (if s \<in> set (map at_strategy attempts) then Some ''planner_strategy_already_attempted''
      else if execution_family s \<in> set (attempted_families attempts)
      then Some ''planner_strategy_family_already_attempted''
      else if s \<notin> set available then Some ''planner_strategy_unavailable'' else None)"

definition bounded_max_calls :: "int \<Rightarrow> int" where
  "bounded_max_calls v = min 3 (max 1 v)"

subsection \<open>Results\<close>

record agentic_result =
  ar_candidates :: "checked_candidate list"
  ar_calls :: nat
  ar_initial :: retrieval_strategy
  ar_fallbacks :: "retrieval_strategy list"
  ar_fallback_used :: bool
  ar_fallback_reason :: "string option"
  ar_decisions :: "sufficiency list"
  ar_merged :: nat
  ar_deduped :: nat
  ar_selected :: nat
  ar_no_context :: bool
  ar_exhausted :: bool
  ar_qdrant :: int
  ar_sparse :: "int option"
  ar_hybrid :: "int option"
  ar_excluded :: int
  ar_events :: "pyval pydict list"

definition sum_optional :: "int option list \<Rightarrow> int option" where
  "sum_optional xs = (case List.map_filter id xs of [] \<Rightarrow> None | ys \<Rightarrow> Some (sum_list ys))"

definition result_from_attempts ::
  "router_settings \<Rightarrow> attempt list \<Rightarrow> sufficiency list \<Rightarrow> nat \<Rightarrow> nat \<Rightarrow> string option \<Rightarrow> bool \<Rightarrow> pyval pydict list \<Rightarrow> agentic_result" where
  "result_from_attempts st attempts decisions top_k rerank_n why exhausted events =
     (let final = merge_dedupe attempts top_k; fallbacks = tl attempts in
      \<lparr>ar_candidates = final, ar_calls = length attempts, ar_initial = at_strategy (hd attempts),
       ar_fallbacks = map at_strategy fallbacks, ar_fallback_used = (fallbacks \<noteq> []),
       ar_fallback_reason = (if fallbacks \<noteq> [] then why else None), ar_decisions = decisions,
       ar_merged = sum_list (map (\<lambda>a. length (at_candidates a)) attempts), ar_deduped = length final,
       ar_selected = min rerank_n (length final),
       ar_no_context = (decisions \<noteq> [] \<and> \<not> su_sufficient (last decisions) \<and> rs_no_context st),
       ar_exhausted = exhausted, ar_qdrant = sum_list (map at_qdrant attempts),
       ar_sparse = sum_optional (map at_sparse attempts), ar_hybrid = sum_optional (map at_hybrid attempts),
       ar_excluded = sum_list (map at_excluded attempts), ar_events = events\<rparr>)"

subsection \<open>Traces of a result\<close>

definition sufficiency_trace :: "sufficiency \<Rightarrow> pyval pydict" where
  "sufficiency_trace d = safe_dict
     [(''schema_version'', PStr ''phase2.agentic_loop.v1''), (''sufficient'', PBool (su_sufficient d)),
      (''score'', PFloat (Fin (py_round 6 (su_score d)))), (''reason_codes'', PList (map PStr (su_reasons d))),
      (''candidate_count'', PInt (su_candidates d)), (''selected_count'', PInt (su_selected d)),
      (''top_score'', rounded_float (su_top_score d)),
      (''min_required_candidates'', PInt (su_min_candidates d)),
      (''min_required_selected'', PInt (su_min_selected d)),
      (''fallback_recommended'', PBool (su_fallback_recommended d)), (''source_diversity'', PInt (su_diversity d))]"

definition final_decision :: "agentic_result \<Rightarrow> sufficiency option" where
  "final_decision r = (if ar_decisions r = [] then None else Some (last (ar_decisions r)))"

definition last_fallback :: "agentic_result \<Rightarrow> pyval" where
  "last_fallback r = (if ar_fallbacks r = [] then PNone else PStr (strategy_text (last (ar_fallbacks r))))"

definition final_score :: "agentic_result \<Rightarrow> pyval" where
  "final_score r = rounded_float (map_option su_score (final_decision r))"

definition final_reasons :: "agentic_result \<Rightarrow> pyval" where
  "final_reasons r = PList (case final_decision r of None \<Rightarrow> [] | Some d \<Rightarrow> map PStr (su_reasons d))"

definition planner_fields :: "pyval pydict list \<Rightarrow> pyval pydict" where
  "planner_fields events = (if events = [] then [] else
     (''llm_planner_used'', PBool (list_ex (\<lambda>e. map_of e ''llm_planner_used'' = Some (PBool True)) events)) #
     map (\<lambda>k. (k, payload_get (last events) k))
       [''planner_provider'', ''planner_model'', ''planner_action'', ''planner_selected_strategy'',
        ''planner_reason_codes'', ''planner_fallback_reason''] @
     [(''planner_events'', PList (map PDict events))])"

definition decision_trace_fields :: "agentic_result \<Rightarrow> pyval pydict" where
  "decision_trace_fields r = safe_dict
     ([(''agentic_schema_version'', PStr ''phase2.agentic_loop.v1''),
       (''agentic_fallback_used'', PBool (ar_fallback_used r)), (''fallback_used'', PBool (ar_fallback_used r)),
       (''fallback_strategy'', last_fallback r),
       (''fallback_strategies'', PList (map (\<lambda>s. PStr (strategy_text s)) (ar_fallbacks r))),
       (''fallback_reason'', opt_val_str (ar_fallback_reason r)),
       (''retrieval_call_count'', PInt (int (ar_calls r))), (''budget_exhausted'', PBool (ar_exhausted r)),
       (''sufficiency_score'', final_score r), (''sufficiency_reason_codes'', final_reasons r),
       (''sufficiency_decisions'', PList (map (\<lambda>d. PDict (sufficiency_trace d)) (ar_decisions r))),
       (''initial_candidate_count'', PInt (case ar_decisions r of [] \<Rightarrow> 0 | d # _ \<Rightarrow> su_candidates d)),
       (''merged_candidate_count'', PInt (int (ar_merged r))),
       (''deduped_candidate_count'', PInt (int (ar_deduped r))),
       (''final_selected_count'', PInt (int (ar_selected r))), (''no_context'', PBool (ar_no_context r))] @
      planner_fields (ar_events r))"

definition summary_fields :: "agentic_result \<Rightarrow> pyval pydict" where
  "summary_fields r = safe_dict
     [(''agentic_schema_version'', PStr ''phase2.agentic_loop.v1''),
      (''retrieval_call_count'', PInt (int (ar_calls r))), (''fallback_used'', PBool (ar_fallback_used r)),
      (''fallback_strategy'', last_fallback r), (''fallback_reason'', opt_val_str (ar_fallback_reason r)),
      (''budget_exhausted'', PBool (ar_exhausted r)), (''sufficiency_score'', final_score r),
      (''sufficiency_reason_codes'', final_reasons r), (''merged_candidate_count'', PInt (int (ar_merged r))),
      (''deduped_candidate_count'', PInt (int (ar_deduped r))),
      (''final_selected_count'', PInt (int (ar_selected r))), (''no_context'', PBool (ar_no_context r))]"

subsection \<open>The executor\<close>

text \<open>What an execution is given; \<open>None\<close> is an exception of the call.\<close>

record 's agentic_env =
  ae_settings :: router_settings
  ae_planner :: "(planning_request \<Rightarrow> 's \<Rightarrow> (planner_result \<times> 's) option) option"
  ae_retrieve :: "retrieval_strategy \<Rightarrow> string \<Rightarrow> 's \<Rightarrow> (attempt \<times> 's) option"
  ae_query :: string
  ae_intent :: "query_intent option"
  ae_initial :: retrieval_strategy
  ae_top_k :: nat
  ae_rerank_n :: nat

definition max_calls :: "'s agentic_env \<Rightarrow> int" where
  "max_calls env = bounded_max_calls (rs_max_calls (ae_settings env))"

definition max_fallbacks :: "'s agentic_env \<Rightarrow> int" where
  "max_fallbacks env = min (rs_max_fallback_calls (ae_settings env)) (max 0 (max_calls env - 1))"

definition attempt_summary_of :: "attempt \<Rightarrow> attempt_summary" where
  "attempt_summary_of a = \<lparr>as_strategy = at_strategy a, as_role = at_role a,
     as_candidates = int (length (at_candidates a)), as_qdrant = at_qdrant a, as_sparse = at_sparse a,
     as_hybrid = at_hybrid a, as_excluded = at_excluded a, as_top_score = top_score (at_candidates a)\<rparr>"

definition sufficiency_summary_of :: "sufficiency \<Rightarrow> sufficiency_summary" where
  "sufficiency_summary_of d = \<lparr>ss_sufficient = su_sufficient d, ss_score = su_score d, ss_reasons = su_reasons d,
     ss_candidates = su_candidates d, ss_selected = su_selected d, ss_top_score = su_top_score d,
     ss_fallback_recommended = su_fallback_recommended d, ss_diversity = su_diversity d\<rparr>"

definition fallback_request ::
  "'s agentic_env \<Rightarrow> attempt list \<Rightarrow> sufficiency list \<Rightarrow> int \<Rightarrow> retrieval_strategy list \<Rightarrow> planning_request" where
  "fallback_request env attempts decisions calls available =
     \<lparr>pr_query = ae_query env, pr_phase = ''fallback'', pr_available = available, pr_candidates = available,
      pr_attempted = map at_strategy attempts,
      pr_analysis = Some (safe_dict [(''intent'', opt_val_str (map_option intent_text (ae_intent env)))]),
      pr_attempts = map attempt_summary_of attempts, pr_sufficiency = map sufficiency_summary_of decisions,
      pr_remaining_calls = max 0 (max_calls env - int (length attempts)),
      pr_remaining_fallbacks = max 0 (max_fallbacks env - calls)\<rparr>"

text \<open>What the planner's answer means for the loop, with the trace event of the call.\<close>

datatype planned_step = NoPlan | PlannedFinalize | PlannedStrategy retrieval_strategy

definition planned_step ::
  "retrieval_strategy list \<Rightarrow> attempt list \<Rightarrow> planner_result \<Rightarrow> planned_step \<times> pyval pydict" where
  "planned_step available attempts r = (case pn_plan r of
     None \<Rightarrow> (NoPlan, planner_trace_event ''fallback'' (Some r) False None None
         (str_or (pn_fallback_reason r) (Some ''planner_failed'')))
   | Some p \<Rightarrow>
       if sp_action p = PlanFinalize
       then (PlannedFinalize, planner_trace_event ''fallback'' (Some r) True (Some ''finalize'') None None)
       else (case sp_strategy p of
           None \<Rightarrow> (NoPlan, planner_trace_event ''fallback'' (Some r) False None None (Some ''planner_missing_strategy''))
         | Some s \<Rightarrow> (case planner_rejection s available attempts of
               Some why \<Rightarrow> (NoPlan, planner_trace_event ''fallback'' (Some r) False None (Some s) (Some why))
             | None \<Rightarrow> (PlannedStrategy s, planner_trace_event ''fallback'' (Some r) True None (Some s) None))))"

definition planned_fallback ::
  "'s agentic_env \<Rightarrow> attempt list \<Rightarrow> sufficiency list \<Rightarrow> int \<Rightarrow> pyval pydict list \<Rightarrow> 's \<Rightarrow>
   (planned_step \<times> pyval pydict list \<times> 's) option" where
  "planned_fallback env attempts decisions calls events s =
     (let available = available_fallbacks (ae_settings env) (ae_initial env) attempts in
      if rs_mode (ae_settings env) \<noteq> ''llm'' \<or> available = [] then Some (NoPlan, events, s)
      else case ae_planner env of
        None \<Rightarrow> Some (NoPlan, events @ [planner_trace_event ''fallback'' None False None None (Some ''planner_unavailable'')], s)
      | Some plan \<Rightarrow> (case plan (fallback_request env attempts decisions calls available) s of
          None \<Rightarrow> None
        | Some (r, s') \<Rightarrow> (case planned_step available attempts r of (step, event) \<Rightarrow> Some (step, events @ [event], s'))))"

definition fallback_choice :: "'s agentic_env \<Rightarrow> attempt list \<Rightarrow> planned_step \<Rightarrow> retrieval_strategy option" where
  "fallback_choice env attempts step = (case step of
     PlannedStrategy x \<Rightarrow> Some x | _ \<Rightarrow> next_rule_based (ae_settings env) (ae_initial env) attempts)"

datatype 's agentic_outcome = AgenticRaised | AgenticResult agentic_result 's

definition agentic_result_of ::
  "'s agentic_env \<Rightarrow> attempt list \<Rightarrow> sufficiency list \<Rightarrow> string option \<Rightarrow> bool \<Rightarrow> pyval pydict list \<Rightarrow> 's \<Rightarrow> 's agentic_outcome" where
  "agentic_result_of env attempts decisions why exhausted events s =
     AgenticResult (result_from_attempts (ae_settings env) attempts decisions (ae_top_k env) (ae_rerank_n env)
       why exhausted events) s"

definition check_attempts :: "'s agentic_env \<Rightarrow> checked_candidate list \<Rightarrow> sufficiency" where
  "check_attempts env cs = check_sufficiency (ae_settings env) cs (min (ae_rerank_n env) (length cs)) (ae_intent env)"

text \<open>The \<open>while\<close> loop. The branch that repeats is \<open>continue\<close>.\<close>

partial_function (option) agentic_loop ::
  "'s agentic_env \<Rightarrow> attempt list \<Rightarrow> sufficiency list \<Rightarrow> int \<Rightarrow> pyval pydict list \<Rightarrow> 's \<Rightarrow> 's agentic_outcome option" where
  "agentic_loop env attempts decisions calls events s =
     (if \<not> (calls < max_fallbacks env \<and> int (length attempts) < max_calls env)
      then Some (agentic_result_of env attempts decisions (Some ''insufficient_context'') True events s)
      else case planned_fallback env attempts decisions calls events s of
        None \<Rightarrow> Some AgenticRaised
      | Some (step, events1, s1) \<Rightarrow>
          if step = PlannedFinalize then Some (agentic_result_of env attempts decisions None False events1 s1)
          else (case fallback_choice env attempts step of
            None \<Rightarrow> Some (agentic_result_of env attempts decisions (Some ''insufficient_context'') True events1 s1)
          | Some x \<Rightarrow>
              if execution_family x \<in> set (attempted_families attempts)
              then agentic_loop env attempts decisions calls events1 s1
              else (case ae_retrieve env x ''fallback'' s1 of
                None \<Rightarrow> Some AgenticRaised
              | Some (a, s2) \<Rightarrow>
                  (let attempts1 = attempts @ [a];
                       d = check_attempts env (merge_dedupe attempts1 (ae_top_k env))
                   in if su_sufficient d
                      then Some (agentic_result_of env attempts1 (decisions @ [d]) (Some ''insufficient_context'') False events1 s2)
                      else agentic_loop env attempts1 (decisions @ [d]) (calls + 1) events1 s2))))"

declare agentic_loop.simps [code]

definition agentic_execute :: "'s agentic_env \<Rightarrow> 's \<Rightarrow> 's agentic_outcome option" where
  "agentic_execute env s = (case ae_retrieve env (ae_initial env) ''initial'' s of
     None \<Rightarrow> Some AgenticRaised
   | Some (a, s1) \<Rightarrow>
       (let d = check_attempts env (at_candidates a); blocked = (max_calls env \<le> 1 \<or> max_fallbacks env \<le> 0) in
        if su_sufficient d \<or> blocked
        then Some (agentic_result_of env [a] [d] None (\<not> su_sufficient d \<and> blocked) [] s1)
        else agentic_loop env [a] [d] 0 [] s1))"

end
