(* ===== verification/Strategy_Router.thy ===== *)
theory Strategy_Router
  imports Agentic_Planner
begin

section \<open>The strategy router\<close>

text \<open>
  \<open>backend/app/rag/router.py\<close>. The decision is checked by its schema
  (\<open>RouterDecisionTrace\<close>), whose refusal is an exception; every exception of the routing, the
  planner's included, ends in the fallback decision. The available strategies are a list in the
  order they are added; the source keeps a set and passes it on in an unspecified order.
\<close>

subsection \<open>Decisions\<close>

record router_decision =
  rd_requested :: retrieval_strategy
  rd_selected :: retrieval_strategy
  rd_execution :: retrieval_strategy
  rd_source :: string
  rd_fallback_used :: bool
  rd_fallback_reason :: "string option"
  rd_router_enabled :: bool
  rd_confidence :: rat
  rd_reasons :: "string list"
  rd_disabled :: "retrieval_strategy list"
  rd_safety :: "string list"
  rd_planner_used :: "bool option"
  rd_planner_provider :: "string option"
  rd_planner_model :: "string option"
  rd_planner_action :: "string option"
  rd_planner_selected :: "retrieval_strategy option"
  rd_planner_reasons :: "string list"
  rd_planner_fallback_reason :: "string option"
  rd_planner_events :: "pyval pydict list"
  rd_store_trace :: bool

definition max_len :: "nat \<Rightarrow> string option \<Rightarrow> bool" where
  "max_len n x = (case x of None \<Rightarrow> True | Some s \<Rightarrow> length s \<le> n)"

text \<open>The validation of the schema. The keys of an event are those of \<open>planner_trace_event\<close>.\<close>

definition decision_valid :: "router_decision \<Rightarrow> bool" where
  "decision_valid r = (length (rd_source r) \<le> 100 \<and> max_len 100 (rd_fallback_reason r) \<and>
     0 \<le> rd_confidence r \<and> rd_confidence r \<le> 1 \<and> max_len 100 (rd_planner_provider r) \<and>
     max_len 255 (rd_planner_model r) \<and> max_len 30 (rd_planner_action r) \<and>
     max_len 100 (rd_planner_fallback_reason r) \<and>
     list_all (\<lambda>e. list_all (\<lambda>(k, v). \<not> is_sensitive_trace_key k) e) (rd_planner_events r))"

definition unimplemented_strategies :: "retrieval_strategy list" where
  "unimplemented_strategies = [StratMultiQueryDense, StratMultiQueryHybrid, StratMetadataFiltered, StratVersionAware]"

definition base_decision :: "retrieval_strategy \<Rightarrow> retrieval_strategy \<Rightarrow> retrieval_strategy \<Rightarrow> router_decision" where
  "base_decision requested selected execution =
     \<lparr>rd_requested = requested, rd_selected = selected, rd_execution = execution, rd_source = ''rule_based'',
      rd_fallback_used = False, rd_fallback_reason = None, rd_router_enabled = True, rd_confidence = 0,
      rd_reasons = [], rd_disabled = [], rd_safety = [], rd_planner_used = None, rd_planner_provider = None,
      rd_planner_model = None, rd_planner_action = None, rd_planner_selected = None, rd_planner_reasons = [],
      rd_planner_fallback_reason = None, rd_planner_events = [], rd_store_trace = True\<rparr>"

definition fallback_decision :: "router_settings \<Rightarrow> retrieval_strategy \<Rightarrow> string \<Rightarrow> string list \<Rightarrow> router_decision" where
  "fallback_decision st requested reason codes =
     (let fb = configured_fallback st in
      (base_decision requested fb fb)
        \<lparr>rd_source := ''fallback'', rd_fallback_used := True, rd_fallback_reason := Some reason,
         rd_router_enabled := False, rd_confidence := 0,
         rd_reasons := filter (\<lambda>c. c \<noteq> ''fallback_dense'') codes @ [''fallback_strategy:'' @ strategy_text fb],
         rd_safety := [strategy_text fb @ ''_only'', ''single_retrieval_call''],
         rd_store_trace := rs_store_trace st\<rparr>)"

subsection \<open>Choosing a strategy\<close>

definition available_strategies :: "router_settings \<Rightarrow> retrieval_strategy list" where
  "available_strategies st = [StratDense, StratFallbackDense] @
     (if rs_sparse_enabled st then [StratSparse] else []) @
     (if rs_hybrid_enabled st \<and> hybrid_runs st then [StratHybrid] else [])"

fun choose_first_available ::
  "retrieval_strategy list \<Rightarrow> retrieval_strategy list \<Rightarrow> string \<Rightarrow> rat \<Rightarrow> retrieval_strategy \<times> string list \<times> rat" where
  "choose_first_available available [] reason c = (StratFallbackDense, [reason, ''no_candidate_available''], 0)"
| "choose_first_available available (s # ss) reason c =
     (if s \<in> set available then (s, [reason, strategy_text s @ ''_available''], c)
      else choose_first_available available ss reason c)"

fun choose_candidate ::
  "router_settings \<Rightarrow> retrieval_strategy list \<Rightarrow> retrieval_strategy list \<Rightarrow> retrieval_strategy \<times> string list \<times> rat" where
  "choose_candidate st available [] = (StratDense, [''default_dense''], 6/10)"
| "choose_candidate st available (c # cs) =
     (if c \<in> set unimplemented_strategies then choose_candidate st available cs
      else if c = StratFallbackDense then
        (let fb = configured_fallback st in
         if fb \<in> set available
         then (fb, [''planner_candidate:'' @ strategy_text c, ''fallback_strategy:'' @ strategy_text fb], 64/100)
         else choose_candidate st available cs)
      else if c \<in> set available then (c, [''planner_candidate:'' @ strategy_text c], 64/100)
      else choose_candidate st available cs)"

definition select_strategy ::
  "router_settings \<Rightarrow> retrieval_strategy list \<Rightarrow> query_analysis option \<Rightarrow> retrieval_strategy list \<Rightarrow>
   retrieval_strategy \<times> string list \<times> rat" where
  "select_strategy st available analysis candidates =
     (let intent = (case analysis of None \<Rightarrow> UnknownIntent | Some a \<Rightarrow> qa_intent a);
          ambiguity = (case analysis of None \<Rightarrow> 0 | Some a \<Rightarrow> qa_ambiguity a);
          keyword = (case analysis of None \<Rightarrow> 0 | Some a \<Rightarrow> qa_keyword a)
      in if (case analysis of None \<Rightarrow> False | Some a \<Rightarrow> qa_version_specific a)
         then choose_first_available available [StratVersionAware, StratHybrid, StratDense] ''version_specific'' (74/100)
         else if rs_keyword_threshold st \<le> keyword
         then choose_first_available available [StratHybrid, StratSparse, StratDense] ''keyword_heavy''
                (min (9/10) (55/100 + keyword / 2))
         else if intent = Comparison
         then choose_first_available available [StratHybrid, StratDense] ''comparison_intent'' (72/100)
         else if rs_ambiguity_threshold st \<le> ambiguity
         then choose_first_available available [StratHybrid, configured_fallback st] ''ambiguous_query'' (58/100)
         else choose_candidate st available candidates)"

definition resolve_execution ::
  "retrieval_strategy list \<Rightarrow> retrieval_strategy \<Rightarrow> retrieval_strategy \<Rightarrow>
   retrieval_strategy \<times> bool \<times> string option \<times> string list" where
  "resolve_execution available fb selected =
     (if selected \<in> set unimplemented_strategies then
        (if StratHybrid \<in> set available
         then (StratHybrid, True, Some ''candidate_not_implemented'', [''candidate_not_implemented'', ''hybrid_fallback''])
         else (fb, True, Some ''candidate_not_implemented'',
               [''candidate_not_implemented'', ''fallback_strategy:'' @ strategy_text fb]))
      else if selected = StratFallbackDense
      then (selected, True, Some ''fallback_dense_selected'', [''fallback_dense_selected'', ''fallback_strategy:fallback_dense''])
      else if selected \<in> set available
      then (selected, False, None, [''execution_strategy:'' @ strategy_text selected])
      else (fb, True, Some ''selected_strategy_unavailable'',
            [''selected_strategy_unavailable'', ''fallback_strategy:'' @ strategy_text fb]))"

definition planner_strategy_allowed :: "retrieval_strategy list \<Rightarrow> retrieval_strategy \<Rightarrow> bool" where
  "planner_strategy_allowed available s = (s \<notin> set unimplemented_strategies \<and> s \<in> set available)"

fun disabled_candidates :: "retrieval_strategy list \<Rightarrow> retrieval_strategy list \<Rightarrow> retrieval_strategy list \<Rightarrow> retrieval_strategy list" where
  "disabled_candidates available seen [] = []"
| "disabled_candidates available seen (s # ss) =
     (if s \<in> set seen \<or> s \<in> set available then disabled_candidates available seen ss
      else s # disabled_candidates available (s # seen) ss)"

subsection \<open>The planner's part\<close>

record query_plan =
  qp_analysis :: "query_analysis option"
  qp_candidates :: "retrieval_strategy list option"
  qp_query :: string

datatype request_kind = SearchRequest | AskRequest

text \<open>A planner that is missing, or its answer to a request, which may be an exception.\<close>

type_synonym strategy_planner = "(planning_request \<Rightarrow> planner_result option) option"

record planner_outcome =
  po_choice :: "(retrieval_strategy \<times> string list \<times> rat) option"
  po_result :: "planner_result option"
  po_fallback_reason :: "string option"
  po_event :: "pyval pydict option"

definition no_planner :: planner_outcome where
  "no_planner = \<lparr>po_choice = None, po_result = None, po_fallback_reason = None, po_event = None\<rparr>"

definition rejection_reason :: "retrieval_strategy list \<Rightarrow> planner_result \<Rightarrow> string" where
  "rejection_reason available r = (case pn_plan r of
     None \<Rightarrow> (case str_or (pn_fallback_reason r) (Some ''planner_failed'') of None \<Rightarrow> [] | Some s \<Rightarrow> s)
   | Some p \<Rightarrow> if sp_action p = PlanFinalize then ''planner_finalize_not_allowed_initial''
       else (case sp_strategy p of
           None \<Rightarrow> (case str_or (pn_fallback_reason r) (Some ''planner_failed'') of None \<Rightarrow> [] | Some s \<Rightarrow> s)
         | Some s \<Rightarrow> if s \<notin> set available then ''planner_strategy_unavailable'' else ''planner_strategy_not_allowed''))"

definition initial_request ::
  "router_settings \<Rightarrow> query_plan \<Rightarrow> retrieval_strategy list \<Rightarrow> retrieval_strategy list \<Rightarrow> planning_request" where
  "initial_request st qp available candidates =
     \<lparr>pr_query = qp_query qp, pr_phase = ''initial'', pr_available = available, pr_candidates = candidates,
      pr_attempted = [], pr_analysis = query_analysis_payload (qp_analysis qp), pr_attempts = [],
      pr_sufficiency = [], pr_remaining_calls = rs_max_calls st, pr_remaining_fallbacks = rs_max_fallback_calls st\<rparr>"

definition accept_plan :: "retrieval_strategy list \<Rightarrow> planner_result \<Rightarrow> (retrieval_strategy \<times> string list \<times> rat) option" where
  "accept_plan available r = (case pn_plan r of
     None \<Rightarrow> None
   | Some p \<Rightarrow> (case sp_strategy p of
       None \<Rightarrow> None
     | Some s \<Rightarrow> if sp_action p = PlanRetrieve \<and> planner_strategy_allowed available s
         then Some (s, ''llm_planner_selected'' # sp_reasons p, sp_confidence p) else None))"

definition consult_planner ::
  "router_settings \<Rightarrow> strategy_planner \<Rightarrow> query_plan \<Rightarrow> retrieval_strategy list \<Rightarrow> retrieval_strategy list \<Rightarrow> planner_outcome option" where
  "consult_planner st planner qp available candidates =
     (if rs_mode st \<noteq> ''llm'' then Some no_planner
      else case planner of
        None \<Rightarrow> Some (no_planner\<lparr>po_fallback_reason := Some ''planner_unavailable'',
          po_event := Some (planner_trace_event ''initial'' None False None None (Some ''planner_unavailable''))\<rparr>)
      | Some plan \<Rightarrow> (case plan (initial_request st qp available candidates) of
          None \<Rightarrow> None
        | Some r \<Rightarrow> (case accept_plan available r of
            Some c \<Rightarrow> Some \<lparr>po_choice = Some c, po_result = Some r, po_fallback_reason = None,
              po_event = Some (planner_trace_event ''initial'' (Some r) True None (Some (fst c)) None)\<rparr>
          | None \<Rightarrow> (let why = rejection_reason available r in
              Some \<lparr>po_choice = None, po_result = Some r, po_fallback_reason = Some why,
                po_event = Some (planner_trace_event ''initial'' (Some r) False None None (Some why))\<rparr>))))"

subsection \<open>Routing\<close>

definition plan_candidates :: "query_plan \<Rightarrow> retrieval_strategy list" where
  "plan_candidates qp = (case qp_candidates qp of
     Some (c # cs) \<Rightarrow> c # cs
   | _ \<Rightarrow> (case qp_analysis qp of None \<Rightarrow> [] | Some a \<Rightarrow> qa_recommended a))"

definition validated :: "router_decision \<Rightarrow> router_decision option" where
  "validated r = (if decision_valid r then Some r else None)"

text \<open>The choice: the planner's, or the rules', which say why the planner's was not taken.\<close>

definition routed_choice ::
  "router_settings \<Rightarrow> query_plan \<Rightarrow> retrieval_strategy list \<Rightarrow> retrieval_strategy list \<Rightarrow> planner_outcome \<Rightarrow>
   retrieval_strategy \<times> string list \<times> rat" where
  "routed_choice st qp available candidates oc = (case po_choice oc of
     Some c \<Rightarrow> c
   | None \<Rightarrow> (case select_strategy st available (qp_analysis qp) candidates of (s, reasons, conf) \<Rightarrow>
       (s, (case po_fallback_reason oc of Some (c # cs) \<Rightarrow>
              reasons @ [''llm_planner_fallback'', ''planner_fallback:'' @ c # cs] | _ \<Rightarrow> reasons), conf)))"

definition routed_decision ::
  "router_settings \<Rightarrow> query_plan \<Rightarrow> retrieval_strategy list \<Rightarrow> retrieval_strategy list \<Rightarrow> planner_outcome \<Rightarrow> router_decision" where
  "routed_decision st qp available candidates oc =
     (case routed_choice st qp available candidates oc of (selected, reasons, conf) \<Rightarrow>
      (case resolve_execution available (configured_fallback st) selected of (execution, used, why, resolution) \<Rightarrow>
       (let plan = Option.bind (po_result oc) pn_plan in
        (base_decision StratAgenticRouter selected execution)
          \<lparr>rd_source := (if po_choice oc = None then ''rule_based'' else ''llm_planner''), rd_fallback_used := used,
           rd_fallback_reason := why, rd_confidence := conf, rd_reasons := reasons @ resolution,
           rd_disabled := disabled_candidates available [] candidates,
           rd_safety := [''single_retrieval_call'', ''no_agentic_loop'', ''no_external_action''],
           rd_planner_used := (if po_choice oc \<noteq> None then Some True
              else if po_fallback_reason oc \<noteq> None \<and> po_fallback_reason oc \<noteq> Some [] then Some False else None),
           rd_planner_provider := Option.bind (po_result oc) pn_provider,
           rd_planner_model := Option.bind (po_result oc) pn_model,
           rd_planner_action := map_option (\<lambda>p. action_text (sp_action p)) plan,
           rd_planner_selected := (if po_choice oc \<noteq> None then Some selected else None),
           rd_planner_reasons := (case plan of None \<Rightarrow> [] | Some p \<Rightarrow> sp_reasons p),
           rd_planner_fallback_reason := po_fallback_reason oc,
           rd_planner_events := (case po_event oc of None \<Rightarrow> [] | Some e \<Rightarrow> [e]),
           rd_store_trace := rs_store_trace st\<rparr>)))"

definition route_agentic ::
  "router_settings \<Rightarrow> strategy_planner \<Rightarrow> query_plan \<Rightarrow> router_decision option" where
  "route_agentic st planner qp =
     (let available = available_strategies st; candidates = plan_candidates qp in
      case consult_planner st planner qp available candidates of
        None \<Rightarrow> None
      | Some oc \<Rightarrow> validated (routed_decision st qp available candidates oc))"

definition route_unguarded ::
  "router_settings \<Rightarrow> strategy_planner \<Rightarrow> query_plan \<Rightarrow> retrieval_strategy \<Rightarrow> request_kind \<Rightarrow> router_decision option" where
  "route_unguarded st planner qp requested kind =
     (if requested \<noteq> StratAgenticRouter then
        validated ((base_decision requested requested requested)
          \<lparr>rd_source := ''explicit_strategy'', rd_router_enabled := False, rd_confidence := 1,
           rd_reasons := [''explicit_strategy:'' @ strategy_text requested], rd_store_trace := rs_store_trace st\<rparr>)
      else if \<not> rs_enabled st then Some (fallback_decision st requested ''router_disabled'' [''router_disabled''])
      else if kind = SearchRequest \<and> \<not> rs_allow_search st
      then Some (fallback_decision st requested ''agentic_search_disabled'' [''agentic_search_disabled''])
      else if kind = AskRequest \<and> \<not> rs_allow_ask st
      then Some (fallback_decision st requested ''agentic_ask_disabled'' [''agentic_ask_disabled''])
      else route_agentic st planner qp)"

definition route ::
  "router_settings \<Rightarrow> strategy_planner \<Rightarrow> query_plan \<Rightarrow> retrieval_strategy \<Rightarrow> request_kind \<Rightarrow> router_decision" where
  "route st planner qp requested kind = (case route_unguarded st planner qp requested kind of
     None \<Rightarrow> fallback_decision st requested ''router_error'' [''router_error'']
   | Some r \<Rightarrow> r)"

subsection \<open>What is executed\<close>

lemma choose_first_available_in:
  "StratFallbackDense \<in> set available \<Longrightarrow> fst (choose_first_available available ss reason c) \<in> set available"
  by (induction available ss reason c rule: choose_first_available.induct) auto

lemma choose_candidate_in:
  "StratDense \<in> set available \<Longrightarrow> fst (choose_candidate st available cs) \<in> set available"
  by (induction st available cs rule: choose_candidate.induct) (auto simp: Let_def)

lemma available_always: "StratDense \<in> set (available_strategies st)" "StratFallbackDense \<in> set (available_strategies st)"
  by (simp_all add: available_strategies_def)

lemma configured_fallback_available: "configured_fallback st \<in> set (available_strategies st)"
  by (simp add: configured_fallback_def available_always)

lemma resolve_execution_in:
  "fb \<in> set available \<Longrightarrow> StratFallbackDense \<in> set available \<Longrightarrow>
     fst (resolve_execution available fb selected) \<in> set available"
  by (auto simp: resolve_execution_def)

lemma routed_decision_fields:
  "rd_execution (routed_decision st qp available cs oc) =
     fst (resolve_execution available (configured_fallback st) (fst (routed_choice st qp available cs oc)))"
  "rd_requested (routed_decision st qp available cs oc) = StratAgenticRouter"
  by (auto simp: routed_decision_def base_decision_def Let_def split: prod.splits)

text \<open>
  C29: Whatever strategy an agentic request's rules or the planner choose, what is executed is
  one of the retrieval strategies that the settings make available: dense retrieval, sparse
  retrieval only when it is enabled, hybrid retrieval only when it is enabled and can run. A
  request for an explicit strategy is executed as it is. A planner that raises, answers
  nonsense or names a strategy that is off changes nothing of this.
\<close>

theorem routed_strategy_is_enabled:
  "let r = route st planner qp requested kind in
     rd_requested r = requested \<and>
     (if requested \<noteq> StratAgenticRouter then rd_execution r = requested \<and> rd_selected r = requested
      else rd_execution r \<in> {StratDense, StratFallbackDense} \<union>
        (if rs_sparse_enabled st then {StratSparse} else {}) \<union>
        (if rs_hybrid_enabled st \<and> hybrid_runs st then {StratHybrid} else {}))"
proof -
  have fb: "rd_execution (fallback_decision st req why cs) = configured_fallback st \<and>
      rd_requested (fallback_decision st req why cs) = req" for req why cs
    by (simp add: fallback_decision_def base_decision_def Let_def)
  have routed: "rd_execution (routed_decision st qp (available_strategies st) cs oc) \<in> set (available_strategies st)" for cs oc
    unfolding routed_decision_fields by (rule resolve_execution_in[OF configured_fallback_available available_always(2)])
  have explicit: "requested \<noteq> StratAgenticRouter \<Longrightarrow> rd_execution (route st planner qp requested kind) = requested \<and>
      rd_selected (route st planner qp requested kind) = requested \<and> rd_requested (route st planner qp requested kind) = requested"
    by (simp add: route_def route_unguarded_def validated_def decision_valid_def base_decision_def max_len_def)
  have agentic: "rd_execution (route st planner qp StratAgenticRouter kind) \<in> set (available_strategies st) \<and>
      rd_requested (route st planner qp StratAgenticRouter kind) = StratAgenticRouter"
    using fb routed configured_fallback_available
    by (auto simp: routed_decision_fields(2) route_def route_unguarded_def route_agentic_def validated_def Let_def split: option.splits)
  have "set (available_strategies st) = {StratDense, StratFallbackDense} \<union>
      (if rs_sparse_enabled st then {StratSparse} else {}) \<union>
      (if rs_hybrid_enabled st \<and> hybrid_runs st then {StratHybrid} else {})"
    by (auto simp: available_strategies_def)
  with explicit agentic show ?thesis by (cases "requested = StratAgenticRouter") (simp_all add: Let_def)
qed

end
