(* ===== verification/Agentic_Properties.thy ===== *)
theory Agentic_Properties
  imports Agentic_Retrieval Strategy_Router
begin

section \<open>Properties of the bounded retrieval loop\<close>

text \<open>
  The loop returns, within its budget and without trying a family of strategies twice; the
  merge keeps each chunk once with its best score; the sufficiency score reaches one exactly
  when the context suffices.
\<close>

subsection \<open>Sufficiency\<close>

lemma diversity_le: "source_diversity (take n cs) \<le> int n"
proof -
  have "card (set (map kd_document_id (take n cs))) \<le> length (map kd_document_id (take n cs))"
    by (rule card_length)
  then show ?thesis by (simp add: source_diversity_def)
qed

lemma sufficiency_score_unit:
  "0 \<le> sufficiency_score st n sel best dv cmp" "sufficiency_score st n sel best dv cmp \<le> 1"
  unfolding sufficiency_score_def by (auto intro!: py_round_unit[THEN conjunct1] py_round_unit[THEN conjunct2] split: option.splits)

text \<open>Only the full sum rounds to one.\<close>

lemma sufficiency_score_1:
  "sufficiency_score st n sel best dv cmp = 1 \<longleftrightarrow>
     rs_min_candidates st \<le> n \<and> rs_min_selected st \<le> sel \<and>
     (case best of None \<Rightarrow> False | Some s \<Rightarrow> rs_top_threshold st \<le> s) \<and> (\<not> cmp \<or> 2 \<le> dv)"
  unfolding sufficiency_score_def
  by (cases best; simp add: py_round_def round_even_def)

text \<open>
  A context is called sufficient exactly when its sufficiency score is one, the score is
  always between zero and one, a fallback is recommended exactly when the context is not
  sufficient, and the reasons say so.
\<close>

theorem sufficient_means_full_score:
  "let d = check_sufficiency st cs selected intent in
     su_sufficient d = (su_score d = 1) \<and> 0 \<le> su_score d \<and> su_score d \<le> 1 \<and>
     su_fallback_recommended d = (\<not> su_sufficient d) \<and>
     su_sufficient d = (su_reasons d = [''sufficient_context''])"
proof -
  let ?n = "int (length cs)" and ?dv = "source_diversity (take selected cs)" and ?cmp = "intent = Some Comparison"
  let ?against = "insufficiency_reasons st ?n (int selected) (top_score cs) ?dv ?cmp"
  have "cs = [] \<Longrightarrow> top_score cs = None" by (simp add: top_score_def)
  then have "?against = [] \<longleftrightarrow> sufficiency_score st ?n (int selected) (top_score cs) ?dv ?cmp = 1"
    using diversity_le[of selected cs] unfolding sufficiency_score_1 insufficiency_reasons_def
    by (auto split: option.splits if_splits)
  moreover have "?against \<noteq> [''sufficient_context'']"
    by (auto simp: insufficiency_reasons_def append_eq_Cons_conv split: option.splits if_splits)
  ultimately show ?thesis
    using sufficiency_score_unit by (simp add: check_sufficiency_def Let_def)
qed

subsection \<open>The merge\<close>

lemma map_insort_key: "map f (insort_key (\<lambda>x. g (f x)) x xs) = insort_key g (f x) (map f xs)"
  by (induction xs) auto

lemma map_sort_key: "map f (sort_key (\<lambda>x. g (f x)) xs) = sort_key g (map f xs)"
  by (induction xs) (simp_all add: map_insort_key)

definition best_score :: "checked_candidate list \<Rightarrow> int \<Rightarrow> rat" where
  "best_score cs i = Max (kd_score ` set (filter (\<lambda>c. kd_chunk_id c = i) cs))"

text \<open>The ranking the merge is to compute: every chunk once, best score first, ties by identifier.\<close>

definition reference_ranking :: "checked_candidate list \<Rightarrow> (int \<times> rat) list" where
  "reference_ranking cs =
     sort_key (\<lambda>(i, s). (- s, i)) (map (\<lambda>i. (i, best_score cs i)) (uniq_first (map kd_chunk_id cs)))"

definition table_pairs :: "merge_table \<Rightarrow> (int \<times> rat) list" where
  "table_pairs t = map (\<lambda>(i, c, p, srcs). (i, kd_score c)) t"

definition add_pair :: "(int \<times> rat) list \<Rightarrow> checked_candidate \<Rightarrow> (int \<times> rat) list" where
  "add_pair ps c = AList.update (kd_chunk_id c)
     (case map_of ps (kd_chunk_id c) of None \<Rightarrow> kd_score c | Some s \<Rightarrow> max s (kd_score c)) ps"

definition table_keys_ok :: "merge_table \<Rightarrow> bool" where
  "table_keys_ok t = (\<forall>(i, c, p, srcs)\<in>set t. kd_chunk_id c = i)"

lemma map_of_table_pairs: "map_of (table_pairs t) i = map_option (\<lambda>(c, p, srcs). kd_score c) (map_of t i)"
  by (induction t) (auto simp: table_pairs_def)

lemma table_pairs_update:
  "table_pairs (AList.update i (c, p, srcs) t) = AList.update i (kd_score c) (table_pairs t)"
  by (induction t) (auto simp: table_pairs_def)

lemma set_AList_update: "set (AList.update k v t) \<subseteq> insert (k, v) (set t)"
  by (induction t) auto

lemma table_keys_update:
  "table_keys_ok t \<Longrightarrow> kd_chunk_id c = i \<Longrightarrow> table_keys_ok (AList.update i (c, p, srcs) t)"
  using set_AList_update[of i "(c, p, srcs)" t] by (fastforce simp: table_keys_ok_def)

lemma first_entry_candidate: "\<exists>p srcs. first_entry initial a c = (c, p, srcs)"
  by (simp add: first_entry_def Let_def)

lemma next_entry_candidate:
  assumes "next_entry a c (old, p, srcs) = (new, p', srcs')" "kd_chunk_id old = kd_chunk_id c"
  shows "kd_chunk_id new = kd_chunk_id c \<and> kd_score new = max (kd_score old) (kd_score c)"
  using assms by (auto simp: next_entry_def prefer_candidate_def Let_def split: if_splits)

lemma add_candidate_pairs:
  assumes "table_keys_ok t"
  shows "table_pairs (add_candidate initial a t c) = add_pair (table_pairs t) c \<and>
    table_keys_ok (add_candidate initial a t c)"
proof (cases "map_of t (kd_chunk_id c)")
  case None
  obtain p srcs where "first_entry initial a c = (c, p, srcs)" using first_entry_candidate by blast
  with None assms show ?thesis
    by (simp add: add_candidate_def add_pair_def map_of_table_pairs table_pairs_update table_keys_update)
next
  case (Some e)
  obtain old p srcs where e: "e = (old, p, srcs)" by (cases e)
  obtain new p' srcs' where n: "next_entry a c (old, p, srcs) = (new, p', srcs')" by (cases "next_entry a c (old, p, srcs)")
  have "kd_chunk_id old = kd_chunk_id c"
    using map_of_SomeD[OF Some] assms e by (auto simp: table_keys_ok_def)
  from next_entry_candidate[OF n this] show ?thesis
    using Some e n assms
    by (simp add: add_candidate_def add_pair_def map_of_table_pairs table_pairs_update table_keys_update)
qed

lemma fold_candidates_pairs:
  "table_keys_ok t \<Longrightarrow> table_pairs (foldl (add_candidate initial a) t cs) = foldl add_pair (table_pairs t) cs \<and>
     table_keys_ok (foldl (add_candidate initial a) t cs)"
  by (induction cs arbitrary: t) (simp_all add: add_candidate_pairs)

lemma fold_attempts_pairs:
  "table_keys_ok t \<Longrightarrow>
     table_pairs (foldl (\<lambda>t a. foldl (add_candidate initial a) t (at_candidates a)) t ats) =
       foldl add_pair (table_pairs t) (concat (map at_candidates ats)) \<and>
     table_keys_ok (foldl (\<lambda>t a. foldl (add_candidate initial a) t (at_candidates a)) t ats)"
  by (induction ats arbitrary: t) (simp_all add: fold_candidates_pairs)

lemma uniq_from_snoc:
  "uniq_from seen (xs @ [x]) = uniq_from seen xs @ (if x \<in> set xs \<union> set seen then [] else [x])"
  by (induction seen xs rule: uniq_from.induct) auto

lemma update_map:
  "AList.update i v (map (\<lambda>i. (i, f i)) is) =
     (if i \<in> set is then map (\<lambda>j. (j, if j = i then v else f j)) is else map (\<lambda>i. (i, f i)) is @ [(i, v)])"
  if "distinct is"
  using that by (induction "is") (auto intro!: map_cong)

lemma best_score_snoc:
  "best_score (cs @ [c]) i = (if kd_chunk_id c \<noteq> i then best_score cs i
     else if i \<in> set (map kd_chunk_id cs) then max (best_score cs i) (kd_score c) else kd_score c)"
proof -
  let ?S = "kd_score ` set (filter (\<lambda>c. kd_chunk_id c = i) cs)"
  have "?S = {} \<longleftrightarrow> i \<notin> set (map kd_chunk_id cs)" by auto
  moreover have "finite ?S" by simp
  moreover have "best_score (cs @ [c]) i = (if kd_chunk_id c = i then Max (insert (kd_score c) ?S) else Max ?S)"
    by (simp add: best_score_def)
  ultimately show ?thesis
    by (cases "?S = {}") (simp_all add: best_score_def max.commute)
qed

lemma fold_add_pair:
  "foldl add_pair [] cs = map (\<lambda>i. (i, best_score cs i)) (uniq_first (map kd_chunk_id cs))"
proof (induction cs rule: rev_induct)
  case (snoc c cs)
  let ?ids = "uniq_first (map kd_chunk_id cs)" and ?i = "kd_chunk_id c"
  have look: "map_of (map (\<lambda>i. (i, best_score cs i)) ?ids) ?i =
      (if ?i \<in> set (map kd_chunk_id cs) then Some (best_score cs ?i) else None)"
    by (auto simp: map_of_map_restrict restrict_map_def)
  have ids: "uniq_first (map kd_chunk_id (cs @ [c])) =
      ?ids @ (if ?i \<in> set (map kd_chunk_id cs) then [] else [?i])"
    by (simp add: uniq_first_def uniq_from_snoc)
  have "foldl add_pair [] (cs @ [c]) = add_pair (map (\<lambda>i. (i, best_score cs i)) ?ids) c"
    by (simp add: snoc.IH)
  then show ?case
    unfolding add_pair_def look ids update_map[OF distinct_uniq_first]
    by (auto simp: best_score_snoc intro!: map_cong)
qed (simp add: uniq_first_def)

text \<open>
  C30: Merging the attempts ranks every chunk found once, with the best score any attempt gave
  it, the best scores first and equal scores by the identifier of the chunk, cut off at the
  limit and numbered from one.
\<close>

theorem merge_is_the_reference_ranking:
  "map (\<lambda>c. (kd_chunk_id c, kd_score c)) (merge_dedupe attempts limit) =
     take limit (reference_ranking (concat (map at_candidates attempts))) \<and>
   map kd_rank (merge_dedupe attempts limit) = [1..<1 + length (merge_dedupe attempts limit)]"
proof
  let ?t = "merge_table attempts"
  let ?e = "\<lambda>(c, p, srcs). (kd_chunk_id c, kd_score c)"
  have pairs: "table_pairs ?t = foldl add_pair [] (concat (map at_candidates attempts))" and ok: "table_keys_ok ?t"
    using fold_attempts_pairs[of "[]" "at_strategy (hd attempts)" attempts]
    by (simp_all add: merge_table_def table_keys_ok_def table_pairs_def)
  have "map ?e (map snd ?t) = table_pairs ?t"
    using ok by (auto simp: table_pairs_def table_keys_ok_def)
  then have entries: "map ?e (map snd ?t) =
      map (\<lambda>i. (i, best_score (concat (map at_candidates attempts)) i))
        (uniq_first (map kd_chunk_id (concat (map at_candidates attempts))))"
    unfolding pairs fold_add_pair .
  have key: "(\<lambda>(c, p, srcs). (- kd_score c, kd_chunk_id c)) = (\<lambda>x. (\<lambda>(i, s). (- s, i)) (?e x))" by auto
  have "map (\<lambda>c. (kd_chunk_id c, kd_score c)) (merge_dedupe attempts limit) =
      map ?e (map snd (enum_from 1 (take limit (sort_key (\<lambda>(c, p, srcs). (- kd_score c, kd_chunk_id c)) (map snd ?t)))))"
    unfolding merge_dedupe_def map_map by (rule map_cong) auto
  also have "\<dots> = take limit (map ?e (sort_key (\<lambda>(c, p, srcs). (- kd_score c, kd_chunk_id c)) (map snd ?t)))"
    by (simp only: map_snd_enum_from take_map)
  also have "\<dots> = take limit (reference_ranking (concat (map at_candidates attempts)))"
    unfolding key map_sort_key entries reference_ranking_def ..
  finally show "map (\<lambda>c. (kd_chunk_id c, kd_score c)) (merge_dedupe attempts limit) =
     take limit (reference_ranking (concat (map at_candidates attempts)))" .
  have rank: "map kd_rank (map (\<lambda>(i, c, p, srcs). c\<lparr>kd_rank := i, kd_payload := p\<rparr>) (enum_from 1 xs)) =
      [1..<1 + length xs]" for xs :: "merged_entry list"
  proof -
    have "map kd_rank (map (\<lambda>(i, c, p, srcs). c\<lparr>kd_rank := i, kd_payload := p\<rparr>) (enum_from 1 xs)) =
        map fst (enum_from 1 xs)"
      unfolding map_map by (rule map_cong) auto
    then show ?thesis by (simp only: map_fst_enum_from)
  qed
  show "map kd_rank (merge_dedupe attempts limit) = [1..<1 + length (merge_dedupe attempts limit)]"
    unfolding merge_dedupe_def length_map length_enum_from by (rule rank)
qed

subsection \<open>The loop\<close>

lemma available_fallbacks_new:
  "x \<in> set (available_fallbacks st initial ats) \<Longrightarrow> execution_family x \<notin> set (attempted_families ats)"
  by (simp add: available_fallbacks_def)

lemma next_rule_based_new:
  "next_rule_based st initial ats = Some x \<Longrightarrow> execution_family x \<notin> set (attempted_families ats)"
  by (rule available_fallbacks_new[of x st initial]) (simp add: next_rule_based_def split: list.splits)

lemma planned_strategy_new:
  "planned_step available ats r = (PlannedStrategy x, e) \<Longrightarrow> execution_family x \<notin> set (attempted_families ats)"
  by (auto simp: planned_step_def planner_rejection_def split: option.splits if_splits)

text \<open>What the loop takes next is of a family not tried yet, so it never repeats in place.\<close>

lemma fallback_choice_new:
  assumes "planned_fallback env ats ds calls es s = Some (step, es', s')" "fallback_choice env ats step = Some x"
  shows "execution_family x \<notin> set (attempted_families ats)"
proof (cases step)
  case (PlannedStrategy y)
  then have "x = y" using assms(2) by (simp add: fallback_choice_def)
  with assms(1) PlannedStrategy show ?thesis
    by (auto simp: planned_fallback_def Let_def dest: planned_strategy_new split: if_splits option.splits prod.splits)
qed (use assms(2) next_rule_based_new in \<open>auto simp: fallback_choice_def\<close>)

text \<open>Retrievals and a planner that answer, and retrievals that report the strategy asked for.\<close>

definition calls_answer :: "'s agentic_env \<Rightarrow> bool" where
  "calls_answer env = ((\<forall>x role s. ae_retrieve env x role s \<noteq> None) \<and>
     (case ae_planner env of None \<Rightarrow> True | Some plan \<Rightarrow> \<forall>req s. plan req s \<noteq> None))"

definition calls_honest :: "'s agentic_env \<Rightarrow> bool" where
  "calls_honest env = (\<forall>x role s a s'. ae_retrieve env x role s = Some (a, s') \<longrightarrow> at_strategy a = x)"

lemma calls_answerD: "calls_answer env \<Longrightarrow> ae_retrieve env x role s \<noteq> None"
  unfolding calls_answer_def by blast

lemma calls_honestD: "calls_honest env \<Longrightarrow> ae_retrieve env x role s = Some (a, s') \<Longrightarrow> at_strategy a = x"
  unfolding calls_honest_def by blast

lemma planned_fallback_answers:
  assumes "calls_answer env"
  shows "planned_fallback env ats ds calls es s \<noteq> None"
proof (cases "ae_planner env")
  case (Some plan)
  let ?ok = "available_fallbacks (ae_settings env) (ae_initial env) ats"
  obtain r s' where "plan (fallback_request env ats ds calls ?ok) s = Some (r, s')"
    using assms Some by (fastforce simp: calls_answer_def)
  with Some show ?thesis by (simp add: planned_fallback_def Let_def split: prod.split)
qed (simp add: planned_fallback_def Let_def)

definition result_families :: "agentic_result \<Rightarrow> string list" where
  "result_families r = map execution_family (ar_initial r # ar_fallbacks r)"

text \<open>The state of the loop, and what every result says about it.\<close>

definition loop_state :: "'s agentic_env \<Rightarrow> attempt list \<Rightarrow> sufficiency list \<Rightarrow> int \<Rightarrow> bool" where
  "loop_state env ats ds calls =
     (0 \<le> calls \<and> int (length ats) = calls + 1 \<and> length ds = length ats \<and>
      (calls \<le> max_fallbacks env \<or> calls = 0) \<and>
      list_all (\<lambda>d. \<not> su_sufficient d) ds \<and>
      (calls_honest env \<longrightarrow> distinct (attempted_families ats)))"

definition within_budget :: "'s agentic_env \<Rightarrow> agentic_result \<Rightarrow> bool" where
  "within_budget env r =
     (1 \<le> ar_calls r \<and> int (ar_calls r) \<le> max_calls env \<and> ar_calls r = Suc (length (ar_fallbacks r)) \<and>
      int (length (ar_fallbacks r)) \<le> max 0 (max_fallbacks env) \<and> length (ar_decisions r) = ar_calls r \<and>
      list_all (\<lambda>d. \<not> su_sufficient d) (butlast (ar_decisions r)) \<and>
      \<not> (ar_exhausted r \<and> su_sufficient (last (ar_decisions r))) \<and>
      ar_no_context r = (\<not> su_sufficient (last (ar_decisions r)) \<and> rs_no_context (ae_settings env)))"

fun outcome_ok :: "'s agentic_env \<Rightarrow> 's agentic_outcome \<Rightarrow> bool" where
  "outcome_ok env AgenticRaised = (\<not> calls_answer env)"
| "outcome_ok env (AgenticResult r s) =
     (within_budget env r \<and> (calls_honest env \<longrightarrow> distinct (result_families r)))"

lemma max_calls_bounds: "1 \<le> max_calls env" "max_calls env \<le> 3" "max_fallbacks env \<le> max_calls env - 1"
  by (auto simp: max_calls_def bounded_max_calls_def max_fallbacks_def)

lemma result_within_budget:
  assumes "ats \<noteq> []" "length ds = length ats" "int (length ats) \<le> max 0 (max_fallbacks env) + 1"
    and "list_all (\<lambda>d. \<not> su_sufficient d) (butlast ds)" "exhausted = False \<or> \<not> su_sufficient (last ds)"
    and "calls_honest env \<longrightarrow> distinct (attempted_families ats)"
  shows "outcome_ok env (agentic_result_of env ats ds why exhausted es s)"
  using assms max_calls_bounds[of env]
  by (cases ats) (auto simp: agentic_result_of_def within_budget_def result_from_attempts_def result_families_def
      attempted_families_def comp_def Let_def)

lemma loop_result_ok:
  assumes "loop_state env ats ds calls"
  shows "outcome_ok env (agentic_result_of env ats ds why exhausted es s)"
proof -
  have "ds \<noteq> []" "ats \<noteq> []" using assms by (auto simp: loop_state_def)
  then have "\<not> su_sufficient (last ds)" "list_all (\<lambda>d. \<not> su_sufficient d) (butlast ds)"
    using assms by (auto simp: loop_state_def list_all_iff dest: in_set_butlastD)
  with \<open>ats \<noteq> []\<close> assms show ?thesis by (intro result_within_budget) (auto simp: loop_state_def)
qed

lemma loop_state_step:
  assumes "loop_state env ats ds calls" "calls < max_fallbacks env" "\<not> su_sufficient d"
    and "calls_honest env \<longrightarrow> distinct (attempted_families (ats @ [a]))"
  shows "loop_state env (ats @ [a]) (ds @ [d]) (calls + 1)"
  using assms by (auto simp: loop_state_def)

lemma honest_step:
  assumes "loop_state env ats ds calls" "ae_retrieve env x role s = Some (a, s')"
    and "execution_family x \<notin> set (attempted_families ats)"
  shows "calls_honest env \<longrightarrow> distinct (attempted_families (ats @ [a]))"
proof
  assume "calls_honest env"
  then have "at_strategy a = x" "distinct (attempted_families ats)"
    using assms(1) calls_honestD[OF _ assms(2)] by (simp_all add: loop_state_def)
  with assms(3) show "distinct (attempted_families (ats @ [a]))" by (simp add: attempted_families_def)
qed

lemma loop_returns:
  assumes "loop_state env ats ds calls"
  shows "\<exists>oc. agentic_loop env ats ds calls es s = Some oc \<and> outcome_ok env oc"
  using assms
proof (induction "nat (max_fallbacks env - calls)" arbitrary: ats ds calls es s)
  case 0
  then show ?case using loop_result_ok by (subst agentic_loop.simps) auto
next
  case (Suc n)
  show ?case
  proof (cases "calls < max_fallbacks env \<and> int (length ats) < max_calls env \<and>
      (\<exists>step es' s' x a s2. planned_fallback env ats ds calls es s = Some (step, es', s') \<and> step \<noteq> PlannedFinalize \<and>
         fallback_choice env ats step = Some x \<and> ae_retrieve env x ''fallback'' s' = Some (a, s2))")
    case False
    show ?thesis
    proof (cases "calls < max_fallbacks env \<and> int (length ats) < max_calls env")
      case off: False
      then show ?thesis using loop_result_ok[OF Suc.prems] by (subst agentic_loop.simps) simp
    next
      case on: True
      show ?thesis
      proof (cases "planned_fallback env ats ds calls es s")
        case None
        then have "\<not> calls_answer env" using planned_fallback_answers[of env ats ds calls es s] by auto
        then show ?thesis using on None by (subst agentic_loop.simps) simp
      next
        case (Some t)
        obtain step es' s' where t: "t = (step, es', s')" by (cases t)
        show ?thesis
        proof (cases "step = PlannedFinalize \<or> fallback_choice env ats step = None")
          case True
          then show ?thesis using on Some t loop_result_ok[OF Suc.prems] by (subst agentic_loop.simps) auto
        next
          case go: False
          then obtain x where x: "fallback_choice env ats step = Some x" by auto
          then have "ae_retrieve env x ''fallback'' s' = None" using False on Some t go by (cases "ae_retrieve env x ''fallback'' s'") auto
          moreover from this have "\<not> calls_answer env" using calls_answerD[of env x "''fallback''" s'] by auto
          ultimately show ?thesis
            using on Some t go x fallback_choice_new[OF _ x, of ds calls es s es' s'] by (subst agentic_loop.simps) simp
        qed
      qed
    qed
  next
    case True
    then obtain step es' s' x a s2 where h: "calls < max_fallbacks env" "int (length ats) < max_calls env"
        "planned_fallback env ats ds calls es s = Some (step, es', s')" "step \<noteq> PlannedFinalize"
        "fallback_choice env ats step = Some x" "ae_retrieve env x ''fallback'' s' = Some (a, s2)"
      by blast
    let ?d = "check_attempts env (merge_dedupe (ats @ [a]) (ae_top_k env))"
    have new: "execution_family x \<notin> set (attempted_families ats)" by (rule fallback_choice_new[OF h(3,5)])
    note honest = honest_step[OF Suc.prems h(6) new]
    show ?thesis
    proof (cases "su_sufficient ?d")
      case True
      have "outcome_ok env (agentic_result_of env (ats @ [a]) (ds @ [?d]) (Some ''insufficient_context'') False es' s2)"
        using Suc.prems h(1) honest by (intro result_within_budget) (auto simp: loop_state_def)
      then show ?thesis using h new True by (subst agentic_loop.simps) (simp add: Let_def)
    next
      case False
      have "\<exists>oc. agentic_loop env (ats @ [a]) (ds @ [?d]) (calls + 1) es' s2 = Some oc \<and> outcome_ok env oc"
        using Suc.hyps(2) h(1) loop_state_step[OF Suc.prems h(1) False honest] by (intro Suc.hyps(1)) auto
      then show ?thesis using h new False by (subst agentic_loop.simps) (simp add: Let_def)
    qed
  qed
qed

lemma execute_outcome: "\<exists>oc. agentic_execute env s = Some oc \<and> outcome_ok env oc"
proof (cases "ae_retrieve env (ae_initial env) ''initial'' s")
  case None
  then show ?thesis using calls_answerD[of env "ae_initial env" "''initial''" s] by (auto simp: agentic_execute_def)
next
  case (Some x)
  obtain a s1 where x: "x = (a, s1)" by (cases x)
  let ?d = "check_attempts env (at_candidates a)"
  have one: "outcome_ok env (agentic_result_of env [a] [?d] None (\<not> su_sufficient ?d \<and> blocked) [] s1)" for blocked
    by (rule result_within_budget) (auto simp: attempted_families_def)
  have "\<not> su_sufficient ?d \<Longrightarrow> loop_state env [a] [?d] 0" by (simp add: loop_state_def attempted_families_def)
  then show ?thesis using Some x one loop_returns[of env "[a]" "[?d]" 0 "[]" s1]
    by (auto simp: agentic_execute_def Let_def)
qed

text \<open>
  C28: An execution of the bounded loop returns, whatever the retrievals and the planner answer.
  It makes between one and three retrieval calls and no more than the settings allow, one
  decision per call; it goes on only after an insufficient decision, it reports its budget as
  exhausted only when the last decision is insufficient, and it reports no context exactly
  when that is so and the settings ask for it.
\<close>

theorem agentic_retrieval_returns_within_budget:
  "\<exists>oc. agentic_execute env s = Some oc \<and>
     (case oc of AgenticRaised \<Rightarrow> True
      | AgenticResult r s' \<Rightarrow>
          1 \<le> ar_calls r \<and> int (ar_calls r) \<le> bounded_max_calls (rs_max_calls (ae_settings env)) \<and> ar_calls r \<le> 3 \<and>
          int (length (ar_fallbacks r)) \<le> max 0 (rs_max_fallback_calls (ae_settings env)) \<and>
          length (ar_decisions r) = ar_calls r \<and>
          list_all (\<lambda>d. \<not> su_sufficient d) (butlast (ar_decisions r)) \<and>
          \<not> (ar_exhausted r \<and> su_sufficient (last (ar_decisions r))) \<and>
          ar_no_context r = (\<not> su_sufficient (last (ar_decisions r)) \<and> rs_no_context (ae_settings env)))"
proof -
  obtain oc where "agentic_execute env s = Some oc" "outcome_ok env oc" using execute_outcome[of env s] by blast
  then show ?thesis
    using max_calls_bounds[of env] by (cases oc) (auto simp: within_budget_def max_calls_def max_fallbacks_def)
qed

subsection \<open>Answers\<close>

text \<open>
  When the retrievals and the planner answer, so does the execution: it ends with a result,
  never with an exception of its own.
\<close>

theorem agentic_retrieval_answers:
  assumes "calls_answer env"
  shows "\<exists>r s'. agentic_execute env s = Some (AgenticResult r s')"
proof -
  obtain oc where "agentic_execute env s = Some oc" "outcome_ok env oc" using execute_outcome[of env s] by blast
  with assms show ?thesis by (cases oc) auto
qed

text \<open>
  No family of strategies is tried twice in one execution, provided each retrieval reports
  the strategy it was asked for: dense retrieval and its fallback form count as one family.
\<close>

theorem no_strategy_family_is_retried:
  assumes "calls_honest env" "agentic_execute env s = Some (AgenticResult r s')"
  shows "distinct (map execution_family (ar_initial r # ar_fallbacks r))"
proof -
  have "outcome_ok env (AgenticResult r s')" using execute_outcome[of env s] assms(2) by simp
  then have "distinct (result_families r)" using assms(1) by simp
  then show ?thesis by (simp only: result_families_def)
qed

subsection \<open>A concrete execution\<close>

text \<open>Retrievals that find nothing, under the largest budget of the settings.\<close>

definition ex_router_settings :: router_settings where
  "ex_router_settings = \<lparr>rs_enabled = True, rs_mode = ''rule_based'', rs_allow_search = True, rs_allow_ask = True,
     rs_keyword_threshold = 65/100, rs_ambiguity_threshold = 75/100, rs_max_calls = 3, rs_max_fallback_calls = 2,
     rs_min_candidates = 1, rs_min_selected = 1, rs_top_threshold = 2/10, rs_fallback_hybrid = True,
     rs_fallback_dense = True, rs_no_context = True, rs_fallback_strategy = ''fallback_dense'', rs_store_trace = True,
     rs_sparse_enabled = True, rs_hybrid_enabled = True, rs_sparse_weight = 1/2\<rparr>"

definition ex_agentic_env :: "nat agentic_env" where
  "ex_agentic_env = \<lparr>ae_settings = ex_router_settings, ae_planner = None,
     ae_retrieve = (\<lambda>x role n. Some (\<lparr>at_strategy = x, at_candidates = [], at_qdrant = 0, at_sparse = None,
       at_hybrid = None, at_excluded = 0, at_role = role\<rparr>, Suc n)),
     ae_query = ''q'', ae_intent = None, ae_initial = StratSparse, ae_top_k = 5, ae_rerank_n = 3\<rparr>"

lemma ex_agentic_calls: "calls_answer ex_agentic_env" "calls_honest ex_agentic_env"
  by (simp_all add: calls_answer_def calls_honest_def ex_agentic_env_def)

definition execution_summary :: "'s agentic_outcome option \<Rightarrow> (retrieval_strategy list \<times> bool \<times> bool \<times> 's) option" where
  "execution_summary oc = (case oc of Some (AgenticResult r s) \<Rightarrow>
     Some (ar_initial r # ar_fallbacks r, ar_exhausted r, ar_no_context r, s) | _ \<Rightarrow> None)"

lemma ex_agentic_run:
  "execution_summary (agentic_execute ex_agentic_env 0) = Some ([StratSparse, StratHybrid, StratFallbackDense], True, True, 3)"
  by code_simp

lemma ex_agentic_result: "\<exists>r s. agentic_execute ex_agentic_env 0 = Some (AgenticResult r s)"
  using ex_agentic_run by (auto simp: execution_summary_def split: option.splits agentic_outcome.splits)

theorem agentic_retrieval_answers_witness: "\<exists>r s'. agentic_execute ex_agentic_env 0 = Some (AgenticResult r s')"
  by (rule agentic_retrieval_answers) (rule ex_agentic_calls)

theorem no_strategy_family_is_retried_witness:
  "\<exists>r s'. agentic_execute ex_agentic_env 0 = Some (AgenticResult r s') \<and>
     distinct (map execution_family (ar_initial r # ar_fallbacks r)) \<and>
     ar_fallbacks r = [StratHybrid, StratFallbackDense]"
proof -
  obtain r s' where r: "agentic_execute ex_agentic_env 0 = Some (AgenticResult r s')"
    using ex_agentic_result by blast
  with ex_agentic_run have "ar_fallbacks r = [StratHybrid, StratFallbackDense]" by (simp add: execution_summary_def)
  with r no_strategy_family_is_retried[OF ex_agentic_calls(2) r] show ?thesis by blast
qed

end
