(* ===== verification/Chat_Tables.thy ===== *)
theory Chat_Tables
  imports Audit_Log Retrieval_Strategy Confidence
begin

section \<open>The tables of conversations and retrieval runs\<close>

text \<open>
  The rows of \<open>db/models.py\<close> and \<open>db/graph_models.py\<close> a conversation is made of, with their
  CHECK constraints, unique indexes and foreign keys. Most foreign keys are checked by every
  statement; the two that tie a message to its run and a run to its question are deferred to
  the commit, but their \<open>ON DELETE RESTRICT\<close> refuses at once to delete a row that is still
  referred to. Of the evaluation items only the reference to a run is modelled. The
  constraints on the formats of hashes and request identifiers and the widths of columns are
  left out.
\<close>

subsection \<open>Rows\<close>

datatype chat_status = ChatActive | ChatArchived

record chat_session =
  ch_id :: int
  ch_user_id :: int
  ch_title :: string
  ch_status :: chat_status
  ch_temporary :: bool
  ch_expires_at :: "py_time option"
  ch_archived_at :: "py_time option"
  ch_created_at :: py_time
  ch_updated_at :: py_time

datatype chat_role = RoleUser | RoleAssistant | RoleSystem

record chat_message =
  msg_id :: int
  msg_session_id :: int
  msg_role :: chat_role
  msg_content :: string
  msg_client_id :: "string option"
  msg_run_id :: "int option"
  msg_edited :: bool
  msg_created_at :: py_time
  msg_updated_at :: py_time

record chat_tag =
  tag_id :: int
  tag_session_id :: int
  tag_name :: string
  tag_created_at :: py_time

record summary_memory =
  mem_id :: int
  mem_session_id :: int
  mem_upto_id :: int
  mem_summary :: string
  mem_created_at :: py_time

datatype run_status = RunRunning | RunSucceeded | RunFailed

record retrieval_run =
  run_id :: int
  run_session_id :: "int option"
  run_request_id :: "int option"
  run_status :: run_status
  run_error :: "string option"
  run_started_at :: py_time
  run_finished_at :: "py_time option"
  run_top_k :: "int option"
  run_strategy :: retrieval_strategy
  run_query_hash :: "string option"
  run_score_summary :: "pyval pydict option"
  run_query_plan :: "pyval pydict option"
  run_decision :: "pyval pydict option"
  run_latency :: "pyval pydict option"
  run_settings :: "pyval pydict option"
  run_context_budget :: "pyval pydict option"
  run_compression :: "pyval pydict option"
  run_tool_compression :: "pyval pydict option"
  run_cache_summary :: "pyval pydict option"
  run_rerank_top1 :: "rat option"
  run_confidence :: "rat option"
  run_groundedness :: "rat option"
  run_label :: "conf_label option"
  run_http_request :: "string option"
  run_created_at :: py_time

record run_item =
  ri_id :: int
  ri_run_id :: int
  ri_chunk_id :: int
  ri_score :: rat
  ri_rerank_score :: "rat option"
  ri_rank :: int
  ri_rerank_order :: "int option"
  ri_selected :: bool
  ri_snapshot :: "pyval pydict option"
  ri_source :: "string option"
  ri_breakdown :: "pyval pydict option"
  ri_created_at :: py_time

record citation =
  cit_id :: int
  cit_run_id :: int
  cit_chunk_id :: int
  cit_snippet :: string
  cit_page_from :: "int option"
  cit_page_to :: "int option"
  cit_source_type :: string
  cit_source_url :: "string option"
  cit_label :: string
  cit_rank :: int
  cit_created_at :: py_time

record eval_ref =
  ev_id :: int
  ev_run_id :: "int option"

record graph_path =
  gp_id :: int
  gp_run_id :: int
  gp_path :: "pyval pydict"

text \<open>The rest of the database, with the users, the documents, the settings and the audit log,
  is the field \<open>ct_rest\<close>.\<close>

record chat_db =
  ct_rest :: db
  ct_sessions :: "chat_session list"
  ct_messages :: "chat_message list"
  ct_tags :: "chat_tag list"
  ct_memories :: "summary_memory list"
  ct_runs :: "retrieval_run list"
  ct_items :: "run_item list"
  ct_citations :: "citation list"
  ct_evals :: "eval_ref list"
  ct_paths :: "graph_path list"
  ct_next_session :: int
  ct_next_message :: int
  ct_next_tag :: int
  ct_next_run :: int
  ct_next_item :: int
  ct_next_citation :: int

subsection \<open>CHECK constraints\<close>

definition ck_chat_session :: "chat_session \<Rightarrow> bool" where
  "ck_chat_session s =
    (btrim (ch_title s) \<noteq> [] \<and>
     (ch_temporary s = (ch_expires_at s \<noteq> None)) \<and>
     ((ch_status s = ChatArchived) = (ch_archived_at s \<noteq> None)))"

definition ck_chat_message :: "chat_message \<Rightarrow> bool" where
  "ck_chat_message m =
    (btrim (msg_content m) \<noteq> [] \<and>
     (msg_client_id m = None \<or> msg_role m = RoleUser) \<and>
     msg_client_id m \<noteq> Some [] \<and>
     (msg_run_id m = None \<or> msg_role m = RoleAssistant))"

definition ck_chat_tag :: "chat_tag \<Rightarrow> bool" where
  "ck_chat_tag t = (btrim (tag_name t) \<noteq> [])"

definition ck_memory :: "summary_memory \<Rightarrow> bool" where
  "ck_memory m = (btrim (mem_summary m) \<noteq> [])"

definition unit_or_null :: "rat option \<Rightarrow> bool" where
  "unit_or_null x = (case x of None \<Rightarrow> True | Some v \<Rightarrow> 0 \<le> v \<and> v \<le> 1)"

definition ck_run :: "retrieval_run \<Rightarrow> bool" where
  "ck_run r =
    ((run_session_id r = None) = (run_request_id r = None) \<and>
     (run_status r \<noteq> RunRunning \<or> (run_finished_at r = None \<and> run_error r = None)) \<and>
     (run_status r = RunRunning \<or> run_finished_at r \<noteq> None) \<and>
     (run_status r \<noteq> RunFailed \<or> run_error r \<noteq> None) \<and>
     (run_status r \<noteq> RunSucceeded \<or> run_error r = None) \<and>
     (case run_finished_at r of None \<Rightarrow> True | Some f \<Rightarrow> run_started_at r \<le> f) \<and>
     (run_status r \<noteq> RunFailed \<or>
        (run_confidence r = None \<and> run_groundedness r = None \<and> run_label r = None)) \<and>
     unit_or_null (run_confidence r) \<and> unit_or_null (run_groundedness r) \<and>
     (case run_top_k r of None \<Rightarrow> True | Some k \<Rightarrow> 1 \<le> k \<and> k \<le> 20))"

definition retrieval_sources :: "string list" where
  "retrieval_sources = [''dense'', ''sparse'', ''hybrid'', ''graph'', ''rerank'', ''fallback_dense'',
     ''metadata_filter'']"

definition ck_item :: "run_item \<Rightarrow> bool" where
  "ck_item i =
    (1 \<le> ri_rank i \<and>
     (case ri_rerank_order i of None \<Rightarrow> True | Some n \<Rightarrow> 1 \<le> n) \<and>
     (case ri_source i of None \<Rightarrow> True | Some s \<Rightarrow> s \<in> set retrieval_sources))"

definition ck_citation :: "citation \<Rightarrow> bool" where
  "ck_citation c =
    (btrim (cit_snippet c) \<noteq> [] \<and> btrim (cit_label c) \<noteq> [] \<and> 1 \<le> cit_rank c \<and>
     (case (cit_page_from c, cit_page_to c) of (Some a, Some b) \<Rightarrow> a \<le> b | _ \<Rightarrow> True) \<and>
     (case cit_page_from c of None \<Rightarrow> True | Some a \<Rightarrow> 1 \<le> a) \<and>
     (case cit_page_to c of None \<Rightarrow> True | Some b \<Rightarrow> 1 \<le> b) \<and>
     cit_source_type c \<in> {''upload'', ''external_url''})"

subsection \<open>Keys and references\<close>

definition client_key :: "chat_message \<Rightarrow> int \<times> string option" where
  "client_key m = (msg_session_id m, msg_client_id m)"

definition session_ids :: "chat_db \<Rightarrow> int list" where
  "session_ids d = map ch_id (ct_sessions d)"

definition message_keys :: "chat_db \<Rightarrow> (int \<times> int) list" where
  "message_keys d = map (\<lambda>m. (msg_session_id m, msg_id m)) (ct_messages d)"

definition run_ids :: "chat_db \<Rightarrow> int list" where
  "run_ids d = map run_id (ct_runs d)"

definition run_keys :: "chat_db \<Rightarrow> (int option \<times> int) list" where
  "run_keys d = map (\<lambda>r. (run_session_id r, run_id r)) (ct_runs d)"

definition item_keys :: "chat_db \<Rightarrow> (int \<times> int) list" where
  "item_keys d = map (\<lambda>i. (ri_run_id i, ri_chunk_id i)) (ct_items d)"

definition chunk_ids :: "chat_db \<Rightarrow> int list" where
  "chunk_ids d = map chunk_id (db_chunks (ct_rest d))"

definition user_ids :: "chat_db \<Rightarrow> int list" where
  "user_ids d = map user_id (db_users (ct_rest d))"

text \<open>A reference that may be NULL.\<close>

definition null_or_in :: "'a option \<Rightarrow> 'a list \<Rightarrow> bool" where
  "null_or_in x ys = (case x of None \<Rightarrow> True | Some y \<Rightarrow> y \<in> set ys)"

lemma null_or_in_iff: "null_or_in x ys \<longleftrightarrow> (\<forall>y. x = Some y \<longrightarrow> y \<in> set ys)"
  by (simp add: null_or_in_def split: option.split)

text \<open>What a statement leaves true of each table.\<close>

definition sessions_table :: "chat_db \<Rightarrow> bool" where
  "sessions_table d =
    (distinct (session_ids d) \<and> list_all ck_chat_session (ct_sessions d) \<and>
     list_all (\<lambda>s. ch_user_id s \<in> set (user_ids d)) (ct_sessions d))"

definition messages_table :: "chat_db \<Rightarrow> bool" where
  "messages_table d =
    (distinct (map msg_id (ct_messages d)) \<and> list_all ck_chat_message (ct_messages d) \<and>
     distinct (map client_key (filter (\<lambda>m. msg_client_id m \<noteq> None) (ct_messages d))) \<and>
     list_all (\<lambda>m. msg_session_id m \<in> set (session_ids d)) (ct_messages d))"

definition tags_table :: "chat_db \<Rightarrow> bool" where
  "tags_table d =
    (distinct (map tag_id (ct_tags d)) \<and> list_all ck_chat_tag (ct_tags d) \<and>
     distinct (map (\<lambda>t. (tag_session_id t, tag_name t)) (ct_tags d)) \<and>
     list_all (\<lambda>t. tag_session_id t \<in> set (session_ids d)) (ct_tags d))"

definition memories_table :: "chat_db \<Rightarrow> bool" where
  "memories_table d =
    (distinct (map mem_id (ct_memories d)) \<and> list_all ck_memory (ct_memories d) \<and>
     list_all (\<lambda>m. mem_session_id m \<in> set (session_ids d)) (ct_memories d) \<and>
     list_all (\<lambda>m. (mem_session_id m, mem_upto_id m) \<in> set (message_keys d)) (ct_memories d))"

definition runs_table :: "chat_db \<Rightarrow> bool" where
  "runs_table d =
    (distinct (run_ids d) \<and> list_all ck_run (ct_runs d) \<and>
     list_all (\<lambda>r. null_or_in (run_session_id r) (session_ids d)) (ct_runs d))"

definition items_table :: "chat_db \<Rightarrow> bool" where
  "items_table d =
    (distinct (map ri_id (ct_items d)) \<and> list_all ck_item (ct_items d) \<and>
     distinct (item_keys d) \<and> distinct (map (\<lambda>i. (ri_run_id i, ri_rank i)) (ct_items d)) \<and>
     distinct (map (\<lambda>i. (ri_run_id i, ri_rerank_order i))
       (filter (\<lambda>i. ri_rerank_order i \<noteq> None) (ct_items d))) \<and>
     list_all (\<lambda>i. ri_run_id i \<in> set (run_ids d) \<and> ri_chunk_id i \<in> set (chunk_ids d)) (ct_items d))"

definition citations_table :: "chat_db \<Rightarrow> bool" where
  "citations_table d =
    (distinct (map cit_id (ct_citations d)) \<and> list_all ck_citation (ct_citations d) \<and>
     distinct (map (\<lambda>c. (cit_run_id c, cit_rank c)) (ct_citations d)) \<and>
     list_all (\<lambda>c. (cit_run_id c, cit_chunk_id c) \<in> set (item_keys d)) (ct_citations d))"

definition evals_table :: "chat_db \<Rightarrow> bool" where
  "evals_table d =
    list_all (\<lambda>v. null_or_in (ev_run_id v) (run_ids d)) (ct_evals d)"

definition paths_table :: "chat_db \<Rightarrow> bool" where
  "paths_table d = list_all (\<lambda>p. gp_run_id p \<in> set (run_ids d)) (ct_paths d)"

definition chat_now_ok :: "chat_db \<Rightarrow> bool" where
  "chat_now_ok d =
    (sessions_table d \<and> messages_table d \<and> tags_table d \<and> memories_table d \<and> runs_table d \<and>
     items_table d \<and> citations_table d \<and> evals_table d \<and> paths_table d)"

text \<open>The deferred references: the run an answer is linked to, and the question of a run, lie in
  the same conversation.\<close>

definition link_refers :: "chat_db \<Rightarrow> chat_message \<Rightarrow> bool" where
  "link_refers d m = (case msg_run_id m of None \<Rightarrow> True
     | Some r \<Rightarrow> (Some (msg_session_id m), r) \<in> set (run_keys d))"

definition request_refers :: "chat_db \<Rightarrow> retrieval_run \<Rightarrow> bool" where
  "request_refers d r = (case (run_session_id r, run_request_id r) of
     (Some s, Some m) \<Rightarrow> (s, m) \<in> set (message_keys d) | _ \<Rightarrow> True)"

definition chat_deferred_ok :: "chat_db \<Rightarrow> bool" where
  "chat_deferred_ok d = (list_all (link_refers d) (ct_messages d) \<and> list_all (request_refers d) (ct_runs d))"

subsection \<open>Statements, rollback and commit\<close>

datatype chat_error =
    ChatIntegrity
  | ChatNotFound
  | ChatDenied
  | ChatReadonly
  | ChatExpired
  | ChatNotArchivable
  | ChatInvalid string
  | ClientMessageConflict
  | RequestInProgress
  | ChatConflict
  | StaleRow
  | MissingRun
  | MissingConfidence
  | RagPipeline string nat
  | InternalFailure

definition chat_statement :: "chat_db \<Rightarrow> chat_error + chat_db" where
  "chat_statement d = (if chat_now_ok d then Inr d else Inl ChatIntegrity)"

definition chat_commit :: "chat_db \<Rightarrow> chat_error + chat_db" where
  "chat_commit d = (if chat_deferred_ok d then Inr d else Inl ChatIntegrity)"

text \<open>One computation after another: the first error ends them.\<close>

definition and_then :: "'e + 'a \<Rightarrow> ('a \<Rightarrow> 'e + 'b) \<Rightarrow> 'e + 'b" where
  "and_then x f = (case x of Inl e \<Rightarrow> Inl e | Inr a \<Rightarrow> f a)"

lemma and_then_simps [simp]:
  "and_then (Inl e) f = Inl e"
  "and_then (Inr a) f = f a"
  by (simp_all add: and_then_def)

lemma and_then_Inr: "and_then x f = Inr b \<longleftrightarrow> (\<exists>a. x = Inr a \<and> f a = Inr b)"
  by (cases x) simp_all

text \<open>What every successful outcome of a computation satisfies, with the rule for sequences.\<close>

definition ensures :: "'e + 'a \<Rightarrow> ('a \<Rightarrow> bool) \<Rightarrow> bool" where
  "ensures x P = (case x of Inl e \<Rightarrow> True | Inr a \<Rightarrow> P a)"

lemma ensures_simps [simp]:
  "ensures (Inl e) P"
  "ensures (Inr a) P = P a"
  by (simp_all add: ensures_def)

lemma ensures_iff: "ensures x P \<longleftrightarrow> (\<forall>a. x = Inr a \<longrightarrow> P a)"
  by (cases x) simp_all

lemma ensures_and_then: "ensures (and_then x f) P = ensures x (\<lambda>a. ensures (f a) P)"
  by (cases x) simp_all

lemma ensures_mono: "ensures x P \<Longrightarrow> (\<And>a. x = Inr a \<Longrightarrow> P a \<Longrightarrow> Q a) \<Longrightarrow> ensures x Q"
  by (cases x) simp_all

lemma ensures_statement [simp]: "ensures (chat_statement d) P = (chat_now_ok d \<longrightarrow> P d)"
  by (simp add: chat_statement_def)

lemma ensures_commit [simp]: "ensures (chat_commit d) P = (chat_deferred_ok d \<longrightarrow> P d)"
  by (simp add: chat_commit_def)

lemma chat_statement_Inr: "chat_statement d = Inr d' \<longleftrightarrow> chat_now_ok d \<and> d' = d"
  by (auto simp: chat_statement_def)

lemma chat_commit_Inr: "chat_commit d = Inr d' \<longleftrightarrow> chat_deferred_ok d \<and> d' = d"
  by (auto simp: chat_commit_def)

text \<open>The identifiers that were ever handed out lie below the sequences.\<close>

definition chat_sequences :: "chat_db \<Rightarrow> bool" where
  "chat_sequences d =
    (list_all (\<lambda>s. ch_id s < ct_next_session d) (ct_sessions d) \<and>
     list_all (\<lambda>m. msg_id m < ct_next_message d) (ct_messages d) \<and>
     list_all (\<lambda>t. tag_id t < ct_next_tag d) (ct_tags d) \<and>
     list_all (\<lambda>r. run_id r < ct_next_run d) (ct_runs d) \<and>
     list_all (\<lambda>i. ri_id i < ct_next_item d) (ct_items d) \<and>
     list_all (\<lambda>c. cit_id c < ct_next_citation d) (ct_citations d))"

definition chat_wf :: "chat_db \<Rightarrow> bool" where
  "chat_wf d = (chat_now_ok d \<and> chat_deferred_ok d \<and> chat_sequences d)"

lemmas chat_key_defs = session_ids_def message_keys_def run_ids_def run_keys_def item_keys_def
  chunk_ids_def user_ids_def

lemmas chat_table_defs = sessions_table_def messages_table_def tags_table_def memories_table_def
  runs_table_def items_table_def citations_table_def evals_table_def paths_table_def

end
