(* ===== verification/Chat_Store.thy ===== *)
theory Chat_Store
  imports Chat_Tables Document_Store Fusion "HOL-Library.List_Lexorder" "HOL-Library.Char_ord"
begin

section \<open>The chat repository\<close>

text \<open>
  \<open>backend/app/repositories/chat_repository.py\<close>: every function here is a sequence of
  statements, each checked against the constraints. \<open>now\<close> is the database's clock where a
  column has a server default. A \<open>FOR UPDATE\<close> has no effect in the model, whose transactions
  run one after another.
\<close>

definition update_rows :: "('r \<Rightarrow> bool) \<Rightarrow> ('r \<Rightarrow> 'r) \<Rightarrow> 'r list \<Rightarrow> 'r list" where
  "update_rows p f rows = map (\<lambda>r. if p r then f r else r) rows"

subsection \<open>Sessions\<close>

definition create_session :: "int \<Rightarrow> string \<Rightarrow> bool \<Rightarrow> py_time option \<Rightarrow> py_time \<Rightarrow> chat_db \<Rightarrow>
    chat_error + chat_session \<times> chat_db" where
  "create_session user title temporary expires now d =
     (let s = \<lparr>ch_id = ct_next_session d, ch_user_id = user, ch_title = title, ch_status = ChatActive,
        ch_temporary = temporary, ch_expires_at = expires, ch_archived_at = None,
        ch_created_at = now, ch_updated_at = now\<rparr> in
      and_then (chat_statement (d\<lparr>ct_sessions := ct_sessions d @ [s],
                                  ct_next_session := ct_next_session d + 1\<rparr>))
        (\<lambda>d'. Inr (s, d')))"

definition get_session_for_user :: "int \<Rightarrow> int \<Rightarrow> chat_db \<Rightarrow> chat_session option" where
  "get_session_for_user user i d = find (\<lambda>s. ch_id s = i \<and> ch_user_id s = user) (ct_sessions d)"

definition session_listed :: "int \<Rightarrow> chat_status \<Rightarrow> string option \<Rightarrow> chat_session \<Rightarrow> bool" where
  "session_listed user st query s =
     (ch_user_id s = user \<and> \<not> ch_temporary s \<and> ch_status s = st \<and>
      (case query of None \<Rightarrow> True | Some q \<Rightarrow> q = [] \<or> ilike_contains q (ch_title s)))"

definition list_sessions_for_user :: "int \<Rightarrow> chat_status \<Rightarrow> string option \<Rightarrow> nat \<Rightarrow> nat \<Rightarrow> chat_db \<Rightarrow>
    chat_session list \<times> nat" where
  "list_sessions_for_user user st query offset limit d =
     (let rows = filter (session_listed user st query) (ct_sessions d) in
      (take limit (drop offset (sort_key (\<lambda>s. (- ch_updated_at s, - ch_id s)) rows)), length rows))"

text \<open>The update of one session; the session layer reports a row that is gone.\<close>

definition update_session :: "int \<Rightarrow> (chat_session \<Rightarrow> chat_session) \<Rightarrow> chat_db \<Rightarrow> chat_error + chat_db" where
  "update_session i f d =
     (if i \<in> set (session_ids d)
      then chat_statement (d\<lparr>ct_sessions := update_rows (\<lambda>s. ch_id s = i) f (ct_sessions d)\<rparr>)
      else Inl StaleRow)"

definition update_session_title :: "int \<Rightarrow> string \<Rightarrow> py_time \<Rightarrow> chat_db \<Rightarrow> chat_error + chat_db" where
  "update_session_title i title now =
     update_session i (\<lambda>s. s\<lparr>ch_title := title, ch_updated_at := now\<rparr>)"

definition archive_session_row :: "int \<Rightarrow> py_time \<Rightarrow> chat_db \<Rightarrow> chat_error + chat_db" where
  "archive_session_row i now =
     update_session i (\<lambda>s. s\<lparr>ch_status := ChatArchived, ch_archived_at := Some now, ch_updated_at := now\<rparr>)"

definition touch_session :: "int \<Rightarrow> py_time \<Rightarrow> chat_db \<Rightarrow> chat_error + chat_db" where
  "touch_session i now = update_session i (\<lambda>s. s\<lparr>ch_updated_at := now\<rparr>)"

definition get_temporary_chat_ttl_minutes :: "chat_db \<Rightarrow> int option" where
  "get_temporary_chat_ttl_minutes d =
     (case map_of (db_settings (ct_rest d)) ''chat.temporary_ttl_minutes'' of
        Some (PInt n) \<Rightarrow> Some n
      | Some (PBool b) \<Rightarrow> Some (of_bool b)
      | _ \<Rightarrow> None)"

subsection \<open>Messages\<close>

definition list_messages :: "int \<Rightarrow> nat \<Rightarrow> nat \<Rightarrow> chat_db \<Rightarrow> chat_message list \<times> nat" where
  "list_messages i offset limit d =
     (let rows = filter (\<lambda>m. msg_session_id m = i) (ct_messages d) in
      (take limit (drop offset (sort_key (\<lambda>m. (msg_created_at m, msg_id m)) rows)), length rows))"

definition get_user_message_by_client_message_id :: "int \<Rightarrow> string \<Rightarrow> chat_db \<Rightarrow> chat_message option" where
  "get_user_message_by_client_message_id i client d =
     find (\<lambda>m. msg_session_id m = i \<and> msg_role m = RoleUser \<and> msg_client_id m = Some client)
       (ct_messages d)"

definition get_assistant_message_for_retrieval_run :: "int \<Rightarrow> int \<Rightarrow> chat_db \<Rightarrow> chat_message option" where
  "get_assistant_message_for_retrieval_run i run d =
     (case sort_key msg_id (filter (\<lambda>m. msg_session_id m = i \<and> msg_role m = RoleAssistant \<and>
         msg_run_id m = Some run) (ct_messages d)) of
        [] \<Rightarrow> None | m # _ \<Rightarrow> Some m)"

definition create_message :: "int \<Rightarrow> chat_role \<Rightarrow> string \<Rightarrow> string option \<Rightarrow> int option \<Rightarrow> py_time \<Rightarrow>
    chat_db \<Rightarrow> chat_error + chat_message \<times> chat_db" where
  "create_message i role content client run now d =
     (let m = \<lparr>msg_id = ct_next_message d, msg_session_id = i, msg_role = role, msg_content = content,
        msg_client_id = client, msg_run_id = run, msg_edited = False, msg_created_at = now,
        msg_updated_at = now\<rparr> in
      and_then (chat_statement (d\<lparr>ct_messages := ct_messages d @ [m],
                                  ct_next_message := ct_next_message d + 1\<rparr>))
        (\<lambda>d'. Inr (m, d')))"

subsection \<open>Tags\<close>

definition list_tags :: "int \<Rightarrow> chat_db \<Rightarrow> chat_tag list" where
  "list_tags i d = sort_key tag_name (filter (\<lambda>t. tag_session_id t = i) (ct_tags d))"

definition get_tag :: "int \<Rightarrow> string \<Rightarrow> chat_db \<Rightarrow> chat_tag option" where
  "get_tag i name d = find (\<lambda>t. tag_session_id t = i \<and> tag_name t = name) (ct_tags d)"

definition create_tag :: "int \<Rightarrow> string \<Rightarrow> py_time \<Rightarrow> chat_db \<Rightarrow> chat_error + chat_tag \<times> chat_db" where
  "create_tag i name now d =
     (let t = \<lparr>tag_id = ct_next_tag d, tag_session_id = i, tag_name = name, tag_created_at = now\<rparr> in
      and_then (chat_statement (d\<lparr>ct_tags := ct_tags d @ [t], ct_next_tag := ct_next_tag d + 1\<rparr>))
        (\<lambda>d'. Inr (t, d')))"

definition delete_tag_row :: "int \<Rightarrow> string \<Rightarrow> chat_db \<Rightarrow> chat_error + int option \<times> chat_db" where
  "delete_tag_row i name d = (case get_tag i name d of
     None \<Rightarrow> Inr (None, d)
   | Some t \<Rightarrow> and_then (chat_statement (d\<lparr>ct_tags := filter (\<lambda>x. tag_id x \<noteq> tag_id t) (ct_tags d)\<rparr>))
       (\<lambda>d'. Inr (Some (tag_id t), d')))"

subsection \<open>Deleting a session\<close>

text \<open>
  A message that a run still asks for, or a run that a message is still linked to, cannot be
  deleted, although these references are only checked at the commit.
\<close>

definition delete_messages :: "int \<Rightarrow> chat_db \<Rightarrow> chat_error + chat_db" where
  "delete_messages i d =
     (if list_ex (\<lambda>r. run_session_id r = Some i \<and> run_request_id r \<noteq> None \<and>
          (i, the (run_request_id r)) \<in> set (message_keys d)) (ct_runs d)
      then Inl ChatIntegrity
      else chat_statement (d\<lparr>ct_messages := filter (\<lambda>m. msg_session_id m \<noteq> i) (ct_messages d)\<rparr>))"

definition delete_runs :: "int list \<Rightarrow> chat_db \<Rightarrow> chat_error + chat_db" where
  "delete_runs runs d =
     (if list_ex (\<lambda>m. msg_run_id m \<noteq> None \<and> the (msg_run_id m) \<in> set runs \<and>
          (Some (msg_session_id m), the (msg_run_id m)) \<in> set (run_keys d)) (ct_messages d)
      then Inl ChatIntegrity
      else chat_statement (d\<lparr>ct_runs := filter (\<lambda>r. run_id r \<notin> set runs) (ct_runs d),
                             ct_paths := filter (\<lambda>p. gp_run_id p \<notin> set runs) (ct_paths d)\<rparr>))"

definition detach_runs :: "int \<Rightarrow> int list \<Rightarrow> chat_db \<Rightarrow> chat_error + chat_db" where
  "detach_runs i runs d =
     and_then (chat_statement (d\<lparr>ct_citations := filter (\<lambda>c. cit_run_id c \<notin> set runs) (ct_citations d)\<rparr>)) (\<lambda>d.
     and_then (chat_statement (d\<lparr>ct_evals := update_rows
         (\<lambda>v. ev_run_id v \<noteq> None \<and> the (ev_run_id v) \<in> set runs) (\<lambda>v. v\<lparr>ev_run_id := None\<rparr>) (ct_evals d)\<rparr>)) (\<lambda>d.
     and_then (chat_statement (d\<lparr>ct_items := filter (\<lambda>x. ri_run_id x \<notin> set runs) (ct_items d)\<rparr>)) (\<lambda>d.
     and_then (chat_statement (d\<lparr>ct_messages := update_rows
         (\<lambda>m. msg_session_id m = i) (\<lambda>m. m\<lparr>msg_run_id := None\<rparr>) (ct_messages d)\<rparr>)) (\<lambda>d.
     chat_statement (d\<lparr>ct_runs := update_rows (\<lambda>r. run_id r \<in> set runs)
         (\<lambda>r. r\<lparr>run_session_id := None, run_request_id := None\<rparr>) (ct_runs d)\<rparr>)))))"

definition session_runs :: "int \<Rightarrow> chat_db \<Rightarrow> int list" where
  "session_runs i d = map run_id (filter (\<lambda>r. run_session_id r = Some i) (ct_runs d))"

definition delete_session_rows :: "int \<Rightarrow> chat_db \<Rightarrow> chat_error + chat_db" where
  "delete_session_rows i d =
     (let runs = session_runs i d in
      and_then (if runs \<noteq> [] then detach_runs i runs d else Inr d) (\<lambda>d.
      and_then (chat_statement (d\<lparr>ct_memories := filter (\<lambda>m. mem_session_id m \<noteq> i) (ct_memories d)\<rparr>)) (\<lambda>d.
      and_then (chat_statement (d\<lparr>ct_tags := filter (\<lambda>t. tag_session_id t \<noteq> i) (ct_tags d)\<rparr>)) (\<lambda>d.
      and_then (delete_messages i d) (\<lambda>d.
      and_then (if runs \<noteq> [] then delete_runs runs d else Inr d) (\<lambda>d.
      chat_statement (d\<lparr>ct_sessions := filter (\<lambda>s. ch_id s \<noteq> i) (ct_sessions d)\<rparr>)))))))"

end
