(* ===== verification/Retrieval_Store.thy ===== *)
theory Retrieval_Store
  imports Chat_Store Retrieval_Cache
begin

section \<open>The retrieval repository\<close>

text \<open>
  \<open>backend/app/repositories/retrieval_repository.py\<close>: the runs, their items and their
  citations, and the check of the candidates of a search against the database. A candidate's
  score is finite, since every search drops the scores that are not; the value \<open>0\<close> of
  \<open>finite_part\<close> for other floats is never used.
\<close>

subsection \<open>Runs\<close>

record new_run =
  nr_top_k :: int
  nr_query_hash :: string
  nr_http_request :: "string option"
  nr_started_at :: py_time
  nr_strategy :: retrieval_strategy
  nr_query_plan :: "pyval pydict option"
  nr_decision :: "pyval pydict option"
  nr_latency :: "pyval pydict option"
  nr_settings :: "pyval pydict option"

definition create_run :: "(int \<times> int) option \<Rightarrow> new_run \<Rightarrow> py_time \<Rightarrow> chat_db \<Rightarrow>
    chat_error + retrieval_run \<times> chat_db" where
  "create_run origin n now d =
     (let r = \<lparr>run_id = ct_next_run d, run_session_id = map_option fst origin,
        run_request_id = map_option snd origin, run_status = RunRunning, run_error = None,
        run_started_at = nr_started_at n, run_finished_at = None, run_top_k = Some (nr_top_k n),
        run_strategy = nr_strategy n, run_query_hash = Some (nr_query_hash n),
        run_score_summary = None, run_query_plan = nr_query_plan n, run_decision = nr_decision n,
        run_latency = nr_latency n, run_settings = nr_settings n, run_context_budget = None,
        run_compression = None, run_tool_compression = None, run_cache_summary = None,
        run_rerank_top1 = None, run_confidence = None, run_groundedness = None, run_label = None,
        run_http_request = nr_http_request n, run_created_at = now\<rparr> in
      and_then (chat_statement (d\<lparr>ct_runs := ct_runs d @ [r], ct_next_run := ct_next_run d + 1\<rparr>))
        (\<lambda>d'. Inr (r, d')))"

definition create_standalone_run :: "new_run \<Rightarrow> py_time \<Rightarrow> chat_db \<Rightarrow>
    chat_error + retrieval_run \<times> chat_db" where
  "create_standalone_run = create_run None"

definition create_chat_run :: "int \<Rightarrow> int \<Rightarrow> new_run \<Rightarrow> py_time \<Rightarrow> chat_db \<Rightarrow>
    chat_error + retrieval_run \<times> chat_db" where
  "create_chat_run i message = create_run (Some (i, message))"

definition get_run :: "int \<Rightarrow> chat_db \<Rightarrow> retrieval_run option" where
  "get_run i d = find (\<lambda>r. run_id r = i) (ct_runs d)"

definition get_runs_by_ids :: "int list \<Rightarrow> chat_db \<Rightarrow> (int \<times> retrieval_run) list" where
  "get_runs_by_ids is d =
     map (\<lambda>r. (run_id r, r)) (filter (\<lambda>r. run_id r \<in> set is) (ct_runs d))"

definition list_recent_runs :: "nat \<Rightarrow> chat_db \<Rightarrow> retrieval_run list" where
  "list_recent_runs limit d = take limit (sort_key (\<lambda>r. (- run_created_at r, - run_id r)) (ct_runs d))"

definition list_items_for_run :: "int \<Rightarrow> chat_db \<Rightarrow> run_item list" where
  "list_items_for_run i d =
     sort_key (\<lambda>x. (ri_rank x, ri_id x)) (filter (\<lambda>x. ri_run_id x = i) (ct_items d))"

definition get_latest_run_for_request_message :: "int \<Rightarrow> int \<Rightarrow> chat_db \<Rightarrow> retrieval_run option" where
  "get_latest_run_for_request_message i message d =
     (case sort_key (\<lambda>r. (- run_created_at r, - run_id r)) (filter (\<lambda>r. run_session_id r = Some i \<and>
         run_request_id r = Some message) (ct_runs d)) of
        [] \<Rightarrow> None | r # _ \<Rightarrow> Some r)"

definition update_run :: "int \<Rightarrow> (retrieval_run \<Rightarrow> retrieval_run) \<Rightarrow> chat_db \<Rightarrow> chat_error + chat_db" where
  "update_run i f d =
     (if i \<in> set (run_ids d)
      then chat_statement (d\<lparr>ct_runs := update_rows (\<lambda>r. run_id r = i) f (ct_runs d)\<rparr>)
      else Inl StaleRow)"

definition terminal_time :: "retrieval_run \<Rightarrow> py_time \<Rightarrow> py_time" where
  "terminal_time r finished = (if finished < run_started_at r then run_started_at r else finished)"

definition keep_unless :: "'a option \<Rightarrow> 'a option \<Rightarrow> 'a option" where
  "keep_unless new old = (case new of None \<Rightarrow> old | Some x \<Rightarrow> Some x)"

record run_outcome =
  ro_summary :: "pyval pydict"
  ro_rerank_top1 :: "rat option"
  ro_confidence :: "rat option"
  ro_groundedness :: "rat option"
  ro_label :: "conf_label option"
  ro_latency :: "pyval pydict option"

definition succeeded_row :: "run_outcome \<Rightarrow> py_time \<Rightarrow> retrieval_run \<Rightarrow> retrieval_run" where
  "succeeded_row x finished r =
     r\<lparr>run_status := RunSucceeded, run_error := None, run_score_summary := Some (ro_summary x),
       run_rerank_top1 := ro_rerank_top1 x, run_confidence := ro_confidence x,
       run_groundedness := ro_groundedness x, run_label := ro_label x,
       run_latency := keep_unless (ro_latency x) (run_latency r),
       run_finished_at := Some (terminal_time r finished)\<rparr>"

definition mark_run_succeeded :: "int \<Rightarrow> run_outcome \<Rightarrow> py_time \<Rightarrow> chat_db \<Rightarrow> chat_error + chat_db" where
  "mark_run_succeeded i x finished = update_run i (succeeded_row x finished)"

definition failed_row :: "string \<Rightarrow> pyval pydict option \<Rightarrow> py_time \<Rightarrow> retrieval_run \<Rightarrow> retrieval_run" where
  "failed_row code latency finished r =
     r\<lparr>run_status := RunFailed, run_error := Some code,
       run_finished_at := Some (terminal_time r finished),
       run_latency := keep_unless latency (run_latency r),
       run_confidence := None, run_groundedness := None, run_label := None\<rparr>"

definition mark_run_failed :: "int \<Rightarrow> string \<Rightarrow> pyval pydict option \<Rightarrow> py_time \<Rightarrow> chat_db \<Rightarrow>
    chat_error + chat_db" where
  "mark_run_failed i code latency finished = update_run i (failed_row code latency finished)"

record run_trace =
  rt_query_plan :: "pyval pydict option"
  rt_decision :: "pyval pydict option"
  rt_latency :: "pyval pydict option"
  rt_settings :: "pyval pydict option"
  rt_context_budget :: "pyval pydict option"
  rt_compression :: "pyval pydict option"
  rt_tool_compression :: "pyval pydict option"
  rt_cache_summary :: "pyval pydict option"

definition no_trace :: run_trace where
  "no_trace = \<lparr>rt_query_plan = None, rt_decision = None, rt_latency = None, rt_settings = None,
     rt_context_budget = None, rt_compression = None, rt_tool_compression = None,
     rt_cache_summary = None\<rparr>"

definition traced_row :: "run_trace \<Rightarrow> retrieval_run \<Rightarrow> retrieval_run" where
  "traced_row t r =
     r\<lparr>run_query_plan := keep_unless (rt_query_plan t) (run_query_plan r),
       run_decision := keep_unless (rt_decision t) (run_decision r),
       run_latency := keep_unless (rt_latency t) (run_latency r),
       run_settings := keep_unless (rt_settings t) (run_settings r),
       run_context_budget := keep_unless (rt_context_budget t) (run_context_budget r),
       run_compression := keep_unless (rt_compression t) (run_compression r),
       run_tool_compression := keep_unless (rt_tool_compression t) (run_tool_compression r),
       run_cache_summary := keep_unless (rt_cache_summary t) (run_cache_summary r)\<rparr>"

definition update_retrieval_run_trace :: "int \<Rightarrow> run_trace \<Rightarrow> chat_db \<Rightarrow> chat_error + chat_db" where
  "update_retrieval_run_trace i t = update_run i (traced_row t)"

subsection \<open>Items\<close>

definition selected_row :: "int list \<Rightarrow> run_item \<Rightarrow> run_item" where
  "selected_row selected x =
     (let flag = ri_id x \<in> set selected in
      x\<lparr>ri_selected := flag,
        ri_breakdown := map_option (AList.update ''selected_flag'' (PBool flag)) (ri_breakdown x)\<rparr>)"

definition update_context_selection :: "int \<Rightarrow> int list \<Rightarrow> chat_db \<Rightarrow> chat_error + chat_db" where
  "update_context_selection i selected d =
     chat_statement (d\<lparr>ct_items := update_rows (\<lambda>x. ri_run_id x = i) (selected_row selected) (ct_items d)\<rparr>)"

record item_input =
  ii_chunk_id :: int
  ii_score :: rat
  ii_rerank_score :: "rat option"
  ii_rank :: int
  ii_rerank_order :: "int option"
  ii_selected :: bool
  ii_snapshot :: "pyval pydict"
  ii_source :: "string option"
  ii_breakdown :: "pyval pydict option"

definition item_row :: "int \<Rightarrow> int \<Rightarrow> py_time \<Rightarrow> item_input \<Rightarrow> run_item" where
  "item_row run i now x = \<lparr>ri_id = i, ri_run_id = run, ri_chunk_id = ii_chunk_id x, ri_score = ii_score x,
     ri_rerank_score = ii_rerank_score x, ri_rank = ii_rank x, ri_rerank_order = ii_rerank_order x,
     ri_selected = ii_selected x, ri_snapshot = Some (ii_snapshot x),
     ri_source = Some (case ii_source x of None \<Rightarrow> ''dense'' | Some s \<Rightarrow> if s = [] then ''dense'' else s),
     ri_breakdown = ii_breakdown x, ri_created_at = now\<rparr>"

fun item_rows :: "int \<Rightarrow> int \<Rightarrow> py_time \<Rightarrow> item_input list \<Rightarrow> run_item list" where
  "item_rows run i now [] = []"
| "item_rows run i now (x # xs) = item_row run i now x # item_rows run (i + 1) now xs"

definition save_items :: "int \<Rightarrow> item_input list \<Rightarrow> py_time \<Rightarrow> chat_db \<Rightarrow>
    chat_error + run_item list \<times> chat_db" where
  "save_items run xs now d =
     (let rows = item_rows run (ct_next_item d) now xs in
      and_then (chat_statement (d\<lparr>ct_items := ct_items d @ rows,
                                  ct_next_item := ct_next_item d + int (length xs)\<rparr>))
        (\<lambda>d'. Inr (rows, d')))"

subsection \<open>Citations\<close>

record citation_input =
  cn_chunk_id :: int
  cn_snippet :: string
  cn_page_from :: "int option"
  cn_page_to :: "int option"
  cn_label :: string
  cn_rank :: int
  cn_source_type :: string
  cn_source_url :: "string option"

definition citation_row :: "int \<Rightarrow> int \<Rightarrow> py_time \<Rightarrow> citation_input \<Rightarrow> citation" where
  "citation_row run i now x = \<lparr>cit_id = i, cit_run_id = run, cit_chunk_id = cn_chunk_id x,
     cit_snippet = cn_snippet x, cit_page_from = cn_page_from x, cit_page_to = cn_page_to x,
     cit_source_type = cn_source_type x, cit_source_url = cn_source_url x, cit_label = cn_label x,
     cit_rank = cn_rank x, cit_created_at = now\<rparr>"

fun citation_rows :: "int \<Rightarrow> int \<Rightarrow> py_time \<Rightarrow> citation_input list \<Rightarrow> citation list" where
  "citation_rows run i now [] = []"
| "citation_rows run i now (x # xs) = citation_row run i now x # citation_rows run (i + 1) now xs"

definition save_citations :: "int \<Rightarrow> citation_input list \<Rightarrow> py_time \<Rightarrow> chat_db \<Rightarrow>
    chat_error + citation list \<times> chat_db" where
  "save_citations run xs now d =
     (let rows = citation_rows run (ct_next_citation d) now xs in
      and_then (chat_statement (d\<lparr>ct_citations := ct_citations d @ rows,
                                  ct_next_citation := ct_next_citation d + int (length xs)\<rparr>))
        (\<lambda>d'. Inr (rows, d')))"

text \<open>The join of a chunk with its version and its document.\<close>

definition chunk_context :: "int \<Rightarrow> db \<Rightarrow> (document_chunk \<times> document_version \<times> logical_document) option" where
  "chunk_context i d =
     (case find (\<lambda>c. chunk_id c = i) (db_chunks d) of None \<Rightarrow> None
      | Some c \<Rightarrow> (case find (\<lambda>v. ver_id v = chunk_version_id c) (db_versions d) of None \<Rightarrow> None
      | Some v \<Rightarrow> (case find (\<lambda>x. doc_id x = ver_document_id v) (db_documents d) of None \<Rightarrow> None
      | Some x \<Rightarrow> Some (c, v, x))))"

record citation_record =
  cr_citation :: citation
  cr_chunk :: document_chunk
  cr_version :: document_version
  cr_document :: logical_document

definition citation_join :: "chat_db \<Rightarrow> citation \<Rightarrow> citation_record option" where
  "citation_join d c =
     (if list_ex (\<lambda>x. ri_run_id x = cit_run_id c \<and> ri_chunk_id x = cit_chunk_id c \<and> ri_selected x) (ct_items d)
      then map_option (\<lambda>(ch, v, x). \<lparr>cr_citation = c, cr_chunk = ch, cr_version = v, cr_document = x\<rparr>)
             (chunk_context (cit_chunk_id c) (ct_rest d))
      else None)"

definition list_citations_for_run :: "int \<Rightarrow> chat_db \<Rightarrow> citation_record list" where
  "list_citations_for_run run d = List.map_filter (citation_join d)
     (sort_key (\<lambda>c. (cit_rank c, cit_id c)) (filter (\<lambda>c. cit_run_id c = run) (ct_citations d)))"

definition list_citations_for_runs :: "int list \<Rightarrow> chat_db \<Rightarrow> (int \<times> citation_record list) list" where
  "list_citations_for_runs runs d =
     map (\<lambda>i. (i, list_citations_for_run i d)) (sort (remdups runs))"

subsection \<open>The final check of the candidates\<close>

record checked_hit =
  kh_chunk :: document_chunk
  kh_version :: document_version
  kh_document :: logical_document
  kh_score :: rat
  kh_rank :: int
  kh_payload :: "pyval pydict"

fun finite_part :: "pyfloat \<Rightarrow> rat" where
  "finite_part (Fin r) = r"
| "finite_part _ = 0"

fun first_by_chunk :: "int list \<Rightarrow> candidate list \<Rightarrow> (int \<times> candidate) list" where
  "first_by_chunk seen [] = []"
| "first_by_chunk seen (c # cs) = (case cand_id c of
     None \<Rightarrow> first_by_chunk seen cs
   | Some i \<Rightarrow> if i \<in> set seen then first_by_chunk seen cs
       else (i, c) # first_by_chunk (i # seen) cs)"

text \<open>A chunk that may be shown: of an active, ready version of an active document, of the
  documents asked for, and of the modality asked for, where every chunk is a text.\<close>

definition searchable_chunk :: "retrieval_filters \<Rightarrow> db \<Rightarrow> int \<Rightarrow>
    (document_chunk \<times> document_version \<times> logical_document) option" where
  "searchable_chunk flt d i = (case chunk_context i d of None \<Rightarrow> None
     | Some (c, v, x) \<Rightarrow>
         if rf_modality flt = ''text'' \<and> ver_status v = VReady \<and> ver_is_active v \<and> doc_status x = DocActive \<and>
            (rf_document_ids flt = [] \<or> doc_id x \<in> set (rf_document_ids flt))
         then Some (c, v, x) else None)"

fun number_hits :: "int \<Rightarrow> ((document_chunk \<times> document_version \<times> logical_document) \<times> candidate) list \<Rightarrow>
    checked_hit list" where
  "number_hits n [] = []"
| "number_hits n (((c, v, x), k) # rest) =
     \<lparr>kh_chunk = c, kh_version = v, kh_document = x, kh_score = finite_part (cand_score k), kh_rank = n,
      kh_payload = cand_payload k\<rparr> # number_hits (n + 1) rest"

definition final_check_candidates :: "candidate list \<Rightarrow> retrieval_filters \<Rightarrow> chat_db \<Rightarrow> checked_hit list" where
  "final_check_candidates cands flt d =
     number_hits 1 (List.map_filter
       (\<lambda>(i, k). map_option (\<lambda>row. (row, k)) (searchable_chunk flt (ct_rest d) i))
       (first_by_chunk [] cands))"

end
