(* ===== verification/Answer_Sources.thy ===== *)
theory Answer_Sources
  imports Retrieval_Store Document_Metadata Citations
begin

section \<open>Sources shown with an answer\<close>

text \<open>
  The helpers of \<open>backend/app/services/rag_service.py\<close> that turn a checked candidate into what
  is stored and shown of it: the labels and snippets, the redacted metadata of the chunk, the
  snapshot and the score breakdown of a run item (with the builders of \<open>rag/trace.py\<close>), the
  citation source and the item of a search response. A score of a candidate is a rational.
\<close>

subsection \<open>Texts\<close>

text \<open>\<open>str.isprintable\<close> on the characters of Latin-1.\<close>

definition py_isprintable :: "char \<Rightarrow> bool" where
  "py_isprintable c = (let n = code_point c in
     (32 \<le> n \<and> n \<le> 126) \<or> (161 \<le> n \<and> n \<noteq> 173))"

definition sanitize_label :: "string \<Rightarrow> string" where
  "sanitize_label s = py_join '' '' (py_split (map (\<lambda>c. if py_isprintable c then c else CHR '' '') s))"

definition safe_display_text :: "string option \<Rightarrow> string option" where
  "safe_display_text v = (case v of None \<Rightarrow> None
     | Some s \<Rightarrow> (let t = sanitize_label s in if t = [] then None else Some (take 255 t)))"

definition answer_snippet :: "string \<Rightarrow> nat \<Rightarrow> string" where
  "answer_snippet text max_chars =
     (let cleaned = clean_text text in
      if length cleaned \<le> max_chars then cleaned else take (max_chars - 3) cleaned @ ''...'')"

definition sensitive_output_re :: rx where
  "sensitive_output_re = Alt
     (rx_seq [WordB,
        rx_alts [rx_seq [rx_ilit ''api'', rx_opt (rx_in ''_-''), rx_ilit ''key''],
          rx_ilit ''secret'', rx_ilit ''password'', rx_ilit ''token''],
        WordB, Star (Ch py_isspace), rx_in '':='', Star (Ch py_isspace),
        rx_at_least 8 (Ch (\<lambda>c. \<not> py_isspace c))])
     (rx_seq [rx_plus (Ch (\<lambda>c. alnum_char c \<or> c \<in> set ''._%+-'')), rx_in ''@'',
        rx_plus (Ch (\<lambda>c. alnum_char c \<or> c \<in> set ''.-'')), rx_in ''.'',
        rx_at_least 2 (Ch ascii_alpha)])"

definition round_rat :: "rat \<Rightarrow> rat" where
  "round_rat x = py_round 6 x"

subsection \<open>Metadata of a chunk\<close>

definition answer_safe_url :: "net_env \<Rightarrow> string \<Rightarrow> string" where
  "answer_safe_url env s = (let u = redact_url_for_display env s in
     if u = ''redacted'' \<or> rx_search sensitive_output_re u then ''redacted'' else take 200 u)"

definition answer_chunk_metadata :: "net_env \<Rightarrow> pyval pydict option \<Rightarrow> pyval pydict" where
  "answer_chunk_metadata env m = (case m of None \<Rightarrow> [] | Some d \<Rightarrow>
     filter_metadata chunk_metadata_keys
       (\<lambda>k s. Some (if k = ''source_url'' then answer_safe_url env s else safe_string 120 s)) d)"

definition answer_metadata_str :: "pyval pydict \<Rightarrow> string \<Rightarrow> string option" where
  "answer_metadata_str m key = (case map_of m key of Some (PStr s) \<Rightarrow> safe_display_text (Some s) | _ \<Rightarrow> None)"

text \<open>A Python boolean is an integer, and its text is its name.\<close>

definition metadata_number :: "pyval pydict \<Rightarrow> string \<Rightarrow> (int \<times> string) option" where
  "metadata_number m key = (case map_of m key of
     Some (PInt i) \<Rightarrow> Some (i, int_str i)
   | Some (PBool b) \<Rightarrow> Some (of_bool b, if b then ''True'' else ''False'')
   | _ \<Rightarrow> None)"

definition answer_metadata_suffix :: "pyval pydict \<Rightarrow> string option" where
  "answer_metadata_suffix m =
     (let kind = map_of m ''structure_type'' in
      if kind = Some (PStr ''excel_sheet'') then joined_or_none
        ((case answer_metadata_str m ''sheet_name'' of None \<Rightarrow> [] | Some s \<Rightarrow> [''Sheet: '' @ s]) @
         (case (metadata_number m ''row_from'', metadata_number m ''row_to'') of
            (Some (a, s), Some (b, t)) \<Rightarrow> [if a \<noteq> b then ''Rows '' @ s @ ''-'' @ t else ''Row '' @ s]
          | _ \<Rightarrow> []))
      else if kind = Some (PStr ''powerpoint_slide'') then joined_or_none
        ((case metadata_number m ''slide_number'' of None \<Rightarrow> [] | Some (_, s) \<Rightarrow> [''Slide '' @ s]) @
         (case answer_metadata_str m ''slide_title'' of None \<Rightarrow> [] | Some s \<Rightarrow> [''Title: '' @ s]))
      else if kind = Some (PStr ''html_section'') then
        or_else (answer_metadata_str m ''heading_path'') (answer_metadata_str m ''element_type'')
      else if kind = Some (PStr ''xml_element'') then
        or_else (answer_metadata_str m ''xml_path'') (answer_metadata_str m ''element_name'')
      else None)"

definition url_source_label :: "net_env \<Rightarrow> pyval pydict \<Rightarrow> string option" where
  "url_source_label env m =
     (if map_of m ''source_type'' \<noteq> Some (PStr ''url'') then None
      else (case map_of m ''source_url'' of
        Some (PStr s) \<Rightarrow> (let u = answer_safe_url env s in
          if u = [] \<or> u = ''redacted'' then None else Some u)
      | _ \<Rightarrow> None))"

text \<open>\<open>PurePosixPath(s).name\<close>: the last part of the path; a part that is a single dot does not
  count.\<close>

definition posix_name :: "string \<Rightarrow> string" where
  "posix_name s = (case rev (filter (\<lambda>p. p \<noteq> [] \<and> p \<noteq> ''.'') (py_split_on slash s)) of
     [] \<Rightarrow> [] | p # _ \<Rightarrow> p)"

definition answer_source_label :: "net_env \<Rightarrow> checked_hit \<Rightarrow> string" where
  "answer_source_label env h =
     (let file = ver_file_name (kh_version h); title = doc_title (kh_document h);
          raw_label = (if file = [] then title else file);
          label = sanitize_label (posix_name (sanitize_label (replace_char backslash slash raw_label)));
          fallback = sanitize_label title;
          m = answer_chunk_metadata env (chunk_meta (kh_chunk h));
          safe = (case url_source_label env m of Some u \<Rightarrow> u
            | None \<Rightarrow> if label \<noteq> [] then label else if fallback \<noteq> [] then fallback
                else ''document:'' @ int_str (doc_id (kh_document h)))
      in case present (answer_metadata_suffix m) of
           Some suf \<Rightarrow> take 255 (safe @ '' / '' @ suf)
         | None \<Rightarrow> take 255 safe)"

definition citation_source_type :: "net_env \<Rightarrow> checked_hit \<Rightarrow> string" where
  "citation_source_type env h = (let m = answer_chunk_metadata env (chunk_meta (kh_chunk h)) in
     if map_of m ''source_type'' = Some (PStr ''url'') \<and> url_source_label env m \<noteq> None
     then ''external_url'' else ''upload'')"

definition citation_source_url :: "net_env \<Rightarrow> checked_hit \<Rightarrow> string option" where
  "citation_source_url env h = url_source_label env (answer_chunk_metadata env (chunk_meta (kh_chunk h)))"

subsection \<open>What is stored of a candidate\<close>

definition opt_entry :: "string \<Rightarrow> pyval option \<Rightarrow> pyval pydict" where
  "opt_entry k v = (case v of None \<Rightarrow> [] | Some x \<Rightarrow> [(k, x)])"

definition payload_snapshot :: "net_env \<Rightarrow> checked_hit \<Rightarrow> pyval pydict" where
  "payload_snapshot env h =
     foldl (\<lambda>d (k, v). AList.update k v d)
       ([(''logical_document_id'', PInt (doc_id (kh_document h))),
         (''document_version_id'', PInt (ver_id (kh_version h))),
         (''source_label'', PStr (answer_source_label env h)),
         (''version_no'', PInt (ver_no (kh_version h))), (''modality'', PStr ''text'')] @
        opt_entry ''page_from'' (map_option PInt (chunk_page_from (kh_chunk h))) @
        opt_entry ''page_to'' (map_option PInt (chunk_page_to (kh_chunk h))) @
        opt_entry ''section_title'' (map_option PStr (safe_display_text (chunk_section (kh_chunk h)))))
       (answer_chunk_metadata env (chunk_meta (kh_chunk h)))"

definition rat_val :: "rat \<Rightarrow> pyval" where
  "rat_val x = PFloat (Fin (round_rat x))"

definition score_breakdown :: "string \<Rightarrow> rat option \<Rightarrow> rat option \<Rightarrow> rat option \<Rightarrow> rat option \<Rightarrow> int \<Rightarrow>
    int option \<Rightarrow> int \<Rightarrow> bool \<Rightarrow> pyval pydict \<Rightarrow> pyval pydict" where
  "score_breakdown source dense sparse fused rerank rank rerank_order final selected extra =
     safe_dict ([(''schema_version'', PStr ''phase2.trace.v1''), (''retrieval_source'', PStr source)] @
       opt_entry ''dense_score'' (map_option rat_val dense) @
       opt_entry ''sparse_score'' (map_option rat_val sparse) @
       opt_entry ''fused_score'' (map_option rat_val fused) @
       opt_entry ''rerank_score'' (map_option rat_val rerank) @
       [(''rank_order'', PInt rank)] @
       opt_entry ''rerank_order'' (map_option PInt rerank_order) @
       [(''final_rank'', PInt final), (''selected_flag'', PBool selected)] @ extra)"

definition dense_item_input :: "net_env \<Rightarrow> string \<Rightarrow> checked_hit \<Rightarrow> rat \<Rightarrow> int \<Rightarrow> int \<Rightarrow> bool \<Rightarrow> item_input" where
  "dense_item_input env source h rerank rerank_order final selected =
     \<lparr>ii_chunk_id = chunk_id (kh_chunk h), ii_score = round_rat (kh_score h),
      ii_rerank_score = Some (round_rat rerank), ii_rank = kh_rank h,
      ii_rerank_order = Some rerank_order, ii_selected = selected,
      ii_snapshot = payload_snapshot env h, ii_source = Some source,
      ii_breakdown = Some (score_breakdown source (Some (kh_score h)) None None (Some rerank) (kh_rank h)
        (Some rerank_order) final selected [])\<rparr>"

definition sparse_item_input :: "net_env \<Rightarrow> checked_hit \<Rightarrow> int \<Rightarrow> bool \<Rightarrow> item_input" where
  "sparse_item_input env h final selected =
     \<lparr>ii_chunk_id = chunk_id (kh_chunk h), ii_score = round_rat (kh_score h), ii_rerank_score = None,
      ii_rank = kh_rank h, ii_rerank_order = None, ii_selected = selected,
      ii_snapshot = payload_snapshot env h, ii_source = Some ''sparse'',
      ii_breakdown = Some (score_breakdown ''sparse'' None (Some (kh_score h)) None None (kh_rank h) None
        final selected [])\<rparr>"

definition payload_float :: "checked_hit \<Rightarrow> string \<Rightarrow> rat option" where
  "payload_float h key = (case map_of (kh_payload h) key of
     Some (PInt i) \<Rightarrow> Some (of_int i) | Some (PFloat (Fin r)) \<Rightarrow> Some r | _ \<Rightarrow> None)"

definition payload_int :: "checked_hit \<Rightarrow> string \<Rightarrow> int option" where
  "payload_int h key = (case map_of (kh_payload h) key of
     Some (PInt i) \<Rightarrow> if i < 1 then None else Some i | _ \<Rightarrow> None)"

definition hybrid_item_input :: "net_env \<Rightarrow> fusion_method \<Rightarrow> checked_hit \<Rightarrow> int \<Rightarrow> bool \<Rightarrow> item_input" where
  "hybrid_item_input env fm h final selected =
     \<lparr>ii_chunk_id = chunk_id (kh_chunk h), ii_score = round_rat (kh_score h), ii_rerank_score = None,
      ii_rank = kh_rank h, ii_rerank_order = None, ii_selected = selected,
      ii_snapshot = payload_snapshot env h, ii_source = Some ''hybrid'',
      ii_breakdown = Some (score_breakdown ''hybrid'' (payload_float h ''dense_score'')
        (payload_float h ''sparse_score'') (Some (kh_score h)) None (kh_rank h) None final selected
        ([(''fusion_method'', PStr (method_value fm))] @
         opt_entry ''dense_rank'' (map_option PInt (payload_int h ''dense_rank'')) @
         opt_entry ''sparse_rank'' (map_option PInt (payload_int h ''sparse_rank''))))\<rparr>"

subsection \<open>What is shown of a candidate\<close>

record search_item =
  sx_run_item_id :: int
  sx_chunk_id :: int
  sx_source_label :: string
  sx_snippet :: string
  sx_page_from :: "int option"
  sx_page_to :: "int option"
  sx_score :: rat
  sx_rerank_score :: "rat option"
  sx_rank :: int
  sx_rerank_order :: "int option"
  sx_selected :: bool
  sx_snapshot :: "pyval pydict"

definition make_response_item :: "net_env \<Rightarrow> nat \<Rightarrow> checked_hit \<Rightarrow> int \<Rightarrow> rat option \<Rightarrow> int option \<Rightarrow> bool \<Rightarrow>
    search_item" where
  "make_response_item env max_chars h saved rerank rerank_order selected =
     \<lparr>sx_run_item_id = saved, sx_chunk_id = chunk_id (kh_chunk h),
      sx_source_label = answer_source_label env h,
      sx_snippet = answer_snippet (chunk_content (kh_chunk h)) max_chars,
      sx_page_from = chunk_page_from (kh_chunk h), sx_page_to = chunk_page_to (kh_chunk h),
      sx_score = round_rat (kh_score h), sx_rerank_score = map_option round_rat rerank,
      sx_rank = kh_rank h, sx_rerank_order = rerank_order, sx_selected = selected,
      sx_snapshot = payload_snapshot env h\<rparr>"

definition make_citation_source :: "net_env \<Rightarrow> nat \<Rightarrow> checked_hit \<Rightarrow> run_item \<Rightarrow> int \<Rightarrow> citation_source" where
  "make_citation_source env max_chars h saved local_id =
     \<lparr>src_local_id = local_id, src_run_item_id = ri_id saved, src_chunk_id = chunk_id (kh_chunk h),
      src_label = answer_source_label env h,
      src_snippet = answer_snippet (chunk_content (kh_chunk h)) max_chars,
      src_page_from = chunk_page_from (kh_chunk h), src_page_to = chunk_page_to (kh_chunk h),
      src_section_title = safe_display_text (chunk_section (kh_chunk h)),
      src_type = citation_source_type env h, src_url = citation_source_url env h\<rparr>"

definition make_citation_input :: "citation_source \<Rightarrow> citation_input" where
  "make_citation_input s = \<lparr>cn_chunk_id = src_chunk_id s, cn_snippet = src_snippet s,
     cn_page_from = src_page_from s, cn_page_to = src_page_to s, cn_label = src_label s,
     cn_rank = src_local_id s, cn_source_type = src_type s, cn_source_url = src_url s\<rparr>"

end
