(* ===== verification/Evidence_Pack.thy ===== *)
theory Evidence_Pack
  imports Context_Budget "HOL-Library.Sublist"
begin

section \<open>The evidence pack\<close>

text \<open>
  \<open>backend/app/rag/evidence_pack.py\<close>: the selected context items become the texts of the
  prompt. Duplicates, near duplicates and what exceeds a limit is dropped with its reason, and
  the rest is cut to an excerpt. The models of the source validate their texts: a group key
  that is empty when sanitized, or a citation number below one, is a \<open>ValidationError\<close>, the
  value \<open>None\<close>. SHA-256 is a parameter. Reading a stored trace back from JSON is left out.
\<close>

subsection \<open>Candidates, items and limits\<close>

datatype pack_drop = ExactDuplicate | NormalizedDuplicate | NearDuplicate | MaxItemsPerSource
  | MaxItemsDropped | MaxTotalChars | NoText

datatype pack_method = MethodNone | BoundedExcerpt | SourceGrouped

fun method_text :: "pack_method \<Rightarrow> string" where
  "method_text MethodNone = ''none''"
| "method_text BoundedExcerpt = ''bounded_excerpt''"
| "method_text SourceGrouped = ''source_grouped''"

record evidence_candidate =
  ec_run_item_id :: int
  ec_chunk_id :: int
  ec_local_id :: int
  ec_text :: "string option"
  ec_source_label :: "string option"
  ec_section_title :: "string option"
  ec_page_from :: "int option"
  ec_page_to :: "int option"
  ec_score :: "pyfloat option"
  ec_rerank_score :: "pyfloat option"
  ec_rank :: "int option"
  ec_rerank_order :: "int option"
  ec_group :: string
  ec_citation :: bool
  ec_source :: "string option"
  ec_document_id :: "int option"
  ec_version_id :: "int option"

record pack_policy =
  ep_enabled :: bool
  ep_max_items :: nat
  ep_max_per_source :: nat
  ep_max_chars :: nat
  ep_max_total :: nat
  ep_near_threshold :: rat
  ep_preserve_citations :: bool
  ep_group_by_source :: bool
  ep_store_trace :: bool

definition pack_policy_ok :: "pack_policy \<Rightarrow> bool" where
  "pack_policy_ok p =
     (1 \<le> ep_max_items p \<and> ep_max_items p \<le> 100 \<and> 1 \<le> ep_max_per_source p \<and>
      ep_max_per_source p \<le> 100 \<and> 20 \<le> ep_max_chars p \<and> ep_max_chars p \<le> 50000 \<and>
      20 \<le> ep_max_total p \<and> ep_max_total p \<le> 200000 \<and>
      0 \<le> ep_near_threshold p \<and> ep_near_threshold p \<le> 1 \<and> ep_max_per_source p \<le> ep_max_items p)"

record evidence_item =
  ei_id :: string
  ei_run_item_id :: int
  ei_chunk_id :: int
  ei_local_id :: int
  ei_source_label :: "string option"
  ei_section_title :: "string option"
  ei_page_from :: "int option"
  ei_page_to :: "int option"
  ei_score :: "rat option"
  ei_rerank_score :: "rat option"
  ei_rank :: "int option"
  ei_rerank_order :: "int option"
  ei_group :: string
  ei_text :: string
  ei_digest :: string
  ei_original_chars :: nat
  ei_output_chars :: nat
  ei_tokens :: nat
  ei_citation :: bool
  ei_method :: pack_method
  ei_reason :: "string option"
  ei_source :: "string option"
  ei_document_id :: "int option"
  ei_version_id :: "int option"

record dropped_ref =
  dr_run_item_id :: int
  dr_chunk_id :: int
  dr_source_label :: "string option"
  dr_rank :: "int option"
  dr_rerank_order :: "int option"
  dr_tokens :: nat
  dr_original_chars :: nat
  dr_reason :: pack_drop

subsection \<open>Texts and their tokens\<close>

definition normalize_evidence :: "string \<Rightarrow> string" where
  "normalize_evidence text = py_join '' '' (py_split (py_casefold text))"

fun char_runs :: "(char \<Rightarrow> bool) \<Rightarrow> string \<Rightarrow> string \<Rightarrow> string list" where
  "char_runs p acc [] = [rev acc]"
| "char_runs p acc (c # cs) =
     (if p c then char_runs p (c # acc) cs else rev acc # char_runs p [] cs)"

definition token_set :: "string \<Rightarrow> string list" where
  "token_set s = remdups (filter (\<lambda>t. 2 \<le> length t) (char_runs alnum_char [] s))"

definition similar_tokens :: "rat \<Rightarrow> string list \<Rightarrow> string list \<Rightarrow> bool" where
  "similar_tokens threshold xs ys =
     (let common = length (filter (\<lambda>t. t \<in> set ys) xs);
          union = length xs + length ys - common
      in ys \<noteq> [] \<and> 0 < union \<and> threshold \<le> of_nat common / of_nat union)"

definition near_duplicate :: "rat \<Rightarrow> string \<Rightarrow> evidence_item list \<Rightarrow> bool" where
  "near_duplicate threshold normalized accepted =
     (let tokens = token_set normalized in
      0 < threshold \<and> tokens \<noteq> [] \<and>
      list_ex (\<lambda>i. similar_tokens threshold tokens (token_set (normalize_evidence (ei_text i)))) accepted)"

subsection \<open>The compressor\<close>

record pack_state =
  ps_items :: "evidence_item list"
  ps_drops :: "dropped_ref list"
  ps_counts :: "(pack_drop \<times> nat) list"
  ps_digests :: "string list"
  ps_normalized :: "string list"
  ps_per_source :: "(string \<times> nat) list"
  ps_chars :: nat

definition empty_pack :: pack_state where
  "empty_pack = \<lparr>ps_items = [], ps_drops = [], ps_counts = [], ps_digests = [], ps_normalized = [],
     ps_per_source = [], ps_chars = 0\<rparr>"

definition counter_of :: "('a \<times> nat) list \<Rightarrow> 'a \<Rightarrow> nat" where
  "counter_of t k = (case map_of t k of None \<Rightarrow> 0 | Some n \<Rightarrow> n)"

definition bump :: "'a \<Rightarrow> ('a \<times> nat) list \<Rightarrow> ('a \<times> nat) list" where
  "bump k t = AList.update k (counter_of t k + 1) t"

definition evidence_clean :: "evidence_candidate \<Rightarrow> string" where
  "evidence_clean c = candidate_text (ec_text c)"

definition drop_evidence :: "pack_drop \<Rightarrow> evidence_candidate \<Rightarrow> pack_state \<Rightarrow> pack_state" where
  "drop_evidence reason c st =
     st\<lparr>ps_counts := bump reason (ps_counts st),
       ps_drops := ps_drops st @ [\<lparr>dr_run_item_id = ec_run_item_id c, dr_chunk_id = ec_chunk_id c,
         dr_source_label = sanitize_text 255 (ec_source_label c), dr_rank = ec_rank c,
         dr_rerank_order = ec_rerank_order c, dr_tokens = estimate_tokens (evidence_clean c),
         dr_original_chars = length (evidence_clean c), dr_reason = reason\<rparr>]\<rparr>"

definition compress_drop :: "(string \<Rightarrow> string) \<Rightarrow> pack_policy \<Rightarrow> pack_state \<Rightarrow> evidence_candidate \<Rightarrow>
    pack_drop option" where
  "compress_drop sha p st c =
     (let text = evidence_clean c; normalized = normalize_evidence text in
      if text = [] then Some NoText
      else if sha text \<in> set (ps_digests st) then Some ExactDuplicate
      else if normalized \<in> set (ps_normalized st) then Some NormalizedDuplicate
      else if near_duplicate (ep_near_threshold p) normalized (ps_items st) then Some NearDuplicate
      else if ep_max_items p \<le> length (ps_items st) then Some MaxItemsDropped
      else if ep_max_per_source p \<le> counter_of (ps_per_source st) (ec_group c) then Some MaxItemsPerSource
      else if ep_max_total p \<le> ps_chars st then Some MaxTotalChars
      else if min (ep_max_chars p) (ep_max_total p - ps_chars st) = 0 then Some MaxTotalChars
      else None)"

definition evidence_item_of :: "(string \<Rightarrow> string) \<Rightarrow> nat \<Rightarrow> evidence_candidate \<Rightarrow> string \<Rightarrow> pack_method \<Rightarrow>
    string \<Rightarrow> evidence_item option" where
  "evidence_item_of sha n c text method reason =
     (case sanitize_text 255 (Some (ec_group c)) of None \<Rightarrow> None
      | Some gkey \<Rightarrow> if ec_local_id c < 1 then None else Some \<lparr>
          ei_id = ''e'' @ nat_str (n + 1), ei_run_item_id = ec_run_item_id c, ei_chunk_id = ec_chunk_id c,
          ei_local_id = ec_local_id c, ei_source_label = sanitize_text 255 (ec_source_label c),
          ei_section_title = sanitize_text 255 (ec_section_title c), ei_page_from = ec_page_from c,
          ei_page_to = ec_page_to c, ei_score = rounded (ec_score c),
          ei_rerank_score = rounded (ec_rerank_score c), ei_rank = ec_rank c,
          ei_rerank_order = ec_rerank_order c, ei_group = gkey, ei_text = text, ei_digest = sha text,
          ei_original_chars = length (evidence_clean c), ei_output_chars = length text,
          ei_tokens = estimate_tokens text, ei_citation = ec_citation c, ei_method = method,
          ei_reason = sanitize_text 255 (Some reason), ei_source = sanitize_text 255 (ec_source c),
          ei_document_id = ec_document_id c, ei_version_id = ec_version_id c\<rparr>)"

definition compress_method :: "pack_policy \<Rightarrow> string \<Rightarrow> string \<Rightarrow> pack_method" where
  "compress_method p excerpt clean =
     (let m = (if length excerpt < length clean then BoundedExcerpt else MethodNone) in
      if ep_group_by_source p \<and> m = MethodNone then SourceGrouped else m)"

definition accept_evidence :: "(string \<Rightarrow> string) \<Rightarrow> evidence_candidate \<Rightarrow> evidence_item \<Rightarrow> pack_state \<Rightarrow>
    pack_state" where
  "accept_evidence sha c i st =
     st\<lparr>ps_items := ps_items st @ [i], ps_chars := ps_chars st + length (ei_text i),
       ps_per_source := bump (ec_group c) (ps_per_source st),
       ps_digests := sha (evidence_clean c) # ps_digests st,
       ps_normalized := normalize_evidence (evidence_clean c) # ps_normalized st\<rparr>"

definition compress_step :: "(string \<Rightarrow> string) \<Rightarrow> pack_policy \<Rightarrow> evidence_candidate \<Rightarrow> pack_state \<Rightarrow>
    pack_state option" where
  "compress_step sha p c st = (case compress_drop sha p st c of
     Some reason \<Rightarrow> Some (drop_evidence reason c st)
   | None \<Rightarrow> (let text = take (min (ep_max_chars p) (ep_max_total p - ps_chars st)) (evidence_clean c);
                  method = compress_method p text (evidence_clean c)
              in map_option (\<lambda>i. accept_evidence sha c i st)
                   (evidence_item_of sha (length (ps_items st)) c text method (method_text method))))"

fun pack_loop :: "(evidence_candidate \<Rightarrow> pack_state \<Rightarrow> pack_state option) \<Rightarrow> evidence_candidate list \<Rightarrow>
    pack_state \<Rightarrow> pack_state option" where
  "pack_loop step [] st = Some st"
| "pack_loop step (c # cs) st = (case step c st of None \<Rightarrow> None | Some st' \<Rightarrow> pack_loop step cs st')"

definition compress_evidence :: "(string \<Rightarrow> string) \<Rightarrow> pack_policy \<Rightarrow> evidence_candidate list \<Rightarrow>
    pack_state option" where
  "compress_evidence sha p cs = pack_loop (compress_step sha p) cs empty_pack"

text \<open>With the pack disabled only the total length limits the texts.\<close>

definition passthrough_step :: "(string \<Rightarrow> string) \<Rightarrow> pack_policy \<Rightarrow> evidence_candidate \<Rightarrow> pack_state \<Rightarrow>
    pack_state option" where
  "passthrough_step sha p c st =
     (if evidence_clean c = [] then Some (drop_evidence NoText c st)
      else if ep_max_total p \<le> ps_chars st then Some (drop_evidence MaxTotalChars c st)
      else (let text = take (ep_max_total p - ps_chars st) (evidence_clean c) in
        map_option (\<lambda>i. accept_evidence sha c i st)
          (evidence_item_of sha (length (ps_items st)) c text MethodNone ''disabled'')))"

definition passthrough_items :: "(string \<Rightarrow> string) \<Rightarrow> pack_policy \<Rightarrow> evidence_candidate list \<Rightarrow>
    pack_state option" where
  "passthrough_items sha p cs = pack_loop (passthrough_step sha p) cs empty_pack"

subsection \<open>Groups, trace and pack\<close>

record evidence_group =
  eg_key :: string
  eg_label :: "string option"
  eg_version_id :: "int option"
  eg_document_id :: "int option"
  eg_items :: nat
  eg_tokens :: nat
  eg_top_score :: rat
  eg_refs :: "string list"

definition first_some :: "'a option list \<Rightarrow> 'a option" where
  "first_some xs = (case filter (\<lambda>x. x \<noteq> None) xs of [] \<Rightarrow> None | x # _ \<Rightarrow> x)"

definition item_top :: "evidence_item \<Rightarrow> rat" where
  "item_top i = (case ei_rerank_score i of Some r \<Rightarrow> r
     | None \<Rightarrow> (case ei_score i of Some s \<Rightarrow> s | None \<Rightarrow> 0))"

definition evidence_group_of :: "string \<Rightarrow> evidence_item list \<Rightarrow> evidence_group" where
  "evidence_group_of key is =
     \<lparr>eg_key = key, eg_label = first_some (map ei_source_label is),
      eg_version_id = first_some (map ei_version_id is),
      eg_document_id = first_some (map ei_document_id is), eg_items = length is,
      eg_tokens = sum_list (map ei_tokens is),
      eg_top_score = py_round 6 (foldl max (item_top (hd is)) (map item_top (tl is))),
      eg_refs = map ei_id is\<rparr>"

definition evidence_groups :: "evidence_item list \<Rightarrow> evidence_group list" where
  "evidence_groups is = map (\<lambda>k. evidence_group_of k (filter (\<lambda>i. ei_group i = k) is))
     (sort (remdups (map ei_group is)))"

definition compression_ratio :: "nat \<Rightarrow> nat \<Rightarrow> rat" where
  "compression_ratio out inp = (if inp = 0 then 0 else py_round 6 (of_nat out / of_nat inp))"

record evidence_pack =
  pk_items :: "evidence_item list"
  pk_groups :: "evidence_group list"
  pk_drops :: "dropped_ref list"
  pk_counts :: "(pack_drop \<times> nat) list"
  pk_candidate_count :: nat
  pk_selected_count :: nat
  pk_input_tokens :: nat
  pk_input_chars :: nat
  pk_output_tokens :: nat
  pk_output_chars :: nat
  pk_ratio :: rat
  pk_citation_count :: nat

definition build_evidence_pack :: "(string \<Rightarrow> string) \<Rightarrow> pack_policy \<Rightarrow> evidence_candidate list \<Rightarrow> nat \<Rightarrow>
    evidence_pack option" where
  "build_evidence_pack sha p cs total_candidates =
     (case (if ep_enabled p then compress_evidence sha p cs else passthrough_items sha p cs) of
        None \<Rightarrow> None
      | Some st \<Rightarrow>
         (let items = ps_items st; groups = evidence_groups items;
              inp = sum_list (map (length \<circ> evidence_clean) cs);
              out = sum_list (map ei_output_chars items) in
          Some \<lparr>pk_items = items, pk_groups = groups, pk_drops = ps_drops st, pk_counts = ps_counts st,
            pk_candidate_count = total_candidates, pk_selected_count = length cs,
            pk_input_tokens = sum_list (map (estimate_tokens \<circ> evidence_clean) cs), pk_input_chars = inp,
            pk_output_tokens = sum_list (map ei_tokens items), pk_output_chars = out,
            pk_ratio = compression_ratio out inp,
            pk_citation_count = length (filter ei_citation items)\<rparr>))"

text \<open>What the model is given of an item.\<close>

record generation_item =
  gi_chunk_id :: int
  gi_source_label :: string
  gi_text :: string
  gi_local_id :: int
  gi_page_from :: "int option"
  gi_page_to :: "int option"

definition generation_item_of :: "evidence_item \<Rightarrow> generation_item" where
  "generation_item_of i = \<lparr>gi_chunk_id = ei_chunk_id i,
     gi_source_label = (case ei_source_label i of None \<Rightarrow> ''chunk:'' @ int_str (ei_chunk_id i) | Some s \<Rightarrow> s),
     gi_text = ei_text i, gi_local_id = ei_local_id i, gi_page_from = ei_page_from i,
     gi_page_to = ei_page_to i\<rparr>"

definition to_generation_context_items :: "evidence_pack \<Rightarrow> generation_item list" where
  "to_generation_context_items pack = map generation_item_of (pk_items pack)"

end
