(* ===== verification/Answer_Retrieval.thy ===== *)
theory Answer_Retrieval
  imports Answer_Sources Evidence_Pack
begin

section \<open>The retrieval of an answer\<close>

text \<open>
  The dense, the sparse and the hybrid retrieval of \<open>backend/app/services/rag_service.py\<close>,
  with the search of \<open>rag/sparse.py\<close>: candidates are searched, checked against the database,
  ranked, stored as the items of the run and returned with what the answer needs of them.
  The embedding model, the vector store, the full-text search and the reranker are the fields
  of \<open>retrieval_env\<close>, where \<open>None\<close> is the exception the source expects of them. An exception
  of the pipeline is a \<open>pipeline_error\<close>.
\<close>

datatype pipeline_error = RetrievalFailed | RerankFailed | GenerationFailed | CitationFailed
  | OtherFailure chat_error

record rerank_result =
  rr_chunk_id :: int
  rr_score :: pyfloat
  rr_order :: pyval

record retrieval_env =
  re_net :: net_env
  re_now :: py_time
  re_embed :: "string \<Rightarrow> rat list list option"
  re_dimension :: nat
  re_vector_search :: "rat list \<Rightarrow> nat \<Rightarrow> retrieval_filters \<Rightarrow> candidate list option"
  re_text_search :: "string list \<Rightarrow> nat \<Rightarrow> retrieval_filters \<Rightarrow> candidate list option"
  re_rerank :: "string \<Rightarrow> (int \<times> string \<times> rat) list \<Rightarrow> rerank_result list option"
  re_sparse_max_terms :: nat
  re_sparse_min_terms :: nat
  re_fusion :: fusion_method
  re_rrf_k :: int
  re_dense_weight :: rat
  re_sparse_weight :: rat
  re_multiplier :: nat
  re_snippet_max :: nat
  re_preview_max :: nat

definition lift_pipeline :: "chat_error + 'a \<Rightarrow> pipeline_error + 'a" where
  "lift_pipeline x = (case x of Inl e \<Rightarrow> Inl (OtherFailure e) | Inr a \<Rightarrow> Inr a)"

definition or_fail :: "pipeline_error \<Rightarrow> 'a option \<Rightarrow> pipeline_error + 'a" where
  "or_fail e x = (case x of None \<Rightarrow> Inl e | Some a \<Rightarrow> Inr a)"

subsection \<open>Scores of a retrieval\<close>

record score_summary =
  sy_requested :: int
  sy_qdrant :: int
  sy_sparse :: "int option"
  sy_post_filter :: int
  sy_selected :: int
  sy_excluded :: int
  sy_top1 :: "rat option"
  sy_top3 :: "rat option"
  sy_rerank1 :: "rat option"
  sy_extra :: "pyval pydict"

definition top1_score :: "rat list \<Rightarrow> rat option" where
  "top1_score xs = (case xs of [] \<Rightarrow> None | x # _ \<Rightarrow> Some (round_rat x))"

definition top3_average :: "rat list \<Rightarrow> rat option" where
  "top3_average xs = (if xs = [] then None
     else Some (round_rat (sum_list (take 3 xs) / of_nat (min 3 (length xs)))))"

definition make_score_summary :: "int \<Rightarrow> int \<Rightarrow> int option \<Rightarrow> int option \<Rightarrow> checked_hit list \<Rightarrow> int \<Rightarrow>
    rat option \<Rightarrow> string option \<Rightarrow> int option \<Rightarrow> score_summary" where
  "make_score_summary requested qdrant sparse hybrid hits selected rerank1 method excluded =
     (let source_count = (case hybrid of Some n \<Rightarrow> n | None \<Rightarrow> (case sparse of Some n \<Rightarrow> n | None \<Rightarrow> qdrant));
          scores = map kh_score hits in
      \<lparr>sy_requested = requested, sy_qdrant = qdrant, sy_sparse = sparse,
       sy_post_filter = int (length hits), sy_selected = selected,
       sy_excluded = (case excluded of Some n \<Rightarrow> n | None \<Rightarrow> source_count - int (length hits)),
       sy_top1 = top1_score scores, sy_top3 = top3_average scores,
       sy_rerank1 = map_option round_rat rerank1,
       sy_extra = opt_entry ''hybrid_candidate_count'' (map_option PInt hybrid) @
                  opt_entry ''fusion_method'' (map_option PStr method)\<rparr>)"

definition opt_json :: "('a \<Rightarrow> pyval) \<Rightarrow> 'a option \<Rightarrow> pyval" where
  "opt_json f v = (case v of None \<Rightarrow> PNone | Some x \<Rightarrow> f x)"

definition summary_json :: "score_summary \<Rightarrow> pyval pydict" where
  "summary_json s = [(''requested_top_k'', PInt (sy_requested s)),
     (''qdrant_candidate_count'', PInt (sy_qdrant s)),
     (''sparse_candidate_count'', opt_json PInt (sy_sparse s)),
     (''post_filter_candidate_count'', PInt (sy_post_filter s)),
     (''selected_count'', PInt (sy_selected s)), (''excluded_by_rdb_check_count'', PInt (sy_excluded s)),
     (''top1_retrieval_score'', opt_json (PFloat \<circ> Fin) (sy_top1 s)),
     (''top3_avg_retrieval_score'', opt_json (PFloat \<circ> Fin) (sy_top3 s)),
     (''top1_rerank_score'', opt_json (PFloat \<circ> Fin) (sy_rerank1 s))] @ sy_extra s"

subsection \<open>The result\<close>

record context_ref =
  cx_hit :: checked_hit
  cx_item :: run_item
  cx_rank :: int
  cx_rerank_score :: "rat option"
  cx_rerank_order :: "int option"
  cx_citation :: bool

record pipeline_result =
  pr_summary :: score_summary
  pr_items :: "search_item list"
  pr_selected :: "checked_hit list"
  pr_sources :: "citation_source list"
  pr_context :: "context_ref list"
  pr_no_context :: bool

definition empty_result :: "score_summary \<Rightarrow> bool \<Rightarrow> pipeline_result" where
  "empty_result s no_context = \<lparr>pr_summary = s, pr_items = [], pr_selected = [], pr_sources = [],
     pr_context = [], pr_no_context = no_context\<rparr>"

text \<open>A ranked hit is a hit with its rerank score and order, if it has them. The hits and their
  stored items are numbered from one, and the first \<open>selected\<close> of them may be cited.\<close>

type_synonym ranked_hit = "checked_hit \<times> rat option \<times> int option"

definition context_refs :: "ranked_hit list \<Rightarrow> run_item list \<Rightarrow> nat \<Rightarrow> context_ref list" where
  "context_refs hits saved selected =
     map (\<lambda>(k, (h, score, order), item). \<lparr>cx_hit = h, cx_item = item, cx_rank = int k,
            cx_rerank_score = score, cx_rerank_order = order, cx_citation = (k \<le> selected)\<rparr>)
       (enum_from 1 (zip hits saved))"

definition assemble_result :: "retrieval_env \<Rightarrow> score_summary \<Rightarrow> ranked_hit list \<Rightarrow> run_item list \<Rightarrow> nat \<Rightarrow>
    pipeline_result" where
  "assemble_result env summary hits saved selected =
     \<lparr>pr_summary = summary,
      pr_items = map (\<lambda>(k, (h, score, order), item).
          make_response_item (re_net env) (re_snippet_max env) h (ri_id item) score order (k \<le> selected))
        (enum_from 1 (zip hits saved)),
      pr_selected = map fst (take selected hits),
      pr_sources = map (\<lambda>(k, (h, _), item).
          make_citation_source (re_net env) (re_preview_max env) h item (int k))
        (enum_from 1 (zip (take selected hits) (take selected saved))),
      pr_context = context_refs hits saved selected, pr_no_context = False\<rparr>"

subsection \<open>Searches\<close>

definition embed_query :: "retrieval_env \<Rightarrow> string \<Rightarrow> pipeline_error + rat list" where
  "embed_query env query = (case re_embed env query of
     Some [v] \<Rightarrow> if length v = re_dimension env then Inr v else Inl RetrievalFailed
   | _ \<Rightarrow> Inl RetrievalFailed)"

definition vector_search :: "retrieval_env \<Rightarrow> string \<Rightarrow> nat \<Rightarrow> retrieval_filters \<Rightarrow>
    pipeline_error + candidate list" where
  "vector_search env query limit flt =
     and_then (embed_query env query) (\<lambda>v. or_fail RetrievalFailed (re_vector_search env v limit flt))"

definition term_char :: "char \<Rightarrow> bool" where
  "term_char c = (alnum_char c \<or> c = CHR ''_'')"

definition normalize_sparse_query :: "string \<Rightarrow> nat \<Rightarrow> string list" where
  "normalize_sparse_query query max_terms =
     take (max 1 max_terms) (uniq_first (filter (\<lambda>t. t \<noteq> [])
       (map (strip_by (\<lambda>c. c = CHR ''_'')) (char_runs term_char [] (py_lower query)))))"

definition sparse_search :: "retrieval_env \<Rightarrow> string \<Rightarrow> nat \<Rightarrow> retrieval_filters \<Rightarrow>
    pipeline_error + candidate list" where
  "sparse_search env query limit flt =
     (let terms = normalize_sparse_query query (re_sparse_max_terms env) in
      if length terms < re_sparse_min_terms env then Inr []
      else or_fail RetrievalFailed (map_option
        (map (\<lambda>c. c\<lparr>cand_payload := [(''retrieval_source'', PStr ''sparse'')]\<rparr>))
        (re_text_search env terms limit flt)))"

subsection \<open>Reranking\<close>

definition positive_rerank_order :: "pyval \<Rightarrow> int option" where
  "positive_rerank_order v = (case v of PInt n \<Rightarrow> if n < 1 then None else Some n | _ \<Rightarrow> None)"

definition unit_score :: "pyfloat \<Rightarrow> rat option" where
  "unit_score x = (case x of Fin r \<Rightarrow> Some (min 1 (max 0 r)) | _ \<Rightarrow> None)"

fun rerank_table :: "int list \<Rightarrow> rerank_result list \<Rightarrow> (int \<times> rat \<times> int) list option" where
  "rerank_table expected [] = Some []"
| "rerank_table expected (r # rs) =
     (if rr_chunk_id r \<notin> set expected then None
      else (case (positive_rerank_order (rr_order r), unit_score (rr_score r)) of
        (Some order, Some score) \<Rightarrow>
          map_option (\<lambda>t. (rr_chunk_id r, score, order) # t)
            (rerank_table (removeAll (rr_chunk_id r) expected) rs)
      | _ \<Rightarrow> None))"

text \<open>A second result for a chunk is refused, as it is no longer expected.\<close>

definition validated_rerank_results :: "checked_hit list \<Rightarrow> rerank_result list \<Rightarrow>
    pipeline_error + (int \<times> rat \<times> int) list" where
  "validated_rerank_results hits results =
     (let expected = remdups (map (chunk_id \<circ> kh_chunk) hits) in
      if length results \<noteq> length expected then Inl RerankFailed
      else (case rerank_table expected results of
        None \<Rightarrow> Inl RerankFailed
      | Some t \<Rightarrow> if sort (map (snd \<circ> snd) t) = map int [1..<length expected + 1] then Inr t
          else Inl RerankFailed))"

definition ranked_by :: "(int \<times> rat \<times> int) list \<Rightarrow> checked_hit list \<Rightarrow> ranked_hit list" where
  "ranked_by t hits =
     map (\<lambda>h. (case the (map_of t (chunk_id (kh_chunk h))) of (score, order) \<Rightarrow> (h, Some score, Some order)))
       (sort_key (\<lambda>h. snd (the (map_of t (chunk_id (kh_chunk h))))) hits)"

subsection \<open>Dense and sparse retrieval\<close>

definition numbered :: "'a list \<Rightarrow> (int \<times> 'a) list" where
  "numbered xs = map (\<lambda>(k, x). (int k, x)) (enum_from 1 xs)"

definition retrieve_and_rerank :: "retrieval_env \<Rightarrow> string \<Rightarrow> nat \<Rightarrow> nat \<Rightarrow> retrieval_filters \<Rightarrow> string \<Rightarrow>
    int \<Rightarrow> chat_db \<Rightarrow> pipeline_error + pipeline_result \<times> chat_db" where
  "retrieve_and_rerank env query top_k top_n flt source run d =
     and_then (vector_search env query top_k flt) (\<lambda>cands.
     (let hits = final_check_candidates cands flt d in
      if hits = [] then Inr (empty_result
           (make_score_summary (int top_k) (int (length cands)) None None [] 0 None None None) False, d)
      else and_then (or_fail RerankFailed (re_rerank env query
               (map (\<lambda>h. (chunk_id (kh_chunk h), chunk_content (kh_chunk h), kh_score h)) hits))) (\<lambda>results.
           and_then (validated_rerank_results hits results) (\<lambda>t.
           (let ranked = ranked_by t hits;
                selected = min top_n (length ranked);
                inputs = map (\<lambda>(k, h, score, order). dense_item_input (re_net env) source h
                    (the score) (the order) k (k \<le> int selected)) (numbered ranked) in
            and_then (lift_pipeline (save_items run inputs (re_now env) d)) (\<lambda>(saved, d).
            Inr (assemble_result env
                  (make_score_summary (int top_k) (int (length cands)) None None hits (int selected)
                    (fst (snd (hd ranked))) None None) ranked saved selected, d)))))))"

definition unranked :: "checked_hit list \<Rightarrow> ranked_hit list" where
  "unranked hits = map (\<lambda>h. (h, None, None)) hits"

definition retrieve_sparse :: "retrieval_env \<Rightarrow> string \<Rightarrow> nat \<Rightarrow> nat \<Rightarrow> retrieval_filters \<Rightarrow>
    int \<Rightarrow> chat_db \<Rightarrow> pipeline_error + pipeline_result \<times> chat_db" where
  "retrieve_sparse env query top_k top_n flt run d =
     and_then (sparse_search env query top_k flt) (\<lambda>cands.
     (let hits = final_check_candidates cands flt d; found = Some (int (length cands)) in
      if hits = [] then Inr (empty_result
           (make_score_summary (int top_k) 0 found None [] 0 None None None) False, d)
      else (let selected = min top_n (length hits);
                inputs = map (\<lambda>(k, h). sparse_item_input (re_net env) h k (k \<le> int selected)) (numbered hits) in
        and_then (lift_pipeline (save_items run inputs (re_now env) d)) (\<lambda>(saved, d).
        Inr (assemble_result env
              (make_score_summary (int top_k) 0 found None hits (int selected) None None None)
              (unranked hits) saved selected, d)))))"

subsection \<open>Hybrid retrieval\<close>

definition affinity_char :: "char \<Rightarrow> bool" where
  "affinity_char c = (alnum_char c \<or> c \<in> set ''_.-'')"

definition affinity_stop_words :: "string list" where
  "affinity_stop_words = [''and'', ''compare'', ''comparison'', ''please'', ''search'', ''retrieval'',
     ''method'', ''methods'', ''strategy'', ''strategies'']"

text \<open>The pattern takes a letter and at least two more characters of a name; the match in a run
  of such characters starts at its first letter and ends with the run.\<close>

definition source_affinity_tokens :: "string \<Rightarrow> string list" where
  "source_affinity_tokens query =
     (let found = filter (\<lambda>w. 3 \<le> length w)
            (map (dropWhile (\<lambda>c. \<not> ascii_alpha c)) (char_runs affinity_char [] query));
          tokens = map (\<lambda>w. py_lower (strip_by (\<lambda>c. c \<in> set ''._-'') w)) found in
      take 8 (uniq_first (filter (\<lambda>t. 4 \<le> length t \<and> t \<notin> set affinity_stop_words) tokens)))"

definition source_affinity_score :: "checked_hit \<Rightarrow> string list \<Rightarrow> nat" where
  "source_affinity_score h tokens =
     (let file = py_lower (ver_file_name (kh_version h));
          title = py_lower (doc_title (kh_document h));
          sec = py_lower (case chunk_section (kh_chunk h) of None \<Rightarrow> [] | Some s \<Rightarrow> s);
          combined = file @ '' '' @ title @ '' '' @ sec in
      sum_list (map (\<lambda>t. if \<not> py_in t combined then 0
        else 1 + (if py_in t title then 2 else 0) + (if py_in t file then 1 else 0) +
             (if py_in t sec then 1 else 0)) tokens))"

definition order_by_source_affinity :: "string \<Rightarrow> checked_hit list \<Rightarrow> checked_hit list" where
  "order_by_source_affinity query hits =
     (let tokens = source_affinity_tokens query in
      if tokens = [] \<or> length hits < 2 then hits
      else if list_all (\<lambda>h. source_affinity_score h tokens = 0) hits then hits
      else sort_key (\<lambda>h. - int (source_affinity_score h tokens)) hits)"

definition hybrid_candidate_limit :: "retrieval_env \<Rightarrow> nat \<Rightarrow> nat" where
  "hybrid_candidate_limit env top_k = min (top_k * re_multiplier env) 50"

definition fused_search :: "retrieval_env \<Rightarrow> string \<Rightarrow> nat \<Rightarrow> retrieval_filters \<Rightarrow>
    pipeline_error + candidate list \<times> candidate list \<times> candidate list" where
  "fused_search env query limit flt =
     and_then (if 0 < re_dense_weight env then vector_search env query limit flt else Inr []) (\<lambda>dense.
     and_then (if 0 < re_sparse_weight env then sparse_search env query limit flt else Inr []) (\<lambda>sparse.
     (case fuse_candidates dense sparse (re_fusion env) (int limit) (re_rrf_k env) (re_dense_weight env)
         (re_sparse_weight env) of
        Inl _ \<Rightarrow> Inl (OtherFailure InternalFailure)
      | Inr fused \<Rightarrow> Inr (dense, sparse, fused))))"

definition retrieve_hybrid :: "retrieval_env \<Rightarrow> string \<Rightarrow> nat \<Rightarrow> nat \<Rightarrow> retrieval_filters \<Rightarrow>
    int \<Rightarrow> chat_db \<Rightarrow> pipeline_error + pipeline_result \<times> chat_db" where
  "retrieve_hybrid env query top_k top_n flt run d =
     and_then (fused_search env query (hybrid_candidate_limit env top_k) flt) (\<lambda>(dense, sparse, fused).
     (let checked = final_check_candidates fused flt d;
          visible = take top_k (order_by_source_affinity query checked);
          selected = min top_n (length visible);
          summary = (\<lambda>hits n. make_score_summary (int top_k) (int (length dense)) (Some (int (length sparse)))
             (Some (int (length fused))) hits n None (Some (method_value (re_fusion env)))
             (Some (max 0 (int (length fused) - int (length checked))))) in
      if visible = [] then Inr (empty_result (summary [] 0) False, d)
      else (let inputs = map (\<lambda>(k, h). hybrid_item_input (re_net env) (re_fusion env) h k (k \<le> int selected))
                  (numbered visible) in
        and_then (lift_pipeline (save_items run inputs (re_now env) d)) (\<lambda>(saved, d).
        Inr (assemble_result env (summary checked (int selected)) (unranked visible) saved selected, d)))))"

end
