(* ===== verification/Answer_Generation.thy ===== *)
theory Answer_Generation
  imports Answer_Retrieval
begin

section \<open>The generated answer and its citations\<close>

text \<open>
  The part of \<open>backend/app/services/rag_service.py\<close> between the prompt and the stored answer:
  the second attempt when the model claims a lack of evidence the retrieval contradicts, the
  safety check of the text, the repair of wrong citation markers and the fallback answer. The
  model is \<open>ge_generate\<close>, whose \<open>None\<close> is an \<open>AnswerGenerationError\<close>; whether a text says
  that the evidence does not suffice is decided by \<open>ge_insufficient\<close>, for the patterns of
  \<open>rag/insufficient.py\<close> and the fallback text are Japanese. The left value of the citation
  functions is the \<open>CitationBuildError\<close>.
\<close>

record generation_request =
  gr_message :: string
  gr_items :: "generation_item list"
  gr_max_chars :: nat
  gr_supported_retry :: bool

record token_usage =
  tu_input :: "int option"
  tu_output :: "int option"
  tu_sum :: "int option"

record generation_result =
  gn_content :: string
  gn_usage :: "token_usage option"

record generation_env =
  ge_generate :: "generation_request \<Rightarrow> generation_result option"
  ge_insufficient :: "string \<Rightarrow> bool"
  ge_fallback_text :: "string \<Rightarrow> string"
  ge_retry :: bool

definition lift_citation :: "citation_error + 'a \<Rightarrow> pipeline_error + 'a" where
  "lift_citation x = (case x of Inl _ \<Rightarrow> Inl CitationFailed | Inr a \<Rightarrow> Inr a)"

subsection \<open>The second attempt\<close>

definition combined_optional_int :: "int option \<Rightarrow> int option \<Rightarrow> int option" where
  "combined_optional_int a b = (case (a, b) of
     (None, None) \<Rightarrow> None
   | _ \<Rightarrow> Some ((case a of None \<Rightarrow> 0 | Some x \<Rightarrow> x) + (case b of None \<Rightarrow> 0 | Some y \<Rightarrow> y)))"

definition combined_generation_usage :: "token_usage option \<Rightarrow> token_usage option \<Rightarrow> token_usage option" where
  "combined_generation_usage a b = (if a = None \<and> b = None then None
     else Some \<lparr>tu_input = combined_optional_int (Option.bind a tu_input) (Option.bind b tu_input),
       tu_output = combined_optional_int (Option.bind a tu_output) (Option.bind b tu_output),
       tu_sum = combined_optional_int (Option.bind a tu_sum) (Option.bind b tu_sum)\<rparr>)"

definition should_retry_generation :: "generation_env \<Rightarrow> string \<Rightarrow> score_summary \<Rightarrow> pipeline_error + bool" where
  "should_retry_generation env content s =
     (if \<not> ge_retry env then Inr False
      else and_then (lift_citation (parse_generation_output content)) (\<lambda>p.
        Inr (ge_insufficient env (po_text p) \<and> has_high_retrieval_support (sy_top1 s) (sy_rerank1 s))))"

text \<open>The result is the generation and whether a refused answer may fall back.\<close>

definition generate_with_retry :: "generation_env \<Rightarrow> generation_request \<Rightarrow> score_summary \<Rightarrow>
    pipeline_error + generation_result \<times> bool" where
  "generate_with_retry env req s =
     and_then (or_fail GenerationFailed (ge_generate env req)) (\<lambda>g.
     and_then (should_retry_generation env (gn_content g) s) (\<lambda>again.
     if \<not> again then Inr (g, False)
     else (case ge_generate env (req\<lparr>gr_supported_retry := True\<rparr>) of
         None \<Rightarrow> Inr (g, False)
       | Some g2 \<Rightarrow> Inr (\<lparr>gn_content = gn_content g2,
             gn_usage = combined_generation_usage (gn_usage g) (gn_usage g2)\<rparr>, True))))"

subsection \<open>Safety of the text\<close>

definition output_is_safe :: "generation_item list \<Rightarrow> string \<Rightarrow> bool" where
  "output_is_safe items answer =
     (\<not> rx_search sensitive_output_re answer \<and>
      \<not> list_ex (\<lambda>i. 80 \<le> length (clean_text (gi_text i)) \<and>
            py_in (clean_text (gi_text i)) (clean_text answer)) items)"

subsection \<open>Repair of the markers\<close>

definition short_marker :: "string \<Rightarrow> string option" where
  "short_marker s = (case marker_here s of None \<Rightarrow> None
     | Some ds \<Rightarrow> if length ds \<le> 6 then Some ds else None)"

function sub_markers :: "(string \<Rightarrow> string) \<Rightarrow> string \<Rightarrow> string" where
  "sub_markers f [] = []"
| "sub_markers f (c # cs) = (case short_marker (c # cs) of
     None \<Rightarrow> c # sub_markers f cs
   | Some ds \<Rightarrow> f ds @ sub_markers f (drop (length ds + 1) cs))"
  by pat_completeness auto
termination by (relation "measure (\<lambda>(f, s). length s)") auto

definition marker_text :: "int \<Rightarrow> string" where
  "marker_text i = ''['' @ int_str i @ '']''"

definition insufficient_citation_fallback :: "generation_env \<Rightarrow> citation_source list \<Rightarrow>
    citation_error + parsed_output \<times> citation_source list" where
  "insufficient_citation_fallback env sources = (case sources of
     [] \<Rightarrow> Inl SourceMissing
   | s # _ \<Rightarrow>
       and_then (parse_generation_output (ge_fallback_text env (marker_text (src_local_id s)))) (\<lambda>p.
       and_then (validate_generation_citations p sources) (\<lambda>cited. Inr (p, cited))))"

definition repaired_text :: "citation_source list \<Rightarrow> citation_source \<Rightarrow> parsed_output \<Rightarrow> string" where
  "repaired_text sources first p =
     (if po_markers p \<noteq> []
      then sub_markers (\<lambda>ds. if int (digits_val ds) \<in> set (map src_local_id sources)
             then ''['' @ ds @ '']'' else marker_text (src_local_id first)) (po_text p)
      else po_text p @ '' '' @ marker_text (src_local_id first))"

definition repair_generation_citations :: "generation_env \<Rightarrow> parsed_output \<Rightarrow> citation_source list \<Rightarrow>
    citation_error + parsed_output \<times> citation_source list" where
  "repair_generation_citations env p sources = (case sources of
     [] \<Rightarrow> Inl SourceMissing
   | first # _ \<Rightarrow>
       if py_strip (sub_markers (\<lambda>_. []) (po_text p)) = []
       then insufficient_citation_fallback env sources
       else and_then (parse_generation_output (repaired_text sources first p)) (\<lambda>q.
            and_then (validate_generation_citations q sources) (\<lambda>cited. Inr (q, cited))))"

definition fallen_back :: "parsed_output \<times> citation_source list \<Rightarrow> parsed_output \<times> citation_source list \<times> bool" where
  "fallen_back x = (fst x, snd x, True)"

definition validation_error_fallback :: "generation_env \<Rightarrow> citation_source list \<Rightarrow>
    citation_error + parsed_output \<times> citation_source list \<times> bool" where
  "validation_error_fallback env sources =
     and_then (insufficient_citation_fallback env sources) (\<lambda>x. Inr (fallen_back x))"

text \<open>The answer, the sources it cites, and whether it is the fallback. The source's flag
  \<open>allow_insufficient_evidence_fallback\<close> is set in every call.\<close>

definition validated_generation_or_fallback :: "generation_env \<Rightarrow> string \<Rightarrow> generation_item list \<Rightarrow>
    citation_source list \<Rightarrow> bool \<Rightarrow> citation_error + parsed_output \<times> citation_source list \<times> bool" where
  "validated_generation_or_fallback env content items sources allow =
     (case parse_generation_output content of
        Inl e \<Rightarrow> if allow then validation_error_fallback env sources else Inl e
      | Inr p \<Rightarrow>
          if ge_insufficient env (po_text p)
          then and_then (insufficient_citation_fallback env sources) (\<lambda>x. Inr (fallen_back x))
          else if \<not> output_is_safe items (po_text p)
          then (if allow then validation_error_fallback env sources else Inl ParseInvalid)
          else (case validate_generation_citations p sources of
              Inr cited \<Rightarrow> Inr (p, cited, False)
            | Inl e \<Rightarrow> if allow then validation_error_fallback env sources
                else and_then (repair_generation_citations env p sources) (\<lambda>(q, cited). Inr (q, cited, False))))"

subsection \<open>Confidence\<close>

definition low_confidence :: "conf_settings \<Rightarrow> conf_scores \<Rightarrow> conf_scores" where
  "low_confidence st c =
     \<lparr>cs_answer = py_round 6 (min (cs_answer c) (max 0 (min 1 (conf_medium st) - 1 / 100))),
      cs_grounded = cs_grounded c, cs_label = Low\<rparr>"

end
