(* ===== verification/Chat_Service.thy ===== *)
theory Chat_Service
  imports Retrieval_Store Document_Metadata
begin

section \<open>The chat service\<close>

text \<open>
  \<open>backend/app/services/chat_service.py\<close> with the normalizers of \<open>schemas/chat.py\<close>. A
  request is a function from the tables to an error or a response with the new tables; an
  error rolls the transaction back. The default title is not a text of Latin-1 and therefore a
  field of the environment, as are the two clocks, the configured life of a temporary session
  and the hash of the audit log. The retrieval summary of a message, a view of its run's
  traces, is left out.
\<close>

record chat_env =
  he_now :: py_time
  he_db_now :: py_time
  he_minute :: py_time
  he_default_title :: string
  he_default_ttl :: int
  he_hash :: "string \<Rightarrow> string"
  he_request :: "string option"

subsection \<open>Titles and tags\<close>

definition MAX_TITLE_LENGTH :: nat where
  "MAX_TITLE_LENGTH = 255"

definition MAX_TAG_LENGTH :: nat where
  "MAX_TAG_LENGTH = 50"

definition normalize_title :: "chat_env \<Rightarrow> string option \<Rightarrow> chat_error + string" where
  "normalize_title env v = (case v of
     None \<Rightarrow> Inr (he_default_title env)
   | Some s \<Rightarrow> (let title = py_strip s in
       if title = [] then Inl (ChatInvalid ''title'')
       else if MAX_TITLE_LENGTH < length title then Inl (ChatInvalid ''title'')
       else Inr title))"

definition normalize_tag_name :: "string \<Rightarrow> chat_error + string" where
  "normalize_tag_name s =
     (let name = py_strip s in
      if name = [] then Inl (ChatInvalid ''tag_name'')
      else if MAX_TAG_LENGTH < length name then Inl (ChatInvalid ''tag_name'')
      else if CHR ''/'' \<in> set name \<or> CHR 0x5C \<in> set name then Inl (ChatInvalid ''tag_name'')
      else Inr name)"

definition normalize_status :: "string option \<Rightarrow> chat_error + chat_status" where
  "normalize_status v = (case v of
     None \<Rightarrow> Inr ChatActive
   | Some s \<Rightarrow> if s = ''active'' then Inr ChatActive
       else if s = ''archived'' then Inr ChatArchived
       else Inl (ChatInvalid ''status''))"

subsection \<open>What a session lets its owner do\<close>

definition get_owned_session :: "int \<Rightarrow> int \<Rightarrow> chat_db \<Rightarrow> chat_error + chat_session" where
  "get_owned_session user i d = (case get_session_for_user user i d of
     None \<Rightarrow> Inl ChatNotFound | Some s \<Rightarrow> Inr s)"

definition is_temporary_expired :: "py_time \<Rightarrow> chat_session \<Rightarrow> bool" where
  "is_temporary_expired now s = (case ch_expires_at s of
     None \<Rightarrow> False | Some e \<Rightarrow> ch_temporary s \<and> e \<le> now)"

definition ensure_session_writable :: "py_time \<Rightarrow> chat_session \<Rightarrow> chat_error + unit" where
  "ensure_session_writable now s =
     (if ch_status s = ChatArchived then Inl ChatReadonly
      else if is_temporary_expired now s then Inl ChatExpired
      else Inr ())"

definition writable_session :: "chat_env \<Rightarrow> int \<Rightarrow> int \<Rightarrow> chat_db \<Rightarrow> chat_error + chat_session" where
  "writable_session env user i d =
     and_then (get_owned_session user i d) (\<lambda>s.
     and_then (ensure_session_writable (he_now env) s) (\<lambda>_. Inr s))"

datatype chat_mode = ModeActive | ModeArchived | ModeTemporary | ModeTemporaryExpired

definition chat_display_status :: "py_time \<Rightarrow> chat_session \<Rightarrow> chat_mode" where
  "chat_display_status now s =
     (if ch_status s = ChatArchived then ModeArchived
      else if is_temporary_expired now s then ModeTemporaryExpired
      else if ch_temporary s then ModeTemporary
      else ModeActive)"

subsection \<open>Views\<close>

record session_item =
  si_id :: int
  si_title :: string
  si_status :: chat_status
  si_mode :: chat_mode
  si_temporary :: bool
  si_expires_at :: "py_time option"
  si_created_at :: py_time
  si_updated_at :: py_time

definition make_session_item :: "py_time \<Rightarrow> chat_session \<Rightarrow> session_item" where
  "make_session_item now s = \<lparr>si_id = ch_id s, si_title = ch_title s, si_status = ch_status s,
     si_mode = chat_display_status now s, si_temporary = ch_temporary s,
     si_expires_at = ch_expires_at s, si_created_at = ch_created_at s, si_updated_at = ch_updated_at s\<rparr>"

record session_detail =
  sd_item :: session_item
  sd_tags :: "chat_tag list"

definition make_session_detail :: "py_time \<Rightarrow> chat_session \<Rightarrow> chat_tag list \<Rightarrow> session_detail" where
  "make_session_detail now s tags = \<lparr>sd_item = make_session_item now s, sd_tags = tags\<rparr>"

record ask_citation =
  ac_citation_id :: int
  ac_local_id :: int
  ac_chunk_id :: int
  ac_source_label :: string
  ac_snippet :: string
  ac_page_from :: "int option"
  ac_page_to :: "int option"
  ac_section_title :: "string option"
  ac_old_version :: bool

definition chat_display_text :: "string option \<Rightarrow> string option" where
  "chat_display_text v = (case v of None \<Rightarrow> None
     | Some s \<Rightarrow> (let t = clean_text s in if t = [] then None else Some (take 255 t)))"

definition citation_view :: "(string option \<Rightarrow> string option) \<Rightarrow> citation_record \<Rightarrow> ask_citation" where
  "citation_view text_of r = \<lparr>ac_citation_id = cit_id (cr_citation r), ac_local_id = cit_rank (cr_citation r),
     ac_chunk_id = cit_chunk_id (cr_citation r), ac_source_label = cit_label (cr_citation r),
     ac_snippet = cit_snippet (cr_citation r), ac_page_from = cit_page_from (cr_citation r),
     ac_page_to = cit_page_to (cr_citation r), ac_section_title = text_of (chunk_section (cr_chunk r)),
     ac_old_version = old_version_flag (cr_version r) (cr_document r)\<rparr>"

record ask_confidence =
  ax_confidence :: rat
  ax_groundedness :: rat
  ax_label :: conf_label

definition confidence_item :: "retrieval_run \<Rightarrow> ask_confidence option" where
  "confidence_item r = (case (run_confidence r, run_groundedness r, run_label r) of
     (Some a, Some g, Some l) \<Rightarrow>
       Some \<lparr>ax_confidence = py_round 6 a, ax_groundedness = py_round 6 g, ax_label = l\<rparr>
   | _ \<Rightarrow> None)"

record message_item =
  mi_message :: chat_message
  mi_citations :: "ask_citation list"
  mi_confidence :: "ask_confidence option"

definition make_message_item :: "retrieval_run option \<Rightarrow> citation_record list \<Rightarrow> chat_message \<Rightarrow> message_item" where
  "make_message_item run records m = \<lparr>mi_message = m,
     mi_citations = (if msg_role m = RoleAssistant then map (citation_view chat_display_text) records else []),
     mi_confidence = (if msg_role m = RoleAssistant then Option.bind run confidence_item else None)\<rparr>"

subsection \<open>Requests\<close>

definition chat_audit :: "chat_env \<Rightarrow> string \<Rightarrow> int \<Rightarrow> string \<Rightarrow> int \<Rightarrow> pyval pydict \<Rightarrow> chat_db \<Rightarrow> chat_db" where
  "chat_audit env action user target_type target metadata d =
     d\<lparr>ct_rest := audit action (Some user) (he_request env) (Some target_type) (Some target)
        (Some metadata) (ct_rest d)\<rparr>"

definition temporary_chat_ttl_minutes :: "chat_env \<Rightarrow> chat_db \<Rightarrow> int" where
  "temporary_chat_ttl_minutes env d =
     (let ttl = (case get_temporary_chat_ttl_minutes d of None \<Rightarrow> he_default_ttl env | Some n \<Rightarrow> n) in
      if 0 < ttl then ttl else 120)"

definition service_create_session :: "chat_env \<Rightarrow> int \<Rightarrow> string option \<Rightarrow> bool \<Rightarrow> chat_db \<Rightarrow>
    chat_error + session_detail \<times> chat_db" where
  "service_create_session env user title temporary d =
     and_then (normalize_title env title) (\<lambda>t.
     (let ttl = (if temporary then Some (temporary_chat_ttl_minutes env d) else None);
          expires = map_option (\<lambda>n. he_now env + n * he_minute env) ttl in
      and_then (create_session user t temporary expires (he_db_now env) d) (\<lambda>(s, d).
      (let d = (if temporary then chat_audit env ''chat.temporary_session_created'' user ''chat_session''
                  (ch_id s) [(''temporary_flag'', PBool True),
                    (''ttl_minutes'', case ttl of None \<Rightarrow> PNone | Some n \<Rightarrow> PInt n)] d
                else d) in
       and_then (chat_commit d) (\<lambda>d. Inr (make_session_detail (he_now env) s [], d))))))"

definition service_list_sessions :: "chat_env \<Rightarrow> int \<Rightarrow> string option \<Rightarrow> string option \<Rightarrow> nat \<Rightarrow> nat \<Rightarrow>
    chat_db \<Rightarrow> chat_error + session_item list \<times> nat" where
  "service_list_sessions env user status query offset limit d =
     and_then (normalize_status status) (\<lambda>st.
     (let q = (case query of None \<Rightarrow> None
                | Some s \<Rightarrow> if py_strip s = [] then None else Some (py_strip s)) in
      if q \<noteq> None \<and> 255 < length (the q) then Inl (ChatInvalid ''q'')
      else (let (rows, total_rows) = list_sessions_for_user user st q offset limit d in
        Inr (map (make_session_item (he_now env)) rows, total_rows))))"

definition get_session_detail :: "chat_env \<Rightarrow> int \<Rightarrow> int \<Rightarrow> chat_db \<Rightarrow> chat_error + session_detail" where
  "get_session_detail env user i d =
     and_then (get_owned_session user i d) (\<lambda>s.
     Inr (make_session_detail (he_now env) s (list_tags (ch_id s) d)))"

definition refreshed_detail :: "chat_env \<Rightarrow> int \<Rightarrow> chat_db \<Rightarrow> chat_error + session_detail" where
  "refreshed_detail env i d = (case find (\<lambda>s. ch_id s = i) (ct_sessions d) of
     None \<Rightarrow> Inl InternalFailure
   | Some s \<Rightarrow> Inr (make_session_detail (he_now env) s (list_tags i d)))"

definition service_update_title :: "chat_env \<Rightarrow> int \<Rightarrow> int \<Rightarrow> string \<Rightarrow> chat_db \<Rightarrow>
    chat_error + session_detail \<times> chat_db" where
  "service_update_title env user i title d =
     and_then (writable_session env user i d) (\<lambda>s.
     and_then (normalize_title env (Some title)) (\<lambda>t.
     and_then (update_session_title (ch_id s) t (he_now env) d) (\<lambda>d.
     and_then (chat_commit (chat_audit env ''chat.title_updated'' user ''chat_session'' (ch_id s)
                 [(''field'', PStr ''title'')] d)) (\<lambda>d.
     and_then (refreshed_detail env (ch_id s) d) (\<lambda>v. Inr (v, d))))))"

datatype archive_result = Archived | AlreadyArchived

definition service_archive_session :: "chat_env \<Rightarrow> int \<Rightarrow> int \<Rightarrow> chat_db \<Rightarrow>
    chat_error + archive_result \<times> chat_db" where
  "service_archive_session env user i d =
     and_then (get_owned_session user i d) (\<lambda>s.
     if ch_temporary s then Inl ChatNotArchivable
     else if ch_status s = ChatArchived
     then and_then (chat_commit d) (\<lambda>d. Inr (AlreadyArchived, d))
     else and_then (archive_session_row (ch_id s) (he_now env) d) (\<lambda>d.
       and_then (chat_commit (chat_audit env ''chat.archived'' user ''chat_session'' (ch_id s)
                   [(''result'', PStr ''archived'')] d)) (\<lambda>d. Inr (Archived, d))))"

definition service_delete_session :: "chat_env \<Rightarrow> int \<Rightarrow> int \<Rightarrow> chat_db \<Rightarrow> chat_error + chat_db" where
  "service_delete_session env user i d =
     and_then (get_owned_session user i d) (\<lambda>s.
     and_then (delete_session_rows (ch_id s) d) (\<lambda>d.
     chat_commit (chat_audit env ''chat.deleted'' user ''chat_session'' i [(''result'', PStr ''deleted'')] d)))"

definition service_list_messages :: "int \<Rightarrow> int \<Rightarrow> nat \<Rightarrow> nat \<Rightarrow> bool \<Rightarrow> string \<Rightarrow> chat_db \<Rightarrow>
    chat_error + message_item list \<times> nat" where
  "service_list_messages user i offset limit internal role d =
     (if internal \<and> role \<noteq> ''admin'' then Inl ChatDenied
      else and_then (get_owned_session user i d) (\<lambda>_.
        (let (rows, total_rows) = list_messages i offset limit d;
             runs = List.map_filter (\<lambda>m. if msg_role m = RoleAssistant then msg_run_id m else None) rows;
             run_table = get_runs_by_ids runs d;
             citation_table = list_citations_for_runs runs d in
         Inr (map (\<lambda>m. make_message_item (Option.bind (msg_run_id m) (map_of run_table))
                (case Option.bind (msg_run_id m) (map_of citation_table) of None \<Rightarrow> [] | Some rs \<Rightarrow> rs) m) rows,
              total_rows))))"

definition ensure_session_can_append_messages :: "chat_env \<Rightarrow> int \<Rightarrow> int \<Rightarrow> chat_db \<Rightarrow>
    chat_error + chat_session" where
  "ensure_session_can_append_messages = writable_session"

datatype tag_result = TagCreated | TagAlreadyExists | TagDeleted | TagNotFound

definition tag_audit_metadata :: "chat_env \<Rightarrow> string \<Rightarrow> pyval pydict" where
  "tag_audit_metadata env name = [(''tag_name_hash'', PStr (he_hash env name)),
     (''tag_name_length'', PInt (int (length name)))]"

text \<open>The tag is inserted under a savepoint; a constraint that refuses it leaves the transaction
  alive, and the tag of a faster request is looked up again.\<close>

definition service_add_tag :: "chat_env \<Rightarrow> int \<Rightarrow> int \<Rightarrow> string \<Rightarrow> chat_db \<Rightarrow>
    chat_error + tag_result \<times> chat_db" where
  "service_add_tag env user i tag d =
     and_then (writable_session env user i d) (\<lambda>s.
     and_then (normalize_tag_name tag) (\<lambda>name.
     if get_tag (ch_id s) name d \<noteq> None then and_then (chat_commit d) (\<lambda>d. Inr (TagAlreadyExists, d))
     else (case create_tag (ch_id s) name (he_db_now env) d of
       Inl e \<Rightarrow> (if get_tag (ch_id s) name d \<noteq> None
                 then and_then (chat_commit d) (\<lambda>d. Inr (TagAlreadyExists, d)) else Inl e)
     | Inr (t, d) \<Rightarrow>
         and_then (touch_session (ch_id s) (he_now env) d) (\<lambda>d.
         and_then (chat_commit (chat_audit env ''chat.tag_added'' user ''chat_tag'' (tag_id t)
                     (tag_audit_metadata env name) d)) (\<lambda>d. Inr (TagCreated, d))))))"

definition service_delete_tag :: "chat_env \<Rightarrow> int \<Rightarrow> int \<Rightarrow> string \<Rightarrow> chat_db \<Rightarrow>
    chat_error + tag_result \<times> chat_db" where
  "service_delete_tag env user i tag d =
     and_then (writable_session env user i d) (\<lambda>s.
     and_then (normalize_tag_name tag) (\<lambda>name.
     and_then (delete_tag_row (ch_id s) name d) (\<lambda>(deleted, d).
     (case deleted of
        None \<Rightarrow> and_then (chat_commit d) (\<lambda>d. Inr (TagNotFound, d))
      | Some t \<Rightarrow> and_then (touch_session (ch_id s) (he_now env) d) (\<lambda>d.
          and_then (chat_commit (chat_audit env ''chat.tag_deleted'' user ''chat_tag'' t
                      (tag_audit_metadata env name) d)) (\<lambda>d. Inr (TagDeleted, d)))))))"

end
