(* ===== verification/Rag_Answer.thy ===== *)
theory Rag_Answer
  imports Answer_Generation Chat_Service Strategy_Router
begin

section \<open>Asking a question\<close>

text \<open>
  \<open>RagService.ask\<close> and \<open>RagService.search\<close> of \<open>backend/app/services/rag_service.py\<close>. A question
  is answered in two transactions: the first stores the question and a running retrieval run,
  the second retrieves, generates, stores the answer with its citations and closes the run, or
  closes the run as failed. Between them, while the models work, other requests may commit;
  \<open>ask_begin\<close> and \<open>ask_finish\<close> are therefore two functions, and \<open>ask\<close> runs them without
  interruption.

  Arguments are the retrieval, as a function of the run and the tables, and the fields of
  \<open>ask_env\<close>: the planner's query and the trace documents it writes, the strategies that are
  enabled, the test for injected instructions, the model's selection and the clocks. Logging,
  the latency tracker's figures and the export of traces are left out; the latency document is
  a field.
\<close>

record ask_request =
  aq_session :: int
  aq_client_id :: string
  aq_message :: string
  aq_model_key :: "string option"
  aq_top_k :: "nat option"
  aq_top_n :: "nat option"
  aq_strategy :: retrieval_strategy
  aq_filters :: retrieval_filters

record ask_env =
  ae_chat :: chat_env
  ae_retrieval :: retrieval_env
  ae_generation :: generation_env
  ae_router :: router_settings
  ae_sha256 :: "string \<Rightarrow> string"
  ae_provider :: string
  ae_model :: string
  ae_generator_ok :: "string \<Rightarrow> string \<Rightarrow> bool"
  ae_llm_enabled :: "retrieval_strategy \<Rightarrow> bool"
  ae_top_k_default :: nat
  ae_top_k_max :: nat
  ae_top_n_default :: nat
  ae_top_n_max :: nat
  ae_query_plan :: "ask_request \<Rightarrow> pyval pydict"
  ae_decision :: "ask_request \<Rightarrow> pyval pydict"
  ae_settings_doc :: "ask_request \<Rightarrow> pyval pydict"
  ae_latency :: "pyval pydict"
  ae_budget :: budget_policy
  ae_store_budget :: bool
  ae_budget_json :: "budget_trace \<Rightarrow> pyval pydict"
  ae_pack :: pack_policy
  ae_pack_json :: "evidence_pack \<Rightarrow> pyval pydict"
  ae_injection :: "string \<Rightarrow> bool"
  ae_confidence :: conf_settings
  ae_max_output :: nat

subsection \<open>Choosing the model and the limits\<close>

definition lmstudio_model_name :: "string \<Rightarrow> string" where
  "lmstudio_model_name v =
     (let normalized = py_strip v; lower = py_lower normalized in
      if lower = ''qwen3.5:9b'' then ''qwen3.5-9b''
      else if take (length ''https://huggingface.co/lmstudio-community/qwen3.5-4b-gguf'') lower =
              ''https://huggingface.co/lmstudio-community/qwen3.5-4b-gguf'' then ''qwen3.5-4b''
      else if take (length ''lmstudio-community/qwen3.5-4b-gguf'') lower =
              ''lmstudio-community/qwen3.5-4b-gguf'' then ''qwen3.5-4b''
      else if take (length ''https://huggingface.co/lmstudio-community/qwen3.5-9b-gguf'') lower =
              ''https://huggingface.co/lmstudio-community/qwen3.5-9b-gguf'' then ''qwen3.5-9b''
      else if take (length ''lmstudio-community/qwen3.5-9b-gguf'') lower =
              ''lmstudio-community/qwen3.5-9b-gguf'' then ''qwen3.5-9b''
      else normalized)"

definition resolved_model_name :: "string \<Rightarrow> string \<Rightarrow> string" where
  "resolved_model_name provider model =
     (if py_lower provider = ''lmstudio'' then lmstudio_model_name model else py_strip model)"

text \<open>\<open>str.partition\<close> at a separator that must be there.\<close>

definition partition_colon :: "string \<Rightarrow> (string \<times> string) option" where
  "partition_colon s = (let earlier = takeWhile (\<lambda>c. c \<noteq> CHR '':'') s in
     if earlier = s then None else Some (earlier, drop (length earlier + 1) s))"

definition known_providers :: "string list" where
  "known_providers = [''lmstudio'', ''openai'', ''anthropic'', ''gemini'', ''nvidia'', ''bedrock'']"

definition default_selection :: "ask_env \<Rightarrow> string \<times> string" where
  "default_selection env =
     (py_lower (ae_provider env), resolved_model_name (py_lower (ae_provider env)) (ae_model env))"

definition generation_selection :: "ask_env \<Rightarrow> ask_request \<Rightarrow> chat_error + string \<times> string" where
  "generation_selection env req = (case aq_model_key req of
     None \<Rightarrow> Inr (default_selection env)
   | Some key \<Rightarrow> (case partition_colon key of
       None \<Rightarrow> Inl (RagPipeline ''unsupported_model'' 422)
     | Some (p, m) \<Rightarrow>
         (let provider = (if py_lower p = ''google'' then ''gemini'' else py_lower p); model = py_strip m in
          if provider \<notin> set known_providers \<or> model = [] then Inl (RagPipeline ''unsupported_model'' 422)
          else if provider = ''lmstudio'' \<and> ae_provider env = ''fake'' then Inr (default_selection env)
          else Inr (provider, resolved_model_name provider model))))"

definition select_generator :: "ask_env \<Rightarrow> string \<times> string \<Rightarrow> chat_error + unit" where
  "select_generator env sel =
     (if sel = default_selection env \<or> ae_generator_ok env (fst sel) (snd sel) then Inr ()
      else Inl (RagPipeline ''unsupported_model'' 422))"

definition effective_limit_of :: "nat option \<Rightarrow> nat \<Rightarrow> nat \<Rightarrow> nat" where
  "effective_limit_of requested default_value max_value =
     min (min (case requested of None \<Rightarrow> default_value | Some n \<Rightarrow> if n = 0 then default_value else n)
        max_value) 20"

definition ask_top_k :: "ask_env \<Rightarrow> ask_request \<Rightarrow> nat" where
  "ask_top_k env req = effective_limit_of (aq_top_k req) (ae_top_k_default env) (ae_top_k_max env)"

definition ask_top_n :: "ask_env \<Rightarrow> ask_request \<Rightarrow> nat" where
  "ask_top_n env req = effective_limit_of (aq_top_n req) (ae_top_n_default env) (ae_top_n_max env)"

definition direct_strategy_enabled :: "ask_env \<Rightarrow> retrieval_strategy \<Rightarrow> bool" where
  "direct_strategy_enabled env s =
     (if s = StratHybrid then rs_hybrid_enabled (ae_router env) \<and>
          (\<not> 0 < re_sparse_weight (ae_retrieval env) \<or> rs_sparse_enabled (ae_router env))
      else if s = StratSparse then rs_sparse_enabled (ae_router env)
      else s = StratDense)"

definition ask_strategies :: "retrieval_strategy list" where
  "ask_strategies = [StratDense, StratHybrid, StratAgenticRouter, StratLlmToolOrchestrator,
     StratLangchainAgentic, StratLanggraphAgentic]"

definition ask_strategy_enabled :: "ask_env \<Rightarrow> retrieval_strategy \<Rightarrow> bool" where
  "ask_strategy_enabled env s =
     (s \<in> set ask_strategies \<and>
      (if s \<in> {StratLlmToolOrchestrator, StratLangchainAgentic, StratLanggraphAgentic} then ae_llm_enabled env s
       else s = StratAgenticRouter \<or> direct_strategy_enabled env s))"

subsection \<open>The response\<close>

record ask_response =
  as_user_message :: chat_message
  as_answer :: chat_message
  as_citations :: "ask_citation list"
  as_confidence :: ask_confidence
  as_run :: int
  as_replayed :: bool
  as_usage :: "token_usage option"

definition make_ask_response :: "chat_message \<Rightarrow> chat_message \<Rightarrow> citation_record list \<Rightarrow> retrieval_run \<Rightarrow>
    bool \<Rightarrow> token_usage option \<Rightarrow> chat_error + ask_response" where
  "make_ask_response user answer records run replayed usage = (case confidence_item run of
     None \<Rightarrow> Inl MissingConfidence
   | Some c \<Rightarrow> Inr \<lparr>as_user_message = user, as_answer = answer,
       as_citations = map (citation_view safe_display_text) records, as_confidence = c,
       as_run = run_id run, as_replayed = replayed, as_usage = usage\<rparr>)"

subsection \<open>The first transaction\<close>

definition classify_duplicate :: "ask_request \<Rightarrow> chat_message \<Rightarrow> chat_db \<Rightarrow> chat_error + ask_response" where
  "classify_duplicate req existing d =
     (if msg_content existing \<noteq> aq_message req then Inl ClientMessageConflict
      else (case get_latest_run_for_request_message (aq_session req) (msg_id existing) d of
        None \<Rightarrow> Inl RequestInProgress
      | Some run \<Rightarrow>
          if run_status run = RunRunning then Inl RequestInProgress
          else if run_status run = RunFailed then Inl ChatConflict
          else (case get_assistant_message_for_retrieval_run (aq_session req) (run_id run) d of
            None \<Rightarrow> Inl ChatConflict
          | Some answer \<Rightarrow> make_ask_response existing answer (list_citations_for_run (run_id run) d)
              run True None)))"

datatype ask_started = Replayed ask_response | Started chat_message int

definition new_ask_run :: "ask_env \<Rightarrow> ask_request \<Rightarrow> new_run" where
  "new_ask_run env req = \<lparr>nr_top_k = int (ask_top_k env req), nr_query_hash = ae_sha256 env (aq_message req),
     nr_http_request = he_request (ae_chat env), nr_started_at = he_now (ae_chat env),
     nr_strategy = aq_strategy req, nr_query_plan = Some (ae_query_plan env req),
     nr_decision = Some (ae_decision env req), nr_latency = None,
     nr_settings = Some (ae_settings_doc env req)\<rparr>"

definition store_question :: "ask_env \<Rightarrow> ask_request \<Rightarrow> chat_db \<Rightarrow>
    chat_error + (chat_message \<times> int) \<times> chat_db" where
  "store_question env req d =
     and_then (create_message (aq_session req) RoleUser (aq_message req) (Some (aq_client_id req)) None
         (he_db_now (ae_chat env)) d) (\<lambda>(m, d).
     and_then (create_chat_run (aq_session req) (msg_id m) (new_ask_run env req) (he_db_now (ae_chat env)) d)
       (\<lambda>(r, d).
     and_then (touch_session (aq_session req) (he_now (ae_chat env)) d) (\<lambda>d.
     and_then (chat_commit d) (\<lambda>d. Inr ((m, run_id r), d)))))"

text \<open>An \<open>IntegrityError\<close> may mean that a faster request stored the same question; it is looked up
  again in the tables as they were, since the transaction is rolled back.\<close>

definition ask_begin :: "ask_env \<Rightarrow> int \<Rightarrow> ask_request \<Rightarrow> chat_db \<Rightarrow> chat_error + ask_started \<times> chat_db" where
  "ask_begin env user req d =
     and_then (ensure_session_can_append_messages (ae_chat env) user (aq_session req) d) (\<lambda>_.
     (case get_user_message_by_client_message_id (aq_session req) (aq_client_id req) d of
        Some existing \<Rightarrow> and_then (classify_duplicate req existing d) (\<lambda>r. Inr (Replayed r, d))
      | None \<Rightarrow>
          and_then (generation_selection env req) (\<lambda>sel.
          and_then (select_generator env sel) (\<lambda>_.
          if \<not> ask_strategy_enabled env (aq_strategy req) then Inl (RagPipeline ''strategy_not_enabled'' 409)
          else (case store_question env req d of
            Inr ((m, run), d) \<Rightarrow> Inr (Started m run, d)
          | Inl ChatIntegrity \<Rightarrow>
              (case get_user_message_by_client_message_id (aq_session req) (aq_client_id req) d of
                 Some existing \<Rightarrow> and_then (classify_duplicate req existing d) (\<lambda>r. Inr (Replayed r, d))
               | None \<Rightarrow> Inl ChatConflict)
          | Inl e \<Rightarrow> Inl e)))))"

subsection \<open>Context and evidence\<close>

definition require_run :: "int \<Rightarrow> chat_db \<Rightarrow> pipeline_error + retrieval_run" where
  "require_run run d = (case get_run run d of None \<Rightarrow> Inl (OtherFailure MissingRun) | Some r \<Rightarrow> Inr r)"

definition budget_candidates :: "net_env \<Rightarrow> context_ref list \<Rightarrow> budget_candidate list" where
  "budget_candidates env refs = map (\<lambda>r. let h = cx_hit r in
     \<lparr>bc_run_item_id = ri_id (cx_item r), bc_chunk_id = chunk_id (kh_chunk h),
      bc_source_label = Some (answer_source_label env h),
      bc_section_title = safe_display_text (chunk_section (kh_chunk h)),
      bc_page_from = chunk_page_from (kh_chunk h), bc_page_to = chunk_page_to (kh_chunk h),
      bc_score = Some (Fin (round_rat (kh_score h))), bc_rank = Some (cx_rank r),
      bc_rerank_score = map_option (Fin \<circ> round_rat) (cx_rerank_score r),
      bc_rerank_order = cx_rerank_order r, bc_text = Some (clean_text (chunk_content (kh_chunk h))),
      bc_citation = cx_citation r,
      bc_group = ''logical_document:'' @ int_str (doc_id (kh_document h)),
      bc_retrieval_source = ri_source (cx_item r)\<rparr>) refs"

definition decision_field :: "retrieval_run \<Rightarrow> string \<Rightarrow> pyval option" where
  "decision_field r key = (case run_decision r of None \<Rightarrow> None | Some doc \<Rightarrow> map_of doc key)"

definition safe_string_value :: "pyval option \<Rightarrow> string option" where
  "safe_string_value v = (case v of Some (PStr s) \<Rightarrow> present (Some (safe_string 100 s)) | _ \<Rightarrow> None)"

definition budget_strategy :: "retrieval_run \<Rightarrow> strategy_summary" where
  "budget_strategy r = make_strategy_summary (Some (strategy_text (run_strategy r)))
     (safe_string_value (decision_field r ''selected_strategy''))
     (safe_string_value (decision_field r ''execution_strategy''))
     (case decision_field r ''tools_used'' of Some (PList xs) \<Rightarrow> PList xs | _ \<Rightarrow> PList [])"

definition store_budget :: "ask_env \<Rightarrow> int \<Rightarrow> budget_decision \<Rightarrow> chat_db \<Rightarrow> pipeline_error + chat_db" where
  "store_budget env run dec d =
     and_then (lift_pipeline (update_context_selection run (dec_selected_ids dec) d)) (\<lambda>d.
     if ae_store_budget env
     then lift_pipeline (update_retrieval_run_trace run
       (no_trace\<lparr>rt_context_budget := Some (ae_budget_json env (dec_trace dec))\<rparr>) d)
     else Inr d)"

definition apply_context_budget :: "ask_env \<Rightarrow> ask_request \<Rightarrow> int \<Rightarrow> pipeline_result \<Rightarrow> chat_db \<Rightarrow>
    pipeline_error + budget_decision \<times> chat_db" where
  "apply_context_budget env req run result d =
     and_then (require_run run d) (\<lambda>r.
     (let policy = (if pr_no_context result then (ae_budget env)\<lparr>pol_min_citations := 0\<rparr> else ae_budget env) in
      and_then (or_fail (OtherFailure InternalFailure)
          (budget_apply (budget_candidates (re_net (ae_retrieval env)) (pr_context result)) policy
            (int (estimate_tokens (aq_message req))) (Some (budget_strategy r)))) (\<lambda>dec.
      and_then (store_budget env run dec d) (\<lambda>d. Inr (dec, d)))))"

definition selected_refs :: "context_ref list \<Rightarrow> int list \<Rightarrow> context_ref list" where
  "selected_refs refs ids = filter (\<lambda>r. ri_id (cx_item r) \<in> set ids) refs"

definition context_citation_sources :: "ask_env \<Rightarrow> context_ref list \<Rightarrow> citation_source list" where
  "context_citation_sources env refs =
     map (\<lambda>(k, r). make_citation_source (re_net (ae_retrieval env)) (re_preview_max (ae_retrieval env))
         (cx_hit r) (cx_item r) (int k)) (enum_from 1 refs)"

definition evidence_candidate_of :: "net_env \<Rightarrow> context_ref \<Rightarrow> citation_source \<Rightarrow> evidence_candidate" where
  "evidence_candidate_of env r s = (let h = cx_hit r in
     \<lparr>ec_run_item_id = ri_id (cx_item r), ec_chunk_id = chunk_id (kh_chunk h), ec_local_id = src_local_id s,
      ec_text = Some (clean_text (chunk_content (kh_chunk h))),
      ec_source_label = Some (answer_source_label env h),
      ec_section_title = safe_display_text (chunk_section (kh_chunk h)),
      ec_page_from = chunk_page_from (kh_chunk h), ec_page_to = chunk_page_to (kh_chunk h),
      ec_score = Some (Fin (round_rat (kh_score h))),
      ec_rerank_score = map_option (Fin \<circ> round_rat) (cx_rerank_score r), ec_rank = Some (cx_rank r),
      ec_rerank_order = cx_rerank_order r,
      ec_group = ''logical_document:'' @ int_str (doc_id (kh_document h)), ec_citation = cx_citation r,
      ec_source = ri_source (cx_item r), ec_document_id = Some (doc_id (kh_document h)),
      ec_version_id = Some (ver_id (kh_version h))\<rparr>)"

definition evidence_candidates :: "net_env \<Rightarrow> context_ref list \<Rightarrow> citation_source list \<Rightarrow> evidence_candidate list" where
  "evidence_candidates env refs sources = List.map_filter
     (\<lambda>r. map_option (evidence_candidate_of env r)
        (map_of (rev (map (\<lambda>s. (src_run_item_id s, s)) sources)) (ri_id (cx_item r)))) refs"

definition answer_evidence :: "ask_env \<Rightarrow> int \<Rightarrow> context_ref list \<Rightarrow> citation_source list \<Rightarrow> nat \<Rightarrow> chat_db \<Rightarrow>
    pipeline_error + evidence_pack \<times> chat_db" where
  "answer_evidence env run refs sources total_candidates d =
     and_then (require_run run d) (\<lambda>_.
     and_then (or_fail (OtherFailure InternalFailure)
         (build_evidence_pack (ae_sha256 env) (ae_pack env)
           (evidence_candidates (re_net (ae_retrieval env)) refs sources) total_candidates)) (\<lambda>pack.
     and_then (if ep_store_trace (ae_pack env)
               then lift_pipeline (update_retrieval_run_trace run
                 (no_trace\<lparr>rt_compression := Some (ae_pack_json env pack)\<rparr>) d)
               else Inr d) (\<lambda>d. Inr (pack, d))))"

definition prompt_citation_sources :: "generation_item list \<Rightarrow> citation_source list \<Rightarrow> citation_source list" where
  "prompt_citation_sources items sources =
     filter (\<lambda>s. src_local_id s \<in> set (map gi_local_id items)) sources"

definition refs_for_sources :: "context_ref list \<Rightarrow> citation_source list \<Rightarrow> context_ref list" where
  "refs_for_sources refs sources =
     filter (\<lambda>r. ri_id (cx_item r) \<in> set (map src_run_item_id sources)) refs"

definition finalize_budget :: "ask_env \<Rightarrow> int \<Rightarrow> budget_decision \<Rightarrow> context_ref list \<Rightarrow> chat_db \<Rightarrow>
    pipeline_error + chat_db" where
  "finalize_budget env run dec refs d =
     (let ids = set (map (ri_id \<circ> cx_item) refs) in
      if set (dec_selected_ids dec) = ids then Inr d
      else and_then (or_fail (OtherFailure InternalFailure) (finalize_selection dec ids OverBudget)) (\<lambda>final.
           and_then (require_run run d) (\<lambda>_. store_budget env run final d)))"

definition injection_reason :: string where
  "injection_reason = ''injection_pattern_detected''"

definition reason_texts :: "pyval option \<Rightarrow> string list" where
  "reason_texts v = (case v of
     Some (PList xs) \<Rightarrow> map (\<lambda>x. case x of PStr s \<Rightarrow> s | _ \<Rightarrow> ''?'') xs | _ \<Rightarrow> [])"

text \<open>The reason codes are texts; the source would turn any other value into one.\<close>

definition record_injection_patterns :: "ask_env \<Rightarrow> int \<Rightarrow> string list \<Rightarrow> chat_db \<Rightarrow> pipeline_error + chat_db" where
  "record_injection_patterns env run texts d =
     (if \<not> list_ex (ae_injection env) texts then Inr d
      else and_then (require_run run d) (\<lambda>r. (case run_decision r of
         None \<Rightarrow> Inr d
       | Some doc \<Rightarrow>
           (let codes = reason_texts (map_of doc ''reason_codes'');
                codes' = (if injection_reason \<in> set codes then codes else codes @ [injection_reason]) in
            lift_pipeline (update_retrieval_run_trace run
              (no_trace\<lparr>rt_decision := Some (safe_dict
                 (AList.update ''reason_codes'' (PList (map PStr codes')) doc))\<rparr>) d)))))"

definition final_summary :: "score_summary \<Rightarrow> context_ref list \<Rightarrow> score_summary" where
  "final_summary s refs = (let scores = map (kh_score \<circ> cx_hit) refs in
     s\<lparr>sy_selected := int (length refs), sy_top1 := top1_score scores, sy_top3 := top3_average scores,
       sy_rerank1 := map_option round_rat (first_some (map cx_rerank_score refs))\<rparr>)"

subsection \<open>The second transaction\<close>

record prompt =
  pm_items :: "generation_item list"
  pm_sources :: "citation_source list"
  pm_summary :: score_summary

text \<open>From the retrieval to the prompt. A question without context ends here, with its traces.\<close>

definition build_prompt :: "ask_env \<Rightarrow> ask_request \<Rightarrow> int \<Rightarrow> pipeline_result \<Rightarrow> chat_db \<Rightarrow>
    pipeline_error + prompt option \<times> chat_db" where
  "build_prompt env req run result d =
     and_then (apply_context_budget env req run result d) (\<lambda>(dec, d).
     (let refs = selected_refs (pr_context result) (dec_selected_ids dec);
          sources = context_citation_sources env refs in
      and_then (answer_evidence env run refs sources (tr_candidate_count (dec_trace dec)) d) (\<lambda>(pack, d).
      if pr_no_context result \<or> pk_items pack = [] then Inr (None, d)
      else (let items = to_generation_context_items pack;
                prompt_sources = prompt_citation_sources items sources;
                prompt_refs = refs_for_sources refs prompt_sources in
        and_then (record_injection_patterns env run (map gi_text items) d) (\<lambda>d.
        and_then (finalize_budget env run dec prompt_refs d) (\<lambda>d.
        Inr (Some \<lparr>pm_items = items, pm_sources = prompt_sources,
               pm_summary = final_summary (pr_summary result) prompt_refs\<rparr>, d)))))))"

definition answer_confidence :: "ask_env \<Rightarrow> prompt \<Rightarrow> parsed_output \<Rightarrow> citation_source list \<Rightarrow> bool \<Rightarrow> conf_scores" where
  "answer_confidence env pm p cited fallback =
     (let c = calculate_confidence \<lparr>ci_retrieval = sy_top1 (pm_summary pm), ci_rerank = sy_rerank1 (pm_summary pm),
            ci_marker_count = int (length (po_markers p)), ci_unique_citations = int (length cited),
            ci_selected = int (length (pm_sources pm))\<rparr> (ae_confidence env) in
      if fallback then low_confidence (ae_confidence env) c else c)"

definition answer_outcome :: "ask_env \<Rightarrow> prompt \<Rightarrow> conf_scores \<Rightarrow> run_outcome" where
  "answer_outcome env pm c = \<lparr>ro_summary = summary_json (pm_summary pm),
     ro_rerank_top1 = map_option round_rat (sy_rerank1 (pm_summary pm)),
     ro_confidence = Some (round_rat (cs_answer c)), ro_groundedness = Some (round_rat (cs_grounded c)),
     ro_label = Some (cs_label c), ro_latency = Some (ae_latency env)\<rparr>"

definition store_answer :: "ask_env \<Rightarrow> ask_request \<Rightarrow> int \<Rightarrow> prompt \<Rightarrow> parsed_output \<Rightarrow> citation_source list \<Rightarrow>
    bool \<Rightarrow> chat_db \<Rightarrow> chat_error + (chat_message \<times> citation_record list) \<times> chat_db" where
  "store_answer env req run pm p cited fallback d =
     and_then (create_message (aq_session req) RoleAssistant (po_text p) None (Some run)
         (he_db_now (ae_chat env)) d) (\<lambda>(m, d).
     and_then (save_citations run (map make_citation_input cited) (he_db_now (ae_chat env)) d) (\<lambda>(_, d).
     (let records = list_citations_for_run run d in
      if get_run run d = None then Inl MissingRun
      else and_then (mark_run_succeeded run (answer_outcome env pm (answer_confidence env pm p cited fallback))
               (he_now (ae_chat env)) d) (\<lambda>d.
           and_then (touch_session (aq_session req) (he_now (ae_chat env)) d) (\<lambda>d.
           and_then (chat_commit d) (\<lambda>d. Inr ((m, records), d)))))))"

definition generate_answer :: "ask_env \<Rightarrow> ask_request \<Rightarrow> prompt \<Rightarrow>
    pipeline_error + (parsed_output \<times> citation_source list \<times> bool) \<times> token_usage option" where
  "generate_answer env req pm =
     and_then (generate_with_retry (ae_generation env)
         \<lparr>gr_message = aq_message req, gr_items = pm_items pm, gr_max_chars = ae_max_output env,
          gr_supported_retry = False\<rparr> (pm_summary pm)) (\<lambda>(g, allow).
     and_then (lift_citation (validated_generation_or_fallback (ae_generation env) (gn_content g)
         (pm_items pm) (pm_sources pm) allow)) (\<lambda>answer. Inr (answer, gn_usage g)))"

text \<open>Closing a run as failed. The first argument tells whether what the transaction did so far is
  rolled back or kept; a run that is gone is left alone.\<close>

definition mark_failed_safely :: "ask_env \<Rightarrow> int \<Rightarrow> string \<Rightarrow> chat_db \<Rightarrow> chat_error + chat_db" where
  "mark_failed_safely env run code d =
     (if get_run run d = None then Inr d
      else and_then (mark_run_failed run code (Some (ae_latency env)) (he_now (ae_chat env)) d) chat_commit)"

type_synonym answered = "(chat_message \<times> citation_record list) \<times> token_usage option"

datatype ask_result = Answered answered | Refused string nat

fun failure_code :: "pipeline_error \<Rightarrow> string" where
  "failure_code RetrievalFailed = ''retrieval_failed''"
| "failure_code RerankFailed = ''rerank_failed''"
| "failure_code GenerationFailed = ''generation_failed''"
| "failure_code CitationFailed = ''citation_build_failed''"
| "failure_code (OtherFailure e) = ''internal_error''"

fun failure_status :: "pipeline_error \<Rightarrow> nat" where
  "failure_status RetrievalFailed = 503"
| "failure_status RerankFailed = 503"
| "failure_status GenerationFailed = 503"
| "failure_status CitationFailed = 500"
| "failure_status (OtherFailure e) = 500"

text \<open>A failure of the model or of its citations keeps the items and the traces of the run; any other
  failure rolls them back.\<close>

definition keeps_traces :: "pipeline_error \<Rightarrow> bool" where
  "keeps_traces e = (e = GenerationFailed \<or> e = CitationFailed)"

definition refuse :: "ask_env \<Rightarrow> int \<Rightarrow> string \<Rightarrow> nat \<Rightarrow> chat_db \<Rightarrow> chat_error + ask_result \<times> chat_db" where
  "refuse env run code status d =
     and_then (mark_failed_safely env run code d) (\<lambda>d. Inr (Refused code status, d))"

definition refuse_for :: "ask_env \<Rightarrow> int \<Rightarrow> pipeline_error \<Rightarrow> chat_db \<Rightarrow> chat_db \<Rightarrow>
    chat_error + ask_result \<times> chat_db" where
  "refuse_for env run e earlier now =
     refuse env run (failure_code e) (failure_status e) (if keeps_traces e then now else earlier)"

type_synonym retrieval = "int \<Rightarrow> chat_db \<Rightarrow> pipeline_error + pipeline_result \<times> chat_db"

text \<open>The retrieval of a question that neither an orchestrator nor the agentic loop takes over, by the
  strategy it is executed with; a strategy without a retrieval of its own is served by the dense one.\<close>

definition retrieval_execution_strategy :: "retrieval_strategy \<Rightarrow> retrieval_strategy" where
  "retrieval_execution_strategy s = (if s = StratFallbackDense then StratDense
     else if s \<in> {StratDense, StratSparse, StratHybrid} then s else StratDense)"

definition retrieve_direct :: "ask_env \<Rightarrow> ask_request \<Rightarrow> string \<Rightarrow> retrieval_strategy \<Rightarrow> retrieval" where
  "retrieve_direct env req query execution run =
     (let re = ae_retrieval env; top_k = ask_top_k env req; top_n = ask_top_n env req in
      if retrieval_execution_strategy execution = StratSparse
      then retrieve_sparse re query top_k top_n (aq_filters req) run
      else if retrieval_execution_strategy execution = StratHybrid
      then retrieve_hybrid re query top_k top_n (aq_filters req) run
      else retrieve_and_rerank re query top_k top_n (aq_filters req)
        (if execution = StratFallbackDense then ''fallback_dense'' else ''dense'') run)"

definition ask_finish :: "ask_env \<Rightarrow> retrieval \<Rightarrow> ask_request \<Rightarrow> int \<Rightarrow> chat_db \<Rightarrow>
    chat_error + ask_result \<times> chat_db" where
  "ask_finish env retrieve req run d =
     (case and_then (retrieve run d) (\<lambda>(result, d1). build_prompt env req run result d1) of
        Inl e \<Rightarrow> refuse_for env run e d d
      | Inr (None, d2) \<Rightarrow> refuse env run ''no_context_found'' 422 d2
      | Inr (Some pm, d2) \<Rightarrow>
          (case generate_answer env req pm of
             Inl e \<Rightarrow> refuse_for env run e d d2
           | Inr ((p, cited, fallback), usage) \<Rightarrow>
               (case store_answer env req run pm p cited fallback d2 of
                  Inl e \<Rightarrow> refuse_for env run (OtherFailure e) d d2
                | Inr (stored, d3) \<Rightarrow> Inr (Answered (stored, usage), d3))))"

definition ask_response_of :: "chat_message \<Rightarrow> int \<Rightarrow> ask_result \<Rightarrow> chat_db \<Rightarrow> chat_error + ask_response" where
  "ask_response_of question run r d = (case r of
     Refused code status \<Rightarrow> Inl (RagPipeline code status)
   | Answered ((m, records), usage) \<Rightarrow> (case get_run run d of
       None \<Rightarrow> Inl MissingRun
     | Some x \<Rightarrow> make_ask_response question m records x False usage))"

definition ask :: "ask_env \<Rightarrow> retrieval \<Rightarrow> int \<Rightarrow> ask_request \<Rightarrow> chat_db \<Rightarrow>
    (chat_error + ask_response) \<times> chat_db" where
  "ask env retrieve user req d = (case ask_begin env user req d of
     Inl e \<Rightarrow> (Inl e, d)
   | Inr (Replayed r, d1) \<Rightarrow> (Inr r, d1)
   | Inr (Started m run, d1) \<Rightarrow> (case ask_finish env retrieve req run d1 of
       Inl e \<Rightarrow> (Inl e, d1)
     | Inr (r, d2) \<Rightarrow> (ask_response_of m run r d2, d2)))"

end
