(* ===== verification/Chat_Deletion.thy ===== *)
theory Chat_Deletion
  imports Chat_Service
begin

section \<open>Deleting a conversation\<close>

text \<open>
  The statements of a deletion one by one: each keeps the constraints that are checked at once,
  given what the statements before it removed. Together they make the deletion of a session a
  single update of the tables, \<open>without_session\<close>, that no constraint can refuse.
\<close>

named_theorems now_ok \<open>statements that keep the constraints\<close>

subsection \<open>Rows of a table\<close>

lemma set_update_rows: "set (update_rows p f rows) = (\<lambda>r. if p r then f r else r) ` set rows"
  by (simp add: update_rows_def)

lemma update_rows_none: "(\<And>r. r \<in> set rows \<Longrightarrow> \<not> p r) \<Longrightarrow> update_rows p f rows = rows"
  by (induction rows) (auto simp: update_rows_def)

lemma map_update_rows: "(\<And>r. g (f r) = g r) \<Longrightarrow> map g (update_rows p f rows) = map g rows"
  by (simp add: update_rows_def)

lemma list_all_update_rows: "list_all q rows \<Longrightarrow> (\<And>r. r \<in> set rows \<Longrightarrow> p r \<Longrightarrow> q r \<Longrightarrow> q (f r)) \<Longrightarrow>
    list_all q (update_rows p f rows)"
  by (auto simp: list_all_iff set_update_rows)

lemma ball_image: "(\<forall>x\<in>(\<lambda>r. if p r then f r else r) ` A. q x) \<longleftrightarrow>
    (\<forall>r\<in>A. if p r then q (f r) else q r)"
  by auto

lemma list_all_filter: "list_all q rows \<Longrightarrow> list_all q (filter p rows)"
  by (auto simp: list_all_iff)

lemma filter_update_rows_away:
  "(\<And>r. r \<in> set rows \<Longrightarrow> p r \<Longrightarrow> \<not> q (f r)) \<Longrightarrow> (\<And>r. r \<in> set rows \<Longrightarrow> p r \<Longrightarrow> \<not> q r) \<Longrightarrow>
   filter q (update_rows p f rows) = filter q rows"
  by (induction rows) (auto simp: update_rows_def)

lemma distinct_map_filter_conj:
  "distinct (map g (filter q rows)) \<Longrightarrow> distinct (map g (filter (\<lambda>x. p x \<and> q x) rows))"
  using distinct_map_filter[of g "filter q rows" p] by (simp add: conj_commute)

subsection \<open>One statement\<close>

lemma now_ok_citations [now_ok]:
  "chat_now_ok d \<Longrightarrow> chat_now_ok (d\<lparr>ct_citations := filter p (ct_citations d)\<rparr>)"
  by (auto simp: chat_now_ok_def chat_table_defs chat_key_defs null_or_in_iff list_all_iff distinct_map_filter)

lemma now_ok_evals [now_ok]:
  "chat_now_ok d \<Longrightarrow> chat_now_ok (d\<lparr>ct_evals := update_rows p (\<lambda>v. v\<lparr>ev_run_id := None\<rparr>) (ct_evals d)\<rparr>)"
  by (auto simp: chat_now_ok_def chat_table_defs chat_key_defs null_or_in_iff list_all_iff set_update_rows)

lemma now_ok_items [now_ok]:
  assumes "chat_now_ok d" "\<forall>c\<in>set (ct_citations d). cit_run_id c \<notin> set runs"
  shows "chat_now_ok (d\<lparr>ct_items := filter (\<lambda>x. ri_run_id x \<notin> set runs) (ct_items d)\<rparr>)" (is "chat_now_ok ?d")
proof -
  have "items_table ?d" using assms(1)
    by (auto simp: chat_now_ok_def items_table_def chat_key_defs list_all_iff distinct_map_filter
        intro: distinct_map_filter_conj)
  moreover have "citations_table ?d" using assms
    by (fastforce simp: chat_now_ok_def citations_table_def chat_key_defs list_all_iff)
  ultimately show ?thesis using assms(1) by (simp add: chat_now_ok_def chat_table_defs chat_key_defs)
qed

lemma now_ok_unlink [now_ok]:
  assumes "chat_now_ok d"
  shows "chat_now_ok (d\<lparr>ct_messages := update_rows p (\<lambda>m. m\<lparr>msg_run_id := None\<rparr>) (ct_messages d)\<rparr>)"
proof -
  let ?ms = "update_rows p (\<lambda>m. m\<lparr>msg_run_id := None\<rparr>) (ct_messages d)"
  have keys: "map client_key (filter (\<lambda>m. msg_client_id m \<noteq> None) ?ms)
      = map client_key (filter (\<lambda>m. msg_client_id m \<noteq> None) (ct_messages d))"
    by (induction "ct_messages d" arbitrary: d) (auto simp: update_rows_def client_key_def filter_map o_def intro!: map_cong)
  then show ?thesis
    using assms unfolding chat_now_ok_def chat_table_defs chat_key_defs null_or_in_iff list_all_iff
    by (simp add: map_update_rows set_update_rows ball_image ck_chat_message_def del: set_map if_image_distrib)
qed

lemma ck_run_detached: "ck_run r \<Longrightarrow> ck_run (r\<lparr>run_session_id := None, run_request_id := None\<rparr>)"
  by (auto simp: ck_run_def split: option.splits)

lemma now_ok_detach [now_ok]:
  assumes "chat_now_ok d"
  shows "chat_now_ok (d\<lparr>ct_runs := update_rows p (\<lambda>r. r\<lparr>run_session_id := None, run_request_id := None\<rparr>) (ct_runs d)\<rparr>)"
  using assms unfolding chat_now_ok_def chat_table_defs chat_key_defs null_or_in_iff list_all_iff
  by (simp add: map_update_rows set_update_rows ball_image ck_run_detached del: set_map if_image_distrib)

lemma now_ok_memories [now_ok]:
  "chat_now_ok d \<Longrightarrow> chat_now_ok (d\<lparr>ct_memories := filter p (ct_memories d)\<rparr>)"
  by (auto simp: chat_now_ok_def chat_table_defs chat_key_defs null_or_in_iff list_all_iff distinct_map_filter)

lemma now_ok_tags [now_ok]:
  "chat_now_ok d \<Longrightarrow> chat_now_ok (d\<lparr>ct_tags := filter p (ct_tags d)\<rparr>)"
  by (auto simp: chat_now_ok_def chat_table_defs chat_key_defs null_or_in_iff list_all_iff distinct_map_filter)

lemma now_ok_messages [now_ok]:
  assumes "chat_now_ok d" "\<forall>m\<in>set (ct_memories d). mem_session_id m \<noteq> i"
  shows "chat_now_ok (d\<lparr>ct_messages := filter (\<lambda>m. msg_session_id m \<noteq> i) (ct_messages d)\<rparr>)" (is "chat_now_ok ?d")
proof -
  have "messages_table ?d" using assms(1)
    by (auto simp: chat_now_ok_def messages_table_def chat_key_defs list_all_iff distinct_map_filter
        intro: distinct_map_filter_conj)
  moreover have "memories_table ?d" using assms
    by (fastforce simp: chat_now_ok_def memories_table_def chat_key_defs list_all_iff)
  ultimately show ?thesis using assms(1) by (simp add: chat_now_ok_def chat_table_defs chat_key_defs)
qed

lemma now_ok_runs [now_ok]:
  assumes "chat_now_ok d" "\<forall>x\<in>set (ct_items d). ri_run_id x \<notin> set runs"
    "\<forall>v\<in>set (ct_evals d). \<forall>r. ev_run_id v = Some r \<longrightarrow> r \<notin> set runs"
  shows "chat_now_ok (d\<lparr>ct_runs := filter (\<lambda>r. run_id r \<notin> set runs) (ct_runs d),
      ct_paths := filter (\<lambda>p. gp_run_id p \<notin> set runs) (ct_paths d)\<rparr>)" (is "chat_now_ok ?d")
proof -
  have "runs_table ?d" using assms(1)
    by (auto simp: chat_now_ok_def runs_table_def chat_key_defs list_all_iff distinct_map_filter)
  moreover have "items_table ?d" using assms
    by (fastforce simp: chat_now_ok_def items_table_def chat_key_defs list_all_iff)
  moreover have "evals_table ?d" using assms
    by (fastforce simp: chat_now_ok_def evals_table_def chat_key_defs list_all_iff null_or_in_iff)
  moreover have "paths_table ?d" using assms
    by (fastforce simp: chat_now_ok_def paths_table_def chat_key_defs list_all_iff)
  ultimately show ?thesis using assms(1) by (simp add: chat_now_ok_def chat_table_defs chat_key_defs)
qed

lemma now_ok_sessions [now_ok]:
  assumes "chat_now_ok d" "\<forall>m\<in>set (ct_messages d). msg_session_id m \<noteq> i"
    "\<forall>m\<in>set (ct_tags d). tag_session_id m \<noteq> i" "\<forall>m\<in>set (ct_memories d). mem_session_id m \<noteq> i"
    "\<forall>r\<in>set (ct_runs d). run_session_id r \<noteq> Some i"
  shows "chat_now_ok (d\<lparr>ct_sessions := filter (\<lambda>s. ch_id s \<noteq> i) (ct_sessions d)\<rparr>)" (is "chat_now_ok ?d")
proof -
  have "sessions_table ?d" using assms(1)
    by (auto simp: chat_now_ok_def sessions_table_def chat_key_defs list_all_iff distinct_map_filter)
  moreover have "messages_table ?d" "tags_table ?d" "memories_table ?d" using assms
    by (fastforce simp: chat_now_ok_def messages_table_def tags_table_def memories_table_def
        chat_key_defs list_all_iff)+
  moreover have "runs_table ?d" using assms
    by (fastforce simp: chat_now_ok_def runs_table_def chat_key_defs list_all_iff null_or_in_iff)
  ultimately show ?thesis using assms(1) by (simp add: chat_now_ok_def chat_table_defs chat_key_defs)
qed

subsection \<open>The deletion as one update\<close>

definition without_session :: "int \<Rightarrow> chat_db \<Rightarrow> chat_db" where
  "without_session i d =
     (let gone = set (session_runs i d) in
      d\<lparr>ct_citations := filter (\<lambda>c. cit_run_id c \<notin> gone) (ct_citations d),
        ct_evals := update_rows (\<lambda>v. ev_run_id v \<noteq> None \<and> the (ev_run_id v) \<in> gone)
          (\<lambda>v. v\<lparr>ev_run_id := None\<rparr>) (ct_evals d),
        ct_items := filter (\<lambda>x. ri_run_id x \<notin> gone) (ct_items d),
        ct_paths := filter (\<lambda>p. gp_run_id p \<notin> gone) (ct_paths d),
        ct_memories := filter (\<lambda>m. mem_session_id m \<noteq> i) (ct_memories d),
        ct_tags := filter (\<lambda>t. tag_session_id t \<noteq> i) (ct_tags d),
        ct_messages := filter (\<lambda>m. msg_session_id m \<noteq> i) (ct_messages d),
        ct_runs := filter (\<lambda>r. run_session_id r \<noteq> Some i) (ct_runs d),
        ct_sessions := filter (\<lambda>s. ch_id s \<noteq> i) (ct_sessions d)\<rparr>)"

lemma session_runs_iff: "k \<in> set (session_runs i d) \<longleftrightarrow> (\<exists>r\<in>set (ct_runs d). run_id r = k \<and> run_session_id r = Some i)"
  by (auto simp: session_runs_def)

text \<open>Without the constraints, only the runs of the session are detached.\<close>

definition detached :: "int \<Rightarrow> chat_db \<Rightarrow> chat_db" where
  "detached i d =
     (let gone = set (session_runs i d) in
      d\<lparr>ct_citations := filter (\<lambda>c. cit_run_id c \<notin> gone) (ct_citations d),
        ct_evals := update_rows (\<lambda>v. ev_run_id v \<noteq> None \<and> the (ev_run_id v) \<in> gone)
          (\<lambda>v. v\<lparr>ev_run_id := None\<rparr>) (ct_evals d),
        ct_items := filter (\<lambda>x. ri_run_id x \<notin> gone) (ct_items d),
        ct_messages := update_rows (\<lambda>m. msg_session_id m = i) (\<lambda>m. m\<lparr>msg_run_id := None\<rparr>) (ct_messages d),
        ct_runs := update_rows (\<lambda>r. run_id r \<in> gone)
          (\<lambda>r. r\<lparr>run_session_id := None, run_request_id := None\<rparr>) (ct_runs d)\<rparr>)"

lemma detach_runs_detached:
  assumes "chat_now_ok d"
  shows "detach_runs i (session_runs i d) d = Inr (detached i d) \<and> chat_now_ok (detached i d)"
proof -
  let ?gone = "session_runs i d"
  define d1 where "d1 = d\<lparr>ct_citations := filter (\<lambda>c. cit_run_id c \<notin> set ?gone) (ct_citations d)\<rparr>"
  define d2 where "d2 = d1\<lparr>ct_evals := update_rows (\<lambda>v. ev_run_id v \<noteq> None \<and> the (ev_run_id v) \<in> set ?gone)
    (\<lambda>v. v\<lparr>ev_run_id := None\<rparr>) (ct_evals d1)\<rparr>"
  define d3 where "d3 = d2\<lparr>ct_items := filter (\<lambda>x. ri_run_id x \<notin> set ?gone) (ct_items d2)\<rparr>"
  define d4 where "d4 = d3\<lparr>ct_messages := update_rows (\<lambda>m. msg_session_id m = i)
    (\<lambda>m. m\<lparr>msg_run_id := None\<rparr>) (ct_messages d3)\<rparr>"
  define d5 where "d5 = d4\<lparr>ct_runs := update_rows (\<lambda>r. run_id r \<in> set ?gone)
    (\<lambda>r. r\<lparr>run_session_id := None, run_request_id := None\<rparr>) (ct_runs d4)\<rparr>"
  have "chat_now_ok d1" "chat_now_ok d2" unfolding d2_def d1_def using assms by (simp_all only: now_ok)
  moreover have "chat_now_ok d3" unfolding d3_def
    by (rule now_ok_items) (use \<open>chat_now_ok d2\<close> in \<open>simp_all add: d2_def d1_def\<close>)
  moreover have "chat_now_ok d4" "chat_now_ok d5" unfolding d5_def d4_def using \<open>chat_now_ok d3\<close> by (simp_all only: now_ok)
  moreover from calculation have stmt: "chat_statement d1 = Inr d1" "chat_statement d2 = Inr d2"
    "chat_statement d3 = Inr d3" "chat_statement d4 = Inr d4" "chat_statement d5 = Inr d5"
    by (simp_all add: chat_statement_def)
  have "detach_runs i ?gone d = Inr d5"
    unfolding detach_runs_def d1_def[symmetric] stmt and_then_simps d2_def[symmetric] d3_def[symmetric]
      d4_def[symmetric] d5_def[symmetric] ..
  moreover have "d5 = detached i d" by (simp add: d5_def d4_def d3_def d2_def d1_def detached_def Let_def)
  ultimately show ?thesis by simp
qed

text \<open>The deletion after the runs are detached, if there are any.\<close>

lemma delete_after_detach:
  assumes ok: "chat_now_ok d" and gone: "\<forall>c\<in>set (ct_citations d). cit_run_id c \<notin> set runs"
    "\<forall>x\<in>set (ct_items d). ri_run_id x \<notin> set runs"
    "\<forall>v\<in>set (ct_evals d). \<forall>r. ev_run_id v = Some r \<longrightarrow> r \<notin> set runs"
    and free: "\<forall>r\<in>set (ct_runs d). run_session_id r \<noteq> Some i"
    "\<forall>m\<in>set (ct_messages d). msg_session_id m \<noteq> i \<longrightarrow> (\<forall>r. msg_run_id m = Some r \<longrightarrow> r \<notin> set runs)"
  shows "and_then (chat_statement (d\<lparr>ct_memories := filter (\<lambda>m. mem_session_id m \<noteq> i) (ct_memories d)\<rparr>)) (\<lambda>d.
      and_then (chat_statement (d\<lparr>ct_tags := filter (\<lambda>t. tag_session_id t \<noteq> i) (ct_tags d)\<rparr>)) (\<lambda>d.
      and_then (delete_messages i d) (\<lambda>d.
      and_then (if runs \<noteq> [] then delete_runs runs d else Inr d) (\<lambda>d.
      chat_statement (d\<lparr>ct_sessions := filter (\<lambda>s. ch_id s \<noteq> i) (ct_sessions d)\<rparr>))))) =
    Inr (d\<lparr>ct_memories := filter (\<lambda>m. mem_session_id m \<noteq> i) (ct_memories d),
      ct_tags := filter (\<lambda>t. tag_session_id t \<noteq> i) (ct_tags d),
      ct_messages := filter (\<lambda>m. msg_session_id m \<noteq> i) (ct_messages d),
      ct_runs := filter (\<lambda>r. run_id r \<notin> set runs) (ct_runs d),
      ct_paths := filter (\<lambda>p. gp_run_id p \<notin> set runs) (ct_paths d),
      ct_sessions := filter (\<lambda>s. ch_id s \<noteq> i) (ct_sessions d)\<rparr>)"
proof -
  define d1 where "d1 = d\<lparr>ct_memories := filter (\<lambda>m. mem_session_id m \<noteq> i) (ct_memories d)\<rparr>"
  define d2 where "d2 = d1\<lparr>ct_tags := filter (\<lambda>t. tag_session_id t \<noteq> i) (ct_tags d1)\<rparr>"
  define d3 where "d3 = d2\<lparr>ct_messages := filter (\<lambda>m. msg_session_id m \<noteq> i) (ct_messages d2)\<rparr>"
  define d4 where "d4 = d3\<lparr>ct_runs := filter (\<lambda>r. run_id r \<notin> set runs) (ct_runs d3),
    ct_paths := filter (\<lambda>p. gp_run_id p \<notin> set runs) (ct_paths d3)\<rparr>"
  define d5 where "d5 = d4\<lparr>ct_sessions := filter (\<lambda>s. ch_id s \<noteq> i) (ct_sessions d4)\<rparr>"
  note defs = d1_def d2_def d3_def d4_def d5_def
  have ok2: "chat_now_ok d1" "chat_now_ok d2" unfolding d2_def d1_def using ok by (simp_all only: now_ok)
  have ok3: "chat_now_ok d3" unfolding d3_def by (rule now_ok_messages[OF ok2(2)]) (simp add: d2_def d1_def)
  have ok4: "chat_now_ok d4" unfolding d4_def
    by (rule now_ok_runs[OF ok3]) (use gone in \<open>simp_all add: d3_def d2_def d1_def\<close>)
  have ok5: "chat_now_ok d5" unfolding d5_def
    by (rule now_ok_sessions[OF ok4]) (use free in \<open>auto simp: d4_def d3_def d2_def d1_def\<close>)
  have "\<not> list_ex (\<lambda>r. run_session_id r = Some i \<and> run_request_id r \<noteq> None \<and>
      (i, the (run_request_id r)) \<in> set (message_keys d2)) (ct_runs d2)"
    using free(1) by (auto simp: list_ex_iff d2_def d1_def)
  then have "delete_messages i d2 = Inr d3"
    using ok3 unfolding delete_messages_def d3_def[symmetric] by (simp add: chat_statement_def)
  moreover have "(if runs \<noteq> [] then delete_runs runs d3 else Inr d3) = Inr d4"
  proof (cases "runs = []")
    case True
    then show ?thesis by (simp add: d4_def)
  next
    case False
    have "\<not> list_ex (\<lambda>m. msg_run_id m \<noteq> None \<and> the (msg_run_id m) \<in> set runs \<and>
        (Some (msg_session_id m), the (msg_run_id m)) \<in> set (run_keys d3)) (ct_messages d3)"
      using free(2) by (auto simp: list_ex_iff d3_def d2_def d1_def)
    then show ?thesis using ok4 False unfolding delete_runs_def d4_def[symmetric] by (simp add: chat_statement_def)
  qed
  moreover have "chat_statement d1 = Inr d1" "chat_statement d2 = Inr d2" "chat_statement d5 = Inr d5"
    using ok2 ok5 by (simp_all add: chat_statement_def)
  ultimately have "and_then (chat_statement d1) (\<lambda>d.
      and_then (chat_statement (d\<lparr>ct_tags := filter (\<lambda>t. tag_session_id t \<noteq> i) (ct_tags d)\<rparr>)) (\<lambda>d.
      and_then (delete_messages i d) (\<lambda>d.
      and_then (if runs \<noteq> [] then delete_runs runs d else Inr d) (\<lambda>d.
      chat_statement (d\<lparr>ct_sessions := filter (\<lambda>s. ch_id s \<noteq> i) (ct_sessions d)\<rparr>))))) = Inr d5"
    by (simp only: and_then_simps d2_def[symmetric] d5_def[symmetric])
  then show ?thesis by (simp add: defs)
qed

lemma same_run:
  assumes "chat_now_ok d" "r \<in> set (ct_runs d)" "s \<in> set (ct_runs d)" "run_id r = run_id s"
  shows "r = s"
  using assms by (auto simp: chat_now_ok_def runs_table_def run_ids_def distinct_map dest: inj_onD)

lemma linked_run:
  assumes "chat_deferred_ok d" "m \<in> set (ct_messages d)" "msg_run_id m = Some k"
  obtains r where "r \<in> set (ct_runs d)" "run_id r = k" "run_session_id r = Some (msg_session_id m)"
proof -
  have "link_refers d m" using assms by (simp add: chat_deferred_ok_def list_all_iff)
  then show thesis using assms(3) that by (auto simp: link_refers_def run_keys_def)
qed

lemma requested_message:
  assumes "chat_deferred_ok d" "r \<in> set (ct_runs d)" "run_session_id r = Some i" "run_request_id r = Some k"
  shows "(i, k) \<in> set (message_keys d)"
proof -
  have "request_refers d r" using assms by (simp add: chat_deferred_ok_def list_all_iff)
  then show ?thesis using assms(3,4) by (simp add: request_refers_def)
qed

lemma unlinked_elsewhere:
  assumes "chat_now_ok d" "chat_deferred_ok d" "m \<in> set (ct_messages d)" "msg_session_id m \<noteq> i"
    "msg_run_id m = Some k"
  shows "k \<notin> set (session_runs i d)"
proof
  assume "k \<in> set (session_runs i d)"
  then obtain s where s: "s \<in> set (ct_runs d)" "run_id s = k" "run_session_id s = Some i"
    by (auto simp: session_runs_iff)
  obtain r where "r \<in> set (ct_runs d)" "run_id r = k" "run_session_id r = Some (msg_session_id m)"
    using linked_run[OF assms(2,3,5)] .
  with s have "r = s" using same_run[OF assms(1)] by metis
  with s \<open>run_session_id r = _\<close> assms(4) show False by simp
qed

lemma filter_gone_runs:
  assumes "chat_now_ok d"
  shows "filter (\<lambda>r. run_id r \<notin> set (session_runs i d)) (ct_runs d) = filter (\<lambda>r. run_session_id r \<noteq> Some i) (ct_runs d)"
proof (rule filter_cong[OF refl])
  fix r assume "r \<in> set (ct_runs d)"
  then show "(run_id r \<notin> set (session_runs i d)) = (run_session_id r \<noteq> Some i)"
    using same_run[OF assms] by (auto simp: session_runs_iff)
qed

lemma filter_update_rows:
  "(\<And>r. p r \<Longrightarrow> \<not> q r) \<Longrightarrow> (\<And>r. p r \<Longrightarrow> q (f r) = q r) \<Longrightarrow> filter q (update_rows p f rows) = filter q rows"
  unfolding update_rows_def by (induction rows) auto

text \<open>The rows of a detached database which the later statements keep are those of the original.\<close>

lemma detached_runs_kept:
  "filter (\<lambda>r. run_id r \<notin> set runs) (update_rows (\<lambda>r. run_id r \<in> set runs)
     (\<lambda>r. r\<lparr>run_session_id := None, run_request_id := None\<rparr>) rows) = filter (\<lambda>r. run_id r \<notin> set runs) rows"
  by (rule filter_update_rows) auto

lemma detached_messages_kept:
  "filter (\<lambda>m. msg_session_id m \<noteq> i) (update_rows (\<lambda>m. msg_session_id m = i)
     (\<lambda>m. m\<lparr>msg_run_id := None\<rparr>) rows) = filter (\<lambda>m. msg_session_id m \<noteq> i) rows"
  by (rule filter_update_rows) auto

lemma detached_gone:
  assumes "chat_now_ok d" "chat_deferred_ok d"
  shows "\<forall>c\<in>set (ct_citations (detached i d)). cit_run_id c \<notin> set (session_runs i d)"
    "\<forall>x\<in>set (ct_items (detached i d)). ri_run_id x \<notin> set (session_runs i d)"
    "\<forall>v\<in>set (ct_evals (detached i d)). \<forall>r. ev_run_id v = Some r \<longrightarrow> r \<notin> set (session_runs i d)"
    "\<forall>r\<in>set (ct_runs (detached i d)). run_session_id r \<noteq> Some i"
    "\<forall>m\<in>set (ct_messages (detached i d)). msg_session_id m \<noteq> i \<longrightarrow>
       (\<forall>r. msg_run_id m = Some r \<longrightarrow> r \<notin> set (session_runs i d))"
  using unlinked_elsewhere[OF assms]
  by (auto simp: detached_def Let_def set_update_rows session_runs_iff split: if_splits)

lemma no_runs_detached: "session_runs i d = [] \<Longrightarrow> chat_now_ok d \<Longrightarrow> chat_deferred_ok d \<Longrightarrow> detached i d = d"
proof -
  assume none: "session_runs i d = []" and ok: "chat_now_ok d" "chat_deferred_ok d"
  have free: "msg_run_id m = None" if "m \<in> set (ct_messages d)" "msg_session_id m = i" for m
  proof (rule ccontr)
    assume "msg_run_id m \<noteq> None"
    then obtain k where "msg_run_id m = Some k" by auto
    from linked_run[OF ok(2) that(1) this] that(2) have "\<exists>r\<in>set (ct_runs d). run_session_id r = Some i" by metis
    then show False using none by (auto simp: session_runs_def filter_empty_conv)
  qed
  have "update_rows (\<lambda>m. msg_session_id m = i) (\<lambda>m. m\<lparr>msg_run_id := None\<rparr>) (ct_messages d) = ct_messages d"
    unfolding update_rows_def by (rule map_idI) (use free in auto)
  then show ?thesis by (simp add: detached_def none update_rows_def)
qed

text \<open>In a database whose constraints hold the deletion is never refused, and its five to ten
  statements make the one update \<open>without_session\<close>.\<close>

theorem delete_session_rows_is:
  assumes ok: "chat_now_ok d" "chat_deferred_ok d"
  shows "delete_session_rows i d = Inr (without_session i d)"
proof -
  let ?runs = "session_runs i d"
  have first: "(if ?runs \<noteq> [] then detach_runs i ?runs d else Inr d) = Inr (detached i d)"
    using detach_runs_detached[OF ok(1), of i] no_runs_detached[OF _ ok] by auto
  have "delete_session_rows i d = Inr ((detached i d)\<lparr>
      ct_memories := filter (\<lambda>m. mem_session_id m \<noteq> i) (ct_memories (detached i d)),
      ct_tags := filter (\<lambda>t. tag_session_id t \<noteq> i) (ct_tags (detached i d)),
      ct_messages := filter (\<lambda>m. msg_session_id m \<noteq> i) (ct_messages (detached i d)),
      ct_runs := filter (\<lambda>r. run_id r \<notin> set ?runs) (ct_runs (detached i d)),
      ct_paths := filter (\<lambda>p. gp_run_id p \<notin> set ?runs) (ct_paths (detached i d)),
      ct_sessions := filter (\<lambda>s. ch_id s \<noteq> i) (ct_sessions (detached i d))\<rparr>)"
    unfolding delete_session_rows_def Let_def first and_then_simps
    by (rule delete_after_detach)
      (use detach_runs_detached[OF ok(1), of i] detached_gone[OF ok, of i] in simp_all)
  also have "\<dots> = Inr (without_session i d)"
    by (simp add: detached_def without_session_def Let_def detached_runs_kept detached_messages_kept
        filter_gone_runs[OF ok(1)])
  finally show ?thesis .
qed

end
