(* ===== verification/Chat_Lifecycle.thy ===== *)
theory Chat_Lifecycle
  imports Chat_Deletion
begin

section \<open>Requests on conversations\<close>

text \<open>
  Every operation of the chat service as one datatype of requests, with what each keeps: the
  constraints, the deferred references and the sequences. A request that is refused leaves the
  tables as they were, since its transaction is rolled back.
\<close>

subsection \<open>What a commit finds\<close>

lemma add_audit_log_chunks [simp]: "db_chunks (add_audit_log a d) = db_chunks d"
  by (simp add: add_audit_log_def)

lemma chat_audit_frame [simp]:
  "ct_sessions (chat_audit env a u t i md d) = ct_sessions d"
  "ct_messages (chat_audit env a u t i md d) = ct_messages d"
  "ct_tags (chat_audit env a u t i md d) = ct_tags d"
  "ct_memories (chat_audit env a u t i md d) = ct_memories d"
  "ct_runs (chat_audit env a u t i md d) = ct_runs d"
  "ct_items (chat_audit env a u t i md d) = ct_items d"
  "ct_citations (chat_audit env a u t i md d) = ct_citations d"
  "ct_evals (chat_audit env a u t i md d) = ct_evals d"
  "ct_paths (chat_audit env a u t i md d) = ct_paths d"
  "ct_next_session (chat_audit env a u t i md d) = ct_next_session d"
  "ct_next_message (chat_audit env a u t i md d) = ct_next_message d"
  "ct_next_tag (chat_audit env a u t i md d) = ct_next_tag d"
  "ct_next_run (chat_audit env a u t i md d) = ct_next_run d"
  "ct_next_item (chat_audit env a u t i md d) = ct_next_item d"
  "ct_next_citation (chat_audit env a u t i md d) = ct_next_citation d"
  "db_chunks (ct_rest (chat_audit env a u t i md d)) = db_chunks (ct_rest d)"
  "db_users (ct_rest (chat_audit env a u t i md d)) = db_users (ct_rest d)"
  by (simp_all add: chat_audit_def audit_def)

lemma deferred_cong:
  assumes "ct_messages d' = ct_messages d" "ct_runs d' = ct_runs d"
  shows "chat_deferred_ok d' = chat_deferred_ok d"
proof -
  have keys: "run_keys d' = run_keys d" "message_keys d' = message_keys d"
    by (simp_all add: run_keys_def message_keys_def assms)
  have "link_refers d' = link_refers d" "request_refers d' = request_refers d"
    unfolding fun_eq_iff link_refers_def request_refers_def keys by simp_all
  then show ?thesis by (simp add: chat_deferred_ok_def assms)
qed

lemma chat_audit_ok [simp]:
  "chat_now_ok (chat_audit env a u t i md d) = chat_now_ok d"
  "chat_deferred_ok (chat_audit env a u t i md d) = chat_deferred_ok d"
  "chat_sequences (chat_audit env a u t i md d) = chat_sequences d"
proof -
  show "chat_now_ok (chat_audit env a u t i md d) = chat_now_ok d"
    by (simp add: chat_now_ok_def chat_table_defs chat_key_defs)
  show "chat_deferred_ok (chat_audit env a u t i md d) = chat_deferred_ok d"
    by (rule deferred_cong) simp_all
qed (simp add: chat_sequences_def)

text \<open>The sequences under the insertions, the updates and the deletions of a table.\<close>

lemma sequences_session:
  "chat_sequences d \<Longrightarrow> ch_id s = ct_next_session d \<Longrightarrow>
   chat_sequences (d\<lparr>ct_sessions := ct_sessions d @ [s], ct_next_session := ct_next_session d + 1\<rparr>)"
  by (auto simp: chat_sequences_def list_all_iff)

lemma sequences_message:
  "chat_sequences d \<Longrightarrow> msg_id m = ct_next_message d \<Longrightarrow>
   chat_sequences (d\<lparr>ct_messages := ct_messages d @ [m], ct_next_message := ct_next_message d + 1\<rparr>)"
  by (auto simp: chat_sequences_def list_all_iff)

lemma sequences_tag:
  "chat_sequences d \<Longrightarrow> tag_id t = ct_next_tag d \<Longrightarrow>
   chat_sequences (d\<lparr>ct_tags := ct_tags d @ [t], ct_next_tag := ct_next_tag d + 1\<rparr>)"
  by (auto simp: chat_sequences_def list_all_iff)

lemma sequences_run:
  "chat_sequences d \<Longrightarrow> run_id r = ct_next_run d \<Longrightarrow>
   chat_sequences (d\<lparr>ct_runs := ct_runs d @ [r], ct_next_run := ct_next_run d + 1\<rparr>)"
  by (auto simp: chat_sequences_def list_all_iff)

lemma sequences_update_sessions:
  "chat_sequences d \<Longrightarrow> (\<And>s. ch_id (f s) = ch_id s) \<Longrightarrow>
   chat_sequences (d\<lparr>ct_sessions := update_rows p f (ct_sessions d)\<rparr>)"
  by (auto simp: chat_sequences_def list_all_iff set_update_rows)

lemma sequences_update_runs:
  "chat_sequences d \<Longrightarrow> (\<And>r. run_id (f r) = run_id r) \<Longrightarrow>
   chat_sequences (d\<lparr>ct_runs := update_rows p f (ct_runs d)\<rparr>)"
  by (auto simp: chat_sequences_def list_all_iff set_update_rows)

lemma sequences_filter_tags:
  "chat_sequences d \<Longrightarrow> chat_sequences (d\<lparr>ct_tags := filter p (ct_tags d)\<rparr>)"
  by (auto simp: chat_sequences_def list_all_iff)

lemma sequences_without_session: "chat_sequences d \<Longrightarrow> chat_sequences (without_session i d)"
  by (auto simp: chat_sequences_def without_session_def Let_def list_all_iff)

subsection \<open>The repository\<close>

lemma create_session_ensures:
  "chat_sequences d \<Longrightarrow> ensures (create_session user title temporary expires now d)
     (\<lambda>(s, d'). chat_now_ok d' \<and> chat_sequences d' \<and> ct_messages d' = ct_messages d \<and> ct_runs d' = ct_runs d)"
  by (simp add: create_session_def Let_def ensures_and_then sequences_session)

lemma update_session_ensures:
  "chat_sequences d \<Longrightarrow> (\<And>s. ch_id (f s) = ch_id s) \<Longrightarrow> ensures (update_session i f d)
     (\<lambda>d'. chat_now_ok d' \<and> chat_sequences d')"
  by (simp add: update_session_def sequences_update_sessions)

lemma create_tag_ensures:
  "chat_sequences d \<Longrightarrow> ensures (create_tag i name now d) (\<lambda>(t, d'). chat_now_ok d' \<and> chat_sequences d')"
  by (simp add: create_tag_def Let_def ensures_and_then sequences_tag)

lemma create_message_ensures:
  "chat_sequences d \<Longrightarrow> ensures (create_message i role content client run now d)
     (\<lambda>(m, d'). chat_now_ok d' \<and> chat_sequences d')"
  by (simp add: create_message_def Let_def ensures_and_then sequences_message)

lemma create_run_ensures:
  "chat_sequences d \<Longrightarrow> ensures (create_run origin n now d) (\<lambda>(r, d'). chat_now_ok d' \<and> chat_sequences d')"
  by (simp add: create_run_def Let_def ensures_and_then sequences_run)

lemma update_run_ensures:
  "chat_sequences d \<Longrightarrow> (\<And>r. run_id (f r) = run_id r) \<Longrightarrow> ensures (update_run i f d)
     (\<lambda>d'. chat_now_ok d' \<and> chat_sequences d')"
  by (simp add: update_run_def sequences_update_runs)

lemma update_session_title_ensures:
  "chat_sequences d \<Longrightarrow> ensures (update_session_title i title now d) (\<lambda>d'. chat_now_ok d' \<and> chat_sequences d')"
  unfolding update_session_title_def by (rule update_session_ensures) simp_all

lemma archive_session_row_ensures:
  "chat_sequences d \<Longrightarrow> ensures (archive_session_row i now d) (\<lambda>d'. chat_now_ok d' \<and> chat_sequences d')"
  unfolding archive_session_row_def by (rule update_session_ensures) simp_all

lemma touch_session_ensures:
  "chat_sequences d \<Longrightarrow> ensures (touch_session i now d) (\<lambda>d'. chat_now_ok d' \<and> chat_sequences d')"
  unfolding touch_session_def by (rule update_session_ensures) simp_all

lemma delete_tag_row_ensures:
  "chat_now_ok d \<Longrightarrow> chat_sequences d \<Longrightarrow>
   ensures (delete_tag_row i name d) (\<lambda>(t, d'). chat_now_ok d' \<and> chat_sequences d')"
  by (auto simp: delete_tag_row_def ensures_and_then sequences_filter_tags split: option.split)

text \<open>The deletion commits: the references between the rows that stay are untouched.\<close>

lemma deferred_without_session:
  assumes "chat_now_ok d" "chat_deferred_ok d"
  shows "chat_deferred_ok (without_session i d)"
proof -
  have "link_refers (without_session i d) m" if m: "m \<in> set (ct_messages d)" "msg_session_id m \<noteq> i" for m
  proof (cases "msg_run_id m")
    case (Some k)
    from linked_run[OF assms(2) m(1) this] obtain r where
      "r \<in> set (ct_runs d)" "run_id r = k" "run_session_id r = Some (msg_session_id m)" .
    then show ?thesis using Some m(2)
      by (force simp: link_refers_def run_keys_def without_session_def Let_def)
  qed (simp add: link_refers_def)
  moreover have "request_refers (without_session i d) r"
    if r: "r \<in> set (ct_runs d)" "run_session_id r \<noteq> Some i" for r
  proof (cases "run_session_id r"; cases "run_request_id r")
    fix j k assume some: "run_session_id r = Some j" "run_request_id r = Some k"
    then have "(j, k) \<in> set (message_keys d)" using requested_message[OF assms(2) r(1)] by blast
    then show ?thesis using some r(2)
      by (auto simp: request_refers_def message_keys_def without_session_def Let_def)
  qed (simp_all add: request_refers_def)
  ultimately show ?thesis by (simp add: chat_deferred_ok_def list_all_iff without_session_def Let_def)
qed

lemma delete_session_rows_ok:
  "chat_now_ok d \<Longrightarrow> chat_deferred_ok d \<Longrightarrow> chat_now_ok (without_session i d)"
  using delete_session_rows_is[of d i] unfolding delete_session_rows_def Let_def
  by (auto simp: and_then_Inr chat_statement_Inr)

lemma without_session_wf: "chat_wf d \<Longrightarrow> chat_wf (without_session i d)"
  by (simp add: chat_wf_def deferred_without_session delete_session_rows_ok sequences_without_session)

lemmas repository_ensures = update_session_title_ensures archive_session_row_ensures touch_session_ensures
  delete_tag_row_ensures create_tag_ensures create_message_ensures create_run_ensures

subsection \<open>The service\<close>

text \<open>A transaction that ends with an audit record and a commit.\<close>

lemma commit_audit_ensures:
  "ensures x (\<lambda>d'. chat_now_ok d' \<and> chat_sequences d') \<Longrightarrow>
   ensures (and_then x (\<lambda>d'. chat_commit (chat_audit env a u t i md d'))) chat_wf"
  by (auto simp: ensures_iff and_then_Inr chat_commit_Inr chat_wf_def)

definition wf_result :: "chat_error + 'a \<times> chat_db \<Rightarrow> bool" where
  "wf_result x = ensures x (\<lambda>(_, d). chat_wf d)"

lemma wf_result_Inr: "wf_result (Inr (a, d)) = chat_wf d"
  by (simp add: wf_result_def)

lemma wf_result_Inl: "wf_result (Inl e)"
  by (simp add: wf_result_def)

lemma wf_result_commit: "chat_now_ok d \<Longrightarrow> chat_sequences d \<Longrightarrow> (\<And>d'. d' = d \<Longrightarrow> chat_wf d' \<Longrightarrow> wf_result (f d')) \<Longrightarrow>
    wf_result (and_then (chat_commit d) f)"
  by (simp add: wf_result_def ensures_and_then chat_wf_def)

lemma wf_result_step: "ensures x P \<Longrightarrow> (\<And>a. x = Inr a \<Longrightarrow> P a \<Longrightarrow> wf_result (f a)) \<Longrightarrow> wf_result (and_then x f)"
  by (cases x) (simp_all add: wf_result_def)

lemma ensures_True: "ensures x (\<lambda>_. True)"
  by (cases x) simp_all

lemmas wf_result_pure = wf_result_step[OF ensures_True]

lemma service_create_session_wf:
  assumes "chat_wf d"
  shows "wf_result (service_create_session env user title temporary d)"
proof -
  have seq: "chat_sequences d" using assms by (simp add: chat_wf_def)
  show ?thesis unfolding service_create_session_def Let_def
    by (rule wf_result_pure, rule wf_result_step[OF create_session_ensures[OF seq]])
       (auto intro!: wf_result_commit simp: wf_result_Inr split: prod.splits)
qed

lemma service_update_title_wf:
  assumes "chat_wf d"
  shows "wf_result (service_update_title env user i title d)"
proof -
  have seq: "chat_sequences d" using assms by (simp add: chat_wf_def)
  show ?thesis unfolding service_update_title_def
    by (rule wf_result_pure, rule wf_result_pure, rule wf_result_step[OF update_session_title_ensures[OF seq]],
        rule wf_result_commit, simp, simp, rule wf_result_pure) (simp add: wf_result_Inr)
qed

lemma service_archive_session_wf:
  assumes "chat_wf d"
  shows "wf_result (service_archive_session env user i d)"
proof -
  have ok: "chat_sequences d" "chat_now_ok d" using assms by (simp_all add: chat_wf_def)
  have "wf_result (and_then (archive_session_row k (he_now env) d) (\<lambda>d. and_then
      (chat_commit (chat_audit env a u t j md d)) (\<lambda>d. Inr (Archived, d))))" for k a u t j md
    by (rule wf_result_step[OF archive_session_row_ensures[OF ok(1)]], rule wf_result_commit) (simp_all add: wf_result_Inr)
  moreover have "wf_result (and_then (chat_commit d) (\<lambda>d. Inr (AlreadyArchived, d)))"
    by (rule wf_result_commit) (use ok in \<open>simp_all add: wf_result_Inr\<close>)
  ultimately show ?thesis unfolding service_archive_session_def
    by (intro wf_result_pure) (simp add: wf_result_Inl)
qed

lemma service_delete_session_wf:
  assumes "chat_wf d"
  shows "ensures (service_delete_session env user i d) chat_wf"
  using assms without_session_wf[OF assms] unfolding service_delete_session_def
  by (auto simp: ensures_iff and_then_Inr chat_commit_Inr chat_wf_def delete_session_rows_is)

lemma service_add_tag_wf:
  assumes "chat_wf d"
  shows "wf_result (service_add_tag env user i tag d)"
proof -
  have ok: "chat_sequences d" "chat_now_ok d" using assms by (simp_all add: chat_wf_def)
  have exists: "wf_result (and_then (chat_commit d) (\<lambda>d. Inr (TagAlreadyExists, d)))"
    by (rule wf_result_commit) (use ok in \<open>simp_all add: wf_result_Inr\<close>)
  have "wf_result (and_then (touch_session k (he_now env) d') (\<lambda>d.
         and_then (chat_commit (chat_audit env a user ty tg md d)) (\<lambda>d. Inr (TagCreated, d))))"
    if "create_tag k name (he_db_now env) d = Inr (t, d')" for k name t d' a ty tg md
  proof -
    have "chat_sequences d'" using create_tag_ensures[OF ok(1)] that by (fastforce simp: ensures_iff)
    then show ?thesis
      by (rule wf_result_step[OF touch_session_ensures], intro wf_result_commit) (simp_all add: wf_result_Inr)
  qed
  with exists show ?thesis unfolding service_add_tag_def
    by (intro wf_result_pure) (auto simp: wf_result_Inl split: sum.split)
qed

lemma service_delete_tag_wf:
  assumes "chat_wf d"
  shows "wf_result (service_delete_tag env user i tag d)"
proof -
  have ok: "chat_sequences d" "chat_now_ok d" using assms by (simp_all add: chat_wf_def)
  have "wf_result (case deleted of None \<Rightarrow> and_then (chat_commit d') (\<lambda>d. Inr (TagNotFound, d))
      | Some t \<Rightarrow> and_then (touch_session k (he_now env) d') (\<lambda>d.
          and_then (chat_commit (chat_audit env a user ty t md d)) (\<lambda>d. Inr (TagDeleted, d))))"
    if "chat_now_ok d'" "chat_sequences d'" for deleted d' k a ty md
  proof (cases deleted)
    case None
    then show ?thesis using that by (auto intro!: wf_result_commit simp: wf_result_Inr)
  next
    case (Some t)
    have "wf_result (and_then (touch_session k (he_now env) d') (\<lambda>d.
          and_then (chat_commit (chat_audit env a user ty t md d)) (\<lambda>d. Inr (TagDeleted, d))))"
      using that(2) by (rule wf_result_step[OF touch_session_ensures], intro wf_result_commit) (simp_all add: wf_result_Inr)
    then show ?thesis by (simp add: Some)
  qed
  then show ?thesis unfolding service_delete_tag_def
    by (intro wf_result_pure wf_result_step[OF delete_tag_row_ensures[OF ok(2,1)]]) (auto split: prod.split)
qed

lemmas service_wf = service_create_session_wf service_update_title_wf service_archive_session_wf
  service_add_tag_wf service_delete_tag_wf

end
