(* ===== verification/Rag_Lifecycle.thy ===== *)
theory Rag_Lifecycle
  imports Rag_Answer Chat_Lifecycle
begin

section \<open>From a stored question to a closed run\<close>

text \<open>
  What the steps between the two commits of a question may change: the items and the traces of
  its run, and nothing else (\<open>works_on\<close>). A retrieval that keeps to this is a
  \<open>run_retrieval\<close>; the dense, the sparse and the hybrid one do.
\<close>

subsection \<open>Work on one run\<close>

definition run_core :: "retrieval_run \<Rightarrow> retrieval_run" where
  "run_core r = r\<lparr>run_query_plan := None, run_decision := None, run_latency := None, run_settings := None,
     run_context_budget := None, run_compression := None, run_tool_compression := None,
     run_cache_summary := None\<rparr>"

definition works_on :: "int \<Rightarrow> chat_db \<Rightarrow> chat_db \<Rightarrow> bool" where
  "works_on run d d' =
     (d' = d\<lparr>ct_runs := ct_runs d', ct_items := ct_items d', ct_next_item := ct_next_item d'\<rparr> \<and>
      map run_core (ct_runs d') = map run_core (ct_runs d) \<and>
      filter (\<lambda>r. run_id r \<noteq> run) (ct_runs d') = filter (\<lambda>r. run_id r \<noteq> run) (ct_runs d) \<and>
      filter (\<lambda>x. ri_run_id x \<noteq> run) (ct_items d') = filter (\<lambda>x. ri_run_id x \<noteq> run) (ct_items d) \<and>
      chat_now_ok d' \<and> chat_sequences d')"

lemma works_on_refl: "chat_now_ok d \<Longrightarrow> chat_sequences d \<Longrightarrow> works_on run d d"
  by (simp add: works_on_def)

lemma works_on_trans: "works_on run d1 d2 \<Longrightarrow> works_on run d2 d3 \<Longrightarrow> works_on run d1 d3"
  unfolding works_on_def by (intro conjI; elim conjE) (cases d1, cases d2, cases d3, simp, simp_all)

lemma works_on_ok: "works_on run d d' \<Longrightarrow> chat_now_ok d'" "works_on run d d' \<Longrightarrow> chat_sequences d'"
  by (simp_all add: works_on_def)

lemma works_on_frame:
  assumes "works_on run d d'"
  shows "ct_rest d' = ct_rest d" "ct_sessions d' = ct_sessions d" "ct_messages d' = ct_messages d"
    "ct_tags d' = ct_tags d" "ct_memories d' = ct_memories d" "ct_citations d' = ct_citations d"
    "ct_evals d' = ct_evals d" "ct_paths d' = ct_paths d" "ct_next_session d' = ct_next_session d"
    "ct_next_message d' = ct_next_message d" "ct_next_tag d' = ct_next_tag d" "ct_next_run d' = ct_next_run d"
    "ct_next_citation d' = ct_next_citation d"
proof -
  have eq: "d' = d\<lparr>ct_runs := ct_runs d', ct_items := ct_items d', ct_next_item := ct_next_item d'\<rparr>"
    using assms by (simp add: works_on_def)
  show "ct_rest d' = ct_rest d" "ct_sessions d' = ct_sessions d" "ct_messages d' = ct_messages d"
    "ct_tags d' = ct_tags d" "ct_memories d' = ct_memories d" "ct_citations d' = ct_citations d"
    "ct_evals d' = ct_evals d" "ct_paths d' = ct_paths d" "ct_next_session d' = ct_next_session d"
    "ct_next_message d' = ct_next_message d" "ct_next_tag d' = ct_next_tag d" "ct_next_run d' = ct_next_run d"
    "ct_next_citation d' = ct_next_citation d"
    by (subst eq, simp)+
qed

lemma run_core_fields [simp]:
  "run_id (run_core r) = run_id r" "run_session_id (run_core r) = run_session_id r"
  "run_request_id (run_core r) = run_request_id r" "run_status (run_core r) = run_status r"
  "run_created_at (run_core r) = run_created_at r"
  by (simp_all add: run_core_def)

text \<open>Whatever depends on a run's core only is kept.\<close>

lemma works_on_map:
  assumes "works_on run d d'" "\<And>r. f (run_core r) = f r"
  shows "map f (ct_runs d') = map f (ct_runs d)"
proof -
  have "map f (map run_core (ct_runs d')) = map f (map run_core (ct_runs d))"
    using assms(1) by (simp add: works_on_def)
  then show ?thesis by (simp add: o_def assms(2))
qed

lemma works_on_keys:
  assumes "works_on run d d'"
  shows "run_ids d' = run_ids d" "run_keys d' = run_keys d" "message_keys d' = message_keys d"
    "session_ids d' = session_ids d"
  by (simp_all add: run_ids_def run_keys_def message_keys_def session_ids_def works_on_map[OF assms] works_on_frame[OF assms])

lemma works_on_deferred:
  assumes "works_on run d d'"
  shows "chat_deferred_ok d' = chat_deferred_ok d"
proof -
  have refers: "link_refers d' = link_refers d" "request_refers d' = request_refers d"
    unfolding fun_eq_iff link_refers_def request_refers_def works_on_keys[OF assms] by simp_all
  have "request_refers d (run_core r) = request_refers d r" for r
    by (simp add: request_refers_def)
  then have "map (request_refers d) (ct_runs d') = map (request_refers d) (ct_runs d)"
    by (rule works_on_map[OF assms])
  then have "list_all id (map (request_refers d) (ct_runs d')) = list_all id (map (request_refers d) (ct_runs d))"
    by simp
  then have "list_all (request_refers d) (ct_runs d') = list_all (request_refers d) (ct_runs d)"
    by (simp add: list.pred_map)
  then show ?thesis by (simp add: chat_deferred_ok_def refers works_on_frame[OF assms])
qed

lemma works_on_wf: "works_on run d d' \<Longrightarrow> chat_wf d \<Longrightarrow> chat_wf d'"
  using works_on_ok works_on_deferred by (simp add: chat_wf_def)

lemma works_on_get_run:
  assumes "works_on run d d'"
  shows "map_option run_core (get_run k d') = map_option run_core (get_run k d)"
proof -
  have "map_option run_core (find (\<lambda>r. run_id r = k) rs) = find (\<lambda>r. run_id r = k) (map run_core rs)" for rs
    by (induction rs) simp_all
  then show ?thesis using assms by (simp add: get_run_def works_on_def)
qed

lemma works_on_has_run: "works_on run d d' \<Longrightarrow> (get_run k d' = None) = (get_run k d = None)"
  using works_on_get_run[of run d d' k] by (metis map_option_is_None)

subsection \<open>The steps\<close>

lemma item_rows_facts:
  "\<forall>x\<in>set (item_rows run i now xs). ri_run_id x = run \<and> ri_id x < i + int (length xs)"
proof (induction xs arbitrary: i)
  case (Cons x xs)
  from Cons.IH[of "i + 1"] show ?case by (auto simp: item_row_def Let_def)
qed simp

lemma works_on_save_items:
  assumes "chat_sequences d"
  shows "ensures (save_items run xs now d) (\<lambda>(rows, d'). works_on run d d')"
proof -
  let ?rows = "item_rows run (ct_next_item d) now xs"
  let ?d = "d\<lparr>ct_items := ct_items d @ ?rows, ct_next_item := ct_next_item d + int (length xs)\<rparr>"
  have "filter (\<lambda>x. ri_run_id x \<noteq> run) ?rows = []"
    using item_rows_facts[of run "ct_next_item d" now xs] by (auto simp: filter_empty_conv)
  moreover have "chat_sequences ?d"
    using assms item_rows_facts[of run "ct_next_item d" now xs] by (force simp: chat_sequences_def list_all_iff)
  ultimately show ?thesis
    by (simp add: save_items_def Let_def ensures_and_then works_on_def)
qed

lemma works_on_update_run:
  assumes "chat_sequences d" "\<And>r. run_core (f r) = run_core r"
  shows "ensures (update_run run f d) (works_on run d)"
proof -
  let ?rows = "update_rows (\<lambda>r. run_id r = run) f (ct_runs d)"
  have id: "run_id (f r) = run_id r" for r using assms(2)[of r] by (metis run_core_fields(1))
  have "map run_core ?rows = map run_core (ct_runs d)" using assms(2) by (rule map_update_rows)
  moreover have "filter (\<lambda>r. run_id r \<noteq> run) ?rows = filter (\<lambda>r. run_id r \<noteq> run) (ct_runs d)"
    by (rule filter_update_rows) (simp_all add: id)
  ultimately show ?thesis
    by (simp add: update_run_def works_on_def sequences_update_runs assms(1) id)
qed

lemma works_on_trace:
  "chat_sequences d \<Longrightarrow> ensures (update_retrieval_run_trace run t d) (works_on run d)"
  unfolding update_retrieval_run_trace_def
  by (erule works_on_update_run) (simp add: traced_row_def run_core_def)

lemma works_on_selection:
  assumes "chat_sequences d"
  shows "ensures (update_context_selection run ids d) (works_on run d)"
proof -
  let ?rows = "update_rows (\<lambda>x. ri_run_id x = run) (selected_row ids) (ct_items d)"
  have same: "ri_id (selected_row ids x) = ri_id x" "ri_run_id (selected_row ids x) = ri_run_id x" for x
    by (simp_all add: selected_row_def Let_def)
  have "filter (\<lambda>x. ri_run_id x \<noteq> run) ?rows = filter (\<lambda>x. ri_run_id x \<noteq> run) (ct_items d)"
    by (rule filter_update_rows) (simp_all add: same)
  moreover have "chat_sequences (d\<lparr>ct_items := ?rows\<rparr>)"
    using assms by (auto simp: chat_sequences_def list_all_iff set_update_rows same)
  ultimately show ?thesis by (simp add: update_context_selection_def works_on_def)
qed

text \<open>Steps one after another.\<close>

lemma works_on_step:
  assumes "works_on run d0 d" "chat_sequences d \<Longrightarrow> ensures x (works_on run d)"
    "\<And>d'. works_on run d0 d' \<Longrightarrow> ensures (f d') Q"
  shows "ensures (and_then x f) Q"
proof (cases x)
  case (Inr d')
  have "works_on run d d'" using assms(2)[OF works_on_ok(2)[OF assms(1)]] by (simp add: Inr)
  then show ?thesis using assms(3)[OF works_on_trans[OF assms(1)]] by (simp add: Inr)
qed simp

lemma works_on_step2:
  assumes "works_on run d0 d" "chat_sequences d \<Longrightarrow> ensures x (\<lambda>(a, d'). works_on run d d')"
    "\<And>a d'. works_on run d0 d' \<Longrightarrow> ensures (f (a, d')) Q"
  shows "ensures (and_then x f) Q"
proof (cases x)
  case (Inr y)
  obtain a d' where y: "y = (a, d')" by (cases y)
  have "works_on run d d'" using assms(2)[OF works_on_ok(2)[OF assms(1)]] by (simp add: Inr y)
  then show ?thesis using assms(3)[OF works_on_trans[OF assms(1)]] by (simp add: Inr y)
qed simp

lemma ensures_pure: "(\<And>a. x = Inr a \<Longrightarrow> ensures (f a) Q) \<Longrightarrow> ensures (and_then x f) Q"
  by (cases x) simp_all

lemma lift_pipeline_simps [simp]:
  "lift_pipeline (Inr a) = Inr a"
  "lift_pipeline (Inl e) = Inl (OtherFailure e)"
  by (simp_all add: lift_pipeline_def)

lemma ensures_lift [simp]: "ensures (lift_pipeline x) P = ensures x P"
  by (cases x) (simp_all add: lift_pipeline_def)

lemma lift_pipeline_Inr [simp]: "lift_pipeline x = Inr y \<longleftrightarrow> x = Inr y"
  by (cases x) (simp_all add: lift_pipeline_def)

lemma saved_works: "save_items run xs now d = Inr (rows, d') \<Longrightarrow> chat_sequences d \<Longrightarrow> works_on run d d'"
  using works_on_save_items[of d run xs now] by (simp add: ensures_iff)

lemma traced_works: "update_retrieval_run_trace run t d = Inr d' \<Longrightarrow> works_on run d0 d \<Longrightarrow> works_on run d0 d'"
  using works_on_trace[of d run t] works_on_trans works_on_ok(2) by (simp add: ensures_iff)

lemma selected_works: "update_context_selection run ids d = Inr d' \<Longrightarrow> works_on run d0 d \<Longrightarrow> works_on run d0 d'"
  using works_on_selection[of d run ids] works_on_trans works_on_ok(2) by (simp add: ensures_iff)

subsection \<open>Retrievals\<close>

text \<open>What the answer relies on in a retrieval.\<close>

locale run_retrieval =
  fixes retrieve :: retrieval
  assumes works: "chat_now_ok d \<Longrightarrow> chat_sequences d \<Longrightarrow> retrieve run d = Inr (result, d') \<Longrightarrow> works_on run d d'"

lemma retrieve_and_rerank_works:
  assumes "chat_now_ok d" "chat_sequences d" "retrieve_and_rerank env query top_k top_n flt source run d = Inr (result, d')"
  shows "works_on run d d'"
  using assms unfolding retrieve_and_rerank_def Let_def
  by (auto simp: and_then_Inr intro: works_on_refl saved_works split: if_splits)

lemma retrieve_sparse_works:
  assumes "chat_now_ok d" "chat_sequences d" "retrieve_sparse env query top_k top_n flt run d = Inr (result, d')"
  shows "works_on run d d'"
  using assms unfolding retrieve_sparse_def Let_def
  by (auto simp: and_then_Inr intro: works_on_refl saved_works split: if_splits)

lemma retrieve_hybrid_works:
  assumes "chat_now_ok d" "chat_sequences d" "retrieve_hybrid env query top_k top_n flt run d = Inr (result, d')"
  shows "works_on run d d'"
  using assms unfolding retrieve_hybrid_def Let_def
  by (auto simp: and_then_Inr intro: works_on_refl saved_works split: if_splits)

interpretation dense: run_retrieval "retrieve_and_rerank env query top_k top_n flt source"
  for env query top_k top_n flt source
  by unfold_locales (rule retrieve_and_rerank_works)

interpretation sparse: run_retrieval "retrieve_sparse env query top_k top_n flt" for env query top_k top_n flt
  by unfold_locales (rule retrieve_sparse_works)

interpretation hybrid: run_retrieval "retrieve_hybrid env query top_k top_n flt" for env query top_k top_n flt
  by unfold_locales (rule retrieve_hybrid_works)

interpretation direct: run_retrieval "retrieve_direct env req query execution" for env req query execution
  by unfold_locales (auto simp: retrieve_direct_def Let_def
    dest: retrieve_sparse_works retrieve_hybrid_works retrieve_and_rerank_works split: if_splits)

subsection \<open>From the retrieval to the prompt\<close>

lemma store_budget_works:
  assumes "works_on run d0 d" "store_budget env run dec d = Inr d'"
  shows "works_on run d0 d'"
proof -
  obtain d1 where sel: "update_context_selection run (dec_selected_ids dec) d = Inr d1"
    using assms(2) by (auto simp: store_budget_def and_then_Inr)
  have "works_on run d0 d1" using sel assms(1) by (rule selected_works)
  then show ?thesis using assms(2) by (auto simp: store_budget_def sel intro: traced_works split: if_splits)
qed

lemma apply_context_budget_works:
  assumes "works_on run d0 d" "apply_context_budget env req run result d = Inr (dec, d')"
  shows "works_on run d0 d'"
  using assms(2) unfolding apply_context_budget_def Let_def
  by (auto simp: and_then_Inr intro: store_budget_works[OF assms(1)])

lemma answer_evidence_works:
  assumes "works_on run d0 d" "answer_evidence env run refs sources n d = Inr (pack, d')"
  shows "works_on run d0 d'"
  using assms unfolding answer_evidence_def
  by (auto simp: and_then_Inr intro: traced_works split: if_splits)

lemma record_injection_works:
  assumes "works_on run d0 d" "record_injection_patterns env run texts d = Inr d'"
  shows "works_on run d0 d'"
proof (cases "list_ex (ae_injection env) texts")
  case True
  then obtain r where r: "require_run run d = Inr r"
    using assms(2) by (auto simp: record_injection_patterns_def and_then_Inr)
  show ?thesis
  proof (cases "run_decision r")
    case None
    then show ?thesis using assms True r by (simp add: record_injection_patterns_def)
  next
    case (Some doc)
    then obtain t where "update_retrieval_run_trace run t d = Inr d'"
      using assms(2) True r by (auto simp: record_injection_patterns_def Let_def)
    then show ?thesis using assms(1) by (rule traced_works)
  qed
qed (use assms in \<open>simp add: record_injection_patterns_def\<close>)

lemma finalize_budget_works:
  assumes "works_on run d0 d" "finalize_budget env run dec refs d = Inr d'"
  shows "works_on run d0 d'"
  using assms unfolding finalize_budget_def Let_def
  by (auto simp: and_then_Inr intro: store_budget_works split: if_splits)

lemma build_prompt_works:
  assumes "works_on run d0 d" "build_prompt env req run result d = Inr (pm, d')"
  shows "works_on run d0 d'"
proof -
  obtain dec d1 pack d2 where steps: "apply_context_budget env req run result d = Inr (dec, d1)"
    "\<exists>refs sources n. answer_evidence env run refs sources n d1 = Inr (pack, d2)"
    "d' = d2 \<or> (\<exists>texts d3 refs. record_injection_patterns env run texts d2 = Inr d3 \<and>
       finalize_budget env run dec refs d3 = Inr d')"
    using assms(2) unfolding build_prompt_def Let_def
    by (fastforce simp: and_then_Inr split: if_splits)
  have w2: "works_on run d0 d2"
    using steps(1,2) apply_context_budget_works[OF assms(1)] answer_evidence_works by blast
  show ?thesis using steps(3) w2 record_injection_works[OF w2] finalize_budget_works by blast
qed

context run_retrieval
begin

lemma prompt_works:
  assumes "chat_wf d" "and_then (retrieve run d) (\<lambda>(result, d1). build_prompt env req run result d1) = Inr (pm, d')"
  shows "works_on run d d'"
  using assms by (auto simp: and_then_Inr chat_wf_def intro: build_prompt_works works)

end

subsection \<open>Closing a run\<close>

lemma get_run_find: "find (\<lambda>r. run_id r = k) rs = Some r \<Longrightarrow> r \<in> set rs \<and> run_id r = k"
  by (induction rs) (auto split: if_splits)

lemma get_run_None: "get_run k d = None \<longleftrightarrow> k \<notin> set (run_ids d)"
  by (auto simp: get_run_def run_ids_def find_None_iff)

lemma get_run_update:
  assumes "\<And>r. run_id (f r) = run_id r"
  shows "get_run k (d\<lparr>ct_runs := update_rows (\<lambda>r. run_id r = k) f (ct_runs d)\<rparr>) = map_option f (get_run k d)"
proof -
  have "find (\<lambda>r. run_id r = k) (update_rows (\<lambda>r. run_id r = k) f rs) = map_option f (find (\<lambda>r. run_id r = k) rs)" for rs
    unfolding update_rows_def by (induction rs) (simp_all add: assms)
  then show ?thesis by (simp add: get_run_def)
qed

lemma ck_run_failed: "ck_run r \<Longrightarrow> ck_run (failed_row code latency t r)"
  by (auto simp: ck_run_def failed_row_def terminal_time_def unit_or_null_def split: option.splits)

definition closed_as_failed :: "ask_env \<Rightarrow> int \<Rightarrow> string \<Rightarrow> chat_db \<Rightarrow> chat_db" where
  "closed_as_failed env run code d = d\<lparr>ct_runs := update_rows (\<lambda>r. run_id r = run)
     (failed_row code (Some (ae_latency env)) (he_now (ae_chat env))) (ct_runs d)\<rparr>"

lemma failed_row_keys [simp]:
  "run_id (failed_row c l t r) = run_id r" "run_session_id (failed_row c l t r) = run_session_id r"
  "run_request_id (failed_row c l t r) = run_request_id r"
  by (simp_all add: failed_row_def)

text \<open>The references between messages and runs when a run is updated in its other columns.\<close>

lemma deferred_update_runs:
  assumes "\<And>r. run_id (f r) = run_id r" "\<And>r. run_session_id (f r) = run_session_id r"
    "\<And>r. run_request_id (f r) = run_request_id r" "ct_runs d' = update_rows p f (ct_runs d)"
    "ct_messages d' = ct_messages d"
  shows "chat_deferred_ok d' = chat_deferred_ok d"
proof -
  have keys: "run_keys d' = run_keys d" "message_keys d' = message_keys d"
    by (simp_all add: run_keys_def message_keys_def assms map_update_rows)
  have refers: "link_refers d' = link_refers d" "request_refers d' = request_refers d"
    unfolding fun_eq_iff link_refers_def request_refers_def keys by simp_all
  have "request_refers d (f r) = request_refers d r" for r
    by (simp add: request_refers_def assms)
  then have "list_all (request_refers d) (ct_runs d') = list_all (request_refers d) (ct_runs d)"
    by (simp add: assms list_all_iff set_update_rows ball_image del: if_image_distrib)
  then show ?thesis by (simp add: chat_deferred_ok_def refers assms)
qed

lemma closed_as_failed_wf:
  assumes "chat_wf d"
  shows "chat_wf (closed_as_failed env run code d)"
proof -
  have "chat_now_ok (closed_as_failed env run code d)"
    using assms unfolding closed_as_failed_def chat_wf_def chat_now_ok_def chat_table_defs chat_key_defs
      null_or_in_iff list_all_iff
    by (simp add: map_update_rows set_update_rows ball_image ck_run_failed del: set_map if_image_distrib)
  moreover have "chat_deferred_ok (closed_as_failed env run code d)"
    using assms deferred_update_runs[of "failed_row code (Some (ae_latency env)) (he_now (ae_chat env))"
        "closed_as_failed env run code d" _ d]
    by (simp add: closed_as_failed_def chat_wf_def)
  moreover have "chat_sequences (closed_as_failed env run code d)"
    using assms unfolding closed_as_failed_def chat_wf_def by (simp add: sequences_update_runs)
  ultimately show ?thesis by (simp add: chat_wf_def)
qed

lemma refuse_closes:
  assumes "chat_wf d" "get_run run d \<noteq> None"
  shows "refuse env run code st d = Inr (Refused code st, closed_as_failed env run code d)"
  using assms closed_as_failed_wf[OF assms(1), of env run code] get_run_None[of run d]
  by (auto simp: refuse_def mark_failed_safely_def mark_run_failed_def update_run_def closed_as_failed_def
      chat_statement_def chat_commit_def chat_wf_def)

subsection \<open>The stored answer\<close>

definition new_answer :: "ask_env \<Rightarrow> ask_request \<Rightarrow> int \<Rightarrow> parsed_output \<Rightarrow> int \<Rightarrow> chat_message" where
  "new_answer env req run p i = \<lparr>msg_id = i, msg_session_id = aq_session req, msg_role = RoleAssistant,
     msg_content = po_text p, msg_client_id = None, msg_run_id = Some run, msg_edited = False,
     msg_created_at = he_db_now (ae_chat env), msg_updated_at = he_db_now (ae_chat env)\<rparr>"

definition with_answer :: "ask_env \<Rightarrow> ask_request \<Rightarrow> int \<Rightarrow> prompt \<Rightarrow> parsed_output \<Rightarrow> citation_source list \<Rightarrow>
    bool \<Rightarrow> chat_db \<Rightarrow> chat_db" where
  "with_answer env req run pm p cited fallback d =
     d\<lparr>ct_messages := ct_messages d @ [new_answer env req run p (ct_next_message d)],
       ct_next_message := ct_next_message d + 1,
       ct_citations := ct_citations d @ citation_rows run (ct_next_citation d) (he_db_now (ae_chat env))
         (map make_citation_input cited),
       ct_next_citation := ct_next_citation d + int (length cited),
       ct_runs := update_rows (\<lambda>r. run_id r = run) (succeeded_row
         (answer_outcome env pm (answer_confidence env pm p cited fallback)) (he_now (ae_chat env))) (ct_runs d),
       ct_sessions := update_rows (\<lambda>s. ch_id s = aq_session req)
         (\<lambda>s. s\<lparr>ch_updated_at := he_now (ae_chat env)\<rparr>) (ct_sessions d)\<rparr>"

lemma citations_cong:
  assumes "ct_citations d' = ct_citations d" "ct_items d' = ct_items d" "ct_rest d' = ct_rest d"
  shows "list_citations_for_run run d' = list_citations_for_run run d"
proof -
  have "citation_join d' = citation_join d" by (simp add: fun_eq_iff citation_join_def assms)
  then show ?thesis by (simp add: list_citations_for_run_def assms)
qed

lemma store_answer_Inr:
  assumes "store_answer env req run pm p cited fallback d = Inr ((m, records), d')"
  shows "d' = with_answer env req run pm p cited fallback d"
    "m = new_answer env req run p (ct_next_message d)" "records = list_citations_for_run run d'"
    "chat_now_ok d'" "chat_deferred_ok d'" "get_run run d \<noteq> None"
proof -
  have eqs: "d' = with_answer env req run pm p cited fallback d \<and>
      m = new_answer env req run p (ct_next_message d) \<and>
      records = list_citations_for_run run (d\<lparr>ct_messages := ct_messages d @ [new_answer env req run p (ct_next_message d)],
        ct_next_message := ct_next_message d + 1,
        ct_citations := ct_citations d @ citation_rows run (ct_next_citation d) (he_db_now (ae_chat env))
          (map make_citation_input cited), ct_next_citation := ct_next_citation d + int (length cited)\<rparr>) \<and>
      chat_now_ok d' \<and> chat_deferred_ok d' \<and> get_run run d \<noteq> None"
    using assms
    by (simp add: store_answer_def create_message_def save_citations_def mark_run_succeeded_def update_run_def
        touch_session_def update_session_def and_then_Inr chat_statement_Inr chat_commit_Inr Let_def
        with_answer_def new_answer_def get_run_def split: if_splits)
      auto
  then show "d' = with_answer env req run pm p cited fallback d"
    "m = new_answer env req run p (ct_next_message d)" "chat_now_ok d'" "chat_deferred_ok d'" "get_run run d \<noteq> None"
    by blast+
  show "records = list_citations_for_run run d'"
    using eqs by (auto intro!: citations_cong simp: with_answer_def)
qed

lemma citation_rows_run: "c \<in> set (citation_rows run i now xs) \<Longrightarrow> cit_run_id c = run \<and> cit_id c < i + int (length xs)"
proof (induction xs arbitrary: i)
  case (Cons x xs)
  from Cons.IH[of "i + 1"] Cons.prems show ?case by (auto simp: citation_row_def)
qed simp

lemma length_citation_rows [simp]: "length (citation_rows run i now xs) = length xs"
  by (induction xs arbitrary: i) simp_all

lemma succeeded_row_keys [simp]:
  "run_id (succeeded_row x t r) = run_id r" "run_session_id (succeeded_row x t r) = run_session_id r"
  "run_request_id (succeeded_row x t r) = run_request_id r"
  by (simp_all add: succeeded_row_def)

lemma with_answer_sequences:
  assumes "chat_sequences d"
  shows "chat_sequences (with_answer env req run pm p cited fallback d)"
  using assms citation_rows_run
  by (fastforce simp: chat_sequences_def with_answer_def new_answer_def list_all_iff set_update_rows)

subsection \<open>Every answer cites what the prompt offered\<close>

lemma source_table_nth: "source_table t ss = Inr t' \<Longrightarrow> map_of t' i = Some x \<Longrightarrow> map_of t i = Some x \<or> x \<in> set ss \<and> src_local_id x = i"
  by (induction t ss rule: source_table.induct) (auto split: if_splits)

definition parsed_ok :: "parsed_output \<Rightarrow> bool" where
  "parsed_ok p = (po_markers p = map marker_of (scan_markers 0 (po_text p)) \<and>
     po_unique p = unique_in_order (map mk_id (po_markers p)))"

lemma parse_parsed_ok: "parse_generation_output content = Inr p \<Longrightarrow> parsed_ok p"
  by (auto simp: parse_generation_output_def parsed_ok_def Let_def split: if_splits)

lemma validated_sources:
  assumes "validate_generation_citations p sources = Inr cited" "parsed_ok p"
  shows "cited \<noteq> []" "set cited \<subseteq> set sources" "map src_local_id cited = po_unique p"
    "distinct (map src_local_id cited)"
proof -
  obtain t where t: "source_table [] sources = Inr t" "cited = map (\<lambda>i. the (map_of t i)) (po_unique p)"
    "\<forall>i\<in>set (po_unique p). map_of t i \<noteq> None" "po_markers p \<noteq> []"
    using assms(1) by (auto simp: validate_generation_citations_def list_ex_iff split: if_splits sum.splits)
  have found: "the (map_of t i) \<in> set sources \<and> src_local_id (the (map_of t i)) = i" if "i \<in> set (po_unique p)" for i
    using source_table_nth[OF t(1)] t(3) that by fastforce
  have unique: "set (po_unique p) = set (map mk_id (po_markers p))" "distinct (po_unique p)"
    using assms(2) by (simp_all add: parsed_ok_def unique_in_order_def)
  show "set cited \<subseteq> set sources" using found by (auto simp: t(2))
  show ids: "map src_local_id cited = po_unique p" using found by (simp add: t(2) map_idI)
  show "cited \<noteq> []" using t(2,4) unique(1) by auto
  show "distinct (map src_local_id cited)" using ids unique(2) by simp
qed

definition answer_checked :: "citation_source list \<Rightarrow> parsed_output \<Rightarrow> citation_source list \<Rightarrow> bool" where
  "answer_checked sources p cited = (parsed_ok p \<and> validate_generation_citations p sources = Inr cited)"

lemma fallback_checked: "insufficient_citation_fallback env sources = Inr (p, cited) \<Longrightarrow> answer_checked sources p cited"
  by (auto simp: insufficient_citation_fallback_def and_then_Inr answer_checked_def parse_parsed_ok split: list.splits)

lemma error_fallback_checked: "validation_error_fallback env sources = Inr (p, cited, fb) \<Longrightarrow> answer_checked sources p cited"
  by (auto simp: validation_error_fallback_def and_then_Inr fallen_back_def fallback_checked)

lemma repair_checked: "repair_generation_citations env p sources = Inr (q, cited) \<Longrightarrow> answer_checked sources q cited"
  by (auto simp: repair_generation_citations_def and_then_Inr answer_checked_def parse_parsed_ok
      dest: fallback_checked split: list.splits if_splits)

lemma generation_checked:
  assumes "validated_generation_or_fallback env content items sources allow = Inr (p, cited, fb)"
  shows "answer_checked sources p cited"
proof -
  consider (err) "validation_error_fallback env sources = Inr (p, cited, fb)"
    | (low) "insufficient_citation_fallback env sources = Inr (p, cited)"
    | (ok) "parse_generation_output content = Inr p" "validate_generation_citations p sources = Inr cited"
    | (repaired) q where "repair_generation_citations env q sources = Inr (p, cited)"
    using assms unfolding validated_generation_or_fallback_def
    by (auto simp: and_then_Inr fallen_back_def split: sum.splits if_splits)
  then show ?thesis
  proof cases
    case ok
    then show ?thesis by (simp add: answer_checked_def parse_parsed_ok)
  qed (use error_fallback_checked fallback_checked repair_checked in blast)+
qed

lemma lift_citation_Inr [simp]: "lift_citation x = Inr y \<longleftrightarrow> x = Inr y"
  by (cases x) (simp_all add: lift_citation_def)

lemma generate_answer_checked:
  "generate_answer env req pm = Inr ((p, cited, fb), usage) \<Longrightarrow> answer_checked (pm_sources pm) p cited"
  by (auto simp: generate_answer_def and_then_Inr dest: generation_checked)

subsection \<open>The outcome of a question\<close>

text \<open>What the second transaction leaves when it started from \<open>d\<close>.\<close>

definition run_outcome_is :: "ask_env \<Rightarrow> ask_request \<Rightarrow> int \<Rightarrow> chat_db \<Rightarrow> ask_result \<Rightarrow> chat_db \<Rightarrow> bool" where
  "run_outcome_is env req run d r d' = (case r of
     Refused code st \<Rightarrow> (\<exists>e. works_on run d e \<and> d' = closed_as_failed env run code e)
   | Answered ((m, records), usage) \<Rightarrow> (\<exists>e pm p cited fallback. works_on run d e \<and>
       answer_checked (pm_sources pm) p cited \<and> d' = with_answer env req run pm p cited fallback e \<and>
       m = new_answer env req run p (ct_next_message e) \<and> records = list_citations_for_run run d'))"

context run_retrieval
begin

lemma finish_outcome:
  assumes wf: "chat_wf d" and run: "get_run run d \<noteq> None"
  shows "\<exists>r d'. ask_finish env retrieve req run d = Inr (r, d') \<and> run_outcome_is env req run d r d' \<and> chat_wf d'"
proof -
  have self: "works_on run d d" using wf by (simp add: chat_wf_def works_on_refl)
  have refused: "\<exists>r d'. refuse env run code st e = Inr (r, d') \<and> run_outcome_is env req run d r d' \<and> chat_wf d'"
    if "works_on run d e" for code st e
    using refuse_closes[OF works_on_wf[OF that wf]] closed_as_failed_wf[OF works_on_wf[OF that wf]]
      works_on_has_run[OF that] run that
    by (auto simp: run_outcome_is_def)
  have refused_for: "\<exists>r d'. refuse_for env run e d e2 = Inr (r, d') \<and> run_outcome_is env req run d r d' \<and> chat_wf d'"
    if "works_on run d e2" for e e2
    unfolding refuse_for_def using refused[OF that] refused[OF self] by simp
  show ?thesis
  proof (cases "and_then (retrieve run d) (\<lambda>(result, d1). build_prompt env req run result d1)")
    case (Inl e)
    then show ?thesis using refused_for[OF self] by (simp add: ask_finish_def)
  next
    case (Inr x)
    then obtain pm d2 where x: "x = (pm, d2)" by (cases x)
    have w: "works_on run d d2" using prompt_works[OF wf] Inr x by blast
    show ?thesis
    proof (cases pm)
      case None
      then show ?thesis using refused[OF w] Inr x by (simp add: ask_finish_def)
    next
      case (Some pr)
      show ?thesis
      proof (cases "generate_answer env req pr")
        case (Inl e)
        then show ?thesis using refused_for[OF w] Inr x Some by (simp add: ask_finish_def Inl)
      next
        fix y assume y: "generate_answer env req pr = Inr y"
        obtain p cited fb usage where y': "y = ((p, cited, fb), usage)" by (cases y) auto
        show ?thesis
        proof (cases "store_answer env req run pr p cited fb d2")
          case (Inl e)
          then show ?thesis using refused_for[OF w] \<open>_ = Inr x\<close> x Some y y' by (simp add: ask_finish_def)
        next
          fix z assume z: "store_answer env req run pr p cited fb d2 = Inr z"
          obtain m records d3 where z': "z = ((m, records), d3)" by (cases z) auto
          note stored = store_answer_Inr[OF z[unfolded z']]
          have "chat_wf d3"
            using stored(1,4,5) with_answer_sequences[OF works_on_ok(2)[OF w]] by (simp add: chat_wf_def)
          moreover have "run_outcome_is env req run d (Answered ((m, records), usage)) d3"
            using w stored(1,2,3) generate_answer_checked[OF y[unfolded y']] by (fastforce simp: run_outcome_is_def)
          ultimately show ?thesis using \<open>_ = Inr x\<close> x Some y y' z z' by (simp add: ask_finish_def)
        qed
      qed
    qed
  qed
qed

end

lemma other_runs_kept:
  "(\<And>r. run_id (f r) = run_id r) \<Longrightarrow>
   filter (\<lambda>r. run_id r \<noteq> run) (update_rows (\<lambda>r. run_id r = run) f rs) = filter (\<lambda>r. run_id r \<noteq> run) rs"
  by (rule filter_update_rows) simp_all

subsection \<open>The stored question\<close>

definition new_question :: "ask_env \<Rightarrow> ask_request \<Rightarrow> int \<Rightarrow> chat_message" where
  "new_question env req i = \<lparr>msg_id = i, msg_session_id = aq_session req, msg_role = RoleUser,
     msg_content = aq_message req, msg_client_id = Some (aq_client_id req), msg_run_id = None,
     msg_edited = False, msg_created_at = he_db_now (ae_chat env), msg_updated_at = he_db_now (ae_chat env)\<rparr>"

definition new_run_of :: "ask_env \<Rightarrow> ask_request \<Rightarrow> chat_db \<Rightarrow> retrieval_run" where
  "new_run_of env req d = (let n = new_ask_run env req in
     \<lparr>run_id = ct_next_run d, run_session_id = Some (aq_session req), run_request_id = Some (ct_next_message d),
      run_status = RunRunning, run_error = None, run_started_at = nr_started_at n, run_finished_at = None,
      run_top_k = Some (nr_top_k n), run_strategy = nr_strategy n, run_query_hash = Some (nr_query_hash n),
      run_score_summary = None, run_query_plan = nr_query_plan n, run_decision = nr_decision n,
      run_latency = nr_latency n, run_settings = nr_settings n, run_context_budget = None,
      run_compression = None, run_tool_compression = None, run_cache_summary = None,
      run_rerank_top1 = None, run_confidence = None, run_groundedness = None, run_label = None,
      run_http_request = nr_http_request n, run_created_at = he_db_now (ae_chat env)\<rparr>)"

definition with_question :: "ask_env \<Rightarrow> ask_request \<Rightarrow> chat_db \<Rightarrow> chat_db" where
  "with_question env req d =
     d\<lparr>ct_messages := ct_messages d @ [new_question env req (ct_next_message d)],
       ct_next_message := ct_next_message d + 1, ct_runs := ct_runs d @ [new_run_of env req d],
       ct_next_run := ct_next_run d + 1,
       ct_sessions := update_rows (\<lambda>s. ch_id s = aq_session req)
         (\<lambda>s. s\<lparr>ch_updated_at := he_now (ae_chat env)\<rparr>) (ct_sessions d)\<rparr>"

lemma new_run_of_fields [simp]:
  "run_id (new_run_of env req d) = ct_next_run d" "run_session_id (new_run_of env req d) = Some (aq_session req)"
  "run_request_id (new_run_of env req d) = Some (ct_next_message d)" "run_status (new_run_of env req d) = RunRunning"
  by (simp_all add: new_run_of_def Let_def)

lemma store_question_Inr:
  assumes "store_question env req d = Inr ((m, run), d')"
  shows "d' = with_question env req d" "chat_now_ok d'" "chat_deferred_ok d'"
    "m = new_question env req (ct_next_message d)" "run = ct_next_run d"
proof -
  have "d' = with_question env req d \<and> chat_now_ok d' \<and> chat_deferred_ok d' \<and>
    m = new_question env req (ct_next_message d) \<and> run = ct_next_run d"
    using assms
    by (simp add: store_question_def create_message_def create_chat_run_def create_run_def touch_session_def
        update_session_def and_then_Inr chat_statement_Inr chat_commit_Inr Let_def with_question_def
        new_question_def new_run_of_def split: if_splits) auto
  then show "d' = with_question env req d" "chat_now_ok d'" "chat_deferred_ok d'"
    "m = new_question env req (ct_next_message d)" "run = ct_next_run d" by blast+
qed

lemma with_question_sequences: "chat_sequences d \<Longrightarrow> chat_sequences (with_question env req d)"
  by (auto simp: chat_sequences_def with_question_def new_question_def list_all_iff set_update_rows)

text \<open>Whoever replays a question writes nothing; whoever starts one found no earlier one.\<close>

lemma ask_begin_Inr:
  assumes "ask_begin env user req d = Inr (x, d')"
  shows "(\<exists>r. x = Replayed r \<and> d' = d) \<or>
    (\<exists>m run. x = Started m run \<and> store_question env req d = Inr ((m, run), d') \<and>
       get_user_message_by_client_message_id (aq_session req) (aq_client_id req) d = None)"
  using assms unfolding ask_begin_def
  by (auto simp: and_then_Inr split: option.splits sum.splits chat_error.splits if_splits)

lemma ask_begin_wf:
  assumes "chat_wf d" "ask_begin env user req d = Inr (x, d')"
  shows "chat_wf d'"
  using ask_begin_Inr[OF assms(2)] assms(1) store_question_Inr with_question_sequences
  unfolding chat_wf_def by metis

lemma ask_begin_Started:
  assumes "ask_begin env user req d = Inr (Started m run, d')"
  shows "d' = with_question env req d" "m = new_question env req (ct_next_message d)" "run = ct_next_run d"
    "get_user_message_by_client_message_id (aq_session req) (aq_client_id req) d = None"
proof -
  have s: "store_question env req d = Inr ((m, run), d')"
    "get_user_message_by_client_message_id (aq_session req) (aq_client_id req) d = None"
    using ask_begin_Inr[OF assms] by auto
  show "d' = with_question env req d" "m = new_question env req (ct_next_message d)" "run = ct_next_run d"
    "get_user_message_by_client_message_id (aq_session req) (aq_client_id req) d = None"
    using store_question_Inr[OF s(1)] s(2) by auto
qed

lemma started_has_run:
  assumes "ask_begin env user req d = Inr (Started m run, d')"
  shows "get_run run d' \<noteq> None"
  using ask_begin_Started[OF assms] by (simp add: get_run_None run_ids_def with_question_def)

end
