(* ===== verification/Rag_Example.thy ===== *)
theory Rag_Example
  imports Rag_Lifecycle
begin

section \<open>A concrete question\<close>

text \<open>
  A user with one conversation, a corpus of one document of one chunk, a retrieval that always
  finds the chunk and a model that always gives the same answer. The question is answered by
  evaluating the model; the witnesses of the properties of conversations rest on it.
\<close>

definition ex_chat_env :: chat_env where
  "ex_chat_env = \<lparr>he_now = 100, he_db_now = 100, he_minute = 60, he_default_title = ''new'',
     he_default_ttl = 60, he_hash = (\<lambda>s. s), he_request = None\<rparr>"

definition ex_user :: user where
  "ex_user = \<lparr>user_id = 1, user_role_id = 1, user_email = ''a@b.cd'', user_display_name = ''a'',
     user_password_hash = None, user_status = UserActive, user_last_login_at = None\<rparr>"

definition ex_rag_version :: document_version where
  "ex_rag_version = \<lparr>ver_id = 1, ver_document_id = 1, ver_no = 1, ver_content_hash = replicate 64 CHR ''a'',
     ver_status = VReady, ver_is_active = True, ver_error_code = None,
     ver_file_name = ''a.txt'', ver_mime_type = ''text/plain'', ver_file_size_bytes = 10,
     ver_storage_key = Some ''k'', ver_metadata = None, ver_page_count = None,
     ver_extractor_name = None, ver_extractor_version = None, ver_created_by = 1,
     ver_created_at = 0, ver_updated_at = 2\<rparr>"

definition ex_rag_document :: logical_document where
  "ex_rag_document = \<lparr>doc_id = 1, doc_owner_user_id = 1, doc_title = ''t'', doc_status = DocActive,
     doc_archived_at = None, doc_created_at = 0, doc_updated_at = 0\<rparr>"

definition ex_rag_chunk :: document_chunk where
  "ex_rag_chunk = \<lparr>chunk_id = 1, chunk_version_id = 1, chunk_position = 0, chunk_digest = replicate 64 CHR ''a'',
     chunk_content = ''sky is blue'', chunk_tokens = None, chunk_chars = None, chunk_page_from = None,
     chunk_page_to = None, chunk_section = None, chunk_meta = None, chunk_created_at = 0\<rparr>"

definition ex_rag_rest :: db where
  "ex_rag_rest = \<lparr>db_jobs = [], db_next_job_id = 1, db_versions = [ex_rag_version], db_documents = [ex_rag_document],
     db_users = [ex_user], db_roles = [], db_sessions = [], db_next_session_id = 1,
     db_audit_logs = [], db_next_document_id = 2, db_next_version_id = 2,
     db_chunks = [ex_rag_chunk], db_next_chunk_id = 2, db_corpus_marker = None, db_settings = []\<rparr>"

definition ex_chat_session :: "int \<Rightarrow> chat_session" where
  "ex_chat_session i = \<lparr>ch_id = i, ch_user_id = 1, ch_title = ''t'', ch_status = ChatActive, ch_temporary = False,
     ch_expires_at = None, ch_archived_at = None, ch_created_at = 0, ch_updated_at = 0\<rparr>"

definition ex_chat_db :: chat_db where
  "ex_chat_db = \<lparr>ct_rest = ex_rag_rest, ct_sessions = [ex_chat_session 1], ct_messages = [], ct_tags = [],
     ct_memories = [], ct_runs = [], ct_items = [], ct_citations = [], ct_evals = [], ct_paths = [],
     ct_next_session = 2, ct_next_message = 1, ct_next_tag = 1, ct_next_run = 1, ct_next_item = 1,
     ct_next_citation = 1\<rparr>"

definition ex_re :: retrieval_env where
  "ex_re = \<lparr>re_net = ex_net, re_now = 100, re_embed = (\<lambda>_. Some [[1]]), re_dimension = 1,
     re_vector_search = (\<lambda>_ _ _. Some [\<lparr>cand_id = Some 1, cand_score = Fin (9 / 10), cand_order = 0, cand_payload = []\<rparr>]),
     re_text_search = (\<lambda>_ _ _. Some []),
     re_rerank = (\<lambda>_ xs. Some (map (\<lambda>(i, _). \<lparr>rr_chunk_id = i, rr_score = Fin (9 / 10), rr_order = PInt i\<rparr>) xs)),
     re_sparse_max_terms = 8, re_sparse_min_terms = 1, re_fusion = RRF, re_rrf_k = 60,
     re_dense_weight = 1, re_sparse_weight = 1, re_multiplier = 2, re_snippet_max = 50, re_preview_max = 50\<rparr>"

definition ex_ge :: generation_env where
  "ex_ge = \<lparr>ge_generate = (\<lambda>_. Some \<lparr>gn_content = ''Blue [1]'', gn_usage = None\<rparr>), ge_insufficient = (\<lambda>_. False),
     ge_fallback_text = (\<lambda>m. ''No '' @ m), ge_retry = False\<rparr>"

definition ex_rag_router :: router_settings where
  "ex_rag_router = \<lparr>rs_enabled = True, rs_mode = ''rule_based'', rs_allow_search = True, rs_allow_ask = True,
     rs_keyword_threshold = 65/100, rs_ambiguity_threshold = 75/100, rs_max_calls = 3, rs_max_fallback_calls = 2,
     rs_min_candidates = 1, rs_min_selected = 1, rs_top_threshold = 2/10, rs_fallback_hybrid = True,
     rs_fallback_dense = True, rs_no_context = True, rs_fallback_strategy = ''fallback_dense'', rs_store_trace = True,
     rs_sparse_enabled = True, rs_hybrid_enabled = True, rs_sparse_weight = 1/2\<rparr>"

definition ex_ask_env :: ask_env where
  "ex_ask_env = \<lparr>ae_chat = ex_chat_env, ae_retrieval = ex_re, ae_generation = ex_ge, ae_router = ex_rag_router,
     ae_sha256 = (\<lambda>s. s), ae_provider = ''fake'', ae_model = ''m'', ae_generator_ok = (\<lambda>_ _. True),
     ae_llm_enabled = (\<lambda>_. False), ae_top_k_default = 5, ae_top_k_max = 10, ae_top_n_default = 3, ae_top_n_max = 5,
     ae_query_plan = (\<lambda>_. []), ae_decision = (\<lambda>_. []), ae_settings_doc = (\<lambda>_. []), ae_latency = [],
     ae_budget = \<lparr>pol_enabled = True, pol_max_context_tokens = 100, pol_reserve_answer_tokens = 10, pol_max_items = 5,
        pol_max_tokens_per_item = 50, pol_min_citations = 0, pol_drop_low_score_first = True, pol_preserve_diversity = False\<rparr>,
     ae_store_budget = True, ae_budget_json = (\<lambda>_. []),
     ae_pack = \<lparr>ep_enabled = True, ep_max_items = 5, ep_max_per_source = 3, ep_max_chars = 100, ep_max_total = 500,
        ep_near_threshold = 9 / 10, ep_preserve_citations = True, ep_group_by_source = True, ep_store_trace = True\<rparr>,
     ae_pack_json = (\<lambda>_. []), ae_injection = (\<lambda>_. False), ae_confidence = ex_conf_settings, ae_max_output = 1000\<rparr>"

definition ex_ask :: ask_request where
  "ex_ask = \<lparr>aq_session = 1, aq_client_id = ''c1'', aq_message = ''why'', aq_model_key = None, aq_top_k = None,
     aq_top_n = None, aq_strategy = StratDense, aq_filters = \<lparr>rf_document_ids = [], rf_modality = ''text''\<rparr>\<rparr>"

definition ex_hit :: checked_hit where
  "ex_hit = \<lparr>kh_chunk = ex_rag_chunk, kh_version = ex_rag_version, kh_document = ex_rag_document,
     kh_score = 1, kh_rank = 1, kh_payload = []\<rparr>"

definition ex_input :: item_input where
  "ex_input = \<lparr>ii_chunk_id = 1, ii_score = 1, ii_rerank_score = None, ii_rank = 1, ii_rerank_order = None,
     ii_selected = True, ii_snapshot = [], ii_source = None, ii_breakdown = None\<rparr>"

definition ex_retrieval :: retrieval where
  "ex_retrieval run d = and_then (lift_pipeline (save_items run [ex_input] 100 d)) (\<lambda>(saved, d). Inr (
     \<lparr>pr_summary = make_score_summary 5 1 None None [ex_hit] 1 None None None, pr_items = [], pr_selected = [],
      pr_sources = [], pr_context = context_refs [(ex_hit, None, None)] saved 1, pr_no_context = False\<rparr>, d))"

definition answered_writable :: "ask_env \<Rightarrow> int \<Rightarrow> int \<Rightarrow> (chat_error + ask_response) \<times> chat_db \<Rightarrow> bool" where
  "answered_writable env user i x = (case x of
     (Inr r, d) \<Rightarrow> \<not> as_replayed r \<and>
       (case ensure_session_can_append_messages (ae_chat env) user i d of Inr _ \<Rightarrow> True | Inl _ \<Rightarrow> False)
   | _ \<Rightarrow> False)"

text \<open>The texts of the example are kept by the sanitizer; the evaluation looks them up.\<close>

definition ex_texts :: "(nat \<times> string option) list" where
  "ex_texts = [(255, Some ''logical_document:1''), (255, Some ''a.txt''), (255, Some ''dense''),
     (100, Some ''dense''), (255, Some ''high_score''), (255, Some ''sky is blue'')]"

lemma ex_texts_kept: "list_all (\<lambda>(n, t). sanitize_text n t = t) ex_texts"
  by code_simp

lemma sanitize_text_ex [code]:
  "sanitize_text n t = (if (n, t) \<in> set ex_texts then t
     else case t of None \<Rightarrow> None
       | Some s \<Rightarrow> (let safe = safe_context_string n s in if safe = [] then None else Some safe))"
  using ex_texts_kept by (auto simp: list_all_iff sanitize_text_def[of n t])

lemma ex_chat_wf: "chat_wf ex_chat_db"
  by code_simp

lemma ex_retrieval_runs: "run_retrieval ex_retrieval"
  by unfold_locales (auto simp: ex_retrieval_def and_then_Inr dest: saved_works)

lemma ex_started: "case ask_begin ex_ask_env 1 ex_ask ex_chat_db of Inr (Started m run, d) \<Rightarrow> True | _ \<Rightarrow> False"
  by code_simp

lemma ex_answered: "answered_writable ex_ask_env 1 1 (ask ex_ask_env ex_retrieval 1 ex_ask ex_chat_db)"
  by code_simp

end
