(* ===== verification/Rag_Properties.thy ===== *)
theory Rag_Properties
  imports Rag_Example
begin

section \<open>What asking a question guarantees\<close>

text \<open>
  A stored question is always closed, an answered question is answered again from the tables,
  and an answer cites what its prompt offered.
\<close>

subsection \<open>A stored question is closed\<close>

lemma get_run_with_answer:
  "get_run run (with_answer env req run pm p cited fb d) = map_option (succeeded_row
     (answer_outcome env pm (answer_confidence env pm p cited fb)) (he_now (ae_chat env))) (get_run run d)"
  using get_run_update[of "succeeded_row (answer_outcome env pm (answer_confidence env pm p cited fb)) (he_now (ae_chat env))" run d]
  by (simp add: get_run_def with_answer_def)

lemma get_run_closed:
  "get_run run (closed_as_failed env run code d) =
     map_option (failed_row code (Some (ae_latency env)) (he_now (ae_chat env))) (get_run run d)"
  by (simp add: closed_as_failed_def get_run_update)

text \<open>
  C2: A stored question is always closed. From any well-formed tables that hold its run, the
  second transaction ends, commits and keeps every constraint, touching no other run. Either
  the run is closed as failed with an error code and neither a message nor a citation was
  added, or it is closed as succeeded, exactly one assistant message was added, in the session
  of the question and linked to the run, and at least one citation, all of the run.
\<close>

theorem stored_question_is_closed:
  assumes "run_retrieval retrieve" "chat_wf d" "get_run run d \<noteq> None"
  shows "\<exists>r d'. ask_finish env retrieve req run d = Inr (r, d') \<and> chat_wf d' \<and>
    filter (\<lambda>x. run_id x \<noteq> run) (ct_runs d') = filter (\<lambda>x. run_id x \<noteq> run) (ct_runs d) \<and>
    (case r of
       Refused code st \<Rightarrow>
         map_option (\<lambda>x. (run_status x, run_error x)) (get_run run d') = Some (RunFailed, Some code) \<and>
         ct_messages d' = ct_messages d \<and> ct_citations d' = ct_citations d
     | Answered ((m, records), usage) \<Rightarrow>
         map_option (\<lambda>x. (run_status x, run_error x)) (get_run run d') = Some (RunSucceeded, None) \<and>
         ct_messages d' = ct_messages d @ [m] \<and> msg_role m = RoleAssistant \<and>
         msg_session_id m = aq_session req \<and> msg_run_id m = Some run \<and>
         (\<exists>cs. ct_citations d' = ct_citations d @ cs \<and> cs \<noteq> [] \<and> (\<forall>c\<in>set cs. cit_run_id c = run)))"
proof -
  obtain r d' where r: "ask_finish env retrieve req run d = Inr (r, d')"
    "run_outcome_is env req run d r d'" "chat_wf d'"
    using run_retrieval.finish_outcome[OF assms] by blast
  have has: "get_run run e \<noteq> None" if "works_on run d e" for e
    using works_on_has_run[OF that] assms(3) by simp
  show ?thesis
  proof (cases r)
    case (Refused code st)
    with r(2) obtain e where e: "works_on run d e" "d' = closed_as_failed env run code e"
      by (auto simp: run_outcome_is_def)
    have "filter (\<lambda>x. run_id x \<noteq> run) (ct_runs d') = filter (\<lambda>x. run_id x \<noteq> run) (ct_runs d)"
      using e by (simp add: closed_as_failed_def other_runs_kept works_on_def)
    moreover have "map_option (\<lambda>x. (run_status x, run_error x)) (get_run run d') = Some (RunFailed, Some code)"
      using has[OF e(1)] by (auto simp: e(2) get_run_closed failed_row_def)
    moreover have "ct_messages d' = ct_messages d" "ct_citations d' = ct_citations d"
      using works_on_frame[OF e(1)] by (simp_all add: e(2) closed_as_failed_def)
    ultimately show ?thesis using r(1,3) Refused by fastforce
  next
    case (Answered a)
    then obtain m records usage where a: "r = Answered ((m, records), usage)" by (cases a) auto
    with r(2) obtain e pm p cited fb where e: "works_on run d e" "answer_checked (pm_sources pm) p cited"
      "d' = with_answer env req run pm p cited fb e" "m = new_answer env req run p (ct_next_message e)"
      by (auto simp: run_outcome_is_def)
    let ?cs = "citation_rows run (ct_next_citation e) (he_db_now (ae_chat env)) (map make_citation_input cited)"
    have "filter (\<lambda>x. run_id x \<noteq> run) (ct_runs d') = filter (\<lambda>x. run_id x \<noteq> run) (ct_runs d)"
      using e(1) by (simp add: e(3) with_answer_def other_runs_kept works_on_def)
    moreover have "map_option (\<lambda>x. (run_status x, run_error x)) (get_run run d') = Some (RunSucceeded, None)"
      using has[OF e(1)] by (auto simp: e(3) get_run_with_answer succeeded_row_def)
    moreover have "ct_messages d' = ct_messages d @ [m]" "ct_citations d' = ct_citations d @ ?cs"
      using works_on_frame[OF e(1)] by (simp_all add: e(3,4) with_answer_def)
    moreover have "?cs \<noteq> []"
    proof -
      have "length ?cs \<noteq> 0" using validated_sources(1)[of p "pm_sources pm" cited] e(2) by (simp add: answer_checked_def)
      from this[unfolded length_0_conv] show ?thesis .
    qed
    moreover have "\<forall>c\<in>set ?cs. cit_run_id c = run" using citation_rows_run by blast
    moreover have "msg_role m = RoleAssistant" "msg_session_id m = aq_session req" "msg_run_id m = Some run"
      by (simp_all add: e(4) new_answer_def)
    ultimately show ?thesis using r(1,3) a by fastforce
  qed
qed

theorem stored_question_is_closed_witness:
  "\<exists>m run d r d'. ask_begin ex_ask_env 1 ex_ask ex_chat_db = Inr (Started m run, d) \<and>
     ask_finish ex_ask_env (retrieve_direct ex_ask_env ex_ask ''why'' StratDense) ex_ask run d = Inr (r, d')"
proof -
  obtain m run d where begun: "ask_begin ex_ask_env 1 ex_ask ex_chat_db = Inr (Started m run, d)"
    using ex_started by (auto split: sum.splits prod.splits ask_started.splits)
  have "\<exists>r d'. ask_finish ex_ask_env (retrieve_direct ex_ask_env ex_ask ''why'' StratDense) ex_ask run d = Inr (r, d')"
    using stored_question_is_closed[OF direct.run_retrieval_axioms[of ex_ask_env ex_ask "''why''" StratDense]
        ask_begin_wf[OF ex_chat_wf begun] started_has_run[OF begun], of ex_ask_env ex_ask] by blast
  then show ?thesis using begun by blast
qed

subsection \<open>An answered question is answered again from the tables\<close>

lemma classify_replayed: "classify_duplicate req m d = Inr r \<Longrightarrow> as_replayed r"
  by (auto simp: classify_duplicate_def make_ask_response_def split: if_splits option.splits)

lemma replayed_flag: "ask_begin env user req d = Inr (Replayed r, d') \<Longrightarrow> as_replayed r"
  unfolding ask_begin_def
  by (auto simp: and_then_Inr dest: classify_replayed split: option.splits sum.splits chat_error.splits if_splits)

lemma make_ask_response_replay:
  "make_ask_response m a rs x False usage = Inr r \<Longrightarrow>
   make_ask_response m a rs x True None = Inr (r\<lparr>as_replayed := True, as_usage := None\<rparr>)"
  by (auto simp: make_ask_response_def split: option.splits)

text \<open>The runs of a question, by a test that only looks at a run's core.\<close>

definition asked_by :: "int \<Rightarrow> int \<Rightarrow> retrieval_run \<Rightarrow> bool" where
  "asked_by i m r = (run_session_id r = Some i \<and> run_request_id r = Some m)"

lemma asked_by_core: "map run_id (filter (asked_by i m) rs) = map run_id (filter (asked_by i m) (map run_core rs))"
  by (induction rs) (simp_all add: asked_by_def)

lemma asked_by_works: "works_on run d d' \<Longrightarrow>
    map run_id (filter (asked_by i m) (ct_runs d')) = map run_id (filter (asked_by i m) (ct_runs d))"
  by (simp only: asked_by_core[of i m "ct_runs d'"] asked_by_core[of i m "ct_runs d"] works_on_def)

lemma asked_by_update:
  "(\<And>r. run_id (f r) = run_id r \<and> run_session_id (f r) = run_session_id r \<and> run_request_id (f r) = run_request_id r) \<Longrightarrow>
   map run_id (filter (asked_by i m) (update_rows q f rs)) = map run_id (filter (asked_by i m) rs)"
  unfolding update_rows_def by (induction rs) (simp_all add: asked_by_def)

lemma fresh_question_unasked:
  assumes "chat_wf d"
  shows "filter (asked_by i (ct_next_message d)) (ct_runs d) = []"
proof (rule ccontr)
  assume "filter (asked_by i (ct_next_message d)) (ct_runs d) \<noteq> []"
  then obtain r where "r \<in> set (ct_runs d)" "run_session_id r = Some i" "run_request_id r = Some (ct_next_message d)"
    by (auto simp: filter_empty_conv asked_by_def)
  then have "(i, ct_next_message d) \<in> set (message_keys d)"
    using requested_message assms by (simp add: chat_wf_def)
  then show False using assms by (auto simp: message_keys_def chat_wf_def chat_sequences_def list_all_iff)
qed

lemma fresh_run_unlinked:
  assumes "chat_wf d" "m \<in> set (ct_messages d)"
  shows "msg_run_id m \<noteq> Some (ct_next_run d)"
proof
  assume "msg_run_id m = Some (ct_next_run d)"
  then obtain r where "r \<in> set (ct_runs d)" "run_id r = ct_next_run d"
    using linked_run[of d m] assms by (auto simp: chat_wf_def)
  then show False using assms by (auto simp: chat_wf_def chat_sequences_def list_all_iff)
qed

lemma find_append_None: "find P xs = None \<Longrightarrow> find P (xs @ ys) = find P ys"
  by (induction xs) (simp_all split: if_splits)

text \<open>The tables after a question was stored and answered.\<close>

lemma answered_tables:
  assumes wf: "chat_wf d" and w: "works_on (ct_next_run d) (with_question env req d) e"
    and d': "d' = with_answer env req (ct_next_run d) pm p cited fb e" and ok: "chat_now_ok d'"
    and x: "get_run (ct_next_run d) d' = Some x"
  shows "get_latest_run_for_request_message (aq_session req) (ct_next_message d) d' = Some x"
    "run_status x = RunSucceeded"
    "get_assistant_message_for_retrieval_run (aq_session req) (ct_next_run d) d' =
       Some (new_answer env req (ct_next_run d) p (ct_next_message e))"
    "get_user_message_by_client_message_id (aq_session req) (aq_client_id req) d = None \<Longrightarrow>
     get_user_message_by_client_message_id (aq_session req) (aq_client_id req) d' =
       Some (new_question env req (ct_next_message d))"
proof -
  let ?run = "ct_next_run d"
  have messages: "ct_messages d' = ct_messages d @ [new_question env req (ct_next_message d),
      new_answer env req ?run p (ct_next_message e)]"
    using works_on_frame(3)[OF w] by (simp add: d' with_answer_def with_question_def)
  have "map run_id (filter (asked_by (aq_session req) (ct_next_message d)) (ct_runs d')) =
      map run_id (filter (asked_by (aq_session req) (ct_next_message d)) (ct_runs (with_question env req d)))"
    unfolding asked_by_works[OF w, symmetric] by (simp add: d' with_answer_def asked_by_update)
  also have "\<dots> = [?run]"
    using fresh_question_unasked[OF wf, of "aq_session req"] by (simp add: with_question_def asked_by_def)
  finally obtain y where y: "filter (asked_by (aq_session req) (ct_next_message d)) (ct_runs d') = [y]" "run_id y = ?run"
    by auto
  have "y \<in> set (filter (asked_by (aq_session req) (ct_next_message d)) (ct_runs d'))" by (simp add: y(1))
  moreover have "x \<in> set (ct_runs d')" "run_id x = ?run" using x get_run_find unfolding get_run_def by fast+
  ultimately have "x = y" using same_run[OF ok, of x y] y(2) by auto
  then show "get_latest_run_for_request_message (aq_session req) (ct_next_message d) d' = Some x"
    using y(1) by (simp add: get_latest_run_for_request_message_def asked_by_def[abs_def])
  show "run_status x = RunSucceeded"
    using x by (auto simp: d' get_run_with_answer succeeded_row_def)
  have "filter (\<lambda>m. msg_session_id m = aq_session req \<and> msg_role m = RoleAssistant \<and> msg_run_id m = Some ?run)
      (ct_messages d') = [new_answer env req ?run p (ct_next_message e)]"
    using fresh_run_unlinked[OF wf] by (simp add: messages filter_empty_conv new_question_def new_answer_def)
  then show "get_assistant_message_for_retrieval_run (aq_session req) ?run d' =
       Some (new_answer env req ?run p (ct_next_message e))"
    by (simp add: get_assistant_message_for_retrieval_run_def)
  assume "get_user_message_by_client_message_id (aq_session req) (aq_client_id req) d = None"
  then show "get_user_message_by_client_message_id (aq_session req) (aq_client_id req) d' =
       Some (new_question env req (ct_next_message d))"
    unfolding get_user_message_by_client_message_id_def messages
    by (simp add: find_append_None new_question_def)
qed

lemma classify_answered:
  assumes "get_latest_run_for_request_message (aq_session req) (msg_id m) d = Some x" "run_status x = RunSucceeded"
    "get_assistant_message_for_retrieval_run (aq_session req) (run_id x) d = Some a" "msg_content m = aq_message req"
  shows "classify_duplicate req m d = make_ask_response m a (list_citations_for_run (run_id x) d) x True None"
  using assms by (simp add: classify_duplicate_def)

text \<open>
  C8: Asking the same question twice answers it once. When a question was answered, then as
  long as its session can be written to, a request with the same session, the same client
  message identifier and the same text returns the stored answer with the same messages,
  citations, confidence and run, marked as a replay and without token usage, whatever the
  retrieval and the settings are by then, and changes nothing in the tables.
\<close>

theorem answered_question_is_replayed:
  assumes "run_retrieval retrieve" "chat_wf d" "ask env retrieve user req d = (Inr r, d')" "\<not> as_replayed r"
    "ensure_session_can_append_messages (ae_chat env') user (aq_session req) d' = Inr s"
    "aq_session req' = aq_session req" "aq_client_id req' = aq_client_id req" "aq_message req' = aq_message req"
  shows "ask env' retrieve' user req' d' = (Inr (r\<lparr>as_replayed := True, as_usage := None\<rparr>), d')"
proof -
  obtain m run d1 where begun: "ask_begin env user req d = Inr (Started m run, d1)"
    using assms(3,4) replayed_flag by (fastforce simp: ask_def split: sum.splits ask_started.splits)
  note started = ask_begin_Started[OF begun]
  have wf1: "chat_wf d1" by (rule ask_begin_wf[OF assms(2) begun])
  obtain res d2 where fin: "ask_finish env retrieve req run d1 = Inr (res, d2)"
    "run_outcome_is env req run d1 res d2" "chat_wf d2"
    using run_retrieval.finish_outcome[OF assms(1) wf1 started_has_run[OF begun]] by blast
  have result: "ask_response_of m run res d2 = Inr r" "d2 = d'"
    using assms(3) by (auto simp: ask_def begun fin(1))
  obtain a records usage x where ans: "res = Answered ((a, records), usage)" "get_run run d' = Some x"
    "make_ask_response m a records x False usage = Inr r"
    using result by (auto simp: ask_response_of_def split: ask_result.splits option.splits)
  obtain e pm p cited fb where e: "works_on run d1 e" "d' = with_answer env req run pm p cited fb e"
    "a = new_answer env req run p (ct_next_message e)" "records = list_citations_for_run run d'"
    using fin(2) result(2) by (auto simp: run_outcome_is_def ans(1))
  have ok: "chat_now_ok d'" using fin(3) result(2) by (simp add: chat_wf_def)
  note tables = answered_tables[OF assms(2) e(1)[unfolded started(1,3)] e(2)[unfolded started(3)] ok ans(2)[unfolded started(3)]]
  have id: "run_id x = run" using ans(2) get_run_find unfolding get_run_def by fast
  have "classify_duplicate req' m d' = make_ask_response m a records x True None"
    using tables(1-3) id
    by (subst classify_answered[of req' m d' x a]) (simp_all add: assms(6-8) started(2,3) new_question_def e(3,4))
  also have "\<dots> = Inr (r\<lparr>as_replayed := True, as_usage := None\<rparr>)" by (rule make_ask_response_replay[OF ans(3)])
  finally have "classify_duplicate req' m d' = Inr (r\<lparr>as_replayed := True, as_usage := None\<rparr>)" .
  then have "ask_begin env' user req' d' = Inr (Replayed (r\<lparr>as_replayed := True, as_usage := None\<rparr>), d')"
    using assms(5) tables(4)[OF started(4)] by (simp add: ask_begin_def assms(6,7) started(2))
  then show ?thesis by (simp add: ask_def)
qed

theorem answered_question_is_replayed_witness:
  "\<exists>r d. ask ex_ask_env ex_retrieval 1 ex_ask ex_chat_db = (Inr r, d) \<and>
     ask ex_ask_env ex_retrieval 1 ex_ask d = (Inr (r\<lparr>as_replayed := True, as_usage := None\<rparr>), d)"
proof -
  obtain r d s where first: "ask ex_ask_env ex_retrieval 1 ex_ask ex_chat_db = (Inr r, d)" "\<not> as_replayed r"
    "ensure_session_can_append_messages (ae_chat ex_ask_env) 1 1 d = Inr s"
    using ex_answered by (auto simp: answered_writable_def split: prod.splits sum.splits)
  have "aq_session ex_ask = 1" by (simp add: ex_ask_def)
  then show ?thesis
    using answered_question_is_replayed[OF ex_retrieval_runs ex_chat_wf first(1,2) _ refl refl refl,
        of ex_ask_env s ex_retrieval] first(1,3) by auto
qed

subsection \<open>What an answer cites\<close>

text \<open>
  C4: Whatever the model generates, with or without a second attempt, repaired or replaced by
  the fallback, an answer that gets through cites at least one source, only sources its prompt
  offered, each once, and the numbers of the cited sources are exactly the numbers of the
  markers in the text of the answer, in the order of their first occurrence.
\<close>

theorem answer_cites_what_was_offered:
  assumes "generate_answer env req pm = Inr ((p, cited, fallback), usage)"
  shows "cited \<noteq> [] \<and> set cited \<subseteq> set (pm_sources pm) \<and> distinct (map src_local_id cited) \<and>
    map src_local_id cited =
      uniq_first (map (\<lambda>(ds, _, _). int (digits_val ds)) (scan_markers 0 (po_text p)))"
proof -
  have ok: "validate_generation_citations p (pm_sources pm) = Inr cited" "parsed_ok p"
    using generate_answer_checked[OF assms] by (simp_all add: answer_checked_def)
  have "map mk_id (po_markers p) = map (\<lambda>(ds, _, _). int (digits_val ds)) (scan_markers 0 (po_text p))"
    using ok(2) by (simp add: parsed_ok_def marker_of_def split_def)
  then have "po_unique p = uniq_first (map (\<lambda>(ds, _, _). int (digits_val ds)) (scan_markers 0 (po_text p)))"
    using ok(2) by (simp add: parsed_ok_def unique_in_order_def)
  then show ?thesis using validated_sources[OF ok] by simp
qed

definition ex_prompt :: prompt where
  "ex_prompt = \<lparr>pm_items = [], pm_sources = [ex_source 1],
     pm_summary = make_score_summary 5 1 None None [ex_hit] 1 None None None\<rparr>"

lemma ex_generated: "case generate_answer ex_ask_env ex_ask ex_prompt of Inr _ \<Rightarrow> True | Inl _ \<Rightarrow> False"
  by code_simp

theorem answer_cites_what_was_offered_witness:
  "\<exists>p cited fallback usage. generate_answer ex_ask_env ex_ask ex_prompt = Inr ((p, cited, fallback), usage) \<and>
     cited \<noteq> [] \<and> set cited \<subseteq> {ex_source 1}"
proof -
  obtain p cited fallback usage where g:
    "generate_answer ex_ask_env ex_ask ex_prompt = Inr ((p, cited, fallback), usage)"
    using ex_generated by (auto split: sum.splits)
  then show ?thesis using answer_cites_what_was_offered[OF g] by (auto simp: ex_prompt_def)
qed

text \<open>
  An answer of markers only, without a word, is replaced by the fallback text that the
  documents do not support an answer; but unlike every other use of that text it is not
  reported as a fallback, so its confidence is not lowered.
\<close>

lemma marker_is_short: "\<not> list_ex (\<lambda>i. 80 \<le> length (clean_text (gi_text i)) \<and> py_in (clean_text (gi_text i)) ''[1]'') items"
proof -
  have "length t \<le> 3" if "py_in t ''[1]''" for t
    using that sublist_length_le[of t "''[1]''"] by (simp add: py_in_sublist)
  then show ?thesis by (fastforce simp: list_ex_iff)
qed

theorem markers_only_answer_is_not_flagged:
  assumes "\<not> ge_insufficient env ''[1]''" "sources \<noteq> []"
  shows "validated_generation_or_fallback env ''[1]'' items sources False =
    and_then (insufficient_citation_fallback env sources) (\<lambda>(p, cited). Inr (p, cited, False))"
proof -
  let ?p = "\<lparr>po_text = ''[1]'', po_markers = [\<lparr>mk_id = 1, mk_start = 0, mk_end = 3\<rparr>], po_unique = [1]\<rparr>"
  have parsed: "parse_generation_output ''[1]'' = Inr ?p" by code_simp
  have blank: "py_strip (remove_markers ''[1]'') = []" "py_strip (sub_markers (\<lambda>_. []) ''[1]'') = []"
    by code_simp+
  have "\<not> rx_search sensitive_output_re ''[1]''" by code_simp
  moreover have "clean_text ''[1]'' = ''[1]''" by code_simp
  ultimately have safe: "output_is_safe items ''[1]''"
    using marker_is_short[of items] by (simp add: output_is_safe_def del: py_in.simps)
  have "validate_generation_citations ?p sources = Inl ParseInvalid"
    by (simp add: validate_generation_citations_def blank del: remove_markers.simps)
  moreover have "repair_generation_citations env ?p sources = insufficient_citation_fallback env sources"
    using assms(2) by (cases sources) (simp_all add: repair_generation_citations_def blank del: sub_markers.simps)
  ultimately show ?thesis
    using assms(1) by (simp add: validated_generation_or_fallback_def parsed safe)
qed

end
