(* ===== verification/Chat_Requests.thy ===== *)
theory Chat_Requests
  imports Rag_Example
begin

section \<open>Histories of requests on conversations\<close>

text \<open>
  The requests of the chat service and the two transactions of a question as one datatype, what
  a session's rows are, and what a request may do to them. A history interleaves requests of any
  users under any environments; the two transactions of a question need not follow each other.
\<close>

datatype chat_request =
    NewSession "string option" bool
  | Retitle int string
  | ArchiveSession int
  | DeleteSession int
  | AddTag int string
  | RemoveTag int string
  | BeginAsk ask_request
  | FinishAsk ask_request int

definition tables_after :: "chat_db \<Rightarrow> chat_error + 'a \<times> chat_db \<Rightarrow> chat_db" where
  "tables_after d x = (case x of Inl _ \<Rightarrow> d | Inr (_, d') \<Rightarrow> d')"

lemma tables_after_simps [simp]:
  "tables_after d (Inl e) = d"
  "tables_after d (Inr (a, d')) = d'"
  by (simp_all add: tables_after_def)

fun chat_step :: "ask_env \<Rightarrow> retrieval \<Rightarrow> int \<Rightarrow> chat_request \<Rightarrow> chat_db \<Rightarrow> chat_db" where
  "chat_step env retrieve user (NewSession title temporary) d =
     tables_after d (service_create_session (ae_chat env) user title temporary d)"
| "chat_step env retrieve user (Retitle i title) d =
     tables_after d (service_update_title (ae_chat env) user i title d)"
| "chat_step env retrieve user (ArchiveSession i) d =
     tables_after d (service_archive_session (ae_chat env) user i d)"
| "chat_step env retrieve user (DeleteSession i) d =
     (case service_delete_session (ae_chat env) user i d of Inl _ \<Rightarrow> d | Inr d' \<Rightarrow> d')"
| "chat_step env retrieve user (AddTag i tag) d =
     tables_after d (service_add_tag (ae_chat env) user i tag d)"
| "chat_step env retrieve user (RemoveTag i tag) d =
     tables_after d (service_delete_tag (ae_chat env) user i tag d)"
| "chat_step env retrieve user (BeginAsk req) d = tables_after d (ask_begin env user req d)"
| "chat_step env retrieve user (FinishAsk req run) d = tables_after d (ask_finish env retrieve req run d)"

subsection \<open>Well-formed tables stay well-formed\<close>

lemma wf_tables_after: "chat_wf d \<Longrightarrow> wf_result x \<Longrightarrow> chat_wf (tables_after d x)"
  by (cases x) (auto simp: wf_result_def)

lemma refuse_missing: "get_run run d = None \<Longrightarrow> refuse env run code st d = Inr (Refused code st, d)"
  by (simp add: refuse_def mark_failed_safely_def)

context run_retrieval
begin

lemma finish_wf:
  assumes wf: "chat_wf d"
  shows "chat_wf (tables_after d (ask_finish env retrieve req run d))"
proof (cases "get_run run d = None")
  case True
  have missing: "refuse env run code st e = Inr (Refused code st, e) \<and> chat_wf e" if "works_on run d e" for code st e
    using refuse_missing works_on_has_run[OF that] works_on_wf[OF that wf] True by simp
  have refused: "chat_wf (tables_after d (refuse env run code st e))" if "works_on run d e" for code st e
    using missing[OF that, of code st] by simp
  have self: "works_on run d d" using wf by (simp add: chat_wf_def works_on_refl)
  have refused_for: "chat_wf (tables_after d (refuse_for env run e d e2))" if "works_on run d e2" for e e2
    unfolding refuse_for_def using refused[OF that] refused[OF self] by simp
  show ?thesis
  proof (cases "and_then (retrieve run d) (\<lambda>(result, d1). build_prompt env req run result d1)")
    case (Inl e)
    then show ?thesis using refused_for[OF self] by (simp add: ask_finish_def)
  next
    case (Inr x)
    obtain pm d2 where x: "x = (pm, d2)" by (cases x)
    have w: "works_on run d d2" using prompt_works[OF wf] Inr x by blast
    have gone: "get_run run d2 = None" using works_on_has_run[OF w] True by simp
    show ?thesis
    proof (cases pm)
      case None
      then show ?thesis using refused[OF w] Inr x by (simp add: ask_finish_def)
    next
      case (Some pr)
      have none: "store_answer env req run pr p cited fb d2 \<noteq> Inr y" for p cited fb y
        using store_answer_Inr(6)[of env req run pr p cited fb d2] gone by (cases y) force
      show ?thesis using refused_for[OF w] Inr x Some none
        by (auto simp: ask_finish_def split: sum.split)
    qed
  qed
next
  case False
  then show ?thesis using finish_outcome[OF wf False, of env req] by auto
qed

end

lemma chat_step_wf:
  assumes "run_retrieval retrieve" "chat_wf d"
  shows "chat_wf (chat_step env retrieve user r d)"
proof (cases r)
  case (DeleteSession i)
  then show ?thesis using service_delete_session_wf[OF assms(2), of "ae_chat env" user i] assms(2)
    by (simp add: ensures_def split: sum.splits)
next
  case (BeginAsk req)
  then show ?thesis using assms(2) ask_begin_wf[OF assms(2)]
    by (cases "ask_begin env user req d") auto
next
  case (FinishAsk req run)
  then show ?thesis using run_retrieval.finish_wf[OF assms] by simp
qed (use assms(2) in \<open>simp_all add: wf_tables_after service_wf\<close>)

text \<open>
  No history of requests can break the tables. From well-formed tables, every sequence of
  creations, renamings, archivings, deletions, taggings and questions, by any users and at any
  times, with the two halves of questions interleaved at will, succeeding or failing, ends in
  well-formed tables: every CHECK, unique index and foreign key holds, the deferred references
  between answers, runs and questions too, and no identifier can be handed out twice.
\<close>

theorem histories_keep_the_tables:
  assumes "\<forall>(env, retrieve, user, r) \<in> set history. run_retrieval retrieve" "chat_wf d"
  shows "chat_wf (fold (\<lambda>(env, retrieve, user, r). chat_step env retrieve user r) history d)"
  using assms by (induction history arbitrary: d) (auto simp: chat_step_wf)

theorem histories_keep_the_tables_witness:
  "chat_wf (fold (\<lambda>(env, retrieve, user, r). chat_step env retrieve user r)
     [(ex_ask_env, ex_retrieval, 1, BeginAsk ex_ask), (ex_ask_env, ex_retrieval, 1, AddTag 1 ''x''),
      (ex_ask_env, retrieve_direct ex_ask_env ex_ask ''why'' StratHybrid, 1, FinishAsk ex_ask 1),
      (ex_ask_env, ex_retrieval, 1, DeleteSession 1)] ex_chat_db)"
  by (rule histories_keep_the_tables) (simp_all add: ex_retrieval_runs direct.run_retrieval_axioms ex_chat_wf)

subsection \<open>The rows of a session\<close>

record session_rows =
  sr_sessions :: "chat_session list"
  sr_messages :: "chat_message list"
  sr_tags :: "chat_tag list"
  sr_memories :: "summary_memory list"
  sr_runs :: "retrieval_run list"
  sr_items :: "run_item list"
  sr_citations :: "citation list"
  sr_paths :: "graph_path list"

definition session_rows_of :: "int \<Rightarrow> chat_db \<Rightarrow> session_rows" where
  "session_rows_of i d = (let runs = set (session_runs i d) in
     \<lparr>sr_sessions = filter (\<lambda>s. ch_id s = i) (ct_sessions d),
      sr_messages = filter (\<lambda>m. msg_session_id m = i) (ct_messages d),
      sr_tags = filter (\<lambda>t. tag_session_id t = i) (ct_tags d),
      sr_memories = filter (\<lambda>m. mem_session_id m = i) (ct_memories d),
      sr_runs = filter (\<lambda>r. run_session_id r = Some i) (ct_runs d),
      sr_items = filter (\<lambda>x. ri_run_id x \<in> runs) (ct_items d),
      sr_citations = filter (\<lambda>c. cit_run_id c \<in> runs) (ct_citations d),
      sr_paths = filter (\<lambda>p. gp_run_id p \<in> runs) (ct_paths d)\<rparr>)"

definition no_rows :: session_rows where
  "no_rows = \<lparr>sr_sessions = [], sr_messages = [], sr_tags = [], sr_memories = [], sr_runs = [], sr_items = [],
     sr_citations = [], sr_paths = []\<rparr>"

lemma filter_both: "(\<And>x. q x \<Longrightarrow> p x) \<Longrightarrow> filter q (filter p xs) = filter q xs"
  by (induction xs) auto

lemma filter_other: "b \<noteq> a \<Longrightarrow> filter (\<lambda>x. f x = b) (filter (\<lambda>x. f x \<noteq> a) xs) = filter (\<lambda>x. f x = b) xs"
  by (induction xs) auto

lemma filter_neither: "(\<And>x. q x \<Longrightarrow> \<not> p x) \<Longrightarrow> filter q (filter p xs) = []"
  by (induction xs) auto

lemma session_rows_cong:
  assumes "ct_sessions d' = ct_sessions d" "ct_messages d' = ct_messages d" "ct_tags d' = ct_tags d"
    "ct_memories d' = ct_memories d" "ct_runs d' = ct_runs d" "ct_items d' = ct_items d"
    "ct_citations d' = ct_citations d" "ct_paths d' = ct_paths d"
  shows "session_rows_of i d' = session_rows_of i d"
  by (simp add: session_rows_of_def session_runs_def assms)

lemma session_rows_audit [simp]: "session_rows_of i (chat_audit env a u t k md d) = session_rows_of i d"
  by (rule session_rows_cong) simp_all

lemma runs_of_two_sessions:
  assumes "chat_now_ok d" "k \<in> set (session_runs i d)" "k \<in> set (session_runs j d)"
  shows "i = j"
  using assms same_run[OF assms(1)] by (fastforce simp: session_runs_iff)

lemma rows_without_session:
  assumes "chat_now_ok d"
  shows "session_rows_of j (without_session i d) = (if j = i then no_rows else session_rows_of j d)"
proof (cases "j = i")
  case True
  then show ?thesis
    by (simp add: session_rows_of_def no_rows_def without_session_def session_runs_def Let_def filter_neither del: filter_filter)
next
  case False
  have runs: "session_runs j (without_session i d) = session_runs j d"
    using False by (simp add: session_runs_def without_session_def Let_def filter_other del: filter_filter)
  have apart: "k \<notin> set (session_runs i d)" if "k \<in> set (session_runs j d)" for k
    using runs_of_two_sessions[OF assms _ that] False by blast
  show ?thesis unfolding session_rows_of_def runs
    using False apart by (simp add: without_session_def Let_def filter_both filter_other del: filter_filter)
qed

text \<open>
  C13: Deleting a session removes all of it and nothing else. For its owner the deletion
  always succeeds, whatever runs, answers, citations, items, tags and memories refer to each
  other. Afterwards the tables are those of before without the session, its messages, tags,
  memories and runs and without the items, citations and graph paths of these runs; every
  evaluation item is still there, with the reference to one of these runs cleared and every
  other reference kept; one audit record of the deletion is added; nothing else differs. So no
  row of the session is left, nothing refers to one of its runs, and the rows of every other
  session are untouched. For anyone else it is refused as not found.
\<close>

theorem deletion_removes_the_session_only:
  assumes "chat_wf d"
  shows "case get_session_for_user user i d of
      None \<Rightarrow> service_delete_session env user i d = Inl ChatNotFound
    | Some s \<Rightarrow> \<exists>a d'. service_delete_session env user i d = Inr d' \<and>
        d' = d\<lparr>ct_sessions := filter (\<lambda>x. ch_id x \<noteq> i) (ct_sessions d),
          ct_messages := filter (\<lambda>m. msg_session_id m \<noteq> i) (ct_messages d),
          ct_tags := filter (\<lambda>t. tag_session_id t \<noteq> i) (ct_tags d),
          ct_memories := filter (\<lambda>m. mem_session_id m \<noteq> i) (ct_memories d),
          ct_runs := filter (\<lambda>r. run_session_id r \<noteq> Some i) (ct_runs d),
          ct_items := filter (\<lambda>x. ri_run_id x \<notin> set (session_runs i d)) (ct_items d),
          ct_citations := filter (\<lambda>c. cit_run_id c \<notin> set (session_runs i d)) (ct_citations d),
          ct_paths := filter (\<lambda>p. gp_run_id p \<notin> set (session_runs i d)) (ct_paths d),
          ct_evals := map (\<lambda>v. if ev_run_id v \<in> Some ` set (session_runs i d)
            then v\<lparr>ev_run_id := None\<rparr> else v) (ct_evals d),
          ct_rest := add_audit_log a (ct_rest d)\<rparr> \<and>
        audit_action a = ''chat.deleted'' \<and> audit_actor a = Some user \<and> audit_target_id a = Some i \<and>
        session_rows_of i d' = no_rows \<and>
        (\<forall>k\<in>set (session_runs i d). k \<notin> set (map ri_run_id (ct_items d')) \<and> k \<notin> set (map cit_run_id (ct_citations d')) \<and>
           k \<notin> set (map gp_run_id (ct_paths d')) \<and> Some k \<notin> set (map ev_run_id (ct_evals d'))) \<and>
        (\<forall>j. j \<noteq> i \<longrightarrow> session_rows_of j d' = session_rows_of j d)"
proof (cases "get_session_for_user user i d")
  case None
  then show ?thesis by (simp add: service_delete_session_def get_owned_session_def)
next
  case (Some s)
  have ok: "chat_now_ok d" "chat_deferred_ok d" using assms by (simp_all add: chat_wf_def)
  have id: "ch_id s = i" using Some unfolding get_session_for_user_def by (auto simp: find_Some_iff)
  let ?d = "chat_audit env ''chat.deleted'' user ''chat_session'' i [(''result'', PStr ''deleted'')] (without_session i d)"
  have "service_delete_session env user i d = Inr ?d"
    using Some deferred_without_session[OF ok, of i]
    by (simp add: service_delete_session_def get_owned_session_def id delete_session_rows_is[OF ok] chat_commit_def)
  moreover have "\<exists>a. ct_rest ?d = add_audit_log a (ct_rest d) \<and> audit_action a = ''chat.deleted'' \<and>
    audit_actor a = Some user \<and> audit_target_id a = Some i"
    by (rule exI, intro conjI, simp add: chat_audit_def audit_def without_session_def Let_def) simp_all
  then obtain a where "ct_rest ?d = add_audit_log a (ct_rest d)" "audit_action a = ''chat.deleted''"
    "audit_actor a = Some user" "audit_target_id a = Some i" by blast
  moreover have "ct_evals ?d = map (\<lambda>v. if ev_run_id v \<in> Some ` set (session_runs i d)
      then v\<lparr>ev_run_id := None\<rparr> else v) (ct_evals d)"
    by (auto simp: without_session_def Let_def update_rows_def)
  moreover have "session_rows_of j ?d = (if j = i then no_rows else session_rows_of j d)" for j
    by (simp add: rows_without_session[OF ok(1)])
  moreover have "\<forall>k\<in>set (session_runs i d). k \<notin> set (map ri_run_id (ct_items ?d)) \<and>
      k \<notin> set (map cit_run_id (ct_citations ?d)) \<and> k \<notin> set (map gp_run_id (ct_paths ?d)) \<and>
      Some k \<notin> set (map ev_run_id (ct_evals ?d))"
    by (auto simp: without_session_def Let_def set_update_rows split: if_splits) (metis option.sel)
  ultimately show ?thesis unfolding Some option.case
    by (intro exI[of _ a] exI[of _ ?d]) (simp add: without_session_def chat_audit_def Let_def)
qed

theorem deletion_removes_the_session_only_witness:
  "\<exists>d'. service_delete_session ex_chat_env 1 1 ex_chat_db = Inr d' \<and> session_rows_of 1 d' = no_rows"
proof -
  have "get_session_for_user 1 1 ex_chat_db = Some (ex_chat_session 1)" by code_simp
  then show ?thesis using deletion_removes_the_session_only[OF ex_chat_wf, of ex_chat_env 1 1] by auto
qed

subsection \<open>Only the owner changes a session\<close>

definition same_elsewhere :: "int \<Rightarrow> chat_db \<Rightarrow> chat_db \<Rightarrow> bool" where
  "same_elsewhere j d d' = (\<forall>i. i \<noteq> j \<longrightarrow> session_rows_of i d' = session_rows_of i d)"

lemma same_elsewhere_refl: "same_elsewhere j d d"
  by (simp add: same_elsewhere_def)

lemma same_elsewhere_trans: "same_elsewhere j d1 d2 \<Longrightarrow> same_elsewhere j d2 d3 \<Longrightarrow> same_elsewhere j d1 d3"
  by (simp add: same_elsewhere_def)

lemma same_elsewhere_audit: "same_elsewhere j d (chat_audit env a u t k md d') = same_elsewhere j d d'"
  by (simp add: same_elsewhere_def)

lemma same_elsewhere_update:
  assumes "update_session j f d = Inr d'" "\<And>s. ch_id (f s) = ch_id s"
  shows "same_elsewhere j d d'"
proof -
  have "filter (\<lambda>s. ch_id s = i) (update_rows (\<lambda>s. ch_id s = j) f (ct_sessions d)) =
      filter (\<lambda>s. ch_id s = i) (ct_sessions d)" if "i \<noteq> j" for i
    by (rule filter_update_rows) (use that assms(2) in auto)
  then show ?thesis using assms(1)
    by (auto simp: update_session_def chat_statement_Inr same_elsewhere_def session_rows_of_def session_runs_def
        split: if_splits)
qed

lemma same_elsewhere_touch: "touch_session j now d = Inr d' \<Longrightarrow> same_elsewhere j d d'"
  unfolding touch_session_def by (erule same_elsewhere_update) simp

lemma same_elsewhere_title: "update_session_title j t now d = Inr d' \<Longrightarrow> same_elsewhere j d d'"
  unfolding update_session_title_def by (erule same_elsewhere_update) simp

lemma same_elsewhere_archive: "archive_session_row j now d = Inr d' \<Longrightarrow> same_elsewhere j d d'"
  unfolding archive_session_row_def by (erule same_elsewhere_update) simp

lemma same_elsewhere_create_tag: "create_tag j name now d = Inr (t, d') \<Longrightarrow> same_elsewhere j d d'"
  by (auto simp: create_tag_def and_then_Inr chat_statement_Inr Let_def same_elsewhere_def session_rows_of_def
      session_runs_def)

lemma same_elsewhere_delete_tag:
  assumes "delete_tag_row j name d = Inr (t, d')" "chat_now_ok d"
  shows "same_elsewhere j d d'"
proof (cases "get_tag j name d")
  case None
  then show ?thesis using assms(1) by (simp add: delete_tag_row_def same_elsewhere_refl)
next
  case (Some x)
  then have x: "x \<in> set (ct_tags d)" "tag_session_id x = j"
    by (auto simp: get_tag_def find_Some_iff in_set_conv_nth)
  have d': "d' = d\<lparr>ct_tags := filter (\<lambda>y. tag_id y \<noteq> tag_id x) (ct_tags d)\<rparr>"
    using assms(1) Some by (auto simp: delete_tag_row_def and_then_Inr chat_statement_Inr)
  have "distinct (map tag_id (ct_tags d))" using assms(2) by (simp add: chat_now_ok_def tags_table_def)
  then have "tag_id y \<noteq> tag_id x" if "y \<in> set (ct_tags d)" "tag_session_id y \<noteq> j" for y
    using that x by (auto simp: distinct_map dest: inj_onD)
  then have "filter (\<lambda>t. tag_session_id t = i) (filter (\<lambda>y. tag_id y \<noteq> tag_id x) (ct_tags d)) =
      filter (\<lambda>t. tag_session_id t = i) (ct_tags d)" if "i \<noteq> j" for i
    using that by (auto intro!: filter_cong)
  then show ?thesis
    by (simp add: d' same_elsewhere_def session_rows_of_def session_runs_def del: filter_filter)
qed

text \<open>A change of one run, of its items and of its citations.\<close>

lemma filter_apart:
  assumes "filter p xs = filter p ys" "\<And>x. q x \<Longrightarrow> p x"
  shows "filter q xs = filter q ys"
  using arg_cong[OF assms(1), of "filter q"] assms(2) by (simp only: filter_both)

lemma rows_apart_from_run:
  assumes same: "filter (\<lambda>s. ch_id s = i) (ct_sessions d') = filter (\<lambda>s. ch_id s = i) (ct_sessions d)"
    "filter (\<lambda>m. msg_session_id m = i) (ct_messages d') = filter (\<lambda>m. msg_session_id m = i) (ct_messages d)"
    "ct_tags d' = ct_tags d" "ct_memories d' = ct_memories d" "ct_paths d' = ct_paths d"
    and runs: "filter (\<lambda>r. run_id r \<noteq> run) (ct_runs d') = filter (\<lambda>r. run_id r \<noteq> run) (ct_runs d)"
    and items: "filter (\<lambda>x. ri_run_id x \<noteq> run) (ct_items d') = filter (\<lambda>x. ri_run_id x \<noteq> run) (ct_items d)"
    and cits: "filter (\<lambda>c. cit_run_id c \<noteq> run) (ct_citations d') = filter (\<lambda>c. cit_run_id c \<noteq> run) (ct_citations d)"
    and other: "\<forall>r\<in>set (ct_runs d). run_id r = run \<longrightarrow> run_session_id r \<noteq> Some i"
    "\<forall>r\<in>set (ct_runs d'). run_id r = run \<longrightarrow> run_session_id r \<noteq> Some i"
  shows "session_rows_of i d' = session_rows_of i d"
proof -
  have "filter (\<lambda>r. run_session_id r = Some i) (filter (\<lambda>r. run_id r \<noteq> run) (ct_runs e)) =
      filter (\<lambda>r. run_session_id r = Some i) (ct_runs e)"
    if "\<forall>r\<in>set (ct_runs e). run_id r = run \<longrightarrow> run_session_id r \<noteq> Some i" for e
    using that by (auto intro!: filter_cong)
  then have rs: "filter (\<lambda>r. run_session_id r = Some i) (ct_runs d') = filter (\<lambda>r. run_session_id r = Some i) (ct_runs d)"
    using other runs by metis
  have ids: "session_runs i d' = session_runs i d" by (simp add: session_runs_def rs)
  have not: "k \<noteq> run" if "k \<in> set (session_runs i d)" for k
    using that other(1) by (auto simp: session_runs_iff)
  show ?thesis unfolding session_rows_of_def ids Let_def
    using same rs filter_apart[OF items] filter_apart[OF cits] not by simp
qed

text \<open>The run belongs to the session, if it exists.\<close>

definition run_of :: "int \<Rightarrow> int \<Rightarrow> retrieval_run list \<Rightarrow> bool" where
  "run_of run j rows = list_all (\<lambda>r. run_id r = run \<longrightarrow> run_session_id r = Some j) rows"

lemma run_of_other: "run_of run j rows \<Longrightarrow> i \<noteq> j \<Longrightarrow> \<forall>r\<in>set rows. run_id r = run \<longrightarrow> run_session_id r \<noteq> Some i"
  by (auto simp: run_of_def list_all_iff)

lemma run_of_update:
  "run_of run j rows \<Longrightarrow> (\<And>r. run_id (f r) = run_id r) \<Longrightarrow> (\<And>r. run_session_id (f r) = run_session_id r) \<Longrightarrow>
   run_of run j (update_rows p f rows)"
  unfolding run_of_def update_rows_def by (induction rows) simp_all

lemma run_of_works: "works_on run d d' \<Longrightarrow> run_of run j (ct_runs d') = run_of run j (ct_runs d)"
proof -
  assume w: "works_on run d d'"
  have "map (\<lambda>r. run_id r = run \<longrightarrow> run_session_id r = Some j) (ct_runs d') =
      map (\<lambda>r. run_id r = run \<longrightarrow> run_session_id r = Some j) (ct_runs d)"
    by (rule works_on_map[OF w]) simp
  from arg_cong[OF this, of "list_all id"] show ?thesis by (simp add: run_of_def list.pred_map o_def)
qed

lemma same_elsewhere_works:
  assumes w: "works_on run d d'" and own: "run_of run j (ct_runs d)"
  shows "same_elsewhere j d d'"
proof -
  have "session_rows_of i d' = session_rows_of i d" if i: "i \<noteq> j" for i
  proof (rule rows_apart_from_run[where run = run])
    show "\<forall>r\<in>set (ct_runs d). run_id r = run \<longrightarrow> run_session_id r \<noteq> Some i"
      "\<forall>r\<in>set (ct_runs d'). run_id r = run \<longrightarrow> run_session_id r \<noteq> Some i"
      using own run_of_works[OF w, of j] run_of_other i by blast+
  qed (use w works_on_frame[OF w] in \<open>simp_all add: works_on_def\<close>)
  then show ?thesis by (simp add: same_elsewhere_def)
qed

lemma same_elsewhere_closed:
  assumes own: "run_of run j (ct_runs d)"
  shows "same_elsewhere j d (closed_as_failed env run code d)"
proof -
  have own': "run_of run j (ct_runs (closed_as_failed env run code d))"
    using own by (simp add: closed_as_failed_def run_of_update)
  have "session_rows_of i (closed_as_failed env run code d) = session_rows_of i d" if i: "i \<noteq> j" for i
    by (rule rows_apart_from_run[where run = run, OF _ _ _ _ _ _ _ _ run_of_other[OF own i] run_of_other[OF own' i]])
      (simp_all add: closed_as_failed_def other_runs_kept)
  then show ?thesis by (simp add: same_elsewhere_def)
qed

lemma same_elsewhere_answer:
  assumes own: "run_of run (aq_session req) (ct_runs d)"
  shows "same_elsewhere (aq_session req) d (with_answer env req run pm p cited fb d)"
proof -
  have touched: "filter (\<lambda>s. ch_id s = i) (update_rows (\<lambda>s. ch_id s = aq_session req) (\<lambda>s. s\<lparr>ch_updated_at := t\<rparr>) rows) =
      filter (\<lambda>s. ch_id s = i) rows" if "i \<noteq> aq_session req" for i t rows
    by (rule filter_update_rows) (use that in auto)
  have cited: "filter (\<lambda>c. cit_run_id c \<noteq> run) (citation_rows run i now xs) = []" for i now xs
    using citation_rows_run by (fastforce simp: filter_empty_conv)
  have own': "run_of run (aq_session req) (ct_runs (with_answer env req run pm p cited fb d))"
    using own by (simp add: with_answer_def run_of_update)
  have "session_rows_of i (with_answer env req run pm p cited fb d) = session_rows_of i d" if i: "i \<noteq> aq_session req" for i
    by (rule rows_apart_from_run[where run = run, OF _ _ _ _ _ _ _ _ run_of_other[OF own i] run_of_other[OF own' i]])
      (use i in \<open>simp_all add: with_answer_def other_runs_kept touched cited new_answer_def\<close>)
  then show ?thesis by (simp add: same_elsewhere_def)
qed

lemma same_elsewhere_question: "same_elsewhere (aq_session req) d (with_question env req d)"
proof -
  have touched: "filter (\<lambda>s. ch_id s = i) (update_rows (\<lambda>s. ch_id s = aq_session req) (\<lambda>s. s\<lparr>ch_updated_at := t\<rparr>) rows) =
      filter (\<lambda>s. ch_id s = i) rows" if "i \<noteq> aq_session req" for i t rows
    by (rule filter_update_rows) (use that in auto)
  have "session_runs i (with_question env req d) = session_runs i d" if "i \<noteq> aq_session req" for i
    using that by (simp add: session_runs_def with_question_def)
  then show ?thesis
    by (simp add: same_elsewhere_def session_rows_of_def with_question_def touched new_question_def)
qed

definition owner_of :: "int \<Rightarrow> chat_db \<Rightarrow> int option" where
  "owner_of i d = map_option ch_user_id (find (\<lambda>s. ch_id s = i) (ct_sessions d))"

lemma find_facts: "find p xs = Some x \<Longrightarrow> x \<in> set xs \<and> p x"
  by (induction xs) (auto split: if_splits)

lemma owned_session:
  assumes "chat_now_ok d" "get_owned_session user i d = Inr s"
  shows "ch_id s = i" "owner_of i d = Some user"
proof -
  have s: "s \<in> set (ct_sessions d)" "ch_id s = i" "ch_user_id s = user"
    using assms(2) find_facts[of _ "ct_sessions d" s]
    by (auto simp: get_owned_session_def get_session_for_user_def split: option.splits)
  show "ch_id s = i" by (rule s(2))
  have "distinct (map ch_id (ct_sessions d))"
    using assms(1) by (simp add: chat_now_ok_def sessions_table_def session_ids_def)
  moreover obtain t where t: "find (\<lambda>s. ch_id s = i) (ct_sessions d) = Some t"
    using s(1,2) by (cases "find (\<lambda>s. ch_id s = i) (ct_sessions d)") (auto simp: find_None_iff)
  ultimately have "t = s" using find_facts[OF t] s by (auto simp: distinct_map dest: inj_onD)
  then show "owner_of i d = Some user" using t s(3) by (simp add: owner_of_def)
qed

lemma writable_owned: "writable_session env user i d = Inr s \<Longrightarrow> get_owned_session user i d = Inr s"
  by (auto simp: writable_session_def and_then_Inr)

text \<open>A request that goes through is about one session, of the user who makes it.\<close>

definition own_change :: "int \<Rightarrow> int \<Rightarrow> chat_db \<Rightarrow> chat_db \<Rightarrow> bool" where
  "own_change user i d d' = (owner_of i d = Some user \<and> same_elsewhere i d d')"

lemma own_change_title:
  assumes "chat_now_ok d" "service_update_title env user i title d = Inr (v, d')"
  shows "own_change user i d d'"
proof -
  obtain s t d1 where s: "writable_session env user i d = Inr s" "update_session_title (ch_id s) t (he_now env) d = Inr d1"
    "d' = chat_audit env ''chat.title_updated'' user ''chat_session'' (ch_id s) [(''field'', PStr ''title'')] d1"
    using assms(2) by (auto simp: service_update_title_def and_then_Inr chat_commit_Inr)
  note own = owned_session[OF assms(1) writable_owned[OF s(1)]]
  show ?thesis using own same_elsewhere_title[OF s(2)] by (simp add: own_change_def s(3) same_elsewhere_audit)
qed

lemma own_change_archive:
  assumes "chat_now_ok d" "service_archive_session env user i d = Inr (v, d')"
  shows "own_change user i d d'"
proof -
  obtain s where s: "get_owned_session user i d = Inr s"
    using assms(2) by (auto simp: service_archive_session_def and_then_Inr)
  note own = owned_session[OF assms(1) s]
  have "same_elsewhere i d d'" using assms(2) own(1)
    by (auto simp: service_archive_session_def and_then_Inr chat_commit_Inr s same_elsewhere_audit same_elsewhere_refl
        same_elsewhere_archive split: if_splits)
  then show ?thesis using own by (simp add: own_change_def)
qed

lemma own_change_delete:
  assumes "chat_now_ok d" "chat_deferred_ok d" "service_delete_session env user i d = Inr d'"
  shows "own_change user i d d'"
proof -
  obtain s where s: "get_owned_session user i d = Inr s"
    using assms(3) by (auto simp: service_delete_session_def and_then_Inr)
  note own = owned_session[OF assms(1) s]
  have "same_elsewhere i d (without_session i d)"
    by (simp add: same_elsewhere_def rows_without_session[OF assms(1)])
  then have "same_elsewhere i d d'" using assms(3) own(1)
    by (auto simp: service_delete_session_def and_then_Inr chat_commit_Inr s same_elsewhere_audit
        delete_session_rows_is[OF assms(1,2)])
  then show ?thesis using own by (simp add: own_change_def)
qed

lemma same_elsewhere_tagged:
  "create_tag j name t d = Inr (x, e) \<Longrightarrow> touch_session j now e = Inr d' \<Longrightarrow> same_elsewhere j d d'"
  using same_elsewhere_trans same_elsewhere_create_tag same_elsewhere_touch by blast

lemma same_elsewhere_untagged:
  "delete_tag_row j name d = Inr (x, e) \<Longrightarrow> chat_now_ok d \<Longrightarrow> touch_session j now e = Inr d' \<Longrightarrow> same_elsewhere j d d'"
  using same_elsewhere_trans same_elsewhere_delete_tag same_elsewhere_touch by blast

lemma own_change_add_tag:
  assumes "chat_now_ok d" "service_add_tag env user i tag d = Inr (v, d')"
  shows "own_change user i d d'"
proof -
  obtain s where s: "writable_session env user i d = Inr s"
    using assms(2) by (auto simp: service_add_tag_def and_then_Inr)
  note own = owned_session[OF assms(1) writable_owned[OF s]]
  have "same_elsewhere i d d'" using assms(2) own(1)
    by (auto simp: service_add_tag_def and_then_Inr chat_commit_Inr s same_elsewhere_audit same_elsewhere_refl
        split: if_splits sum.splits) (erule (1) same_elsewhere_tagged)
  then show ?thesis using own by (simp add: own_change_def)
qed

lemma own_change_delete_tag:
  assumes "chat_now_ok d" "service_delete_tag env user i tag d = Inr (v, d')"
  shows "own_change user i d d'"
proof -
  obtain s where s: "writable_session env user i d = Inr s"
    using assms(2) by (auto simp: service_delete_tag_def and_then_Inr)
  note own = owned_session[OF assms(1) writable_owned[OF s]]
  have "same_elsewhere i d d'" using assms(2) own(1)
    by (auto simp: service_delete_tag_def and_then_Inr chat_commit_Inr s same_elsewhere_audit
        intro: same_elsewhere_delete_tag assms(1) split: option.splits) (erule same_elsewhere_untagged[OF _ assms(1)], assumption)
  then show ?thesis using own by (simp add: own_change_def)
qed

lemma own_change_begin:
  assumes "chat_now_ok d" "ask_begin env user req d = Inr (x, d')"
  shows "own_change user (aq_session req) d d'"
proof -
  obtain s where s: "writable_session (ae_chat env) user (aq_session req) d = Inr s"
    using assms(2) by (auto simp: ask_begin_def ensure_session_can_append_messages_def and_then_Inr)
  have "same_elsewhere (aq_session req) d d'"
    using ask_begin_Inr[OF assms(2)] store_question_Inr(1) same_elsewhere_question same_elsewhere_refl by metis
  then show ?thesis using owned_session[OF assms(1) writable_owned[OF s]] by (simp add: own_change_def)
qed

lemma own_change_finish:
  assumes "run_retrieval retrieve" "chat_wf d" "run_of run (aq_session req) (ct_runs d)"
    "ask_finish env retrieve req run d = Inr (r, d')"
  shows "same_elsewhere (aq_session req) d d'"
proof (cases "get_run run d = None")
  case True
  text \<open>A run that is gone leaves at most the items of a retrieval, which no session owns.\<close>
  have self: "works_on run d d" using assms(2) by (simp add: chat_wf_def works_on_refl)
  have refused: "same_elsewhere (aq_session req) d d'"
    if "works_on run d e" "refuse env run code st e = Inr (r, d')" for e code st
    using that refuse_missing[of run e] works_on_has_run[OF that(1), of run] True
      same_elsewhere_works[OF that(1) assms(3)] by simp
  have refused_for: "same_elsewhere (aq_session req) d d'"
    if "works_on run d e2" "refuse_for env run e d e2 = Inr (r, d')" for e e2
    using that refused[OF that(1)] refused[OF self] unfolding refuse_for_def by (auto split: if_splits)
  have works: "works_on run d d2"
    if "and_then (retrieve run d) (\<lambda>(result, d1). build_prompt env req run result d1) = Inr (pm, d2)" for pm d2
    using run_retrieval.prompt_works[OF assms(1,2) that] .
  have no_answer: "store_answer env req run pr p cited fb d2 \<noteq> Inr y" if "works_on run d d2" for pr p cited fb d2 y
    using store_answer_Inr(6)[of env req run pr p cited fb d2] works_on_has_run[OF that, of run] True
    by (cases y) force
  show ?thesis using assms(4) unfolding ask_finish_def
    by (auto split: sum.splits option.splits prod.splits dest: refused_for[OF self] refused[OF works] refused_for[OF works]
        no_answer[OF works])
next
  case False
  then have "run_outcome_is env req run d r d'"
    using run_retrieval.finish_outcome[OF assms(1,2) False, of env req] assms(4) by auto
  then obtain e where e: "works_on run d e" "(\<exists>code. d' = closed_as_failed env run code e) \<or>
      (\<exists>pm p cited fb. d' = with_answer env req run pm p cited fb e)"
    by (cases r) (fastforce simp: run_outcome_is_def)+
  have own: "run_of run (aq_session req) (ct_runs e)" using run_of_works[OF e(1)] assms(3) by simp
  show ?thesis
    using e(2) same_elsewhere_closed[OF own] same_elsewhere_answer[OF own]
      same_elsewhere_trans[OF same_elsewhere_works[OF e(1) assms(3)]] by blast
qed

lemma rows_of_new_session:
  assumes "chat_sequences d" "owner_of i d = Some v" "service_create_session env user title temporary d = Inr (x, d')"
  shows "session_rows_of i d' = session_rows_of i d"
proof -
  obtain s where "find (\<lambda>s. ch_id s = i) (ct_sessions d) = Some s" using assms(2) by (auto simp: owner_of_def)
  then have i: "ct_next_session d \<noteq> i"
    using assms(1) find_facts[of "\<lambda>s. ch_id s = i" "ct_sessions d" s] by (auto simp: chat_sequences_def list_all_iff)
  obtain t tt n e where e: "create_session user t temporary tt (he_db_now env) d = Inr (n, e)"
    "session_rows_of i d' = session_rows_of i e"
    using assms(3) by (auto simp: service_create_session_def and_then_Inr chat_commit_Inr Let_def split: if_splits)
  have "session_rows_of i e = session_rows_of i d"
    using e(1) i by (auto simp: create_session_def and_then_Inr chat_statement_Inr Let_def session_rows_of_def session_runs_def)
  then show ?thesis using e(2) by simp
qed

text \<open>The second half of a question belongs to the user who owns the session of its run.\<close>

fun request_allowed :: "int \<Rightarrow> chat_request \<Rightarrow> chat_db \<Rightarrow> bool" where
  "request_allowed user (FinishAsk req run) d =
     (owner_of (aq_session req) d = Some user \<and> run_of run (aq_session req) (ct_runs d))"
| "request_allowed user _ d = True"

text \<open>
  C7: Nobody can change another user's conversation. Whatever a user requests, with whatever
  session identifier, and however it ends, a session of somebody else keeps all its rows: the
  session itself, its messages, tags and memories, and its runs with their items, citations and
  graph paths.
\<close>

theorem requests_keep_other_users_sessions:
  assumes "run_retrieval retrieve" "chat_wf d" "request_allowed user r d" "owner_of i d = Some v" "v \<noteq> user"
  shows "session_rows_of i (chat_step env retrieve user r d) = session_rows_of i d"
proof -
  have ok: "chat_now_ok d" "chat_deferred_ok d" "chat_sequences d" using assms(2) by (simp_all add: chat_wf_def)
  have other: "session_rows_of i d' = session_rows_of i d" if "own_change user j d d'" for j d'
  proof -
    have "i \<noteq> j" using that assms(4,5) by (auto simp: own_change_def)
    then show ?thesis using that by (simp add: own_change_def same_elsewhere_def)
  qed
  show ?thesis
  proof (cases r)
    case (NewSession title temporary)
    then show ?thesis using rows_of_new_session[OF ok(3) assms(4)]
      by (cases "service_create_session (ae_chat env) user title temporary d") auto
  next
    case (Retitle j title)
    then show ?thesis using other[OF own_change_title[OF ok(1)]]
      by (cases "service_update_title (ae_chat env) user j title d") auto
  next
    case (ArchiveSession j)
    then show ?thesis using other[OF own_change_archive[OF ok(1)]]
      by (cases "service_archive_session (ae_chat env) user j d") auto
  next
    case (DeleteSession j)
    then show ?thesis using other[OF own_change_delete[OF ok(1,2)]]
      by (cases "service_delete_session (ae_chat env) user j d") auto
  next
    case (AddTag j tag)
    then show ?thesis using other[OF own_change_add_tag[OF ok(1)]]
      by (cases "service_add_tag (ae_chat env) user j tag d") auto
  next
    case (RemoveTag j tag)
    then show ?thesis using other[OF own_change_delete_tag[OF ok(1)]]
      by (cases "service_delete_tag (ae_chat env) user j tag d") auto
  next
    case (BeginAsk req)
    then show ?thesis using other[OF own_change_begin[OF ok(1)]]
      by (cases "ask_begin env user req d") auto
  next
    case (FinishAsk req run)
    then have "owner_of (aq_session req) d = Some user" "run_of run (aq_session req) (ct_runs d)"
      using assms(3) by simp_all
    then show ?thesis using own_change_finish[OF assms(1,2)] other[of "aq_session req"] FinishAsk
      by (cases "ask_finish env retrieve req run d") (auto simp: own_change_def)
  qed
qed

theorem requests_keep_other_users_sessions_witness:
  "session_rows_of 1 (chat_step ex_ask_env ex_retrieval 2 (DeleteSession 1) ex_chat_db) = session_rows_of 1 ex_chat_db"
proof (rule requests_keep_other_users_sessions[OF ex_retrieval_runs ex_chat_wf, where v = 1])
  show "owner_of 1 ex_chat_db = Some 1" by code_simp
qed simp_all

subsection \<open>A closed conversation is frozen\<close>

text \<open>Archived, or temporary and expired at a time.\<close>

definition closed_row :: "py_time \<Rightarrow> chat_session \<Rightarrow> bool" where
  "closed_row now s = (ch_status s = ChatArchived \<or> is_temporary_expired now s)"

definition closed_at :: "int \<Rightarrow> py_time \<Rightarrow> chat_db \<Rightarrow> bool" where
  "closed_at i now d = list_ex (\<lambda>s. ch_id s = i \<and> closed_row now s) (ct_sessions d)"

text \<open>The requests that are neither the deletion of a session nor the answer to a question that was
  begun in it.\<close>

fun spares :: "int \<Rightarrow> chat_request \<Rightarrow> chat_db \<Rightarrow> bool" where
  "spares i (DeleteSession j) d = (j \<noteq> i)"
| "spares i (FinishAsk req run) d = (aq_session req \<noteq> i \<and> run_of run (aq_session req) (ct_runs d))"
| "spares i _ d = True"

fun spared :: "int \<Rightarrow> py_time \<Rightarrow> (ask_env \<times> retrieval \<times> int \<times> chat_request) list \<Rightarrow> chat_db \<Rightarrow> bool" where
  "spared i t [] d = True"
| "spared i t ((env, retrieve, user, r) # history) d =
     (run_retrieval retrieve \<and> t \<le> he_now (ae_chat env) \<and> spares i r d \<and>
      spared i t history (chat_step env retrieve user r d))"

lemma closed_row_later: "closed_row t s \<Longrightarrow> t \<le> now \<Longrightarrow> closed_row now s"
  by (auto simp: closed_row_def is_temporary_expired_def split: option.splits)

lemma closed_at_rows: "session_rows_of i d' = session_rows_of i d \<Longrightarrow> closed_at i t d' = closed_at i t d"
proof -
  have "closed_at i t e = list_ex (closed_row t) (sr_sessions (session_rows_of i e))" for e
    by (auto simp: closed_at_def session_rows_of_def Let_def list_ex_iff)
  then show "session_rows_of i d' = session_rows_of i d \<Longrightarrow> closed_at i t d' = closed_at i t d" by simp
qed

text \<open>Its owner is told so, anybody else that there is no such session.\<close>

definition refused_as_closed :: "chat_error + 'a \<Rightarrow> bool" where
  "refused_as_closed x = (x \<in> {Inl ChatNotFound, Inl ChatReadonly, Inl ChatExpired})"

lemma refused_and_then: "refused_as_closed x \<Longrightarrow> refused_as_closed (and_then x f)"
  by (auto simp: refused_as_closed_def)

lemma closed_not_writable:
  assumes "chat_now_ok d" "closed_at i t d" "t \<le> he_now env"
  shows "refused_as_closed (writable_session env user i d)"
proof (cases "get_session_for_user user i d")
  case None
  then show ?thesis by (simp add: writable_session_def get_owned_session_def refused_as_closed_def)
next
  case (Some s)
  obtain x where x: "x \<in> set (ct_sessions d)" "ch_id x = i" "closed_row t x"
    using assms(2) by (auto simp: closed_at_def list_ex_iff)
  have s: "s \<in> set (ct_sessions d)" "ch_id s = i"
    using find_facts[of _ "ct_sessions d" s] Some by (auto simp: get_session_for_user_def)
  have "distinct (map ch_id (ct_sessions d))"
    using assms(1) by (simp add: chat_now_ok_def sessions_table_def session_ids_def)
  then have "x = s" using x(1,2) s by (auto simp: distinct_map dest: inj_onD)
  then have "closed_row (he_now env) s" using closed_row_later[OF x(3) assms(3)] by simp
  then show ?thesis using Some
    by (auto simp: writable_session_def get_owned_session_def ensure_session_writable_def closed_row_def
        refused_as_closed_def)
qed

lemma closed_refuses:
  assumes "chat_now_ok d" "closed_at i t d" "t \<le> he_now env"
  shows "refused_as_closed (service_update_title env user i title d)"
    "refused_as_closed (service_add_tag env user i tag d)"
    "refused_as_closed (service_delete_tag env user i tag d)"
    "ae_chat aenv = env \<Longrightarrow> aq_session req = i \<Longrightarrow> refused_as_closed (ask_begin aenv user req d)"
  unfolding service_update_title_def service_add_tag_def service_delete_tag_def ask_begin_def
    ensure_session_can_append_messages_def
  using closed_not_writable[OF assms, of user] by (auto intro: refused_and_then)

lemma refused_keeps: "refused_as_closed x \<Longrightarrow> tables_after d x = d"
  by (auto simp: refused_as_closed_def)

lemma closed_archive:
  assumes "chat_now_ok d" "chat_deferred_ok d" "closed_at i t d" "service_archive_session env user i d = Inr (v, d')"
  shows "d' = d"
proof -
  obtain s where s: "get_owned_session user i d = Inr s" "\<not> ch_temporary s"
    using assms(4) by (auto simp: service_archive_session_def and_then_Inr split: if_splits)
  have "refused_as_closed (writable_session (env\<lparr>he_now := t\<rparr>) user i d)"
    by (rule closed_not_writable[OF assms(1,3)]) simp
  then have "ch_status s = ChatArchived"
    using s by (auto simp: writable_session_def refused_as_closed_def ensure_session_writable_def
        is_temporary_expired_def split: if_splits option.splits)
  then show ?thesis using assms(4) s by (auto simp: service_archive_session_def and_then_Inr chat_commit_Inr)
qed

lemma closed_step:
  assumes "run_retrieval retrieve" "chat_wf d" "closed_at i t d" "t \<le> he_now (ae_chat env)" "spares i r d"
  shows "session_rows_of i (chat_step env retrieve user r d) = session_rows_of i d"
proof -
  have ok: "chat_now_ok d" "chat_deferred_ok d" "chat_sequences d" using assms(2) by (simp_all add: chat_wf_def)
  have elsewhere: "session_rows_of i d' = session_rows_of i d" if "own_change user j d d'" "j \<noteq> i" for j d'
    using that by (simp add: own_change_def same_elsewhere_def)
  show ?thesis
  proof (cases r)
    case (NewSession title temporary)
    obtain v where "owner_of i d = Some v"
      using assms(3) by (cases "owner_of i d") (auto simp: closed_at_def list_ex_iff owner_of_def find_None_iff)
    then show ?thesis using NewSession rows_of_new_session[OF ok(3)]
      by (cases "service_create_session (ae_chat env) user title temporary d") auto
  next
    case (Retitle j title)
    show ?thesis
    proof (cases "j = i")
      case True
      then show ?thesis using refused_keeps[OF closed_refuses(1)[OF ok(1) assms(3,4)]] by (simp add: Retitle)
    next
      case False
      then show ?thesis using elsewhere[OF own_change_title[OF ok(1)]]
        by (cases "service_update_title (ae_chat env) user j title d") (auto simp: Retitle)
    qed
  next
    case (ArchiveSession j)
    show ?thesis
    proof (cases "service_archive_session (ae_chat env) user j d")
      case (Inr p)
      then show ?thesis using elsewhere[OF own_change_archive[OF ok(1)]]
        by (cases "j = i"; cases p) (auto simp: ArchiveSession dest: closed_archive[OF ok(1,2) assms(3)])
    qed (simp add: ArchiveSession)
  next
    case (DeleteSession j)
    then show ?thesis using elsewhere[OF own_change_delete[OF ok(1,2)]] assms(5)
      by (cases "service_delete_session (ae_chat env) user j d") auto
  next
    case (AddTag j tag)
    show ?thesis
    proof (cases "j = i")
      case True
      then show ?thesis using refused_keeps[OF closed_refuses(2)[OF ok(1) assms(3,4)]] by (simp add: AddTag)
    next
      case False
      then show ?thesis using elsewhere[OF own_change_add_tag[OF ok(1)]]
        by (cases "service_add_tag (ae_chat env) user j tag d") (auto simp: AddTag)
    qed
  next
    case (RemoveTag j tag)
    show ?thesis
    proof (cases "j = i")
      case True
      then show ?thesis using refused_keeps[OF closed_refuses(3)[OF ok(1) assms(3,4)]] by (simp add: RemoveTag)
    next
      case False
      then show ?thesis using elsewhere[OF own_change_delete_tag[OF ok(1)]]
        by (cases "service_delete_tag (ae_chat env) user j tag d") (auto simp: RemoveTag)
    qed
  next
    case (BeginAsk req)
    show ?thesis
    proof (cases "aq_session req = i")
      case True
      then show ?thesis
        using refused_keeps[OF closed_refuses(4)[OF ok(1) assms(3,4) refl, of req]] by (simp add: BeginAsk)
    next
      case False
      then show ?thesis using elsewhere[OF own_change_begin[OF ok(1)]]
        by (cases "ask_begin env user req d") (auto simp: BeginAsk)
    qed
  next
    case (FinishAsk req run)
    then have "aq_session req \<noteq> i" "run_of run (aq_session req) (ct_runs d)" using assms(5) by simp_all
    then show ?thesis using own_change_finish[OF assms(1,2)] FinishAsk
      by (cases "ask_finish env retrieve req run d") (auto simp: same_elsewhere_def)
  qed
qed

text \<open>
  C12: A closed conversation is frozen. Once a session is archived, or is temporary and has
  expired, no sequence of later requests by any users, its owner included, succeeding or
  failing and with the halves of questions interleaved at will, changes it: the session with
  its title, its messages, tags and memories, and its runs with their items, citations and
  graph paths stay as they are, as long as it is not deleted and no question begun in it before
  is answered. At the end of every such history renaming it, tagging it, removing a tag and
  asking a question in it are all refused, and the tables are well-formed.
\<close>

theorem closed_conversations_are_frozen:
  assumes "chat_wf d" "closed_at i t d" "spared i t history d"
    and "d' = fold (\<lambda>(env, retrieve, user, r). chat_step env retrieve user r) history d"
  shows "session_rows_of i d' = session_rows_of i d \<and> chat_wf d' \<and>
    (t \<le> he_now (ae_chat aenv) \<longrightarrow>
       refused_as_closed (service_update_title (ae_chat aenv) user i title d') \<and>
       refused_as_closed (service_add_tag (ae_chat aenv) user i tag d') \<and>
       refused_as_closed (service_delete_tag (ae_chat aenv) user i tag d') \<and>
       (aq_session req = i \<longrightarrow> refused_as_closed (ask_begin aenv user req d')))"
proof -
  have frozen: "session_rows_of i d' = session_rows_of i d \<and> chat_wf d'"
    using assms
  proof (induction history arbitrary: d)
    case (Cons h history)
    obtain env retrieve user r where h: "h = (env, retrieve, user, r)" by (cases h)
    have step: "session_rows_of i (chat_step env retrieve user r d) = session_rows_of i d"
      "chat_wf (chat_step env retrieve user r d)"
      using Cons.prems closed_step[of retrieve d i t env r user] chat_step_wf[of retrieve d env user r] by (simp_all add: h)
    have "session_rows_of i d' = session_rows_of i (chat_step env retrieve user r d) \<and> chat_wf d'"
      by (rule Cons.IH[OF step(2)]) (use Cons.prems closed_at_rows[OF step(1), of t] in \<open>simp_all add: h\<close>)
    then show ?case using step(1) by simp
  qed simp
  have "chat_now_ok d'" "closed_at i t d'"
    using frozen assms(2) closed_at_rows[of i d' d t] by (simp_all add: chat_wf_def)
  from closed_refuses[OF this] frozen show ?thesis by blast
qed

definition ex_archived_db :: chat_db where
  "ex_archived_db = ex_chat_db\<lparr>ct_sessions :=
     [(ex_chat_session 1)\<lparr>ch_status := ChatArchived, ch_archived_at := Some 1\<rparr>]\<rparr>"

theorem closed_conversations_are_frozen_witness:
  "session_rows_of 1 (fold (\<lambda>(env, retrieve, user, r). chat_step env retrieve user r)
     [(ex_ask_env, ex_retrieval, 1, AddTag 1 ''x''), (ex_ask_env, ex_retrieval, 1, BeginAsk ex_ask)] ex_archived_db) =
   session_rows_of 1 ex_archived_db \<and> closed_at 1 0 ex_archived_db"
proof -
  have wf: "chat_wf ex_archived_db" "closed_at 1 0 ex_archived_db" by code_simp+
  have "0 \<le> he_now (ae_chat ex_ask_env)" by (simp add: ex_ask_env_def ex_chat_env_def)
  then have "spared 1 0 [(ex_ask_env, ex_retrieval, 1, AddTag 1 ''x''), (ex_ask_env, ex_retrieval, 1, BeginAsk ex_ask)]
      ex_archived_db" by (simp add: ex_retrieval_runs)
  from closed_conversations_are_frozen[OF wf this refl] wf(2) show ?thesis by blast
qed

end
