(* ===== verification/Evidence_Properties.thy ===== *)
theory Evidence_Properties
  imports Evidence_Pack
begin

section \<open>What the evidence pack promises\<close>

text \<open>
  Both ways through \<open>rag/evidence_pack.py\<close> are one loop over the candidates that accepts or
  drops each of them. The invariant of the loop relates its state to the list of the candidates
  accepted so far: the items are excerpts of them, in their order, within the limits.
\<close>

definition excerpt_of :: "evidence_candidate \<Rightarrow> evidence_item \<Rightarrow> bool" where
  "excerpt_of c i =
     (ei_run_item_id i = ec_run_item_id c \<and> ei_chunk_id i = ec_chunk_id c \<and> ei_local_id i = ec_local_id c \<and>
      1 \<le> ei_local_id i \<and> ei_text i \<noteq> [] \<and> prefix (ei_text i) (evidence_clean c) \<and>
      ei_output_chars i = length (ei_text i) \<and> ei_original_chars i = length (evidence_clean c))"

text \<open>The record of a drop names its candidate; a candidate without text, and no other, is
  dropped for that reason.\<close>

definition drop_of :: "evidence_candidate \<Rightarrow> dropped_ref \<Rightarrow> bool" where
  "drop_of c x =
     (dr_run_item_id x = ec_run_item_id c \<and> dr_chunk_id x = ec_chunk_id c \<and>
      dr_source_label x = sanitize_text 255 (ec_source_label c) \<and> dr_rank x = ec_rank c \<and>
      dr_rerank_order x = ec_rerank_order c \<and> dr_original_chars x = length (evidence_clean c) \<and>
      dr_tokens x = estimate_tokens (evidence_clean c) \<and>
      (dr_reason x = NoText \<longleftrightarrow> evidence_clean c = []))"

lemma shuffles_last: "zs @ [x] \<in> shuffles [x] zs"
  by (induction zs) (simp_all add: Cons_in_shuffles_iff)

lemma shuffles_snoc: "xs \<in> shuffles ys zs \<Longrightarrow> xs @ [x] \<in> shuffles (ys @ [x]) zs"
proof (induction xs arbitrary: ys zs)
  case (Cons a xs)
  from Cons.prems consider ys' where "ys = a # ys'" "xs \<in> shuffles ys' zs"
    | zs' where "zs = a # zs'" "xs \<in> shuffles ys zs'"
    unfolding Cons_in_shuffles_iff by (metis list.collapse)
  then show ?case
  proof cases
    case 1
    then show ?thesis using Cons.IH by (simp add: Cons_in_shuffles_iff)
  next
    case 2
    then show ?thesis using Cons.IH[OF 2(2)] by (simp add: Cons_in_shuffles_iff)
  qed
qed (simp add: Nil_in_shuffles)

lemma shuffles_snoc_right: "xs \<in> shuffles ys zs \<Longrightarrow> xs @ [x] \<in> shuffles ys (zs @ [x])"
  using shuffles_snoc[of xs zs ys x] by (simp add: shuffles_commutes)

definition pack_inv :: "evidence_candidate list \<Rightarrow> evidence_candidate list \<Rightarrow> evidence_candidate list \<Rightarrow>
    pack_state \<Rightarrow> bool" where
  "pack_inv cs kept dropped st =
     (cs \<in> shuffles kept dropped \<and> list_all2 excerpt_of kept (ps_items st) \<and>
      list_all2 drop_of dropped (ps_drops st) \<and>
      ps_chars st = sum_list (map ei_output_chars (ps_items st)) \<and>
      map ei_id (ps_items st) = map (\<lambda>k. ''e'' @ nat_str (k + 1)) [0..<length kept])"

definition pack_limits :: "pack_policy \<Rightarrow> evidence_candidate list \<Rightarrow> pack_state \<Rightarrow> bool" where
  "pack_limits p kept st =
     (length kept \<le> ep_max_items p \<and> (\<forall>i\<in>set (ps_items st). ei_output_chars i \<le> ep_max_chars p) \<and>
      (\<forall>g. counter_of (ps_per_source st) g = length (filter (\<lambda>c. ec_group c = g) kept) \<and>
           length (filter (\<lambda>c. ec_group c = g) kept) \<le> ep_max_per_source p) \<and>
      set (ps_normalized st) = set (map (normalize_evidence \<circ> evidence_clean) kept) \<and>
      distinct (map (normalize_evidence \<circ> evidence_clean) kept))"

lemma empty_pack_inv: "pack_inv [] [] [] empty_pack"
  by (simp add: pack_inv_def empty_pack_def)

lemma empty_pack_limits: "pack_limits p [] empty_pack"
  by (simp add: pack_limits_def empty_pack_def counter_of_def)

lemma counter_bump: "counter_of (bump k t) g = counter_of t g + (if g = k then 1 else 0)"
  by (simp add: counter_of_def bump_def update_conv')

lemma drop_chars [simp]: "ps_chars (drop_evidence r c st) = ps_chars st"
  by (simp add: drop_evidence_def)

lemma drop_inv:
  assumes "pack_inv cs kept dropped st" "r = NoText \<longleftrightarrow> evidence_clean c = []"
  shows "pack_inv (cs @ [c]) kept (dropped @ [c]) (drop_evidence r c st)"
  using assms
  by (auto simp: pack_inv_def drop_evidence_def drop_of_def intro!: shuffles_snoc_right list_all2_appendI)

lemma drop_limits: "pack_limits p kept st \<Longrightarrow> pack_limits p kept (drop_evidence r c st)"
  by (simp add: pack_limits_def drop_evidence_def)

lemma evidence_item_facts:
  assumes "evidence_item_of sha n c text m r = Some i"
  shows "ei_id i = ''e'' @ nat_str (n + 1)" "ei_text i = text" "ei_output_chars i = length text"
    "ei_run_item_id i = ec_run_item_id c" "ei_chunk_id i = ec_chunk_id c" "ei_local_id i = ec_local_id c"
    "1 \<le> ei_local_id i" "ei_original_chars i = length (evidence_clean c)"
  using assms by (auto simp: evidence_item_of_def split: option.splits if_splits)

lemma accept_inv:
  assumes "pack_inv cs kept dropped st" "evidence_item_of sha (length (ps_items st)) c (take n (evidence_clean c)) m r = Some i"
    "take n (evidence_clean c) \<noteq> []"
  shows "pack_inv (cs @ [c]) (kept @ [c]) dropped (accept_evidence sha c i st)"
proof -
  note f = evidence_item_facts[OF assms(2)]
  have "excerpt_of c i" using f assms(3) by (simp add: excerpt_of_def take_is_prefix)
  moreover have "length (ps_items st) = length kept"
    using assms(1) by (auto simp: pack_inv_def dest: list_all2_lengthD)
  ultimately show ?thesis using assms(1) f
    by (auto simp: pack_inv_def accept_evidence_def intro!: shuffles_snoc list_all2_appendI)
qed

text \<open>One step of the compressor.\<close>

lemma compress_step_cases:
  assumes "compress_step sha p c st = Some st'"
  obtains (drop) r where "st' = drop_evidence r c st" "r = NoText \<longleftrightarrow> evidence_clean c = []"
  | (accept) n i m where "compress_drop sha p st c = None"
      "n = min (ep_max_chars p) (ep_max_total p - ps_chars st)" "n \<noteq> 0"
      "evidence_item_of sha (length (ps_items st)) c (take n (evidence_clean c)) m (method_text m) = Some i"
      "st' = accept_evidence sha c i st"
proof (cases "compress_drop sha p st c")
  case (Some r)
  then show ?thesis using assms by (auto simp: compress_step_def compress_drop_def Let_def intro!: drop[of r] split: if_splits)
next
  case None
  let ?n = "min (ep_max_chars p) (ep_max_total p - ps_chars st)"
  have "?n \<noteq> 0" using None by (simp add: compress_drop_def Let_def split: if_splits)
  then show ?thesis using assms None accept[of ?n]
    by (auto simp: compress_step_def Let_def)
qed

lemma compress_drop_none:
  assumes "compress_drop sha p st c = None"
  shows "evidence_clean c \<noteq> []" "normalize_evidence (evidence_clean c) \<notin> set (ps_normalized st)"
    "length (ps_items st) < ep_max_items p" "counter_of (ps_per_source st) (ec_group c) < ep_max_per_source p"
  using assms by (auto simp: compress_drop_def Let_def split: if_splits)

lemma accept_limits:
  assumes "pack_inv cs kept dropped st" "pack_limits p kept st" "compress_drop sha p st c = None"
    "ei_output_chars i \<le> ep_max_chars p"
  shows "pack_limits p (kept @ [c]) (accept_evidence sha c i st)"
proof -
  note free = compress_drop_none[OF assms(3)]
  have "length (ps_items st) = length kept"
    using assms(1) by (auto simp: pack_inv_def dest: list_all2_lengthD)
  then show ?thesis using assms(2,4) free
    by (auto simp: pack_limits_def accept_evidence_def counter_bump)
qed

definition compressed_ok :: "pack_policy \<Rightarrow> evidence_candidate list \<Rightarrow> pack_state \<Rightarrow> bool" where
  "compressed_ok p cs st =
     (\<exists>kept dropped. pack_inv cs kept dropped st \<and> pack_limits p kept st \<and> ps_chars st \<le> ep_max_total p)"

lemma compress_step_ok:
  assumes "compressed_ok p cs st" "compress_step sha p c st = Some st'"
  shows "compressed_ok p (cs @ [c]) st'"
proof -
  obtain kept dropped where inv: "pack_inv cs kept dropped st" "pack_limits p kept st" "ps_chars st \<le> ep_max_total p"
    using assms(1) by (auto simp: compressed_ok_def)
  show ?thesis using assms(2)
  proof (cases rule: compress_step_cases)
    case (drop r)
    then show ?thesis using drop_inv[OF inv(1), of r c] drop_limits[OF inv(2), of r c] inv(3)
      unfolding compressed_ok_def by auto
  next
    case (accept n i m)
    note f = evidence_item_facts[OF accept(4)]
    have "take n (evidence_clean c) \<noteq> []" using compress_drop_none(1)[OF accept(1)] accept(3) by simp
    then have "pack_inv (cs @ [c]) (kept @ [c]) dropped st'" using accept_inv[OF inv(1) accept(4)] accept(5) by simp
    moreover have "pack_limits p (kept @ [c]) st'"
      using accept_limits[OF inv(1,2) accept(1), of i] f(3) accept(2,5) by simp
    moreover have "ps_chars st' \<le> ep_max_total p"
      using f(2) accept(2,5) inv(3) by (simp add: accept_evidence_def)
    ultimately show ?thesis unfolding compressed_ok_def by blast
  qed
qed

text \<open>Without compression only the total length is limited.\<close>

definition passed_ok :: "pack_policy \<Rightarrow> evidence_candidate list \<Rightarrow> pack_state \<Rightarrow> bool" where
  "passed_ok p cs st = (\<exists>kept dropped. pack_inv cs kept dropped st \<and> ps_chars st \<le> ep_max_total p)"

lemma passthrough_step_ok:
  assumes "passed_ok p cs st" "passthrough_step sha p c st = Some st'"
  shows "passed_ok p (cs @ [c]) st'"
proof -
  obtain kept dropped where inv: "pack_inv cs kept dropped st" "ps_chars st \<le> ep_max_total p"
    using assms(1) by (auto simp: passed_ok_def)
  show ?thesis
  proof (cases "evidence_clean c = [] \<or> ep_max_total p \<le> ps_chars st")
    case True
    then obtain r where "st' = drop_evidence r c st" "r = NoText \<longleftrightarrow> evidence_clean c = []"
      using assms(2) by (auto simp: passthrough_step_def split: if_splits)
    then show ?thesis using drop_inv[OF inv(1), of r c] inv(2) unfolding passed_ok_def by auto
  next
    case False
    then obtain i where i: "st' = accept_evidence sha c i st"
      "evidence_item_of sha (length (ps_items st)) c (take (ep_max_total p - ps_chars st) (evidence_clean c))
         MethodNone ''disabled'' = Some i"
      using assms(2) by (auto simp: passthrough_step_def Let_def)
    have "take (ep_max_total p - ps_chars st) (evidence_clean c) \<noteq> []" using False by simp
    from accept_inv[OF inv(1) i(2) this] evidence_item_facts(2)[OF i(2)] i(1) inv(2)
    show ?thesis by (auto simp: passed_ok_def accept_evidence_def)
  qed
qed

text \<open>The loop, once for both steps.\<close>

locale evidence_loop =
  fixes step :: "evidence_candidate \<Rightarrow> pack_state \<Rightarrow> pack_state option"
    and ok :: "evidence_candidate list \<Rightarrow> pack_state \<Rightarrow> bool"
  assumes start: "ok [] empty_pack"
    and keeps: "ok cs st \<Longrightarrow> step c st = Some st' \<Longrightarrow> ok (cs @ [c]) st'"
begin

lemma loop_from: "ok done st \<Longrightarrow> pack_loop step cs st = Some st' \<Longrightarrow> ok (done @ cs) st'"
proof (induction cs arbitrary: "done" st)
  case (Cons c cs)
  from Cons.prems(2) obtain st1 where s: "step c st = Some st1" "pack_loop step cs st1 = Some st'"
    by (auto split: option.splits)
  from Cons.IH[OF keeps[OF Cons.prems(1) s(1)] s(2)] show ?case by simp
qed simp

lemma loop_ok: "pack_loop step cs empty_pack = Some st \<Longrightarrow> ok cs st"
  using loop_from[OF start] by fastforce

end

interpretation compressor: evidence_loop "compress_step sha p" "compressed_ok p" for sha p
proof unfold_locales
  show "compressed_ok p [] empty_pack"
    using empty_pack_inv empty_pack_limits by (auto simp: compressed_ok_def empty_pack_def)
qed (rule compress_step_ok)

interpretation passthrough: evidence_loop "passthrough_step sha p" "passed_ok p" for sha p
proof unfold_locales
  show "passed_ok p [] empty_pack" using empty_pack_inv by (auto simp: passed_ok_def empty_pack_def)
qed (rule passthrough_step_ok)

text \<open>
  C36: The pack holds excerpts of the candidates within its limits, and accounts for every
  candidate. The candidates, in their order, are split into those kept and those dropped: each
  kept one is an item with its chunk, its citation number and a non-empty prefix of its text,
  each other one has a drop record with its run item, chunk, label, ranks and size, whose
  reason is a missing text exactly when it has none; the items are numbered in order and their
  texts together are at most the total length. When the pack is enabled, there are moreover at
  most the allowed number of items, in all and of each source, each text has at most its
  allowed length, and no two kept candidates have the same normalized text.
\<close>

theorem evidence_pack_is_bounded:
  assumes "build_evidence_pack sha p cs n = Some pk"
  shows "\<exists>kept dropped. cs \<in> shuffles kept dropped \<and> list_all2 excerpt_of kept (pk_items pk) \<and>
    list_all2 drop_of dropped (pk_drops pk) \<and>
    map ei_id (pk_items pk) = map (\<lambda>k. ''e'' @ nat_str (k + 1)) [0..<length kept] \<and>
    pk_output_chars pk \<le> ep_max_total p \<and>
    (ep_enabled p \<longrightarrow> length (pk_items pk) \<le> ep_max_items p \<and>
       (\<forall>g. length (filter (\<lambda>c. ec_group c = g) kept) \<le> ep_max_per_source p) \<and>
       (\<forall>i\<in>set (pk_items pk). length (ei_text i) \<le> ep_max_chars p) \<and>
       distinct (map (normalize_evidence \<circ> evidence_clean) kept))"
proof -
  obtain st where st: "(if ep_enabled p then compress_evidence sha p cs else passthrough_items sha p cs) = Some st"
    "pk_items pk = ps_items st" "pk_drops pk = ps_drops st"
    "pk_output_chars pk = sum_list (map ei_output_chars (ps_items st))"
    using assms by (auto simp: build_evidence_pack_def Let_def split: option.splits)
  obtain kept dropped where kept: "pack_inv cs kept dropped st" "ps_chars st \<le> ep_max_total p"
    "ep_enabled p \<longrightarrow> pack_limits p kept st"
    using st(1) compressor.loop_ok[of sha p cs st] passthrough.loop_ok[of sha p cs st]
    by (auto simp: compress_evidence_def passthrough_items_def compressed_ok_def passed_ok_def split: if_splits)
  have "length (ps_items st) = length kept" "\<forall>i\<in>set (ps_items st). ei_output_chars i = length (ei_text i)"
    using kept(1) by (auto simp: pack_inv_def excerpt_of_def list_all2_conv_all_nth in_set_conv_nth)
  then show ?thesis using kept st(2-4)
    by (intro exI[of _ kept] exI[of _ dropped]) (auto simp: pack_inv_def pack_limits_def)
qed

definition ex_pack_policy :: "bool \<Rightarrow> pack_policy" where
  "ex_pack_policy enabled = \<lparr>ep_enabled = enabled, ep_max_items = 2, ep_max_per_source = 1, ep_max_chars = 20,
     ep_max_total = 20, ep_near_threshold = 9 / 10, ep_preserve_citations = True, ep_group_by_source = True,
     ep_store_trace = True\<rparr>"

definition ex_evidence :: "int \<Rightarrow> string \<Rightarrow> evidence_candidate" where
  "ex_evidence k text = \<lparr>ec_run_item_id = k, ec_chunk_id = k, ec_local_id = k, ec_text = Some text,
     ec_source_label = None, ec_section_title = None, ec_page_from = None, ec_page_to = None,
     ec_score = None, ec_rerank_score = None, ec_rank = Some k, ec_rerank_order = None, ec_group = ''d'',
     ec_citation = True, ec_source = None, ec_document_id = None, ec_version_id = None\<rparr>"

lemma ex_evidence_packed: "build_evidence_pack (\<lambda>s. s) (ex_pack_policy True) [ex_evidence 1 ''a b'', ex_evidence 2 ''A b''] 2 \<noteq> None"
  by code_simp

theorem evidence_pack_is_bounded_witness:
  "\<exists>pk. build_evidence_pack (\<lambda>s. s) (ex_pack_policy True) [ex_evidence 1 ''a b'', ex_evidence 2 ''A b''] 2 = Some pk \<and>
     length (pk_items pk) \<le> 2 \<and> pk_output_chars pk \<le> 20"
proof -
  obtain pk where pk: "build_evidence_pack (\<lambda>s. s) (ex_pack_policy True) [ex_evidence 1 ''a b'', ex_evidence 2 ''A b''] 2 = Some pk"
    using ex_evidence_packed by auto
  then show ?thesis using evidence_pack_is_bounded[OF pk] by (auto simp: ex_pack_policy_def)
qed

end
