(* ===== verification/Spec2Isabelle.thy ===== *)
theory Spec2Isabelle
  imports Job_Properties Worker_Properties Auth_Properties Fusion Citations Confidence
    Trace_Redactor Context_Budget_Properties Metrics Chunking
    Ingest_Outcomes Document_Uploads Cache_Properties Agentic_Properties
    Rag_Properties Chat_Requests Evidence_Properties
begin

text \<open>
  A verification library of the RAG backend under \<open>src/backend/app\<close>: a FastAPI service that
  ingests documents, answers questions over them with citations, and runs its background work
  on a job queue in its database. Paths below are relative to that directory.

  A request passes the session and CSRF checks and reaches a service; a service works on the
  tables through a repository, in transactions. Uploads and fetched URLs become documents with
  versions, files and ingest jobs; a worker takes the jobs and turns a version into chunks; an
  approved version is searchable. A question is stored with a retrieval run, its strategy is
  routed, the chunks found are checked against the tables, cut to a budget and packed as
  evidence for the model, whose answer is stored with the citations that validate, or not at
  all. The library models the deterministic core of this, a group of theories per part.

  The model in general. State is passed explicitly: a transaction is a function from the
  record of the tables to an error or the new tables, and a constraint of the database
  refuses the statement, or the commit when it is deferred. Errors are values of a sum type.
  Interleaving is a step relation, or a history of requests, whose steps are the transactions.
  Clocks, random tokens and the row locks of others are arguments. Finite floats are rationals:
  the rounding of binary floating point is not part of the model. A character is a byte of
  Latin-1; other texts are not modelled.

  Shared theories.

  \<^item> \<open>Py_Prelude\<close>, \<open>Py_Regex\<close> and \<open>Json_Text\<close>: what the source uses of Python. Values,
    string methods, rounding; a backtracking matcher of regular expressions, whose loops have
    the length of the text as fuel, enough because a repetition that consumes nothing ends;
    the JSON texts that are hashed.
  \<^item> \<open>Db_Models\<close>: the rows of \<open>db/models.py\<close> for jobs, users, sessions and documents, with
    their constraints. \<open>Audit_Log\<close> (\<open>services/audit_service.py\<close>): the records all services add.

  Jobs and workers.

  \<^item> \<open>Job_Utils\<close> (\<open>core/job_utils.py\<close>) redacts payloads, results and error messages;
    \<open>Job_Store\<close> (\<open>repositories/job_repository.py\<close>) has the operations on the jobs table;
    \<open>Job_Service\<close> (\<open>services/job_service.py\<close>) the listing, the detail and the retry;
    \<open>Job_Lifecycle\<close> the step relation of the queue, its invariant and the locale
    interpretations; \<open>Job_Properties\<close> what follows: leases, finished jobs, retries.
  \<^item> \<open>Worker\<close> (\<open>workers/\<close>) is a polling round: acquisition, dispatch, heartbeat, terminal
    update. Its locale states what a worker needs of a leased queue and is interpreted on
    \<open>Job_Store\<close>; \<open>Worker_Properties\<close> shows what a worker stores of what its handler decided, and
    that a round is a run of the queue's step relation.

  Requests.

  \<^item> \<open>Rate_Limiter\<close> (\<open>core/security.py\<close>) and \<open>Auth\<close> (\<open>core/csrf.py\<close>, \<open>core/sessions.py\<close>,
    \<open>services/auth_service.py\<close>, \<open>services/csrf_service.py\<close>, \<open>api/deps.py\<close>): sign-in, sessions
    and request checks. A login is two steps with the password check between them, because
    requests are served at the same time and nothing is locked; \<open>Auth_Properties\<close> has the
    theorems, among them that only logins served one after the other are bounded.

  Documents.

  \<^item> \<open>Upload_Validation\<close>, \<open>File_Storage\<close> (\<open>storage/\<close>) and \<open>Url_Fetch\<close>
    (\<open>services/url_fetch_service.py\<close>): what is accepted, where it is kept, and what is
    contacted to fetch it. The fetch loop ends by the number of redirects left.
  \<^item> \<open>Document_Metadata\<close>, \<open>Document_Store\<close>, \<open>Document_Service\<close>
    (\<open>repositories/document_repository.py\<close>, \<open>services/document_service.py\<close>) and
    \<open>Document_Ingest\<close> (\<open>workers/handlers/document_ingest_handler.py\<close>): documents, versions,
    approval, archiving, and the transactions of an ingest run. \<open>Chunking\<close>
    (\<open>ingest/chunking.py\<close>) cuts the pages; its windows end by a measure on the words left.
  \<^item> \<open>Document_Approval\<close>, \<open>Document_Lifecycle\<close>, \<open>Document_Properties\<close> and
    \<open>Document_Uploads\<close> show the invariant of versions over every history, that an ingest run
    is such a history, and what an upload leaves behind when it fails; \<open>Ingest_Outcomes\<close> shows
    that what the ingest handler reports is true of the database it leaves.

  Retrieval.

  \<^item> \<open>Retrieval_Strategy\<close>, \<open>Strategy_Router\<close> (\<open>rag/strategy.py\<close>, \<open>rag/router.py\<close>),
    \<open>Agentic_Planner\<close>, \<open>Agentic_Retrieval\<close> (\<open>rag/agentic_planner.py\<close>, \<open>rag/agentic.py\<close>):
    the choice of a strategy and the loop of attempts. The loop is a partial function, so that
    not returning would be a value; \<open>Agentic_Properties\<close> proves that it returns within its
    budgets. A planner's answer may also raise: the float of a huge integer, a text nested too deep.
  \<^item> \<open>Retrieval_Cache\<close>, \<open>Cache_Service\<close> (\<open>rag/retrieval_cache.py\<close>): keys, payloads, both
    stores and the service. \<open>Corpus_Marker\<close> relates the fingerprint in a key to the documents,
    \<open>Cache_Contract\<close> is the interface both stores are interpreted for, \<open>Cache_Properties\<close>
    shows that a hit answers over the corpus of now.
  \<^item> \<open>Fusion\<close> (\<open>rag/fusion.py\<close>), \<open>Metrics\<close> (\<open>evaluation/metrics.py\<close>) and \<open>Trace_Redactor\<close>
    (\<open>rag/trace.py\<close>): rank fusion, the metrics of an evaluation case, redaction of traces.

  Conversations and answers.

  \<^item> \<open>Chat_Tables\<close> (\<open>db/models.py\<close>, \<open>db/graph_models.py\<close>), \<open>Chat_Store\<close>
    (\<open>repositories/chat_repository.py\<close>), \<open>Retrieval_Store\<close>
    (\<open>repositories/retrieval_repository.py\<close>) and \<open>Chat_Service\<close> (\<open>services/chat_service.py\<close>):
    sessions, messages, tags, and the runs, items and citations of a question.
    \<open>Chat_Deletion\<close> computes the deletion of a session, \<open>Chat_Lifecycle\<close> shows that every
    operation of the service keeps the tables well-formed, \<open>Chat_Requests\<close> lifts this to
    histories of requests, separates the sessions of different users and shows that closed
    conversations are frozen.
  \<^item> \<open>Context_Budget\<close>, \<open>Evidence_Pack\<close>, \<open>Citations\<close>, \<open>Confidence\<close> (the files of \<open>rag/\<close> of
    these names) are the steps between the retrieved chunks and the scores of the answer;
    \<open>Evidence_Properties\<close> shows that a pack holds excerpts of its candidates within its limits.
  \<^item> \<open>Answer_Sources\<close>, \<open>Answer_Retrieval\<close>, \<open>Answer_Generation\<close> and \<open>Rag_Answer\<close> are
    \<open>services/rag_service.py\<close>: what is shown of a chunk; the dense, sparse and hybrid
    retrievals; the generated answer with its second attempt, safety check, repair and
    fallback; the two transactions \<open>ask_begin\<close> and \<open>ask_finish\<close> of a question. The repair of
    markers ends by the length of the text left.
  \<^item> \<open>Rag_Lifecycle\<close> follows a run through \<open>ask_finish\<close>. Its locale \<open>run_retrieval\<close> states what
    the second transaction relies on: a retrieval works on the items and traces of its run
    only and keeps the tables well-formed. The dense, the sparse and the hybrid retrieval and
    their choice by strategy are its interpretations; \<open>Rag_Example\<close> is a concrete question; \<open>Rag_Properties\<close> shows that a
    stored question is always closed, that an answered one is answered from the tables when
    repeated, and that an answer cites only what its prompt offered.

  Outside the source and hence parameters: the keyed hash, SHA-256, the password hash,
  \<open>ipaddress\<close>, URL parsing, name resolution and HTTP, the parsers of zip, XML and documents,
  \<open>json.loads\<close>, the order of rows in a flush, whether the disk and the commit succeed, the
  texts of times, and the models: embedding, vector search and text search, reranker, planner and
  generator. Of the source, parameters are the job handlers other than the ingest handler; one
  retrieval attempt of the agentic loop; the payload the cache reads from a run; and in a
  question the planned query with its trace documents, the test for injected instructions, and
  the Japanese patterns and texts for a lack of evidence.

  Not modelled: the search request and the debug views; the LLM, LangChain and LangGraph
  orchestrators and the query planner; the storing of agentic results and of hydrated cache
  hits within a question; the comparison of versions; the evaluation, graph and MCP services;
  S3, the extractors, the export of traces, configuration, routing and scripts.
\<close>

end
